(* ===== verification/Schema.thy ===== *)
theory Schema
  imports Prelude
begin

text \<open>
  The data of \<open>internal/domain\<close> and the PostgreSQL tables that hold it
  (\<open>migrations/\<close>): one record per Go struct and a record \<open>db\<close> of tables. A
  table is the list of its rows in insertion order, so that \<open>ORDER BY\<close>,
  \<open>LIMIT\<close> and row counts are computations. A nullable column or a Go pointer is an
  \<open>option\<close>; where the Go struct reads SQL NULL as the empty string
  (\<open>toDomainSession\<close>), the empty string is that NULL.
\<close>

section \<open>String constants of the domain\<close>

definition AuthenticationMethodPassword :: string where
  "AuthenticationMethodPassword = ''password''"
definition AuthenticationMethodPasskey :: string where
  "AuthenticationMethodPasskey = ''passkey''"
definition AuthenticationMethodGoogle :: string where
  "AuthenticationMethodGoogle = ''google''"
definition AuthenticationMethodApple :: string where
  "AuthenticationMethodApple = ''apple''"
definition AuthenticationMethodMicrosoft :: string where
  "AuthenticationMethodMicrosoft = ''microsoft''"

lemmas method_defs =
  AuthenticationMethodPassword_def AuthenticationMethodPasskey_def AuthenticationMethodGoogle_def
  AuthenticationMethodApple_def AuthenticationMethodMicrosoft_def

definition known_methods :: "string list" where
  "known_methods = [AuthenticationMethodPassword, AuthenticationMethodPasskey,
     AuthenticationMethodGoogle, AuthenticationMethodApple, AuthenticationMethodMicrosoft]"

definition OrganizationKindPersonal :: string where
  "OrganizationKindPersonal = ''personal''"
definition OrganizationKindTeam :: string where
  "OrganizationKindTeam = ''team''"
definition OrganizationRoleOwner :: string where
  "OrganizationRoleOwner = ''owner''"
definition OrganizationRoleAdmin :: string where
  "OrganizationRoleAdmin = ''admin''"
definition OrganizationRoleMember :: string where
  "OrganizationRoleMember = ''member''"

definition ProviderPassword :: string where
  "ProviderPassword = ''password''"
definition ProviderGoogle :: string where
  "ProviderGoogle = ''google''"
definition ProviderApple :: string where
  "ProviderApple = ''apple''"
definition ProviderMicrosoft :: string where
  "ProviderMicrosoft = ''microsoft''"

section \<open>Rows\<close>

record user =
  usr_id :: uuid
  usr_created_at :: time
  usr_updated_at :: time
  usr_disabled_at :: "time option"
  usr_email :: string
  usr_email_verified_at :: "time option"
  usr_username :: string

record organization =
  org_id :: uuid
  org_created_at :: time
  org_updated_at :: time
  org_name :: string
  org_kind :: string
  org_created_by :: "uuid option"

record membership =
  mem_org :: uuid
  mem_user :: uuid
  mem_role :: string
  mem_created_at :: time
  mem_updated_at :: time

record auth_provider =
  prv_id :: uuid
  prv_created_at :: time
  prv_updated_at :: time
  prv_user :: uuid
  prv_provider :: string
  prv_provider_user_id :: "string option"
  prv_password_hash :: "string option"

record passkey =
  pk_id :: uuid
  pk_user :: uuid
  pk_created_at :: time
  pk_updated_at :: time
  pk_credential_id :: string
  pk_public_key :: string
  pk_attestation_type :: string
  pk_attestation_format :: string
  pk_transport :: "string list"
  pk_aaguid :: "uuid option"
  pk_sign_count :: "32 word"
  pk_clone_warning :: bool
  pk_restricted_at :: "time option"
  pk_name :: string
  pk_last_used_at :: "time option"
  pk_user_present :: bool
  pk_user_verified :: bool
  pk_backup_eligible :: bool
  pk_backup_state :: bool

record webauthn_challenge =
  wc_id :: uuid
  wc_created_at :: time
  wc_user :: "uuid option"
  wc_session :: "uuid option"
  wc_purpose :: string
  wc_challenge :: string
  wc_session_data :: string
  wc_expires_at :: time
  wc_consumed_at :: "time option"

record session =
  ses_id :: uuid
  ses_user :: uuid
  ses_org :: uuid
  ses_created_at :: time
  ses_updated_at :: time
  ses_expires_at :: time
  ses_revoked_at :: "time option"
  ses_authenticated_at :: "time option"
  ses_method :: string
  ses_user_agent :: string

record refresh_token =
  rt_id :: uuid
  rt_created_at :: time
  rt_session :: uuid
  rt_org :: uuid
  rt_hash :: string
  rt_expires_at :: time
  rt_consumed_at :: "time option"

record authentication_challenge =
  ac_id :: uuid
  ac_user :: uuid
  ac_session :: uuid
  ac_created_at :: time
  ac_expires_at :: time
  ac_consumed_at :: "time option"
  ac_method :: string

record challenge =
  ch_id :: uuid
  ch_created_at :: time
  ch_updated_at :: time
  ch_expires_at :: time
  ch_consumed_at :: "time option"
  ch_purpose :: string
  ch_email :: string
  ch_attempt_count :: int
  ch_max_attempts :: int
  ch_resend_count :: int
  ch_max_resends :: int
  ch_last_sent_at :: "time option"
  ch_min_resend_interval :: duration
  ch_has_min_resend_interval :: bool

record verification_code =
  vc_id :: uuid
  vc_challenge :: uuid
  vc_created_at :: time
  vc_expires_at :: time
  vc_code_hash :: string

record pending_signup =
  ps_id :: uuid
  ps_challenge :: uuid
  ps_created_at :: time
  ps_email :: string
  ps_username :: string
  ps_password_hash :: string
  ps_invitation :: "uuid option"

record pending_reset =
  pr_id :: uuid
  pr_created_at :: time
  pr_challenge :: uuid
  pr_user :: uuid
  pr_password_hash :: string

record pending_email_change =
  pe_id :: uuid
  pe_created_at :: time
  pe_challenge :: uuid
  pe_user :: uuid
  pe_session :: uuid
  pe_old_email :: string
  pe_new_email :: string

record email_verification =
  ev_id :: uuid
  ev_created_at :: time
  ev_user :: uuid
  ev_session :: uuid
  ev_audience :: string
  ev_method :: string
  ev_return_to :: string
  ev_expires_at :: time
  ev_consumed_at :: "time option"
  ev_challenge :: "uuid option"
  ev_target_email :: "string option"

record email_job =
  ej_id :: uuid
  ej_created_at :: time
  ej_updated_at :: time
  ej_challenge :: "uuid option"
  ej_to_email :: string
  ej_template :: string
  ej_data :: "(string \<times> string) list option"
  ej_status :: string
  ej_attempt_count :: int
  ej_processing_started_at :: "time option"
  ej_last_error :: "string option"
  ej_next_attempt_at :: time
  ej_deadline_at :: time
  ej_terminal_reason :: "string option"
  ej_failed_at :: "time option"
  ej_sent_at :: "time option"

record security_event =
  se_id :: uuid
  se_created_at :: time
  se_type :: string
  se_outcome :: string
  se_reason :: string
  se_actor_type :: string
  se_actor_user :: "uuid option"
  se_user :: "uuid option"
  se_session :: "uuid option"
  se_org :: "uuid option"
  se_passkey :: "uuid option"
  se_method :: string
  se_response :: string

record invitation =
  inv_id :: uuid
  inv_created_at :: time
  inv_updated_at :: time
  inv_org :: uuid
  inv_email :: string
  inv_role :: string
  inv_profile :: string
  inv_metadata :: string
  inv_token_hash :: string
  inv_invited_by :: "uuid option"
  inv_expires_at :: time
  inv_accepted_at :: "time option"
  inv_accepted_by :: "uuid option"
  inv_revoked_at :: "time option"
  inv_revoked_by :: "uuid option"

text \<open>
  What a webhook says (\<open>internal/webhook/types.go\<close>): one constructor per payload
  struct, its fields in the struct's order; JSON text (\<open>json.RawMessage\<close>) is a string.
\<close>

datatype event_data =
  UserData uuid
| RegistrationCompletedData uuid uuid string string string
| OrganizationData uuid string string "uuid option"
| OrganizationMembershipData uuid uuid string
| OrganizationMembershipCreatedData uuid uuid string bool "uuid option" string
| OrganizationInvitationCreatedData uuid uuid string string string "uuid option" time
| OrganizationInvitationAcceptedData uuid uuid string string string uuid time
| OrganizationInvitationRevokedData uuid uuid string string string "uuid option" time

record envelope =
  env_id :: string
  env_type :: string
  env_created_at :: time
  env_data :: event_data

record webhook_event =
  wh_id :: string
  wh_created_at :: time
  wh_updated_at :: time
  wh_type :: string
  wh_payload :: envelope
  wh_status :: string
  wh_attempt_count :: int
  wh_next_attempt_at :: time
  wh_processing_started_at :: "time option"
  wh_last_error :: "string option"
  wh_delivered_at :: "time option"

record allowed_email =
  al_id :: uuid
  al_created_at :: time
  al_updated_at :: time
  al_email :: string

record provider_link =
  pl_id :: uuid
  pl_created_at :: time
  pl_user :: uuid
  pl_session :: "uuid option"
  pl_challenge :: "uuid option"
  pl_provider :: string
  pl_provider_user_id :: "string option"
  pl_provider_email :: "string option"
  pl_email_verified :: bool
  pl_purpose :: string
  pl_expires_at :: time
  pl_consumed_at :: "time option"

record apple_credential =
  apc_provider :: uuid
  apc_key_id :: string
  apc_token :: string
  apc_created_at :: time
  apc_updated_at :: time

record apple_revocation =
  apr_id :: uuid
  apr_provider :: "uuid option"
  apr_context :: uuid
  apr_key_id :: string
  apr_token :: string
  apr_attempt_count :: int
  apr_next_attempt_at :: time
  apr_last_error :: "string option"
  apr_created_at :: time
  apr_updated_at :: time

record oauth_challenge =
  oc_id :: uuid
  oc_created_at :: time
  oc_provider :: string
  oc_state :: string
  oc_nonce :: string
  oc_expires_at :: time
  oc_consumed_at :: "time option"

record admin_audit_event =
  aa_id :: uuid
  aa_created_at :: time
  aa_actor :: "uuid option"
  aa_action :: string
  aa_target_user :: "uuid option"
  aa_target_email :: "string option"
  aa_metadata :: string
  aa_ip :: "string option"
  aa_user_agent :: "string option"

record maintenance_lease =
  lease_name :: string
  lease_owner :: "uuid option"
  lease_until :: "time option"
  lease_generation :: int
  lease_updated_at :: time

section \<open>The database\<close>

record db =
  users :: "user list"
  user_roles :: "(uuid \<times> string) list"
  allowed_emails :: "allowed_email list"
  organizations :: "organization list"
  memberships :: "membership list"
  auth_providers :: "auth_provider list"
  passkeys :: "passkey list"
  webauthn_challenges :: "webauthn_challenge list"
  sessions :: "session list"
  refresh_tokens :: "refresh_token list"
  auth_challenges :: "authentication_challenge list"
  challenges :: "challenge list"
  verification_codes :: "verification_code list"
  pending_signups :: "pending_signup list"
  pending_resets :: "pending_reset list"
  pending_email_changes :: "pending_email_change list"
  email_verifications :: "email_verification list"
  email_jobs :: "email_job list"
  template_settings :: "(string \<times> bool) list"
  security_events :: "security_event list"
  webhook_events :: "webhook_event list"
  invitations :: "invitation list"
  maintenance_leases :: "maintenance_lease list"
  provider_links :: "provider_link list"
  apple_credentials :: "apple_credential list"
  apple_revocations :: "apple_revocation list"
  oauth_challenges :: "oauth_challenge list"
  admin_audit_events :: "admin_audit_event list"

definition empty_db :: db where
  "empty_db = \<lparr>users = [], user_roles = [], allowed_emails = [], organizations = [],
     memberships = [], auth_providers = [], passkeys = [],
     webauthn_challenges = [], sessions = [], refresh_tokens = [],
     auth_challenges = [], challenges = [], verification_codes = [], pending_signups = [],
     pending_resets = [], pending_email_changes = [], email_verifications = [], email_jobs = [],
     template_settings = [], security_events = [], webhook_events = [], invitations = [],
     maintenance_leases = [\<lparr>lease_name = ''cleanup'', lease_owner = None, lease_until = None,
       lease_generation = 0, lease_updated_at = 0\<rparr>],
     provider_links = [], apple_credentials = [], apple_revocations = [], oauth_challenges = [],
     admin_audit_events = []\<rparr>"

section \<open>Tables as lists\<close>

text \<open>
  \<open>UPDATE ... WHERE p\<close> maps the rows that satisfy \<open>p\<close> and returns how many
  there were; \<open>DELETE ... WHERE p\<close> keeps the others. A query on a unique key is
  \<open>find\<close>.
\<close>

definition upd_where :: "('r \<Rightarrow> bool) \<Rightarrow> ('r \<Rightarrow> 'r) \<Rightarrow> 'r list \<Rightarrow> 'r list" where
  "upd_where p f rs = map (\<lambda>r. if p r then f r else r) rs"

definition count_where :: "('r \<Rightarrow> bool) \<Rightarrow> 'r list \<Rightarrow> nat" where
  "count_where p rs = length (filter p rs)"

definition del_where :: "('r \<Rightarrow> bool) \<Rightarrow> 'r list \<Rightarrow> 'r list" where
  "del_where p rs = filter (\<lambda>r. \<not> p r) rs"

lemma set_upd_where: "set (upd_where p f rs) = (\<lambda>r. if p r then f r else r) ` set rs"
  by (simp add: upd_where_def)

lemma set_del_where [simp]: "set (del_where p rs) = {r \<in> set rs. \<not> p r}"
  by (simp add: del_where_def)

lemma upd_where_Nil [simp]: "upd_where p f [] = []"
  by (simp add: upd_where_def)

lemma upd_where_Cons [simp]:
  "upd_where p f (r # rs) = (if p r then f r else r) # upd_where p f rs"
  by (simp add: upd_where_def)

lemma length_upd_where [simp]: "length (upd_where p f rs) = length rs"
  by (simp add: upd_where_def)

lemma count_where_0 [simp]: "count_where p rs = 0 \<longleftrightarrow> (\<forall>r\<in>set rs. \<not> p r)"
  by (simp add: count_where_def filter_empty_conv)

lemma map_upd_where_same:
  "(\<And>r. k (f r) = k r) \<Longrightarrow> map k (upd_where p f rs) = map k rs"
  by (simp add: upd_where_def)

lemma distinct_map_del_where: "distinct (map k rs) \<Longrightarrow> distinct (map k (del_where p rs))"
  by (simp add: del_where_def distinct_map_filter)

lemma find_Some_in: "find p rs = Some r \<Longrightarrow> r \<in> set rs \<and> p r"
  by (induction rs) (auto split: if_splits)

lemma find_None_iff_all: "find p rs = None \<longleftrightarrow> (\<forall>r\<in>set rs. \<not> p r)"
  by (auto simp: find_None_iff)

lemma find_unique:
  "distinct (map k rs) \<Longrightarrow> r \<in> set rs \<Longrightarrow> find (\<lambda>x. k x = k r) rs = Some r"
  by (induction rs) (auto simp: image_iff)

lemma find_unique_key:
  "distinct (map k rs) \<Longrightarrow> r \<in> set rs \<Longrightarrow> k r = v \<Longrightarrow> find (\<lambda>x. k x = v) rs = Some r"
  by (induction rs) (auto simp: image_iff)

text \<open>A key is found in an updated table exactly where it was, with the update applied.\<close>

lemma find_upd_where:
  assumes "\<And>r. p r \<Longrightarrow> q (f r) = q r"
  shows "find q (upd_where p f rs) = map_option (\<lambda>r. if p r then f r else r) (find q rs)"
proof (induction rs)
  case Nil
  then show ?case by simp
next
  case (Cons r rs)
  then show ?case using assms [of r] by (cases "p r") simp_all
qed

lemma find_append: "find p (xs @ ys) = (case find p xs of None \<Rightarrow> find p ys | Some r \<Rightarrow> Some r)"
  by (induction xs) auto

lemma find_del_where_other:
  "(\<And>r. q r \<Longrightarrow> \<not> p r) \<Longrightarrow> find q (del_where p rs) = find q rs"
  by (induction rs) (auto simp: del_where_def)

text \<open>The \<open>oldest\<close> common table expression: the first rows in order, at most a batch.\<close>

definition oldest :: "('r \<Rightarrow> bool) \<Rightarrow> ('r \<Rightarrow> 'k :: linorder) \<Rightarrow> nat \<Rightarrow> 'r list \<Rightarrow> 'r list" where
  "oldest p k n rs = take n (sort_key k (filter p rs))"

text \<open>\<open>ORDER BY created_at DESC, id DESC LIMIT NULLIF(limit, 0)\<close> after a cursor.\<close>

definition limit_nullif :: "nat \<Rightarrow> 'r list \<Rightarrow> 'r list" where
  "limit_nullif n rs = (if n = 0 then rs else take n rs)"

text \<open>
  \<open>varchar(n)\<close>: a longer value is an error, unless what is too much is spaces, which
  PostgreSQL cuts off.
\<close>

definition varchar :: "nat \<Rightarrow> string \<Rightarrow> string option" where
  "varchar n s = (if length s \<le> n then Some s
     else if list_all (\<lambda>c. c = CHR '' '') (drop n s) then Some (take n s) else None)"

lemma varchar_short [simp]: "length s \<le> n \<Longrightarrow> varchar n s = Some s"
  by (simp add: varchar_def)

lemma varchar_None_iff:
  "varchar n s = None \<longleftrightarrow> n < length s \<and> (\<exists>c\<in>set (drop n s). c \<noteq> CHR '' '')"
  by (auto simp: varchar_def list_all_iff)

end
