(* ===== verification/Effects.thy ===== *)
theory Effects
  imports Schema
begin

text \<open>
  How the Go code's effects are modelled. An operation is a function from the world (the
  database, the Redis cache, the transaction state and a counter of external calls) to a
  result and the new world; the result is \<open>Inl\<close> of an error or \<open>Inr\<close> of a value.
  What the environment decides (whether a driver call fails, the database's \<open>now()\<close>,
  the clocks of the process and of Redis, generated UUIDs, random bytes) is read from the oracle record
  \<open>env\<close> at the number of the call, so every property proved for all \<open>env\<close> holds
  for every schedule of failures and readings.

  \<open>WithTransaction\<close> of \<open>internal/store/tx/manager.go\<close> is \<open>with_tx\<close>:
  a transaction is one step with respect to the other transactions (the code takes row
  locks for that), an error rolls the database back and leaves the cache as it is, and an
  SQL error inside a transaction makes every later statement and the commit fail, as
  PostgreSQL does.
\<close>

section \<open>Errors\<close>

datatype sql_error =
  UniqueViolation string | ForeignKeyViolation | CheckViolation | ValueTooLong
| InFailedTransaction | DriverError

datatype store_error =
  ErrUserNotFound | ErrSessionNotFound | ErrorAuthProviderNotFound | ErrRefreshTokenNotFound
| ErrorChallengeNotFound | ErrorChallengeAlreadyConsumed | ErrorVerificationCodeNotFound
| ErrorPendingSignupActionNotFound | ErrorPendingPasswordResetNotFound
| ErrorPendingEmailChangeNotFound | ErrPasskeyNotFound | ErrAuthenticationChallengeNotFound
| ErrEmailVerificationTransactionNotFound | ErrAllowedEmailNotFound | ErrOrganizationNotFound
| ErrOrganizationMembershipNotFound | ErrInvalidOrganizationName
| ErrorRoleNotFound | ErrorEmailJobNotFound | ErrorEmailJobLeaseLost
| ErrAllowedEmailAlreadyExists | ErrSecurityEventStoreRequired
| ErrorWebhookEventNotFound | ErrorWebhookEventLeaseLost | ErrOrganizationInvitationNotFound
| ErrMaintenanceLeaseNotFound
| ErrorPendingProviderLinkNotFound | ErrorAppleTokenRevocationNotFound
| ErrStorePasskeyAlreadyExists | ErrWebAuthnChallengeNotFound | ErrWebAuthnChallengeAlreadyConsumed
| ErrOAuthAuthenticationChallengeNotFound | ErrOAuthAuthenticationChallengeConsumed

datatype session_error =
  ErrInvalidSession | ErrInvalidRefreshToken | ErrRefreshTokenReuse | ErrForbidden
| ErrUserDisabled | ErrUserNotAllowed | ErrRecentAuthenticationRequired
| ErrAuthenticationChallengeInvalid | ErrAuthenticationMethodUnavailable
| ErrRefreshTokenReuseDetected refresh_token | ErrInvalidListPage

text \<open>
  \<open>ErrRefreshTokenReuseDetected\<close> carries what the Go closure leaves in the captured
  variable \<open>reusedRefreshToken\<close>.
\<close>

datatype token_error =
  ErrInvalidToken | ErrExpiredToken | ErrUnknownKey | ErrInvalidClaims | ErrRevokedToken
| ErrRevocationStoreUnavailable

datatype challenge_error =
  ErrChallengeExpired | ErrChallengeConsumed | ErrTooManyAttempts | ErrTooManyResends
| ErrResendTooSoon | ErrInvalidVerificationCode | ErrUnsupportedChallengePurpose
| ErrPasswordResetUnavailable | ErrEmailChangeNotAuthorized | ErrEmailAlreadyInUse
| ErrEmailVerificationRequired | ErrEmailVerificationInvalid
| ErrVerificationCodeSecretNotConfigured

datatype organization_error =
  ErrOrganizationInvitationExpired | ErrOrganizationInvitationAlreadyAccepted
| ErrOrganizationInvitationRevoked | ErrOrganizationInvitationAlreadyPending
| ErrOrganizationMemberAlreadyExists | ErrOrganizationInviteForbidden
| ErrOrganizationActorNotMember | ErrOrganizationActorNotAllowed
| ErrOrganizationInviteEmailMismatch | ErrOrganizationSingleMembershipConflict
| ErrLastOrganizationOwner | ErrLastOrganizationMember | ErrOrganizationHasOtherMembers
| ErrPersonalOrganizationImmutable | ErrInvalidOrganizationOwnershipTransfer
| ErrInvalidOrganizationMode | ErrInvalidOrganizationRole | ErrOrganizationOperationForbidden
| ErrInvalidOrganizationInvitationEmail | ErrInvalidOrganizationInvitationMetadata
| ErrInvalidInvitationDeliveryProfile | ErrInvalidOrganizationInvitationToken
| ErrInvalidOrganizationListPage

datatype auth_error =
  ErrInvalidCredentials | ErrUserAlreadyExists | ErrUnsupportedProvider | ErrAccountExistsMustLink
| ErrUsernameTaken | ErrInvalidUsername | ErrNoRolesInContext | ErrEmailNotAllowed
| ErrAuthProviderAlreadyLinked | ErrAuthProviderAlreadyLinkedToUser | ErrCannotRemoveLastAuthMethod
| ErrCannotDeleteLastAdmin | ErrPasswordAlreadyExists | ErrPendingProviderLinkExpired
| ErrPendingProviderLinkInvalid | ErrPendingProviderLinkNeedsProof | ErrProviderDisabled
| ErrPasswordProviderMissing | ErrAuthPasskeyNotFound | ErrPasskeyAlreadyExists
| ErrPasskeyRegistrationInvalid | ErrPasskeyAuthenticationInvalid

datatype password_error = ErrPasswordTooShort | ErrPasswordTooLong | ErrPasswordInvalidEncoding

datatype admin_error =
  ErrSelfDisable | ErrSelfRevokeAdmin | ErrSelfRevokeSessions | ErrSelfRemoveAllowedEmail
| ErrLastAdmin | ErrAllowlistDisabled | ErrAllowedEmailAlreadyAdded | ErrInvalidEmail

datatype email_error =
  ErrMissingEmailRecipient | ErrUnknownTemplate | ErrMissingTemplateVariable

text \<open>
  \<open>EJoin\<close> is both \<open>errors.Join\<close> and \<open>fmt.Errorf\<close> with several
  \<open>%w\<close> verbs; \<open>EText\<close> is an error made on the spot, with no sentinel.
\<close>

datatype err =
  ESql sql_error
| ECache
| ERand
| ESign
| EInvalidPage
| EText string
| EStore store_error
| ESession session_error
| EToken token_error
| EChallenge challenge_error
| EEmail email_error
| EOrganization organization_error
| EAuth auth_error
| EPassword password_error
| EAdmin admin_error
| EJoin "err list"

text \<open>\<open>errors.Is\<close>: the error itself, or one of those it wraps.\<close>

fun errors_is :: "err \<Rightarrow> err \<Rightarrow> bool" where
  "errors_is (EJoin es) t = (EJoin es = t \<or> list_ex (\<lambda>e. errors_is e t) es)"
| "errors_is e t = (e = t)"

text \<open>\<open>errors.Join\<close> of a nil-able error and an error: the nil is dropped.\<close>

definition errors_join :: "err option \<Rightarrow> err \<Rightarrow> err" where
  "errors_join oe e = EJoin (case oe of None \<Rightarrow> [e] | Some e' \<Rightarrow> [e', e])"

text \<open>\<open>store.IsUniqueViolation\<close> (\<open>errors.As\<close> finds the driver error in the chain).\<close>

fun is_unique_violation :: "err \<Rightarrow> string \<Rightarrow> bool" where
  "is_unique_violation (ESql (UniqueViolation c)) name = (name = '''' \<or> c = name)"
| "is_unique_violation (EJoin es) name = list_ex (\<lambda>e. is_unique_violation e name) es"
| "is_unique_violation _ name = False"

section \<open>World and environment\<close>

datatype tx_state = NoTx | TxOpen | TxAborted

type_synonym redis = "string \<rightharpoonup> string \<times> int option"

record world =
  w_db :: db
  w_cache :: redis
  w_tx :: tx_state
  w_step :: nat

record env =
  o_fault :: "nat \<Rightarrow> bool"
  o_dbnow :: "nat \<Rightarrow> time"
  o_now :: "nat \<Rightarrow> time"
  o_redis_ms :: "nat \<Rightarrow> int"
  o_uuid :: "nat \<Rightarrow> uuid"
  o_rand :: "nat \<Rightarrow> nat \<Rightarrow> string option"
  uuid_string :: "uuid \<Rightarrow> string"
  uuid_parse :: "string \<Rightarrow> uuid option"
  sha256 :: "string \<Rightarrow> string"
  hmac_sha256 :: "string \<Rightarrow> string \<Rightarrow> string"
  rfc3339 :: "time \<Rightarrow> string"

type_synonym 'a M = "world \<Rightarrow> (err + 'a) \<times> world"

definition tick :: "world \<Rightarrow> world" where
  "tick w = w\<lparr>w_step := Suc (w_step w)\<rparr>"

lemma tick_sel [simp]:
  "w_db (tick w) = w_db w" "w_cache (tick w) = w_cache w" "w_tx (tick w) = w_tx w"
  "w_step (tick w) = Suc (w_step w)"
  by (simp_all add: tick_def)

section \<open>Sequencing\<close>

definition ret :: "'a \<Rightarrow> 'a M" where
  "ret x = (\<lambda>w. (Inr x, w))"

definition fail :: "err \<Rightarrow> 'a M" where
  "fail e = (\<lambda>w. (Inl e, w))"

text \<open>\<open>x, err := m; if err != nil { return err }; f x\<close>.\<close>

definition bnd :: "'a M \<Rightarrow> ('a \<Rightarrow> 'b M) \<Rightarrow> 'b M" where
  "bnd m f = (\<lambda>w. case m w of (Inl e, w1) \<Rightarrow> (Inl e, w1) | (Inr x, w1) \<Rightarrow> f x w1)"

text \<open>\<open>err := m\<close> with the error looked at by the code that follows.\<close>

definition attempt :: "'a M \<Rightarrow> (err + 'a) M" where
  "attempt m = (\<lambda>w. case m w of (r, w1) \<Rightarrow> (Inr r, w1))"

text \<open>\<open>x, err := m; if err != nil { h err } else { f x }\<close>.\<close>

definition try_bnd :: "'a M \<Rightarrow> (err \<Rightarrow> 'b M) \<Rightarrow> ('a \<Rightarrow> 'b M) \<Rightarrow> 'b M" where
  "try_bnd m h f = (\<lambda>w. case m w of (Inl e, w1) \<Rightarrow> h e w1 | (Inr x, w1) \<Rightarrow> f x w1)"

definition map_err :: "(err \<Rightarrow> err) \<Rightarrow> 'a M \<Rightarrow> 'a M" where
  "map_err g m = (\<lambda>w. case m w of (Inl e, w1) \<Rightarrow> (Inl (g e), w1) | (Inr x, w1) \<Rightarrow> (Inr x, w1))"

text \<open>\<open>if errors.Is(err, t) { return e }; return err\<close>.\<close>

definition err_as :: "err \<Rightarrow> err \<Rightarrow> err \<Rightarrow> err" where
  "err_as t e = (\<lambda>e0. if errors_is e0 t then e else e0)"

text \<open>
  The \<open>resultErr\<close> idiom: a transaction that commits and makes the function return an
  error all the same returns the error as its value.
\<close>

definition raise_result :: "(err + 'a) M \<Rightarrow> 'a M" where
  "raise_result m = bnd m (\<lambda>r. case r of Inl e \<Rightarrow> fail e | Inr x \<Rightarrow> ret x)"

definition guard_err :: "bool \<Rightarrow> err \<Rightarrow> unit M" where
  "guard_err bad e = (if bad then fail e else ret ())"

definition of_option :: "err \<Rightarrow> 'a option \<Rightarrow> 'a M" where
  "of_option e r = (case r of None \<Rightarrow> fail e | Some x \<Rightarrow> ret x)"

definition of_sum :: "err + 'a \<Rightarrow> 'a M" where
  "of_sum r = (case r of Inl e \<Rightarrow> fail e | Inr x \<Rightarrow> ret x)"

fun for_each :: "('x \<Rightarrow> unit M) \<Rightarrow> 'x list \<Rightarrow> unit M" where
  "for_each f [] = ret ()"
| "for_each f (x # xs) = bnd (f x) (\<lambda>_. for_each f xs)"

section \<open>Environment readings\<close>

definition now_utc :: "env \<Rightarrow> time M" where
  "now_utc E = (\<lambda>w. (Inr (o_now E (w_step w)), tick w))"

definition new_uuid :: "env \<Rightarrow> uuid M" where
  "new_uuid E = (\<lambda>w. (Inr (o_uuid E (w_step w)), tick w))"

definition rand_read :: "env \<Rightarrow> nat \<Rightarrow> string M" where
  "rand_read E n = (\<lambda>w. (case o_rand E (w_step w) n of None \<Rightarrow> Inl ERand | Some b \<Rightarrow> Inr b, tick w))"

section \<open>SQL statements and transactions\<close>

definition sql_problem :: "env \<Rightarrow> world \<Rightarrow> sql_error option" where
  "sql_problem E w = (if w_tx w = TxAborted then Some InFailedTransaction
     else if o_fault E (w_step w) then Some DriverError else None)"

definition sql_fail :: "sql_error \<Rightarrow> 'a M" where
  "sql_fail e = (\<lambda>w. (Inl (ESql e), tick (if w_tx w = TxOpen then w\<lparr>w_tx := TxAborted\<rparr> else w)))"

text \<open>A statement sees the database's clock, a generated UUID for defaults, and the tables.\<close>

definition exec :: "env \<Rightarrow> (time \<Rightarrow> uuid \<Rightarrow> db \<Rightarrow> sql_error + ('a \<times> db)) \<Rightarrow> 'a M" where
  "exec E f = (\<lambda>w. case sql_problem E w of
       Some e \<Rightarrow> sql_fail e w
     | None \<Rightarrow> (case f (o_dbnow E (w_step w)) (o_uuid E (w_step w)) (w_db w) of
           Inl e \<Rightarrow> sql_fail e w
         | Inr (x, d) \<Rightarrow> (Inr x, tick (w\<lparr>w_db := d\<rparr>))))"

definition query :: "env \<Rightarrow> (db \<Rightarrow> 'a) \<Rightarrow> 'a M" where
  "query E f = exec E (\<lambda>_ _ d. Inr (f d, d))"

text \<open>
  A Redis command or script runs atomically at Redis's own clock (milliseconds); a call that
  fails in the client changed nothing.
\<close>

definition redis_call :: "env \<Rightarrow> (int \<Rightarrow> redis \<Rightarrow> err + ('a \<times> redis)) \<Rightarrow> 'a M" where
  "redis_call E f = (\<lambda>w. if o_fault E (w_step w) then (Inl ECache, tick w)
     else case f (o_redis_ms E (w_step w)) (w_cache w) of
         Inl e \<Rightarrow> (Inl e, tick w)
       | Inr (x, c) \<Rightarrow> (Inr x, tick (w\<lparr>w_cache := c\<rparr>)))"

text \<open>\<open>mapNoRows(err, e)\<close>: a query for one row.\<close>

definition query_row :: "env \<Rightarrow> store_error \<Rightarrow> (db \<Rightarrow> 'a option) \<Rightarrow> 'a M" where
  "query_row E e f = bnd (query E f) (of_option (EStore e))"

text \<open>A statement that cannot violate a constraint, and one whose row count is checked.\<close>

definition exec_upd :: "env \<Rightarrow> (time \<Rightarrow> db \<Rightarrow> db) \<Rightarrow> unit M" where
  "exec_upd E f = exec E (\<lambda>t _ d. Inr ((), f t d))"

definition exec_count :: "env \<Rightarrow> (time \<Rightarrow> db \<Rightarrow> nat \<times> db) \<Rightarrow> nat M" where
  "exec_count E f = exec E (\<lambda>t _ d. Inr (f t d))"

definition require_affected :: "store_error \<Rightarrow> nat M \<Rightarrow> unit M" where
  "require_affected e m = bnd m (\<lambda>n. guard_err (n = 0) (EStore e))"

definition with_tx :: "env \<Rightarrow> 'a M \<Rightarrow> 'a M" where
  "with_tx E m = (\<lambda>w.
     if w_tx w \<noteq> NoTx then m w
     else if o_fault E (w_step w) then (Inl (ESql DriverError), tick w)
     else case m (tick w\<lparr>w_tx := TxOpen\<rparr>) of
         (Inl e, w1) \<Rightarrow> (Inl e, tick (w1\<lparr>w_db := w_db w, w_tx := NoTx\<rparr>))
       | (Inr x, w1) \<Rightarrow>
           if w_tx w1 = TxAborted \<or> o_fault E (w_step w1)
           then (Inl (ESql DriverError), tick (w1\<lparr>w_db := w_db w, w_tx := NoTx\<rparr>))
           else (Inr x, tick (w1\<lparr>w_tx := NoTx\<rparr>)))"

section \<open>What a run did\<close>

text \<open>
  For an operation that returned a value, the equations below trade the run for facts about
  its steps; \<open>simp add: runs\<close> turns a whole handler into the conjunction of its guards
  and the composition of its updates.
\<close>

definition sql_ok :: "env \<Rightarrow> world \<Rightarrow> bool" where
  "sql_ok E w \<longleftrightarrow> sql_problem E w = None"

lemma ret_run [runs]: "ret x w = (Inr y, w') \<longleftrightarrow> y = x \<and> w' = w"
  by (auto simp: ret_def)

lemma fail_run [runs]: "fail e w = (Inr y, w') \<longleftrightarrow> False"
  by (simp add: fail_def)

lemma bnd_run [runs]:
  "bnd m f w = (Inr y, w') \<longleftrightarrow> (\<exists>x w1. m w = (Inr x, w1) \<and> f x w1 = (Inr y, w'))"
  by (auto simp: bnd_def split: prod.splits sum.splits)

lemma attempt_run [runs]: "attempt m w = (Inr r, w') \<longleftrightarrow> m w = (r, w')"
  by (auto simp: attempt_def split: prod.splits)

lemma try_bnd_run [runs]:
  "try_bnd m h f w = (Inr y, w') \<longleftrightarrow> (\<exists>x w1. m w = (Inr x, w1) \<and> f x w1 = (Inr y, w'))
     \<or> (\<exists>e w1. m w = (Inl e, w1) \<and> h e w1 = (Inr y, w'))"
  by (auto simp: try_bnd_def split: prod.splits sum.splits)

lemma map_err_run [runs]: "map_err g m w = (Inr x, w') \<longleftrightarrow> m w = (Inr x, w')"
  by (auto simp: map_err_def split: prod.splits sum.splits)

lemma guard_err_run [runs]: "guard_err b e w = (Inr u, w') \<longleftrightarrow> \<not> b \<and> w' = w"
  by (auto simp: guard_err_def ret_def fail_def)

lemma of_option_run [runs]: "of_option e r w = (Inr x, w') \<longleftrightarrow> r = Some x \<and> w' = w"
  by (auto simp: of_option_def ret_def fail_def split: option.splits)

lemma of_sum_run [runs]: "of_sum r w = (Inr x, w') \<longleftrightarrow> r = Inr x \<and> w' = w"
  by (auto simp: of_sum_def ret_def fail_def split: sum.splits)

lemma raise_result_run [runs]:
  "raise_result m w = (Inr x, w') \<longleftrightarrow> m w = (Inr (Inr x), w')"
  by (auto simp: raise_result_def bnd_def ret_def fail_def split: prod.splits sum.splits)

lemma now_utc_run [runs]: "now_utc E w = (Inr t, w') \<longleftrightarrow> t = o_now E (w_step w) \<and> w' = tick w"
  by (auto simp: now_utc_def)

lemma new_uuid_run [runs]: "new_uuid E w = (Inr u, w') \<longleftrightarrow> u = o_uuid E (w_step w) \<and> w' = tick w"
  by (auto simp: new_uuid_def)

lemma rand_read_run [runs]:
  "rand_read E n w = (Inr b, w') \<longleftrightarrow> o_rand E (w_step w) n = Some b \<and> w' = tick w"
  by (auto simp: rand_read_def split: option.splits)

lemma exec_run:
  "exec E f w = (Inr x, w') \<longleftrightarrow>
     sql_ok E w \<and> (\<exists>d. f (o_dbnow E (w_step w)) (o_uuid E (w_step w)) (w_db w) = Inr (x, d)
       \<and> w' = tick (w\<lparr>w_db := d\<rparr>))"
  by (auto simp: exec_def sql_ok_def sql_fail_def split: option.splits sum.splits)

lemma query_run [runs]:
  "query E f w = (Inr x, w') \<longleftrightarrow> sql_ok E w \<and> x = f (w_db w) \<and> w' = tick w"
  by (auto simp: query_def exec_run)

lemma query_row_run [runs]:
  "query_row E e f w = (Inr x, w') \<longleftrightarrow> sql_ok E w \<and> f (w_db w) = Some x \<and> w' = tick w"
  by (auto simp: query_row_def runs)

lemma redis_call_run [runs]:
  "redis_call E f w = (Inr x, w') \<longleftrightarrow> \<not> o_fault E (w_step w) \<and>
     (\<exists>c. f (o_redis_ms E (w_step w)) (w_cache w) = Inr (x, c) \<and> w' = tick (w\<lparr>w_cache := c\<rparr>))"
  by (auto simp: redis_call_def split: sum.splits)

lemma exec_upd_run [runs]:
  "exec_upd E f w = (Inr u, w') \<longleftrightarrow>
     sql_ok E w \<and> w' = tick (w\<lparr>w_db := f (o_dbnow E (w_step w)) (w_db w)\<rparr>)"
  by (auto simp: exec_upd_def exec_run)

lemma exec_count_run [runs]:
  "exec_count E f w = (Inr n, w') \<longleftrightarrow>
     sql_ok E w \<and> (\<exists>d. f (o_dbnow E (w_step w)) (w_db w) = (n, d) \<and> w' = tick (w\<lparr>w_db := d\<rparr>))"
  by (auto simp: exec_count_def exec_run)

lemma require_affected_run [runs]:
  "require_affected e m w = (Inr u, w') \<longleftrightarrow> (\<exists>n>0. m w = (Inr n, w'))"
  by (auto simp: require_affected_def runs)

text \<open>A committed transaction is its body, run with the transaction open.\<close>

definition open_tx :: "world \<Rightarrow> world" where
  "open_tx w = tick w\<lparr>w_tx := TxOpen\<rparr>"

definition close_tx :: "world \<Rightarrow> world" where
  "close_tx w = tick (w\<lparr>w_tx := NoTx\<rparr>)"

lemma open_tx_sel [simp]:
  "w_db (open_tx w) = w_db w" "w_cache (open_tx w) = w_cache w" "w_tx (open_tx w) = TxOpen"
  "w_step (open_tx w) = Suc (w_step w)"
  by (simp_all add: open_tx_def)

lemma close_tx_sel [simp]:
  "w_db (close_tx w) = w_db w" "w_cache (close_tx w) = w_cache w" "w_tx (close_tx w) = NoTx"
  "w_step (close_tx w) = Suc (w_step w)"
  by (simp_all add: close_tx_def)

lemma with_tx_run:
  assumes "w_tx w = NoTx"
  shows "with_tx E m w = (Inr x, w') \<longleftrightarrow>
     (\<exists>w1. \<not> o_fault E (w_step w) \<and> m (open_tx w) = (Inr x, w1) \<and> w_tx w1 \<noteq> TxAborted
        \<and> \<not> o_fault E (w_step w1) \<and> w' = close_tx w1)"
  using assms by (auto simp: with_tx_def open_tx_def close_tx_def split: prod.splits sum.splits)

lemma with_tx_nested: "w_tx w \<noteq> NoTx \<Longrightarrow> with_tx E m w = m w"
  by (simp add: with_tx_def)

text \<open>Atomicity: an error of a top-level transaction leaves the database as it was.\<close>

lemma with_tx_error_rolls_back:
  assumes "w_tx w = NoTx" and "with_tx E m w = (Inl e, w')"
  shows "w_db w' = w_db w" and "w_tx w' = NoTx"
  using assms by (auto simp: with_tx_def split: prod.splits sum.splits if_splits)

section \<open>Properties of the database that operations keep\<close>

text \<open>
  \<open>keeps J m\<close>: whatever happens (success, error, rollback), a database with \<open>J\<close>
  before \<open>m\<close> has \<open>J\<close> after it. The rules follow the structure of an operation.
\<close>

definition keeps :: "(db \<Rightarrow> bool) \<Rightarrow> 'a M \<Rightarrow> bool" where
  "keeps J m \<longleftrightarrow> (\<forall>w. J (w_db w) \<longrightarrow> J (w_db (snd (m w))))"

lemma keepsD: "keeps J m \<Longrightarrow> J (w_db w) \<Longrightarrow> m w = (r, w') \<Longrightarrow> J (w_db w')"
  unfolding keeps_def by (metis snd_conv)

lemma keepsI: "(\<And>w r w'. J (w_db w) \<Longrightarrow> m w = (r, w') \<Longrightarrow> J (w_db w')) \<Longrightarrow> keeps J m"
  unfolding keeps_def by (metis prod.collapse)

lemma keeps_ret [keeps_intro]: "keeps J (ret x)"
  by (simp add: keeps_def ret_def)

lemma keeps_fail [keeps_intro]: "keeps J (fail e)"
  by (simp add: keeps_def fail_def)

lemma keeps_bnd [keeps_intro]:
  assumes "keeps J m" and "\<And>x. keeps J (f x)"
  shows "keeps J (bnd m f)"
proof (rule keepsI)
  fix w r w'
  assume "J (w_db w)" and eq: "bnd m f w = (r, w')"
  obtain r1 w1 where m: "m w = (r1, w1)" by fastforce
  with assms(1) \<open>J (w_db w)\<close> have "J (w_db w1)" by (rule keepsD)
  with m eq show "J (w_db w')"
    by (cases r1) (auto simp: bnd_def dest: keepsD [OF assms(2)])
qed

lemma keeps_attempt [keeps_intro]: "keeps J m \<Longrightarrow> keeps J (attempt m)"
  by (auto simp: keeps_def attempt_def split: prod.splits)

lemma keeps_try_bnd [keeps_intro]:
  assumes "keeps J m" and "\<And>e. keeps J (h e)" and "\<And>x. keeps J (f x)"
  shows "keeps J (try_bnd m h f)"
proof (rule keepsI)
  fix w r w'
  assume "J (w_db w)" and eq: "try_bnd m h f w = (r, w')"
  obtain r1 w1 where m: "m w = (r1, w1)" by fastforce
  with assms(1) \<open>J (w_db w)\<close> have "J (w_db w1)" by (rule keepsD)
  with m eq show "J (w_db w')"
    by (cases r1) (auto simp: try_bnd_def dest: keepsD [OF assms(2)] keepsD [OF assms(3)])
qed

lemma keeps_map_err [keeps_intro]: "keeps J m \<Longrightarrow> keeps J (map_err g m)"
  by (auto simp: keeps_def map_err_def split: prod.splits sum.splits)

lemma keeps_guard_err [keeps_intro]: "keeps J (guard_err b e)"
  by (simp add: guard_err_def keeps_intro)

lemma keeps_of_option [keeps_intro]: "keeps J (of_option e r)"
  by (cases r) (simp_all add: of_option_def keeps_intro)

lemma keeps_of_sum [keeps_intro]: "keeps J (of_sum r)"
  by (cases r) (simp_all add: of_sum_def keeps_intro)

lemma keeps_raise_result [keeps_intro]: "keeps J m \<Longrightarrow> keeps J (raise_result m)"
  unfolding raise_result_def
  by (rule keeps_bnd, assumption) (auto split: sum.splits intro: keeps_intro)

lemma keeps_for_each [keeps_intro]: "(\<And>x. keeps J (f x)) \<Longrightarrow> keeps J (for_each f xs)"
  by (induction xs) (auto intro: keeps_intro)

lemma keeps_now_utc [keeps_intro]: "keeps J (now_utc E)"
  by (simp add: keeps_def now_utc_def)

lemma keeps_new_uuid [keeps_intro]: "keeps J (new_uuid E)"
  by (simp add: keeps_def new_uuid_def)

lemma keeps_rand_read [keeps_intro]: "keeps J (rand_read E n)"
  by (simp add: keeps_def rand_read_def)

lemma keeps_exec:
  assumes "\<And>t u d x d'. J d \<Longrightarrow> f t u d = Inr (x, d') \<Longrightarrow> J d'"
  shows "keeps J (exec E f)"
  unfolding keeps_def exec_def sql_fail_def
  by (auto split: option.splits sum.splits dest: assms)

lemma keeps_redis_call [keeps_intro]: "keeps J (redis_call E f)"
  by (auto simp: keeps_def redis_call_def split: sum.splits)

lemma keeps_query [keeps_intro]: "keeps J (query E f)"
  unfolding query_def by (rule keeps_exec) simp

lemma keeps_query_row [keeps_intro]: "keeps J (query_row E e f)"
  unfolding query_row_def by (intro keeps_intro)

lemma keeps_exec_upd: "(\<And>t d. J d \<Longrightarrow> J (f t d)) \<Longrightarrow> keeps J (exec_upd E f)"
  unfolding exec_upd_def by (rule keeps_exec) auto

lemma keeps_exec_count:
  assumes "\<And>t d. J d \<Longrightarrow> J (snd (f t d))"
  shows "keeps J (exec_count E f)"
  unfolding exec_count_def
proof (rule keeps_exec)
  fix t :: time and u :: uuid and d x d'
  assume "J d" and "Inr (f t d) = (Inr (x, d') :: sql_error + nat \<times> db)"
  then show "J d'" using assms [of d t] by simp
qed

lemma keeps_require_affected [keeps_intro]: "keeps J m \<Longrightarrow> keeps J (require_affected e m)"
  unfolding require_affected_def by (intro keeps_intro)

lemma keeps_with_tx [keeps_intro]:
  assumes "keeps J m"
  shows "keeps J (with_tx E m)"
proof (rule keepsI)
  fix w r w'
  assume J: "J (w_db w)" and eq: "with_tx E m w = (r, w')"
  obtain r1 w1 where m: "m (open_tx w) = (r1, w1)" by fastforce
  have "J (w_db w1)" by (rule keepsD [OF assms _ m]) (simp add: J)
  then show "J (w_db w')"
    using J eq m assms unfolding with_tx_def open_tx_def
    by (auto split: if_splits sum.splits dest: keepsD)
qed

lemma keeps_if [keeps_intro]: "keeps J a \<Longrightarrow> keeps J b \<Longrightarrow> keeps J (if c then a else b)"
  by simp

lemma keeps_case_option [keeps_intro]:
  "keeps J a \<Longrightarrow> (\<And>x. keeps J (f x)) \<Longrightarrow> keeps J (case r of None \<Rightarrow> a | Some x \<Rightarrow> f x)"
  by (cases r) simp_all

lemma keeps_case_sum [keeps_intro]:
  "(\<And>e. keeps J (f e)) \<Longrightarrow> (\<And>x. keeps J (g x)) \<Longrightarrow> keeps J (case r of Inl e \<Rightarrow> f e | Inr x \<Rightarrow> g x)"
  by (cases r) simp_all

lemma keeps_case_prod [keeps_intro]:
  "(\<And>a b. keeps J (f a b)) \<Longrightarrow> keeps J (case p of (a, b) \<Rightarrow> f a b)"
  by (cases p) simp

lemma keeps_Let [keeps_intro]: "(\<And>x. keeps J (f x)) \<Longrightarrow> keeps J (let x = v in f x)"
  by (simp add: Let_def)

lemma read_only_db:
  assumes "\<And>J. keeps J m" and "m w = (r, w')"
  shows "w_db w' = w_db w"
  by (rule keepsD [OF assms(1) [of "\<lambda>d. d = w_db w"] refl assms(2)])

text \<open>
  A handler is called outside any transaction. A top-level transaction keeps a property of
  the database as soon as its committed runs do: its failed runs are rolled back.
\<close>

definition keeps_top :: "(db \<Rightarrow> bool) \<Rightarrow> 'a M \<Rightarrow> bool" where
  "keeps_top J m \<longleftrightarrow> (\<forall>w. w_tx w = NoTx \<longrightarrow> J (w_db w) \<longrightarrow> J (w_db (snd (m w))))"

lemma keeps_topD:
  "keeps_top J m \<Longrightarrow> w_tx w = NoTx \<Longrightarrow> J (w_db w) \<Longrightarrow> m w = (r, w') \<Longrightarrow> J (w_db w')"
  unfolding keeps_top_def by (metis snd_conv)

lemma keeps_top_keeps: "keeps J m \<Longrightarrow> keeps_top J m"
  by (simp add: keeps_top_def keeps_def)

lemma keeps_top_raise_result: "keeps_top J m \<Longrightarrow> keeps_top J (raise_result m)"
  unfolding keeps_top_def raise_result_def bnd_def
  by (auto simp: ret_def fail_def split: prod.splits sum.splits)

section \<open>Weakest preconditions\<close>

text \<open>
  \<open>wp m Q R w\<close>: run from \<open>w\<close>, \<open>m\<close> returns a value and a world with
  \<open>Q\<close> or an error and a world with \<open>R\<close>. \<open>simp add: wps\<close> unfolds a
  handler into the conditions along its branches.
\<close>

named_theorems wps \<open>weakest preconditions of the operations\<close>

definition wp :: "'a M \<Rightarrow> ('a \<Rightarrow> world \<Rightarrow> bool) \<Rightarrow> (err \<Rightarrow> world \<Rightarrow> bool) \<Rightarrow> world \<Rightarrow> bool" where
  "wp m Q R w \<longleftrightarrow> (case m w of (Inr x, w') \<Rightarrow> Q x w' | (Inl e, w') \<Rightarrow> R e w')"

abbreviation any_error :: "err \<Rightarrow> world \<Rightarrow> bool" where
  "any_error \<equiv> \<lambda>_ _. True"

lemma wp_value: "wp m Q R w \<Longrightarrow> m w = (Inr x, w') \<Longrightarrow> Q x w'"
  by (simp add: wp_def)

lemma wp_error: "wp m Q R w \<Longrightarrow> m w = (Inl e, w') \<Longrightarrow> R e w'"
  by (simp add: wp_def)

lemma wp_of_run: "m w = (Inr x, w') \<Longrightarrow> wp m Q R w = Q x w'"
  by (simp add: wp_def)

lemma wpI: "(\<And>x w'. m w = (Inr x, w') \<Longrightarrow> Q x w') \<Longrightarrow> (\<And>e w'. m w = (Inl e, w') \<Longrightarrow> R e w') \<Longrightarrow> wp m Q R w"
  by (auto simp: wp_def split: prod.splits sum.splits)

lemma wp_mono:
  assumes "wp m Q R w" and "\<And>x w'. m w = (Inr x, w') \<Longrightarrow> Q x w' \<Longrightarrow> Q' x w'"
    and "\<And>e w'. m w = (Inl e, w') \<Longrightarrow> R e w' \<Longrightarrow> R' e w'"
  shows "wp m Q' R' w"
  using assms by (auto simp: wp_def split: prod.splits sum.splits)

lemma wp_ret [wps]: "wp (ret x) Q R w = Q x w"
  by (simp add: wp_def ret_def)

lemma wp_fail [wps]: "wp (fail e) Q R w = R e w"
  by (simp add: wp_def fail_def)

lemma wp_bnd [wps]: "wp (bnd m f) Q R w = wp m (\<lambda>x. wp (f x) Q R) R w"
  by (auto simp: wp_def bnd_def split: prod.splits sum.splits)

lemma wp_try_bnd [wps]: "wp (try_bnd m h f) Q R w = wp m (\<lambda>x. wp (f x) Q R) (\<lambda>e. wp (h e) Q R) w"
  by (auto simp: wp_def try_bnd_def split: prod.splits sum.splits)

lemma wp_attempt [wps]: "wp (attempt m) Q R w = wp m (\<lambda>x. Q (Inr x)) (\<lambda>e. Q (Inl e)) w"
  by (auto simp: wp_def attempt_def split: prod.splits sum.splits)

lemma wp_map_err [wps]: "wp (map_err g m) Q R w = wp m Q (\<lambda>e. R (g e)) w"
  by (auto simp: wp_def map_err_def split: prod.splits sum.splits)

lemma wp_guard_err [wps]: "wp (guard_err b e) Q R w = (if b then R e w else Q () w)"
  by (simp add: guard_err_def wps)

lemma wp_of_option [wps]:
  "wp (of_option e r) Q R w = ((r = None \<longrightarrow> R e w) \<and> (\<forall>x. r = Some x \<longrightarrow> Q x w))"
  by (cases r) (simp_all add: of_option_def wps)

lemma wp_of_sum [wps]:
  "wp (of_sum r) Q R w = ((\<forall>e. r = Inl e \<longrightarrow> R e w) \<and> (\<forall>x. r = Inr x \<longrightarrow> Q x w))"
  by (cases r) (simp_all add: of_sum_def wps)

lemma wp_raise_result [wps]:
  "wp (raise_result m) Q R w = wp m (\<lambda>r w'. case r of Inl e \<Rightarrow> R e w' | Inr x \<Rightarrow> Q x w') R w"
  by (auto simp: wp_def raise_result_def bnd_def ret_def fail_def split: prod.splits sum.splits)

lemma wp_now_utc [wps]: "wp (now_utc E) Q R w = Q (o_now E (w_step w)) (tick w)"
  by (simp add: wp_def now_utc_def)

lemma wp_new_uuid [wps]: "wp (new_uuid E) Q R w = Q (o_uuid E (w_step w)) (tick w)"
  by (simp add: wp_def new_uuid_def)

lemma wp_rand_read [wps]:
  "wp (rand_read E n) Q R w = ((o_rand E (w_step w) n = None \<longrightarrow> R ERand (tick w))
     \<and> (\<forall>b. o_rand E (w_step w) n = Some b \<longrightarrow> Q b (tick w)))"
  by (auto simp: wp_def rand_read_def split: option.splits)

definition failed_sql :: "world \<Rightarrow> world" where
  "failed_sql w = tick (if w_tx w = TxOpen then w\<lparr>w_tx := TxAborted\<rparr> else w)"

lemma failed_sql_sel [simp]:
  "w_db (failed_sql w) = w_db w" "w_cache (failed_sql w) = w_cache w"
  by (simp_all add: failed_sql_def)

lemma wp_exec [wps]:
  "wp (exec E f) Q R w = ((\<forall>e. sql_problem E w = Some e \<longrightarrow> R (ESql e) (failed_sql w))
     \<and> (sql_ok E w \<longrightarrow>
         (\<forall>e. f (o_dbnow E (w_step w)) (o_uuid E (w_step w)) (w_db w) = Inl e \<longrightarrow>
            R (ESql e) (failed_sql w))
       \<and> (\<forall>x d. f (o_dbnow E (w_step w)) (o_uuid E (w_step w)) (w_db w) = Inr (x, d) \<longrightarrow>
            Q x (tick (w\<lparr>w_db := d\<rparr>)))))"
  by (auto simp: wp_def exec_def sql_ok_def sql_fail_def failed_sql_def split: option.splits sum.splits)

lemma tick_same_db [simp]: "tick (w\<lparr>w_db := w_db w\<rparr>) = tick w"
  by simp

lemma wp_query [wps]:
  "wp (query E f) Q R w = ((\<forall>e. sql_problem E w = Some e \<longrightarrow> R (ESql e) (failed_sql w))
     \<and> (sql_ok E w \<longrightarrow> Q (f (w_db w)) (tick w)))"
  by (simp add: query_def wps)

lemma wp_query_row [wps]:
  "wp (query_row E e f) Q R w = ((\<forall>e'. sql_problem E w = Some e' \<longrightarrow> R (ESql e') (failed_sql w))
     \<and> (sql_ok E w \<longrightarrow> (f (w_db w) = None \<longrightarrow> R (EStore e) (tick w))
         \<and> (\<forall>x. f (w_db w) = Some x \<longrightarrow> Q x (tick w))))"
  by (simp add: query_row_def wps)

lemma wp_exec_upd [wps]:
  "wp (exec_upd E f) Q R w = ((\<forall>e. sql_problem E w = Some e \<longrightarrow> R (ESql e) (failed_sql w))
     \<and> (sql_ok E w \<longrightarrow> Q () (tick (w\<lparr>w_db := f (o_dbnow E (w_step w)) (w_db w)\<rparr>))))"
  by (simp add: exec_upd_def wps)

lemma wp_exec_count [wps]:
  "wp (exec_count E f) Q R w = ((\<forall>e. sql_problem E w = Some e \<longrightarrow> R (ESql e) (failed_sql w))
     \<and> (sql_ok E w \<longrightarrow> Q (fst (f (o_dbnow E (w_step w)) (w_db w)))
           (tick (w\<lparr>w_db := snd (f (o_dbnow E (w_step w)) (w_db w))\<rparr>))))"
  by (auto simp: exec_count_def wps)

lemma wp_require_affected [wps]:
  "wp (require_affected e m) Q R w = wp m (\<lambda>n w'. if n = 0 then R (EStore e) w' else Q () w') R w"
  by (auto simp: wp_def require_affected_def bnd_def guard_err_def ret_def fail_def
      split: prod.splits sum.splits)

lemma wp_redis_call [wps]:
  "wp (redis_call E f) Q R w = ((o_fault E (w_step w) \<longrightarrow> R ECache (tick w))
     \<and> (\<not> o_fault E (w_step w) \<longrightarrow>
         (\<forall>e. f (o_redis_ms E (w_step w)) (w_cache w) = Inl e \<longrightarrow> R e (tick w))
       \<and> (\<forall>x c. f (o_redis_ms E (w_step w)) (w_cache w) = Inr (x, c) \<longrightarrow>
            Q x (tick (w\<lparr>w_cache := c\<rparr>)))))"
  by (auto simp: wp_def redis_call_def split: sum.splits)

definition rolled_back :: "world \<Rightarrow> world \<Rightarrow> world" where
  "rolled_back w w1 = tick (w1\<lparr>w_db := w_db w, w_tx := NoTx\<rparr>)"

lemma rolled_back_sel [simp]:
  "w_db (rolled_back w w1) = w_db w" "w_cache (rolled_back w w1) = w_cache w1"
  "w_tx (rolled_back w w1) = NoTx"
  by (simp_all add: rolled_back_def)

lemma wp_with_tx:
  assumes "w_tx w = NoTx"
  shows "wp (with_tx E m) Q R w = (if o_fault E (w_step w) then R (ESql DriverError) (tick w)
     else wp m (\<lambda>x w1. if w_tx w1 = TxAborted \<or> o_fault E (w_step w1)
                        then R (ESql DriverError) (rolled_back w w1) else Q x (close_tx w1))
               (\<lambda>e w1. R e (rolled_back w w1)) (open_tx w))"
  using assms
  by (auto simp: wp_def with_tx_def open_tx_def close_tx_def rolled_back_def
      split: prod.splits sum.splits)

lemma wp_if [wps]: "wp (if b then m else m') Q R w = (if b then wp m Q R w else wp m' Q R w)"
  by simp

lemma wp_case_option [wps]:
  "wp (case r of None \<Rightarrow> m | Some x \<Rightarrow> f x) Q R w =
     ((r = None \<longrightarrow> wp m Q R w) \<and> (\<forall>x. r = Some x \<longrightarrow> wp (f x) Q R w))"
  by (cases r) simp_all

lemma wp_case_sum [wps]:
  "wp (case r of Inl e \<Rightarrow> h e | Inr x \<Rightarrow> f x) Q R w =
     ((\<forall>e. r = Inl e \<longrightarrow> wp (h e) Q R w) \<and> (\<forall>x. r = Inr x \<longrightarrow> wp (f x) Q R w))"
  by (cases r) simp_all

lemma wp_case_prod [wps]:
  "wp (case p of (a, b) \<Rightarrow> f a b) Q R w = (\<forall>a b. p = (a, b) \<longrightarrow> wp (f a b) Q R w)"
  by (cases p) simp

lemma wp_Let [wps]: "wp (let x = v in f x) Q R w = wp (f v) Q R w"
  by (simp add: Let_def)

text \<open>An operation that only reads: its successors see the database unchanged.\<close>

lemma wp_reads:
  assumes "\<And>J. keeps J m" and "wp m Q R w"
  shows "wp m (\<lambda>x w'. Q x w' \<and> w_db w' = w_db w) (\<lambda>e w'. R e w' \<and> w_db w' = w_db w) w"
  using assms(2) by (rule wp_mono) (auto dest: read_only_db [OF assms(1)])

lemma wp_read:
  assumes "\<And>J. keeps J m" and "\<And>x w'. w_db w' = w_db w \<Longrightarrow> Q x w'"
    and "\<And>e w'. w_db w' = w_db w \<Longrightarrow> R e w'"
  shows "wp m Q R w"
  by (rule wpI) (auto intro: assms(2,3) dest: read_only_db [OF assms(1)])

lemma keeps_top_tx:
  assumes "\<And>w. w_tx w = TxOpen \<Longrightarrow> J (w_db w) \<Longrightarrow> wp m (\<lambda>x w'. J (w_db w')) any_error w"
  shows "keeps_top J (with_tx E m)"
  unfolding keeps_top_def
proof (intro allI impI)
  fix w :: world
  assume w: "w_tx w = NoTx" "J (w_db w)"
  have "wp m (\<lambda>x w'. J (w_db w')) any_error (open_tx w)"
    by (rule assms) (simp_all add: w)
  then have "wp (with_tx E m) (\<lambda>x w'. J (w_db w')) (\<lambda>e w'. J (w_db w')) w"
    using w by (auto simp: wp_with_tx elim: wp_mono)
  then show "J (w_db (snd (with_tx E m w)))"
    by (auto simp: wp_def split: prod.splits sum.splits)
qed

end
