(* ===== verification/Cache.thy ===== *)
theory Cache
  imports Effects
begin

text \<open>
  \<open>internal/cache\<close>: the key names (\<open>keys.go\<close>), the two Lua scripts of
  \<open>redis.go\<close> over a model of the Redis commands they call, the no-op cache
  (\<open>noop.go\<close>), and the interface \<open>cutoff_register\<close> that the revocation code
  relies on: a monotone maximum per key that lives at least as long as the requested TTL.
  The heart of the interpretation is that the script's comparison of decimal strings is the
  comparison of the numbers.
\<close>

section \<open>Keys\<close>

definition RateLimitKey :: "string \<Rightarrow> string \<Rightarrow> string \<Rightarrow> string" where
  "RateLimitKey kind scope value =
     ''authara:ratelimit:'' @ kind @ '':'' @ scope @ '':'' @ value"

definition RevokedAccessTokenKey :: "string \<Rightarrow> string" where
  "RevokedAccessTokenKey tokenIdentifier = ''authara:access-token:revoked:token:'' @ tokenIdentifier"

definition RevokedAccessTokenSessionKey :: "string \<Rightarrow> string" where
  "RevokedAccessTokenSessionKey sessionID = ''authara:access-token:revoked:session:'' @ sessionID"

definition RevokedAccessTokenUserKey :: "string \<Rightarrow> string" where
  "RevokedAccessTokenUserKey userID = ''authara:access-token:revoked:user:'' @ userID"

definition RevokedAccessTokenMembershipKey :: "string \<Rightarrow> string \<Rightarrow> string" where
  "RevokedAccessTokenMembershipKey userID organizationID =
     ''authara:access-token:revoked:membership:'' @ userID @ '':'' @ organizationID"

lemmas key_defs = RevokedAccessTokenKey_def RevokedAccessTokenSessionKey_def
  RevokedAccessTokenUserKey_def RevokedAccessTokenMembershipKey_def RateLimitKey_def

text \<open>The four families of revocation keys are disjoint, and each is injective.\<close>

lemma revocation_keys_disjoint [simp]:
  "RevokedAccessTokenKey a \<noteq> RevokedAccessTokenSessionKey b"
  "RevokedAccessTokenKey a \<noteq> RevokedAccessTokenUserKey b"
  "RevokedAccessTokenKey a \<noteq> RevokedAccessTokenMembershipKey b c"
  "RevokedAccessTokenSessionKey a \<noteq> RevokedAccessTokenUserKey b"
  "RevokedAccessTokenSessionKey a \<noteq> RevokedAccessTokenMembershipKey b c"
  "RevokedAccessTokenUserKey a \<noteq> RevokedAccessTokenMembershipKey b c"
  by (simp_all add: key_defs)

lemma revocation_keys_inj [simp]:
  "RevokedAccessTokenKey a = RevokedAccessTokenKey b \<longleftrightarrow> a = b"
  "RevokedAccessTokenSessionKey a = RevokedAccessTokenSessionKey b \<longleftrightarrow> a = b"
  "RevokedAccessTokenUserKey a = RevokedAccessTokenUserKey b \<longleftrightarrow> a = b"
  by (simp_all add: key_defs)

section \<open>Redis commands\<close>

text \<open>
  An entry is a value with an optional expiry instant (milliseconds); an entry whose expiry
  has come is gone.
\<close>

definition live :: "int \<Rightarrow> redis \<Rightarrow> string \<Rightarrow> (string \<times> int option) option" where
  "live now m k = (case m k of
       None \<Rightarrow> None
     | Some (v, None) \<Rightarrow> Some (v, None)
     | Some (v, Some e) \<Rightarrow> if now < e then Some (v, Some e) else None)"

definition redis_GET :: "int \<Rightarrow> redis \<Rightarrow> string \<Rightarrow> string option" where
  "redis_GET now m k = map_option fst (live now m k)"

definition redis_PTTL :: "int \<Rightarrow> redis \<Rightarrow> string \<Rightarrow> int" where
  "redis_PTTL now m k = (case live now m k of None \<Rightarrow> - 2 | Some (_, None) \<Rightarrow> - 1
     | Some (_, Some e) \<Rightarrow> e - now)"

text \<open>\<open>PEXPIRE\<close> with a time that is not in the future deletes the key.\<close>

definition redis_PEXPIRE :: "int \<Rightarrow> redis \<Rightarrow> string \<Rightarrow> int \<Rightarrow> redis" where
  "redis_PEXPIRE now m k ms = (case live now m k of None \<Rightarrow> m
     | Some (v, _) \<Rightarrow> if 0 < ms then m(k \<mapsto> (v, Some (now + ms))) else m(k := None))"

text \<open>\<open>SET k v PX ms\<close>: Redis refuses an expiry that is not positive.\<close>

definition redis_SET_PX :: "int \<Rightarrow> redis \<Rightarrow> string \<Rightarrow> string \<Rightarrow> int \<Rightarrow> err + redis" where
  "redis_SET_PX now m k v ms = (if 0 < ms then Inr (m(k \<mapsto> (v, Some (now + ms)))) else Inl ECache)"

text \<open>\<open>INCR\<close> starts at 0, keeps the expiry and fails on what is not an \<open>int64\<close>.\<close>

definition redis_INCR :: "int \<Rightarrow> redis \<Rightarrow> string \<Rightarrow> err + (int \<times> redis)" where
  "redis_INCR now m k = (case live now m k of
       None \<Rightarrow> Inr (1, m(k \<mapsto> (format_int 1, None)))
     | Some (v, ex) \<Rightarrow> (case parse_int64 v of
           None \<Rightarrow> Inl ECache
         | Some n \<Rightarrow> if n = 2 ^ 63 - 1 then Inl ECache
             else Inr (n + 1, m(k \<mapsto> (format_int (n + 1), ex)))))"

section \<open>Lua scripts\<close>

text \<open>\<open>string.match(current, "^%d+$")\<close>.\<close>

definition all_digits :: "string \<Rightarrow> bool" where
  "all_digits s \<longleftrightarrow> s \<noteq> [] \<and> list_all is_digit s"

text \<open>The script's order on decimal strings: by length, then bytewise.\<close>

definition decimal_ge :: "string \<Rightarrow> string \<Rightarrow> bool" where
  "decimal_ge current candidate \<longleftrightarrow>
     length candidate < length current \<or> (length current = length candidate \<and> candidate \<le> current)"

definition setMaxInt64Script ::
  "int \<Rightarrow> redis \<Rightarrow> string \<Rightarrow> string \<Rightarrow> int \<Rightarrow> err + (int \<times> redis)" where
  "setMaxInt64Script now m key candidate requested_ttl =
     (let set_px = (\<lambda>ttl. case redis_SET_PX now m key candidate ttl of
                      Inl e \<Rightarrow> Inl e | Inr m' \<Rightarrow> Inr (1, m'))
      in case redis_GET now m key of
          None \<Rightarrow> set_px requested_ttl
        | Some current \<Rightarrow>
            if \<not> all_digits current then Inl ECache
            else let current_ttl = redis_PTTL now m key in
              if decimal_ge current candidate then
                (if 0 \<le> current_ttl \<and> current_ttl < requested_ttl
                 then Inr (0, redis_PEXPIRE now m key requested_ttl) else Inr (0, m))
              else if current_ttl = - 1 then Inr (1, m(key \<mapsto> (candidate, None)))
              else set_px (if requested_ttl < current_ttl then current_ttl else requested_ttl))"

definition incrementScript :: "int \<Rightarrow> redis \<Rightarrow> string \<Rightarrow> int \<Rightarrow> err + ((int \<times> int) \<times> redis)" where
  "incrementScript now m key ttl_ms =
     (case redis_INCR now m key of
        Inl e \<Rightarrow> Inl e
      | Inr (count, m1) \<Rightarrow>
          let m2 = (if count = 1 then redis_PEXPIRE now m1 key ttl_ms else m1)
          in Inr ((count, redis_PTTL now m2 key), m2))"

section \<open>The cache operations\<close>

datatype cache_impl = NoopCache | RedisCache

definition milliseconds :: "duration \<Rightarrow> int" where
  "milliseconds d = (if 0 \<le> d then d div 1000000 else - ((- d) div 1000000))"

definition cache_GetMany :: "env \<Rightarrow> cache_impl \<Rightarrow> string list \<Rightarrow> string option list M" where
  "cache_GetMany E c keys = (case c of
       NoopCache \<Rightarrow> ret (map (\<lambda>_. None) keys)
     | RedisCache \<Rightarrow> redis_call E (\<lambda>now m. Inr (map (redis_GET now m) keys, m)))"

text \<open>
  \<open>client.Set\<close> with a positive expiration; a part of a millisecond counts as one, as
  the client rounds.
\<close>

definition cache_Set :: "env \<Rightarrow> cache_impl \<Rightarrow> string \<Rightarrow> string \<Rightarrow> duration \<Rightarrow> unit M" where
  "cache_Set E c key value ttl = (case c of
       NoopCache \<Rightarrow> ret ()
     | RedisCache \<Rightarrow> redis_call E (\<lambda>now m. Inr ((),
         m(key \<mapsto> (value, if 0 < ttl then Some (now + max 1 (milliseconds ttl)) else None)))))"

definition cache_SetMaxInt64 :: "env \<Rightarrow> cache_impl \<Rightarrow> string \<Rightarrow> int \<Rightarrow> duration \<Rightarrow> unit M" where
  "cache_SetMaxInt64 E c key value ttl = (case c of
       NoopCache \<Rightarrow> ret ()
     | RedisCache \<Rightarrow> redis_call E (\<lambda>now m.
         case setMaxInt64Script now m key (format_int value) (milliseconds ttl) of
           Inl e \<Rightarrow> Inl e | Inr (_, m') \<Rightarrow> Inr ((), m')))"

text \<open>\<open>Redis.Increment\<close>: a negative \<open>PTTL\<close> is read as 0.\<close>

definition cache_Increment :: "env \<Rightarrow> string \<Rightarrow> duration \<Rightarrow> (int \<times> duration) M" where
  "cache_Increment E key ttl = redis_call E (\<lambda>now m.
     case incrementScript now m key (milliseconds ttl) of
       Inl e \<Rightarrow> Inl e
     | Inr ((count, ttlMillis), m') \<Rightarrow>
         Inr ((count, (if ttlMillis < 0 then 0 else ttlMillis) * 1000000), m'))"

lemma keeps_cache_ops [keeps_intro]:
  "keeps J (cache_GetMany E c ks)" "keeps J (cache_Set E c k v t)"
  "keeps J (cache_SetMaxInt64 E c k n t)" "keeps J (cache_Increment E k t)"
  by (auto simp: cache_GetMany_def cache_Set_def cache_SetMaxInt64_def cache_Increment_def
      split: cache_impl.splits intro: keeps_intro)

section \<open>Decimal strings compare as numbers\<close>

lemma digits_val_Cons:
  "digits_val (c # cs) = digit_val c * 10 ^ length cs + digits_val cs"
proof -
  let ?f = "\<lambda>a c. 10 * a + digit_val c"
  have "foldl ?f v s = v * 10 ^ length s + foldl ?f 0 s" for v s
  proof (induction s arbitrary: v)
    case Nil
    then show ?case by simp
  next
    case (Cons c s)
    show ?case
      using Cons.IH [of "?f v c"] Cons.IH [of "?f 0 c"] by (simp add: algebra_simps)
  qed
  from this [of "digit_val c" cs] show ?thesis by (simp add: digits_val_def)
qed

lemma digits_val_bound: "list_all is_digit s \<Longrightarrow> digits_val s < 10 ^ length s"
proof (induction s)
  case Nil
  then show ?case by (simp add: digits_val_def)
next
  case (Cons c cs)
  then have "digit_val c \<le> 9" and "digits_val cs < 10 ^ length cs"
    by (auto simp: digit_val_def is_digit_def)
  have "digit_val c * 10 ^ length cs \<le> 9 * 10 ^ length cs"
    using \<open>digit_val c \<le> 9\<close> by (rule mult_le_mono1)
  then have "digit_val c * 10 ^ length cs + digits_val cs < 10 * 10 ^ length cs"
    using \<open>digits_val cs < 10 ^ length cs\<close> by linarith
  then show ?case by (simp add: digits_val_Cons)
qed

lemma digit_less_iff:
  assumes "is_digit c" and "is_digit d"
  shows "digit_val c < digit_val d \<longleftrightarrow> c < d" and "digit_val c = digit_val d \<longleftrightarrow> c = d"
proof -
  show "digit_val c < digit_val d \<longleftrightarrow> c < d"
    using assms by (auto simp: digit_val_def is_digit_def less_char_def)
  have "digit_val c = digit_val d \<longleftrightarrow> (code c :: nat) = code d"
    using assms by (simp add: digit_val_def is_digit_def eq_diff_iff)
  then show "digit_val c = digit_val d \<longleftrightarrow> c = d" by simp
qed

lemma digits_val_less_iff:
  assumes "length s = length t" and "list_all is_digit s" and "list_all is_digit t"
  shows "digits_val s < digits_val t \<longleftrightarrow> s < t"
  using assms
proof (induction s t rule: list_induct2)
  case Nil
  then show ?case by simp
next
  case (Cons c cs d ds)
  let ?p = "10 ^ length cs :: nat"
  have b: "digits_val cs < ?p" "digits_val ds < ?p"
    using Cons digits_val_bound [of cs] digits_val_bound [of ds] by auto
  consider "c < d" | "c = d" | "d < c" by fastforce
  then show ?case
  proof cases
    case 1
    then have "digit_val c + 1 \<le> digit_val d"
      using Cons.prems digit_less_iff(1) [of c d] by auto
    then have "(digit_val c + 1) * ?p \<le> digit_val d * ?p" by (rule mult_le_mono1)
    with 1 b Cons.hyps show ?thesis by (simp add: digits_val_Cons)
  next
    case 2
    with Cons show ?thesis by (simp add: digits_val_Cons)
  next
    case 3
    then have "digit_val d + 1 \<le> digit_val c"
      using Cons.prems digit_less_iff(1) [of d c] by auto
    then have "(digit_val d + 1) * ?p \<le> digit_val c * ?p" by (rule mult_le_mono1)
    with 3 b Cons.hyps show ?thesis by (auto simp: digits_val_Cons)
  qed
qed

lemma show_nat_lower: "10 \<le> n \<Longrightarrow> 10 ^ (length (show_nat n) - 1) \<le> n"
proof (induction n rule: show_nat.induct)
  case (1 n)
  have len: "length (show_nat n) = Suc (length (show_nat (n div 10)))"
    using "1.prems" by (subst show_nat.simps) simp
  show ?case
  proof (cases "10 \<le> n div 10")
    case True
    then have "10 ^ (length (show_nat (n div 10)) - 1) \<le> n div 10" using 1 by simp
    then have "10 * 10 ^ (length (show_nat (n div 10)) - 1) \<le> n" by simp
    moreover have "length (show_nat (n div 10)) \<noteq> 0" by simp
    ultimately show ?thesis using len by (cases "length (show_nat (n div 10))") auto
  next
    case False
    then have "length (show_nat (n div 10)) = 1" by (subst show_nat.simps) simp
    with len "1.prems" show ?thesis by simp
  qed
qed

lemma show_nat_upper: "n < 10 ^ length (show_nat n)"
  using digits_val_bound [OF show_nat_digits, of n] by simp

lemma show_nat_length_mono:
  assumes "length (show_nat a) < length (show_nat b)"
  shows "a < b"
proof -
  have "10 \<le> b"
  proof (rule ccontr)
    assume "\<not> 10 \<le> b"
    then have "length (show_nat b) = 1" by (subst show_nat.simps) simp
    with assms show False by simp
  qed
  then have "10 ^ (length (show_nat b) - 1) \<le> b" by (rule show_nat_lower)
  moreover have "(10::nat) ^ length (show_nat a) \<le> 10 ^ (length (show_nat b) - 1)"
    using assms by (intro power_increasing) auto
  ultimately show ?thesis using show_nat_upper [of a] by linarith
qed

lemma decimal_ge_show_nat: "decimal_ge (show_nat a) (show_nat b) \<longleftrightarrow> b \<le> a"
proof -
  consider "length (show_nat a) < length (show_nat b)"
    | "length (show_nat b) < length (show_nat a)"
    | "length (show_nat a) = length (show_nat b)" by linarith
  then show ?thesis
  proof cases
    case 1
    then show ?thesis using show_nat_length_mono [of a b] by (simp add: decimal_ge_def)
  next
    case 2
    then show ?thesis using show_nat_length_mono [of b a] by (simp add: decimal_ge_def)
  next
    case 3
    then have "a < b \<longleftrightarrow> show_nat a < show_nat b"
      using digits_val_less_iff [OF 3 show_nat_digits show_nat_digits] by simp
    with 3 show ?thesis by (auto simp: decimal_ge_def)
  qed
qed

lemma decimal_ge_format_int:
  "0 \<le> i \<Longrightarrow> 0 \<le> j \<Longrightarrow> decimal_ge (format_int i) (format_int j) \<longleftrightarrow> j \<le> i"
  by (simp add: format_int_def decimal_ge_show_nat nat_le_eq_zle)

lemma all_digits_format_int [simp]: "0 \<le> i \<Longrightarrow> all_digits (format_int i)"
  by (simp add: all_digits_def format_int_def show_nat_digits)

section \<open>The cutoff register\<close>

text \<open>
  What the revocation code relies on, as an interface: after a cutoff is written it is read
  back, at least as high, until its TTL is over, whatever other cutoffs are written to the
  same or to other keys in the meantime and in whatever order their values come.
\<close>

locale cutoff_register =
  fixes setmax :: "int \<Rightarrow> 'c \<Rightarrow> string \<Rightarrow> int \<Rightarrow> int \<Rightarrow> 'c"
    and cutoff :: "int \<Rightarrow> 'c \<Rightarrow> string \<Rightarrow> int option"
    and sound :: "'c \<Rightarrow> string \<Rightarrow> bool"
  assumes setmax_sound:
      "sound m k' \<Longrightarrow> 0 \<le> v \<Longrightarrow> v < 2 ^ 63 \<Longrightarrow> 0 < ttl \<Longrightarrow> sound (setmax now m k v ttl) k'"
    and setmax_reaches:
      "sound m k \<Longrightarrow> 0 \<le> v \<Longrightarrow> v < 2 ^ 63 \<Longrightarrow> 0 < ttl \<Longrightarrow> now \<le> t \<Longrightarrow> t < now + ttl \<Longrightarrow>
       \<exists>c. cutoff t (setmax now m k v ttl) k = Some c \<and> v \<le> c"
    and setmax_grows:
      "sound m k' \<Longrightarrow> 0 \<le> v \<Longrightarrow> v < 2 ^ 63 \<Longrightarrow> 0 < ttl \<Longrightarrow> now \<le> t \<Longrightarrow> cutoff t m k' = Some c \<Longrightarrow>
       \<exists>c'. cutoff t (setmax now m k v ttl) k' = Some c' \<and> c \<le> c'"
begin

definition writes :: "(int \<times> string \<times> int \<times> int) list \<Rightarrow> 'c \<Rightarrow> 'c" where
  "writes ops m = foldl (\<lambda>m (now, k, v, ttl). setmax now m k v ttl) m ops"

definition valid_write :: "int \<Rightarrow> int \<times> string \<times> int \<times> int \<Rightarrow> bool" where
  "valid_write t op = (case op of (now, k, v, ttl) \<Rightarrow> now \<le> t \<and> 0 \<le> v \<and> v < 2 ^ 63 \<and> 0 < ttl)"

lemma writes_grow:
  assumes "\<forall>op\<in>set ops. valid_write t op" and "sound m k" and "cutoff t m k = Some c"
  shows "\<exists>c'. cutoff t (writes ops m) k = Some c' \<and> c \<le> c'"
  using assms
proof (induction ops arbitrary: m c)
  case Nil
  then show ?case by (simp add: writes_def)
next
  case (Cons op ops)
  obtain now k0 v ttl where op: "op = (now, k0, v, ttl)" by (cases op)
  with Cons.prems have ok: "now \<le> t" "0 \<le> v" "v < 2 ^ 63" "0 < ttl"
    by (simp_all add: valid_write_def)
  let ?m = "setmax now m k0 v ttl"
  obtain c1 where c1: "cutoff t ?m k = Some c1" "c \<le> c1"
    using setmax_grows [OF Cons.prems(2) ok(2-4) ok(1) Cons.prems(3)] by blast
  have "sound ?m k" using Cons.prems(2) ok by (intro setmax_sound)
  then obtain c2 where "cutoff t (writes ops ?m) k = Some c2" "c1 \<le> c2"
    using Cons.IH [of ?m c1] Cons.prems(1) c1(1) by auto
  with c1(2) show ?case by (simp add: writes_def op)
qed

lemma cutoff_persists:
  assumes "sound m k" and "0 \<le> v" and "v < 2 ^ 63" and "0 < ttl"
    and "now \<le> t" and "t < now + ttl" and "\<forall>op\<in>set ops. valid_write t op"
  shows "\<exists>c. cutoff t (writes ops (setmax now m k v ttl)) k = Some c \<and> v \<le> c"
proof -
  obtain c where c: "cutoff t (setmax now m k v ttl) k = Some c" "v \<le> c"
    using setmax_reaches [OF assms(1-6)] by blast
  have "sound (setmax now m k v ttl) k" using assms(1-4) by (intro setmax_sound)
  from writes_grow [OF assms(7) this c(1)] c(2) show ?thesis by fastforce
qed

end

definition register_setmax :: "int \<Rightarrow> redis \<Rightarrow> string \<Rightarrow> int \<Rightarrow> int \<Rightarrow> redis" where
  "register_setmax now m k v ttl =
     (case setMaxInt64Script now m k (format_int v) ttl of Inl _ \<Rightarrow> m | Inr (_, m') \<Rightarrow> m')"

definition cutoff_at :: "int \<Rightarrow> redis \<Rightarrow> string \<Rightarrow> int option" where
  "cutoff_at now m k = Option.bind (redis_GET now m k) parse_int64"

text \<open>A key that only cutoffs were written to.\<close>

definition cutoff_entry :: "redis \<Rightarrow> string \<Rightarrow> bool" where
  "cutoff_entry m k = (case m k of None \<Rightarrow> True
     | Some (v, _) \<Rightarrow> (case parse_int64 v of None \<Rightarrow> False | Some n \<Rightarrow> 0 \<le> n \<and> v = format_int n))"

lemma parse_int64_bounds: "parse_int64 s = Some n \<Longrightarrow> - (2 ^ 63) \<le> n \<and> n < 2 ^ 63"
  by (auto simp: parse_int64_def Let_def split: if_splits prod.splits)

lemma cutoff_entryE:
  assumes "cutoff_entry m k" and "m k = Some (v, ex)"
  obtains n where "v = format_int n" "0 \<le> n" "n < 2 ^ 63"
  using assms by (auto simp: cutoff_entry_def dest: parse_int64_bounds split: option.splits)

text \<open>The script on a cutoff key, case by case.\<close>

lemma register_setmax_eq:
  assumes "cutoff_entry m k" and "0 \<le> v" and "v < 2 ^ 63" and "0 < ttl"
  shows "register_setmax now m k v ttl = m(k :=
    (case live now m k of
       None \<Rightarrow> Some (format_int v, Some (now + ttl))
     | Some (cur, ex) \<Rightarrow>
         if v \<le> the (parse_int64 cur)
         then (case ex of None \<Rightarrow> m k | Some e \<Rightarrow> Some (cur, Some (max e (now + ttl))))
         else Some (format_int v, case ex of None \<Rightarrow> None | Some e \<Rightarrow> Some (max e (now + ttl)))))"
proof (cases "live now m k")
  case None
  then show ?thesis
    using assms
    by (auto simp: register_setmax_def setMaxInt64Script_def redis_GET_def redis_SET_PX_def)
next
  case (Some p)
  then obtain cur ex where p: "p = (cur, ex)" and mk: "m k = Some (cur, ex)"
    by (auto simp: live_def split: option.splits if_splits)
  from assms(1) mk obtain n where n: "cur = format_int n" "0 \<le> n" "n < 2 ^ 63"
    by (rule cutoff_entryE)
  show ?thesis
  proof (cases ex)
    case None
    then show ?thesis
      using Some p n mk assms
      by (auto simp: register_setmax_def setMaxInt64Script_def redis_GET_def redis_PTTL_def
          redis_SET_PX_def decimal_ge_format_int Let_def)
  next
    case (Some e)
    have "now < e" using \<open>live now m k = Some p\<close> mk Some p by (auto simp: live_def split: if_splits)
    then show ?thesis
      using Some \<open>live now m k = Some p\<close> p n mk assms
      by (auto simp: register_setmax_def setMaxInt64Script_def redis_GET_def redis_PTTL_def
          redis_SET_PX_def redis_PEXPIRE_def decimal_ge_format_int Let_def max_def)
  qed
qed

lemma live_SomeD:
  "live now m k = Some (v, ex) \<Longrightarrow> m k = Some (v, ex) \<and> (case ex of None \<Rightarrow> True | Some e \<Rightarrow> now < e)"
  by (auto simp: live_def split: option.splits if_splits)

lemma live_later:
  "now \<le> t \<Longrightarrow> live t m k = Some p \<Longrightarrow> live now m k = Some p"
  by (auto simp: live_def split: option.splits if_splits)

lemma cutoff_at_live:
  "cutoff_at t m k = Some c \<longleftrightarrow> (\<exists>v ex. live t m k = Some (v, ex) \<and> parse_int64 v = Some c)"
  by (auto simp: cutoff_at_def redis_GET_def bind_eq_Some_conv)

lemma live_setmax_same:
  assumes "cutoff_entry m k" and "0 \<le> v" and "v < 2 ^ 63" and "0 < ttl"
    and "now \<le> t" and "t < now + ttl \<or> (\<exists>p. live t m k = Some p)"
  shows "\<exists>c. cutoff_at t (register_setmax now m k v ttl) k = Some c \<and> v \<le> c
           \<and> (\<forall>c0. cutoff_at t m k = Some c0 \<longrightarrow> c0 \<le> c)"
proof (cases "live now m k")
  case None
  with assms(5) have "live t m k = None" by (cases "live t m k") (auto dest: live_later)
  with None assms show ?thesis
    by (auto simp: cutoff_at_live register_setmax_eq) (simp_all add: live_def)
next
  case (Some p)
  then obtain cur ex where p: "p = (cur, ex)" and mk: "m k = Some (cur, ex)"
    and ex: "case ex of None \<Rightarrow> True | Some e \<Rightarrow> now < e"
    by (cases p) (auto dest: live_SomeD)
  from assms(1) mk obtain n where n: "cur = format_int n" "0 \<le> n" "n < 2 ^ 63"
    by (rule cutoff_entryE)
  show ?thesis
  proof (cases ex)
    case None
    then show ?thesis
      using Some p mk n assms(1-4)
      by (auto simp: cutoff_at_live register_setmax_eq) (simp_all add: live_def)
  next
    case (Some e)
    have "t < max e (now + ttl)"
      using assms(6) mk Some by (auto simp: live_def split: if_splits)
    then show ?thesis
      using Some \<open>live now m k = Some p\<close> p mk n assms(1-4)
      by (auto simp: cutoff_at_live register_setmax_eq live_def)
  qed
qed

lemma register_setmax_other:
  assumes "cutoff_entry m k'" and "0 \<le> v" and "v < 2 ^ 63" and "0 < ttl" and "k \<noteq> k'"
  shows "register_setmax now m k v ttl k' = m k'"
  using assms(5)
  by (auto simp: register_setmax_def setMaxInt64Script_def redis_SET_PX_def redis_PEXPIRE_def Let_def
      split: option.splits sum.splits if_splits)

interpretation register: cutoff_register register_setmax cutoff_at cutoff_entry
proof
  fix m :: redis and k' k :: string and v ttl now :: int
  assume s: "cutoff_entry m k'" and v: "0 \<le> v" "v < 2 ^ 63" "0 < ttl"
  show "cutoff_entry (register_setmax now m k v ttl) k'"
  proof (cases "k = k'")
    case True
    with s v show ?thesis
      by (auto simp: register_setmax_eq cutoff_entry_def
          split: option.splits dest!: live_SomeD)
  next
    case False
    with s v show ?thesis by (simp add: cutoff_entry_def register_setmax_other)
  qed
next
  fix m :: redis and k :: string and v ttl now t :: int
  assume s: "cutoff_entry m k" and v: "0 \<le> v" "v < 2 ^ 63" "0 < ttl" "now \<le> t" "t < now + ttl"
  show "\<exists>c. cutoff_at t (register_setmax now m k v ttl) k = Some c \<and> v \<le> c"
    using live_setmax_same [OF s v(1-4)] v(5) by blast
next
  fix m :: redis and k k' :: string and v ttl now t c :: int
  assume s: "cutoff_entry m k'" and v: "0 \<le> v" "v < 2 ^ 63" "0 < ttl" "now \<le> t"
    and c: "cutoff_at t m k' = Some c"
  show "\<exists>c'. cutoff_at t (register_setmax now m k v ttl) k' = Some c' \<and> c \<le> c'"
  proof (cases "k = k'")
    case True
    then show ?thesis using live_setmax_same [OF s v(1-4)] c by (auto simp: cutoff_at_live)
  next
    case False
    then have "register_setmax now m k v ttl k' = m k'" using s v by (intro register_setmax_other)
    then have "cutoff_at t (register_setmax now m k v ttl) k' = cutoff_at t m k'"
      by (simp add: cutoff_at_def redis_GET_def live_def)
    with c show ?thesis by simp
  qed
qed

end
