(* ===== verification/Encoding.thy ===== *)
theory Encoding
  imports Prelude
begin

text \<open>
  The two encodings of Go's standard library the program uses for tokens, hashes and cursors:
  \<open>hex.EncodeToString\<close> and \<open>base64.RawURLEncoding\<close>, with the round trips and
  the injectivity the token code relies on.
\<close>

section \<open>Hexadecimal\<close>

definition hex_digit :: "nat \<Rightarrow> char" where
  "hex_digit n = ''0123456789abcdef'' ! n"

fun hex_encode :: "string \<Rightarrow> string" where
  "hex_encode [] = []"
| "hex_encode (c # cs) = hex_digit (code c div 16) # hex_digit (code c mod 16) # hex_encode cs"

lemma length_hex_encode [simp]: "length (hex_encode s) = 2 * length s"
  by (induction s) auto

lemma hex_digits_distinct: "distinct ''0123456789abcdef''"
  by simp

lemma hex_digit_inj: "m < 16 \<Longrightarrow> n < 16 \<Longrightarrow> hex_digit m = hex_digit n \<longleftrightarrow> m = n"
  unfolding hex_digit_def using hex_digits_distinct by (subst nth_eq_iff_index_eq) auto

lemma hex_encode_inj: "hex_encode s = hex_encode t \<longleftrightarrow> s = t"
proof (induction s arbitrary: t)
  case Nil
  then show ?case by (cases t) auto
next
  case (Cons c s)
  show ?case
  proof (cases t)
    case (Cons d t')
    have lt: "code c div 16 < 16" "code d div 16 < 16"
      using nat_of_char_less_256 [of c] nat_of_char_less_256 [of d] by linarith+
    have "code c div 16 = code d div 16 \<and> code c mod 16 = code d mod 16 \<longleftrightarrow> (code c :: nat) = code d"
      by (metis div_mult_mod_eq)
    then have "hex_digit (code c div 16) = hex_digit (code d div 16) \<and>
          hex_digit (code c mod 16) = hex_digit (code d mod 16) \<longleftrightarrow> c = d"
      using lt by (simp add: hex_digit_inj)
    with Cons Cons.IH show ?thesis by auto
  qed simp
qed

section \<open>Base64, URL alphabet, no padding\<close>

fun sextets :: "nat list \<Rightarrow> nat list" where
  "sextets [] = []"
| "sextets [a] = [a div 4, (a mod 4) * 16]"
| "sextets [a, b] = [a div 4, (a mod 4) * 16 + b div 16, (b mod 16) * 4]"
| "sextets (a # b # c # r) =
     a div 4 # ((a mod 4) * 16 + b div 16) # ((b mod 16) * 4 + c div 64) # c mod 64 # sextets r"

fun unsextets :: "nat list \<Rightarrow> nat list option" where
  "unsextets [] = Some []"
| "unsextets [p] = None"
| "unsextets [p, q] = Some [p * 4 + q div 16]"
| "unsextets [p, q, r] = Some [p * 4 + q div 16, (q mod 16) * 16 + r div 4]"
| "unsextets (p # q # r # s # t) =
     map_option (\<lambda>u. (p * 4 + q div 16) # ((q mod 16) * 16 + r div 4) # ((r mod 4) * 64 + s) # u)
       (unsextets t)"

definition b64_char :: "nat \<Rightarrow> char" where
  "b64_char n = (if n < 26 then char_of (65 + n) else if n < 52 then char_of (71 + n)
     else if n < 62 then char_of (n - 4) else if n = 62 then CHR ''-'' else CHR ''_'')"

definition b64_value :: "char \<Rightarrow> nat option" where
  "b64_value c =
     (if 65 \<le> code c \<and> code c \<le> 90 then Some (code c - 65)
      else if 97 \<le> code c \<and> code c \<le> 122 then Some (code c - 71)
      else if 48 \<le> code c \<and> code c \<le> 57 then Some (code c + 4)
      else if c = CHR ''-'' then Some 62 else if c = CHR ''_'' then Some 63 else None)"

definition base64_encode :: "string \<Rightarrow> string" where
  "base64_encode s = map b64_char (sextets (map of_char s))"

fun opt_list :: "'a option list \<Rightarrow> 'a list option" where
  "opt_list [] = Some []"
| "opt_list (None # _) = None"
| "opt_list (Some x # r) = map_option ((#) x) (opt_list r)"

text \<open>
  \<open>DecodeString\<close> in Go's default mode: line breaks are skipped, the bits left over at
  the end are not looked at.
\<close>

definition base64_decode :: "string \<Rightarrow> string option" where
  "base64_decode s =
     (case opt_list (map b64_value (filter (\<lambda>c. code c \<noteq> 10 \<and> code c \<noteq> 13) s)) of
        None \<Rightarrow> None
      | Some ns \<Rightarrow> map_option (map char_of) (unsextets ns))"

lemma unsextets_sextets:
  "\<forall>n\<in>set ns. n < 256 \<Longrightarrow> unsextets (sextets ns) = Some ns"
  by (induction ns rule: sextets.induct) (auto simp: div_add1_eq)

lemma sextets_less: "\<forall>n\<in>set ns. n < 256 \<Longrightarrow> \<forall>m\<in>set (sextets ns). m < 64"
  by (induction ns rule: sextets.induct) auto

lemma b64_code:
  assumes "n < 64"
  shows "code (b64_char n) = (if n < 26 then 65 + n else if n < 52 then 71 + n
     else if n < 62 then n - 4 else if n = 62 then 45 else 95)"
  using assms by (simp add: b64_char_def)

lemma b64_value_char:
  assumes "n < 64"
  shows "b64_value (b64_char n) = Some n" and "code (b64_char n) \<noteq> (10::nat)"
    and "code (b64_char n) \<noteq> (13::nat)"
proof -
  show "code (b64_char n) \<noteq> (10::nat)" and "code (b64_char n) \<noteq> (13::nat)"
    using assms by (auto simp: b64_code)
  consider "n < 62" | "n = 62" | "n = 63" using assms by linarith
  then show "b64_value (b64_char n) = Some n"
  proof cases
    case 1
    then show ?thesis
      using b64_code [of n] by (auto simp: b64_value_def)
  next
    case 2
    then show ?thesis by (simp add: b64_value_def b64_char_def)
  next
    case 3
    then show ?thesis by (simp add: b64_value_def b64_char_def)
  qed
qed

lemma opt_list_Some [simp]: "opt_list (map Some xs) = Some xs"
  by (induction xs) auto

lemma base64_roundtrip: "base64_decode (base64_encode s) = Some s"
proof -
  let ?ns = "map of_char s :: nat list"
  have lt: "\<forall>n\<in>set ?ns. n < 256" by auto
  have m: "\<forall>m\<in>set (sextets ?ns). m < 64" by (rule sextets_less [OF lt])
  have "filter (\<lambda>c. code c \<noteq> 10 \<and> code c \<noteq> 13) (base64_encode s) = base64_encode s"
    unfolding base64_encode_def filter_id_conv using m by (auto simp: b64_value_char)
  moreover have "map b64_value (base64_encode s) = map Some (sextets ?ns)"
    unfolding base64_encode_def using m by (auto simp: b64_value_char)
  ultimately show ?thesis
    by (simp add: base64_decode_def unsextets_sextets [OF lt] comp_def)
qed

lemma base64_encode_inj: "base64_encode s = base64_encode t \<longleftrightarrow> s = t"
  by (metis base64_roundtrip option.inject)

end
