(* ===== verification/Tokens.thy ===== *)
theory Tokens
  imports Cache Encoding
begin

text \<open>
  \<open>internal/session/roles\<close> and \<open>internal/session/token\<close>: platform roles, the
  claims of an access token, the key set, signing and parsing, and the revocation markers in
  the cache. The JWT library and Ed25519 are parameters (the record \<open>jwt_lib\<close>); the
  UUID library is in \<open>env\<close>.
\<close>

section \<open>Roles (\<open>roles.go\<close>)\<close>

definition AutharaAdmin :: string where
  "AutharaAdmin = ''authara:admin''"
definition AutharaOperator :: string where
  "AutharaOperator = ''authara:operator''"
definition DBAdminRoleName :: string where
  "DBAdminRoleName = ''admin''"
definition DBOperatorRoleName :: string where
  "DBOperatorRoleName = ''operator''"

lemmas role_defs = AutharaAdmin_def AutharaOperator_def DBAdminRoleName_def DBOperatorRoleName_def

type_synonym roles = "string list"

definition roles_add :: "roles \<Rightarrow> string \<Rightarrow> roles" where
  "roles_add r role = (if role \<in> set r then r else r @ [role])"

definition Has :: "roles \<Rightarrow> string \<Rightarrow> bool" where
  "Has r role \<longleftrightarrow> role \<in> set r"

definition HasAny :: "roles \<Rightarrow> string list \<Rightarrow> bool" where
  "HasAny r allowed \<longleftrightarrow> list_ex (Has r) allowed"

definition validate_role :: "string \<Rightarrow> bool" where
  "validate_role role \<longleftrightarrow> role = AutharaAdmin \<or> role = AutharaOperator"

fun FromClaims_from :: "roles \<Rightarrow> string list \<Rightarrow> err + roles" where
  "FromClaims_from r [] = Inr r"
| "FromClaims_from r (role # rest) =
     (if validate_role role then FromClaims_from (roles_add r role) rest
      else Inl (EText (''invalid role: '' @ role)))"

definition FromClaims :: "string list \<Rightarrow> err + roles" where
  "FromClaims claims = FromClaims_from [] claims"

fun FromDBRoleNames_from :: "roles \<Rightarrow> string list \<Rightarrow> err + roles" where
  "FromDBRoleNames_from r [] = Inr r"
| "FromDBRoleNames_from r (name # rest) =
     (if name = DBAdminRoleName then FromDBRoleNames_from (roles_add r AutharaAdmin) rest
      else if name = DBOperatorRoleName then FromDBRoleNames_from (roles_add r AutharaOperator) rest
      else Inl (EText (''unknown db role: '' @ name)))"

definition FromDBRoleNames :: "string list \<Rightarrow> err + roles" where
  "FromDBRoleNames names = FromDBRoleNames_from [] names"

lemma set_roles_add [simp]: "set (roles_add r x) = insert x (set r)"
  by (auto simp: roles_add_def)

lemma distinct_roles_add [simp]: "distinct r \<Longrightarrow> distinct (roles_add r x)"
  by (simp add: roles_add_def)

lemma role_names_distinct [simp]:
  "DBAdminRoleName \<noteq> DBOperatorRoleName" "DBOperatorRoleName \<noteq> DBAdminRoleName"
  "AutharaAdmin \<noteq> AutharaOperator" "AutharaOperator \<noteq> AutharaAdmin"
  by (simp_all add: role_defs)

lemma FromDBRoleNames_from_mem:
  "FromDBRoleNames_from r names = Inr rs \<Longrightarrow>
     x \<in> set rs \<longleftrightarrow> x \<in> set r \<or> x = AutharaAdmin \<and> DBAdminRoleName \<in> set names
       \<or> x = AutharaOperator \<and> DBOperatorRoleName \<in> set names"
  by (induction r names rule: FromDBRoleNames_from.induct) (auto split: if_splits)

lemma FromDBRoleNames_from_names:
  "FromDBRoleNames_from r names = Inr rs \<Longrightarrow> set names \<subseteq> {DBAdminRoleName, DBOperatorRoleName}"
  by (induction r names rule: FromDBRoleNames_from.induct) (auto split: if_splits)

lemma FromDBRoleNames_from_distinct:
  "FromDBRoleNames_from r names = Inr rs \<Longrightarrow> distinct r \<Longrightarrow> distinct rs"
  by (induction r names rule: FromDBRoleNames_from.induct) (auto split: if_splits)

lemma FromDBRoleNames_Has:
  assumes "FromDBRoleNames names = Inr rs"
  shows "Has rs AutharaAdmin \<longleftrightarrow> DBAdminRoleName \<in> set names"
    and "Has rs AutharaOperator \<longleftrightarrow> DBOperatorRoleName \<in> set names"
  using assms by (simp_all add: FromDBRoleNames_def Has_def FromDBRoleNames_from_mem)

lemma FromClaims_from_known:
  "FromClaims_from r cs = Inr rs \<Longrightarrow> set rs = set r \<union> set cs \<and> (\<forall>c\<in>set cs. validate_role c)"
  by (induction r cs rule: FromClaims_from.induct) (auto split: if_splits)

lemma FromClaims_from_total:
  "\<forall>c\<in>set cs. validate_role c \<Longrightarrow> \<exists>rs. FromClaims_from r cs = Inr rs"
  by (induction r cs rule: FromClaims_from.induct) auto

lemma FromDBRoleNames_valid:
  "FromDBRoleNames names = Inr rs \<Longrightarrow> \<forall>c\<in>set rs. validate_role c"
  by (auto simp: FromDBRoleNames_def validate_role_def FromDBRoleNames_from_mem)

lemma FromClaims_from_distinct:
  "distinct (r @ cs) \<Longrightarrow> \<forall>c\<in>set cs. validate_role c \<Longrightarrow> FromClaims_from r cs = Inr (r @ cs)"
  by (induction r cs rule: FromClaims_from.induct) (auto simp: roles_add_def)

section \<open>Claims (\<open>access.go\<close>)\<close>

definition AudienceApp :: string where
  "AudienceApp = ''app''"
definition AudienceAdmin :: string where
  "AudienceAdmin = ''admin''"
definition AudienceOperator :: string where
  "AudienceOperator = ''operator''"

record access_claims =
  clm_session_id :: uuid
  clm_org_id :: uuid
  clm_org_role :: string
  clm_roles :: "string list"
  clm_email_verified :: bool
  clm_id :: string
  clm_issuer :: string
  clm_subject :: string
  clm_audience :: "string list"
  clm_issued_at :: "time option"
  clm_expires_at :: "time option"

section \<open>Keys (\<open>keys.go\<close>)\<close>

text \<open>
  What the code uses of Ed25519 and of \<open>golang-jwt\<close>: a private key from a seed, its
  public key, \<open>NewNumericDate\<close>, \<open>SignedString\<close> with a \<open>kid\<close> header,
  and \<open>ParseWithClaims\<close> under the options for algorithm, audience, issuer and time,
  with the key function called on the \<open>kid\<close> header. Parsing returns the claims and
  the token's \<open>Valid\<close> flag, or no claims for an error.
\<close>

record jwt_lib =
  ed25519_new_key :: "string \<Rightarrow> string"
  ed25519_public :: "string \<Rightarrow> string"
  jwt_numeric_date :: "time \<Rightarrow> time"
  jwt_signed_string :: "string \<Rightarrow> string \<Rightarrow> access_claims \<Rightarrow> string option"
  jwt_parse :: "string list \<Rightarrow> string \<Rightarrow> time \<Rightarrow> (string option \<Rightarrow> err + string) \<Rightarrow> string \<Rightarrow>
                (access_claims \<times> bool) option"

record key_set =
  ks_active :: string
  ks_private :: "(string \<times> string) list"
  ks_public :: "(string \<times> string) list"

fun build_keys :: "jwt_lib \<Rightarrow> (string \<times> string) list \<Rightarrow> key_set \<Rightarrow> err + key_set" where
  "build_keys J [] k = Inr k"
| "build_keys J ((keyID, seed) # rest) k =
     (if trim_space keyID = '''' then Inl (EText ''key id must not be empty'')
      else if length seed \<noteq> 32 then Inl (EText ''signing key must be a 32-byte Ed25519 seed'')
      else let privateKey = ed25519_new_key J seed in
        build_keys J rest
          (k\<lparr>ks_private := ks_private k @ [(keyID, privateKey)],
             ks_public := ks_public k @ [(keyID, ed25519_public J privateKey)]\<rparr>))"

definition NewKeySet :: "jwt_lib \<Rightarrow> string \<Rightarrow> (string \<times> string) list \<Rightarrow> err + key_set" where
  "NewKeySet J activeKeyID seeds =
     (if trim_space activeKeyID = '''' then Inl (EText ''active key id must be set'')
      else if map_of seeds activeKeyID = None then Inl (EText ''active signing key not found'')
      else build_keys J seeds \<lparr>ks_active = activeKeyID, ks_private = [], ks_public = []\<rparr>)"

text \<open>\<open>SigningKey\<close>: a missing key is the empty slice.\<close>

definition SigningKey :: "key_set \<Rightarrow> string \<times> string" where
  "SigningKey k = (ks_active k,
     case map_of (ks_private k) (ks_active k) of None \<Rightarrow> '''' | Some key \<Rightarrow> key)"

definition VerificationKey :: "key_set \<Rightarrow> string \<Rightarrow> string option" where
  "VerificationKey k keyID = map_of (ks_public k) keyID"

record json_web_key =
  jwk_kty :: string
  jwk_kid :: string
  jwk_use :: string
  jwk_alg :: string
  jwk_crv :: string
  jwk_x :: string
  jwk_key_ops :: "string list"

definition JWKS :: "key_set \<Rightarrow> json_web_key list" where
  "JWKS k = map (\<lambda>keyID. \<lparr>jwk_kty = ''OKP'', jwk_kid = keyID, jwk_use = ''sig'', jwk_alg = ''EdDSA'',
       jwk_crv = ''Ed25519'',
       jwk_x = base64_encode (case map_of (ks_public k) keyID of None \<Rightarrow> '''' | Some key \<Rightarrow> key),
       jwk_key_ops = [''verify'']\<rparr>) (sort (map fst (ks_public k)))"

lemma build_keys_public:
  assumes "build_keys J seeds k = Inr k'"
  shows "ks_private k' = ks_private k @ map (\<lambda>(i, s). (i, ed25519_new_key J s)) seeds"
    and "ks_public k' = ks_public k @ map (\<lambda>(i, s). (i, ed25519_public J (ed25519_new_key J s))) seeds"
    and "ks_active k' = ks_active k"
    and "\<forall>(i, s)\<in>set seeds. trim_space i \<noteq> '''' \<and> length s = 32"
  using assms
  by (induction J seeds k rule: build_keys.induct) (auto simp: Let_def split: if_splits)

lemma map_of_map_snd: "map_of (map (\<lambda>(i, s). (i, f s)) xs) i = map_option f (map_of xs i)"
  by (induction xs) auto

text \<open>The signing key of a key set is verified by the public key of the active id.\<close>

lemma NewKeySet_pair:
  assumes "NewKeySet J active seeds = Inr k"
  shows "\<exists>seed. map_of seeds active = Some seed \<and> length seed = 32
      \<and> SigningKey k = (active, ed25519_new_key J seed)
      \<and> VerificationKey k active = Some (ed25519_public J (ed25519_new_key J seed))"
proof -
  from assms obtain seed where s: "map_of seeds active = Some seed"
    and b: "build_keys J seeds \<lparr>ks_active = active, ks_private = [], ks_public = []\<rparr> = Inr k"
    by (auto simp: NewKeySet_def split: if_splits)
  from s have "(active, seed) \<in> set seeds" by (rule map_of_SomeD)
  with build_keys_public(4) [OF b] have "length seed = 32" by auto
  with s build_keys_public(1-3) [OF b] show ?thesis
    by (simp add: SigningKey_def VerificationKey_def map_of_map_snd)
qed

section \<open>Issuing and parsing (\<open>access.go\<close>)\<close>

record token_service =
  ts_keys :: key_set
  ts_issuer :: string
  ts_ttl :: duration

definition GenerateWithEmailVerification ::
  "env \<Rightarrow> jwt_lib \<Rightarrow> token_service \<Rightarrow> uuid \<Rightarrow> uuid \<Rightarrow> uuid \<Rightarrow> string \<Rightarrow> string \<Rightarrow> roles \<Rightarrow> bool \<Rightarrow>
   time \<Rightarrow> string M" where
  "GenerateWithEmailVerification E J T userID sessionID organizationID organizationRole audience
     roles emailVerified now =
   (let (kid, key) = SigningKey (ts_keys T) in
    bnd (new_uuid E) (\<lambda>jti.
      of_option ESign (jwt_signed_string J kid key
        \<lparr>clm_session_id = sessionID, clm_org_id = organizationID, clm_org_role = organizationRole,
         clm_roles = roles, clm_email_verified = emailVerified, clm_id = uuid_string E jti,
         clm_issuer = ts_issuer T, clm_subject = uuid_string E userID, clm_audience = [audience],
         clm_issued_at = Some (jwt_numeric_date J now),
         clm_expires_at = Some (jwt_numeric_date J (now + ts_ttl T))\<rparr>)))"

definition Generate ::
  "env \<Rightarrow> jwt_lib \<Rightarrow> token_service \<Rightarrow> uuid \<Rightarrow> uuid \<Rightarrow> uuid \<Rightarrow> string \<Rightarrow> string \<Rightarrow> roles \<Rightarrow> time \<Rightarrow>
   string M" where
  "Generate E J T userID sessionID organizationID organizationRole audience roles now =
     GenerateWithEmailVerification E J T userID sessionID organizationID organizationRole audience
       roles False now"

definition keyFunc :: "token_service \<Rightarrow> string option \<Rightarrow> err + string" where
  "keyFunc T kid = (case kid of None \<Rightarrow> Inl (EToken ErrUnknownKey)
     | Some i \<Rightarrow> (case VerificationKey (ts_keys T) i of
           None \<Rightarrow> Inl (EToken ErrUnknownKey) | Some key \<Rightarrow> Inr key))"

definition validateAccessClaims :: "access_claims \<Rightarrow> time \<Rightarrow> err option" where
  "validateAccessClaims c now =
     (if (case clm_expires_at c of None \<Rightarrow> True | Some e \<Rightarrow> e < now) then Some (EToken ErrExpiredToken)
      else if clm_issued_at c = None \<or> clm_subject c = '''' \<or> clm_session_id c = nil_uuid
           \<or> clm_org_id c = nil_uuid \<or> clm_org_role c = '''' then Some (EToken ErrInvalidClaims)
      else None)"

definition parse_access ::
  "jwt_lib \<Rightarrow> token_service \<Rightarrow> string \<Rightarrow> time \<Rightarrow> string list \<Rightarrow> err + access_claims" where
  "parse_access J T tokenString now audiences =
     (case jwt_parse J audiences (ts_issuer T) now (keyFunc T) tokenString of
        None \<Rightarrow> Inl (EToken ErrInvalidToken)
      | Some (claims, valid) \<Rightarrow>
          if \<not> valid then Inl (EToken ErrInvalidClaims)
          else (case validateAccessClaims claims now of Some e \<Rightarrow> Inl e | None \<Rightarrow> Inr claims))"

definition Parse :: "jwt_lib \<Rightarrow> token_service \<Rightarrow> string \<Rightarrow> string \<Rightarrow> time \<Rightarrow> err + access_claims" where
  "Parse J T tokenString expectedAudience now = parse_access J T tokenString now [expectedAudience]"

definition ParseAny :: "jwt_lib \<Rightarrow> token_service \<Rightarrow> string \<Rightarrow> time \<Rightarrow> err + access_claims" where
  "ParseAny J T tokenString now =
     parse_access J T tokenString now [AudienceApp, AudienceAdmin, AudienceOperator]"

lemma parse_access_SomeD:
  assumes "parse_access J T s now auds = Inr c"
  obtains iat e where "jwt_parse J auds (ts_issuer T) now (keyFunc T) s = Some (c, True)"
    and "clm_issued_at c = Some iat" and "clm_expires_at c = Some e" and "now \<le> e"
    and "clm_subject c \<noteq> ''''" and "clm_session_id c \<noteq> nil_uuid"
    and "clm_org_id c \<noteq> nil_uuid" and "clm_org_role c \<noteq> ''''"
  using assms
  by (auto simp: parse_access_def validateAccessClaims_def split: option.splits if_splits)

section \<open>Revocation (\<open>revocations.go\<close>)\<close>

record revocations =
  rv_cache :: "cache_impl option"
  rv_ttl :: duration

definition unix_nano :: "time \<Rightarrow> int" where
  "unix_nano t = sint (word_of_int t :: 64 word)"

definition unix_seconds :: "time \<Rightarrow> int" where
  "unix_seconds t = t div 1000000000"

lemma unix_nano_id [simp]: "- (2 ^ 63) \<le> t \<Longrightarrow> t < 2 ^ 63 \<Longrightarrow> unix_nano t = t"
  by (simp add: unix_nano_def sint_sbintrunc' signed_take_bit_int_eq_self)

fun join :: "string \<Rightarrow> string list \<Rightarrow> string" where
  "join sep [] = ''''"
| "join sep [x] = x"
| "join sep (x # y # r) = x @ sep @ join sep (y # r)"

definition accessTokenIdentifier :: "env \<Rightarrow> access_claims option \<Rightarrow> err + string" where
  "accessTokenIdentifier E oc = (case oc of
       None \<Rightarrow> Inl (EToken ErrInvalidClaims)
     | Some c \<Rightarrow>
         if clm_id c \<noteq> '''' then
           (case uuid_parse E (clm_id c) of
              None \<Rightarrow> Inl (EToken ErrInvalidClaims) | Some i \<Rightarrow> Inr (uuid_string E i))
         else (case clm_issued_at c of
             None \<Rightarrow> Inl (EToken ErrInvalidClaims)
           | Some iat \<Rightarrow>
               if clm_session_id c = nil_uuid \<or> clm_org_id c = nil_uuid \<or> clm_subject c = ''''
               then Inl (EToken ErrInvalidClaims)
               else Inr (join '':'' [''legacy'', uuid_string E (clm_session_id c), clm_subject c,
                      uuid_string E (clm_org_id c), format_int (unix_seconds iat),
                      join '','' (clm_audience c)])))"

definition store_unavailable :: "err \<Rightarrow> err" where
  "store_unavailable e = EJoin [EToken ErrRevocationStoreUnavailable, e]"

definition RevokeToken ::
  "env \<Rightarrow> revocations option \<Rightarrow> access_claims option \<Rightarrow> duration \<Rightarrow> unit M" where
  "RevokeToken E R oc ttl = (case R of None \<Rightarrow> ret () | Some r \<Rightarrow> (case rv_cache r of None \<Rightarrow> ret ()
     | Some cache \<Rightarrow>
         if ttl \<le> 0 then ret ()
         else (case accessTokenIdentifier E oc of
             Inl e \<Rightarrow> fail e
           | Inr tokenIdentifier \<Rightarrow>
               map_err store_unavailable
                 (cache_Set E cache (RevokedAccessTokenKey tokenIdentifier) ''1'' ttl))))"

definition revokeScope :: "env \<Rightarrow> revocations option \<Rightarrow> string \<Rightarrow> time \<Rightarrow> unit M" where
  "revokeScope E R key revokedAt = (case R of None \<Rightarrow> ret () | Some r \<Rightarrow> (case rv_cache r of
       None \<Rightarrow> ret ()
     | Some cache \<Rightarrow> map_err store_unavailable
         (cache_SetMaxInt64 E cache key (unix_nano revokedAt) (rv_ttl r))))"

definition RevokeSessionTokens :: "env \<Rightarrow> revocations option \<Rightarrow> uuid \<Rightarrow> time \<Rightarrow> unit M" where
  "RevokeSessionTokens E R sessionID revokedAt =
     revokeScope E R (RevokedAccessTokenSessionKey (uuid_string E sessionID)) revokedAt"

definition RevokeUserTokens :: "env \<Rightarrow> revocations option \<Rightarrow> uuid \<Rightarrow> time \<Rightarrow> unit M" where
  "RevokeUserTokens E R userID revokedAt =
     revokeScope E R (RevokedAccessTokenUserKey (uuid_string E userID)) revokedAt"

definition RevokeMembershipTokens ::
  "env \<Rightarrow> revocations option \<Rightarrow> uuid \<Rightarrow> uuid \<Rightarrow> time \<Rightarrow> unit M" where
  "RevokeMembershipTokens E R userID organizationID revokedAt =
     revokeScope E R (RevokedAccessTokenMembershipKey (uuid_string E userID)
       (uuid_string E organizationID)) revokedAt"

fun check_cutoffs :: "int \<Rightarrow> string option list \<Rightarrow> unit M" where
  "check_cutoffs issuedAt [] = ret ()"
| "check_cutoffs issuedAt (None # rest) = check_cutoffs issuedAt rest"
| "check_cutoffs issuedAt (Some v # rest) = (case parse_int64 v of
       None \<Rightarrow> fail (store_unavailable (EText ''invalid cutoff''))
     | Some revokedAt \<Rightarrow>
         if issuedAt \<le> revokedAt then fail (EToken ErrRevokedToken) else check_cutoffs issuedAt rest)"

definition revocation_keys :: "env \<Rightarrow> access_claims \<Rightarrow> string list" where
  "revocation_keys E c =
     [RevokedAccessTokenSessionKey (uuid_string E (clm_session_id c)),
      RevokedAccessTokenUserKey (clm_subject c),
      RevokedAccessTokenMembershipKey (clm_subject c) (uuid_string E (clm_org_id c))]"

definition Check :: "env \<Rightarrow> revocations option \<Rightarrow> access_claims option \<Rightarrow> unit M" where
  "Check E R oc = (case R of None \<Rightarrow> ret () | Some r \<Rightarrow> (case rv_cache r of None \<Rightarrow> ret ()
     | Some cache \<Rightarrow> (case oc of None \<Rightarrow> fail (EToken ErrInvalidClaims)
       | Some c \<Rightarrow> (case clm_issued_at c of None \<Rightarrow> fail (EToken ErrInvalidClaims)
         | Some iat \<Rightarrow> (case accessTokenIdentifier E oc of
             Inl e \<Rightarrow> fail e
           | Inr tokenIdentifier \<Rightarrow>
               bnd (map_err store_unavailable (cache_GetMany E cache
                      (RevokedAccessTokenKey tokenIdentifier # revocation_keys E c)))
                 (\<lambda>values.
                   if length values \<noteq> 4
                   then fail (store_unavailable (EText ''expected 4 values''))
                   else if hd values \<noteq> None then fail (EToken ErrRevokedToken)
                   else check_cutoffs (unix_nano iat) (tl values)))))))"

lemma keeps_revocation [keeps_intro]:
  "keeps J (RevokeToken E R oc ttl)" "keeps J (RevokeSessionTokens E R sid t)"
  "keeps J (RevokeUserTokens E R uid t)" "keeps J (RevokeMembershipTokens E R uid oid t)"
  by (auto simp: RevokeToken_def RevokeSessionTokens_def RevokeUserTokens_def
      RevokeMembershipTokens_def revokeScope_def split: option.splits sum.splits intro: keeps_intro)

lemma keeps_check_cutoffs [keeps_intro]: "keeps J (check_cutoffs iat vs)"
  by (induction iat vs rule: check_cutoffs.induct) (auto split: option.splits intro: keeps_intro)

lemma keeps_Check [keeps_intro]: "keeps J (Check E R oc)"
  by (auto simp: Check_def split: option.splits sum.splits intro!: keeps_intro)

lemma check_cutoffs_run [runs]:
  "check_cutoffs iat vs w = (Inr u, w') \<longleftrightarrow> w' = w \<and>
     (\<forall>v. Some v \<in> set vs \<longrightarrow> (\<exists>r. parse_int64 v = Some r \<and> r < iat))"
  by (induction iat vs rule: check_cutoffs.induct) (auto simp: runs split: option.splits)

text \<open>
  A token passes the check exactly when nothing that is readable in the cache speaks against
  it: no marker of its own and no cutoff at or after its issue.
\<close>

lemma Check_run:
  assumes "rv_cache r = Some RedisCache"
  shows "Check E (Some r) (Some c) w = (Inr u, w') \<longleftrightarrow>
    (\<exists>iat i. clm_issued_at c = Some iat \<and> accessTokenIdentifier E (Some c) = Inr i
      \<and> \<not> o_fault E (w_step w) \<and> w' = tick w
      \<and> redis_GET (o_redis_ms E (w_step w)) (w_cache w) (RevokedAccessTokenKey i) = None
      \<and> (\<forall>k\<in>set (revocation_keys E c). \<forall>v.
          redis_GET (o_redis_ms E (w_step w)) (w_cache w) k = Some v \<longrightarrow>
          (\<exists>r. parse_int64 v = Some r \<and> r < unix_nano iat)))"
proof (cases "clm_issued_at c")
  case None
  with assms show ?thesis by (simp add: Check_def runs)
next
  case (Some iat)
  show ?thesis
  proof (cases "accessTokenIdentifier E (Some c)")
    case (Inl e)
    with assms Some show ?thesis by (simp add: Check_def runs)
  next
    case (Inr i)
    have eq: "tick (w\<lparr>w_cache := w_cache w\<rparr>) = tick w" by simp
    have len: "length (revocation_keys E c) = 3" by (simp add: revocation_keys_def)
    have im: "Some v \<in> (f :: string \<Rightarrow> string option) ` A \<longleftrightarrow> (\<exists>k\<in>A. f k = Some v)" for v f A
      by (metis (no_types, lifting) image_iff)
    show ?thesis
      using assms Some Inr
      by (simp add: Check_def runs cache_GetMany_def eq len im) blast
  qed
qed

end
