(* ===== verification/Store_Identity.thy ===== *)
theory Store_Identity
  imports Effects "HOL-Library.Product_Lexorder"
begin

text \<open>
  The store's operations on users, platform roles, the e-mail allowlist, passkeys and
  organizations (\<open>internal/store/users.go\<close>, \<open>user_platform_roles.go\<close>,
  \<open>allowed_emails.go\<close>, \<open>passkeys.go\<close>, \<open>organizations.go\<close>). Each
  definition is one SQL statement with the constraints and triggers the migrations put on the
  tables; row locks have no effect of their own, because a transaction is one step.
\<close>

section \<open>Identity (\<open>internal/identity/canonical.go\<close>)\<close>

definition CanonicalEmail :: "string \<Rightarrow> string" where
  "CanonicalEmail email = to_lower (trim_space email)"

definition CanonicalUsername :: "string \<Rightarrow> string" where
  "CanonicalUsername username = to_lower (trim_space username)"

lemma CanonicalEmail_idem [simp]: "CanonicalEmail (CanonicalEmail e) = CanonicalEmail e"
  by (simp add: CanonicalEmail_def trim_space_lower)

text \<open>PostgreSQL's \<open>btrim\<close> removes spaces only.\<close>

definition btrim :: "string \<Rightarrow> string" where
  "btrim s = rev (dropWhile (\<lambda>c. c = CHR '' '') (rev (dropWhile (\<lambda>c. c = CHR '' '') s)))"

lemma dropWhile_subset: "(\<And>c. P c \<Longrightarrow> Q c) \<Longrightarrow> dropWhile Q s = s \<Longrightarrow> dropWhile P s = s"
  using dropWhile_hd [of Q s] by (cases s) auto

lemma trim_space_ends:
  "dropWhile is_space (trim_space s) = trim_space s"
  "dropWhile is_space (rev (trim_space s)) = rev (trim_space s)"
proof -
  show "dropWhile is_space (rev (trim_space s)) = rev (trim_space s)"
    by (simp add: trim_space_def)
  have "trim_space s = [] \<or> \<not> is_space (hd (trim_space s))"
    unfolding trim_space_def by (rule dropWhile_rev_hd) (rule dropWhile_hd)
  then show "dropWhile is_space (trim_space s) = trim_space s" by (rule dropWhile_eq_self)
qed

lemma btrim_trim_space [simp]: "btrim (trim_space s) = trim_space s"
proof -
  have sp: "c = CHR '' '' \<Longrightarrow> is_space c" for c by (simp add: is_space_def)
  show ?thesis
    by (simp add: btrim_def dropWhile_subset [OF sp trim_space_ends(1)]
        dropWhile_subset [OF sp trim_space_ends(2)])
qed

text \<open>The table's check \<open>email = lower(btrim(email))\<close> never fails on a canonical address.\<close>

lemma canonical_email_check: "to_lower (btrim (CanonicalEmail e)) = CanonicalEmail e"
  by (simp add: CanonicalEmail_def trim_space_lower [symmetric])

section \<open>Users\<close>

definition too_long :: "nat \<Rightarrow> string \<Rightarrow> bool" where
  "too_long n s \<longleftrightarrow> varchar n s = None"

definition fit :: "nat \<Rightarrow> string \<Rightarrow> string" where
  "fit n s = (case varchar n s of None \<Rightarrow> s | Some s' \<Rightarrow> s')"

lemma fit_short [simp]: "length s \<le> n \<Longrightarrow> fit n s = s"
  by (simp add: fit_def)

lemma too_long_short [simp]: "length s \<le> n \<Longrightarrow> \<not> too_long n s"
  by (simp add: too_long_def)

definition ConstraintUserEmail :: string where
  "ConstraintUserEmail = ''unique_user_email''"
definition ConstraintUserUsername :: string where
  "ConstraintUserUsername = ''unique_user_username''"
definition ConstraintAllowedEmailEmail :: string where
  "ConstraintAllowedEmailEmail = ''unique_allowed_email''"
definition ConstraintPersonalOrgUser :: string where
  "ConstraintPersonalOrgUser = ''unique_personal_org_created_by_user''"
definition ConstraintSingleOwner :: string where
  "ConstraintSingleOwner = ''organization_memberships_single_owner''"

definition CreateUser :: "env \<Rightarrow> user \<Rightarrow> user M" where
  "CreateUser E new = exec E (\<lambda>t u d.
     let name = fit 255 (usr_username new); norm = fit 255 (CanonicalUsername (usr_username new));
         email = fit 255 (CanonicalEmail (usr_email new))
     in if too_long 255 (usr_username new) \<or> too_long 255 (CanonicalUsername (usr_username new))
          \<or> too_long 255 (CanonicalEmail (usr_email new)) then Inl ValueTooLong
        else if email \<noteq> to_lower (btrim email) \<or> norm \<noteq> to_lower (btrim name) then Inl CheckViolation
        else if u \<in> usr_id ` set (users d) then Inl (UniqueViolation ''users_pkey'')
        else if email \<in> usr_email ` set (users d) then Inl (UniqueViolation ConstraintUserEmail)
        else if norm \<in> (\<lambda>r. to_lower (btrim (usr_username r))) ` set (users d)
          then Inl (UniqueViolation ConstraintUserUsername)
        else let r = \<lparr>usr_id = u, usr_created_at = t, usr_updated_at = t,
                 usr_disabled_at = usr_disabled_at new, usr_email = email,
                 usr_email_verified_at = usr_email_verified_at new, usr_username = name\<rparr>
          in Inr (r, d\<lparr>users := users d @ [r]\<rparr>))"

definition GetUserByID :: "env \<Rightarrow> uuid \<Rightarrow> user M" where
  "GetUserByID E userID = query_row E ErrUserNotFound (\<lambda>d. find (\<lambda>r. usr_id r = userID) (users d))"

definition GetUserByIDForUpdate :: "env \<Rightarrow> uuid \<Rightarrow> user M" where
  "GetUserByIDForUpdate E userID =
     query_row E ErrUserNotFound (\<lambda>d. find (\<lambda>r. usr_id r = userID) (users d))"

definition LockUserForKeyShare :: "env \<Rightarrow> uuid \<Rightarrow> unit M" where
  "LockUserForKeyShare E userID = query_row E ErrUserNotFound
     (\<lambda>d. map_option (\<lambda>_. ()) (find (\<lambda>r. usr_id r = userID) (users d)))"

definition LockUserForUpdate :: "env \<Rightarrow> uuid \<Rightarrow> unit M" where
  "LockUserForUpdate E userID = query_row E ErrUserNotFound
     (\<lambda>d. map_option (\<lambda>_. ()) (find (\<lambda>r. usr_id r = userID) (users d)))"

definition GetUserByEmail :: "env \<Rightarrow> string \<Rightarrow> user M" where
  "GetUserByEmail E email =
     query_row E ErrUserNotFound (\<lambda>d. find (\<lambda>r. usr_email r = CanonicalEmail email) (users d))"

text \<open>Two rows may match; the statement does not say which comes first.\<close>

definition GetUserByEmailOrUsername :: "env \<Rightarrow> string \<Rightarrow> user M" where
  "GetUserByEmailOrUsername E q = query_row E ErrUserNotFound (\<lambda>d.
     find (\<lambda>r. usr_email r = CanonicalEmail q
             \<or> to_lower (btrim (usr_username r)) = CanonicalUsername q) (users d))"

definition UserExistsByEmail :: "env \<Rightarrow> string \<Rightarrow> bool M" where
  "UserExistsByEmail E email =
     query E (\<lambda>d. list_ex (\<lambda>r. usr_email r = CanonicalEmail email) (users d))"

text \<open>\<open>trg_cancel_email_changes_for_disabled_user\<close> fires when \<open>disabled_at\<close> leaves NULL.\<close>

definition DisableUser :: "env \<Rightarrow> uuid \<Rightarrow> time \<Rightarrow> unit M" where
  "DisableUser E userID disabledAt = require_affected ErrUserNotFound (exec_count E (\<lambda>t d.
     let hit = (\<lambda>r. usr_id r = userID);
         enabled = list_ex (\<lambda>r. hit r \<and> usr_disabled_at r = None) (users d)
     in (count_where hit (users d),
         d\<lparr>users := upd_where hit
              (\<lambda>r. r\<lparr>usr_disabled_at := Some disabledAt, usr_updated_at := t\<rparr>) (users d),
           pending_email_changes :=
             (if enabled then del_where (\<lambda>p. pe_user p = userID) (pending_email_changes d)
              else pending_email_changes d)\<rparr>)))"

definition EnableUser :: "env \<Rightarrow> uuid \<Rightarrow> unit M" where
  "EnableUser E userID = require_affected ErrUserNotFound (exec_count E (\<lambda>t d.
     (count_where (\<lambda>r. usr_id r = userID) (users d),
      d\<lparr>users := upd_where (\<lambda>r. usr_id r = userID)
           (\<lambda>r. r\<lparr>usr_disabled_at := None, usr_updated_at := t\<rparr>) (users d)\<rparr>)))"

definition IsUserDisabled :: "env \<Rightarrow> uuid \<Rightarrow> bool M" where
  "IsUserDisabled E userID =
     query E (\<lambda>d. list_ex (\<lambda>r. usr_id r = userID \<and> usr_disabled_at r \<noteq> None) (users d))"

definition CountUsers :: "env \<Rightarrow> nat M" where
  "CountUsers E = query E (\<lambda>d. length (users d))"

definition CountUsersCreatedSince :: "env \<Rightarrow> time \<Rightarrow> nat M" where
  "CountUsersCreatedSince E since = query E (\<lambda>d. count_where (\<lambda>r. since \<le> usr_created_at r) (users d))"

definition CountDisabledUsers :: "env \<Rightarrow> nat M" where
  "CountDisabledUsers E = query E (\<lambda>d. count_where (\<lambda>r. usr_disabled_at r \<noteq> None) (users d))"

definition UpdateUsername :: "env \<Rightarrow> uuid \<Rightarrow> string \<Rightarrow> unit M" where
  "UpdateUsername E userID username = require_affected ErrUserNotFound (exec E (\<lambda>t u d.
     let name = fit 255 username; norm = fit 255 (CanonicalUsername username);
         hit = (\<lambda>r. usr_id r = userID)
     in if too_long 255 username \<or> too_long 255 (CanonicalUsername username) then Inl ValueTooLong
        else if list_ex hit (users d) \<and> norm \<noteq> to_lower (btrim name) then Inl CheckViolation
        else if list_ex hit (users d)
             \<and> list_ex (\<lambda>r. \<not> hit r \<and> to_lower (btrim (usr_username r)) = norm) (users d)
          then Inl (UniqueViolation ConstraintUserUsername)
        else Inr (count_where hit (users d),
          d\<lparr>users := upd_where hit (\<lambda>r. r\<lparr>usr_username := name, usr_updated_at := t\<rparr>) (users d)\<rparr>)))"

definition MarkUserEmailVerified :: "env \<Rightarrow> uuid \<Rightarrow> string \<Rightarrow> time \<Rightarrow> bool M" where
  "MarkUserEmailVerified E userID email verifiedAt =
     bnd (exec_count E (\<lambda>t d.
       let hit = (\<lambda>r. usr_id r = userID \<and> usr_email r = CanonicalEmail email)
       in (count_where hit (users d),
           d\<lparr>users := upd_where hit
                (\<lambda>r. r\<lparr>usr_email_verified_at := Some verifiedAt, usr_updated_at := t\<rparr>) (users d)\<rparr>)))
       (\<lambda>affected. ret (affected = 1))"

section \<open>Platform roles\<close>

definition GetUserPlatformRoleNames :: "env \<Rightarrow> uuid \<Rightarrow> string list M" where
  "GetUserPlatformRoleNames E userID =
     query E (\<lambda>d. sort (map snd (filter (\<lambda>p. fst p = userID) (user_roles d))))"

definition UserHasPlatformRole :: "env \<Rightarrow> uuid \<Rightarrow> string \<Rightarrow> bool M" where
  "UserHasPlatformRole E userID roleName =
     query E (\<lambda>d. list_ex (\<lambda>p. fst p = userID \<and> snd p = roleName) (user_roles d))"

definition CountUsersWithRole :: "env \<Rightarrow> string \<Rightarrow> nat M" where
  "CountUsersWithRole E roleName = query E (\<lambda>d. count_where
     (\<lambda>p. snd p = roleName \<and> list_ex (\<lambda>r. usr_id r = fst p) (users d)) (user_roles d))"

definition CountActiveUsersWithRole :: "env \<Rightarrow> string \<Rightarrow> nat M" where
  "CountActiveUsersWithRole E roleName = query E (\<lambda>d. count_where
     (\<lambda>p. snd p = roleName \<and> list_ex (\<lambda>r. usr_id r = fst p \<and> usr_disabled_at r = None) (users d))
     (user_roles d))"

section \<open>Allowlist\<close>

definition store_IsEmailAllowed :: "env \<Rightarrow> string \<Rightarrow> bool M" where
  "store_IsEmailAllowed E email = query E (\<lambda>d. email \<in> al_email ` set (allowed_emails d))"

definition add_allowed_email :: "time \<Rightarrow> uuid \<Rightarrow> string \<Rightarrow> db \<Rightarrow> db" where
  "add_allowed_email t u email d = d\<lparr>allowed_emails := allowed_emails d @
     [\<lparr>al_id = u, al_created_at = t, al_updated_at = t, al_email = email\<rparr>]\<rparr>"

definition CreateAllowedEmail :: "env \<Rightarrow> string \<Rightarrow> unit M" where
  "CreateAllowedEmail E email = map_err
     (\<lambda>e. if is_unique_violation e ConstraintAllowedEmailEmail then EStore ErrAllowedEmailAlreadyExists
          else e)
     (exec E (\<lambda>t u d.
       let em = CanonicalEmail email in
       if too_long 255 em then Inl ValueTooLong
       else if u \<in> al_id ` set (allowed_emails d) then Inl (UniqueViolation ''allowed_emails_pkey'')
       else if fit 255 em \<in> al_email ` set (allowed_emails d) then Inl (UniqueViolation ConstraintAllowedEmailEmail)
       else Inr ((), add_allowed_email t u (fit 255 em) d)))"

definition EnsureAllowedEmail :: "env \<Rightarrow> string \<Rightarrow> unit M" where
  "EnsureAllowedEmail E email =
     (let em = CanonicalEmail email in
      if em = '''' then ret ()
      else exec E (\<lambda>t u d.
        if too_long 255 em then Inl ValueTooLong
        else if fit 255 em \<in> al_email ` set (allowed_emails d) then Inr ((), d)
        else if u \<in> al_id ` set (allowed_emails d) then Inl (UniqueViolation ''allowed_emails_pkey'')
        else Inr ((), add_allowed_email t u (fit 255 em) d)))"

definition DeleteAllowedEmail :: "env \<Rightarrow> string \<Rightarrow> unit M" where
  "DeleteAllowedEmail E email = require_affected ErrAllowedEmailNotFound (exec_count E (\<lambda>t d.
     (count_where (\<lambda>r. al_email r = email) (allowed_emails d),
      d\<lparr>allowed_emails := del_where (\<lambda>r. al_email r = email) (allowed_emails d)\<rparr>)))"

section \<open>Passkeys\<close>

definition GetPasskeyByID :: "env \<Rightarrow> uuid \<Rightarrow> passkey M" where
  "GetPasskeyByID E passkeyID =
     query_row E ErrPasskeyNotFound (\<lambda>d. find (\<lambda>r. pk_id r = passkeyID) (passkeys d))"

section \<open>Organizations\<close>

definition normalizeOrganizationName :: "string \<Rightarrow> err + string" where
  "normalizeOrganizationName name =
     (let n = trim_space name in
      if n = '''' then Inl (EStore ErrInvalidOrganizationName) else Inr n)"

text \<open>The constraints of \<open>INSERT INTO organizations (name, kind, created_by_user_id)\<close>.\<close>

definition insert_organization ::
  "string \<Rightarrow> string \<Rightarrow> uuid option \<Rightarrow> time \<Rightarrow> uuid \<Rightarrow> db \<Rightarrow> sql_error + (organization \<times> db)" where
  "insert_organization name kind createdBy t u d =
     (if too_long 255 name \<or> too_long 50 kind then Inl ValueTooLong
      else if btrim (fit 255 name) = '''' \<or> kind \<notin> {OrganizationKindPersonal, OrganizationKindTeam}
        then Inl CheckViolation
      else if u \<in> org_id ` set (organizations d) then Inl (UniqueViolation ''organizations_pkey'')
      else if kind = OrganizationKindPersonal \<and> createdBy \<noteq> None
           \<and> list_ex (\<lambda>o'. org_kind o' = OrganizationKindPersonal \<and> org_created_by o' = createdBy)
               (organizations d)
        then Inl (UniqueViolation ConstraintPersonalOrgUser)
      else if (case createdBy of None \<Rightarrow> False | Some c \<Rightarrow> c \<notin> usr_id ` set (users d))
        then Inl ForeignKeyViolation
      else let row = \<lparr>org_id = u, org_created_at = t, org_updated_at = t, org_name = fit 255 name,
                 org_kind = kind, org_created_by = createdBy\<rparr>
        in Inr (row, d\<lparr>organizations := organizations d @ [row]\<rparr>))"

definition CreateOrganization :: "env \<Rightarrow> organization \<Rightarrow> organization M" where
  "CreateOrganization E org = (case normalizeOrganizationName (org_name org) of
       Inl e \<Rightarrow> fail e
     | Inr name \<Rightarrow> exec E (insert_organization name (org_kind org) (org_created_by org)))"

definition GetOrganizationByID :: "env \<Rightarrow> uuid \<Rightarrow> organization M" where
  "GetOrganizationByID E organizationID =
     query_row E ErrOrganizationNotFound (\<lambda>d. find (\<lambda>r. org_id r = organizationID) (organizations d))"

definition GetOrganizationByIDForUpdate :: "env \<Rightarrow> uuid \<Rightarrow> organization M" where
  "GetOrganizationByIDForUpdate E organizationID =
     query_row E ErrOrganizationNotFound (\<lambda>d. find (\<lambda>r. org_id r = organizationID) (organizations d))"

definition LockOrganizationForKeyShare :: "env \<Rightarrow> uuid \<Rightarrow> unit M" where
  "LockOrganizationForKeyShare E organizationID = query_row E ErrOrganizationNotFound
     (\<lambda>d. map_option (\<lambda>_. ()) (find (\<lambda>r. org_id r = organizationID) (organizations d)))"

definition UpdateOrganizationName :: "env \<Rightarrow> uuid \<Rightarrow> string \<Rightarrow> organization M" where
  "UpdateOrganizationName E organizationID name = (case normalizeOrganizationName name of
       Inl e \<Rightarrow> fail e
     | Inr n \<Rightarrow> bnd (exec E (\<lambda>t u d.
         if too_long 255 n then Inl ValueTooLong
         else let d' = d\<lparr>organizations := upd_where (\<lambda>r. org_id r = organizationID)
                    (\<lambda>r. r\<lparr>org_name := fit 255 n, org_updated_at := t\<rparr>) (organizations d)\<rparr>
           in Inr (find (\<lambda>r. org_id r = organizationID) (organizations d'), d')))
         (of_option (EStore ErrOrganizationNotFound)))"

definition known_org_roles :: "string list" where
  "known_org_roles = [OrganizationRoleOwner, OrganizationRoleAdmin, OrganizationRoleMember]"

definition insert_membership ::
  "uuid \<Rightarrow> uuid \<Rightarrow> string \<Rightarrow> time \<Rightarrow> db \<Rightarrow> sql_error + (membership \<times> db)" where
  "insert_membership organizationID userID role t d =
     (if too_long 50 role then Inl ValueTooLong
      else if role \<notin> set known_org_roles then Inl CheckViolation
      else if list_ex (\<lambda>m. mem_org m = organizationID \<and> mem_user m = userID) (memberships d)
        then Inl (UniqueViolation ''organization_memberships_pkey'')
      else if role = OrganizationRoleOwner
           \<and> list_ex (\<lambda>m. mem_org m = organizationID \<and> mem_role m = OrganizationRoleOwner) (memberships d)
        then Inl (UniqueViolation ConstraintSingleOwner)
      else if organizationID \<notin> org_id ` set (organizations d) \<or> userID \<notin> usr_id ` set (users d)
        then Inl ForeignKeyViolation
      else let row = \<lparr>mem_org = organizationID, mem_user = userID, mem_role = role,
                 mem_created_at = t, mem_updated_at = t\<rparr>
        in Inr (row, d\<lparr>memberships := memberships d @ [row]\<rparr>))"

definition CreateOrganizationMembership :: "env \<Rightarrow> membership \<Rightarrow> membership M" where
  "CreateOrganizationMembership E m =
     exec E (\<lambda>t u d. insert_membership (mem_org m) (mem_user m) (mem_role m) t d)"

definition find_membership :: "uuid \<Rightarrow> uuid \<Rightarrow> db \<Rightarrow> membership option" where
  "find_membership organizationID userID d =
     find (\<lambda>m. mem_org m = organizationID \<and> mem_user m = userID) (memberships d)"

definition GetOrganizationMembership :: "env \<Rightarrow> uuid \<Rightarrow> uuid \<Rightarrow> membership M" where
  "GetOrganizationMembership E organizationID userID =
     query_row E ErrOrganizationMembershipNotFound (find_membership organizationID userID)"

definition UpdateOrganizationMembershipRole :: "env \<Rightarrow> uuid \<Rightarrow> uuid \<Rightarrow> string \<Rightarrow> membership M" where
  "UpdateOrganizationMembershipRole E organizationID userID role = bnd (exec E (\<lambda>t u d.
       let hit = (\<lambda>m. mem_org m = organizationID \<and> mem_user m = userID) in
       if too_long 50 role then Inl ValueTooLong
       else if list_ex hit (memberships d) \<and> role \<notin> set known_org_roles then Inl CheckViolation
       else if list_ex hit (memberships d) \<and> role = OrganizationRoleOwner
            \<and> list_ex (\<lambda>m. \<not> hit m \<and> mem_org m = organizationID \<and> mem_role m = OrganizationRoleOwner)
                (memberships d)
         then Inl (UniqueViolation ConstraintSingleOwner)
       else let d' = d\<lparr>memberships := upd_where hit
                  (\<lambda>m. m\<lparr>mem_role := role, mem_updated_at := t\<rparr>) (memberships d)\<rparr>
         in Inr (find hit (memberships d'), d')))
     (of_option (EStore ErrOrganizationMembershipNotFound))"

text \<open>
  A membership that a session still names as its active organization cannot be deleted
  (\<open>fk_sessions_active_organization_membership\<close>).
\<close>

definition DeleteOrganizationMembership :: "env \<Rightarrow> uuid \<Rightarrow> uuid \<Rightarrow> unit M" where
  "DeleteOrganizationMembership E organizationID userID =
     require_affected ErrOrganizationMembershipNotFound (exec E (\<lambda>t u d.
       let hit = (\<lambda>m. mem_org m = organizationID \<and> mem_user m = userID) in
       if list_ex hit (memberships d)
          \<and> list_ex (\<lambda>r. ses_org r = organizationID \<and> ses_user r = userID) (sessions d)
       then Inl ForeignKeyViolation
       else Inr (count_where hit (memberships d),
              d\<lparr>memberships := del_where hit (memberships d)\<rparr>)))"

definition ListOrganizationMembershipsByOrganizationID :: "env \<Rightarrow> uuid \<Rightarrow> membership list M" where
  "ListOrganizationMembershipsByOrganizationID E organizationID = query E (\<lambda>d.
     sort_key (\<lambda>m. (mem_created_at m, mem_user m))
       (filter (\<lambda>m. mem_org m = organizationID) (memberships d)))"

definition ListOrganizationMembershipsByUserID :: "env \<Rightarrow> uuid \<Rightarrow> membership list M" where
  "ListOrganizationMembershipsByUserID E userID = query E (\<lambda>d.
     sort_key (\<lambda>m. (mem_created_at m, mem_org m)) (filter (\<lambda>m. mem_user m = userID) (memberships d)))"

definition personal_organizations :: "uuid \<Rightarrow> db \<Rightarrow> (organization \<times> membership) list" where
  "personal_organizations userID d =
     concat (map (\<lambda>r. map (\<lambda>m. (r, m))
         (filter (\<lambda>m. mem_org m = org_id r \<and> mem_user m = userID) (memberships d)))
       (sort_key org_created_at
         (filter (\<lambda>r. org_kind r = OrganizationKindPersonal \<and> org_created_by r = Some userID)
           (organizations d))))"

definition GetPersonalOrganizationForUser :: "env \<Rightarrow> uuid \<Rightarrow> (organization \<times> membership) M" where
  "GetPersonalOrganizationForUser E userID = query_row E ErrOrganizationNotFound
     (\<lambda>d. case personal_organizations userID d of [] \<Rightarrow> None | p # _ \<Rightarrow> Some p)"

definition ensureOwnerMembership ::
  "env \<Rightarrow> organization \<Rightarrow> uuid \<Rightarrow> (organization \<times> membership) M" where
  "ensureOwnerMembership E org userID =
     bnd (exec E (\<lambda>t u d.
       if list_ex (\<lambda>m. mem_org m = org_id org \<and> mem_user m = userID) (memberships d) then Inr ((), d)
       else (case insert_membership (org_id org) userID OrganizationRoleOwner t d of
           Inl e \<Rightarrow> Inl e | Inr (_, d') \<Rightarrow> Inr ((), d'))))
     (\<lambda>_. bnd (GetOrganizationMembership E (org_id org) userID) (\<lambda>m. ret (org, m)))"

definition EnsureOrganizationForUserWithCreated ::
  "env \<Rightarrow> uuid \<Rightarrow> string \<Rightarrow> string \<Rightarrow> (organization \<times> membership \<times> bool) M" where
  "EnsureOrganizationForUserWithCreated E userID name0 kind =
     (case normalizeOrganizationName name0 of
        Inl e \<Rightarrow> fail e
      | Inr name \<Rightarrow>
          let finish = (\<lambda>org created. bnd (ensureOwnerMembership E org userID)
                (\<lambda>(o', m). ret (o', m, created)));
              lookup = bnd (query E (\<lambda>d. find (\<lambda>r. org_kind r = kind \<and> org_created_by r = Some userID)
                    (organizations d)))
                (\<lambda>found. case found of
                   Some org \<Rightarrow> finish org False
                 | None \<Rightarrow> bnd (exec E (insert_organization name kind (Some userID)))
                     (\<lambda>org. finish org True))
          in if kind = OrganizationKindPersonal
             then bnd (exec E (\<lambda>t u d.
                 case insert_organization name kind (Some userID) t u d of
                   Inl e \<Rightarrow> if e = UniqueViolation ConstraintPersonalOrgUser then Inr (None, d) else Inl e
                 | Inr (row, d') \<Rightarrow> Inr (Some row, d')))
               (\<lambda>r. case r of Some org \<Rightarrow> finish org True | None \<Rightarrow> lookup)
             else lookup)"

section \<open>What the operations keep\<close>

text \<open>
  The tables an operation can touch, as the obligations of \<open>keeps\<close>: a property of the
  database that does not look at a table is kept by the operations on that table.
\<close>

lemma keeps_identity_reads [keeps_intro]:
  "keeps J (GetUserByID E i)" "keeps J (GetUserByIDForUpdate E i)"
  "keeps J (LockUserForKeyShare E i)" "keeps J (LockUserForUpdate E i)"
  "keeps J (GetUserByEmail E em)" "keeps J (GetUserByEmailOrUsername E em)"
  "keeps J (UserExistsByEmail E em)" "keeps J (IsUserDisabled E i)"
  "keeps J (GetUserPlatformRoleNames E i)" "keeps J (store_IsEmailAllowed E em)"
  "keeps J (GetPasskeyByID E i)" "keeps J (GetOrganizationByID E i)"
  "keeps J (GetOrganizationByIDForUpdate E i)" "keeps J (LockOrganizationForKeyShare E i)"
  "keeps J (GetOrganizationMembership E i u)" "keeps J (ListOrganizationMembershipsByUserID E u)"
  "keeps J (ListOrganizationMembershipsByOrganizationID E i)"
  "keeps J (GetPersonalOrganizationForUser E u)"
  by (simp_all add: GetUserByID_def GetUserByIDForUpdate_def LockUserForKeyShare_def
      LockUserForUpdate_def GetUserByEmail_def GetUserByEmailOrUsername_def UserExistsByEmail_def
      IsUserDisabled_def GetUserPlatformRoleNames_def store_IsEmailAllowed_def GetPasskeyByID_def
      GetOrganizationByID_def GetOrganizationByIDForUpdate_def LockOrganizationForKeyShare_def
      GetOrganizationMembership_def ListOrganizationMembershipsByUserID_def
      ListOrganizationMembershipsByOrganizationID_def GetPersonalOrganizationForUser_def keeps_intro)

end
