(* ===== verification/Store_Session.thy ===== *)
theory Store_Session
  imports Store_Identity
begin

text \<open>
  The store's operations on sessions, refresh tokens and authentication challenges
  (\<open>internal/store/sessions.go\<close>, \<open>authentication_challenges.go\<close>), with the
  constraints, the cascades and the trigger of the migrations, and the well-formedness
  invariant of these tables.
\<close>

section \<open>Constraints, cascade and trigger\<close>

text \<open>\<open>chk_sessions_authentication_provenance\<close>; the empty method is SQL NULL.\<close>

definition provenance_ok :: "time option \<Rightarrow> string \<Rightarrow> bool" where
  "provenance_ok authenticatedAt method =
     (case authenticatedAt of None \<Rightarrow> method = '''' | Some _ \<Rightarrow> method \<in> set known_methods)"

definition session_membership_ok :: "uuid \<Rightarrow> uuid \<Rightarrow> db \<Rightarrow> bool" where
  "session_membership_ok organizationID userID d \<longleftrightarrow>
     organizationID \<in> org_id ` set (organizations d) \<and> userID \<in> usr_id ` set (users d)
     \<and> find_membership organizationID userID d \<noteq> None"

text \<open>\<open>ON DELETE CASCADE\<close> from \<open>sessions\<close>.\<close>

definition cascade_sessions :: "(session \<Rightarrow> bool) \<Rightarrow> db \<Rightarrow> db" where
  "cascade_sessions p d =
     (let gone = (\<lambda>i. list_ex (\<lambda>r. p r \<and> ses_id r = i) (sessions d))
      in d\<lparr>sessions := del_where p (sessions d),
           refresh_tokens := del_where (\<lambda>r. gone (rt_session r)) (refresh_tokens d),
           auth_challenges := del_where (\<lambda>r. gone (ac_session r)) (auth_challenges d),
           pending_email_changes := del_where (\<lambda>r. gone (pe_session r)) (pending_email_changes d),
           email_verifications := del_where (\<lambda>r. gone (ev_session r)) (email_verifications d),
           webauthn_challenges := del_where (\<lambda>r. case wc_session r of None \<Rightarrow> False | Some i \<Rightarrow> gone i)
             (webauthn_challenges d),
           provider_links := del_where (\<lambda>r. case pl_session r of None \<Rightarrow> False | Some i \<Rightarrow> gone i)
             (provider_links d)\<rparr>)"

text \<open>
  \<open>UPDATE sessions SET revoked_at\<close>, with
  \<open>trg_cancel_email_changes_for_revoked_session\<close> for the rows whose
  \<open>revoked_at\<close> leaves NULL.
\<close>

definition revoke_sessions :: "(session \<Rightarrow> bool) \<Rightarrow> time \<Rightarrow> time \<Rightarrow> db \<Rightarrow> db" where
  "revoke_sessions p revokedAt now d = d\<lparr>
     sessions := upd_where p
       (\<lambda>r. r\<lparr>ses_revoked_at := Some revokedAt, ses_updated_at := now\<rparr>) (sessions d),
     pending_email_changes := del_where
       (\<lambda>e. list_ex (\<lambda>r. p r \<and> ses_revoked_at r = None \<and> ses_id r = pe_session e) (sessions d))
       (pending_email_changes d)\<rparr>"

section \<open>Sessions\<close>

definition store_CreateSession :: "env \<Rightarrow> session \<Rightarrow> session M" where
  "store_CreateSession E new = exec E (\<lambda>t u d.
     if too_long 255 (ses_user_agent new) \<or> too_long 32 (ses_method new) then Inl ValueTooLong
     else if \<not> provenance_ok (ses_authenticated_at new) (ses_method new) then Inl CheckViolation
     else if u \<in> ses_id ` set (sessions d) then Inl (UniqueViolation ''sessions_pkey'')
     else if \<not> session_membership_ok (ses_org new) (ses_user new) d then Inl ForeignKeyViolation
     else let row = new\<lparr>ses_id := u, ses_created_at := t, ses_updated_at := t,
                ses_user_agent := fit 255 (ses_user_agent new)\<rparr>
       in Inr (row, d\<lparr>sessions := sessions d @ [row]\<rparr>))"

definition UpdateSessionAuthentication ::
  "env \<Rightarrow> uuid \<Rightarrow> uuid \<Rightarrow> string \<Rightarrow> time \<Rightarrow> unit M" where
  "UpdateSessionAuthentication E userID sessionID method authenticatedAt =
     require_affected ErrSessionNotFound (exec E (\<lambda>t u d.
       let hit = (\<lambda>r. ses_id r = sessionID \<and> ses_user r = userID \<and> ses_revoked_at r = None
                     \<and> authenticatedAt < ses_expires_at r)
       in if list_ex hit (sessions d) \<and> \<not> provenance_ok (Some authenticatedAt) method
          then Inl CheckViolation
          else Inr (count_where hit (sessions d),
            d\<lparr>sessions := upd_where hit (\<lambda>r. r\<lparr>ses_authenticated_at := Some authenticatedAt,
                 ses_method := method, ses_updated_at := t\<rparr>) (sessions d)\<rparr>)))"

definition find_session :: "uuid \<Rightarrow> db \<Rightarrow> session option" where
  "find_session sessionID d = find (\<lambda>r. ses_id r = sessionID) (sessions d)"

definition GetSessionByID :: "env \<Rightarrow> uuid \<Rightarrow> session M" where
  "GetSessionByID E sessionID = query_row E ErrSessionNotFound (find_session sessionID)"

definition UpdateSessionActiveOrganization :: "env \<Rightarrow> uuid \<Rightarrow> uuid \<Rightarrow> unit M" where
  "UpdateSessionActiveOrganization E sessionID organizationID =
     require_affected ErrSessionNotFound (exec E (\<lambda>t u d.
       let hit = (\<lambda>r. ses_id r = sessionID \<and> ses_revoked_at r = None)
       in if list_ex (\<lambda>r. hit r \<and> \<not> session_membership_ok organizationID (ses_user r) d) (sessions d)
          then Inl ForeignKeyViolation
          else Inr (count_where hit (sessions d),
            d\<lparr>sessions := upd_where hit
                (\<lambda>r. r\<lparr>ses_org := organizationID, ses_updated_at := t\<rparr>) (sessions d)\<rparr>)))"

definition store_RevokeSession :: "env \<Rightarrow> uuid \<Rightarrow> time \<Rightarrow> unit M" where
  "store_RevokeSession E sessionID revokedAt =
     exec_upd E (revoke_sessions (\<lambda>r. ses_id r = sessionID) revokedAt)"

definition RevokeAllSessionsForUser :: "env \<Rightarrow> uuid \<Rightarrow> time \<Rightarrow> unit M" where
  "RevokeAllSessionsForUser E userID revokedAt =
     exec_upd E (revoke_sessions (\<lambda>r. ses_user r = userID \<and> ses_revoked_at r = None) revokedAt)"

definition is_active :: "time \<Rightarrow> session \<Rightarrow> bool" where
  "is_active now r \<longleftrightarrow> ses_revoked_at r = None \<and> now < ses_expires_at r"

definition CountActiveSessions :: "env \<Rightarrow> time \<Rightarrow> nat M" where
  "CountActiveSessions E now = query E (\<lambda>d. count_where (is_active now) (sessions d))"

definition CountActiveSessionsByUserID :: "env \<Rightarrow> uuid \<Rightarrow> time \<Rightarrow> nat M" where
  "CountActiveSessionsByUserID E userID now =
     query E (\<lambda>d. count_where (\<lambda>r. ses_user r = userID \<and> is_active now r) (sessions d))"

section \<open>Refresh tokens\<close>

definition CreateRefreshToken :: "env \<Rightarrow> refresh_token \<Rightarrow> unit M" where
  "CreateRefreshToken E new = exec E (\<lambda>t u d.
     if too_long 512 (rt_hash new) then Inl ValueTooLong
     else if u \<in> rt_id ` set (refresh_tokens d) then Inl (UniqueViolation ''refresh_tokens_pkey'')
     else if fit 512 (rt_hash new) \<in> rt_hash ` set (refresh_tokens d)
       then Inl (UniqueViolation ''refresh_tokens_token_hash_key'')
     else if find_session (rt_session new) d = None
          \<or> rt_org new \<notin> org_id ` set (organizations d) then Inl ForeignKeyViolation
     else Inr ((), d\<lparr>refresh_tokens := refresh_tokens d @
            [new\<lparr>rt_id := u, rt_hash := fit 512 (rt_hash new),
                 rt_created_at := (if rt_created_at new = zero_time then t else rt_created_at new)\<rparr>]\<rparr>))"

definition find_token :: "string \<Rightarrow> db \<Rightarrow> refresh_token option" where
  "find_token h d = find (\<lambda>r. rt_hash r = h) (refresh_tokens d)"

definition GetRefreshTokenByHash :: "env \<Rightarrow> string \<Rightarrow> refresh_token M" where
  "GetRefreshTokenByHash E h = query_row E ErrRefreshTokenNotFound (find_token h)"

definition GetRefreshTokenByHashForUpdate :: "env \<Rightarrow> string \<Rightarrow> refresh_token M" where
  "GetRefreshTokenByHashForUpdate E h = query_row E ErrRefreshTokenNotFound (find_token h)"

definition ConsumeRefreshToken :: "env \<Rightarrow> uuid \<Rightarrow> time \<Rightarrow> unit M" where
  "ConsumeRefreshToken E tokenID consumedAt =
     require_affected ErrRefreshTokenNotFound (exec_count E (\<lambda>t d.
       let hit = (\<lambda>r. rt_id r = tokenID \<and> rt_consumed_at r = None)
       in (count_where hit (refresh_tokens d),
           d\<lparr>refresh_tokens := upd_where hit (\<lambda>r. r\<lparr>rt_consumed_at := Some consumedAt\<rparr>)
                (refresh_tokens d)\<rparr>)))"

definition DeleteRefreshTokensBySession :: "env \<Rightarrow> uuid \<Rightarrow> unit M" where
  "DeleteRefreshTokensBySession E sessionID = exec_upd E (\<lambda>t d.
     d\<lparr>refresh_tokens := del_where (\<lambda>r. rt_session r = sessionID) (refresh_tokens d)\<rparr>)"

definition DeleteSessionsByOrganizationMembership :: "env \<Rightarrow> uuid \<Rightarrow> uuid \<Rightarrow> unit M" where
  "DeleteSessionsByOrganizationMembership E organizationID userID =
     exec_upd E (\<lambda>t. cascade_sessions (\<lambda>r. ses_org r = organizationID \<and> ses_user r = userID))"

definition DeleteSessionsByOrganization :: "env \<Rightarrow> uuid \<Rightarrow> unit M" where
  "DeleteSessionsByOrganization E organizationID =
     exec_upd E (\<lambda>t. cascade_sessions (\<lambda>r. ses_org r = organizationID))"

section \<open>Batched clean-up\<close>

definition DeleteExpiredRefreshTokens :: "env \<Rightarrow> time \<Rightarrow> nat \<Rightarrow> nat M" where
  "DeleteExpiredRefreshTokens E now batchSize = exec_count E (\<lambda>t d.
     let ids = map rt_id (oldest (\<lambda>r. rt_expires_at r < now \<and> rt_consumed_at r = None)
           (\<lambda>r. (rt_expires_at r, rt_id r)) batchSize (refresh_tokens d));
         hit = (\<lambda>r. rt_id r \<in> set ids)
     in (count_where hit (refresh_tokens d),
         d\<lparr>refresh_tokens := del_where hit (refresh_tokens d)\<rparr>))"

definition DeleteExpiredSessions :: "env \<Rightarrow> time \<Rightarrow> nat \<Rightarrow> nat M" where
  "DeleteExpiredSessions E now batchSize = exec_count E (\<lambda>t d.
     let ids = map ses_id (oldest (\<lambda>r. ses_expires_at r < now)
           (\<lambda>r. (ses_expires_at r, ses_id r)) batchSize (sessions d));
         hit = (\<lambda>r. ses_id r \<in> set ids)
     in (count_where hit (sessions d), cascade_sessions hit d))"

definition DeleteRevokedSessions :: "env \<Rightarrow> nat \<Rightarrow> nat M" where
  "DeleteRevokedSessions E batchSize = exec_count E (\<lambda>t d.
     let ids = map ses_id (oldest (\<lambda>r. ses_revoked_at r \<noteq> None)
           (\<lambda>r. (case ses_revoked_at r of None \<Rightarrow> 0 | Some v \<Rightarrow> v, ses_id r)) batchSize (sessions d));
         hit = (\<lambda>r. ses_id r \<in> set ids)
     in (count_where hit (sessions d), cascade_sessions hit d))"

section \<open>Listing\<close>

definition ListActiveSessionsPageByUserID ::
  "env \<Rightarrow> uuid \<Rightarrow> time \<Rightarrow> (time \<times> uuid) option \<Rightarrow> nat \<Rightarrow> session list M" where
  "ListActiveSessionsPageByUserID E userID now cursor limit = query E (\<lambda>d.
     limit_nullif limit (rev (sort_key (\<lambda>r. (ses_created_at r, ses_id r))
       (filter (\<lambda>r. ses_user r = userID \<and> is_active now r
           \<and> (case cursor of None \<Rightarrow> True | Some c \<Rightarrow> (ses_created_at r, ses_id r) < c))
         (sessions d)))))"

definition ListActiveSessionsByUserID :: "env \<Rightarrow> uuid \<Rightarrow> time \<Rightarrow> session list M" where
  "ListActiveSessionsByUserID E userID now = ListActiveSessionsPageByUserID E userID now None 0"

definition ListSessionsByUserID :: "env \<Rightarrow> uuid \<Rightarrow> session list M" where
  "ListSessionsByUserID E userID = query E (\<lambda>d.
     sort_key (\<lambda>r. - ses_created_at r) (filter (\<lambda>r. ses_user r = userID) (sessions d)))"

definition ListSessionsPageByUserID :: "env \<Rightarrow> uuid \<Rightarrow> nat \<Rightarrow> nat \<Rightarrow> session list M" where
  "ListSessionsPageByUserID E userID limit offset = query E (\<lambda>d.
     take limit (drop offset (rev (sort_key (\<lambda>r. (ses_created_at r, ses_id r))
       (filter (\<lambda>r. ses_user r = userID) (sessions d))))))"

section \<open>Active sessions and bulk revocation\<close>

definition find_active :: "uuid \<Rightarrow> time \<Rightarrow> db \<Rightarrow> session option" where
  "find_active sessionID now d = find (\<lambda>r. ses_id r = sessionID \<and> is_active now r) (sessions d)"

definition GetActiveSessionByID :: "env \<Rightarrow> uuid \<Rightarrow> time \<Rightarrow> session M" where
  "GetActiveSessionByID E sessionID now = query_row E ErrSessionNotFound (find_active sessionID now)"

definition GetActiveSessionByIDForUpdate :: "env \<Rightarrow> uuid \<Rightarrow> time \<Rightarrow> session M" where
  "GetActiveSessionByIDForUpdate E sessionID now =
     query_row E ErrSessionNotFound (find_active sessionID now)"

definition RevokeOtherSessionsByUserID :: "env \<Rightarrow> uuid \<Rightarrow> uuid \<Rightarrow> time \<Rightarrow> unit M" where
  "RevokeOtherSessionsByUserID E userID keepSessionID revokedAt = exec_upd E (revoke_sessions
     (\<lambda>r. ses_user r = userID \<and> ses_id r \<noteq> keepSessionID \<and> ses_revoked_at r = None) revokedAt)"

definition RevokeSessionByIDAndUserID :: "env \<Rightarrow> uuid \<Rightarrow> uuid \<Rightarrow> time \<Rightarrow> unit M" where
  "RevokeSessionByIDAndUserID E sessionID userID revokedAt =
     require_affected ErrSessionNotFound (exec_count E (\<lambda>t d.
       let hit = (\<lambda>r. ses_id r = sessionID \<and> ses_user r = userID \<and> ses_revoked_at r = None)
       in (count_where hit (sessions d), revoke_sessions hit revokedAt t d)))"

definition RevokeAllActiveSessionsForUser :: "env \<Rightarrow> uuid \<Rightarrow> time \<Rightarrow> nat M" where
  "RevokeAllActiveSessionsForUser E userID revokedAt = exec_count E (\<lambda>t d.
     let hit = (\<lambda>r. ses_user r = userID \<and> ses_revoked_at r = None)
     in (count_where hit (sessions d), revoke_sessions hit revokedAt t d))"

definition DeleteRefreshTokensForOtherSessions :: "env \<Rightarrow> uuid \<Rightarrow> uuid \<Rightarrow> unit M" where
  "DeleteRefreshTokensForOtherSessions E userID keepSessionID = exec_upd E (\<lambda>t d.
     d\<lparr>refresh_tokens := del_where
        (\<lambda>r. list_ex (\<lambda>s. ses_user s = userID \<and> ses_id s \<noteq> keepSessionID \<and> ses_id s = rt_session r)
               (sessions d)) (refresh_tokens d)\<rparr>)"

definition DeleteRefreshTokensByUserID :: "env \<Rightarrow> uuid \<Rightarrow> unit M" where
  "DeleteRefreshTokensByUserID E userID = exec_upd E (\<lambda>t d.
     d\<lparr>refresh_tokens := del_where
        (\<lambda>r. list_ex (\<lambda>s. ses_user s = userID \<and> ses_id s = rt_session r) (sessions d))
        (refresh_tokens d)\<rparr>)"

section \<open>Authentication challenges\<close>

definition ac_is_consumed :: "authentication_challenge \<Rightarrow> bool" where
  "ac_is_consumed c \<longleftrightarrow> ac_consumed_at c \<noteq> None"

definition ac_is_expired :: "authentication_challenge \<Rightarrow> time \<Rightarrow> bool" where
  "ac_is_expired c now \<longleftrightarrow> ac_expires_at c \<le> now"

text \<open>\<open>INSERT ... ON CONFLICT (session_id) DO UPDATE\<close>.\<close>

definition ReplaceAuthenticationChallenge ::
  "env \<Rightarrow> authentication_challenge \<Rightarrow> authentication_challenge M" where
  "ReplaceAuthenticationChallenge E c = exec E (\<lambda>t u d.
     let row = c\<lparr>ac_consumed_at := None, ac_method := ''''\<rparr>;
         same = (\<lambda>r. ac_session r = ac_session c)
     in if ac_id c \<in> ac_id ` set (filter (\<lambda>r. \<not> same r) (auth_challenges d))
        then Inl (UniqueViolation ''authentication_challenges_pkey'')
        else if ac_user c \<notin> usr_id ` set (users d) \<or> find_session (ac_session c) d = None
        then Inl ForeignKeyViolation
        else if list_ex same (auth_challenges d)
        then Inr (row, d\<lparr>auth_challenges := upd_where same (\<lambda>_. row) (auth_challenges d)\<rparr>)
        else Inr (row, d\<lparr>auth_challenges := auth_challenges d @ [row]\<rparr>))"

definition find_auth_challenge :: "uuid \<Rightarrow> db \<Rightarrow> authentication_challenge option" where
  "find_auth_challenge challengeID d = find (\<lambda>r. ac_id r = challengeID) (auth_challenges d)"

definition GetAuthenticationChallengeByID :: "env \<Rightarrow> uuid \<Rightarrow> authentication_challenge M" where
  "GetAuthenticationChallengeByID E challengeID =
     query_row E ErrAuthenticationChallengeNotFound (find_auth_challenge challengeID)"

definition GetAuthenticationChallengeByIDForUpdate :: "env \<Rightarrow> uuid \<Rightarrow> authentication_challenge M" where
  "GetAuthenticationChallengeByIDForUpdate E challengeID =
     query_row E ErrAuthenticationChallengeNotFound (find_auth_challenge challengeID)"

definition GetAuthenticationChallengeBySessionIDForUpdate ::
  "env \<Rightarrow> uuid \<Rightarrow> authentication_challenge M" where
  "GetAuthenticationChallengeBySessionIDForUpdate E sessionID =
     query_row E ErrAuthenticationChallengeNotFound
       (\<lambda>d. find (\<lambda>r. ac_session r = sessionID) (auth_challenges d))"

definition ConsumeAuthenticationChallenge :: "env \<Rightarrow> uuid \<Rightarrow> string \<Rightarrow> time \<Rightarrow> unit M" where
  "ConsumeAuthenticationChallenge E challengeID method consumedAt =
     require_affected ErrAuthenticationChallengeNotFound (exec E (\<lambda>t u d.
       let hit = (\<lambda>r. ac_id r = challengeID \<and> ac_consumed_at r = None \<and> consumedAt < ac_expires_at r)
       in if list_ex hit (auth_challenges d) \<and> method \<notin> set known_methods then Inl CheckViolation
          else Inr (count_where hit (auth_challenges d),
            d\<lparr>auth_challenges := upd_where hit
                (\<lambda>r. r\<lparr>ac_consumed_at := Some consumedAt, ac_method := method\<rparr>)
                (auth_challenges d)\<rparr>)))"

end
