(* ===== verification/Security_Events.thy ===== *)
theory Security_Events
  imports Store_Session
begin

text \<open>
  \<open>internal/securityevent\<close> and \<open>internal/store/security_events.go\<close>: the
  recorder with its set of enabled event types, the event rows with the checks of the
  migrations, querying by filter, and the export that pages through the events by keyset.
\<close>

section \<open>Event types, outcomes, reasons (\<open>internal/domain/security_event.go\<close>)\<close>

definition SecurityEventAuthenticationLogin :: string where
  "SecurityEventAuthenticationLogin = ''authentication.login''"
definition SecurityEventAuthenticationReauthenticated :: string where
  "SecurityEventAuthenticationReauthenticated = ''authentication.reauthenticated''"
definition SecurityEventSessionRefresh :: string where
  "SecurityEventSessionRefresh = ''session.refresh''"
definition SecurityEventSessionRefreshTokenReuse :: string where
  "SecurityEventSessionRefreshTokenReuse = ''session.refresh_token_reuse''"
definition SecurityEventSessionLogout :: string where
  "SecurityEventSessionLogout = ''session.logout''"
definition SecurityEventSessionRevoked :: string where
  "SecurityEventSessionRevoked = ''session.revoked''"
definition SecurityEventCredentialPasswordReset :: string where
  "SecurityEventCredentialPasswordReset = ''credential.password_reset''"
definition SecurityEventAccountEmailChanged :: string where
  "SecurityEventAccountEmailChanged = ''account.email_changed''"
definition SecurityEventPasskeyCloneWarning :: string where
  "SecurityEventPasskeyCloneWarning = ''passkey.clone_warning''"

definition SecurityEventTypes :: "string list" where
  "SecurityEventTypes =
     [SecurityEventAuthenticationLogin, SecurityEventAuthenticationReauthenticated,
      SecurityEventSessionRefresh, SecurityEventSessionRefreshTokenReuse,
      SecurityEventSessionLogout, SecurityEventSessionRevoked,
      ''credential.password_added'', ''credential.password_changed'',
      SecurityEventCredentialPasswordReset, ''credential.provider_linked'',
      ''credential.provider_changed'', ''credential.provider_removed'',
      ''credential.passkey_added'', ''credential.passkey_removed'',
      SecurityEventAccountEmailChanged, SecurityEventPasskeyCloneWarning]"

definition StandardSecurityEventTypes :: "string list" where
  "StandardSecurityEventTypes =
     filter (\<lambda>t. t \<noteq> SecurityEventSessionRefresh \<and> t \<noteq> SecurityEventSessionLogout) SecurityEventTypes"

definition IsSecurityEventType :: "string \<Rightarrow> bool" where
  "IsSecurityEventType value \<longleftrightarrow> list_ex (\<lambda>t. value = t) SecurityEventTypes"

definition OutcomeSuccess :: string where "OutcomeSuccess = ''success''"
definition OutcomeDenied :: string where "OutcomeDenied = ''denied''"
definition OutcomeFailure :: string where "OutcomeFailure = ''failure''"
definition ActorAnonymous :: string where "ActorAnonymous = ''anonymous''"
definition ActorUser :: string where "ActorUser = ''user''"
definition ActorSystem :: string where "ActorSystem = ''system''"

definition ReasonAccessPolicy :: string where "ReasonAccessPolicy = ''access_policy''"
definition ReasonAudienceForbidden :: string where "ReasonAudienceForbidden = ''audience_forbidden''"
definition ReasonUserDisabled :: string where "ReasonUserDisabled = ''user_disabled''"
definition ReasonMethodUnavailable :: string where
  "ReasonMethodUnavailable = ''authentication_method_unavailable''"
definition ReasonRefreshTokenReuse :: string where "ReasonRefreshTokenReuse = ''refresh_token_reuse''"
definition ReasonUserRequested :: string where "ReasonUserRequested = ''user_requested''"
definition ReasonSecurityContainment :: string where
  "ReasonSecurityContainment = ''security_containment''"

definition known_reasons :: "string list" where
  "known_reasons = [''invalid_credentials'', ''invalid_assertion'', ReasonAccessPolicy,
     ''account_link_required'', ''provider_disabled'', ReasonAudienceForbidden, ReasonUserDisabled,
     ReasonMethodUnavailable, ReasonRefreshTokenReuse, ReasonUserRequested, ReasonSecurityContainment]"

definition known_responses :: "string list" where
  "known_responses = [''password'', ''google'', ''apple'', ''microsoft'', ''alert'', ''restrict'',
     ''restrict_and_revoke'']"

section \<open>The store\<close>

text \<open>The empty string stands for SQL NULL in the optional columns (\<open>NULLIF\<close>).\<close>

definition event_checks :: "security_event \<Rightarrow> bool" where
  "event_checks e \<longleftrightarrow> se_type e \<in> set SecurityEventTypes
     \<and> se_outcome e \<in> {OutcomeSuccess, OutcomeDenied, OutcomeFailure}
     \<and> se_actor_type e \<in> {ActorAnonymous, ActorUser, ActorSystem}
     \<and> (se_reason e = '''' \<or> se_reason e \<in> set known_reasons)
     \<and> (se_method e = '''' \<or> se_method e \<in> set known_methods)
     \<and> (se_response e = '''' \<or> se_response e \<in> set known_responses)"

definition CreateSecurityEvent :: "env \<Rightarrow> security_event \<Rightarrow> security_event M" where
  "CreateSecurityEvent E ev = exec E (\<lambda>t u d.
     if too_long 100 (se_type ev) \<or> too_long 32 (se_outcome ev) \<or> too_long 64 (se_reason ev)
        \<or> too_long 32 (se_actor_type ev) \<or> too_long 32 (se_method ev) \<or> too_long 64 (se_response ev)
     then Inl ValueTooLong
     else if \<not> event_checks ev then Inl CheckViolation
     else if u \<in> se_id ` set (security_events d) then Inl (UniqueViolation ''security_events_pkey'')
     else let row = ev\<lparr>se_id := u, se_created_at := t\<rparr>
       in Inr (row, d\<lparr>security_events := security_events d @ [row]\<rparr>))"

record event_filter =
  ef_type :: string
  ef_outcome :: string
  ef_user :: "uuid option"
  ef_session :: "uuid option"
  ef_from :: "time option"
  ef_before :: "time option"
  ef_cursor :: "(time option \<times> uuid option)"
  ef_limit :: int
  ef_offset :: int

definition event_matches :: "event_filter \<Rightarrow> security_event \<Rightarrow> bool" where
  "event_matches f e \<longleftrightarrow> (ef_type f = '''' \<or> se_type e = ef_type f)
     \<and> (ef_outcome f = '''' \<or> se_outcome e = ef_outcome f)
     \<and> (case ef_user f of None \<Rightarrow> True | Some u \<Rightarrow> se_user e = Some u)
     \<and> (case ef_session f of None \<Rightarrow> True | Some s \<Rightarrow> se_session e = Some s)
     \<and> (case ef_from f of None \<Rightarrow> True | Some t \<Rightarrow> t \<le> se_created_at e)
     \<and> (case ef_before f of None \<Rightarrow> True | Some t \<Rightarrow> se_created_at e < t)"

definition event_key :: "security_event \<Rightarrow> time \<times> uuid" where
  "event_key e = (se_created_at e, se_id e)"

text \<open>A cursor counts only when both its parts are set; limit and offset are clamped.\<close>

definition event_cursor :: "event_filter \<Rightarrow> (time \<times> uuid) option" where
  "event_cursor f = (case ef_cursor f of (Some t, Some i) \<Rightarrow> Some (t, i) | _ \<Rightarrow> None)"

definition clamp_limit :: "int \<Rightarrow> nat" where
  "clamp_limit n = (if n \<le> 0 then 50 else if 200 < n then 200 else nat n)"

definition select_events :: "event_filter \<Rightarrow> security_event list \<Rightarrow> security_event list" where
  "select_events f es = take (clamp_limit (ef_limit f)) (drop (nat (ef_offset f))
     (rev (sort_key event_key (filter (\<lambda>e. event_matches f e
        \<and> (case event_cursor f of None \<Rightarrow> True | Some c \<Rightarrow> event_key e < c)) es))))"

definition QuerySecurityEvents :: "env \<Rightarrow> event_filter \<Rightarrow> security_event list M" where
  "QuerySecurityEvents E f = query E (\<lambda>d. select_events f (security_events d))"

definition empty_filter :: event_filter where
  "empty_filter = \<lparr>ef_type = '''', ef_outcome = '''', ef_user = None, ef_session = None,
     ef_from = None, ef_before = None, ef_cursor = (None, None), ef_limit = 0, ef_offset = 0\<rparr>"

definition ListSecurityEvents :: "env \<Rightarrow> int \<Rightarrow> int \<Rightarrow> security_event list M" where
  "ListSecurityEvents E limit offset =
     QuerySecurityEvents E (empty_filter\<lparr>ef_limit := limit, ef_offset := offset\<rparr>)"

definition DeleteSecurityEventsBefore :: "env \<Rightarrow> time \<Rightarrow> nat \<Rightarrow> nat M" where
  "DeleteSecurityEventsBefore E cutoff batchSize = exec_count E (\<lambda>t d.
     let ids = map se_id (oldest (\<lambda>e. se_created_at e < cutoff) event_key batchSize (security_events d));
         hit = (\<lambda>e. se_id e \<in> set ids)
     in (count_where hit (security_events d),
         d\<lparr>security_events := del_where hit (security_events d)\<rparr>))"

section \<open>The recorder\<close>

record event_service =
  sv_store :: bool
  sv_enabled :: "string list"
  sv_retention :: duration

datatype recorder = NoopRecorder | EventRecorder "event_service option"

record authentication_event =
  ae_outcome :: string
  ae_reason :: string
  ae_actor_type :: string
  ae_actor_user :: "uuid option"
  ae_user :: "uuid option"
  ae_session :: "uuid option"
  ae_org :: "uuid option"
  ae_passkey :: "uuid option"
  ae_method :: string

record session_event =
  sn_outcome :: string
  sn_reason :: string
  sn_actor_type :: string
  sn_actor_user :: "uuid option"
  sn_user :: "uuid option"
  sn_session :: "uuid option"
  sn_org :: "uuid option"
  sn_method :: string

record credential_event =
  ce_actor_type :: string
  ce_actor_user :: "uuid option"
  ce_user :: uuid
  ce_session :: "uuid option"
  ce_passkey :: "uuid option"
  ce_provider :: string

record passkey_clone =
  pc_user :: uuid
  pc_passkey :: uuid
  pc_outcome :: string
  pc_response :: string

definition Enabled :: "event_service option \<Rightarrow> string \<Rightarrow> bool" where
  "Enabled s t \<longleftrightarrow> (case s of None \<Rightarrow> False | Some sv \<Rightarrow> t \<in> set (sv_enabled sv))"

definition NewStandard :: "bool \<Rightarrow> duration \<Rightarrow> event_service" where
  "NewStandard st retention =
     \<lparr>sv_store = st, sv_enabled = StandardSecurityEventTypes, sv_retention = retention\<rparr>"

definition record_event :: "env \<Rightarrow> event_service option \<Rightarrow> security_event \<Rightarrow> unit M" where
  "record_event E s ev = (case s of None \<Rightarrow> ret () | Some sv \<Rightarrow>
     if \<not> Enabled s (se_type ev) then ret ()
     else if \<not> sv_store sv then fail (EStore ErrSecurityEventStoreRequired)
     else bnd (CreateSecurityEvent E ev) (\<lambda>_. ret ()))"

definition recordAuthentication ::
  "env \<Rightarrow> recorder \<Rightarrow> string \<Rightarrow> authentication_event \<Rightarrow> unit M" where
  "recordAuthentication E r eventType ev = (case r of NoopRecorder \<Rightarrow> ret () | EventRecorder s \<Rightarrow>
     record_event E s \<lparr>se_id = nil_uuid, se_created_at = zero_time, se_type = eventType,
       se_outcome = ae_outcome ev, se_reason = ae_reason ev, se_actor_type = ae_actor_type ev,
       se_actor_user = ae_actor_user ev, se_user = ae_user ev, se_session = ae_session ev,
       se_org = ae_org ev, se_passkey = ae_passkey ev, se_method = ae_method ev, se_response = ''''\<rparr>)"

definition recordSession :: "env \<Rightarrow> recorder \<Rightarrow> string \<Rightarrow> session_event \<Rightarrow> unit M" where
  "recordSession E r eventType ev = (case r of NoopRecorder \<Rightarrow> ret () | EventRecorder s \<Rightarrow>
     record_event E s \<lparr>se_id = nil_uuid, se_created_at = zero_time, se_type = eventType,
       se_outcome = sn_outcome ev, se_reason = sn_reason ev, se_actor_type = sn_actor_type ev,
       se_actor_user = sn_actor_user ev, se_user = sn_user ev, se_session = sn_session ev,
       se_org = sn_org ev, se_passkey = None, se_method = sn_method ev, se_response = ''''\<rparr>)"

definition recordCredential :: "env \<Rightarrow> recorder \<Rightarrow> string \<Rightarrow> credential_event \<Rightarrow> unit M" where
  "recordCredential E r eventType ev = (case r of NoopRecorder \<Rightarrow> ret () | EventRecorder s \<Rightarrow>
     let actorType = (if ce_actor_type ev = '''' then ActorUser else ce_actor_type ev);
         actorUserID = (if ce_actor_user ev = None \<and> actorType = ActorUser then Some (ce_user ev)
                        else ce_actor_user ev)
     in record_event E s \<lparr>se_id = nil_uuid, se_created_at = zero_time, se_type = eventType,
       se_outcome = OutcomeSuccess, se_reason = '''', se_actor_type = actorType,
       se_actor_user = actorUserID, se_user = Some (ce_user ev), se_session = ce_session ev,
       se_org = None, se_passkey = ce_passkey ev, se_method = '''', se_response = ce_provider ev\<rparr>)"

definition AuthenticationLogin :: "env \<Rightarrow> recorder \<Rightarrow> authentication_event \<Rightarrow> unit M" where
  "AuthenticationLogin E r ev = recordAuthentication E r SecurityEventAuthenticationLogin ev"

definition AuthenticationReauthenticated :: "env \<Rightarrow> recorder \<Rightarrow> authentication_event \<Rightarrow> unit M" where
  "AuthenticationReauthenticated E r ev =
     recordAuthentication E r SecurityEventAuthenticationReauthenticated ev"

definition SessionRefresh :: "env \<Rightarrow> recorder \<Rightarrow> session_event \<Rightarrow> unit M" where
  "SessionRefresh E r ev = recordSession E r SecurityEventSessionRefresh ev"

definition SessionRefreshTokenReuse :: "env \<Rightarrow> recorder \<Rightarrow> session_event \<Rightarrow> unit M" where
  "SessionRefreshTokenReuse E r ev = recordSession E r SecurityEventSessionRefreshTokenReuse ev"

definition SessionLogout :: "env \<Rightarrow> recorder \<Rightarrow> session_event \<Rightarrow> unit M" where
  "SessionLogout E r ev = recordSession E r SecurityEventSessionLogout ev"

definition SessionRevoked :: "env \<Rightarrow> recorder \<Rightarrow> session_event \<Rightarrow> unit M" where
  "SessionRevoked E r ev = recordSession E r SecurityEventSessionRevoked ev"

definition CredentialPasswordReset :: "env \<Rightarrow> recorder \<Rightarrow> credential_event \<Rightarrow> unit M" where
  "CredentialPasswordReset E r ev = recordCredential E r SecurityEventCredentialPasswordReset ev"

definition AccountEmailChanged :: "env \<Rightarrow> recorder \<Rightarrow> credential_event \<Rightarrow> unit M" where
  "AccountEmailChanged E r ev = recordCredential E r SecurityEventAccountEmailChanged ev"

definition PasskeyCloneWarning :: "env \<Rightarrow> recorder \<Rightarrow> passkey_clone \<Rightarrow> unit M" where
  "PasskeyCloneWarning E r ev = (case r of NoopRecorder \<Rightarrow> ret () | EventRecorder s \<Rightarrow>
     record_event E s \<lparr>se_id = nil_uuid, se_created_at = zero_time,
       se_type = SecurityEventPasskeyCloneWarning, se_outcome = pc_outcome ev, se_reason = '''',
       se_actor_type = ActorSystem, se_actor_user = None, se_user = Some (pc_user ev),
       se_session = None, se_org = None, se_passkey = Some (pc_passkey ev), se_method = '''',
       se_response = pc_response ev\<rparr>)"

definition CleanupExpiredBatch ::
  "env \<Rightarrow> event_service option \<Rightarrow> time \<Rightarrow> nat \<Rightarrow> (nat \<times> bool) M" where
  "CleanupExpiredBatch E s now batchSize = (case s of None \<Rightarrow> ret (0, False) | Some sv \<Rightarrow>
     if sv_retention sv \<le> 0 then ret (0, False)
     else bnd (DeleteSecurityEventsBefore E (now - sv_retention sv) batchSize)
       (\<lambda>deleted. ret (deleted, deleted = batchSize)))"

section \<open>Export\<close>

text \<open>
  \<open>ExportNDJSON\<close> pages through the events, newest first, restarting each query after
  the last key seen. The writer is the list of events handed to the encoder; \<open>fuel\<close>
  bounds the number of pages, \<open>None\<close> is running out of it.
\<close>

fun export_loop ::
  "env \<Rightarrow> nat \<Rightarrow> event_filter \<Rightarrow> security_event list \<Rightarrow> security_event list option M" where
  "export_loop E 0 f out = ret None"
| "export_loop E (Suc fuel) f out = bnd (QuerySecurityEvents E f) (\<lambda>events.
     if int (length events) < ef_limit f then ret (Some (out @ events))
     else let l = last events in
       export_loop E fuel (f\<lparr>ef_cursor := (Some (se_created_at l), Some (se_id l))\<rparr>) (out @ events))"

definition ExportNDJSON :: "env \<Rightarrow> nat \<Rightarrow> event_filter \<Rightarrow> security_event list option M" where
  "ExportNDJSON E fuel f = export_loop E fuel (f\<lparr>ef_limit := 200, ef_offset := 0\<rparr>) []"

text \<open>Keyset pagination: what comes after the last row of a page is the rest of the list.\<close>

lemma filter_below_page:
  assumes "sorted_wrt (\<lambda>x y. k y < (k x :: 'k :: linorder)) xs" and "0 < n" and "n \<le> length xs"
  shows "filter (\<lambda>x. k x < k (last (take n xs))) xs = drop n xs"
proof -
  let ?c = "k (last (take n xs))"
  have sp: "xs = take n xs @ drop n xs" by simp
  have s: "sorted_wrt (\<lambda>x y. k y < k x) (take n xs @ drop n xs)" using assms(1) by simp
  have ne: "take n xs \<noteq> []" using assms(2,3) by auto
  then obtain ys l where ys: "take n xs = ys @ [l]" by (cases "take n xs" rule: rev_cases) auto
  from s have "\<forall>x\<in>set ys. k l < k x" unfolding ys by (simp add: sorted_wrt_append)
  then have "\<not> k x < ?c" if "x \<in> set (take n xs)" for x
    using that unfolding ys by (auto dest: less_asym)
  then have 1: "filter (\<lambda>x. k x < ?c) (take n xs) = []" by (simp add: filter_empty_conv)
  have "k x < ?c" if "x \<in> set (drop n xs)" for x
    using s [unfolded sorted_wrt_append] that last_in_set [OF ne] by blast
  then have 2: "filter (\<lambda>x. k x < ?c) (drop n xs) = drop n xs" by (simp add: filter_id_conv)
  have "filter (\<lambda>x. k x < ?c) xs = filter (\<lambda>x. k x < ?c) (take n xs @ drop n xs)" by simp
  also have "\<dots> = drop n xs" using 1 2 by (simp only: filter_append append_Nil)
  finally show ?thesis .
qed

lemma sorted_desc:
  assumes "distinct (map k xs)"
  shows "sorted_wrt (\<lambda>x y. k y < (k x :: 'k :: linorder)) (rev (sort_key k xs))"
proof -
  have "sorted (map k (sort_key k xs))" by simp
  moreover have "distinct (map k (sort_key k xs))"
    using assms by (simp add: distinct_map)
  ultimately have "sorted_wrt (<) (map k (sort_key k xs))"
    by (simp add: strict_sorted_iff)
  then show ?thesis by (simp add: sorted_wrt_rev sorted_wrt_map)
qed

definition matching_events :: "event_filter \<Rightarrow> security_event list \<Rightarrow> security_event list" where
  "matching_events f es = rev (sort_key event_key (filter (\<lambda>e. event_matches f e
        \<and> (case event_cursor f of None \<Rightarrow> True | Some c \<Rightarrow> event_key e < c)) es))"

lemma matching_events_next:
  assumes "distinct (map event_key es)" and "200 \<le> length (matching_events f es)"
  defines "l \<equiv> last (take 200 (matching_events f es))"
  shows "matching_events (f\<lparr>ef_cursor := (Some (se_created_at l), Some (se_id l))\<rparr>) es
           = drop 200 (matching_events f es)"
proof -
  let ?P = "\<lambda>e. event_matches f e \<and> (case event_cursor f of None \<Rightarrow> True | Some c \<Rightarrow> event_key e < c)"
  let ?f = "f\<lparr>ef_cursor := (Some (se_created_at l), Some (se_id l))\<rparr>"
  have cur: "event_cursor ?f = Some (event_key l)"
    by (simp add: event_cursor_def event_key_def)
  have m: "event_matches ?f = event_matches f" by (rule ext) (simp add: event_matches_def)
  have sorted: "sorted_wrt (\<lambda>x y. event_key y < event_key x) (matching_events f es)"
    unfolding matching_events_def by (rule sorted_desc) (simp add: assms(1) distinct_map_filter)
  have "l \<in> set (matching_events f es)"
  proof -
    have "take 200 (matching_events f es) \<noteq> []" using assms(2) by auto
    then show ?thesis unfolding l_def by (rule in_set_takeD [OF last_in_set])
  qed
  then have below: "case event_cursor f of None \<Rightarrow> True | Some c \<Rightarrow> event_key l < c"
    by (simp add: matching_events_def)
  have "filter (\<lambda>e. event_matches f e \<and> event_key e < event_key l) es
      = filter (\<lambda>e. event_key e < event_key l) (filter ?P es)"
    unfolding filter_filter by (rule filter_cong [OF refl]) (use below in \<open>auto split: option.splits\<close>)
  then have "matching_events ?f es = filter (\<lambda>e. event_key e < event_key l) (matching_events f es)"
    unfolding matching_events_def cur m by (simp add: filter_sort flip: rev_filter)
  also have "\<dots> = drop 200 (matching_events f es)"
    unfolding l_def by (rule filter_below_page [OF sorted]) (use assms(2) in simp_all)
  finally show ?thesis .
qed

lemma export_loop_complete:
  assumes "distinct (map event_key (security_events (w_db w)))"
    and "export_loop E fuel f out w = (Inr r, w')" and "ef_limit f = 200" and "ef_offset f = 0"
    and "length (matching_events f (security_events (w_db w))) < 200 * fuel"
  shows "r = Some (out @ matching_events f (security_events (w_db w)))"
  using assms
proof (induction fuel arbitrary: f out w)
  case 0
  then show ?case by simp
next
  case (Suc fuel)
  let ?all = "matching_events f (security_events (w_db w))"
  have page: "select_events f (security_events (w_db w)) = take 200 ?all"
    using Suc.prems(3,4) by (simp add: select_events_def matching_events_def clamp_limit_def)
  show ?case
  proof (cases "length ?all < 200")
    case True
    then show ?thesis
      using Suc.prems(2,3) by (simp add: runs QuerySecurityEvents_def page)
  next
    case False
    let ?l = "last (take 200 ?all)"
    let ?f = "f\<lparr>ef_cursor := (Some (se_created_at ?l), Some (se_id ?l))\<rparr>"
    have next_all: "matching_events ?f (security_events (w_db w)) = drop 200 ?all"
      using False by (intro matching_events_next Suc.prems(1)) simp
    from False Suc.prems(2,3) have run:
      "export_loop E fuel ?f (out @ take 200 ?all) (tick w) = (Inr r, w')"
      by (simp add: runs QuerySecurityEvents_def page Let_def)
    have "r = Some ((out @ take 200 ?all) @ matching_events ?f (security_events (w_db (tick w))))"
      by (rule Suc.IH [OF _ run]) (use Suc.prems False in \<open>simp_all add: next_all\<close>)
    then show ?thesis by (simp add: next_all)
  qed
qed

section \<open>What the recorder touches\<close>

text \<open>
  Recording and queueing mail are the side effects most operations end with; they leave every
  other table alone.
\<close>

definition core :: "db \<Rightarrow> db" where
  "core d = d\<lparr>security_events := [], email_jobs := []\<rparr>"

lemma core_simps [simp]:
  "core (d\<lparr>security_events := x\<rparr>) = core d" "core (d\<lparr>email_jobs := y\<rparr>) = core d"
  by (simp_all add: core_def)

lemma core_sel [simp]:
  "users (core d) = users d" "user_roles (core d) = user_roles d"
  "allowed_emails (core d) = allowed_emails d" "organizations (core d) = organizations d"
  "memberships (core d) = memberships d" "auth_providers (core d) = auth_providers d"
  "passkeys (core d) = passkeys d" "webauthn_challenges (core d) = webauthn_challenges d" "sessions (core d) = sessions d"
  "refresh_tokens (core d) = refresh_tokens d" "auth_challenges (core d) = auth_challenges d"
  "challenges (core d) = challenges d" "verification_codes (core d) = verification_codes d"
  "pending_signups (core d) = pending_signups d" "pending_resets (core d) = pending_resets d"
  "pending_email_changes (core d) = pending_email_changes d"
  "email_verifications (core d) = email_verifications d"
  "template_settings (core d) = template_settings d" "webhook_events (core d) = webhook_events d"
  "invitations (core d) = invitations d" "maintenance_leases (core d) = maintenance_leases d"
  "provider_links (core d) = provider_links d" "apple_credentials (core d) = apple_credentials d"
  "apple_revocations (core d) = apple_revocations d" "oauth_challenges (core d) = oauth_challenges d"
  "admin_audit_events (core d) = admin_audit_events d"
  by (simp_all add: core_def)

lemma core_eqD:
  assumes "core d = core d'"
  shows "users d = users d'" "user_roles d = user_roles d'" "allowed_emails d = allowed_emails d'"
    "organizations d = organizations d'" "memberships d = memberships d'"
    "passkeys d = passkeys d'" "sessions d = sessions d'"
    "refresh_tokens d = refresh_tokens d'" "auth_challenges d = auth_challenges d'"
    "pending_email_changes d = pending_email_changes d'"
    "email_verifications d = email_verifications d'"
  using arg_cong [OF assms, of users] arg_cong [OF assms, of user_roles]
    arg_cong [OF assms, of allowed_emails] arg_cong [OF assms, of organizations]
    arg_cong [OF assms, of memberships] arg_cong [OF assms, of passkeys]
    arg_cong [OF assms, of sessions] arg_cong [OF assms, of refresh_tokens]
    arg_cong [OF assms, of auth_challenges] arg_cong [OF assms, of pending_email_changes]
    arg_cong [OF assms, of email_verifications]
  by simp_all

lemma keeps_record_event:
  assumes "\<And>d x. J d \<Longrightarrow> J (d\<lparr>security_events := x\<rparr>)"
  shows "keeps J (record_event E s ev)"
proof -
  have "keeps J (CreateSecurityEvent E ev)"
    unfolding CreateSecurityEvent_def
    by (rule keeps_exec) (auto simp: assms Let_def split: if_splits)
  then show ?thesis
    unfolding record_event_def by (auto intro!: keeps_intro split: option.splits)
qed

lemma keeps_recorders:
  assumes "\<And>d x. J d \<Longrightarrow> J (d\<lparr>security_events := x\<rparr>)"
  shows "keeps J (recordAuthentication E r t ae)" "keeps J (recordSession E r t sn)"
    "keeps J (recordCredential E r t ce)" "keeps J (PasskeyCloneWarning E r pc)"
proof -
  have rec: "keeps J (record_event E s ev)" for s ev
    by (rule keeps_record_event) (rule assms)
  show "keeps J (recordAuthentication E r t ae)" "keeps J (recordSession E r t sn)"
    "keeps J (recordCredential E r t ce)" "keeps J (PasskeyCloneWarning E r pc)"
    by (simp_all add: recordAuthentication_def recordSession_def recordCredential_def
        PasskeyCloneWarning_def Let_def rec keeps_ret split: recorder.splits)
qed

lemmas recorder_ops = AuthenticationLogin_def AuthenticationReauthenticated_def SessionRefresh_def
  SessionRefreshTokenReuse_def SessionLogout_def SessionRevoked_def CredentialPasswordReset_def
  AccountEmailChanged_def

text \<open>A recording fails only with an error of the database or for want of a store.\<close>

definition recording_error :: "err \<Rightarrow> bool" where
  "recording_error e \<longleftrightarrow> (\<exists>s. e = ESql s) \<or> e = EStore ErrSecurityEventStoreRequired"

lemma wp_record_event:
  assumes "\<And>w'. core (w_db w') = core (w_db w) \<Longrightarrow> w_cache w' = w_cache w \<Longrightarrow> Q () w'"
    and "\<And>e w'. core (w_db w') = core (w_db w) \<Longrightarrow> w_cache w' = w_cache w \<Longrightarrow> recording_error e \<Longrightarrow> R e w'"
  shows "wp (record_event E s ev) Q R w"
  unfolding record_event_def CreateSecurityEvent_def
  by (auto simp: wps Let_def recording_error_def intro!: assms split: if_splits)

lemma wp_recordSession:
  assumes "\<And>w'. core (w_db w') = core (w_db w) \<Longrightarrow> w_cache w' = w_cache w \<Longrightarrow> Q () w'"
    and "\<And>e w'. core (w_db w') = core (w_db w) \<Longrightarrow> w_cache w' = w_cache w \<Longrightarrow> recording_error e \<Longrightarrow> R e w'"
  shows "wp (recordSession E r t ev) Q R w"
  unfolding recordSession_def
  by (cases r) (auto simp: wps intro!: wp_record_event intro: assms)

lemma wp_recordAuthentication:
  assumes "\<And>w'. core (w_db w') = core (w_db w) \<Longrightarrow> w_cache w' = w_cache w \<Longrightarrow> Q () w'"
    and "\<And>e w'. core (w_db w') = core (w_db w) \<Longrightarrow> w_cache w' = w_cache w \<Longrightarrow> recording_error e \<Longrightarrow> R e w'"
  shows "wp (recordAuthentication E r t ev) Q R w"
  unfolding recordAuthentication_def
  by (cases r) (auto simp: wps intro!: wp_record_event intro: assms)

lemma wp_recordCredential:
  assumes "\<And>w'. core (w_db w') = core (w_db w) \<Longrightarrow> w_cache w' = w_cache w \<Longrightarrow> Q () w'"
    and "\<And>e w'. core (w_db w') = core (w_db w) \<Longrightarrow> w_cache w' = w_cache w \<Longrightarrow> recording_error e \<Longrightarrow> R e w'"
  shows "wp (recordCredential E r t ev) Q R w"
  unfolding recordCredential_def
  by (cases r) (auto simp: wps Let_def intro!: wp_record_event intro: assms)

end
