(* ===== verification/Email_Queue.thy ===== *)
theory Email_Queue
  imports Security_Events
begin

text \<open>
  \<open>internal/email\<close>: the catalog of transactional templates with their variables
  (\<open>catalog.go\<close>; the texts themselves are not modelled), the job a business
  transaction queues (\<open>queue.go\<close>) and the statement that inserts it unless delivery of
  its template is switched off (\<open>internal/store/email.go\<close>).
\<close>

section \<open>Template keys and variables\<close>

definition EmailTemplateSignupCode :: string where
  "EmailTemplateSignupCode = ''signup_code''"
definition EmailTemplatePasswordResetCode :: string where
  "EmailTemplatePasswordResetCode = ''password_reset_code''"
definition EmailTemplateEmailChangeCode :: string where
  "EmailTemplateEmailChangeCode = ''email_change_code''"
definition EmailTemplateOrganizationInvite :: string where
  "EmailTemplateOrganizationInvite = ''organization_invitation''"
definition EmailTemplateOrganizationInviteLinkOnly :: string where
  "EmailTemplateOrganizationInviteLinkOnly = ''organization_invitation_link_only''"
definition EmailTemplateOrganizationInviteCodeOnly :: string where
  "EmailTemplateOrganizationInviteCodeOnly = ''organization_invitation_code_only''"
definition EmailTemplateAccountCreated :: string where
  "EmailTemplateAccountCreated = ''account_created''"
definition EmailTemplateNewSignIn :: string where
  "EmailTemplateNewSignIn = ''new_sign_in''"
definition EmailTemplateAuthMethodAdded :: string where
  "EmailTemplateAuthMethodAdded = ''auth_method_added''"
definition EmailTemplateAuthMethodRemoved :: string where
  "EmailTemplateAuthMethodRemoved = ''auth_method_removed''"
definition EmailTemplateSuspiciousPasskeyActivity :: string where
  "EmailTemplateSuspiciousPasskeyActivity = ''suspicious_passkey_activity''"
definition EmailTemplatePasswordChanged :: string where
  "EmailTemplatePasswordChanged = ''password_changed''"
definition EmailTemplateEmailChangedOldAddress :: string where
  "EmailTemplateEmailChangedOldAddress = ''email_changed_old_address''"
definition EmailTemplateEmailChangedNewAddress :: string where
  "EmailTemplateEmailChangedNewAddress = ''email_changed_new_address''"
definition EmailTemplateAccountDisabled :: string where
  "EmailTemplateAccountDisabled = ''account_disabled''"
definition EmailTemplateAccountEnabled :: string where
  "EmailTemplateAccountEnabled = ''account_enabled''"
definition EmailTemplateAdminAccessChanged :: string where
  "EmailTemplateAdminAccessChanged = ''admin_access_changed''"
definition EmailTemplateOrganizationInvitationAccepted :: string where
  "EmailTemplateOrganizationInvitationAccepted = ''organization_invitation_accepted''"
definition EmailTemplateOrganizationInvitationRevoked :: string where
  "EmailTemplateOrganizationInvitationRevoked = ''organization_invitation_revoked''"
definition EmailTemplateOrganizationMembershipRemoved :: string where
  "EmailTemplateOrganizationMembershipRemoved = ''organization_membership_removed''"
definition EmailTemplateOrganizationRoleChanged :: string where
  "EmailTemplateOrganizationRoleChanged = ''organization_role_changed''"
definition EmailTemplateOrganizationOwnershipTransferred :: string where
  "EmailTemplateOrganizationOwnershipTransferred = ''organization_ownership_transferred''"
definition EmailTemplateOrganizationDeleted :: string where
  "EmailTemplateOrganizationDeleted = ''organization_deleted''"
definition TemplateVariableCode :: string where
  "TemplateVariableCode = ''code''"
definition TemplateVariableOrganizationName :: string where
  "TemplateVariableOrganizationName = ''organization_name''"
definition TemplateVariableInviteURL :: string where
  "TemplateVariableInviteURL = ''invite_url''"
definition TemplateVariableInvitationCode :: string where
  "TemplateVariableInvitationCode = ''invitation_code''"
definition TemplateVariableRole :: string where
  "TemplateVariableRole = ''role''"
definition TemplateVariableExpiresAt :: string where
  "TemplateVariableExpiresAt = ''expires_at''"
definition TemplateVariableUsername :: string where
  "TemplateVariableUsername = ''username''"
definition TemplateVariableAuthMethod :: string where
  "TemplateVariableAuthMethod = ''auth_method''"
definition TemplateVariableOccurredAt :: string where
  "TemplateVariableOccurredAt = ''occurred_at''"
definition TemplateVariableIPAddress :: string where
  "TemplateVariableIPAddress = ''ip_address''"
definition TemplateVariableUserAgent :: string where
  "TemplateVariableUserAgent = ''user_agent''"
definition TemplateVariableOldEmail :: string where
  "TemplateVariableOldEmail = ''old_email''"
definition TemplateVariableNewEmail :: string where
  "TemplateVariableNewEmail = ''new_email''"
definition TemplateVariableAccessChange :: string where
  "TemplateVariableAccessChange = ''access_change''"
definition TemplateVariableMemberEmail :: string where
  "TemplateVariableMemberEmail = ''member_email''"
definition TemplateVariablePreviousRole :: string where
  "TemplateVariablePreviousRole = ''previous_role''"
definition TemplateVariablePreviousOwnerEmail :: string where
  "TemplateVariablePreviousOwnerEmail = ''previous_owner_email''"
definition TemplateVariableNewOwnerEmail :: string where
  "TemplateVariableNewOwnerEmail = ''new_owner_email''"

lemmas template_key_defs =
  EmailTemplateSignupCode_def EmailTemplatePasswordResetCode_def
  EmailTemplateEmailChangeCode_def EmailTemplateOrganizationInvite_def
  EmailTemplateOrganizationInviteLinkOnly_def EmailTemplateOrganizationInviteCodeOnly_def
  EmailTemplateAccountCreated_def EmailTemplateNewSignIn_def EmailTemplateAuthMethodAdded_def
  EmailTemplateAuthMethodRemoved_def EmailTemplateSuspiciousPasskeyActivity_def
  EmailTemplatePasswordChanged_def EmailTemplateEmailChangedOldAddress_def
  EmailTemplateEmailChangedNewAddress_def EmailTemplateAccountDisabled_def
  EmailTemplateAccountEnabled_def EmailTemplateAdminAccessChanged_def
  EmailTemplateOrganizationInvitationAccepted_def
  EmailTemplateOrganizationInvitationRevoked_def EmailTemplateOrganizationMembershipRemoved_def
  EmailTemplateOrganizationRoleChanged_def EmailTemplateOrganizationOwnershipTransferred_def
  EmailTemplateOrganizationDeleted_def

lemmas template_variable_defs =
  TemplateVariableCode_def TemplateVariableOrganizationName_def TemplateVariableInviteURL_def
  TemplateVariableInvitationCode_def TemplateVariableRole_def TemplateVariableExpiresAt_def
  TemplateVariableUsername_def TemplateVariableAuthMethod_def TemplateVariableOccurredAt_def
  TemplateVariableIPAddress_def TemplateVariableUserAgent_def TemplateVariableOldEmail_def
  TemplateVariableNewEmail_def TemplateVariableAccessChange_def TemplateVariableMemberEmail_def
  TemplateVariablePreviousRole_def TemplateVariablePreviousOwnerEmail_def
  TemplateVariableNewOwnerEmail_def

section \<open>Catalog\<close>

record template_definition =
  td_key :: string
  td_available :: "string list"
  td_required_subject :: "string list"
  td_required_body :: "string list"

definition templateCatalog :: "template_definition list" where
  "templateCatalog =
     [\<lparr>td_key = EmailTemplateSignupCode, td_available = [TemplateVariableCode],
         td_required_subject = [], td_required_body = [TemplateVariableCode]\<rparr>,
      \<lparr>td_key = EmailTemplatePasswordResetCode, td_available = [TemplateVariableCode],
         td_required_subject = [], td_required_body = [TemplateVariableCode]\<rparr>,
      \<lparr>td_key = EmailTemplateEmailChangeCode, td_available = [TemplateVariableCode],
         td_required_subject = [], td_required_body = [TemplateVariableCode]\<rparr>,
      \<lparr>td_key = EmailTemplateOrganizationInvite, td_available =
         [TemplateVariableOrganizationName, TemplateVariableInviteURL,
         TemplateVariableInvitationCode, TemplateVariableRole, TemplateVariableExpiresAt],
         td_required_subject = [TemplateVariableOrganizationName], td_required_body =
         [TemplateVariableInviteURL, TemplateVariableInvitationCode]\<rparr>,
      \<lparr>td_key = EmailTemplateOrganizationInviteLinkOnly, td_available =
         [TemplateVariableOrganizationName, TemplateVariableInviteURL, TemplateVariableRole,
         TemplateVariableExpiresAt], td_required_subject = [TemplateVariableOrganizationName],
         td_required_body = [TemplateVariableInviteURL]\<rparr>,
      \<lparr>td_key = EmailTemplateOrganizationInviteCodeOnly, td_available =
         [TemplateVariableOrganizationName, TemplateVariableInvitationCode,
         TemplateVariableRole, TemplateVariableExpiresAt], td_required_subject =
         [TemplateVariableOrganizationName], td_required_body =
         [TemplateVariableInvitationCode]\<rparr>,
      \<lparr>td_key = EmailTemplateAccountCreated, td_available = [TemplateVariableUsername,
         TemplateVariableAuthMethod, TemplateVariableOccurredAt], td_required_subject = [],
         td_required_body = [TemplateVariableUsername, TemplateVariableAuthMethod,
         TemplateVariableOccurredAt]\<rparr>,
      \<lparr>td_key = EmailTemplateNewSignIn, td_available = [TemplateVariableIPAddress,
         TemplateVariableUserAgent, TemplateVariableOccurredAt], td_required_subject = [],
         td_required_body = [TemplateVariableIPAddress, TemplateVariableUserAgent,
         TemplateVariableOccurredAt]\<rparr>,
      \<lparr>td_key = EmailTemplateAuthMethodAdded, td_available =
         [TemplateVariableAuthMethod, TemplateVariableOccurredAt], td_required_subject = [],
         td_required_body = [TemplateVariableAuthMethod, TemplateVariableOccurredAt]\<rparr>,
      \<lparr>td_key = EmailTemplateAuthMethodRemoved, td_available =
         [TemplateVariableAuthMethod, TemplateVariableOccurredAt], td_required_subject = [],
         td_required_body = [TemplateVariableAuthMethod, TemplateVariableOccurredAt]\<rparr>,
      \<lparr>td_key = EmailTemplateSuspiciousPasskeyActivity, td_available =
         [TemplateVariableOccurredAt], td_required_subject = [], td_required_body =
         [TemplateVariableOccurredAt]\<rparr>,
      \<lparr>td_key = EmailTemplatePasswordChanged, td_available =
         [TemplateVariableOccurredAt], td_required_subject = [], td_required_body =
         [TemplateVariableOccurredAt]\<rparr>,
      \<lparr>td_key = EmailTemplateEmailChangedOldAddress, td_available =
         [TemplateVariableOldEmail, TemplateVariableNewEmail, TemplateVariableOccurredAt],
         td_required_subject = [], td_required_body = [TemplateVariableOldEmail,
         TemplateVariableNewEmail, TemplateVariableOccurredAt]\<rparr>,
      \<lparr>td_key = EmailTemplateEmailChangedNewAddress, td_available =
         [TemplateVariableOldEmail, TemplateVariableNewEmail, TemplateVariableOccurredAt],
         td_required_subject = [], td_required_body = [TemplateVariableOldEmail,
         TemplateVariableNewEmail, TemplateVariableOccurredAt]\<rparr>,
      \<lparr>td_key = EmailTemplateAccountDisabled, td_available =
         [TemplateVariableOccurredAt], td_required_subject = [], td_required_body =
         [TemplateVariableOccurredAt]\<rparr>,
      \<lparr>td_key = EmailTemplateAccountEnabled, td_available =
         [TemplateVariableOccurredAt], td_required_subject = [], td_required_body =
         [TemplateVariableOccurredAt]\<rparr>,
      \<lparr>td_key = EmailTemplateAdminAccessChanged, td_available =
         [TemplateVariableAccessChange, TemplateVariableOccurredAt], td_required_subject =
         [TemplateVariableAccessChange], td_required_body = [TemplateVariableAccessChange,
         TemplateVariableOccurredAt]\<rparr>,
      \<lparr>td_key = EmailTemplateOrganizationInvitationAccepted, td_available =
         [TemplateVariableOrganizationName, TemplateVariableMemberEmail, TemplateVariableRole,
         TemplateVariableOccurredAt], td_required_subject =
         [TemplateVariableOrganizationName], td_required_body =
         [TemplateVariableOrganizationName, TemplateVariableMemberEmail, TemplateVariableRole,
         TemplateVariableOccurredAt]\<rparr>,
      \<lparr>td_key = EmailTemplateOrganizationInvitationRevoked, td_available =
         [TemplateVariableOrganizationName, TemplateVariableOccurredAt], td_required_subject =
         [TemplateVariableOrganizationName], td_required_body =
         [TemplateVariableOrganizationName, TemplateVariableOccurredAt]\<rparr>,
      \<lparr>td_key = EmailTemplateOrganizationMembershipRemoved, td_available =
         [TemplateVariableOrganizationName, TemplateVariableRole, TemplateVariableOccurredAt],
         td_required_subject = [TemplateVariableOrganizationName], td_required_body =
         [TemplateVariableOrganizationName, TemplateVariableRole,
         TemplateVariableOccurredAt]\<rparr>,
      \<lparr>td_key = EmailTemplateOrganizationRoleChanged, td_available =
         [TemplateVariableOrganizationName, TemplateVariablePreviousRole,
         TemplateVariableRole, TemplateVariableOccurredAt], td_required_subject =
         [TemplateVariableOrganizationName], td_required_body =
         [TemplateVariableOrganizationName, TemplateVariablePreviousRole,
         TemplateVariableRole, TemplateVariableOccurredAt]\<rparr>,
      \<lparr>td_key = EmailTemplateOrganizationOwnershipTransferred, td_available =
         [TemplateVariableOrganizationName, TemplateVariablePreviousOwnerEmail,
         TemplateVariableNewOwnerEmail, TemplateVariableOccurredAt], td_required_subject =
         [TemplateVariableOrganizationName], td_required_body =
         [TemplateVariableOrganizationName, TemplateVariablePreviousOwnerEmail,
         TemplateVariableNewOwnerEmail, TemplateVariableOccurredAt]\<rparr>,
      \<lparr>td_key = EmailTemplateOrganizationDeleted, td_available =
         [TemplateVariableOrganizationName, TemplateVariableOccurredAt], td_required_subject =
         [TemplateVariableOrganizationName], td_required_body =
         [TemplateVariableOrganizationName, TemplateVariableOccurredAt]\<rparr>]"

definition SupportedEmailTemplates :: "string list" where
  "SupportedEmailTemplates =
     [EmailTemplateSignupCode, EmailTemplatePasswordResetCode, EmailTemplateEmailChangeCode,
      EmailTemplateOrganizationInvite, EmailTemplateOrganizationInviteLinkOnly,
      EmailTemplateOrganizationInviteCodeOnly, EmailTemplateAccountCreated,
      EmailTemplateNewSignIn, EmailTemplateAuthMethodAdded, EmailTemplateAuthMethodRemoved,
      EmailTemplateSuspiciousPasskeyActivity, EmailTemplatePasswordChanged,
      EmailTemplateEmailChangedOldAddress, EmailTemplateEmailChangedNewAddress,
      EmailTemplateAccountDisabled, EmailTemplateAccountEnabled,
      EmailTemplateAdminAccessChanged, EmailTemplateOrganizationInvitationAccepted,
      EmailTemplateOrganizationInvitationRevoked, EmailTemplateOrganizationMembershipRemoved,
      EmailTemplateOrganizationRoleChanged, EmailTemplateOrganizationOwnershipTransferred,
      EmailTemplateOrganizationDeleted]"

definition LookupTemplate :: "string \<Rightarrow> err + template_definition" where
  "LookupTemplate key = (case find (\<lambda>d. td_key d = key) templateCatalog of
       None \<Rightarrow> Inl (EEmail ErrUnknownTemplate) | Some d \<Rightarrow> Inr d)"

definition ValidateTemplate :: "string \<Rightarrow> err option" where
  "ValidateTemplate key = (case LookupTemplate key of Inl e \<Rightarrow> Some e | Inr _ \<Rightarrow> None)"

type_synonym template_data = "(string \<times> string) list"

definition data_get :: "template_data \<Rightarrow> string \<Rightarrow> string" where
  "data_get data v = (case map_of data v of None \<Rightarrow> '''' | Some x \<Rightarrow> x)"

definition validateTemplateData :: "template_definition \<Rightarrow> template_data \<Rightarrow> err option" where
  "validateTemplateData d data =
     (if list_ex (\<lambda>v. trim_space (data_get data v) = '''') (td_available d)
      then Some (EEmail ErrMissingTemplateVariable) else None)"

lemma supported_templates: "map td_key templateCatalog = SupportedEmailTemplates"
  by (simp add: templateCatalog_def SupportedEmailTemplates_def)

lemma distinct_template_keys: "distinct SupportedEmailTemplates"
  unfolding SupportedEmailTemplates_def template_key_defs by code_simp

lemma template_keys_fit: "\<forall>k\<in>set SupportedEmailTemplates. length k \<le> 64"
  unfolding SupportedEmailTemplates_def template_key_defs by simp

lemma required_available:
  "list_all (\<lambda>d. set (td_required_subject d) \<subseteq> set (td_available d)
      \<and> set (td_required_body d) \<subseteq> set (td_available d)) templateCatalog"
  unfolding templateCatalog_def by simp

text \<open>The catalog is indexed by its keys.\<close>

lemma LookupTemplate_iff:
  "LookupTemplate key = Inr d \<longleftrightarrow> d \<in> set templateCatalog \<and> td_key d = key"
proof
  assume "LookupTemplate key = Inr d"
  then show "d \<in> set templateCatalog \<and> td_key d = key"
    by (auto simp: LookupTemplate_def split: option.splits dest: find_Some_in)
next
  assume "d \<in> set templateCatalog \<and> td_key d = key"
  moreover have "distinct (map td_key templateCatalog)"
    by (simp only: supported_templates distinct_template_keys)
  ultimately show "LookupTemplate key = Inr d"
    using find_unique_key [of td_key templateCatalog d key] by (simp add: LookupTemplate_def)
qed

lemma LookupTemplate_supported:
  "(\<exists>d. LookupTemplate key = Inr d) \<longleftrightarrow> key \<in> set SupportedEmailTemplates"
  unfolding LookupTemplate_iff supported_templates [symmetric] by auto

section \<open>Queueing a job\<close>

definition EmailJobStatusPending :: string where
  "EmailJobStatusPending = ''pending''"
definition EmailJobStatusProcessing :: string where
  "EmailJobStatusProcessing = ''processing''"
definition EmailJobStatusSent :: string where
  "EmailJobStatusSent = ''sent''"
definition EmailJobStatusFailed :: string where
  "EmailJobStatusFailed = ''failed''"

definition delivery_enabled :: "string \<Rightarrow> db \<Rightarrow> bool" where
  "delivery_enabled template d =
     (case map_of (template_settings d) template of None \<Rightarrow> True | Some b \<Rightarrow> b)"

text \<open>No row is inserted, and no error is raised, for a template that is switched off.\<close>

definition CreateEmailJob :: "env \<Rightarrow> email_job \<Rightarrow> email_job option M" where
  "CreateEmailJob E j = exec E (\<lambda>t u d.
     if \<not> delivery_enabled (ej_template j) d then Inr (None, d)
     else if too_long 255 (ej_to_email j) \<or> too_long 64 (ej_template j) \<or> too_long 32 (ej_status j)
          \<or> (case ej_terminal_reason j of None \<Rightarrow> False | Some r \<Rightarrow> too_long 64 r)
       then Inl ValueTooLong
     else if u \<in> ej_id ` set (email_jobs d) then Inl (UniqueViolation ''email_jobs_pkey'')
     else if (case ej_challenge j of None \<Rightarrow> False | Some c \<Rightarrow> c \<notin> ch_id ` set (challenges d))
       then Inl ForeignKeyViolation
     else let row = j\<lparr>ej_id := u, ej_created_at := t, ej_updated_at := t,
                ej_to_email := fit 255 (ej_to_email j), ej_template := fit 64 (ej_template j),
                ej_deadline_at := (if ej_deadline_at j = zero_time then t + 72 * hour
                                   else ej_deadline_at j)\<rparr>
       in Inr (Some row, d\<lparr>email_jobs := email_jobs d @ [row]\<rparr>))"

definition DefaultDeliveryWindow :: duration where
  "DefaultDeliveryWindow = 72 * hour"

definition new_email_job ::
  "uuid option \<Rightarrow> string \<Rightarrow> string \<Rightarrow> template_data \<Rightarrow> time \<Rightarrow> time \<Rightarrow> email_job" where
  "new_email_job challenge toEmail template data nextAttempt deadline =
     \<lparr>ej_id = nil_uuid, ej_created_at = zero_time, ej_updated_at = zero_time,
      ej_challenge = challenge, ej_to_email = toEmail, ej_template = template,
      ej_data = Some data, ej_status = EmailJobStatusPending, ej_attempt_count = 0,
      ej_processing_started_at = None, ej_last_error = None, ej_next_attempt_at = nextAttempt,
      ej_deadline_at = deadline, ej_terminal_reason = None, ej_failed_at = None, ej_sent_at = None\<rparr>"

definition Enqueue :: "env \<Rightarrow> string \<Rightarrow> string \<Rightarrow> template_data \<Rightarrow> time \<Rightarrow> unit M" where
  "Enqueue E toEmail0 template data now =
     (let toEmail = trim_space toEmail0 in
      if toEmail = '''' then fail (EEmail ErrMissingEmailRecipient)
      else (case LookupTemplate template of
          Inl e \<Rightarrow> fail e
        | Inr d \<Rightarrow> (case validateTemplateData d data of
            Some e \<Rightarrow> fail e
          | None \<Rightarrow> bnd (CreateEmailJob E (new_email_job None toEmail template data now
                      (now + DefaultDeliveryWindow))) (\<lambda>_. ret ()))))"

definition OccurredAt :: "env \<Rightarrow> time \<Rightarrow> string" where
  "OccurredAt E now = rfc3339 E now"

definition ValueOrUnknown :: "string \<Rightarrow> string" where
  "ValueOrUnknown value = (let v = trim_space value in if v = '''' then ''Unknown'' else v)"

lemma trim_space_Unknown [simp]: "trim_space ''Unknown'' = ''Unknown''"
  by (simp add: trim_space_def is_space_def)

lemma ValueOrUnknown_present: "trim_space (ValueOrUnknown v) \<noteq> ''''"
  by (simp add: ValueOrUnknown_def Let_def)

lemma keeps_CreateEmailJob:
  assumes "\<And>d x. J d \<Longrightarrow> J (d\<lparr>email_jobs := x\<rparr>)"
  shows "keeps J (CreateEmailJob E j)"
  unfolding CreateEmailJob_def
  by (rule keeps_exec) (auto simp: assms Let_def split: if_splits)

lemma keeps_Enqueue:
  assumes "\<And>d x. J d \<Longrightarrow> J (d\<lparr>email_jobs := x\<rparr>)"
  shows "keeps J (Enqueue E to tpl data now)"
proof -
  have "keeps J (CreateEmailJob E j)" for j
    by (rule keeps_CreateEmailJob) (rule assms)
  then show ?thesis
    unfolding Enqueue_def by (auto simp: Let_def intro!: keeps_intro split: sum.splits option.splits)
qed

definition queueing_error :: "err \<Rightarrow> bool" where
  "queueing_error e \<longleftrightarrow> (\<exists>s. e = ESql s) \<or> (\<exists>m. e = EEmail m)"

lemma wp_CreateEmailJob:
  assumes "\<And>x w'. core (w_db w') = core (w_db w) \<Longrightarrow> w_cache w' = w_cache w \<Longrightarrow> Q x w'"
    and "\<And>e w'. core (w_db w') = core (w_db w) \<Longrightarrow> w_cache w' = w_cache w \<Longrightarrow> R (ESql e) w'"
  shows "wp (CreateEmailJob E j) Q R w"
  unfolding CreateEmailJob_def wp_exec
  by (intro conjI allI impI; (rule assms; simp)?) (auto simp: Let_def intro!: assms(1) split: if_splits)

lemma wp_Enqueue:
  assumes "\<And>w'. core (w_db w') = core (w_db w) \<Longrightarrow> w_cache w' = w_cache w \<Longrightarrow> Q () w'"
    and "\<And>e w'. core (w_db w') = core (w_db w) \<Longrightarrow> w_cache w' = w_cache w \<Longrightarrow> queueing_error e \<Longrightarrow> R e w'"
  shows "wp (Enqueue E to tpl data now) Q R w"
proof (cases "trim_space to = ''''")
  case True
  then show ?thesis by (simp add: Enqueue_def wps queueing_error_def assms(2))
next
  case False
  have sent: "wp (bnd (CreateEmailJob E j) (\<lambda>_. ret ())) Q R w" for j
    unfolding wp_bnd wp_ret
    by (rule wp_CreateEmailJob) (auto intro: assms simp: queueing_error_def)
  show ?thesis
  proof (cases "LookupTemplate tpl")
    case (Inl e)
    then have "queueing_error e"
      by (auto simp: LookupTemplate_def queueing_error_def split: option.splits)
    then show ?thesis using False Inl by (simp add: Enqueue_def wps assms(2))
  next
    case (Inr d)
    have "queueing_error e" if "validateTemplateData d data = Some e" for e
      using that by (auto simp: validateTemplateData_def queueing_error_def split: if_splits)
    then show ?thesis
      using False Inr sent
      by (cases "validateTemplateData d data") (simp_all add: Enqueue_def Let_def wp_fail assms(2))
  qed
qed

end
