(* ===== verification/Session_Service.thy ===== *)
theory Session_Service
  imports Tokens Email_Queue
begin

text \<open>
  \<open>internal/session/service.go\<close>: creating, switching, refreshing, revoking and
  validating sessions, step-up authentication challenges, and the parts of
  \<open>internal/accesspolicy\<close> and \<open>internal/organization/service.go\<close> they call. A
  handler is the sequence of its store, cache and recorder calls inside
  \<open>with_tx\<close>; the \<open>resultErr\<close> idiom, a transaction that commits evidence and
  still makes the call fail, is \<open>raise_result\<close>.
\<close>

section \<open>Configuration\<close>

record session_policy =
  SessionTTL :: duration
  RefreshTokenTTL :: duration
  RefreshTokenRotation :: duration
  RecentAuthenticationEnabled :: bool
  RecentAuthenticationWindow :: duration

datatype access_policy = NoopEmailAccessPolicy | AllowlistPolicy (AllowlistEnabled: bool)

record service =
  svc_policy :: session_policy
  svc_access :: access_policy
  svc_revocations :: "revocations option"
  svc_events :: recorder
  svc_jwt :: jwt_lib
  svc_tokens :: token_service

text \<open>The policy \<open>New\<close> falls back to when no reader is configured.\<close>

definition default_policy :: "duration \<Rightarrow> duration \<Rightarrow> duration \<Rightarrow> duration \<Rightarrow> session_policy" where
  "default_policy sessionTTL refreshTTL rotation window =
     \<lparr>SessionTTL = sessionTTL, RefreshTokenTTL = refreshTTL, RefreshTokenRotation = rotation,
      RecentAuthenticationEnabled = True,
      RecentAuthenticationWindow = (if window \<le> 0 then 10 * minute else window)\<rparr>"

definition authenticationChallengeTTL :: duration where
  "authenticationChallengeTTL = 5 * minute"

section \<open>Access policy and organizations\<close>

definition IsEmailAllowed :: "env \<Rightarrow> access_policy \<Rightarrow> string \<Rightarrow> bool M" where
  "IsEmailAllowed E p email = (case p of NoopEmailAccessPolicy \<Rightarrow> ret True
     | AllowlistPolicy enabled \<Rightarrow>
         if \<not> enabled then ret True else store_IsEmailAllowed E (CanonicalEmail email))"

definition AllowEmail :: "env \<Rightarrow> access_policy \<Rightarrow> string \<Rightarrow> unit M" where
  "AllowEmail E p email = (case p of NoopEmailAccessPolicy \<Rightarrow> ret ()
     | AllowlistPolicy enabled \<Rightarrow>
         if \<not> enabled then ret ()
         else let em = CanonicalEmail email in
           if em = '''' then ret () else EnsureAllowedEmail E em)"

definition DefaultOrganizationForUser :: "env \<Rightarrow> uuid \<Rightarrow> (organization \<times> membership) M" where
  "DefaultOrganizationForUser E userID =
     try_bnd (GetPersonalOrganizationForUser E userID)
       (\<lambda>e. if \<not> errors_is e (EStore ErrOrganizationNotFound) then fail e
         else bnd (ListOrganizationMembershipsByUserID E userID) (\<lambda>ms. case ms of
             [] \<Rightarrow> fail (EStore ErrOrganizationNotFound)
           | m # _ \<Rightarrow> bnd (GetOrganizationByID E (mem_org m)) (\<lambda>org. ret (org, m))))
       ret"

definition RequireMembership :: "env \<Rightarrow> uuid \<Rightarrow> uuid \<Rightarrow> membership M" where
  "RequireMembership E userID organizationID = GetOrganizationMembership E organizationID userID"

section \<open>Helpers of the service\<close>

definition generateRefreshToken :: "env \<Rightarrow> string M" where
  "generateRefreshToken E = bnd (rand_read E 32) (\<lambda>b. ret (base64_encode b))"

definition hashRefreshToken :: "env \<Rightarrow> string \<Rightarrow> string" where
  "hashRefreshToken E token = hex_encode (sha256 E token)"

definition shouldRotate :: "refresh_token \<Rightarrow> time \<Rightarrow> duration \<Rightarrow> bool" where
  "shouldRotate rt now rotation =
     (if rotation < 0 then True else if rotation = 0 then False
      else rotation \<le> time_sub now (rt_created_at rt))"

definition ensureUserAllowed :: "env \<Rightarrow> service \<Rightarrow> uuid \<Rightarrow> user M" where
  "ensureUserAllowed E S userID = bnd (GetUserByID E userID) (\<lambda>user.
     bnd (IsEmailAllowed E (svc_access S) (usr_email user)) (\<lambda>allowed.
       if \<not> allowed then fail (ESession ErrUserNotAllowed) else ret user))"

definition audienceAccess :: "string \<Rightarrow> string list option" where
  "audienceAccess audience =
     (if audience = AudienceAdmin then Some [AutharaAdmin]
      else if audience = AudienceOperator then Some [AutharaOperator] else None)"

definition canAccessAudience :: "roles \<Rightarrow> string \<Rightarrow> bool" where
  "canAccessAudience rs audience =
     (case audienceAccess audience of None \<Rightarrow> True | Some allowed \<Rightarrow> HasAny rs allowed)"

definition recordSessionAuthenticationDenied ::
  "env \<Rightarrow> service \<Rightarrow> uuid \<Rightarrow> string \<Rightarrow> string \<Rightarrow> unit M" where
  "recordSessionAuthenticationDenied E S userID method reason =
     AuthenticationLogin E (svc_events S)
       \<lparr>ae_outcome = OutcomeDenied, ae_reason = reason, ae_actor_type = ActorUser,
        ae_actor_user = Some userID, ae_user = Some userID, ae_session = None, ae_org = None,
        ae_passkey = None, ae_method = method\<rparr>"

section \<open>Creating a session\<close>

text \<open>The passkey of a passkey login must still be there, be the user's and be unrestricted.\<close>

definition passkey_available :: "env \<Rightarrow> uuid \<Rightarrow> uuid option \<Rightarrow> bool M" where
  "passkey_available E userID passkeyID = (case passkeyID of None \<Rightarrow> ret True
     | Some pid \<Rightarrow> try_bnd (GetPasskeyByID E pid)
         (\<lambda>e. if errors_is e (EStore ErrPasskeyNotFound) then ret False else fail e)
         (\<lambda>pk. ret (pk_user pk = userID \<and> pk_restricted_at pk = None)))"

definition store_new_session ::
  "env \<Rightarrow> service \<Rightarrow> uuid \<Rightarrow> user \<Rightarrow> organization \<Rightarrow> membership \<Rightarrow> roles \<Rightarrow> uuid option \<Rightarrow> string \<Rightarrow>
   string \<Rightarrow> string \<Rightarrow> time \<Rightarrow> string \<Rightarrow> (string \<times> string) M" where
  "store_new_session E S userID user org membership platformRoles passkeyID audience method userAgent
     now clientIP =
   bnd (store_CreateSession E
      \<lparr>ses_id = nil_uuid, ses_user = userID, ses_org = org_id org, ses_created_at = zero_time,
       ses_updated_at = zero_time, ses_expires_at = now + SessionTTL (svc_policy S),
       ses_revoked_at = None, ses_authenticated_at = Some now, ses_method = method,
       ses_user_agent = userAgent\<rparr>) (\<lambda>createdSession.
   bnd (generateRefreshToken E) (\<lambda>refreshToken.
   bnd (CreateRefreshToken E
      \<lparr>rt_id = nil_uuid, rt_created_at = zero_time, rt_session = ses_id createdSession,
       rt_org = org_id org, rt_hash = hashRefreshToken E refreshToken,
       rt_expires_at = now + RefreshTokenTTL (svc_policy S), rt_consumed_at = None\<rparr>) (\<lambda>_.
   bnd (GenerateWithEmailVerification E (svc_jwt S) (svc_tokens S) userID
      (ses_id createdSession) (org_id org) (mem_role membership) audience platformRoles
      (usr_email_verified_at user \<noteq> None) now) (\<lambda>accessToken.
   bnd (Enqueue E (usr_email user) EmailTemplateNewSignIn
      [(TemplateVariableIPAddress, ValueOrUnknown clientIP),
       (TemplateVariableUserAgent, ValueOrUnknown userAgent),
       (TemplateVariableOccurredAt, OccurredAt E now)] now) (\<lambda>_.
   bnd (AuthenticationLogin E (svc_events S)
      \<lparr>ae_outcome = OutcomeSuccess, ae_reason = '''', ae_actor_type = ActorUser,
       ae_actor_user = Some userID, ae_user = Some userID,
       ae_session = Some (ses_id createdSession), ae_org = Some (org_id org),
       ae_passkey = passkeyID, ae_method = method\<rparr>) (\<lambda>_.
   ret (accessToken, refreshToken)))))))"

definition createSession ::
  "env \<Rightarrow> service \<Rightarrow> uuid \<Rightarrow> uuid option \<Rightarrow> string \<Rightarrow> string \<Rightarrow> string \<Rightarrow> time \<Rightarrow> string \<Rightarrow>
   (string \<times> string) M" where
  "createSession E S userID passkeyID audience method userAgent now clientIP =
   (let deny = (\<lambda>reason err.
          bnd (recordSessionAuthenticationDenied E S userID method reason) (\<lambda>_. ret (Inl err)))
    in raise_result (with_tx E (
      try_bnd (ensureUserAllowed E S userID)
        (\<lambda>e. if errors_is e (ESession ErrUserNotAllowed)
               then deny ReasonAccessPolicy e else fail e)
        (\<lambda>user.
        bnd (LockUserForKeyShare E userID) (\<lambda>_.
        bnd (passkey_available E userID passkeyID) (\<lambda>available.
        if \<not> available
        then deny ReasonMethodUnavailable (ESession ErrAuthenticationMethodUnavailable)
        else
        bnd (DefaultOrganizationForUser E (usr_id user)) (\<lambda>(org, _).
        bnd (LockOrganizationForKeyShare E (org_id org)) (\<lambda>_.
        bnd (RequireMembership E userID (org_id org)) (\<lambda>membership.
        bnd (GetUserPlatformRoleNames E userID) (\<lambda>roleNames.
        bnd (of_sum (FromDBRoleNames roleNames)) (\<lambda>platformRoles.
        if \<not> canAccessAudience platformRoles audience
        then deny ReasonAudienceForbidden (ESession ErrForbidden)
        else
        bnd (IsUserDisabled E userID) (\<lambda>disabled.
        if disabled then deny ReasonUserDisabled (ESession ErrUserDisabled)
        else
        bnd (store_new_session E S userID user org membership platformRoles passkeyID
              audience method userAgent now clientIP) (\<lambda>pair. ret (Inr pair))))))))))))))"

definition CreateSession ::
  "env \<Rightarrow> service \<Rightarrow> uuid \<Rightarrow> string \<Rightarrow> string \<Rightarrow> string \<Rightarrow> time \<Rightarrow> string \<Rightarrow> (string \<times> string) M" where
  "CreateSession E S userID audience method userAgent now clientIP =
     createSession E S userID None audience method userAgent now clientIP"

definition CreatePasskeySession ::
  "env \<Rightarrow> service \<Rightarrow> uuid \<Rightarrow> uuid \<Rightarrow> string \<Rightarrow> string \<Rightarrow> time \<Rightarrow> string \<Rightarrow> (string \<times> string) M" where
  "CreatePasskeySession E S userID passkeyID audience userAgent now clientIP =
     createSession E S userID (Some passkeyID) audience AuthenticationMethodPasskey userAgent now
       clientIP"

section \<open>Recent authentication and step-up challenges\<close>

definition RequireRecentAuthentication :: "env \<Rightarrow> service \<Rightarrow> uuid \<Rightarrow> uuid \<Rightarrow> time \<Rightarrow> unit M" where
  "RequireRecentAuthentication E S userID sessionID now =
   bnd (map_err (err_as (EStore ErrSessionNotFound) (ESession ErrInvalidSession))
          (GetActiveSessionByID E sessionID now)) (\<lambda>current.
   if ses_user current \<noteq> userID then fail (ESession ErrInvalidSession)
   else if \<not> RecentAuthenticationEnabled (svc_policy S) then ret ()
   else (let window = RecentAuthenticationWindow (svc_policy S) in
     case ses_authenticated_at current of
       None \<Rightarrow> fail (ESession ErrRecentAuthenticationRequired)
     | Some at \<Rightarrow>
         if window \<le> 0 \<or> ses_method current = '''' then fail (ESession ErrRecentAuthenticationRequired)
         else if now < at \<or> window < time_sub now at
         then fail (ESession ErrRecentAuthenticationRequired)
         else ret ()))"

definition MarkRecentlyAuthenticated :: "env \<Rightarrow> uuid \<Rightarrow> uuid \<Rightarrow> string \<Rightarrow> time \<Rightarrow> unit M" where
  "MarkRecentlyAuthenticated E userID sessionID method now =
     (if method \<notin> set known_methods then fail (ESession ErrRecentAuthenticationRequired)
      else UpdateSessionAuthentication E userID sessionID method now)"

definition StartAuthenticationChallenge ::
  "env \<Rightarrow> uuid \<Rightarrow> uuid \<Rightarrow> time \<Rightarrow> authentication_challenge M" where
  "StartAuthenticationChallenge E userID sessionID now = with_tx E (
   bnd (map_err (err_as (EStore ErrSessionNotFound) (ESession ErrInvalidSession))
          (GetActiveSessionByIDForUpdate E sessionID now)) (\<lambda>current.
   if ses_user current \<noteq> userID then fail (ESession ErrInvalidSession)
   else
   let replace = bnd (new_uuid E) (\<lambda>i.
         ReplaceAuthenticationChallenge E
           \<lparr>ac_id = i, ac_user = userID, ac_session = sessionID, ac_created_at = now,
            ac_expires_at = (let e = now + authenticationChallengeTTL in
               if ses_expires_at current < e then ses_expires_at current else e),
            ac_consumed_at = None, ac_method = ''''\<rparr>)
   in try_bnd (GetAuthenticationChallengeBySessionIDForUpdate E sessionID)
        (\<lambda>e. if errors_is e (EStore ErrAuthenticationChallengeNotFound) then replace else fail e)
        (\<lambda>existing. if \<not> ac_is_consumed existing \<and> \<not> ac_is_expired existing now
                     then ret existing else replace)))"

definition challenge_lookup :: "env \<Rightarrow> uuid \<Rightarrow> authentication_challenge M" where
  "challenge_lookup E challengeID =
     map_err (err_as (EStore ErrAuthenticationChallengeNotFound)
                (ESession ErrAuthenticationChallengeInvalid))
       (GetAuthenticationChallengeByID E challengeID)"

definition ValidateAuthenticationChallenge ::
  "env \<Rightarrow> uuid \<Rightarrow> uuid \<Rightarrow> uuid \<Rightarrow> time \<Rightarrow> unit M" where
  "ValidateAuthenticationChallenge E userID sessionID challengeID now =
   bnd (challenge_lookup E challengeID) (\<lambda>c.
     guard_err (ac_user c \<noteq> userID \<or> ac_session c \<noteq> sessionID \<or> ac_is_consumed c
         \<or> ac_is_expired c now) (ESession ErrAuthenticationChallengeInvalid))"

definition ValidateCompletedAuthenticationChallenge ::
  "env \<Rightarrow> uuid \<Rightarrow> uuid \<Rightarrow> uuid \<Rightarrow> unit M" where
  "ValidateCompletedAuthenticationChallenge E userID sessionID challengeID =
   bnd (challenge_lookup E challengeID) (\<lambda>c.
     guard_err (ac_user c \<noteq> userID \<or> ac_session c \<noteq> sessionID \<or> \<not> ac_is_consumed c
         \<or> ac_method c = '''') (ESession ErrAuthenticationChallengeInvalid))"

definition reauthentication_event ::
  "string \<Rightarrow> string \<Rightarrow> uuid \<Rightarrow> uuid \<Rightarrow> string \<Rightarrow> authentication_event" where
  "reauthentication_event outcome reason userID sessionID method =
     \<lparr>ae_outcome = outcome, ae_reason = reason, ae_actor_type = ActorUser,
      ae_actor_user = Some userID, ae_user = Some userID, ae_session = Some sessionID,
      ae_org = None, ae_passkey = None, ae_method = method\<rparr>"

definition CompleteAuthenticationChallenge ::
  "env \<Rightarrow> service \<Rightarrow> uuid \<Rightarrow> uuid \<Rightarrow> uuid \<Rightarrow> string \<Rightarrow> time \<Rightarrow> unit M" where
  "CompleteAuthenticationChallenge E S userID sessionID challengeID method now =
   (let invalid = ret (Inl (ESession ErrAuthenticationChallengeInvalid)) in
    if method \<notin> set known_methods then fail (ESession ErrAuthenticationChallengeInvalid)
    else raise_result (with_tx E (
      try_bnd (GetActiveSessionByIDForUpdate E sessionID now)
        (\<lambda>e. if errors_is e (EStore ErrSessionNotFound) then invalid else fail e)
        (\<lambda>current.
        if ses_user current \<noteq> userID then invalid
        else
        try_bnd (GetAuthenticationChallengeByIDForUpdate E challengeID)
          (\<lambda>e. if errors_is e (EStore ErrAuthenticationChallengeNotFound) then invalid else fail e)
          (\<lambda>c.
          if ac_user c \<noteq> userID \<or> ac_session c \<noteq> sessionID \<or> ac_is_consumed c \<or> ac_is_expired c now
          then invalid
          else
          bnd (UpdateSessionAuthentication E userID sessionID method now) (\<lambda>_.
          bnd (ConsumeAuthenticationChallenge E challengeID method now) (\<lambda>_.
          bnd (AuthenticationReauthenticated E (svc_events S)
                 (reauthentication_event OutcomeSuccess '''' userID sessionID method)) (\<lambda>_.
          ret (Inr ())))))))))"

definition RecordReauthenticationDenied ::
  "env \<Rightarrow> service \<Rightarrow> uuid \<Rightarrow> uuid \<Rightarrow> string \<Rightarrow> string \<Rightarrow> unit M" where
  "RecordReauthenticationDenied E S userID sessionID method reasonCode =
     AuthenticationReauthenticated E (svc_events S)
       (reauthentication_event OutcomeDenied reasonCode userID sessionID method)"

section \<open>Switching the organization\<close>

definition SwitchSessionOrganization ::
  "env \<Rightarrow> service \<Rightarrow> uuid \<Rightarrow> uuid \<Rightarrow> uuid \<Rightarrow> string \<Rightarrow> time \<Rightarrow> (string \<times> string) M" where
  "SwitchSessionOrganization E S userID sessionID organizationID audience now = with_tx E (
   bnd (ensureUserAllowed E S userID) (\<lambda>user.
   bnd (LockUserForKeyShare E userID) (\<lambda>_.
   bnd (map_err (err_as (EStore ErrOrganizationNotFound) (ESession ErrForbidden))
          (LockOrganizationForKeyShare E organizationID)) (\<lambda>_.
   bnd (map_err (\<lambda>_. ESession ErrInvalidSession) (GetActiveSessionByID E sessionID now)) (\<lambda>session.
   if ses_user session \<noteq> userID then fail (ESession ErrForbidden)
   else
   bnd (map_err (err_as (EStore ErrOrganizationMembershipNotFound) (ESession ErrForbidden))
          (RequireMembership E userID organizationID)) (\<lambda>membership.
   bnd (GetUserPlatformRoleNames E userID) (\<lambda>roleNames.
   bnd (of_sum (FromDBRoleNames roleNames)) (\<lambda>platformRoles.
   if \<not> canAccessAudience platformRoles audience then fail (ESession ErrForbidden)
   else
   bnd (IsUserDisabled E userID) (\<lambda>disabled.
   if disabled then fail (ESession ErrUserDisabled)
   else
   bnd (UpdateSessionActiveOrganization E sessionID organizationID) (\<lambda>_.
   bnd (DeleteRefreshTokensBySession E sessionID) (\<lambda>_.
   bnd (generateRefreshToken E) (\<lambda>refreshToken.
   bnd (CreateRefreshToken E
      \<lparr>rt_id = nil_uuid, rt_created_at = now, rt_session = sessionID, rt_org = organizationID,
       rt_hash = hashRefreshToken E refreshToken,
       rt_expires_at = (let e = now + RefreshTokenTTL (svc_policy S) in
          if ses_expires_at session < e then ses_expires_at session else e),
       rt_consumed_at = None\<rparr>) (\<lambda>_.
   bnd (GenerateWithEmailVerification E (svc_jwt S) (svc_tokens S) userID sessionID organizationID
      (mem_role membership) audience platformRoles (usr_email_verified_at user \<noteq> None) now)
   (\<lambda>accessToken. ret (accessToken, refreshToken)))))))))))))))"

section \<open>Refreshing\<close>

definition refresh_event :: "session \<Rightarrow> uuid \<Rightarrow> session_event" where
  "refresh_event session organizationID =
     \<lparr>sn_outcome = OutcomeSuccess, sn_reason = '''', sn_actor_type = ActorUser,
      sn_actor_user = Some (ses_user session), sn_user = Some (ses_user session),
      sn_session = Some (ses_id session), sn_org = Some organizationID,
      sn_method = ses_method session\<rparr>"

text \<open>Consuming the old token and storing its successor, which does not outlive the session.\<close>

definition rotate_token ::
  "env \<Rightarrow> service \<Rightarrow> session \<Rightarrow> refresh_token \<Rightarrow> string \<Rightarrow> time \<Rightarrow> string M" where
  "rotate_token E S session rt refreshToken now =
   (if shouldRotate rt now (RefreshTokenRotation (svc_policy S)) then
      bnd (map_err (err_as (EStore ErrRefreshTokenNotFound) (ESession ErrInvalidRefreshToken))
             (ConsumeRefreshToken E (rt_id rt) now)) (\<lambda>_.
      bnd (generateRefreshToken E) (\<lambda>newRefreshToken.
      bnd (CreateRefreshToken E
        \<lparr>rt_id = nil_uuid, rt_created_at = now, rt_session = rt_session rt, rt_org = rt_org rt,
         rt_hash = hashRefreshToken E newRefreshToken,
         rt_expires_at = (let e = now + RefreshTokenTTL (svc_policy S) in
            if ses_expires_at session < e then ses_expires_at session else e),
         rt_consumed_at = None\<rparr>) (\<lambda>_.
      ret newRefreshToken)))
    else ret refreshToken)"

definition refresh_body ::
  "env \<Rightarrow> service \<Rightarrow> string \<Rightarrow> string \<Rightarrow> time \<Rightarrow> (string \<times> string) M" where
  "refresh_body E S refreshToken audience now =
   (let hashed = hashRefreshToken E refreshToken;
        invalid = (\<lambda>_. ESession ErrInvalidRefreshToken);
        reuse = (\<lambda>rt. fail (ESession (ErrRefreshTokenReuseDetected rt)))
    in bnd (map_err invalid (GetRefreshTokenByHash E hashed)) (\<lambda>rt0.
       if rt_consumed_at rt0 \<noteq> None then reuse rt0
       else if rt_expires_at rt0 < now then fail (ESession ErrInvalidRefreshToken)
       else
       bnd (map_err invalid (GetSessionByID E (rt_session rt0))) (\<lambda>session0.
       bnd (map_err invalid (LockUserForKeyShare E (ses_user session0))) (\<lambda>_.
       bnd (map_err invalid (LockOrganizationForKeyShare E (rt_org rt0))) (\<lambda>_.
       bnd (map_err invalid (GetRefreshTokenByHashForUpdate E hashed)) (\<lambda>rt.
       if rt_consumed_at rt \<noteq> None then reuse rt
       else if rt_expires_at rt < now then fail (ESession ErrInvalidRefreshToken)
       else
       bnd (map_err invalid (GetSessionByID E (rt_session rt))) (\<lambda>session.
       if ses_expires_at session < now \<or> ses_revoked_at session \<noteq> None
       then fail (ESession ErrInvalidRefreshToken)
       else
       bnd (ensureUserAllowed E S (ses_user session)) (\<lambda>user.
       bnd (map_err (err_as (EStore ErrOrganizationMembershipNotFound) (ESession ErrForbidden))
              (RequireMembership E (ses_user session) (rt_org rt))) (\<lambda>membership.
       bnd (GetUserPlatformRoleNames E (ses_user session)) (\<lambda>roleNames.
       bnd (of_sum (FromDBRoleNames roleNames)) (\<lambda>platformRoles.
       if \<not> canAccessAudience platformRoles audience then fail (ESession ErrForbidden)
       else
       bnd (IsUserDisabled E (ses_user session)) (\<lambda>disabled.
       if disabled then fail (ESession ErrUserDisabled)
       else
       bnd (rotate_token E S session rt refreshToken now) (\<lambda>newRefreshToken.
       bnd (GenerateWithEmailVerification E (svc_jwt S) (svc_tokens S) (ses_user session)
          (rt_session rt) (rt_org rt) (mem_role membership) audience platformRoles
          (usr_email_verified_at user \<noteq> None) now) (\<lambda>newAccessToken.
       bnd (SessionRefresh E (svc_events S) (refresh_event session (rt_org rt))) (\<lambda>_.
       ret (newAccessToken, newRefreshToken))))))))))))))))"

definition later :: "time \<Rightarrow> time \<Rightarrow> time" where
  "later markerAt observedAt = (if markerAt < observedAt then observedAt else markerAt)"

definition revokeReusedRefreshToken ::
  "env \<Rightarrow> service \<Rightarrow> refresh_token \<Rightarrow> time \<Rightarrow> 'a M" where
  "revokeReusedRefreshToken E S rt observedAt =
   bnd (with_tx E (
      bnd (GetSessionByID E (rt_session rt)) (\<lambda>session.
      bnd (LockUserForUpdate E (ses_user session)) (\<lambda>_.
      bnd (GetSessionByID E (rt_session rt)) (\<lambda>_.
      bnd (now_utc E) (\<lambda>markerAt.
      bnd (attempt (RevokeSessionTokens E (svc_revocations S) (rt_session rt)
             (later markerAt observedAt))) (\<lambda>c.
      let cacheErr = (case c of Inl e \<Rightarrow> Some e | Inr _ \<Rightarrow> None) in
      bnd (map_err (errors_join cacheErr) (store_RevokeSession E (rt_session rt) observedAt)) (\<lambda>_.
      bnd (SessionRefreshTokenReuse E (svc_events S)
        \<lparr>sn_outcome = OutcomeDenied, sn_reason = ReasonRefreshTokenReuse,
         sn_actor_type = ActorAnonymous, sn_actor_user = None, sn_user = Some (ses_user session),
         sn_session = Some (ses_id session), sn_org = Some (rt_org rt), sn_method = ''''\<rparr>) (\<lambda>_.
      ret cacheErr)))))))))
   (\<lambda>cacheErr. fail (EJoin (ESession ErrRefreshTokenReuse #
      (case cacheErr of None \<Rightarrow> [] | Some e \<Rightarrow> [e]))))"

fun reused_token :: "err \<Rightarrow> refresh_token option" where
  "reused_token (ESession (ErrRefreshTokenReuseDetected rt)) = Some rt"
| "reused_token _ = None"

definition RefreshSession ::
  "env \<Rightarrow> service \<Rightarrow> string \<Rightarrow> string \<Rightarrow> time \<Rightarrow> (string \<times> string) M" where
  "RefreshSession E S refreshToken audience now =
   try_bnd (with_tx E (refresh_body E S refreshToken audience now))
     (\<lambda>e. case reused_token e of Some rt \<Rightarrow> revokeReusedRefreshToken E S rt now | None \<Rightarrow> fail e)
     ret"

section \<open>Logout and revocation\<close>

definition session_event_for ::
  "string \<Rightarrow> string \<Rightarrow> uuid option \<Rightarrow> uuid \<Rightarrow> uuid option \<Rightarrow> uuid option \<Rightarrow> session_event" where
  "session_event_for reason actorType actor userID sessionID organizationID =
     \<lparr>sn_outcome = OutcomeSuccess, sn_reason = reason, sn_actor_type = actorType,
      sn_actor_user = actor, sn_user = Some userID, sn_session = sessionID, sn_org = organizationID,
      sn_method = ''''\<rparr>"

definition logout_refresh :: "env \<Rightarrow> service \<Rightarrow> string \<Rightarrow> bool M" where
  "logout_refresh E S refreshToken =
   (let hashed = hashRefreshToken E refreshToken in with_tx E (
    try_bnd (GetRefreshTokenByHash E hashed)
      (\<lambda>e. if errors_is e (EStore ErrRefreshTokenNotFound) then ret False else fail e)
      (\<lambda>rt0.
      bnd (GetSessionByID E (rt_session rt0)) (\<lambda>session.
      bnd (LockUserForUpdate E (ses_user session)) (\<lambda>_.
      bnd (GetRefreshTokenByHash E hashed) (\<lambda>rt.
      bnd (GetSessionByID E (rt_session rt)) (\<lambda>_.
      bnd (now_utc E) (\<lambda>revokedAt.
      bnd (RevokeSessionTokens E (svc_revocations S) (rt_session rt) revokedAt) (\<lambda>_.
      bnd (store_RevokeSession E (rt_session rt) revokedAt) (\<lambda>_.
      bnd (SessionLogout E (svc_events S)
        (session_event_for '''' ActorUser (Some (ses_user session)) (ses_user session)
           (Some (ses_id session)) None)) (\<lambda>_.
      ret True)))))))))))"

text \<open>
  Without a stored refresh token, the access token alone is revoked for the rest of its life;
  one that does not parse is nothing to log out.
\<close>

definition logout_access :: "env \<Rightarrow> service \<Rightarrow> string \<Rightarrow> unit M" where
  "logout_access E S accessToken =
   bnd (now_utc E) (\<lambda>now.
   case ParseAny (svc_jwt S) (svc_tokens S) accessToken now of
     Inl e \<Rightarrow>
       if errors_is e (EToken ErrInvalidToken) \<or> errors_is e (EToken ErrExpiredToken)
          \<or> errors_is e (EToken ErrInvalidClaims)
       then ret () else fail e
   | Inr claims \<Rightarrow>
       bnd (RevokeToken E (svc_revocations S) (Some claims)
              (time_sub (case clm_expires_at claims of None \<Rightarrow> 0 | Some t \<Rightarrow> t) now)) (\<lambda>_.
       case uuid_parse E (clm_subject claims) of
         None \<Rightarrow> ret ()
       | Some userID \<Rightarrow>
           if userID = nil_uuid \<or> clm_session_id claims = nil_uuid then ret ()
           else SessionLogout E (svc_events S)
             (session_event_for '''' ActorUser (Some userID) userID (Some (clm_session_id claims))
                (Some (clm_org_id claims)))))"

definition Logout :: "env \<Rightarrow> service \<Rightarrow> string \<Rightarrow> string \<Rightarrow> unit M" where
  "Logout E S refreshToken accessToken =
   bnd (if refreshToken \<noteq> '''' then logout_refresh E S refreshToken else ret False)
     (\<lambda>refreshTokenFound.
   if refreshTokenFound \<or> accessToken = '''' then ret () else logout_access E S accessToken)"

definition RevokeAllSessions :: "env \<Rightarrow> service \<Rightarrow> uuid \<Rightarrow> unit M" where
  "RevokeAllSessions E S userID = with_tx E (
   bnd (LockUserForUpdate E userID) (\<lambda>_.
   bnd (now_utc E) (\<lambda>revokedAt.
   bnd (RevokeUserTokens E (svc_revocations S) userID revokedAt) (\<lambda>_.
   bnd (RevokeAllSessionsForUser E userID revokedAt) (\<lambda>_.
   SessionRevoked E (svc_events S)
     (session_event_for ReasonSecurityContainment ActorSystem None userID None None))))))"

section \<open>Validating access tokens\<close>

record access_identity =
  ai_user :: uuid
  ai_session :: uuid
  ai_org :: uuid
  ai_org_role :: string
  ai_roles :: roles
  ai_email_verified :: bool

definition identityFromClaims :: "env \<Rightarrow> access_claims \<Rightarrow> err + access_identity" where
  "identityFromClaims E c = (case uuid_parse E (clm_subject c) of
       None \<Rightarrow> Inl (EToken ErrInvalidToken)
     | Some userID \<Rightarrow>
         if userID = nil_uuid then Inl (EToken ErrInvalidToken)
         else if clm_org_id c = nil_uuid \<or> clm_org_role c = '''' then Inl (EToken ErrInvalidToken)
         else (case FromClaims (clm_roles c) of
             Inl e \<Rightarrow> Inl e
           | Inr rs \<Rightarrow> Inr \<lparr>ai_user = userID, ai_session = clm_session_id c, ai_org = clm_org_id c,
               ai_org_role = clm_org_role c, ai_roles = rs,
               ai_email_verified = clm_email_verified c\<rparr>))"

definition ValidateAccessToken ::
  "env \<Rightarrow> service \<Rightarrow> string \<Rightarrow> string \<Rightarrow> time \<Rightarrow> access_identity M" where
  "ValidateAccessToken E S accessToken expectedAudience now =
   bnd (of_sum (Parse (svc_jwt S) (svc_tokens S) accessToken expectedAudience now)) (\<lambda>claims.
   bnd (Check E (svc_revocations S) (Some claims)) (\<lambda>_.
   of_sum (identityFromClaims E claims)))"

definition ValidateAnyAccessToken :: "env \<Rightarrow> service \<Rightarrow> string \<Rightarrow> time \<Rightarrow> access_identity M" where
  "ValidateAnyAccessToken E S accessToken now =
   bnd (of_sum (ParseAny (svc_jwt S) (svc_tokens S) accessToken now)) (\<lambda>claims.
   bnd (Check E (svc_revocations S) (Some claims)) (\<lambda>_.
   of_sum (identityFromClaims E claims)))"

definition RevokeAccessToken :: "env \<Rightarrow> service \<Rightarrow> string \<Rightarrow> time \<Rightarrow> unit M" where
  "RevokeAccessToken E S accessToken now =
   bnd (of_sum (ParseAny (svc_jwt S) (svc_tokens S) accessToken now)) (\<lambda>claims.
   RevokeToken E (svc_revocations S) (Some claims)
     (time_sub (case clm_expires_at claims of None \<Rightarrow> 0 | Some t \<Rightarrow> t) now))"

section \<open>The user's own sessions\<close>

fun split_at_id :: "uuid \<Rightarrow> session list \<Rightarrow> (session list \<times> session \<times> session list) option" where
  "split_at_id i [] = None"
| "split_at_id i (s # rest) = (if ses_id s = i then Some ([], s, rest)
     else (case split_at_id i rest of None \<Rightarrow> None | Some (a, c, b) \<Rightarrow> Some (s # a, c, b)))"

definition current_first :: "uuid \<Rightarrow> session list \<Rightarrow> session list" where
  "current_first currentSessionID ss =
     (if currentSessionID = nil_uuid then ss
      else (case split_at_id currentSessionID ss of None \<Rightarrow> ss
        | Some (before, current, after) \<Rightarrow>
            if before = [] then ss else current # before @ after))"

definition ListUserSessions :: "env \<Rightarrow> uuid \<Rightarrow> uuid \<Rightarrow> time \<Rightarrow> session list M" where
  "ListUserSessions E userID currentSessionID now =
     bnd (ListActiveSessionsByUserID E userID now) (\<lambda>ss. ret (current_first currentSessionID ss))"

definition RevokeUserSession :: "env \<Rightarrow> service \<Rightarrow> uuid \<Rightarrow> uuid \<Rightarrow> time \<Rightarrow> unit M" where
  "RevokeUserSession E S userID sessionID now = with_tx E (
   bnd (GetSessionByID E sessionID) (\<lambda>session0.
   if ses_user session0 \<noteq> userID then fail (ESession ErrForbidden)
   else
   bnd (LockUserForUpdate E userID) (\<lambda>_.
   bnd (GetSessionByID E sessionID) (\<lambda>session.
   if ses_user session \<noteq> userID then fail (ESession ErrForbidden)
   else
   bnd (now_utc E) (\<lambda>markerAt.
   bnd (RevokeSessionTokens E (svc_revocations S) sessionID (later markerAt now)) (\<lambda>_.
   bnd (store_RevokeSession E sessionID now) (\<lambda>_.
   bnd (DeleteRefreshTokensBySession E sessionID) (\<lambda>_.
   SessionRevoked E (svc_events S)
     (session_event_for ReasonUserRequested ActorUser (Some userID) userID (Some sessionID) None)))))))))"

definition RevokeOtherUserSessions :: "env \<Rightarrow> service \<Rightarrow> uuid \<Rightarrow> uuid \<Rightarrow> time \<Rightarrow> unit M" where
  "RevokeOtherUserSessions E S userID currentSessionID now = with_tx E (
   bnd (LockUserForUpdate E userID) (\<lambda>_.
   bnd (ListActiveSessionsByUserID E userID now) (\<lambda>ss.
   bnd (now_utc E) (\<lambda>markerAt0.
   let markerAt = later markerAt0 now in
   bnd (for_each (\<lambda>session.
       if ses_id session = currentSessionID then ret ()
       else bnd (RevokeSessionTokens E (svc_revocations S) (ses_id session) markerAt) (\<lambda>_.
         SessionRevoked E (svc_events S)
           (session_event_for ReasonUserRequested ActorUser (Some userID) userID
              (Some (ses_id session)) None))) ss) (\<lambda>_.
   bnd (RevokeOtherSessionsByUserID E userID currentSessionID now) (\<lambda>_.
   DeleteRefreshTokensForOtherSessions E userID currentSessionID))))))"

end
