(* ===== verification/Session_Proofs.thy ===== *)
theory Session_Proofs imports Session_Service begin

text \<open>
  What the session service guarantees. \<open>session_opened\<close>, \<open>session_switched\<close> and
  \<open>session_refreshed\<close> say what a successful call did to the database; the \<open>wp\<close>
  lemmas prove it of the handlers together with the effect of a failed call.
\<close>

section \<open>Rules for the helpers\<close>

lemma wp_Generate [wps]:
  "wp (GenerateWithEmailVerification E J T u s org role aud rs ev now) Q any_error w =
     (\<forall>a. GenerateWithEmailVerification E J T u s org role aud rs ev now w = (Inr a, tick w) \<longrightarrow> Q a (tick w))"
  by (auto simp: wp_def GenerateWithEmailVerification_def bnd_def new_uuid_def of_option_def ret_def fail_def split: prod.splits option.splits sum.splits)

lemma wp_generateRefreshToken [wps]:
  "wp (generateRefreshToken E) Q R w = ((o_rand E (w_step w) 32 = None \<longrightarrow> R ERand (tick w))
     \<and> (\<forall>b. o_rand E (w_step w) 32 = Some b \<longrightarrow> Q (base64_encode b) (tick w)))"
  by (simp add: generateRefreshToken_def wps)

definition policy_allows :: "service \<Rightarrow> user \<Rightarrow> db \<Rightarrow> bool" where
  "policy_allows S user d \<longleftrightarrow> (svc_access S = AllowlistPolicy True \<longrightarrow>
     CanonicalEmail (usr_email user) \<in> al_email ` set (allowed_emails d))"

lemma wp_IsEmailAllowed:
  assumes "\<And>w'. w_db w' = w_db w \<Longrightarrow> w_cache w' = w_cache w \<Longrightarrow>
      Q (p = AllowlistPolicy True \<longrightarrow> CanonicalEmail em \<in> al_email ` set (allowed_emails (w_db w))) w'"
    and "\<And>e w'. w_db w' = w_db w \<Longrightarrow> w_cache w' = w_cache w \<Longrightarrow> R (ESql e) w'"
  shows "wp (IsEmailAllowed E p em) Q R w"
  using assms(1) [of w] assms(1) [of "tick w"]
  by (cases p) (auto simp: IsEmailAllowed_def store_IsEmailAllowed_def wps intro!: assms(2))

text \<open>The errors of \<open>ensureUserAllowed\<close>.\<close>

definition admission_error :: "err \<Rightarrow> bool" where
  "admission_error e \<longleftrightarrow> (\<exists>s. e = ESql s) \<or> e = EStore ErrUserNotFound \<or> e = ESession ErrUserNotAllowed"

lemma wp_ensureUserAllowed:
  assumes "\<And>user w'. find (\<lambda>u. usr_id u = userID) (users (w_db w)) = Some user \<Longrightarrow>
      policy_allows S user (w_db w) \<Longrightarrow> w_db w' = w_db w \<Longrightarrow> w_cache w' = w_cache w \<Longrightarrow> Q user w'"
    and "\<And>e w'. w_db w' = w_db w \<Longrightarrow> w_cache w' = w_cache w \<Longrightarrow> admission_error e \<Longrightarrow> R e w'"
  shows "wp (ensureUserAllowed E S userID) Q R w"
  unfolding ensureUserAllowed_def GetUserByID_def
  by (auto simp: wps admission_error_def intro!: wp_IsEmailAllowed assms simp: policy_allows_def split: if_splits)

definition passkey_usable :: "uuid option \<Rightarrow> uuid \<Rightarrow> db \<Rightarrow> bool" where
  "passkey_usable pk userID d = (case pk of None \<Rightarrow> True
     | Some p \<Rightarrow> (case find (\<lambda>r. pk_id r = p) (passkeys d) of None \<Rightarrow> False
         | Some k \<Rightarrow> pk_user k = userID \<and> pk_restricted_at k = None))"

lemma wp_passkey_available:
  assumes "\<And>w'. w_db w' = w_db w \<Longrightarrow> Q (passkey_usable pk userID (w_db w)) w'"
    and "\<And>e w'. w_db w' = w_db w \<Longrightarrow> R e w'"
  shows "wp (passkey_available E userID pk) Q R w"
proof -
  have q: "w_db w' = w_db w \<Longrightarrow> b = passkey_usable pk userID (w_db w) \<Longrightarrow> Q b w'" for b w'
    using assms(1) by simp
  show ?thesis
    unfolding passkey_available_def GetPasskeyByID_def
    by (auto simp: wps intro!: q assms(2) simp: passkey_usable_def)
qed

lemma keeps_DefaultOrganizationForUser [keeps_intro]: "keeps J (DefaultOrganizationForUser E u)"
  unfolding DefaultOrganizationForUser_def
  by (auto intro!: keeps_intro split: option.splits sum.splits list.splits)

lemmas wp_DefaultOrganizationForUser = wp_read [OF keeps_DefaultOrganizationForUser]

lemmas lock_defs = LockUserForKeyShare_def LockUserForUpdate_def LockOrganizationForKeyShare_def

lemmas lookup_defs = RequireMembership_def GetOrganizationMembership_def GetUserPlatformRoleNames_def
    IsUserDisabled_def

section \<open>Opening a session\<close>

text \<open>
  The user is known, the access policy admits its address, it belongs to the organization, its
  stored roles parse and open the audience, and it is not disabled; the access token was signed
  for exactly that user, session, organization, membership role, audience and platform roles.
\<close>

definition granted ::
  "env \<Rightarrow> service \<Rightarrow> string \<Rightarrow> uuid \<Rightarrow> uuid \<Rightarrow> string \<Rightarrow> uuid \<Rightarrow> time \<Rightarrow> db \<Rightarrow> bool" where
  "granted E S accessToken userID sessionID audience organizationID now d \<longleftrightarrow>
     (\<exists>user m roles. find (\<lambda>u. usr_id u = userID) (users d) = Some user
     \<and> policy_allows S user d
     \<and> find_membership organizationID userID d = Some m
     \<and> FromDBRoleNames (sort (map snd (filter (\<lambda>p. fst p = userID) (user_roles d)))) = Inr roles
     \<and> canAccessAudience roles audience
     \<and> usr_disabled_at user = None
     \<and> (\<exists>w0. GenerateWithEmailVerification E (svc_jwt S) (svc_tokens S) userID sessionID organizationID
          (mem_role m) audience roles (usr_email_verified_at user \<noteq> None) now w0 = (Inr accessToken, tick w0)))"

lemma not_disabled_find:
  assumes "find (\<lambda>r. usr_id r = i) us = Some u" and "\<not> list_ex (\<lambda>r. usr_id r = i \<and> usr_disabled_at r \<noteq> None) us"
  shows "usr_disabled_at u = None"
  using find_Some_in [OF assms(1)] assms(2) by (auto simp: list_ex_iff)

lemma grantedI:
  assumes "find (\<lambda>u. usr_id u = userID) (users d) = Some user" and "policy_allows S user d"
    and "find_membership oid userID d = Some m"
    and "FromDBRoleNames (sort (map snd (filter (\<lambda>p. fst p = userID) (user_roles d)))) = Inr roles"
    and "canAccessAudience roles audience"
    and "\<not> list_ex (\<lambda>r. usr_id r = userID \<and> (\<exists>y. usr_disabled_at r = Some y)) (users d)"
    and "GenerateWithEmailVerification E (svc_jwt S) (svc_tokens S) userID sessionID oid
          (mem_role m) audience roles (\<exists>y. usr_email_verified_at user = Some y) now w0 = (Inr accessToken, tick w0)"
  shows "granted E S accessToken userID sessionID audience oid now d"
proof -
  have "usr_disabled_at user = None"
    by (rule not_disabled_find [OF assms(1)]) (use assms(6) in simp)
  with assms(1-5,7) show ?thesis unfolding granted_def not_None_eq by blast
qed

definition generated_token :: "env \<Rightarrow> string \<Rightarrow> bool" where
  "generated_token E token \<longleftrightarrow> (\<exists>n b. o_rand E n 32 = Some b \<and> token = base64_encode b)"

lemma generated_tokenI [simp]: "o_rand E n 32 = Some b \<Longrightarrow> generated_token E (base64_encode b)"
  by (auto simp: generated_token_def)

definition new_pair ::
  "env \<Rightarrow> service \<Rightarrow> uuid \<Rightarrow> uuid \<Rightarrow> string \<Rightarrow> time \<Rightarrow> string \<Rightarrow> session \<Rightarrow> refresh_token \<Rightarrow> db \<Rightarrow> bool" where
  "new_pair E S userID organizationID method now refreshToken s t d \<longleftrightarrow>
     ses_user s = userID \<and> ses_org s = organizationID \<and> ses_expires_at s = now + SessionTTL (svc_policy S)
     \<and> ses_revoked_at s = None \<and> ses_authenticated_at s = Some now \<and> ses_method s = method
     \<and> method \<in> set known_methods
     \<and> ses_id s \<notin> ses_id ` set (sessions d) \<and> ses_id s \<in> range (o_uuid E)
     \<and> generated_token E refreshToken
     \<and> rt_session t = ses_id s \<and> rt_org t = organizationID \<and> rt_consumed_at t = None
     \<and> rt_expires_at t = now + RefreshTokenTTL (svc_policy S)
     \<and> rt_hash t = fit 512 (hashRefreshToken E refreshToken)
     \<and> rt_id t \<notin> rt_id ` set (refresh_tokens d)
     \<and> rt_hash t \<notin> rt_hash ` set (refresh_tokens d)"

definition session_opened ::
  "env \<Rightarrow> service \<Rightarrow> uuid \<Rightarrow> uuid option \<Rightarrow> string \<Rightarrow> string \<Rightarrow> time \<Rightarrow> string \<Rightarrow> string \<Rightarrow>
   db \<Rightarrow> db \<Rightarrow> bool" where
  "session_opened E S userID passkeyID audience method now accessToken refreshToken d d' \<longleftrightarrow>
     (\<exists>oid s t. granted E S accessToken userID (ses_id s) audience oid now d \<and> passkey_usable passkeyID userID d
        \<and> new_pair E S userID oid method now refreshToken s t d
        \<and> core d' = core (d\<lparr>sessions := sessions d @ [s], refresh_tokens := refresh_tokens d @ [t]\<rparr>))"

lemma wp_store_new_session:
  "wp (store_new_session E S userID user org m roles pk aud meth ua now ip)
     (\<lambda>(a, r) w'. \<exists>s t. new_pair E S userID (org_id org) meth now r s t (w_db w)
        \<and> (\<exists>w0. GenerateWithEmailVerification E (svc_jwt S) (svc_tokens S) userID (ses_id s) (org_id org)
          (mem_role m) aud roles (usr_email_verified_at user \<noteq> None) now w0 = (Inr a, tick w0))
        \<and> core (w_db w') = core ((w_db w)\<lparr>sessions := sessions (w_db w) @ [s],
                              refresh_tokens := refresh_tokens (w_db w) @ [t]\<rparr>)) any_error w"
  unfolding store_new_session_def AuthenticationLogin_def store_CreateSession_def CreateRefreshToken_def
  apply (auto simp: wps Let_def split: if_splits intro!: wp_Enqueue wp_recordAuthentication)
  apply (intro exI conjI; assumption?)
  apply (auto simp: new_pair_def provenance_ok_def)
  done

lemma wp_store_new_sessionI:
  assumes "\<And>a r w' s t w0. new_pair E S userID (org_id org) meth now r s t (w_db w)
        \<Longrightarrow> GenerateWithEmailVerification E (svc_jwt S) (svc_tokens S) userID (ses_id s) (org_id org)
          (mem_role m) aud roles (usr_email_verified_at user \<noteq> None) now w0 = (Inr a, tick w0)
        \<Longrightarrow> core (w_db w') = core ((w_db w)\<lparr>sessions := sessions (w_db w) @ [s],
                              refresh_tokens := refresh_tokens (w_db w) @ [t]\<rparr>) \<Longrightarrow> Q (a, r) w'"
  shows "wp (store_new_session E S userID user org m roles pk aud meth ua now ip) Q any_error w"
  using wp_store_new_session by (rule wp_mono) (auto intro: assms)

lemma wp_createSession:
  assumes "w_tx w = NoTx"
  shows "wp (createSession E S userID pk aud meth ua now ip)
     (\<lambda>(a, r) w'. session_opened E S userID pk aud meth now a r (w_db w) (w_db w'))
     (\<lambda>e w'. core (w_db w') = core (w_db w)) w"
  unfolding createSession_def recordSessionAuthenticationDenied_def AuthenticationLogin_def
    lock_defs lookup_defs
  by (auto simp: wps wp_with_tx assms Let_def split: if_splits
        intro!: wp_ensureUserAllowed wp_passkey_available wp_recordAuthentication
          wp_DefaultOrganizationForUser wp_store_new_sessionI)
     (unfold session_opened_def, intro exI conjI, rule grantedI, assumption+)

section \<open>Switching the organization\<close>

text \<open>The row a stored token becomes, and a token bounded by the life of its session.\<close>

definition stored_token :: "refresh_token \<Rightarrow> refresh_token \<Rightarrow> refresh_token list \<Rightarrow> bool" where
  "stored_token new t ts \<longleftrightarrow> rt_session t = rt_session new \<and> rt_org t = rt_org new
     \<and> rt_consumed_at t = rt_consumed_at new \<and> rt_expires_at t = rt_expires_at new
     \<and> rt_hash t = fit 512 (rt_hash new) \<and> rt_id t \<notin> rt_id ` set ts \<and> rt_hash t \<notin> rt_hash ` set ts"

definition fresh_token ::
  "env \<Rightarrow> service \<Rightarrow> session \<Rightarrow> uuid \<Rightarrow> time \<Rightarrow> string \<Rightarrow> refresh_token \<Rightarrow> refresh_token list \<Rightarrow> bool" where
  "fresh_token E S session organizationID now refreshToken t ts \<longleftrightarrow>
     rt_session t = ses_id session \<and> rt_org t = organizationID \<and> rt_consumed_at t = None
     \<and> rt_expires_at t = min (now + RefreshTokenTTL (svc_policy S)) (ses_expires_at session)
     \<and> generated_token E refreshToken \<and> rt_hash t = fit 512 (hashRefreshToken E refreshToken)
     \<and> rt_id t \<notin> rt_id ` set ts \<and> rt_hash t \<notin> rt_hash ` set ts"

lemma wp_CreateRefreshToken:
  assumes "\<And>w' t. stored_token new t (refresh_tokens (w_db w)) \<Longrightarrow> w_cache w' = w_cache w \<Longrightarrow>
      w_db w' = (w_db w)\<lparr>refresh_tokens := refresh_tokens (w_db w) @ [t]\<rparr> \<Longrightarrow> Q () w'"
    and "\<And>e w'. w_db w' = w_db w \<Longrightarrow> w_cache w' = w_cache w \<Longrightarrow> R (ESql e) w'"
  shows "wp (CreateRefreshToken E new) Q R w"
  unfolding CreateRefreshToken_def
  by (auto simp: wps intro!: assms(2) intro: assms(1) [rotated 2] simp: stored_token_def split: if_splits)

lemma fresh_stored_token:
  assumes "stored_token new t ts" and "rt_session new = ses_id s" and "rt_org new = oid"
    and "rt_consumed_at new = None" and "rt_hash new = hashRefreshToken E r" and "generated_token E r"
    and "rt_expires_at new = min (now + RefreshTokenTTL (svc_policy S)) (ses_expires_at s)"
  shows "fresh_token E S s oid now r t ts"
  using assms unfolding stored_token_def fresh_token_def by (elim conjE) (intro conjI; simp)

definition session_switched ::
  "env \<Rightarrow> service \<Rightarrow> uuid \<Rightarrow> uuid \<Rightarrow> uuid \<Rightarrow> string \<Rightarrow> time \<Rightarrow> string \<Rightarrow> string \<Rightarrow> db \<Rightarrow> db \<Rightarrow> bool" where
  "session_switched E S userID sessionID organizationID audience now accessToken refreshToken d d' \<longleftrightarrow>
     (\<exists>s t t0. let others = del_where (\<lambda>r. rt_session r = sessionID) (refresh_tokens d) in
        granted E S accessToken userID sessionID audience organizationID now d
        \<and> find_active sessionID now d = Some s \<and> ses_user s = userID
        \<and> fresh_token E S s organizationID now refreshToken t others
        \<and> d' = d\<lparr>sessions := upd_where (\<lambda>r. ses_id r = sessionID \<and> ses_revoked_at r = None)
                   (\<lambda>r. r\<lparr>ses_org := organizationID, ses_updated_at := t0\<rparr>) (sessions d),
                 refresh_tokens := others @ [t]\<rparr>)"

lemma find_active_id: "find_active i now d = Some s \<Longrightarrow> ses_id s = i"
  unfolding find_active_def by (auto dest: find_Some_in)

lemma wp_UpdateSessionActiveOrganization:
  assumes "\<And>w' t0. w_cache w' = w_cache w \<Longrightarrow>
      w_db w' = (w_db w)\<lparr>sessions := upd_where (\<lambda>r. ses_id r = sessionID \<and> ses_revoked_at r = None)
                   (\<lambda>r. r\<lparr>ses_org := organizationID, ses_updated_at := t0\<rparr>) (sessions (w_db w))\<rparr> \<Longrightarrow> Q () w'"
    and "\<And>e w'. R e w'"
  shows "wp (UpdateSessionActiveOrganization E sessionID organizationID) Q R w"
  unfolding UpdateSessionActiveOrganization_def
  by (auto simp: wps Let_def intro!: assms(2) intro: assms(1) [rotated] split: if_splits)

lemma session_switchedI:
  assumes "granted E S accessToken userID sessionID audience organizationID now d" and "generated_token E refreshToken"
    and "find_active sessionID now d = Some s" and "ses_user s = userID"
    and "stored_token new t (del_where (\<lambda>r. rt_session r = sessionID) (refresh_tokens d))"
    and "new = \<lparr>rt_id = nil_uuid, rt_created_at = now, rt_session = sessionID, rt_org = organizationID,
       rt_hash = hashRefreshToken E refreshToken,
       rt_expires_at = min (now + RefreshTokenTTL (svc_policy S)) (ses_expires_at s), rt_consumed_at = None\<rparr>"
    and "d' = d\<lparr>sessions := upd_where (\<lambda>r. ses_id r = sessionID \<and> ses_revoked_at r = None)
                   (\<lambda>r. r\<lparr>ses_org := organizationID, ses_updated_at := t0\<rparr>) (sessions d),
                 refresh_tokens := del_where (\<lambda>r. rt_session r = sessionID) (refresh_tokens d) @ [t]\<rparr>"
  shows "session_switched E S userID sessionID organizationID audience now accessToken refreshToken d d'"
proof -
  have "fresh_token E S s organizationID now refreshToken t
      (del_where (\<lambda>r. rt_session r = sessionID) (refresh_tokens d))"
    by (rule fresh_stored_token [OF assms(5)]) (simp_all add: assms(6) find_active_id [OF assms(3)] assms(2))
  with assms(1,3,4,7) show ?thesis unfolding session_switched_def Let_def by blast
qed

lemma if_less_min: "(if b < a then b else a) = min a (b :: 'a :: linorder)"
  by (auto simp: min_def)

lemma wp_SwitchSessionOrganization:
  assumes "w_tx w = NoTx"
  shows "wp (SwitchSessionOrganization E S userID sessionID organizationID audience now)
     (\<lambda>(a, r) w'. session_switched E S userID sessionID organizationID audience now a r (w_db w) (w_db w'))
     (\<lambda>e w'. w_db w' = w_db w) w"
  unfolding SwitchSessionOrganization_def lock_defs lookup_defs GetActiveSessionByID_def
    DeleteRefreshTokensBySession_def Let_def if_less_min
  by (auto simp: wps wp_with_tx assms split: if_splits intro!: wp_ensureUserAllowed
        wp_CreateRefreshToken wp_UpdateSessionActiveOrganization)
     (rule session_switchedI, rule grantedI, assumption+, rule generated_tokenI, assumption+, simp_all)

section \<open>Refreshing a session\<close>

text \<open>
  The presented token is the stored, unconsumed and unexpired token of an unrevoked, unexpired
  session whose user is still admitted; when it was due for rotation it is consumed and a
  successor is stored, otherwise it is handed back.
\<close>

definition refreshable ::
  "env \<Rightarrow> service \<Rightarrow> string \<Rightarrow> string \<Rightarrow> time \<Rightarrow> string \<Rightarrow> db \<Rightarrow> refresh_token \<Rightarrow> session \<Rightarrow> bool" where
  "refreshable E S refreshToken audience now accessToken d rt s \<longleftrightarrow>
     find_token (hashRefreshToken E refreshToken) d = Some rt
     \<and> rt_consumed_at rt = None \<and> now \<le> rt_expires_at rt
     \<and> find_session (rt_session rt) d = Some s
     \<and> now \<le> ses_expires_at s \<and> ses_revoked_at s = None
     \<and> granted E S accessToken (ses_user s) (rt_session rt) audience (rt_org rt) now d"

definition session_refreshed ::
  "env \<Rightarrow> service \<Rightarrow> string \<Rightarrow> string \<Rightarrow> time \<Rightarrow> string \<Rightarrow> string \<Rightarrow> db \<Rightarrow> db \<Rightarrow> bool" where
  "session_refreshed E S refreshToken audience now accessToken newToken d d' \<longleftrightarrow>
     (\<exists>rt s. refreshable E S refreshToken audience now accessToken d rt s
      \<and> (if shouldRotate rt now (RefreshTokenRotation (svc_policy S))
         then (\<exists>t. let ts = upd_where (\<lambda>r. rt_id r = rt_id rt \<and> rt_consumed_at r = None)
                     (\<lambda>r. r\<lparr>rt_consumed_at := Some now\<rparr>) (refresh_tokens d) in
              fresh_token E S s (rt_org rt) now newToken t ts
              \<and> core d' = core (d\<lparr>refresh_tokens := ts @ [t]\<rparr>))
         else newToken = refreshToken \<and> core d' = core d))"

lemma find_session_id: "find_session i d = Some s \<Longrightarrow> ses_id s = i"
  unfolding find_session_def by (auto dest: find_Some_in)

lemma wp_rotate_token:
  assumes "\<And>w'. \<not> shouldRotate rt now (RefreshTokenRotation (svc_policy S)) \<Longrightarrow> w' = w \<Longrightarrow> Q refreshToken w'"
    and "\<And>w' new t. shouldRotate rt now (RefreshTokenRotation (svc_policy S)) \<Longrightarrow>
      w_cache w' = w_cache w \<Longrightarrow>
      (rt_session rt = ses_id s \<Longrightarrow>
       fresh_token E S s (rt_org rt) now new t (upd_where (\<lambda>r. rt_id r = rt_id rt \<and> rt_consumed_at r = None)
                     (\<lambda>r. r\<lparr>rt_consumed_at := Some now\<rparr>) (refresh_tokens (w_db w)))) \<Longrightarrow>
      w_db w' = (w_db w)\<lparr>refresh_tokens := upd_where (\<lambda>r. rt_id r = rt_id rt \<and> rt_consumed_at r = None)
                     (\<lambda>r. r\<lparr>rt_consumed_at := Some now\<rparr>) (refresh_tokens (w_db w)) @ [t]\<rparr> \<Longrightarrow> Q new w'"
    and "\<And>e w'. w_cache w' = w_cache w \<Longrightarrow> reused_token e = None \<Longrightarrow> R e w'"
  shows "wp (rotate_token E S s rt refreshToken now) Q R w"
  unfolding rotate_token_def ConsumeRefreshToken_def Let_def if_less_min
  apply (auto simp: wps err_as_def intro!: assms(1) assms(3) wp_CreateRefreshToken split: if_splits)
  apply (rule assms(2), assumption, assumption, erule fresh_stored_token, simp_all)
  done

lemma admission_error_not_reused: "admission_error e \<Longrightarrow> reused_token e = None"
  by (auto simp: admission_error_def)

lemma recording_error_not_reused: "recording_error e \<Longrightarrow> reused_token e = None"
  by (auto simp: recording_error_def)

lemma FromDBRoleNames_error:
  assumes "FromDBRoleNames rs = Inl e"
  shows "reused_token e = None"
proof -
  have "FromDBRoleNames_from r rs = Inl e \<Longrightarrow> \<exists>t. e = EText t" for r
    by (induction r rs rule: FromDBRoleNames_from.induct) (auto split: if_splits)
  with assms show ?thesis unfolding FromDBRoleNames_def by fastforce
qed

lemma wp_GenerateI:
  assumes "\<And>a. GenerateWithEmailVerification E J T u s org role aud rs ev now w = (Inr a, tick w) \<Longrightarrow> Q a (tick w)" and "R ESign (tick w)"
  shows "wp (GenerateWithEmailVerification E J T u s org role aud rs ev now) Q R w"
  using assms
  by (auto simp: wp_def GenerateWithEmailVerification_def bnd_def new_uuid_def of_option_def ret_def
      fail_def split: prod.splits option.splits)

lemma session_refreshedI:
  assumes "refreshable E S refreshToken audience now accessToken d rt s"
    and "shouldRotate rt now (RefreshTokenRotation (svc_policy S)) \<Longrightarrow>
      fresh_token E S s (rt_org rt) now newToken t (upd_where (\<lambda>r. rt_id r = rt_id rt \<and> rt_consumed_at r = None)
                     (\<lambda>r. r\<lparr>rt_consumed_at := Some now\<rparr>) (refresh_tokens d))"
    and "shouldRotate rt now (RefreshTokenRotation (svc_policy S)) \<Longrightarrow>
      core d' = core (d\<lparr>refresh_tokens := upd_where (\<lambda>r. rt_id r = rt_id rt \<and> rt_consumed_at r = None)
                     (\<lambda>r. r\<lparr>rt_consumed_at := Some now\<rparr>) (refresh_tokens d) @ [t]\<rparr>)"
    and "\<not> shouldRotate rt now (RefreshTokenRotation (svc_policy S)) \<Longrightarrow>
      newToken = refreshToken \<and> core d' = core d"
  shows "session_refreshed E S refreshToken audience now accessToken newToken d d'"
proof (cases "shouldRotate rt now (RefreshTokenRotation (svc_policy S))")
  case True
  with assms(1) assms(2,3) [OF True] show ?thesis unfolding session_refreshed_def Let_def by auto
next
  case False
  with assms(1) assms(4) [OF False] show ?thesis unfolding session_refreshed_def by auto
qed

lemma refreshableI:
  assumes "find_token (hashRefreshToken E refreshToken) d = Some rt" and "rt_consumed_at rt = None"
    and "\<not> rt_expires_at rt < now" and "find_session (rt_session rt) d = Some s"
    and "\<not> ses_expires_at s < now" and "ses_revoked_at s = None"
    and "granted E S accessToken (ses_user s) (rt_session rt) audience (rt_org rt) now d"
  shows "refreshable E S refreshToken audience now accessToken d rt s"
  using assms by (simp add: refreshable_def)

lemma wp_refresh_body:
  "wp (refresh_body E S refreshToken audience now)
     (\<lambda>(a, r) w'. session_refreshed E S refreshToken audience now a r (w_db w) (w_db w') \<and> w_cache w' = w_cache w)
     (\<lambda>e w'. w_cache w' = w_cache w \<and> (\<forall>rt. reused_token e = Some rt \<longrightarrow>
        find_token (hashRefreshToken E refreshToken) (w_db w) = Some rt \<and> rt_consumed_at rt \<noteq> None)) w"
  unfolding refresh_body_def lock_defs lookup_defs GetRefreshTokenByHash_def GetRefreshTokenByHashForUpdate_def
    GetSessionByID_def SessionRefresh_def Let_def
  apply (auto simp: wps err_as_def admission_error_not_reused recording_error_not_reused
      split: if_splits intro!: wp_ensureUserAllowed wp_rotate_token wp_recordSession wp_GenerateI
      dest!: FromDBRoleNames_error)
  by (rule session_refreshedI, rule refreshableI, assumption+, rule grantedI, assumption+,
      simp_all add: find_session_id)+

text \<open>
  Presenting a consumed token makes the call fail, and unless the database or the cache failed
  the session of the token is revoked.
\<close>

definition session_killed :: "refresh_token \<Rightarrow> time \<Rightarrow> db \<Rightarrow> db \<Rightarrow> bool" where
  "session_killed rt observedAt d d' \<longleftrightarrow>
     (\<exists>t0. core d' = core (revoke_sessions (\<lambda>r. ses_id r = rt_session rt) observedAt t0 d))"

definition cutoff_written :: "revocations option \<Rightarrow> string \<Rightarrow> time \<Rightarrow> redis \<Rightarrow> redis \<Rightarrow> bool" where
  "cutoff_written R key t c c' \<longleftrightarrow> (case Option.bind R rv_cache of
       Some RedisCache \<Rightarrow> \<exists>now. c' = register_setmax now c key (unix_nano t) (milliseconds (rv_ttl (the R)))
     | _ \<Rightarrow> c' = c)"

lemma wp_revokeScope:
  assumes "\<And>w'. w_db w' = w_db w \<Longrightarrow> cutoff_written R key t (w_cache w) (w_cache w') \<Longrightarrow> Q () w'"
    and "\<And>e w'. w_db w' = w_db w \<Longrightarrow> w_cache w' = w_cache w \<Longrightarrow> F (store_unavailable e) w'"
  shows "wp (revokeScope E R key t) Q F w"
proof -
  have s: "register_setmax now c key v ttl = m'" if "setMaxInt64Script now c key (format_int v) ttl = Inr (n, m')"
    for now c key v ttl n m'
    using that by (simp add: register_setmax_def)
  show ?thesis
    unfolding revokeScope_def cache_SetMaxInt64_def
    by (auto simp: wps cutoff_written_def intro!: assms split: cache_impl.splits sum.splits dest!: s)
qed

lemma later_ge [simp]: "b \<le> later a b" "a \<le> later a b"
  by (simp_all add: later_def)

abbreviation session_key :: "env \<Rightarrow> uuid \<Rightarrow> string" where
  "session_key E sessionID \<equiv> RevokedAccessTokenSessionKey (uuid_string E sessionID)"

definition cutoff_since :: "revocations option \<Rightarrow> string \<Rightarrow> time \<Rightarrow> redis \<Rightarrow> redis \<Rightarrow> bool" where
  "cutoff_since R key observedAt c c' \<longleftrightarrow> (\<exists>t\<ge>observedAt. cutoff_written R key t c c')"

lemma cutoff_sinceI: "cutoff_written R key t c c' \<Longrightarrow> observedAt \<le> t \<Longrightarrow> cutoff_since R key observedAt c c'"
  unfolding cutoff_since_def by blast

lemma session_killedI:
  "core d' = core (revoke_sessions (\<lambda>r. ses_id r = rt_session rt) observedAt t0 d) \<Longrightarrow>
   session_killed rt observedAt d d'"
  unfolding session_killed_def by blast

definition reuse_outcome ::
  "env \<Rightarrow> service \<Rightarrow> refresh_token \<Rightarrow> time \<Rightarrow> err \<Rightarrow> world \<Rightarrow> world \<Rightarrow> bool" where
  "reuse_outcome E S rt observedAt e w w' \<longleftrightarrow>
     session_killed rt observedAt (w_db w) (w_db w')
     \<and> (e = EJoin [ESession ErrRefreshTokenReuse]
          \<and> cutoff_since (svc_revocations S) (session_key E (rt_session rt)) observedAt
              (w_cache w) (w_cache w')
        \<or> (\<exists>c. e = EJoin [ESession ErrRefreshTokenReuse, c]) \<and> w_cache w' = w_cache w)"

lemma wp_revokeReusedRefreshToken:
  assumes "w_tx w = NoTx"
  shows "wp (revokeReusedRefreshToken E S rt observedAt) (\<lambda>_ _. False)
     (\<lambda>e w'. w_db w' = w_db w \<or> reuse_outcome E S rt observedAt e w w') w"
  unfolding revokeReusedRefreshToken_def lock_defs GetSessionByID_def RevokeSessionTokens_def
    store_RevokeSession_def SessionRefreshTokenReuse_def Let_def
  by (auto simp: wps wp_with_tx assms reuse_outcome_def split: if_splits
      intro!: wp_revokeScope wp_recordSession dest!: session_killedI)
     (erule cutoff_sinceI, simp)

lemma wp_RefreshSession:
  assumes "w_tx w = NoTx"
  shows "wp (RefreshSession E S refreshToken audience now)
     (\<lambda>(a, r) w'. session_refreshed E S refreshToken audience now a r (w_db w) (w_db w') \<and> w_cache w' = w_cache w)
     (\<lambda>e w'. w_db w' = w_db w \<or> (\<exists>rt. find_token (hashRefreshToken E refreshToken) (w_db w) = Some rt
        \<and> rt_consumed_at rt \<noteq> None \<and> reuse_outcome E S rt now e w w')) w"
proof -
  have "wp (with_tx E (refresh_body E S refreshToken audience now))
     (\<lambda>(a, r) w'. session_refreshed E S refreshToken audience now a r (w_db w) (w_db w') \<and> w_cache w' = w_cache w)
     (\<lambda>e w'. w_tx w' = NoTx \<and> w_db w' = w_db w \<and> w_cache w' = w_cache w \<and> (\<forall>rt. reused_token e = Some rt \<longrightarrow>
        find_token (hashRefreshToken E refreshToken) (w_db w) = Some rt \<and> rt_consumed_at rt \<noteq> None)) w"
    using wp_refresh_body [of E S refreshToken audience now "open_tx w"] 
    by (auto simp: wp_with_tx assms elim!: wp_mono)
  then show ?thesis
    unfolding RefreshSession_def wp_try_bnd wp_case_option wp_fail wp_ret
    by (rule wp_mono) (auto simp: reuse_outcome_def intro!: wp_mono [OF wp_revokeReusedRefreshToken])
qed

section \<open>Revoking sessions\<close>

lemma wp_store_RevokeSession:
  assumes "\<And>w' t0. w_db w' = revoke_sessions (\<lambda>r. ses_id r = sessionID) revokedAt t0 (w_db w) \<Longrightarrow>
      w_cache w' = w_cache w \<Longrightarrow> Q () w'"
    and "\<And>e w'. w_db w' = w_db w \<Longrightarrow> w_cache w' = w_cache w \<Longrightarrow> R (ESql e) w'"
  shows "wp (store_RevokeSession E sessionID revokedAt) Q R w"
  unfolding store_RevokeSession_def by (auto simp: wps intro!: assms(2) intro: assms(1) [rotated])

text \<open>The database after the sessions that satisfy \<open>p\<close> were revoked.\<close>

definition sessions_revoked :: "(session \<Rightarrow> bool) \<Rightarrow> time \<Rightarrow> db \<Rightarrow> db \<Rightarrow> bool" where
  "sessions_revoked p revokedAt d d' \<longleftrightarrow> (\<exists>t0. core d' = core (revoke_sessions p revokedAt t0 d))"

lemma sessions_revokedI: "core d' = core (revoke_sessions p revokedAt t0 d) \<Longrightarrow> sessions_revoked p revokedAt d d'"
  unfolding sessions_revoked_def by blast

definition logged_out :: "env \<Rightarrow> service \<Rightarrow> string \<Rightarrow> world \<Rightarrow> world \<Rightarrow> bool" where
  "logged_out E S refreshToken w w' \<longleftrightarrow> (\<exists>rt s t.
     find_token (hashRefreshToken E refreshToken) (w_db w) = Some rt
     \<and> find_session (rt_session rt) (w_db w) = Some s
     \<and> sessions_revoked (\<lambda>r. ses_id r = rt_session rt) t (w_db w) (w_db w')
     \<and> cutoff_written (svc_revocations S) (session_key E (rt_session rt)) t (w_cache w) (w_cache w'))"

lemma logged_outI:
  assumes "find_token (hashRefreshToken E refreshToken) (w_db w) = Some rt"
     and "find_session (rt_session rt) (w_db w) = Some s"
     and "core (w_db w') = core (revoke_sessions (\<lambda>r. ses_id r = rt_session rt) t t0 (w_db w))"
     and "cutoff_written (svc_revocations S) (session_key E (rt_session rt)) t (w_cache w) (w_cache w')"
  shows "logged_out E S refreshToken w w'"
  using assms sessions_revokedI [OF assms(3)] unfolding logged_out_def by blast

lemma logged_out_cong [simp]:
  "logged_out E S r w (close_tx w') = logged_out E S r w w'"
  "logged_out E S r (open_tx w) w' = logged_out E S r w w'"
  by (simp_all add: logged_out_def)

lemma wp_logout_refresh:
  assumes "w_tx w = NoTx"
  shows "wp (logout_refresh E S refreshToken)
     (\<lambda>found w'. if found then logged_out E S refreshToken w w'
        else find_token (hashRefreshToken E refreshToken) (w_db w) = None \<and> w_db w' = w_db w \<and> w_cache w' = w_cache w)
     (\<lambda>e w'. w_db w' = w_db w) w"
  unfolding logout_refresh_def lock_defs GetSessionByID_def RevokeSessionTokens_def
    GetRefreshTokenByHash_def SessionLogout_def Let_def
  apply (auto simp: wps wp_with_tx assms split: if_splits
      intro!: wp_revokeScope wp_recordSession wp_store_RevokeSession)
  apply (rule logged_outI, assumption+, simp_all)
  done

lemma wp_RevokeAllSessions:
  assumes "w_tx w = NoTx"
  shows "wp (RevokeAllSessions E S userID)
     (\<lambda>_ w'. \<exists>t. sessions_revoked (\<lambda>r. ses_user r = userID \<and> ses_revoked_at r = None) t (w_db w) (w_db w')
        \<and> cutoff_written (svc_revocations S) (RevokedAccessTokenUserKey (uuid_string E userID)) t
            (w_cache w) (w_cache w'))
     (\<lambda>e w'. w_db w' = w_db w) w"
  unfolding RevokeAllSessions_def lock_defs RevokeUserTokens_def RevokeAllSessionsForUser_def
    SessionRevoked_def Let_def
  apply (auto simp: wps wp_with_tx assms split: if_splits intro!: wp_revokeScope wp_recordSession)
  apply (rule exI, rule conjI, erule sessions_revokedI, simp)
  done

definition session_dropped :: "env \<Rightarrow> service \<Rightarrow> uuid \<Rightarrow> uuid \<Rightarrow> time \<Rightarrow> world \<Rightarrow> world \<Rightarrow> bool" where
  "session_dropped E S userID sessionID now w w' \<longleftrightarrow> (\<exists>s t0.
     find_session sessionID (w_db w) = Some s \<and> ses_user s = userID
     \<and> core (w_db w') = core ((revoke_sessions (\<lambda>r. ses_id r = sessionID) now t0 (w_db w))
          \<lparr>refresh_tokens := del_where (\<lambda>r. rt_session r = sessionID) (refresh_tokens (w_db w))\<rparr>)
     \<and> cutoff_since (svc_revocations S) (session_key E sessionID) now (w_cache w) (w_cache w'))"

lemma revoke_sessions_tokens [simp]: "refresh_tokens (revoke_sessions p t t0 d) = refresh_tokens d"
  by (simp add: revoke_sessions_def)

lemma session_droppedI:
  assumes "find_session sessionID (w_db w) = Some s" and "ses_user s = userID"
     and "core (w_db w') = core ((revoke_sessions (\<lambda>r. ses_id r = sessionID) now t0 (w_db w))
          \<lparr>refresh_tokens := del_where (\<lambda>r. rt_session r = sessionID) (refresh_tokens (w_db w))\<rparr>)"
     and "cutoff_written (svc_revocations S) (session_key E sessionID) t (w_cache w) (w_cache w')" and "now \<le> t"
  shows "session_dropped E S userID sessionID now w w'"
  using assms(1-3) cutoff_sinceI [OF assms(4,5)] unfolding session_dropped_def by blast

lemma wp_RevokeUserSession:
  assumes "w_tx w = NoTx"
  shows "wp (RevokeUserSession E S userID sessionID now)
     (\<lambda>_ w'. session_dropped E S userID sessionID now w w') (\<lambda>e w'. w_db w' = w_db w) w"
  unfolding RevokeUserSession_def lock_defs GetSessionByID_def RevokeSessionTokens_def
    DeleteRefreshTokensBySession_def SessionRevoked_def Let_def
  apply (auto simp: wps wp_with_tx assms split: if_splits
      intro!: wp_revokeScope wp_recordSession wp_store_RevokeSession)
  apply (rule session_droppedI, assumption, rule refl, simp, simp, simp)
  done

text \<open>The cutoffs of several keys, written one after the other at the same instant.\<close>

fun cutoffs_written :: "revocations option \<Rightarrow> time \<Rightarrow> string list \<Rightarrow> redis \<Rightarrow> redis \<Rightarrow> bool" where
  "cutoffs_written R t [] c c' \<longleftrightarrow> c' = c"
| "cutoffs_written R t (k # ks) c c' \<longleftrightarrow> (\<exists>c1. cutoff_written R k t c c1 \<and> cutoffs_written R t ks c1 c')"

lemma wp_for_each_Nil [wps]: "wp (for_each f []) Q R w = Q () w"
  by (simp add: wps)

lemma wp_for_each_Cons [wps]: "wp (for_each f (x # xs)) Q R w = wp (f x) (\<lambda>_. wp (for_each f xs) Q R) R w"
  by (simp add: wps)

definition revoke_other :: "env \<Rightarrow> service \<Rightarrow> uuid \<Rightarrow> uuid \<Rightarrow> time \<Rightarrow> session \<Rightarrow> unit M" where
  "revoke_other E S userID currentSessionID markerAt session =
     (if ses_id session = currentSessionID then ret ()
      else bnd (RevokeSessionTokens E (svc_revocations S) (ses_id session) markerAt) (\<lambda>_.
         SessionRevoked E (svc_events S)
           (session_event_for ReasonUserRequested ActorUser (Some userID) userID
              (Some (ses_id session)) None)))"

definition other_keys :: "env \<Rightarrow> uuid \<Rightarrow> session list \<Rightarrow> string list" where
  "other_keys E currentSessionID ss =
     map (\<lambda>s. session_key E (ses_id s)) (filter (\<lambda>s. ses_id s \<noteq> currentSessionID) ss)"

lemma wp_revoke_others:
  assumes "\<And>w'. core (w_db w') = core (w_db w) \<Longrightarrow>
      cutoffs_written (svc_revocations S) markerAt (other_keys E currentSessionID ss) (w_cache w) (w_cache w') \<Longrightarrow> Q () w'"
  shows "wp (for_each (revoke_other E S userID currentSessionID markerAt) ss) Q any_error w"
  using assms
proof (induction ss arbitrary: w)
  case Nil
  then show ?case by (simp add: wps other_keys_def)
next
  case (Cons s ss)
  have rest: "wp (for_each (revoke_other E S userID currentSessionID markerAt) ss) Q any_error w1"
    if "core (w_db w1) = core (w_db w)"
      and "if ses_id s = currentSessionID then w_cache w1 = w_cache w
           else cutoff_written (svc_revocations S) (session_key E (ses_id s)) markerAt (w_cache w) (w_cache w1)" for w1
    using that by (intro Cons.IH Cons.prems) (auto simp: other_keys_def split: if_splits)
  show ?case
  proof (cases "ses_id s = currentSessionID")
    case True
    then have "wp (for_each (revoke_other E S userID currentSessionID markerAt) ss) Q any_error w"
      by (intro rest) simp_all
    with True show ?thesis unfolding wp_for_each_Cons by (subst revoke_other_def) (simp add: wps)
  next
    case False
    then show ?thesis
      unfolding wp_for_each_Cons
      by (subst revoke_other_def)
         (auto simp: wps SessionRevoked_def RevokeSessionTokens_def
           intro!: wp_revokeScope wp_recordSession rest)
  qed
qed

definition others_dropped :: "env \<Rightarrow> service \<Rightarrow> uuid \<Rightarrow> uuid \<Rightarrow> time \<Rightarrow> world \<Rightarrow> world \<Rightarrow> bool" where
  "others_dropped E S userID currentSessionID now w w' \<longleftrightarrow> (\<exists>ss t0 t. now \<le> t
     \<and> set ss = {s \<in> set (sessions (w_db w)). ses_user s = userID \<and> is_active now s}
     \<and> core (w_db w') = core ((revoke_sessions (\<lambda>r. ses_user r = userID \<and> ses_id r \<noteq> currentSessionID
            \<and> ses_revoked_at r = None) now t0 (w_db w))
          \<lparr>refresh_tokens := del_where (\<lambda>r. list_ex (\<lambda>s. ses_user s = userID \<and> ses_id s \<noteq> currentSessionID
               \<and> ses_id s = rt_session r) (sessions (w_db w))) (refresh_tokens (w_db w))\<rparr>)
     \<and> cutoffs_written (svc_revocations S) t (other_keys E currentSessionID ss) (w_cache w) (w_cache w'))"

lemma core_eq_iff:
  "core d1 = core d \<longleftrightarrow> d1 = d\<lparr>security_events := security_events d1, email_jobs := email_jobs d1\<rparr>"
  by (cases d1, cases d) (simp add: core_def)

lemma revoke_sessions_aside [simp]:
  "core (revoke_sessions p t t0 (d\<lparr>security_events := x\<rparr>)) = core (revoke_sessions p t t0 d)"
  "core (revoke_sessions p t t0 (d\<lparr>email_jobs := y\<rparr>)) = core (revoke_sessions p t t0 d)"
  by (simp_all add: revoke_sessions_def core_def)

lemma list_ex_upd_where: "(\<And>r. P (f r) = P r) \<Longrightarrow> list_ex P (upd_where p f rs) = list_ex P rs"
  by (induction rs) simp_all

lemma list_ex_revoked [simp]:
  "list_ex (\<lambda>s. ses_user s = u \<and> ses_id s \<noteq> k \<and> ses_id s = i) (sessions (revoke_sessions p t t0 d)) =
   list_ex (\<lambda>s. ses_user s = u \<and> ses_id s \<noteq> k \<and> ses_id s = i) (sessions d)"
  by (simp add: revoke_sessions_def list_ex_upd_where)

lemma others_droppedI:
  assumes "core d1 = core (w_db w)"
    and "cutoffs_written (svc_revocations S) t (other_keys E currentSessionID ss) (w_cache w) (w_cache w')"
    and "w_db w' = (revoke_sessions (\<lambda>r. ses_user r = userID \<and> ses_id r \<noteq> currentSessionID
            \<and> ses_revoked_at r = None) now t0 d1)
          \<lparr>refresh_tokens := del_where (\<lambda>r. list_ex (\<lambda>s. ses_user s = userID \<and> ses_id s \<noteq> currentSessionID
               \<and> ses_id s = rt_session r) (sessions d1)) (refresh_tokens d1)\<rparr>"
    and "set ss = {s \<in> set (sessions (w_db w)). ses_user s = userID \<and> is_active now s}" and "now \<le> t"
  shows "others_dropped E S userID currentSessionID now w w'"
  unfolding others_dropped_def
proof (intro exI conjI)
  obtain x y where d1: "d1 = (w_db w)\<lparr>security_events := x, email_jobs := y\<rparr>"
    using assms(1) by (auto simp: core_eq_iff)
  show "core (w_db w') = core ((revoke_sessions (\<lambda>r. ses_user r = userID \<and> ses_id r \<noteq> currentSessionID
            \<and> ses_revoked_at r = None) now t0 (w_db w))
          \<lparr>refresh_tokens := del_where (\<lambda>r. list_ex (\<lambda>s. ses_user s = userID \<and> ses_id s \<noteq> currentSessionID
               \<and> ses_id s = rt_session r) (sessions (w_db w))) (refresh_tokens (w_db w))\<rparr>)"
    unfolding assms(3) d1 by (simp add: core_def revoke_sessions_def)
qed (fact assms)+

lemma wp_RevokeOtherUserSessions:
  assumes "w_tx w = NoTx"
  shows "wp (RevokeOtherUserSessions E S userID currentSessionID now)
     (\<lambda>_ w'. others_dropped E S userID currentSessionID now w w') (\<lambda>e w'. w_db w' = w_db w) w"
  unfolding RevokeOtherUserSessions_def lock_defs ListActiveSessionsByUserID_def ListActiveSessionsPageByUserID_def
   DeleteRefreshTokensForOtherSessions_def RevokeOtherSessionsByUserID_def revoke_other_def [symmetric] Let_def
  apply (auto simp: wps wp_with_tx assms limit_nullif_def split: if_splits
      intro!: wp_revoke_others)
  apply (rule others_droppedI, assumption, simp, simp, auto)
  done

end
