(* ===== verification/Revocation_Proofs.thy ===== *)
theory Revocation_Proofs
  imports Session_Proofs
begin

text \<open>
  \<open>internal/bootstrap/revocations.go\<close> and the guarantee the access-token revocations
  give together with \<open>internal/cache\<close>: while tokens of a revoked scope can still be
  unexpired, no validation accepts them, whatever else is written to Redis in between.
\<close>

section \<open>Binding the revocations\<close>

definition MaxAccessTokenTTL :: duration where
  "MaxAccessTokenTTL = 24 * hour"

definition AccessTokenRevocationMarkerTTL :: "duration \<Rightarrow> duration" where
  "AccessTokenRevocationMarkerTTL accessTokenTTL = max accessTokenTTL MaxAccessTokenTTL"

definition AccessTokenRevocationModeExpiry :: string where
  "AccessTokenRevocationModeExpiry = ''expiry''"

definition NewAccessTokenRevocations :: "string \<Rightarrow> cache_impl \<Rightarrow> duration \<Rightarrow> revocations" where
  "NewAccessTokenRevocations mode backend accessTokenTTL =
     \<lparr>rv_cache = (if mode = AccessTokenRevocationModeExpiry then None else Some backend),
      rv_ttl = AccessTokenRevocationMarkerTTL accessTokenTTL\<rparr>"

lemma marker_ttl_ms: "24 * 60 * 60 * 1000 \<le> milliseconds (AccessTokenRevocationMarkerTTL ttl)"
  by (auto simp: AccessTokenRevocationMarkerTTL_def MaxAccessTokenTTL_def milliseconds_def hour_def minute_def second_def max_def)

section \<open>Everything Redis is used for\<close>

text \<open>
  One command of the program, run by Redis at the instant \<open>now\<close>: a cutoff, a marker of a
  single token, or a rate-limit counter.
\<close>

inductive cache_step :: "int \<Rightarrow> redis \<Rightarrow> redis \<Rightarrow> bool" for t where
  cutoff: "now \<le> t \<Longrightarrow> 0 \<le> v \<Longrightarrow> v < 2 ^ 63 \<Longrightarrow> 0 < ttl \<Longrightarrow> cache_step t c (register_setmax now c k v ttl)"
| marker: "cache_step t c (c(RevokedAccessTokenKey i \<mapsto> x))"
| counter: "cache_step t c (c(RateLimitKey kind scope value := x))"

definition scope_key :: "string \<Rightarrow> bool" where
  "scope_key k \<longleftrightarrow> (\<exists>i. k = RevokedAccessTokenSessionKey i) \<or> (\<exists>u. k = RevokedAccessTokenUserKey u)
     \<or> (\<exists>u org. k = RevokedAccessTokenMembershipKey u org)"

lemma scope_key_other [simp]:
  "\<not> scope_key (RevokedAccessTokenKey i)" "\<not> scope_key (RateLimitKey a b v)"
  by (auto simp: scope_key_def key_defs)

lemma cache_step_keeps_cutoff:
  assumes "cache_step t c c'" and "scope_key k" and "cutoff_entry c k" and "cutoff_at t c k = Some v"
  shows "cutoff_entry c' k \<and> (\<exists>v'\<ge>v. cutoff_at t c' k = Some v')"
  using assms(1)
proof cases
  case (cutoff now v0 ttl k0)
  have "cutoff_entry c' k"
    using register.setmax_sound [OF assms(3) cutoff(3-5)] cutoff(1) by simp
  moreover have "\<exists>v'. cutoff_at t c' k = Some v' \<and> v \<le> v'"
    using register.setmax_grows [OF assms(3) cutoff(3-5,2) assms(4)] cutoff(1) by simp
  ultimately show ?thesis by blast
next
  case marker
  then have "c' k = c k" using assms(2) by auto
  then show ?thesis using assms(3,4) by (simp add: cutoff_entry_def cutoff_at_def redis_GET_def live_def)
next
  case counter
  then have "c' k = c k" using assms(2) by auto
  then show ?thesis using assms(3,4) by (simp add: cutoff_entry_def cutoff_at_def redis_GET_def live_def)
qed

lemma cache_steps_keep_cutoff:
  assumes "(cache_step t)\<^sup>*\<^sup>* c c'" and "scope_key k" and "cutoff_entry c k" and "cutoff_at t c k = Some v"
  shows "cutoff_entry c' k \<and> (\<exists>v'\<ge>v. cutoff_at t c' k = Some v')"
  using assms(1)
proof (induction rule: rtranclp_induct)
  case base
  then show ?case using assms(3,4) by blast
next
  case (step c1 c2)
  then obtain v1 where v1: "cutoff_entry c1 k" "v \<le> v1" "cutoff_at t c1 k = Some v1" by blast
  from cache_step_keeps_cutoff [OF step(2) assms(2) v1(1,3)] v1(2) show ?case by fastforce
qed

text \<open>A cutoff that was written stops every token of its scope issued up to it.\<close>

lemma cutoff_stands:
  assumes "scope_key k" and "cutoff_entry c k" and "0 \<le> t" and "t < 2 ^ 63" and "0 < ms"
    and "(cache_step T)\<^sup>*\<^sup>* (register_setmax W c k t ms) c2" and "W \<le> T" and "T < W + ms"
  shows "\<exists>v\<ge>t. cutoff_at T c2 k = Some v"
proof -
  obtain v where v: "cutoff_at T (register_setmax W c k t ms) k = Some v" "t \<le> v"
    using register.setmax_reaches [OF assms(2-5,7,8)] by auto
  have "cutoff_entry (register_setmax W c k t ms) k"
    using register.setmax_sound [OF assms(2-5)] .
  from cache_steps_keep_cutoff [OF assms(6,1) this v(1)] v(2) show ?thesis by fastforce
qed

lemma Check_rejects_cutoff:
  assumes "rv_cache r = Some RedisCache" and "k \<in> set (revocation_keys E c)"
    and "clm_issued_at c = Some iat" and "unix_nano iat \<le> v"
    and "cutoff_at (o_redis_ms E (w_step w)) (w_cache w) k = Some v"
  shows "\<exists>e w'. Check E (Some r) (Some c) w = (Inl e, w')"
proof (cases "Check E (Some r) (Some c) w")
  case (Pair res w')
  show ?thesis
  proof (cases res)
    case (Inl e)
    with Pair show ?thesis by simp
  next
    case (Inr u)
    obtain x where x: "redis_GET (o_redis_ms E (w_step w)) (w_cache w) k = Some x" "parse_int64 x = Some v"
      using assms(5) by (auto simp: cutoff_at_def bind_eq_Some_conv)
    have "v < unix_nano iat"
      using Pair [unfolded Inr Check_run [OF assms(1)]] assms(2,3) x by fastforce
    with assms(4) show ?thesis by simp
  qed
qed

text \<open>\<open>revokeScope\<close> with Redis, spelled out.\<close>

lemma revokeScope_written:
  assumes "revokeScope E (Some r) k t w = (Inr u, w')" and "rv_cache r = Some RedisCache"
  shows "w_cache w' = register_setmax (o_redis_ms E (w_step w)) (w_cache w) k (unix_nano t)
     (milliseconds (rv_ttl r))"
  using assms
  by (auto simp: revokeScope_def cache_SetMaxInt64_def runs register_setmax_def split: sum.splits prod.splits)

section \<open>No validation accepts a revoked token\<close>

text \<open>
  What the code relies on of the signature: claims that verify under the service's keys were
  issued by the service, at an instant that \<open>int64\<close> nanoseconds hold and with a
  lifetime the configuration allows.
\<close>

definition issued_here :: "jwt_lib \<Rightarrow> token_service \<Rightarrow> bool" where
  "issued_here J T \<longleftrightarrow> (\<forall>auds now s c valid. jwt_parse J auds (ts_issuer T) now (keyFunc T) s = Some (c, valid) \<longrightarrow>
     (\<exists>iat e. clm_issued_at c = Some iat \<and> 0 \<le> iat \<and> iat < 2 ^ 63
        \<and> clm_expires_at c = Some e \<and> e \<le> iat + MaxAccessTokenTTL))"

lemma revoked_scope_tokens_die:
  assumes R: "svc_revocations S = Some (NewAccessTokenRevocations mode RedisCache ttl)"
      "mode \<noteq> AccessTokenRevocationModeExpiry"
    and run: "revokeScope E (svc_revocations S) k revAt w = (Inr (), w1)"
    and k: "scope_key k" "cutoff_entry (w_cache w) k" "0 \<le> revAt" "revAt < 2 ^ 63"
    and steps: "(cache_step (o_redis_ms E2 (w_step w2)))\<^sup>*\<^sup>* (w_cache w1) (w_cache w2)"
    and clocks: "revAt < o_redis_ms E (w_step w) * 1000000"
      "o_redis_ms E (w_step w) \<le> o_redis_ms E2 (w_step w2)"
      "o_redis_ms E2 (w_step w2) * 1000000 \<le> now"
    and J: "issued_here (svc_jwt S) (svc_tokens S)"
    and parse: "Parse (svc_jwt S) (svc_tokens S) tok aud now = Inr c" "k \<in> set (revocation_keys E2 c)"
    and ok: "Check E2 (svc_revocations S) (Some c) w2 = (Inr (), w3)"
  shows "\<exists>iat. clm_issued_at c = Some iat \<and> revAt < iat"
proof -
  let ?r = "NewAccessTokenRevocations mode RedisCache ttl"
  let ?ms = "milliseconds (rv_ttl ?r)"
  let ?W = "o_redis_ms E (w_step w)" and ?T = "o_redis_ms E2 (w_step w2)"
  have r: "rv_cache ?r = Some RedisCache" and ms: "24 * 60 * 60 * 1000 \<le> ?ms"
    using R(2) marker_ttl_ms by (simp_all add: NewAccessTokenRevocations_def)
  obtain e where p: "jwt_parse (svc_jwt S) [aud] (ts_issuer (svc_tokens S)) now (keyFunc (svc_tokens S)) tok = Some (c, True)"
    and e: "clm_expires_at c = Some e" "now \<le> e"
    using parse(1) unfolding Parse_def by (rule parse_access_SomeD)
  obtain iat where iat: "clm_issued_at c = Some iat" "0 \<le> iat" "iat < 2 ^ 63" "e \<le> iat + MaxAccessTokenTTL"
    using J p e(1) unfolding issued_here_def by fastforce
  have "revAt < iat"
  proof (rule ccontr)
    assume "\<not> revAt < iat"
    have "?T < ?W + ?ms"
    proof (rule ccontr)
      assume "\<not> ?T < ?W + ?ms"
      then have "?W + 24 * 60 * 60 * 1000 \<le> ?T" using ms by linarith
      then have "?W * 1000000 + MaxAccessTokenTTL \<le> now"
        using clocks(3) by (simp add: MaxAccessTokenTTL_def hour_def minute_def second_def)
      with clocks(1) \<open>\<not> revAt < iat\<close> iat(4) e(2) show False by linarith
    qed
    moreover have "w_cache w1 = register_setmax ?W (w_cache w) k (unix_nano revAt) ?ms"
      using run unfolding R(1) by (rule revokeScope_written) (rule r)
    ultimately obtain v where v: "v \<ge> revAt" "cutoff_at ?T (w_cache w2) k = Some v"
      using cutoff_stands [OF k(1,2,3,4), where ms = ?ms and W = ?W and T = ?T and ?c2.0 = "w_cache w2"]
        ms clocks(2) steps k(3,4)
      by auto
    have "unix_nano iat \<le> v" using \<open>\<not> revAt < iat\<close> iat(2,3) v(1) by simp
    then obtain e w' where "Check E2 (Some ?r) (Some c) w2 = (Inl e, w')"
      using Check_rejects_cutoff [OF r parse(2) iat(1) _ v(2)] by blast
    with ok R(1) show False by simp
  qed
  with iat(1) show ?thesis by blast
qed

lemma ValidateAccessToken_parts:
  assumes "ValidateAccessToken E S tok aud now w = (Inr ident, w')"
  obtains c where "Parse (svc_jwt S) (svc_tokens S) tok aud now = Inr c"
    and "Check E (svc_revocations S) (Some c) w = (Inr (), w')"
    and "identityFromClaims E c = Inr ident"
  using assms by (auto simp: ValidateAccessToken_def runs)

lemma identityFromClaims_Inr:
  assumes "identityFromClaims E c = Inr ident"
  shows "ai_session ident = clm_session_id c" and "ai_org ident = clm_org_id c"
    and "uuid_parse E (clm_subject c) = Some (ai_user ident)" and "ai_user ident \<noteq> nil_uuid"
    and "ai_org ident \<noteq> nil_uuid" and "ai_org_role ident \<noteq> ''''"
    and "FromClaims (clm_roles c) = Inr (ai_roles ident)"
  using assms
  by (auto simp: identityFromClaims_def split: option.splits sum.splits if_splits)

end
