(* ===== verification/Session_Invariant.thy ===== *)
theory Session_Invariant
  imports Session_Proofs
begin

text \<open>
  The tables \<open>sessions\<close> and \<open>refresh_tokens\<close> as a state machine: the effects a call may
  have on them, the effect of every call of the session service and of the store's clean-up
  statements, and what the effects keep (well-formedness, revoked sessions, consumed tokens).
  The program's steps, with the other services, are in theory \<open>Session_Steps\<close>.
\<close>

section \<open>Well-formedness\<close>

definition token_ok :: "session list \<Rightarrow> refresh_token \<Rightarrow> bool" where
  "token_ok ss t \<longleftrightarrow> (\<exists>s\<in>set ss. ses_id s = rt_session t \<and> ses_org s = rt_org t
     \<and> rt_expires_at t \<le> ses_expires_at s)"

definition one_live_token :: "refresh_token list \<Rightarrow> bool" where
  "one_live_token ts \<longleftrightarrow> (\<forall>t\<in>set ts. \<forall>u\<in>set ts. rt_session t = rt_session u
     \<longrightarrow> rt_consumed_at t = None \<longrightarrow> rt_consumed_at u = None \<longrightarrow> t = u)"

definition sessions_ok :: "session list \<Rightarrow> bool" where
  "sessions_ok ss \<longleftrightarrow> distinct (map ses_id ss)
     \<and> (\<forall>s\<in>set ss. provenance_ok (ses_authenticated_at s) (ses_method s))"

definition tokens_ok :: "session list \<Rightarrow> refresh_token list \<Rightarrow> bool" where
  "tokens_ok ss ts \<longleftrightarrow> distinct (map rt_id ts) \<and> distinct (map rt_hash ts)
     \<and> (\<forall>t\<in>set ts. token_ok ss t) \<and> one_live_token ts"

definition session_wf :: "db \<Rightarrow> bool" where
  "session_wf d \<longleftrightarrow> sessions_ok (sessions d) \<and> tokens_ok (sessions d) (refresh_tokens d)"

lemma session_wf_core: "core d' = core d \<Longrightarrow> session_wf d' = session_wf d"
  unfolding session_wf_def by (simp add: core_eqD(7,8) [of d' d])

lemma sessions_ok_append:
  "sessions_ok ss \<Longrightarrow> ses_id s \<notin> ses_id ` set ss \<Longrightarrow> provenance_ok (ses_authenticated_at s) (ses_method s)
   \<Longrightarrow> sessions_ok (ss @ [s])"
  by (auto simp: sessions_ok_def)

lemma sessions_ok_upd:
  assumes "sessions_ok ss" and "\<And>r. ses_id (f r) = ses_id r"
    and "\<And>r. r \<in> set ss \<Longrightarrow> p r \<Longrightarrow> provenance_ok (ses_authenticated_at r) (ses_method r) \<Longrightarrow>
       provenance_ok (ses_authenticated_at (f r)) (ses_method (f r))"
  shows "sessions_ok (upd_where p f ss)"
  using assms by (auto simp: sessions_ok_def map_upd_where_same set_upd_where)

lemma sessions_ok_del: "sessions_ok ss \<Longrightarrow> sessions_ok (del_where p ss)"
  by (auto simp: sessions_ok_def distinct_map_del_where)

lemma token_ok_append: "token_ok ss t \<Longrightarrow> token_ok (ss @ ss') t"
  by (auto simp: token_ok_def)

lemma token_ok_upd:
  assumes "token_ok ss t" and "\<And>r. ses_id (f r) = ses_id r" and "\<And>r. ses_expires_at (f r) = ses_expires_at r"
    and "\<And>r. p r \<Longrightarrow> ses_id r = rt_session t \<Longrightarrow> ses_org (f r) = ses_org r"
  shows "token_ok (upd_where p f ss) t"
proof -
  obtain s where s: "s \<in> set ss" "ses_id s = rt_session t" "ses_org s = rt_org t"
    "rt_expires_at t \<le> ses_expires_at s"
    using assms(1) by (auto simp: token_ok_def)
  have "(if p s then f s else s) \<in> set (upd_where p f ss)"
    using s(1) unfolding set_upd_where by (rule imageI)
  then show ?thesis
    unfolding token_ok_def
    by (rule rev_bexI) (use s assms(2-4) in auto)
qed

lemma tokens_ok_sessions:
  assumes "tokens_ok ss ts" and "\<And>t. t \<in> set ts \<Longrightarrow> token_ok ss t \<Longrightarrow> token_ok ss' t"
  shows "tokens_ok ss' ts"
  using assms by (auto simp: tokens_ok_def)

lemma tokens_ok_append:
  assumes "tokens_ok ss ts" and "token_ok ss t" and "rt_id t \<notin> rt_id ` set ts" and "rt_hash t \<notin> rt_hash ` set ts"
    and "\<And>u. u \<in> set ts \<Longrightarrow> rt_session u = rt_session t \<Longrightarrow> rt_consumed_at u \<noteq> None"
  shows "tokens_ok ss (ts @ [t])"
proof -
  have "one_live_token (ts @ [t])"
    unfolding one_live_token_def
  proof (intro ballI impI)
    fix a b
    assume ab: "a \<in> set (ts @ [t])" "b \<in> set (ts @ [t])" "rt_session a = rt_session b"
      "rt_consumed_at a = None" "rt_consumed_at b = None"
    have "a \<in> set ts \<or> a = t" "b \<in> set ts \<or> b = t" using ab by auto
    with ab assms(1) assms(5) [of a] assms(5) [of b] show "a = b"
      by (auto simp: tokens_ok_def one_live_token_def)
  qed
  with assms(1-4) show ?thesis by (auto simp: tokens_ok_def)
qed

lemma tokens_okD: "tokens_ok ss ts \<Longrightarrow> t \<in> set ts \<Longrightarrow> token_ok ss t"
  by (simp add: tokens_ok_def)

lemma one_liveD:
  assumes "tokens_ok ss ts" and "t \<in> set ts" and "u \<in> set ts" and "rt_session t = rt_session u"
    and "rt_consumed_at t = None" and "rt_consumed_at u = None"
  shows "t = u"
  using assms by (simp add: tokens_ok_def one_live_token_def)

lemma tokens_ok_del: "tokens_ok ss ts \<Longrightarrow> tokens_ok ss (del_where p ts)"
  by (auto simp: tokens_ok_def one_live_token_def distinct_map_del_where)

text \<open>Consuming a token that is not yet consumed keeps the tables well formed.\<close>

lemma tokens_ok_consume:
  assumes "tokens_ok ss ts"
  shows "tokens_ok ss (upd_where (\<lambda>r. rt_id r = i \<and> rt_consumed_at r = None)
     (\<lambda>r. r\<lparr>rt_consumed_at := Some now\<rparr>) ts)"
proof -
  let ?ts = "upd_where (\<lambda>r. rt_id r = i \<and> rt_consumed_at r = None) (\<lambda>r. r\<lparr>rt_consumed_at := Some now\<rparr>) ts"
  have keys: "map rt_id ?ts = map rt_id ts" "map rt_hash ?ts = map rt_hash ts"
    by (simp_all add: map_upd_where_same)
  have ok: "token_ok ss t" if "t \<in> set ?ts" for t
    using that assms by (auto simp: tokens_ok_def token_ok_def set_upd_where split: if_splits)
  have live: "t \<in> set ts" if "t \<in> set ?ts" "rt_consumed_at t = None" for t
    using that by (auto simp: set_upd_where split: if_splits)
  have "one_live_token ?ts"
    using assms live unfolding tokens_ok_def one_live_token_def by blast
  with assms keys ok show ?thesis by (simp add: tokens_ok_def)
qed

section \<open>The operations keep it\<close>

lemma wf_opened:
  assumes "session_wf d" and "session_opened E S u pk aud meth now a r d d'"
    and "RefreshTokenTTL (svc_policy S) \<le> SessionTTL (svc_policy S)"
  shows "session_wf d'"
proof -
  obtain oid s t where n: "new_pair E S u oid meth now r s t d"
    and d': "core d' = core (d\<lparr>sessions := sessions d @ [s], refresh_tokens := refresh_tokens d @ [t]\<rparr>)"
    using assms(2) by (auto simp: session_opened_def)
  have s: "sessions_ok (sessions d @ [s])"
    using assms(1) n by (intro sessions_ok_append) (auto simp: session_wf_def new_pair_def provenance_ok_def)
  have "tokens_ok (sessions d @ [s]) (refresh_tokens d @ [t])"
  proof (rule tokens_ok_append)
    show "tokens_ok (sessions d @ [s]) (refresh_tokens d)"
      using assms(1) by (auto simp: session_wf_def intro: tokens_ok_sessions token_ok_append)
    show "token_ok (sessions d @ [s]) t"
      using n assms(3) by (auto simp: token_ok_def new_pair_def)
    show "rt_id t \<notin> rt_id ` set (refresh_tokens d)" "rt_hash t \<notin> rt_hash ` set (refresh_tokens d)"
      using n by (auto simp: new_pair_def)
    show "rt_consumed_at u \<noteq> None"
      if u: "u \<in> set (refresh_tokens d)" "rt_session u = rt_session t" for u
    proof -
      obtain s' where "s' \<in> set (sessions d)" "ses_id s' = rt_session u"
        using tokens_okD [of "sessions d" "refresh_tokens d" u] assms(1) u(1)
        by (auto simp: session_wf_def token_ok_def)
      moreover have "rt_session u = ses_id s" "ses_id s \<notin> ses_id ` set (sessions d)"
        using u(2) n by (simp_all add: new_pair_def)
      ultimately show ?thesis by (metis imageI)
    qed
  qed
  with s show ?thesis unfolding session_wf_core [OF d'] by (simp add: session_wf_def)
qed

lemma find_sessionD: "find_session i d = Some s \<Longrightarrow> s \<in> set (sessions d) \<and> ses_id s = i"
  unfolding find_session_def by (auto dest: find_Some_in)

lemma find_activeD:
  "find_active i now d = Some s \<Longrightarrow> s \<in> set (sessions d) \<and> ses_id s = i \<and> is_active now s"
  unfolding find_active_def by (auto dest: find_Some_in)

lemma find_tokenD: "find_token h d = Some t \<Longrightarrow> t \<in> set (refresh_tokens d) \<and> rt_hash t = h"
  unfolding find_token_def by (auto dest: find_Some_in)

lemma wf_switched:
  assumes "session_wf d" and "session_switched E S u i oid aud now a r d d'"
  shows "session_wf d'"
proof -
  let ?others = "del_where (\<lambda>r. rt_session r = i) (refresh_tokens d)"
  let ?upd = "\<lambda>t0. upd_where (\<lambda>r. ses_id r = i \<and> ses_revoked_at r = None)
                   (\<lambda>r. r\<lparr>ses_org := oid, ses_updated_at := t0\<rparr>) (sessions d)"
  obtain s t t0 where act: "find_active i now d = Some s"
    and t: "fresh_token E S s oid now r t ?others"
    and d': "d' = d\<lparr>sessions := ?upd t0, refresh_tokens := ?others @ [t]\<rparr>"
    using assms(2) by (auto simp: session_switched_def Let_def)
  have s: "s \<in> set (sessions d)" "ses_id s = i" "ses_revoked_at s = None"
    using find_activeD [OF act] by (auto simp: is_active_def)
  have "tokens_ok (?upd t0) (?others @ [t])"
  proof (rule tokens_ok_append)
    have "tokens_ok (sessions d) ?others"
      using assms(1) by (simp add: session_wf_def tokens_ok_del)
    then show "tokens_ok (?upd t0) ?others"
      by (rule tokens_ok_sessions) (auto intro: token_ok_upd)
    show "token_ok (?upd t0) t"
      using s t unfolding token_ok_def fresh_token_def set_upd_where
      by (intro bexI [where x = "s\<lparr>ses_org := oid, ses_updated_at := t0\<rparr>"]) (auto simp: image_iff)
    show "rt_id t \<notin> rt_id ` set ?others" "rt_hash t \<notin> rt_hash ` set ?others"
      using t unfolding fresh_token_def by blast+
    show "rt_consumed_at v \<noteq> None" if "v \<in> set ?others" "rt_session v = rt_session t" for v
      using that t s(2) by (simp add: fresh_token_def)
  qed
  with assms(1) show ?thesis by (auto simp: session_wf_def d' intro!: sessions_ok_upd)
qed

lemma wf_refreshed:
  assumes "session_wf d" and "session_refreshed E S r aud now a r' d d'"
  shows "session_wf d'"
proof -
  obtain rt s where ref: "refreshable E S r aud now a d rt s"
    and d': "if shouldRotate rt now (RefreshTokenRotation (svc_policy S))
         then (\<exists>t. let ts = upd_where (\<lambda>r. rt_id r = rt_id rt \<and> rt_consumed_at r = None)
                     (\<lambda>r. r\<lparr>rt_consumed_at := Some now\<rparr>) (refresh_tokens d) in
              fresh_token E S s (rt_org rt) now r' t ts
              \<and> core d' = core (d\<lparr>refresh_tokens := ts @ [t]\<rparr>))
         else r' = r \<and> core d' = core d"
    using assms(2) unfolding session_refreshed_def by blast
  have rt: "rt \<in> set (refresh_tokens d)" "rt_consumed_at rt = None"
    and s: "s \<in> set (sessions d)" "ses_id s = rt_session rt"
    using ref by (auto simp: refreshable_def dest: find_tokenD find_sessionD)
  show ?thesis
  proof (cases "shouldRotate rt now (RefreshTokenRotation (svc_policy S))")
    case False
    with d' have "core d' = core d" by simp
    with assms(1) show ?thesis by (simp add: session_wf_core [of d' d])
  next
    case True
    let ?ts = "upd_where (\<lambda>r. rt_id r = rt_id rt \<and> rt_consumed_at r = None)
                     (\<lambda>r. r\<lparr>rt_consumed_at := Some now\<rparr>) (refresh_tokens d)"
    obtain t where t: "fresh_token E S s (rt_org rt) now r' t ?ts"
      and c: "core d' = core (d\<lparr>refresh_tokens := ?ts @ [t]\<rparr>)"
      using d' True by (auto simp: Let_def)
    have wf: "tokens_ok (sessions d) (refresh_tokens d)" "sessions_ok (sessions d)"
      using assms(1) by (simp_all add: session_wf_def)
    have org: "ses_org s = rt_org rt"
    proof -
      obtain s' where "s' \<in> set (sessions d)" "ses_id s' = rt_session rt" "ses_org s' = rt_org rt"
        using tokens_okD [OF wf(1) rt(1)] by (auto simp: token_ok_def)
      with s wf(2) show ?thesis
        by (metis sessions_ok_def distinct_map inj_onD)
    qed
    have "tokens_ok (sessions d) (?ts @ [t])"
    proof (rule tokens_ok_append [OF tokens_ok_consume [OF wf(1)]])
      show "token_ok (sessions d) t"
        using s t org by (auto simp: token_ok_def fresh_token_def)
      show "rt_id t \<notin> rt_id ` set ?ts" "rt_hash t \<notin> rt_hash ` set ?ts"
        using t unfolding fresh_token_def by blast+
      fix v
      assume v: "v \<in> set ?ts" "rt_session v = rt_session t"
      show "rt_consumed_at v \<noteq> None"
      proof
        assume "rt_consumed_at v = None"
        with v have "v \<in> set (refresh_tokens d)" "rt_id v \<noteq> rt_id rt"
          by (auto simp: set_upd_where split: if_splits)
        moreover have "rt_session v = rt_session rt" using v(2) t s(2) by (simp add: fresh_token_def)
        ultimately show False
          using one_liveD [OF wf(1) _ rt(1) _ \<open>rt_consumed_at v = None\<close> rt(2)] by auto
      qed
    qed
    with wf(2) show ?thesis unfolding session_wf_core [OF c] by (simp add: session_wf_def)
  qed
qed

lemma wf_revoke_sessions: "session_wf d \<Longrightarrow> session_wf (revoke_sessions p t t0 d)"
  by (auto simp: session_wf_def revoke_sessions_def intro!: sessions_ok_upd
      elim!: tokens_ok_sessions token_ok_upd)

lemma wf_del_tokens: "session_wf d \<Longrightarrow> session_wf (d\<lparr>refresh_tokens := del_where p (refresh_tokens d)\<rparr>)"
  by (simp add: session_wf_def tokens_ok_del)

lemma wf_cascade:
  assumes "session_wf d"
  shows "session_wf (cascade_sessions p d)"
proof -
  let ?gone = "\<lambda>r. list_ex (\<lambda>s. p s \<and> ses_id s = rt_session r) (sessions d)"
  have "tokens_ok (sessions d) (del_where ?gone (refresh_tokens d))"
    using assms by (simp add: session_wf_def tokens_ok_del)
  then have "tokens_ok (del_where p (sessions d)) (del_where ?gone (refresh_tokens d))"
    by (rule tokens_ok_sessions) (auto simp: token_ok_def list_ex_iff)
  with assms show ?thesis
    by (simp add: session_wf_def cascade_sessions_def Let_def sessions_ok_del)
qed

section \<open>Ending sessions\<close>

text \<open>
  What any other service may do to the two tables: sessions are revoked, re-authenticated or
  deleted with their refresh tokens, and refresh tokens are deleted. No session is opened, none
  comes back and no token is issued.
\<close>

definition same_sessions :: "db \<Rightarrow> db \<Rightarrow> bool" where
  "same_sessions d d' \<longleftrightarrow> sessions d' = sessions d \<and> refresh_tokens d' = refresh_tokens d"

inductive curtails :: "db \<Rightarrow> db \<Rightarrow> bool" for d where
  same: "same_sessions d d' \<Longrightarrow> curtails d d'"
| revoke: "curtails d d1 \<Longrightarrow> same_sessions (revoke_sessions p t t0 d1) d' \<Longrightarrow> curtails d d'"
| reauthenticate: "curtails d d1 \<Longrightarrow> m \<in> set known_methods \<Longrightarrow>
     same_sessions (d1\<lparr>sessions := upd_where p (\<lambda>r. r\<lparr>ses_authenticated_at := Some t, ses_method := m,
       ses_updated_at := t0\<rparr>) (sessions d1)\<rparr>) d' \<Longrightarrow> curtails d d'"
| drop_tokens: "curtails d d1 \<Longrightarrow> same_sessions (d1\<lparr>refresh_tokens := del_where q (refresh_tokens d1)\<rparr>) d' \<Longrightarrow>
     curtails d d'"
| drop_sessions: "curtails d d1 \<Longrightarrow> same_sessions (cascade_sessions p d1) d' \<Longrightarrow> curtails d d'"

lemma same_sessions_refl [simp]: "same_sessions d d"
  by (simp add: same_sessions_def)

lemma same_sessions_trans: "same_sessions d d1 \<Longrightarrow> same_sessions d1 d2 \<Longrightarrow> same_sessions d d2"
  by (simp add: same_sessions_def)

lemma curtails_same:
  assumes "curtails d d1" and "same_sessions d1 d2"
  shows "curtails d d2"
  using assms(1) by cases (blast intro: curtails.intros same_sessions_trans assms(2))+

lemma session_wf_same: "same_sessions d d' \<Longrightarrow> session_wf d' = session_wf d"
  by (simp add: same_sessions_def session_wf_def)

lemma wf_reauthenticated:
  assumes "session_wf d" and "m \<in> set known_methods"
  shows "session_wf (d\<lparr>sessions := upd_where p (\<lambda>r. r\<lparr>ses_authenticated_at := Some t, ses_method := m,
    ses_updated_at := t0\<rparr>) (sessions d)\<rparr>)"
  using assms
  by (auto simp: session_wf_def provenance_ok_def intro!: sessions_ok_upd elim!: tokens_ok_sessions token_ok_upd)

lemma curtails_wf:
  assumes "curtails d d'" and "session_wf d"
  shows "session_wf d'"
  using assms(1)
proof induction
  case (same d')
  with assms(2) show ?case by (simp add: session_wf_same)
qed (simp_all add: session_wf_same wf_revoke_sessions wf_reauthenticated wf_del_tokens wf_cascade)

section \<open>The abstract machine\<close>

text \<open>
  What a call may do to the two tables. \<open>A\<close> restricts the environments the calls run in and
  the configurations of the session service (for instance to environments that never generate
  a given UUID again).
\<close>

inductive session_effect :: "(env \<Rightarrow> service \<Rightarrow> bool) \<Rightarrow> db \<Rightarrow> db \<Rightarrow> bool" for A where
  unchanged: "sessions d' = sessions d \<Longrightarrow> refresh_tokens d' = refresh_tokens d \<Longrightarrow> session_effect A d d'"
| opened: "A E S \<Longrightarrow> session_opened E S u pk aud meth now a r d d' \<Longrightarrow> session_effect A d d'"
| signed_up: "A E S \<Longrightarrow> same_sessions d d1 \<Longrightarrow> session_opened E S u pk aud meth now a r d1 d2 \<Longrightarrow>
     same_sessions d2 d' \<Longrightarrow> session_effect A d d'"
| switched: "A E S \<Longrightarrow> session_switched E S u i oid aud now a r d d' \<Longrightarrow> session_effect A d d'"
| refreshed: "A E S \<Longrightarrow> session_refreshed E S r aud now a r' d d' \<Longrightarrow> session_effect A d d'"
| revoked: "core d' = core ((revoke_sessions p t t0 d)\<lparr>refresh_tokens := del_where q (refresh_tokens d)\<rparr>) \<Longrightarrow>
     session_effect A d d'"
| reauthenticated: "sessions d' = upd_where p (\<lambda>r. r\<lparr>ses_authenticated_at := Some t, ses_method := m,
       ses_updated_at := t0\<rparr>) (sessions d) \<Longrightarrow> m \<in> set known_methods \<Longrightarrow>
     refresh_tokens d' = refresh_tokens d \<Longrightarrow> session_effect A d d'"
| removed: "d' = cascade_sessions p d \<Longrightarrow> session_effect A d d'"
| pruned: "d' = d\<lparr>refresh_tokens := del_where q (refresh_tokens d)\<rparr> \<Longrightarrow> session_effect A d d'"
| ended: "curtails d d' \<Longrightarrow> session_effect A d d'"

lemma session_effect_wf:
  assumes "session_effect A d d'" and "session_wf d"
    and ttl: "\<And>E S. A E S \<Longrightarrow> RefreshTokenTTL (svc_policy S) \<le> SessionTTL (svc_policy S)"
  shows "session_wf d'"
  using assms(1)
proof cases
  case unchanged
  then show ?thesis using assms(2) by (simp add: session_wf_def)
next
  case (opened E S u pk aud meth now a r)
  then show ?thesis using assms(2) ttl by (blast intro: wf_opened)
next
  case (signed_up E S d1 u pk aud meth now a r d2)
  then have "session_wf d2" using assms(2) ttl by (blast intro: wf_opened session_wf_same [THEN iffD2])
  with signed_up(4) show ?thesis by (simp add: session_wf_same)
next
  case (switched E S u i oid aud now a r)
  then show ?thesis using assms(2) by (blast intro: wf_switched)
next
  case (refreshed E S r aud now a r')
  then show ?thesis using assms(2) by (blast intro: wf_refreshed)
next
  case revoked
  then obtain p t t0 q where
    eq: "core d' = core ((revoke_sessions p t t0 d)\<lparr>refresh_tokens := del_where q (refresh_tokens d)\<rparr>)"
    by blast
  have "session_wf ((revoke_sessions p t t0 d)\<lparr>refresh_tokens := del_where q (refresh_tokens d)\<rparr>)"
    using wf_del_tokens [OF wf_revoke_sessions [OF assms(2)]] by (metis revoke_sessions_tokens)
  then show ?thesis by (simp add: session_wf_core [OF eq])
next
  case reauthenticated
  then show ?thesis
    using wf_reauthenticated [OF assms(2)] by (simp add: session_wf_def)
next
  case removed
  then show ?thesis using assms(2) by (simp add: wf_cascade)
next
  case pruned
  then show ?thesis using assms(2) by (simp add: wf_del_tokens)
next
  case ended
  then show ?thesis using assms(2) by (rule curtails_wf)
qed

section \<open>Every call of the session service has an effect\<close>

lemma effect_core: "core d' = core d \<Longrightarrow> session_effect A d d'"
  by (rule unchanged) (rule core_eqD(7,8), assumption)+

lemma del_where_False [simp]: "del_where (\<lambda>_. False) rs = rs"
  by (simp add: del_where_def)

lemma effect_revoke: "core d' = core (revoke_sessions p t t0 d) \<Longrightarrow> session_effect A d d'"
proof -
  assume "core d' = core (revoke_sessions p t t0 d)"
  then have "core d' = core ((revoke_sessions p t t0 d)
      \<lparr>refresh_tokens := del_where (\<lambda>_. False) (refresh_tokens d)\<rparr>)"
    by (simp add: revoke_sessions_def)
  then show ?thesis by (rule revoked)
qed

lemma upd_where_none: "\<forall>r\<in>set rs. \<not> p r \<Longrightarrow> upd_where p f rs = rs"
  by (induction rs) simp_all

lemma wp_effect:
  assumes "wp m Q R w" and "m w = (r, w')"
    and "\<And>x. Q x w' \<Longrightarrow> session_effect A (w_db w) (w_db w')"
    and "\<And>e. R e w' \<Longrightarrow> session_effect A (w_db w) (w_db w')"
  shows "session_effect A (w_db w) (w_db w')"
  using assms by (cases r) (auto dest: wp_value wp_error)

lemma wp_UpdateSessionAuthentication:
  assumes "\<And>w' t0. method \<in> set known_methods \<Longrightarrow> w_cache w' = w_cache w \<Longrightarrow>
      \<exists>s\<in>set (sessions (w_db w)). ses_id s = i \<and> ses_user s = u \<and> is_active now s \<Longrightarrow>
      w_db w' = (w_db w)\<lparr>sessions := upd_where (\<lambda>r. ses_id r = i \<and> ses_user r = u \<and> ses_revoked_at r = None \<and> now < ses_expires_at r)
        (\<lambda>r. r\<lparr>ses_authenticated_at := Some now, ses_method := method, ses_updated_at := t0\<rparr>) (sessions (w_db w))\<rparr> \<Longrightarrow> Q () w'"
    and "\<And>e w'. w_db w' = w_db w \<Longrightarrow> w_cache w' = w_cache w \<Longrightarrow> R e w'"
  shows "wp (UpdateSessionAuthentication E u i method now) Q R w"
  unfolding UpdateSessionAuthentication_def
  apply (auto simp: wps Let_def list_ex_iff provenance_ok_def upd_where_none intro!: assms(2) split: if_splits)
  apply (rule assms(1))
   apply (auto simp: is_active_def)
  done

text \<open>Operations that leave both tables alone, or change them by one statement.\<close>

abbreviation effect_post :: "(env \<Rightarrow> service \<Rightarrow> bool) \<Rightarrow> world \<Rightarrow> 'a \<Rightarrow> world \<Rightarrow> bool" where
  "effect_post A w \<equiv> \<lambda>_ w'. session_effect A (w_db w) (w_db w')"

lemma wp_effectD:
  "wp m (effect_post A w) (effect_post A w) w \<Longrightarrow> m w = (r, w') \<Longrightarrow>
   session_effect A (w_db w) (w_db w')"
  by (rule wp_effect)

lemma effect_same [simp]: "session_effect A d d"
  by (rule unchanged) simp_all

lemma wp_MarkRecentlyAuthenticated:
  "wp (MarkRecentlyAuthenticated E u i meth now) (effect_post A w) (effect_post A w) w"
  unfolding MarkRecentlyAuthenticated_def
  by (auto simp: wps intro!: wp_UpdateSessionAuthentication intro: reauthenticated)

lemma wp_ConsumeAuthenticationChallenge:
  assumes "\<And>w'. sessions (w_db w') = sessions (w_db w) \<Longrightarrow> refresh_tokens (w_db w') = refresh_tokens (w_db w) \<Longrightarrow> Q () w'"
    and "\<And>e w'. R e w'"
  shows "wp (ConsumeAuthenticationChallenge E i m t) Q R w"
  unfolding ConsumeAuthenticationChallenge_def
  by (auto simp: wps Let_def intro!: assms split: if_splits)

lemma wp_CompleteAuthenticationChallenge_effect:
  assumes "w_tx w = NoTx"
  shows "wp (CompleteAuthenticationChallenge E S u i c meth now) (effect_post A w) (effect_post A w) w"
  unfolding CompleteAuthenticationChallenge_def GetActiveSessionByIDForUpdate_def
    GetAuthenticationChallengeByIDForUpdate_def AuthenticationReauthenticated_def Let_def
  apply (auto simp: wps wp_with_tx assms split: if_splits intro!: wp_UpdateSessionAuthentication
      wp_ConsumeAuthenticationChallenge wp_recordAuthentication)
  apply (rule reauthenticated)
  apply (drule core_eqD(7), simp)
  apply assumption
  apply (drule core_eqD(8), simp)
  done

lemma wp_StartAuthenticationChallenge_effect:
  assumes "w_tx w = NoTx"
  shows "wp (StartAuthenticationChallenge E u i now) (effect_post A w) (effect_post A w) w"
  unfolding StartAuthenticationChallenge_def GetActiveSessionByIDForUpdate_def
    GetAuthenticationChallengeBySessionIDForUpdate_def ReplaceAuthenticationChallenge_def Let_def
  by (auto simp: wps wp_with_tx assms split: if_splits intro!: unchanged)

lemma wp_logout_access:
  "wp (logout_access E S acc) (\<lambda>_ w'. core (w_db w') = core (w_db w)) (\<lambda>_ w'. core (w_db w') = core (w_db w)) w"
  unfolding logout_access_def SessionLogout_def
  by (auto simp: wps intro!: wp_recordSession wp_read [OF keeps_revocation(1)])

lemma wp_Logout_effect:
  assumes "w_tx w = NoTx"
  shows "wp (Logout E S tok acc) (effect_post A w) (effect_post A w) w"
proof -
  have found: "wp (if tok \<noteq> '''' then logout_refresh E S tok else ret False)
      (\<lambda>found w'. if found then session_effect A (w_db w) (w_db w') else w_db w' = w_db w)
      (\<lambda>e w'. w_db w' = w_db w) w"
  proof (cases "tok = ''''")
    case False
    have "wp (logout_refresh E S tok) (\<lambda>found w'. if found then session_effect A (w_db w) (w_db w')
        else w_db w' = w_db w) (\<lambda>e w'. w_db w' = w_db w) w"
      using wp_logout_refresh [OF assms]
      by (rule wp_mono) (auto simp: logged_out_def sessions_revoked_def intro: effect_revoke split: if_splits)
    with False show ?thesis by simp
  qed (simp add: wps)
  have tail: "wp (logout_access E S acc) (effect_post A w) (effect_post A w) w1"
    if "w_db w1 = w_db w" for w1
    using wp_logout_access by (rule wp_mono) (simp_all add: that effect_core)
  show ?thesis
    unfolding Logout_def wp_bnd
    by (rule wp_mono [OF found]) (simp_all add: wps tail split: if_splits)
qed


text \<open>Every step of the program is an effect of the abstract machine.\<close>

lemma exec_upd_effect:
  assumes "exec_upd E f w = (r, w')" and "\<And>t. session_effect A (w_db w) (f t (w_db w))"
  shows "session_effect A (w_db w) (w_db w')"
proof -
  have "wp (exec_upd E f) (effect_post A w) (effect_post A w) w"
    by (simp add: wps assms(2))
  then show ?thesis using assms(1) by (rule wp_effectD)
qed

lemma exec_count_effect:
  assumes "exec_count E f w = (r, w')" and "\<And>t. session_effect A (w_db w) (snd (f t (w_db w)))"
  shows "session_effect A (w_db w) (w_db w')"
proof -
  have "wp (exec_count E f) (effect_post A w) (effect_post A w) w"
    by (simp add: wps assms(2))
  then show ?thesis using assms(1) by (rule wp_effectD)
qed

lemma createSession_effect:
  assumes "A E S" and "w_tx w = NoTx" and "createSession E S u pk aud meth ua now ip w = (r, w')"
  shows "session_effect A (w_db w) (w_db w')"
  using wp_createSession [OF assms(2)] assms(3)
  by (rule wp_effect) (auto intro: opened effect_core assms(1))

lemma RefreshSession_effect:
  assumes "A E S" and "w_tx w = NoTx" and "RefreshSession E S tok aud now w = (r, w')"
  shows "session_effect A (w_db w) (w_db w')"
  using wp_RefreshSession [OF assms(2)] assms(3)
  by (rule wp_effect)
     (auto simp: reuse_outcome_def session_killed_def intro: refreshed effect_revoke assms(1))

lemma SwitchSessionOrganization_effect:
  assumes "A E S" and "w_tx w = NoTx" and "SwitchSessionOrganization E S u i oid aud now w = (r, w')"
  shows "session_effect A (w_db w) (w_db w')"
  using wp_SwitchSessionOrganization [OF assms(2)] assms(3)
  by (rule wp_effect) (auto intro: switched assms(1))

lemma RevokeAllSessions_effect:
  assumes "w_tx w = NoTx" and "RevokeAllSessions E S u w = (r, w')"
  shows "session_effect A (w_db w) (w_db w')"
  using wp_RevokeAllSessions [OF assms(1)] assms(2)
  by (rule wp_effect) (auto simp: sessions_revoked_def intro: effect_revoke)

lemma RevokeUserSession_effect:
  assumes "w_tx w = NoTx" and "RevokeUserSession E S u i now w = (r, w')"
  shows "session_effect A (w_db w) (w_db w')"
  using wp_RevokeUserSession [OF assms(1)] assms(2)
  by (rule wp_effect) (auto simp: session_dropped_def intro: revoked)

lemma RevokeOtherUserSessions_effect:
  assumes "w_tx w = NoTx" and "RevokeOtherUserSessions E S u i now w = (r, w')"
  shows "session_effect A (w_db w) (w_db w')"
  using wp_RevokeOtherUserSessions [OF assms(1)] assms(2)
  by (rule wp_effect) (auto simp: others_dropped_def intro: revoked)

lemmas challenge_effects =
  wp_effectD [OF wp_Logout_effect] wp_effectD [OF wp_MarkRecentlyAuthenticated]
  wp_effectD [OF wp_CompleteAuthenticationChallenge_effect]
  wp_effectD [OF wp_StartAuthenticationChallenge_effect]

lemma cleanup_effects:
  "DeleteExpiredRefreshTokens E now n w = (rn, w') \<Longrightarrow> session_effect A (w_db w) (w_db w')"
  "DeleteExpiredSessions E now n w = (rn, w') \<Longrightarrow> session_effect A (w_db w) (w_db w')"
  "DeleteRevokedSessions E n w = (rn, w') \<Longrightarrow> session_effect A (w_db w) (w_db w')"
  "DeleteSessionsByOrganizationMembership E oid u w = (r, w') \<Longrightarrow> session_effect A (w_db w) (w_db w')"
  "DeleteSessionsByOrganization E oid w = (r, w') \<Longrightarrow> session_effect A (w_db w) (w_db w')"
  "RevokeAllActiveSessionsForUser E u now w = (rn, w') \<Longrightarrow> session_effect A (w_db w) (w_db w')"
  "DeleteRefreshTokensByUserID E u w = (r, w') \<Longrightarrow> session_effect A (w_db w) (w_db w')"
  unfolding DeleteExpiredRefreshTokens_def DeleteExpiredSessions_def DeleteRevokedSessions_def
    DeleteSessionsByOrganizationMembership_def DeleteSessionsByOrganization_def
    RevokeAllActiveSessionsForUser_def DeleteRefreshTokensByUserID_def Let_def
  by (erule exec_upd_effect exec_count_effect; simp add: removed pruned effect_revoke)+

section \<open>What never comes back\<close>

text \<open>A revoked session stays revoked as long as its UUID is not generated again.\<close>

definition revoked_in :: "uuid \<Rightarrow> db \<Rightarrow> bool" where
  "revoked_in i d \<longleftrightarrow> (\<forall>s\<in>set (sessions d). ses_id s = i \<longrightarrow> ses_revoked_at s \<noteq> None)"

lemma revoked_in_upd:
  assumes "revoked_in i d" and "sessions d' = upd_where p f (sessions d)" and "\<And>r. ses_id (f r) = ses_id r"
    and "\<And>r. ses_revoked_at r \<noteq> None \<Longrightarrow> ses_revoked_at (f r) \<noteq> None"
  shows "revoked_in i d'"
  using assms by (auto simp: revoked_in_def set_upd_where)

lemma revoked_in_same: "same_sessions d d' \<Longrightarrow> revoked_in i d' = revoked_in i d"
  by (simp add: same_sessions_def revoked_in_def)

lemma curtails_revoked:
  assumes "curtails d d'" and "revoked_in i d"
  shows "revoked_in i d'"
  using assms(1)
proof induction
  case (same d')
  with assms(2) show ?case by (simp add: revoked_in_same)
qed (auto simp: same_sessions_def revoked_in_def revoke_sessions_def set_upd_where cascade_sessions_def Let_def)

lemma opened_keeps_revoked:
  assumes "session_opened E S u pk aud meth now a r d d'" and "revoked_in i d" and "i \<notin> range (o_uuid E)"
  shows "revoked_in i d'"
proof -
  obtain oid s t where n: "new_pair E S u oid meth now r s t d"
    and d': "core d' = core (d\<lparr>sessions := sessions d @ [s], refresh_tokens := refresh_tokens d @ [t]\<rparr>)"
    using assms(1) by (auto simp: session_opened_def)
  have "ses_id s \<noteq> i" using n assms(3) by (auto simp: new_pair_def)
  then show ?thesis using assms(2) core_eqD(7) [OF d'] by (simp add: revoked_in_def)
qed

lemma effect_keeps_revoked:
  assumes "session_effect A d d'" and "revoked_in i d" and "\<And>E S. A E S \<Longrightarrow> i \<notin> range (o_uuid E)"
  shows "revoked_in i d'"
  using assms(1)
proof cases
  case unchanged
  then show ?thesis using assms(2) by (simp add: revoked_in_def)
next
  case (opened E S u pk aud meth now a r)
  then show ?thesis using opened_keeps_revoked assms(2,3) by blast
next
  case (signed_up E S d1 u pk aud meth now a r d2)
  then have "revoked_in i d2" using opened_keeps_revoked assms(2,3) revoked_in_same by blast
  with signed_up(4) show ?thesis by (simp add: revoked_in_same)
next
  case (switched E S u j oid aud now a r)
  then show ?thesis
    using assms(2) by (auto simp: session_switched_def Let_def elim!: revoked_in_upd)
next
  case (refreshed E S r aud now a r')
  then have "sessions d' = sessions d"
    by (auto simp: session_refreshed_def Let_def dest: core_eqD(7) split: if_splits)
  then show ?thesis using assms(2) by (simp add: revoked_in_def)
next
  case revoked
  then obtain p t t0 q where
    eq: "core d' = core ((revoke_sessions p t t0 d)\<lparr>refresh_tokens := del_where q (refresh_tokens d)\<rparr>)"
    by blast
  show ?thesis
    using assms(2) core_eqD(7) [OF eq] by (auto simp: revoke_sessions_def elim!: revoked_in_upd)
next
  case reauthenticated
  then show ?thesis using assms(2) by (auto elim!: revoked_in_upd)
next
  case removed
  then show ?thesis using assms(2) by (auto simp: revoked_in_def cascade_sessions_def Let_def)
next
  case pruned
  then show ?thesis using assms(2) by (simp add: revoked_in_def)
next
  case ended
  then show ?thesis using assms(2) by (rule curtails_revoked)
qed

text \<open>
  A consumed refresh token stays consumed (or is gone) as long as no new token has its hash.
\<close>

definition spent_in :: "string \<Rightarrow> db \<Rightarrow> bool" where
  "spent_in h d \<longleftrightarrow> (\<forall>t\<in>set (refresh_tokens d). rt_hash t = h \<longrightarrow> rt_consumed_at t \<noteq> None)"

definition never_issues :: "string \<Rightarrow> env \<Rightarrow> bool" where
  "never_issues h E \<longleftrightarrow> (\<forall>r. generated_token E r \<longrightarrow> fit 512 (hashRefreshToken E r) \<noteq> h)"

lemma fresh_token_not_spent:
  "fresh_token E S s oid now r t ts \<Longrightarrow> never_issues h E \<Longrightarrow> rt_hash t \<noteq> h"
  by (auto simp: fresh_token_def never_issues_def)

lemma spent_in_same: "same_sessions d d' \<Longrightarrow> spent_in h d' = spent_in h d"
  by (simp add: same_sessions_def spent_in_def)

lemma curtails_spent:
  assumes "curtails d d'" and "spent_in h d"
  shows "spent_in h d'"
  using assms(1)
proof induction
  case (same d')
  with assms(2) show ?case by (simp add: spent_in_same)
qed (auto simp: same_sessions_def spent_in_def revoke_sessions_def cascade_sessions_def Let_def)

lemma opened_keeps_spent:
  assumes "session_opened E S u pk aud meth now a r d d'" and "spent_in h d" and "never_issues h E"
  shows "spent_in h d'"
proof -
  obtain oid s t where n: "new_pair E S u oid meth now r s t d"
    and d': "core d' = core (d\<lparr>sessions := sessions d @ [s], refresh_tokens := refresh_tokens d @ [t]\<rparr>)"
    using assms(1) by (auto simp: session_opened_def)
  have "rt_hash t \<noteq> h" using n assms(3) by (auto simp: new_pair_def never_issues_def)
  then show ?thesis using assms(2) core_eqD(8) [OF d'] by (simp add: spent_in_def)
qed

lemma effect_keeps_spent:
  assumes "session_effect A d d'" and "spent_in h d" and "\<And>E S. A E S \<Longrightarrow> never_issues h E"
  shows "spent_in h d'"
  using assms(1)
proof cases
  case unchanged
  then show ?thesis using assms(2) by (simp add: spent_in_def)
next
  case (opened E S u pk aud meth now a r)
  then show ?thesis using opened_keeps_spent assms(2,3) by blast
next
  case (signed_up E S d1 u pk aud meth now a r d2)
  then have "spent_in h d2" using opened_keeps_spent assms(2,3) spent_in_same by blast
  with signed_up(4) show ?thesis by (simp add: spent_in_same)
next
  case (switched E S u j oid aud now a r)
  then show ?thesis
    using assms(2)
    by (auto simp: session_switched_def Let_def spent_in_def
        dest: fresh_token_not_spent [OF _ assms(3) [OF switched(1)]])
next
  case (refreshed E S r aud now a r')
  then obtain rt s where eff: "if shouldRotate rt now (RefreshTokenRotation (svc_policy S))
         then (\<exists>t. let ts = upd_where (\<lambda>r. rt_id r = rt_id rt \<and> rt_consumed_at r = None)
                     (\<lambda>r. r\<lparr>rt_consumed_at := Some now\<rparr>) (refresh_tokens d) in
              fresh_token E S s (rt_org rt) now r' t ts
              \<and> core d' = core (d\<lparr>refresh_tokens := ts @ [t]\<rparr>))
         else r' = r \<and> core d' = core d"
    unfolding session_refreshed_def by blast
  show ?thesis
  proof (cases "shouldRotate rt now (RefreshTokenRotation (svc_policy S))")
    case True
    with eff obtain t where "fresh_token E S s (rt_org rt) now r' t (upd_where
        (\<lambda>r. rt_id r = rt_id rt \<and> rt_consumed_at r = None)
        (\<lambda>r. r\<lparr>rt_consumed_at := Some now\<rparr>) (refresh_tokens d))"
      and c: "refresh_tokens d' = upd_where (\<lambda>r. rt_id r = rt_id rt \<and> rt_consumed_at r = None)
        (\<lambda>r. r\<lparr>rt_consumed_at := Some now\<rparr>) (refresh_tokens d) @ [t]"
      by (auto simp: Let_def dest: core_eqD(8))
    then have "rt_hash t \<noteq> h" using fresh_token_not_spent assms(3) [OF refreshed(1)] by blast
    with c show ?thesis using assms(2) by (auto simp: spent_in_def set_upd_where)
  next
    case False
    with eff show ?thesis using assms(2) by (auto simp: spent_in_def dest: core_eqD(8))
  qed
next
  case revoked
  then obtain p t t0 q where
    eq: "core d' = core ((revoke_sessions p t t0 d)\<lparr>refresh_tokens := del_where q (refresh_tokens d)\<rparr>)"
    by blast
  show ?thesis using assms(2) core_eqD(8) [OF eq] by (simp add: spent_in_def)
next
  case reauthenticated
  then show ?thesis using assms(2) by (simp add: spent_in_def)
next
  case removed
  then show ?thesis using assms(2) by (auto simp: spent_in_def cascade_sessions_def Let_def)
next
  case pruned
  then show ?thesis using assms(2) by (simp add: spent_in_def)
next
  case ended
  then show ?thesis using assms(2) by (rule curtails_spent)
qed

end
