(* ===== verification/Demo.thy ===== *)
theory Demo
  imports Revocation_Proofs Session_Invariant
begin

text \<open>
  A small concrete installation (an environment without failures whose clocks and generators
  count, a token library, a service and a database with one user, one organization and one
  session) on which the properties are applied.
\<close>

definition demo_env :: env where
  "demo_env = \<lparr>o_fault = (\<lambda>_. False), o_dbnow = (\<lambda>n. 5000 + int n), o_now = (\<lambda>n. 5000 + int n),
     o_redis_ms = (\<lambda>_. 1), o_uuid = (\<lambda>n. word_of_nat (100 + n)),
     o_rand = (\<lambda>n k. Some ''new''),
     uuid_string = (\<lambda>u. show_nat (unat u)), uuid_parse = (\<lambda>s. Some (word_of_nat (digits_val s))),
     sha256 = (\<lambda>s. s), hmac_sha256 = (\<lambda>k s. k @ s), rfc3339 = format_int\<rparr>"

definition demo_claims :: access_claims where
  "demo_claims = \<lparr>clm_session_id = 30, clm_org_id = 20, clm_org_role = ''owner'', clm_roles = [],
     clm_email_verified = True, clm_id = ''77'', clm_issuer = ''authara'', clm_subject = ''10'',
     clm_audience = [AudienceApp], clm_issued_at = Some 4000, clm_expires_at = Some 9000\<rparr>"

definition demo_jwt :: jwt_lib where
  "demo_jwt = \<lparr>ed25519_new_key = (\<lambda>s. s), ed25519_public = (\<lambda>s. s), jwt_numeric_date = (\<lambda>t. t),
     jwt_signed_string = (\<lambda>kid key c. Some ''jwt''),
     jwt_parse = (\<lambda>auds iss now kf s. if s = ''jwt'' then Some (demo_claims, True) else None)\<rparr>"

definition demo_tokens :: token_service where
  "demo_tokens = \<lparr>ts_keys = \<lparr>ks_active = ''k1'', ks_private = [(''k1'', ''s'')], ks_public = [(''k1'', ''s'')]\<rparr>,
     ts_issuer = ''authara'', ts_ttl = 600\<rparr>"

definition demo_policy :: session_policy where
  "demo_policy = \<lparr>SessionTTL = 100000, RefreshTokenTTL = 50000, RefreshTokenRotation = - 1,
     RecentAuthenticationEnabled = True, RecentAuthenticationWindow = 600\<rparr>"

definition demo_service :: service where
  "demo_service = \<lparr>svc_policy = demo_policy, svc_access = NoopEmailAccessPolicy,
     svc_revocations = Some (NewAccessTokenRevocations ''immediate'' RedisCache 600),
     svc_events = NoopRecorder, svc_jwt = demo_jwt, svc_tokens = demo_tokens\<rparr>"

definition demo_user :: user where
  "demo_user = \<lparr>usr_id = 10, usr_created_at = 0, usr_updated_at = 0, usr_disabled_at = None,
     usr_email = ''a@b.c'', usr_email_verified_at = Some 1, usr_username = ''ann''\<rparr>"

definition demo_org :: organization where
  "demo_org = \<lparr>org_id = 20, org_created_at = 0, org_updated_at = 0, org_name = ''ann'',
     org_kind = OrganizationKindPersonal, org_created_by = Some 10\<rparr>"

definition demo_membership :: membership where
  "demo_membership = \<lparr>mem_org = 20, mem_user = 10, mem_role = OrganizationRoleOwner, mem_created_at = 0,
     mem_updated_at = 0\<rparr>"

definition demo_session :: session where
  "demo_session = \<lparr>ses_id = 30, ses_user = 10, ses_org = 20, ses_created_at = 1, ses_updated_at = 1,
     ses_expires_at = 100000, ses_revoked_at = None, ses_authenticated_at = Some 1,
     ses_method = AuthenticationMethodPassword, ses_user_agent = ''ua''\<rparr>"

definition demo_token :: refresh_token where
  "demo_token = \<lparr>rt_id = 40, rt_created_at = 1, rt_session = 30, rt_org = 20,
     rt_hash = hex_encode ''r1'', rt_expires_at = 50000, rt_consumed_at = None\<rparr>"

definition demo_db :: db where
  "demo_db = empty_db\<lparr>users := [demo_user], organizations := [demo_org], memberships := [demo_membership],
     sessions := [demo_session], refresh_tokens := [demo_token]\<rparr>"

definition demo_world :: world where
  "demo_world = \<lparr>w_db = demo_db, w_cache = (\<lambda>_. None), w_tx = NoTx, w_step = 0\<rparr>"

lemmas demo_defs = demo_env_def demo_claims_def demo_jwt_def demo_tokens_def demo_policy_def
  demo_service_def demo_user_def demo_org_def demo_membership_def demo_session_def demo_token_def
  demo_db_def demo_world_def empty_db_def

text \<open>The definitions along which a run is computed.\<close>

lemmas eval_defs = with_tx_def bnd_def try_bnd_def ret_def fail_def map_err_def err_as_def query_row_def
  query_def exec_def exec_upd_def exec_count_def require_affected_def guard_err_def sql_problem_def
  of_option_def of_sum_def tick_def rand_read_def now_utc_def new_uuid_def raise_result_def
  sql_fail_def attempt_def redis_call_def

lemmas session_store_eval = GetRefreshTokenByHash_def GetRefreshTokenByHashForUpdate_def find_token_def
  GetSessionByID_def find_session_def lock_defs lookup_defs GetUserByID_def find_membership_def
  ConsumeRefreshToken_def CreateRefreshToken_def too_long_def fit_def count_where_def upd_where_def
  GetActiveSessionByID_def find_active_def is_active_def store_CreateSession_def provenance_ok_def
  session_membership_ok_def known_methods_def GetPersonalOrganizationForUser_def

lemmas session_eval = hashRefreshToken_def generateRefreshToken_def ensureUserAllowed_def
  IsEmailAllowed_def canAccessAudience_def audienceAccess_def AudienceApp_def AudienceAdmin_def
  AudienceOperator_def FromDBRoleNames_def rotate_token_def shouldRotate_def
  GenerateWithEmailVerification_def SigningKey_def

lemma demo_strings [simp]:
  "base64_encode ''new'' = ''bmV3''" "hex_encode ''bmV3'' = ''626d5633''" "hex_encode ''r1'' = ''7231''"
  by code_simp+

lemma demo_refresh: "fst (RefreshSession demo_env demo_service ''r1'' AudienceApp 6000 demo_world) =
   Inr (''jwt'', ''bmV3'')"
  by (simp add: RefreshSession_def refresh_body_def Let_def eval_defs demo_defs session_store_eval session_eval
    time_sub_def min_duration_def max_duration_def SessionRefresh_def recordSession_def)

end
