(* ===== verification/Session_Properties.thy ===== *)
theory Session_Properties
  imports Demo
begin

section \<open>Without failures, reuse revokes\<close>

definition recorder_ready :: "env \<Rightarrow> recorder \<Rightarrow> db \<Rightarrow> bool" where
  "recorder_ready E r d \<longleftrightarrow> (case r of EventRecorder (Some sv) \<Rightarrow>
     sv_store sv \<and> se_id ` set (security_events d) \<inter> range (o_uuid E) = {} | _ \<Rightarrow> True)"

lemma record_reuse_ok:
  assumes "\<forall>n. \<not> o_fault E n" and "w_tx w \<noteq> TxAborted" and "recorder_ready E r (w_db w)"
    and "sn_outcome ev = OutcomeDenied" and "sn_reason ev = ReasonRefreshTokenReuse"
    and "sn_actor_type ev = ActorAnonymous" and "sn_method ev = ''''"
  shows "\<exists>w'. SessionRefreshTokenReuse E r ev w = (Inr (), w') \<and> w_tx w' = w_tx w
     \<and> core (w_db w') = core (w_db w) \<and> w_cache w' = w_cache w"
proof (cases "\<exists>sv. r = EventRecorder (Some sv) \<and> Enabled (Some sv) SecurityEventSessionRefreshTokenReuse")
  case False
  then show ?thesis
    using assms by (auto simp: SessionRefreshTokenReuse_def recordSession_def record_event_def ret_def split: recorder.splits option.splits)
next
  case True
  then obtain sv where r: "r = EventRecorder (Some sv)" "Enabled (Some sv) SecurityEventSessionRefreshTokenReuse"
    by blast
  have fresh: "o_uuid E n \<notin> se_id ` set (security_events (w_db w))" "sv_store sv" for n
    using assms(3) r(1) by (auto simp: recorder_ready_def)
  have short: "\<not> too_long 100 SecurityEventSessionRefreshTokenReuse" "\<not> too_long 32 OutcomeDenied"
    "\<not> too_long 64 ReasonRefreshTokenReuse" "\<not> too_long 32 ActorAnonymous"
    "\<not> too_long 32 ''''" "\<not> too_long 64 ''''"
    by (simp_all add: too_long_def SecurityEventSessionRefreshTokenReuse_def OutcomeDenied_def
        ReasonRefreshTokenReuse_def ActorAnonymous_def)
  have known: "SecurityEventSessionRefreshTokenReuse \<in> set SecurityEventTypes"
    "ReasonRefreshTokenReuse \<in> set known_reasons"
    by (simp_all add: SecurityEventTypes_def known_reasons_def)
  show ?thesis
    using assms(1,2,4-7) r fresh
    by (simp add: SessionRefreshTokenReuse_def recordSession_def record_event_def CreateSecurityEvent_def
        eval_defs event_checks_def short known core_def Let_def)
qed

lemma wp_record_reuse:
  assumes "\<forall>n. \<not> o_fault E n" and "w_tx w \<noteq> TxAborted" and "recorder_ready E r (w_db w)"
    and "sn_outcome ev = OutcomeDenied" and "sn_reason ev = ReasonRefreshTokenReuse"
    and "sn_actor_type ev = ActorAnonymous" and "sn_method ev = ''''"
    and "\<And>w'. w_tx w' = w_tx w \<Longrightarrow> core (w_db w') = core (w_db w) \<Longrightarrow> Q () w'"
  shows "wp (SessionRefreshTokenReuse E r ev) Q R w"
  using record_reuse_ok [OF assms(1-7)] assms(8) by (auto simp: wp_def)

lemma wp_revokeScope_tx:
  assumes "\<And>w'. w_db w' = w_db w \<Longrightarrow> w_tx w' = w_tx w \<Longrightarrow> Q () w'"
    and "\<And>e w'. w_db w' = w_db w \<Longrightarrow> w_tx w' = w_tx w \<Longrightarrow> F e w'"
  shows "wp (revokeScope E R k t) Q F w"
  unfolding revokeScope_def cache_SetMaxInt64_def
  by (auto simp: wps intro!: assms split: cache_impl.splits)

lemma fault_free_sql:
  "\<forall>n. \<not> o_fault E n \<Longrightarrow> w_tx w \<noteq> TxAborted \<Longrightarrow> sql_problem E w = None"
  by (simp add: sql_problem_def)

lemma recorder_ready_revoke [simp]:
  "recorder_ready E r (revoke_sessions p t t0 d) = recorder_ready E r d"
  by (simp add: recorder_ready_def revoke_sessions_def split: recorder.split option.split)

lemma revoke_reused_ok:
  assumes "\<forall>n. \<not> o_fault E n" and "w_tx w = NoTx"
    and "find_session (rt_session rt) (w_db w) = Some s"
    and "find (\<lambda>u. usr_id u = ses_user s) (users (w_db w)) = Some u"
    and "recorder_ready E (svc_events S) (w_db w)"
  shows "wp (revokeReusedRefreshToken E S rt now) (\<lambda>_ _. False)
     (\<lambda>e w'. errors_is e (ESession ErrRefreshTokenReuse) \<and> session_killed rt now (w_db w) (w_db w')) w"
  using assms
  unfolding revokeReusedRefreshToken_def lock_defs GetSessionByID_def RevokeSessionTokens_def
    store_RevokeSession_def Let_def
  by (auto simp: wps wp_with_tx fault_free_sql intro!: wp_revokeScope_tx wp_record_reuse)
     (erule session_killedI)+

lemma reuse_kills:
  assumes "\<forall>n. \<not> o_fault E n" and "w_tx w = NoTx"
    and "find_token (hashRefreshToken E refreshToken) (w_db w) = Some rt" and "rt_consumed_at rt \<noteq> None"
    and "find_session (rt_session rt) (w_db w) = Some s"
    and "find (\<lambda>u. usr_id u = ses_user s) (users (w_db w)) = Some u"
    and "recorder_ready E (svc_events S) (w_db w)"
  shows "\<exists>e w'. RefreshSession E S refreshToken audience now w = (Inl e, w')
     \<and> errors_is e (ESession ErrRefreshTokenReuse) \<and> session_killed rt now (w_db w) (w_db w')"
proof -
  let ?w = "tick (tick (tick w))"
  have body: "with_tx E (refresh_body E S refreshToken audience now) w =
     (Inl (ESession (ErrRefreshTokenReuseDetected rt)), ?w)"
    using assms(1-4)
    by (cases w) (simp add: refresh_body_def eval_defs Let_def GetRefreshTokenByHash_def)
  have "wp (revokeReusedRefreshToken E S rt now) (\<lambda>_ _. False)
     (\<lambda>e w'. errors_is e (ESession ErrRefreshTokenReuse) \<and> session_killed rt now (w_db w) (w_db w')) ?w"
    using revoke_reused_ok [of E ?w rt s u S] assms by simp
  with body show ?thesis
    by (auto simp: wp_def RefreshSession_def try_bnd_def split: prod.splits sum.splits)
qed

section \<open>Opening, switching and refreshing\<close>

text \<open>
  C13. \<open>CreateSession\<close> and \<open>CreatePasskeySession\<close>: a session is opened only for a
  known, enabled user whom the access policy admits, who belongs to the organization, whose
  platform roles open the audience and whose passkey, when one was used, is his and
  unrestricted; exactly one session and one refresh token are stored, the access token is
  signed for them, and a refused or failed call stores neither.
\<close>

theorem create_session_spec:
  assumes "w_tx w = NoTx"
    and "createSession E S userID passkeyID audience authMethod userAgent now clientIP w = (res, w')"
  shows "case res of
      Inr (accessToken, refreshToken) \<Rightarrow>
        session_opened E S userID passkeyID audience authMethod now accessToken refreshToken (w_db w) (w_db w')
    | Inl e \<Rightarrow> core (w_db w') = core (w_db w)"
  using wp_createSession [OF assms(1), of E S userID passkeyID audience authMethod userAgent now clientIP]
    assms(2)
  by (auto simp: wp_def split: sum.splits prod.splits)

theorem create_session_spec_witness:
  "\<exists>r w'. createSession demo_env demo_service 11 None AudienceApp AuthenticationMethodPassword ''ua''
       6000 '''' demo_world = (Inl r, w') \<and> core (w_db w') = core demo_db"
proof -
  have "fst (createSession demo_env demo_service 11 None AudienceApp AuthenticationMethodPassword ''ua''
       6000 '''' demo_world) = Inl (EStore ErrUserNotFound)"
    by (simp add: createSession_def Let_def eval_defs demo_defs session_store_eval session_eval)
  then obtain w' where "createSession demo_env demo_service 11 None AudienceApp AuthenticationMethodPassword
       ''ua'' 6000 '''' demo_world = (Inl (EStore ErrUserNotFound), w')"
    by (metis prod.collapse)
  from create_session_spec [OF _ this] this show ?thesis by (auto simp: demo_world_def)
qed

text \<open>
  \<open>SwitchSessionOrganization\<close>: the caller's own active session moves to an
  organization the user belongs to; every refresh token of the session is replaced by a single
  fresh one that does not outlive the session; a failed call leaves the database as it was.
\<close>

theorem switch_session_organization_spec:
  assumes "w_tx w = NoTx"
    and "SwitchSessionOrganization E S userID sessionID organizationID audience now w = (res, w')"
  shows "case res of
      Inr (accessToken, refreshToken) \<Rightarrow>
        session_switched E S userID sessionID organizationID audience now accessToken refreshToken
          (w_db w) (w_db w')
    | Inl e \<Rightarrow> w_db w' = w_db w"
  using wp_SwitchSessionOrganization [OF assms(1), of E S userID sessionID organizationID audience now]
    assms(2)
  by (auto simp: wp_def split: sum.splits prod.splits)

theorem switch_session_organization_spec_witness:
  "\<exists>r w'. SwitchSessionOrganization demo_env demo_service 10 30 20 AudienceApp 6000 demo_world
      = (Inr (''jwt'', r), w') \<and>
     session_switched demo_env demo_service 10 30 20 AudienceApp 6000 ''jwt'' r demo_db (w_db w')"
proof -
  have "fst (SwitchSessionOrganization demo_env demo_service 10 30 20 AudienceApp 6000 demo_world)
      = Inr (''jwt'', ''bmV3'')"
    by (simp add: SwitchSessionOrganization_def Let_def eval_defs demo_defs session_store_eval session_eval
        UpdateSessionActiveOrganization_def DeleteRefreshTokensBySession_def del_where_def)
  then obtain w' where run: "SwitchSessionOrganization demo_env demo_service 10 30 20 AudienceApp 6000 demo_world
      = (Inr (''jwt'', ''bmV3''), w')"
    by (metis prod.collapse)
  from switch_session_organization_spec [OF _ run] run show ?thesis by (auto simp: demo_world_def)
qed

text \<open>
  C12. \<open>RefreshSession\<close>: tokens are handed out only for a stored, unconsumed, unexpired
  refresh token of an unrevoked session; when the token is due for rotation it is consumed and
  a single successor is stored. A failed call changes nothing, except that presenting a
  consumed token revokes its session.
\<close>

theorem refresh_session_spec:
  assumes "w_tx w = NoTx" and "RefreshSession E S refreshToken audience now w = (res, w')"
  shows "case res of
      Inr (accessToken, newToken) \<Rightarrow>
        session_refreshed E S refreshToken audience now accessToken newToken (w_db w) (w_db w')
    | Inl e \<Rightarrow> w_db w' = w_db w \<or>
        (\<exists>rt. find_token (hashRefreshToken E refreshToken) (w_db w) = Some rt
           \<and> rt_consumed_at rt \<noteq> None \<and> reuse_outcome E S rt now e w w')"
  using wp_RefreshSession [OF assms(1), of E S refreshToken audience now] assms(2)
  by (auto simp: wp_def split: sum.splits prod.splits)

theorem refresh_session_spec_witness:
  "\<exists>w'. RefreshSession demo_env demo_service ''r1'' AudienceApp 6000 demo_world = (Inr (''jwt'', ''bmV3''), w') \<and>
     session_refreshed demo_env demo_service ''r1'' AudienceApp 6000 ''jwt'' ''bmV3'' demo_db (w_db w')"
proof -
  obtain w' where run: "RefreshSession demo_env demo_service ''r1'' AudienceApp 6000 demo_world
      = (Inr (''jwt'', ''bmV3''), w')"
    using demo_refresh by (metis prod.collapse)
  from refresh_session_spec [OF _ run] run show ?thesis by (auto simp: demo_world_def)
qed

text \<open>
  C1. Reuse detection: when nothing fails, presenting a consumed refresh token returns
  \<open>ErrRefreshTokenReuse\<close> and revokes the session the token belongs to.
\<close>

theorem refresh_token_reuse_revokes:
  assumes "\<forall>n. \<not> o_fault E n" and "w_tx w = NoTx"
    and "find_token (hashRefreshToken E refreshToken) (w_db w) = Some rt" and "rt_consumed_at rt \<noteq> None"
    and "find_session (rt_session rt) (w_db w) = Some s"
    and "find (\<lambda>u. usr_id u = ses_user s) (users (w_db w)) = Some u"
    and "recorder_ready E (svc_events S) (w_db w)"
  shows "\<exists>e w'. RefreshSession E S refreshToken audience now w = (Inl e, w')
     \<and> errors_is e (ESession ErrRefreshTokenReuse) \<and> session_killed rt now (w_db w) (w_db w')"
  using assms by (rule reuse_kills)

definition demo_spent_world :: world where
  "demo_spent_world = demo_world\<lparr>w_db := demo_db\<lparr>refresh_tokens := [demo_token\<lparr>rt_consumed_at := Some 5\<rparr>]\<rparr>\<rparr>"

theorem refresh_token_reuse_revokes_witness:
  "\<exists>e w'. RefreshSession demo_env demo_service ''r1'' AudienceApp 6000 demo_spent_world = (Inl e, w')
     \<and> errors_is e (ESession ErrRefreshTokenReuse)
     \<and> session_killed (demo_token\<lparr>rt_consumed_at := Some 5\<rparr>) 6000 (w_db demo_spent_world) (w_db w')"
  by (rule refresh_token_reuse_revokes [where s = demo_session and u = demo_user])
     (simp_all add: demo_spent_world_def demo_defs recorder_ready_def find_token_def find_session_def
       hashRefreshToken_def)

end
