(* ===== verification/Utf8.thy ===== *)
theory Utf8
  imports Prelude
begin

text \<open>
  The parts of Go's \<open>unicode/utf8\<close> and \<open>strings\<close> that read a string as runes or
  split it: \<open>for _, r := range s\<close>, \<open>utf8.ValidString\<close>,
  \<open>utf8.RuneCountInString\<close>, \<open>string([]rune)\<close>, \<open>strings.Split\<close>,
  \<open>strings.Trim\<close>. A string is a list of bytes.
\<close>

section \<open>Runes\<close>

definition RuneError :: nat where
  "RuneError = 65533"

definition cont_byte :: "nat \<Rightarrow> bool" where
  "cont_byte b \<longleftrightarrow> 128 \<le> b \<and> b < 192"

text \<open>
  \<open>utf8.DecodeRune\<close>: the rune at the head of the bytes and its width; a malformed
  sequence is one byte of \<open>RuneError\<close>. The second byte's range excludes overlong forms,
  surrogates and values above U+10FFFF.
\<close>

definition decode_rune :: "nat \<Rightarrow> nat list \<Rightarrow> nat \<times> nat" where
  "decode_rune a bs =
     (let byte = (\<lambda>i. if i < length bs then bs ! i else 0);
          b = byte 0; c = byte 1; d = byte 2
      in if a < 128 then (a, 1)
         else if 194 \<le> a \<and> a < 224 \<and> cont_byte b then ((a - 192) * 64 + (b - 128), 2)
         else if 224 \<le> a \<and> a < 240 \<and> cont_byte b \<and> cont_byte c
           \<and> (a = 224 \<longrightarrow> 160 \<le> b) \<and> (a = 237 \<longrightarrow> b < 160)
         then ((a - 224) * 4096 + (b - 128) * 64 + (c - 128), 3)
         else if 240 \<le> a \<and> a < 245 \<and> cont_byte b \<and> cont_byte c \<and> cont_byte d
           \<and> (a = 240 \<longrightarrow> 144 \<le> b) \<and> (a = 244 \<longrightarrow> b < 144)
         then ((a - 240) * 262144 + (b - 128) * 4096 + (c - 128) * 64 + (d - 128), 4)
         else (RuneError, 1))"

fun runes_of :: "nat list \<Rightarrow> (nat \<times> nat) list" where
  "runes_of [] = []"
| "runes_of (a # bs) = (let (r, n) = decode_rune a bs in (r, n) # runes_of (drop (n - 1) bs))"

definition runes :: "string \<Rightarrow> nat list" where
  "runes s = map fst (runes_of (map of_char s))"

definition valid_utf8 :: "string \<Rightarrow> bool" where
  "valid_utf8 s \<longleftrightarrow> (RuneError, 1) \<notin> set (runes_of (map of_char s))"

definition rune_count :: "string \<Rightarrow> nat" where
  "rune_count s = length (runes_of (map of_char s))"

text \<open>\<open>utf8.AppendRune\<close>: a value that is no rune is written as \<open>RuneError\<close>.\<close>

definition encode_rune :: "nat \<Rightarrow> nat list" where
  "encode_rune r0 =
     (let r = (if 1114111 < r0 \<or> 55296 \<le> r0 \<and> r0 < 57344 then RuneError else r0)
      in if r < 128 then [r]
         else if r < 2048 then [192 + r div 64, 128 + r mod 64]
         else if r < 65536 then [224 + r div 4096, 128 + r div 64 mod 64, 128 + r mod 64]
         else [240 + r div 262144, 128 + r div 4096 mod 64, 128 + r div 64 mod 64, 128 + r mod 64])"

definition string_of_runes :: "nat list \<Rightarrow> string" where
  "string_of_runes rs = map char_of (concat (map encode_rune rs))"

lemma rune_width: "decode_rune a bs = (r, n) \<Longrightarrow> 1 \<le> n \<and> n \<le> 4"
  by (auto simp: decode_rune_def Let_def split: if_splits)

lemma rune_count_le: "rune_count s \<le> length s"
proof -
  have "length (runes_of bs) \<le> length bs" for bs
  proof (induction bs rule: runes_of.induct)
    case (2 a bs)
    obtain r n where rn: "decode_rune a bs = (r, n)" by (cases "decode_rune a bs")
    have "length (runes_of (drop (n - 1) bs)) \<le> length (drop (n - 1) bs)"
      by (rule 2) (simp_all add: rn)
    then show ?case by (simp add: rn)
  qed simp
  from this [of "map of_char s"] show ?thesis by (simp add: rune_count_def)
qed

text \<open>ASCII text is its own runes.\<close>

lemma runes_of_ascii: "\<forall>b\<in>set bs. b < 128 \<Longrightarrow> runes_of bs = map (\<lambda>b. (b, 1)) bs"
  by (induction bs) (auto simp: decode_rune_def Let_def)

lemma ascii_valid:
  assumes "\<forall>c\<in>set s. code c < 128"
  shows "valid_utf8 s" and "rune_count s = length s" and "runes s = map of_char s"
  using assms
  by (auto simp: valid_utf8_def rune_count_def runes_def runes_of_ascii RuneError_def comp_def)

text \<open>What \<open>string([]rune)\<close> writes is valid, and reading it gives the runes back.\<close>

lemma encode_rune_Cons: "\<exists>a bs. encode_rune r = a # bs"
  by (auto simp: encode_rune_def Let_def)

lemma decode_encode_rune:
  assumes "r \<le> 1114111" and "\<not> (55296 \<le> r \<and> r < 57344)" and "encode_rune r = a # bs"
  shows "decode_rune a (bs @ rest) = (r, Suc (length bs))"
proof -
  define q where "q = r div 64"
  define p where "p = q div 64"
  have div4096: "r div 4096 = p" and div262144: "r div 262144 = p div 64"
    by (simp_all add: q_def p_def div_mult2_eq [symmetric])
  have rq: "r = q * 64 + r mod 64" and qp: "q = p * 64 + q mod 64" and pp: "p = p div 64 * 64 + p mod 64"
    by (simp_all add: q_def p_def)
  have small: "r mod 64 < 64" "q mod 64 < 64" "p mod 64 < 64" by simp_all
  consider "r < 128" | "128 \<le> r" "r < 2048" | "2048 \<le> r" "r < 65536" | "65536 \<le> r" by linarith
  then show ?thesis
  proof cases
    case 1
    with assms show ?thesis by (auto simp: encode_rune_def decode_rune_def)
  next
    case 2
    have "2 \<le> q" and "q < 32" using 2 rq small by linarith+
    moreover from 2 assms have "a = 192 + q" and "bs = [128 + r mod 64]"
      by (auto simp: encode_rune_def q_def)
    ultimately show ?thesis using rq [symmetric] by (simp add: decode_rune_def cont_byte_def)
  next
    case 3
    from 3 assms have ab: "a = 224 + p" "bs = [128 + q mod 64, 128 + r mod 64]"
      by (auto simp: encode_rune_def div4096 q_def)
    have "p < 16" using 3 rq qp small by linarith
    moreover have "p = 0 \<longrightarrow> 32 \<le> q mod 64" using 3 rq qp small by linarith
    moreover have "p = 13 \<longrightarrow> q mod 64 < 32" using assms(2) 3 rq qp small by linarith
    moreover have "p * 4096 + q mod 64 * 64 + r mod 64 = r" using rq qp by linarith
    ultimately show ?thesis by (simp add: ab decode_rune_def cont_byte_def)
  next
    case 4
    from 4 assms have ab: "a = 240 + p div 64" "bs = [128 + p mod 64, 128 + q mod 64, 128 + r mod 64]"
      by (auto simp: encode_rune_def div4096 div262144 q_def)
    have "p div 64 < 5" using assms(1) rq qp pp small by linarith
    moreover have "p div 64 = 0 \<longrightarrow> 16 \<le> p mod 64" using 4 rq qp pp small by linarith
    moreover have "p div 64 = 4 \<longrightarrow> p mod 64 < 16" using assms(1) rq qp pp small by linarith
    moreover have "p div 64 * 262144 + p mod 64 * 4096 + q mod 64 * 64 + r mod 64 = r"
      using rq qp pp by linarith
    ultimately show ?thesis by (simp add: ab decode_rune_def cont_byte_def)
  qed
qed

lemma encoded_runes:
  assumes "\<forall>r\<in>set rs. r \<le> 1114111 \<and> \<not> (55296 \<le> r \<and> r < 57344)"
  shows "runes_of (concat (map encode_rune rs)) = map (\<lambda>r. (r, length (encode_rune r))) rs"
  using assms
proof (induction rs)
  case (Cons r rs)
  obtain a bs where ab: "encode_rune r = a # bs" using encode_rune_Cons by blast
  have "decode_rune a (bs @ concat (map encode_rune rs)) = (r, Suc (length bs))"
    using Cons.prems ab by (intro decode_encode_rune) auto
  with Cons show ?case by (simp add: ab)
qed simp

lemma encode_rune_bytes: "b \<in> set (encode_rune r) \<Longrightarrow> b < 256"
proof -
  assume b: "b \<in> set (encode_rune r)"
  have "n \<le> 1114111 \<Longrightarrow> n div 262144 < 5" for n :: nat by (simp add: less_mult_imp_div_less)
  moreover have "n < 65536 \<Longrightarrow> n div 4096 < 16" and "n < 2048 \<Longrightarrow> n div 64 < 32" for n :: nat
    by (simp_all add: less_mult_imp_div_less)
  moreover have "x mod 64 < 64" for x :: nat by simp
  ultimately show "b < 256"
    using b by (auto simp: encode_rune_def Let_def RuneError_def not_less split: if_splits)
qed

lemma string_of_runes:
  assumes "\<forall>r\<in>set rs. r \<le> 1114111 \<and> \<not> (55296 \<le> r \<and> r < 57344)"
  shows "runes (string_of_runes rs) = rs" and "rune_count (string_of_runes rs) = length rs"
proof -
  have "map of_char (string_of_runes rs) = concat (map encode_rune rs)"
    by (auto simp: string_of_runes_def intro!: map_idI mod_less elim!: encode_rune_bytes)
  then show "runes (string_of_runes rs) = rs" and "rune_count (string_of_runes rs) = length rs"
    by (simp_all add: runes_def rune_count_def encoded_runes [OF assms] comp_def)
qed

section \<open>Splitting and trimming\<close>

text \<open>\<open>strings.Split(s, sep)\<close> with a separator of one byte.\<close>

fun split_on :: "char \<Rightarrow> string \<Rightarrow> string list" where
  "split_on d [] = [[]]"
| "split_on d (c # cs) = (if c = d then [] # split_on d cs
     else case split_on d cs of [] \<Rightarrow> [[c]] | p # ps \<Rightarrow> (c # p) # ps)"

lemma split_on_last: "d \<notin> set p \<Longrightarrow> split_on d p = [p]"
  by (induction p) auto

lemma split_on_sep: "d \<notin> set p \<Longrightarrow> split_on d (p @ d # r) = p # split_on d r"
  by (induction p) auto

definition trim_chars :: "string \<Rightarrow> string \<Rightarrow> string" where
  "trim_chars cs s = rev (dropWhile (\<lambda>c. c \<in> set cs) (rev (dropWhile (\<lambda>c. c \<in> set cs) s)))"

lemma trim_chars_length: "length (trim_chars cs s) \<le> length s"
  using length_dropWhile_le [of "\<lambda>c. c \<in> set cs" "rev (dropWhile (\<lambda>c. c \<in> set cs) s)"]
    length_dropWhile_le [of "\<lambda>c. c \<in> set cs" s]
  by (simp add: trim_chars_def)

lemma trim_chars_subset: "set (trim_chars cs s) \<subseteq> set s"
  by (auto simp: trim_chars_def dest!: set_dropWhileD)

end
