(* ===== verification/Credentials.thy ===== *)
theory Credentials
  imports Effects Encoding Utf8
begin

text \<open>
  Passwords and usernames (\<open>internal/auth/password.go\<close>, \<open>password_policy.go\<close>,
  \<open>username.go\<close>): the hash format, its verification and the parameters that ask for a
  rehash, the length policy, and the usernames made from an address.

  \<open>argon2.IDKey\<close> of \<open>golang.org/x/crypto\<close> is the parameter \<open>idkey\<close>
  (password, salt, time, memory, threads, key length).
\<close>

section \<open>Base64, standard alphabet, no padding\<close>

definition std_char :: "nat \<Rightarrow> char" where
  "std_char n = (if n = 62 then CHR ''+'' else if n = 63 then CHR 0x2F else b64_char n)"

definition std_value :: "char \<Rightarrow> nat option" where
  "std_value c = (if c = CHR ''+'' then Some 62 else if c = CHR 0x2F then Some 63
     else if c = CHR ''-'' \<or> c = CHR ''_'' then None else b64_value c)"

definition base64_std_encode :: "string \<Rightarrow> string" where
  "base64_std_encode s = map std_char (sextets (map of_char s))"

definition base64_std_decode :: "string \<Rightarrow> string option" where
  "base64_std_decode s =
     (case opt_list (map std_value (filter (\<lambda>c. code c \<noteq> 10 \<and> code c \<noteq> 13) s)) of
        None \<Rightarrow> None
      | Some ns \<Rightarrow> map_option (map char_of) (unsextets ns))"

lemma std_value_char:
  assumes "n < 64"
  shows "std_value (std_char n) = Some n" and "code (std_char n) \<noteq> (10::nat)"
    and "code (std_char n) \<noteq> (13::nat)" and "std_char n \<noteq> CHR ''$''"
proof -
  consider "n < 62" | "n = 62" | "n = 63" using assms by linarith
  then have "std_value (std_char n) = Some n \<and> code (std_char n) \<noteq> (10::nat)
    \<and> code (std_char n) \<noteq> (13::nat) \<and> std_char n \<noteq> CHR ''$''"
  proof cases
    case 1
    then have c: "code (b64_char n) = (if n < 26 then 65 + n else if n < 52 then 71 + n else n - 4)"
      using b64_code [of n] by simp
    have ne: "b64_char n \<noteq> CHR ''+''" "b64_char n \<noteq> CHR 0x2F" "b64_char n \<noteq> CHR ''-''"
      "b64_char n \<noteq> CHR ''_''" "b64_char n \<noteq> CHR ''$''"
      using c 1 by (auto split: if_splits)
    have "b64_value (b64_char n) = Some n" using 1 by (intro b64_value_char) simp
    then show ?thesis using 1 ne b64_value_char(2,3) [of n] by (simp add: std_char_def std_value_def)
  qed (simp_all add: std_char_def std_value_def)
  then show "std_value (std_char n) = Some n" and "code (std_char n) \<noteq> (10::nat)"
    and "code (std_char n) \<noteq> (13::nat)" and "std_char n \<noteq> CHR ''$''" by simp_all
qed

lemma std_sextets: "m \<in> set (sextets (map of_char s)) \<Longrightarrow> m < 64"
  using sextets_less [of "map of_char s"] by auto

lemma base64_std_roundtrip: "base64_std_decode (base64_std_encode s) = Some s"
proof -
  let ?ns = "map of_char s :: nat list"
  have "filter (\<lambda>c. code c \<noteq> 10 \<and> code c \<noteq> 13) (base64_std_encode s) = base64_std_encode s"
    unfolding base64_std_encode_def filter_id_conv by (auto simp: std_value_char dest: std_sextets)
  moreover have "map std_value (base64_std_encode s) = map Some (sextets ?ns)"
    unfolding base64_std_encode_def by (auto simp: std_value_char dest: std_sextets)
  moreover have "unsextets (sextets ?ns) = Some ?ns" by (rule unsextets_sextets) auto
  ultimately show ?thesis by (simp add: base64_std_decode_def comp_def)
qed

lemma base64_std_no_dollar: "CHR ''$'' \<notin> set (base64_std_encode s)"
  using std_value_char(4) by (fastforce simp: base64_std_encode_def dest: std_sextets)

section \<open>Password hashes (\<open>password.go\<close>)\<close>

type_synonym argon2 =
  "string \<Rightarrow> string \<Rightarrow> 32 word \<Rightarrow> 32 word \<Rightarrow> 8 word \<Rightarrow> 32 word \<Rightarrow> string"

definition argonTime :: "32 word" where "argonTime = 3"
definition argonMemory :: "32 word" where "argonMemory = 65536"
definition argonThreads :: "8 word" where "argonThreads = 4"
definition argonKeyLen :: "32 word" where "argonKeyLen = 32"
definition saltLen :: nat where "saltLen = 16"

lemmas argon_defs = argonTime_def argonMemory_def argonThreads_def argonKeyLen_def saltLen_def

definition encodeHash :: "32 word \<Rightarrow> 32 word \<Rightarrow> 8 word \<Rightarrow> string \<Rightarrow> string \<Rightarrow> string" where
  "encodeHash time_cost memory threads salt hash =
     ''$argon2id$v=1$t='' @ show_nat (unat time_cost) @ ''$m='' @ show_nat (unat memory) @
     ''$p='' @ show_nat (unat threads) @ ''$'' @ base64_std_encode salt @ ''$'' @ base64_std_encode hash"

text \<open>\<open>strconv.ParseUint(s, 10, 32)\<close>: at least one digit, no sign.\<close>

definition parse_uint32 :: "string \<Rightarrow> nat option" where
  "parse_uint32 s = (if s = '''' \<or> \<not> list_all is_digit s \<or> 2 ^ 32 \<le> digits_val s then None
     else Some (digits_val s))"

definition parseUint :: "string \<Rightarrow> string \<Rightarrow> err + nat" where
  "parseUint s prefix =
     (let p = prefix @ ''='' in
      if take (length p) s \<noteq> p then Inl (EText ''invalid password hash parameter'')
      else case parse_uint32 (drop (length p) s) of
          None \<Rightarrow> Inl (EText ''strconv.ParseUint'')
        | Some n \<Rightarrow> Inr n)"

record parameters =
  pa_time :: "32 word"
  pa_memory :: "32 word"
  pa_threads :: "8 word"

definition base64_field :: "string \<Rightarrow> err + string" where
  "base64_field s = (case base64_std_decode s of
       None \<Rightarrow> Inl (EText ''illegal base64 data'') | Some b \<Rightarrow> Inr b)"

definition sum_bind :: "err + 'a \<Rightarrow> ('a \<Rightarrow> err + 'b) \<Rightarrow> err + 'b" where
  "sum_bind r f = (case r of Inl e \<Rightarrow> Inl e | Inr x \<Rightarrow> f x)"

text \<open>The checks of the decoded fields, in the code's order.\<close>

definition hash_fields :: "nat \<Rightarrow> nat \<Rightarrow> nat \<Rightarrow> string \<Rightarrow> string \<Rightarrow> err + (parameters \<times> string \<times> string)" where
  "hash_fields t m p salt hash =
     (if t < 1 \<or> 10 < t then Inl (EText ''password hash time cost is out of range'')
      else if m < 8 \<or> 256 * 1024 < m then Inl (EText ''password hash memory cost is out of range'')
      else if p < 1 \<or> 16 < p then Inl (EText ''password hash parallelism is out of range'')
      else if length salt < 1 \<or> 64 < length salt
        then Inl (EText ''password hash salt length is out of range'')
      else if length hash < 1 \<or> 64 < length hash then Inl (EText ''password hash length is out of range'')
      else Inr (\<lparr>pa_time = of_nat t, pa_memory = of_nat m, pa_threads = of_nat p\<rparr>, salt, hash))"

definition decodeHash :: "string \<Rightarrow> err + (parameters \<times> string \<times> string)" where
  "decodeHash encoded =
     (let parts = split_on (CHR ''$'') encoded in
      if length parts \<noteq> 8 then Inl (EText ''invalid password hash format'')
      else if parts ! 1 \<noteq> ''argon2id'' then Inl (EText ''unsupported password algorithm'')
      else if parts ! 2 \<noteq> ''v=1'' then Inl (EText ''unsupported password hash version'')
      else sum_bind (parseUint (parts ! 3) ''t'') (\<lambda>t.
           sum_bind (parseUint (parts ! 4) ''m'') (\<lambda>m.
           sum_bind (parseUint (parts ! 5) ''p'') (\<lambda>p.
           sum_bind (base64_field (parts ! 6)) (\<lambda>salt.
           sum_bind (base64_field (parts ! 7)) (\<lambda>hash. hash_fields t m p salt hash))))))"

definition dummyPasswordHash :: string where
  "dummyPasswordHash = encodeHash argonTime argonMemory argonThreads
     (replicate saltLen (CHR 0x00)) (replicate 32 (CHR 0x00))"

definition hashPassword :: "env \<Rightarrow> argon2 \<Rightarrow> string \<Rightarrow> string M" where
  "hashPassword E idkey password = bnd (rand_read E saltLen) (\<lambda>salt.
     ret (encodeHash argonTime argonMemory argonThreads salt
       (idkey password salt argonTime argonMemory argonThreads argonKeyLen)))"

record verification =
  ver_valid :: bool
  ver_needs_rehash :: bool

definition VerifyPasswordHash :: "argon2 \<Rightarrow> string \<Rightarrow> string \<Rightarrow> err + verification" where
  "VerifyPasswordHash idkey password encoded = sum_bind (decodeHash encoded) (\<lambda>(params, salt, expected).
     let actual = idkey password salt (pa_time params) (pa_memory params) (pa_threads params)
           (of_nat (length expected));
         valid = (actual = expected)
     in Inr \<lparr>ver_valid = valid, ver_needs_rehash = (valid \<and>
          (pa_time params < argonTime \<or> pa_memory params < argonMemory \<or> pa_threads params < argonThreads
           \<or> length salt < saltLen \<or> length expected < unat argonKeyLen))\<rparr>)"

definition Verify :: "argon2 \<Rightarrow> string \<Rightarrow> string \<Rightarrow> err + bool" where
  "Verify idkey password encoded =
     sum_bind (VerifyPasswordHash idkey password encoded) (\<lambda>v. Inr (ver_valid v))"

section \<open>The password policy (\<open>password_policy.go\<close>)\<close>

definition DefaultPasswordMinimumLength :: int where
  "DefaultPasswordMinimumLength = 8"
definition MaximumPasswordLength :: int where
  "MaximumPasswordLength = 128"

definition passwordMinimumLength :: "int \<Rightarrow> int" where
  "passwordMinimumLength minimum =
     (if minimum < DefaultPasswordMinimumLength \<or> MaximumPasswordLength < minimum
      then DefaultPasswordMinimumLength else minimum)"

definition validatePassword :: "string \<Rightarrow> int \<Rightarrow> password_error option" where
  "validatePassword password minimum =
     (let n = int (rune_count password) in
      if \<not> valid_utf8 password then Some ErrPasswordInvalidEncoding
      else if n < minimum then Some ErrPasswordTooShort
      else if MaximumPasswordLength < n then Some ErrPasswordTooLong
      else None)"

definition PasswordPolicyMessage :: "password_error \<Rightarrow> int \<Rightarrow> string" where
  "PasswordPolicyMessage e minimum = (case e of
       ErrPasswordTooShort \<Rightarrow> ''Password must contain at least '' @ format_int minimum @ '' characters.''
     | ErrPasswordTooLong \<Rightarrow>
         ''Password must contain no more than '' @ format_int MaximumPasswordLength @ '' characters.''
     | ErrPasswordInvalidEncoding \<Rightarrow> ''Password contains invalid characters.'')"

end
