(* ===== verification/Usernames.thy ===== *)
theory Usernames
  imports Credentials
begin

text \<open>
  Usernames (\<open>internal/auth/username.go\<close>): the rule a chosen name has to meet, and the
  name made from an address when none is given.
\<close>

definition username_char :: "char \<Rightarrow> bool" where
  "username_char c \<longleftrightarrow> (97 \<le> code c \<and> code c \<le> 122) \<or> (65 \<le> code c \<and> code c \<le> 90)
     \<or> (48 \<le> code c \<and> code c \<le> 57) \<or> code c = 45 \<or> code c = 95"

definition ValidateUsername :: "string \<Rightarrow> err option" where
  "ValidateUsername username =
     (if length username < 3 \<or> 30 < length username then Some (EAuth ErrInvalidUsername)
      else if list_all username_char username then None else Some (EAuth ErrInvalidUsername))"

definition isLetter :: "nat \<Rightarrow> bool" where
  "isLetter r \<longleftrightarrow> (97 \<le> r \<and> r \<le> 122) \<or> (65 \<le> r \<and> r \<le> 90)"

definition isDigit :: "nat \<Rightarrow> bool" where
  "isDigit r \<longleftrightarrow> 48 \<le> r \<and> r \<le> 57"

text \<open>
  \<open>crypto/rand.Int\<close> with the bound 90000: three bytes of which 17 bits are kept, drawn
  again while the number is not below the bound. Go's loop has no end; the model's takes
  \<open>fuel\<close> draws and then reports the random source as broken.
\<close>

definition big_endian :: "string \<Rightarrow> nat" where
  "big_endian s = foldl (\<lambda>a c. 256 * a + code c) 0 s"

fun rand_int :: "env \<Rightarrow> nat \<Rightarrow> nat M" where
  "rand_int E 0 = fail ERand"
| "rand_int E (Suc fuel) = bnd (rand_read E 3) (\<lambda>b.
     let n = big_endian b mod 2 ^ 17 in if n < 90000 then ret n else rand_int E fuel)"

definition rand_fuel :: nat where
  "rand_fuel = 128"

definition SecureFiveDigits :: "env \<Rightarrow> nat M" where
  "SecureFiveDigits E = bnd (rand_int E rand_fuel) (\<lambda>n. ret (n + 10000))"

text \<open>
  The loop over the runes: letters, digits and underscores are kept, every run of others is one
  dash. The code's two branches for the others (by Unicode class, and the rest) do the same.
\<close>

fun sanitize_loop :: "nat list \<Rightarrow> bool \<Rightarrow> string \<Rightarrow> string" where
  "sanitize_loop [] prevDash b = b"
| "sanitize_loop (r # rs) prevDash b =
     (if isLetter r \<or> isDigit r \<or> r = 95 then sanitize_loop rs False (b @ [char_of r])
      else if b \<noteq> '''' \<and> \<not> prevDash then sanitize_loop rs True (b @ ''-'')
      else sanitize_loop rs prevDash b)"

definition username_maxLen :: nat where
  "username_maxLen = 24"

definition SanitizeUsername :: "string \<Rightarrow> string" where
  "SanitizeUsername s =
     (let out = trim_chars ''-_'' (sanitize_loop (runes s) False '''') in
      if username_maxLen < length out then trim_chars ''-_'' (take username_maxLen out) else out)"

text \<open>\<open>fmt.Sprintf("%05d")\<close>.\<close>

definition five_digits :: "nat \<Rightarrow> string" where
  "five_digits n = (let s = show_nat n in replicate (5 - length s) (CHR ''0'') @ s)"

definition EnsureUsername :: "env \<Rightarrow> string \<Rightarrow> string \<Rightarrow> string M" where
  "EnsureUsername E username email =
     (if username \<noteq> '''' then ret username
      else let sanitized = SanitizeUsername (takeWhile (\<lambda>c. c \<noteq> CHR 0x40) email);
               local = (if sanitized = '''' then ''user'' else sanitized)
        in bnd (SecureFiveDigits E) (\<lambda>suffix.
           ret (to_lower local @ ''-'' @ five_digits suffix)))"

section \<open>What a made name looks like\<close>

lemma sanitize_loop_chars:
  "list_all username_char b \<Longrightarrow> list_all username_char (sanitize_loop rs prevDash b)"
proof (induction rs prevDash b rule: sanitize_loop.induct)
  case (2 r rs prevDash b)
  have "isLetter r \<or> isDigit r \<or> r = 95 \<Longrightarrow> username_char (char_of r)"
    by (auto simp: isLetter_def isDigit_def username_char_def)
  moreover have "username_char (CHR ''-'')" by (simp add: username_char_def)
  ultimately show ?case using 2 by auto
qed simp

lemma sanitized_chars: "list_all username_char (SanitizeUsername s)"
proof -
  have l: "set (sanitize_loop (runes s) False '''') \<subseteq> {c. username_char c}"
    using sanitize_loop_chars [of "''''" "runes s" False] by (auto simp: list_all_iff)
  have t: "set (take n xs) \<subseteq> set xs" for n and xs :: string by (rule set_take_subset)
  show ?thesis
    unfolding SanitizeUsername_def Let_def list_all_iff
    using l t trim_chars_subset by (smt (verit) if_split_asm mem_Collect_eq subset_iff)
qed

lemma sanitized_length: "length (SanitizeUsername s) \<le> 24"
proof -
  have "length (trim_chars ''-_'' (take 24 out)) \<le> 24" for out
    using trim_chars_length [of "''-_''" "take 24 out"] by simp
  then show ?thesis by (simp add: SanitizeUsername_def username_maxLen_def Let_def)
qed

lemma username_char_lower: "username_char c \<Longrightarrow> username_char (lower_char c)"
  unfolding username_char_def code_lower_char
  by (auto simp: is_upper_def lower_char_def)

lemma digits_username: "list_all is_digit s \<Longrightarrow> list_all username_char s"
  by (auto simp: list_all_iff is_digit_def username_char_def)

lemma rand_int_bound: "rand_int E fuel w = (Inr n, w') \<Longrightarrow> n < 90000"
  by (induction fuel arbitrary: w) (auto simp: runs Let_def split: if_splits)

lemma show_five:
  assumes "10000 \<le> n" and "n < 100000"
  shows "length (show_nat n) = 5"
proof -
  have one: "m < 10 \<Longrightarrow> length (show_nat m) = 1" and more: "10 \<le> m \<Longrightarrow>
    length (show_nat m) = Suc (length (show_nat (m div 10)))" for m
    by (subst show_nat.simps, simp)+
  have e: "n div 10 div 10 = n div 100" "n div 100 div 10 = n div 1000" "n div 1000 div 10 = n div 10000"
    by (simp_all add: div_mult2_eq [symmetric])
  have "10 \<le> n div 1000" and "n div 10000 < 10" and "10 \<le> n div 100" and "10 \<le> n div 10" and "10 \<le> n"
    using assms by (simp_all add: less_eq_div_iff_mult_less_eq less_mult_imp_div_less)
  then show ?thesis using more [of n] more [of "n div 10"] more [of "n div 100"] more [of "n div 1000"]
      one [of "n div 10000"] by (simp only: e)
qed

text \<open>\<open>rand.Int\<close> returns as soon as one of the draws is below the bound.\<close>

lemma rand_int_returns:
  assumes "\<And>k. k \<le> j \<Longrightarrow> o_rand E (w_step w + k) 3 \<noteq> None" and "j < fuel"
    and "o_rand E (w_step w + j) 3 = Some b" and "big_endian b mod 2 ^ 17 < 90000"
  shows "\<exists>n w'. rand_int E fuel w = (Inr n, w')"
  using assms
proof (induction fuel arbitrary: w j)
  case (Suc fuel)
  obtain b0 where b0: "o_rand E (w_step w) 3 = Some b0" using Suc.prems(1) [of 0] by auto
  show ?case
  proof (cases "big_endian b0 mod 2 ^ 17 < 90000")
    case True
    then show ?thesis by (simp add: bnd_def rand_read_def b0 ret_def)
  next
    case False
    then have "j \<noteq> 0" using Suc.prems(3,4) b0 by (cases j) auto
    then obtain i where i: "j = Suc i" by (cases j) auto
    have "\<exists>n w'. rand_int E fuel (tick w) = (Inr n, w')"
      using Suc.IH [of i "tick w"] Suc.prems i by (fastforce simp: )
    with False show ?thesis by (simp add: bnd_def rand_read_def b0 split: prod.splits sum.splits)
  qed
qed simp

lemma ensured_username:
  assumes "EnsureUsername E '''' email w = (Inr name, w')"
  shows "ValidateUsername name = None" and "to_lower name = name"
proof -
  let ?local = "if SanitizeUsername (takeWhile (\<lambda>c. c \<noteq> CHR 0x40) email) = '''' then ''user''
    else SanitizeUsername (takeWhile (\<lambda>c. c \<noteq> CHR 0x40) email)"
  obtain n w1 where n: "rand_int E rand_fuel w = (Inr n, w1)"
    and name: "name = to_lower ?local @ ''-'' @ five_digits (n + 10000)"
    using assms by (auto simp: EnsureUsername_def SecureFiveDigits_def Let_def runs)
  have f: "five_digits (n + 10000) = show_nat (n + 10000)" "length (show_nat (n + 10000)) = 5"
    using rand_int_bound [OF n] show_five [of "n + 10000"] by (simp_all add: five_digits_def)
  have loc: "list_all username_char ?local" "length ?local \<le> 24" "?local \<noteq> ''''"
    using sanitized_chars sanitized_length by (simp_all add: username_char_def)
  have low: "list_all username_char (to_lower ?local)"
    using loc(1) by (auto simp: to_lower_def list_all_iff username_char_lower)
  have dig: "list_all username_char (show_nat (n + 10000))"
    by (rule digits_username) (rule show_nat_digits)
  have len: "length (to_lower ?local) = length ?local" by (simp add: to_lower_def)
  have pos: "1 \<le> length ?local" using loc(3) by (cases ?local) auto
  show "ValidateUsername name = None"
    unfolding ValidateUsername_def name f(1)
    using low dig f(2) len loc(2) pos by (simp add: username_char_def)
  have "to_lower (show_nat (n + 10000)) = show_nat (n + 10000)"
    using show_nat_digits [of "n + 10000"]
    by (auto simp: to_lower_def list_all_iff is_digit_def lower_char_def is_upper_def intro!: map_idI)
  then show "to_lower name = name"
    unfolding name f(1) by (simp add: to_lower_def lower_char_def is_upper_def)
qed

end
