(* ===== verification/Store_Challenge.thy ===== *)
theory Store_Challenge
  imports Security_Events
begin

text \<open>
  The store's operations on challenges, verification codes, pending actions, e-mail
  verification transactions and authentication providers (\<open>internal/store/challange.go\<close>,
  \<open>pending_action.go\<close>, \<open>email_verification.go\<close>, \<open>auth_providers.go\<close>),
  with the constraints and the cascades of the migrations.
\<close>

section \<open>Challenges\<close>

definition ChallengePurposeSignup :: string where "ChallengePurposeSignup = ''signup''"
definition ChallengePurposePasswordReset :: string where
  "ChallengePurposePasswordReset = ''password_reset''"
definition ChallengePurposeEmailChange :: string where
  "ChallengePurposeEmailChange = ''email_change''"
definition ChallengePurposeEmailVerification :: string where
  "ChallengePurposeEmailVerification = ''email_verification''"

lemmas purpose_defs = ChallengePurposeSignup_def ChallengePurposePasswordReset_def
  ChallengePurposeEmailChange_def ChallengePurposeEmailVerification_def

definition IsConsumed :: "challenge \<Rightarrow> bool" where
  "IsConsumed c \<longleftrightarrow> ch_consumed_at c \<noteq> None"

definition IsExpired :: "challenge \<Rightarrow> time \<Rightarrow> bool" where
  "IsExpired c now \<longleftrightarrow> ch_expires_at c < now"

definition HasAttemptsRemaining :: "challenge \<Rightarrow> bool" where
  "HasAttemptsRemaining c \<longleftrightarrow> ch_attempt_count c < ch_max_attempts c"

definition CreateChallenge :: "env \<Rightarrow> challenge \<Rightarrow> challenge M" where
  "CreateChallenge E new = exec E (\<lambda>t u d.
     if too_long 64 (ch_purpose new) \<or> too_long 255 (CanonicalEmail (ch_email new)) then Inl ValueTooLong
     else if ch_has_min_resend_interval new \<and> ch_min_resend_interval new < 0 then Inl CheckViolation
     else if u \<in> ch_id ` set (challenges d) then Inl (UniqueViolation ''challenges_pkey'')
     else let row = new\<lparr>ch_id := u, ch_created_at := t, ch_updated_at := t,
                ch_purpose := fit 64 (ch_purpose new), ch_email := fit 255 (CanonicalEmail (ch_email new)),
                ch_min_resend_interval := (if ch_has_min_resend_interval new then ch_min_resend_interval new else 0)\<rparr>
       in Inr (row, d\<lparr>challenges := challenges d @ [row]\<rparr>))"

definition find_challenge :: "uuid \<Rightarrow> db \<Rightarrow> challenge option" where
  "find_challenge challengeID d = find (\<lambda>c. ch_id c = challengeID) (challenges d)"

definition GetChallengeByID :: "env \<Rightarrow> uuid \<Rightarrow> challenge M" where
  "GetChallengeByID E challengeID = query_row E ErrorChallengeNotFound (find_challenge challengeID)"

definition GetChallengeByIDForUpdate :: "env \<Rightarrow> uuid \<Rightarrow> challenge M" where
  "GetChallengeByIDForUpdate E challengeID = query_row E ErrorChallengeNotFound (find_challenge challengeID)"

definition ConsumeChallenge :: "env \<Rightarrow> uuid \<Rightarrow> time \<Rightarrow> unit M" where
  "ConsumeChallenge E challengeID now = require_affected ErrorChallengeAlreadyConsumed (exec_count E (\<lambda>t d.
     let hit = (\<lambda>c. ch_id c = challengeID \<and> ch_consumed_at c = None)
     in (count_where hit (challenges d), d\<lparr>challenges := upd_where hit
           (\<lambda>c. c\<lparr>ch_consumed_at := Some now, ch_updated_at := t\<rparr>) (challenges d)\<rparr>)))"

definition IncrementChallengeAttemptCount :: "env \<Rightarrow> uuid \<Rightarrow> unit M" where
  "IncrementChallengeAttemptCount E challengeID = exec_upd E (\<lambda>t d. d\<lparr>challenges :=
     upd_where (\<lambda>c. ch_id c = challengeID)
       (\<lambda>c. c\<lparr>ch_attempt_count := ch_attempt_count c + 1, ch_updated_at := t\<rparr>) (challenges d)\<rparr>)"

definition IncrementChallengeResendCount :: "env \<Rightarrow> uuid \<Rightarrow> time \<Rightarrow> bool M" where
  "IncrementChallengeResendCount E challengeID now = bnd (exec_count E (\<lambda>t d.
     let hit = (\<lambda>c. ch_id c = challengeID \<and> ch_resend_count c < ch_max_resends c)
     in (count_where hit (challenges d), d\<lparr>challenges := upd_where hit
           (\<lambda>c. c\<lparr>ch_resend_count := ch_resend_count c + 1, ch_last_sent_at := Some now,
                  ch_updated_at := t\<rparr>) (challenges d)\<rparr>)))
     (\<lambda>affected. ret (affected = 1))"

definition SetChallengeLastSentAt :: "env \<Rightarrow> uuid \<Rightarrow> time \<Rightarrow> unit M" where
  "SetChallengeLastSentAt E challengeID now = exec_upd E (\<lambda>t d. d\<lparr>challenges :=
     upd_where (\<lambda>c. ch_id c = challengeID)
       (\<lambda>c. c\<lparr>ch_last_sent_at := Some now, ch_updated_at := t\<rparr>) (challenges d)\<rparr>)"

text \<open>
  Deleting challenges: codes, queued mails and pending actions go with them; an e-mail
  verification transaction that is still attached would keep its target address without a
  challenge, which \<open>email_verification_transaction_target_check\<close> refuses.
\<close>

definition attached_to :: "uuid list \<Rightarrow> db \<Rightarrow> bool" where
  "attached_to gone d \<longleftrightarrow> list_ex (\<lambda>v. (case ev_challenge v of None \<Rightarrow> False | Some c \<Rightarrow> c \<in> set gone)
     \<and> ev_target_email v \<noteq> None) (email_verifications d)"

definition cascade_challenges :: "uuid list \<Rightarrow> db \<Rightarrow> db" where
  "cascade_challenges gone d = d\<lparr>challenges := del_where (\<lambda>c. ch_id c \<in> set gone) (challenges d),
     verification_codes := del_where (\<lambda>v. vc_challenge v \<in> set gone) (verification_codes d),
     email_jobs := del_where (\<lambda>j. case ej_challenge j of None \<Rightarrow> False | Some c \<Rightarrow> c \<in> set gone) (email_jobs d),
     pending_signups := del_where (\<lambda>p. ps_challenge p \<in> set gone) (pending_signups d),
     pending_resets := del_where (\<lambda>p. pr_challenge p \<in> set gone) (pending_resets d),
     pending_email_changes := del_where (\<lambda>p. pe_challenge p \<in> set gone) (pending_email_changes d),
     email_verifications := upd_where (\<lambda>v. case ev_challenge v of None \<Rightarrow> False | Some c \<Rightarrow> c \<in> set gone)
       (\<lambda>v. v\<lparr>ev_challenge := None\<rparr>) (email_verifications d),
     provider_links := upd_where (\<lambda>l. case pl_challenge l of None \<Rightarrow> False | Some c \<Rightarrow> c \<in> set gone)
       (\<lambda>l. l\<lparr>pl_challenge := None\<rparr>) (provider_links d)\<rparr>"

definition DeleteExpiredChallenges :: "env \<Rightarrow> time \<Rightarrow> nat \<Rightarrow> nat M" where
  "DeleteExpiredChallenges E now batchSize = exec E (\<lambda>_ _ d.
     let gone = map ch_id (oldest (\<lambda>c. ch_expires_at c < now) (\<lambda>c. (ch_expires_at c, ch_id c)) batchSize
           (challenges d))
     in if attached_to gone d then Inl CheckViolation
        else Inr (count_where (\<lambda>c. ch_id c \<in> set gone) (challenges d), cascade_challenges gone d))"

definition is_risky :: "time \<Rightarrow> challenge \<Rightarrow> bool" where
  "is_risky now c \<longleftrightarrow> ch_consumed_at c = None \<and> (ch_expires_at c < now
     \<or> ch_max_attempts c \<le> ch_attempt_count c \<or> ch_max_resends c \<le> ch_resend_count c)"

definition ListRecentRiskyChallenges :: "env \<Rightarrow> time \<Rightarrow> nat \<Rightarrow> nat \<Rightarrow> challenge list M" where
  "ListRecentRiskyChallenges E now limit offset = query E (\<lambda>d. take limit (drop offset
     (sort_key (\<lambda>c. (- ch_updated_at c, - ch_created_at c)) (filter (is_risky now) (challenges d)))))"

definition CountRecentRiskyChallenges :: "env \<Rightarrow> time \<Rightarrow> nat M" where
  "CountRecentRiskyChallenges E now = query E (\<lambda>d. count_where (is_risky now) (challenges d))"

section \<open>Verification codes\<close>

definition UpsertVerificationCode :: "env \<Rightarrow> verification_code \<Rightarrow> unit M" where
  "UpsertVerificationCode E new = exec E (\<lambda>t u d.
     if too_long 255 (vc_code_hash new) then Inl ValueTooLong
     else let hash = fit 255 (vc_code_hash new); same = (\<lambda>v. vc_challenge v = vc_challenge new) in
       if list_ex same (verification_codes d)
       then Inr ((), d\<lparr>verification_codes := upd_where same (\<lambda>v. v\<lparr>vc_code_hash := hash,
              vc_expires_at := vc_expires_at new, vc_created_at := t\<rparr>) (verification_codes d)\<rparr>)
       else if u \<in> vc_id ` set (verification_codes d) then Inl (UniqueViolation ''verification_codes_pkey'')
       else if find_challenge (vc_challenge new) d = None then Inl ForeignKeyViolation
       else Inr ((), d\<lparr>verification_codes := verification_codes d @
              [new\<lparr>vc_id := u, vc_created_at := t, vc_code_hash := hash\<rparr>]\<rparr>))"

definition find_code :: "uuid \<Rightarrow> db \<Rightarrow> verification_code option" where
  "find_code challengeID d = find (\<lambda>v. vc_challenge v = challengeID) (verification_codes d)"

definition GetVerificationCodeByChallengeID :: "env \<Rightarrow> uuid \<Rightarrow> verification_code M" where
  "GetVerificationCodeByChallengeID E challengeID =
     query_row E ErrorVerificationCodeNotFound (find_code challengeID)"

section \<open>Pending actions\<close>

definition CreatePendingSignupAction :: "env \<Rightarrow> pending_signup \<Rightarrow> pending_signup M" where
  "CreatePendingSignupAction E new = exec E (\<lambda>t u d.
     if too_long 255 (CanonicalEmail (ps_email new)) \<or> too_long 255 (ps_username new)
        \<or> too_long 255 (ps_password_hash new) then Inl ValueTooLong
     else if u \<in> ps_id ` set (pending_signups d) then Inl (UniqueViolation ''pending_signup_actions_pkey'')
     else if ps_challenge new \<in> ps_challenge ` set (pending_signups d)
       then Inl (UniqueViolation ''unique_pending_signup_challenge'')
     else if find_challenge (ps_challenge new) d = None
        \<or> (case ps_invitation new of None \<Rightarrow> False | Some i \<Rightarrow> i \<notin> inv_id ` set (invitations d))
       then Inl ForeignKeyViolation
     else let row = new\<lparr>ps_id := u, ps_created_at := t, ps_email := fit 255 (CanonicalEmail (ps_email new)),
                ps_username := fit 255 (ps_username new), ps_password_hash := fit 255 (ps_password_hash new)\<rparr>
       in Inr (row, d\<lparr>pending_signups := pending_signups d @ [row]\<rparr>))"

definition GetPendingSignupActionByChallengeID :: "env \<Rightarrow> uuid \<Rightarrow> pending_signup M" where
  "GetPendingSignupActionByChallengeID E challengeID = query_row E ErrorPendingSignupActionNotFound
     (\<lambda>d. find (\<lambda>p. ps_challenge p = challengeID) (pending_signups d))"

text \<open>One pending reset per user: a new one takes the place of the old.\<close>

definition CreatePendingPasswordReset :: "env \<Rightarrow> pending_reset \<Rightarrow> pending_reset M" where
  "CreatePendingPasswordReset E new = exec E (\<lambda>t u d.
     let hash = fit 255 (pr_password_hash new); mine = (\<lambda>p. pr_user p = pr_user new) in
     if too_long 255 (pr_password_hash new) then Inl ValueTooLong
     else if list_ex (\<lambda>p. pr_challenge p = pr_challenge new \<and> \<not> mine p) (pending_resets d)
       then Inl (UniqueViolation ''unique_pending_password_reset_challenge'')
     else if find_challenge (pr_challenge new) d = None \<or> pr_user new \<notin> usr_id ` set (users d)
       then Inl ForeignKeyViolation
     else (case find mine (pending_resets d) of
         Some old \<Rightarrow>
           let row = old\<lparr>pr_created_at := t, pr_challenge := pr_challenge new, pr_password_hash := hash\<rparr>
           in Inr (row, d\<lparr>pending_resets := upd_where mine (\<lambda>p. p\<lparr>pr_created_at := t,
                pr_challenge := pr_challenge new, pr_password_hash := hash\<rparr>) (pending_resets d)\<rparr>)
       | None \<Rightarrow>
           if u \<in> pr_id ` set (pending_resets d) then Inl (UniqueViolation ''pending_password_resets_pkey'')
           else let row = new\<lparr>pr_id := u, pr_created_at := t, pr_password_hash := hash\<rparr>
             in Inr (row, d\<lparr>pending_resets := pending_resets d @ [row]\<rparr>)))"

definition find_reset :: "uuid \<Rightarrow> db \<Rightarrow> pending_reset option" where
  "find_reset challengeID d = find (\<lambda>p. pr_challenge p = challengeID) (pending_resets d)"

definition GetPendingPasswordResetByChallengeID :: "env \<Rightarrow> uuid \<Rightarrow> pending_reset M" where
  "GetPendingPasswordResetByChallengeID E challengeID =
     query_row E ErrorPendingPasswordResetNotFound (find_reset challengeID)"

definition DeletePendingPasswordResetByChallengeID :: "env \<Rightarrow> uuid \<Rightarrow> unit M" where
  "DeletePendingPasswordResetByChallengeID E challengeID = exec_upd E (\<lambda>_ d. d\<lparr>pending_resets :=
     del_where (\<lambda>p. pr_challenge p = challengeID) (pending_resets d)\<rparr>)"

definition DeletePendingPasswordResetsByUserID :: "env \<Rightarrow> uuid \<Rightarrow> unit M" where
  "DeletePendingPasswordResetsByUserID E userID = exec_upd E (\<lambda>_ d. d\<lparr>pending_resets :=
     del_where (\<lambda>p. pr_user p = userID) (pending_resets d)\<rparr>)"

definition CreatePendingEmailChange :: "env \<Rightarrow> pending_email_change \<Rightarrow> pending_email_change M" where
  "CreatePendingEmailChange E new = exec E (\<lambda>t u d.
     let old_mail = fit 255 (CanonicalEmail (pe_old_email new)); new_mail = fit 255 (CanonicalEmail (pe_new_email new));
         mine = (\<lambda>p. pe_user p = pe_user new) in
     if too_long 255 (CanonicalEmail (pe_old_email new)) \<or> too_long 255 (CanonicalEmail (pe_new_email new))
       then Inl ValueTooLong
     else if list_ex (\<lambda>p. pe_challenge p = pe_challenge new \<and> \<not> mine p) (pending_email_changes d)
       then Inl (UniqueViolation ''unique_pending_email_change_challenge'')
     else if find_challenge (pe_challenge new) d = None \<or> pe_user new \<notin> usr_id ` set (users d)
        \<or> find_session (pe_session new) d = None
       then Inl ForeignKeyViolation
     else (case find mine (pending_email_changes d) of
         Some old \<Rightarrow>
           let put = (\<lambda>p. p\<lparr>pe_created_at := t, pe_challenge := pe_challenge new, pe_session := pe_session new,
                 pe_old_email := old_mail, pe_new_email := new_mail\<rparr>)
           in Inr (put old, d\<lparr>pending_email_changes := upd_where mine put (pending_email_changes d)\<rparr>)
       | None \<Rightarrow>
           if u \<in> pe_id ` set (pending_email_changes d) then Inl (UniqueViolation ''pending_email_changes_pkey'')
           else let row = new\<lparr>pe_id := u, pe_created_at := t, pe_old_email := old_mail, pe_new_email := new_mail\<rparr>
             in Inr (row, d\<lparr>pending_email_changes := pending_email_changes d @ [row]\<rparr>)))"

definition find_email_change :: "uuid \<Rightarrow> db \<Rightarrow> pending_email_change option" where
  "find_email_change challengeID d = find (\<lambda>p. pe_challenge p = challengeID) (pending_email_changes d)"

definition GetPendingEmailChangeByChallengeID :: "env \<Rightarrow> uuid \<Rightarrow> pending_email_change M" where
  "GetPendingEmailChangeByChallengeID E challengeID =
     query_row E ErrorPendingEmailChangeNotFound (find_email_change challengeID)"

definition GetPendingEmailChangeByChallengeIDForUpdate :: "env \<Rightarrow> uuid \<Rightarrow> pending_email_change M" where
  "GetPendingEmailChangeByChallengeIDForUpdate E challengeID =
     query_row E ErrorPendingEmailChangeNotFound (find_email_change challengeID)"

definition DeletePendingEmailChangesByUserID :: "env \<Rightarrow> uuid \<Rightarrow> unit M" where
  "DeletePendingEmailChangesByUserID E userID = exec_upd E (\<lambda>_ d. d\<lparr>pending_email_changes :=
     del_where (\<lambda>p. pe_user p = userID) (pending_email_changes d)\<rparr>)"

text \<open>Compare and swap of a user's address; the new one must be free.\<close>

definition swap_user_email ::
  "env \<Rightarrow> uuid \<Rightarrow> string \<Rightarrow> string \<Rightarrow> time option \<Rightarrow> bool M" where
  "swap_user_email E userID currentEmail newEmail verifiedAt = bnd (exec E (\<lambda>t _ d.
     let current = CanonicalEmail currentEmail; mail = fit 255 (CanonicalEmail newEmail);
         hit = (\<lambda>r. usr_id r = userID \<and> usr_email r = current) in
     if \<not> list_ex hit (users d) then Inr (0, d)
     else if too_long 255 (CanonicalEmail newEmail) then Inl ValueTooLong
     else if mail \<noteq> to_lower (btrim mail) then Inl CheckViolation
     else if list_ex (\<lambda>r. \<not> hit r \<and> usr_email r = mail) (users d) then Inl (UniqueViolation ConstraintUserEmail)
     else Inr (count_where hit (users d), d\<lparr>users := upd_where hit
            (\<lambda>r. r\<lparr>usr_email := mail, usr_email_verified_at := verifiedAt, usr_updated_at := t\<rparr>) (users d)\<rparr>)))
     (\<lambda>affected. ret (affected = 1))"

definition UpdateUserEmailIfCurrent :: "env \<Rightarrow> uuid \<Rightarrow> string \<Rightarrow> string \<Rightarrow> bool M" where
  "UpdateUserEmailIfCurrent E userID currentEmail newEmail =
     swap_user_email E userID currentEmail newEmail None"

definition UpdateUserEmailVerifiedIfCurrent :: "env \<Rightarrow> uuid \<Rightarrow> string \<Rightarrow> string \<Rightarrow> time \<Rightarrow> bool M" where
  "UpdateUserEmailVerifiedIfCurrent E userID currentEmail newEmail verifiedAt =
     swap_user_email E userID currentEmail newEmail (Some verifiedAt)"

section \<open>E-mail verification transactions\<close>

definition IsActive :: "email_verification \<Rightarrow> time \<Rightarrow> bool" where
  "IsActive v now \<longleftrightarrow> ev_consumed_at v = None \<and> now < ev_expires_at v"

text \<open>A new verification of the same user keeps the challenge that was attached to the old one.\<close>

definition UpsertEmailVerificationTransaction :: "env \<Rightarrow> email_verification \<Rightarrow> email_verification M" where
  "UpsertEmailVerificationTransaction E new = exec E (\<lambda>t u d.
     let mine = (\<lambda>v. ev_user v = ev_user new);
         put = (\<lambda>v. v\<lparr>ev_session := ev_session new, ev_audience := ev_audience new, ev_method := ev_method new,
           ev_return_to := fit 2048 (ev_return_to new), ev_expires_at := ev_expires_at new, ev_consumed_at := None\<rparr>) in
     if too_long 32 (ev_audience new) \<or> too_long 32 (ev_method new) \<or> too_long 2048 (ev_return_to new)
       then Inl ValueTooLong
     else if ev_audience new \<notin> {''app'', ''admin'', ''operator''} \<or> ev_method new \<notin> set known_methods
       then Inl CheckViolation
     else if ev_user new \<notin> usr_id ` set (users d) \<or> find_session (ev_session new) d = None
       then Inl ForeignKeyViolation
     else (case find mine (email_verifications d) of
         Some old \<Rightarrow> Inr (put old, d\<lparr>email_verifications := upd_where mine put (email_verifications d)\<rparr>)
       | None \<Rightarrow>
           if u \<in> ev_id ` set (email_verifications d)
           then Inl (UniqueViolation ''email_verification_transactions_pkey'')
           else let row = put (new\<lparr>ev_id := u, ev_created_at := t, ev_challenge := None, ev_target_email := None\<rparr>)
             in Inr (row, d\<lparr>email_verifications := email_verifications d @ [row]\<rparr>)))"

definition find_verification :: "uuid \<Rightarrow> db \<Rightarrow> email_verification option" where
  "find_verification i d = find (\<lambda>v. ev_id v = i) (email_verifications d)"

definition find_verification_of :: "uuid \<Rightarrow> db \<Rightarrow> email_verification option" where
  "find_verification_of challengeID d = find (\<lambda>v. ev_challenge v = Some challengeID) (email_verifications d)"

definition GetEmailVerificationTransactionByID :: "env \<Rightarrow> uuid \<Rightarrow> email_verification M" where
  "GetEmailVerificationTransactionByID E i =
     query_row E ErrEmailVerificationTransactionNotFound (find_verification i)"

definition GetEmailVerificationTransactionByIDForUpdate :: "env \<Rightarrow> uuid \<Rightarrow> email_verification M" where
  "GetEmailVerificationTransactionByIDForUpdate E i =
     query_row E ErrEmailVerificationTransactionNotFound (find_verification i)"

definition GetEmailVerificationTransactionByChallengeIDForUpdate :: "env \<Rightarrow> uuid \<Rightarrow> email_verification M" where
  "GetEmailVerificationTransactionByChallengeIDForUpdate E challengeID =
     query_row E ErrEmailVerificationTransactionNotFound (find_verification_of challengeID)"

definition GetEmailVerificationTransactionByChallengeID :: "env \<Rightarrow> uuid \<Rightarrow> email_verification M" where
  "GetEmailVerificationTransactionByChallengeID E challengeID =
     query_row E ErrEmailVerificationTransactionNotFound (find_verification_of challengeID)"

definition AttachEmailVerificationChallenge :: "env \<Rightarrow> uuid \<Rightarrow> uuid \<Rightarrow> string \<Rightarrow> unit M" where
  "AttachEmailVerificationChallenge E i challengeID targetEmail = bnd (exec E (\<lambda>_ _ d.
     let hit = (\<lambda>v. ev_id v = i \<and> ev_consumed_at v = None); mail = CanonicalEmail targetEmail in
     if \<not> list_ex hit (email_verifications d) then Inr (0, d)
     else if too_long 255 mail then Inl ValueTooLong
     else if list_ex (\<lambda>v. \<not> hit v \<and> ev_challenge v = Some challengeID) (email_verifications d)
       then Inl (UniqueViolation ''unique_email_verification_transaction_challenge'')
     else if find_challenge challengeID d = None then Inl ForeignKeyViolation
     else Inr (count_where hit (email_verifications d), d\<lparr>email_verifications := upd_where hit
            (\<lambda>v. v\<lparr>ev_challenge := Some challengeID, ev_target_email := Some (fit 255 mail)\<rparr>) (email_verifications d)\<rparr>)))
     (\<lambda>affected. guard_err (affected \<noteq> 1) (EStore ErrEmailVerificationTransactionNotFound))"

definition ConsumeEmailVerificationTransaction :: "env \<Rightarrow> uuid \<Rightarrow> time \<Rightarrow> unit M" where
  "ConsumeEmailVerificationTransaction E i consumedAt = bnd (exec_count E (\<lambda>_ d.
     let hit = (\<lambda>v. ev_id v = i \<and> ev_consumed_at v = None)
     in (count_where hit (email_verifications d), d\<lparr>email_verifications := upd_where hit
           (\<lambda>v. v\<lparr>ev_consumed_at := Some consumedAt\<rparr>) (email_verifications d)\<rparr>)))
     (\<lambda>affected. guard_err (affected \<noteq> 1) (EStore ErrEmailVerificationTransactionNotFound))"

definition DeleteExpiredEmailVerificationTransactions :: "env \<Rightarrow> time \<Rightarrow> nat \<Rightarrow> nat M" where
  "DeleteExpiredEmailVerificationTransactions E now batchSize = exec_count E (\<lambda>_ d.
     let gone = map ev_id (oldest (\<lambda>v. ev_expires_at v < now) (\<lambda>v. (ev_expires_at v, ev_id v)) batchSize
           (email_verifications d));
         hit = (\<lambda>v. ev_id v \<in> set gone)
     in (count_where hit (email_verifications d),
         d\<lparr>email_verifications := del_where hit (email_verifications d)\<rparr>))"

section \<open>Authentication providers\<close>

definition find_provider :: "string \<Rightarrow> uuid \<Rightarrow> db \<Rightarrow> auth_provider option" where
  "find_provider provider userID d =
     find (\<lambda>p. prv_user p = userID \<and> prv_provider p = provider) (auth_providers d)"

definition ListAuthProvidersByUserID :: "env \<Rightarrow> uuid \<Rightarrow> auth_provider list M" where
  "ListAuthProvidersByUserID E userID = query E (\<lambda>d.
     sort_key prv_created_at (filter (\<lambda>p. prv_user p = userID) (auth_providers d)))"

definition CreateAuthProvider :: "env \<Rightarrow> auth_provider \<Rightarrow> auth_provider M" where
  "CreateAuthProvider E new = exec E (\<lambda>t u d.
     let long = (\<lambda>s. case s of None \<Rightarrow> False | Some x \<Rightarrow> too_long 255 x) in
     if too_long 50 (prv_provider new) \<or> long (prv_provider_user_id new) \<or> long (prv_password_hash new)
       then Inl ValueTooLong
     else if u \<in> prv_id ` set (auth_providers d) then Inl (UniqueViolation ''auth_providers_pkey'')
     else if find_provider (prv_provider new) (prv_user new) d \<noteq> None
       then Inl (UniqueViolation ''unique_user_provider'')
     else if prv_provider_user_id new \<noteq> None \<and> list_ex (\<lambda>p. prv_provider p = prv_provider new
          \<and> prv_provider_user_id p = prv_provider_user_id new) (auth_providers d)
       then Inl (UniqueViolation ''unique_provider_user'')
     else if prv_user new \<notin> usr_id ` set (users d) then Inl ForeignKeyViolation
     else let row = new\<lparr>prv_id := u, prv_created_at := t, prv_updated_at := t,
                prv_provider_user_id := map_option (fit 255) (prv_provider_user_id new),
                prv_password_hash := map_option (fit 255) (prv_password_hash new)\<rparr>
       in Inr (row, d\<lparr>auth_providers := auth_providers d @ [row]\<rparr>))"

definition GetAuthProviderByMethodAndUserID :: "env \<Rightarrow> string \<Rightarrow> uuid \<Rightarrow> auth_provider M" where
  "GetAuthProviderByMethodAndUserID E provider userID =
     query_row E ErrorAuthProviderNotFound (find_provider provider userID)"

definition GetAuthProviderByMethodAndUserIDForUpdate :: "env \<Rightarrow> string \<Rightarrow> uuid \<Rightarrow> auth_provider M" where
  "GetAuthProviderByMethodAndUserIDForUpdate E provider userID =
     query_row E ErrorAuthProviderNotFound (find_provider provider userID)"

definition GetAuthProviderByProviderAndProviderUserID :: "env \<Rightarrow> string \<Rightarrow> string \<Rightarrow> auth_provider M" where
  "GetAuthProviderByProviderAndProviderUserID E provider providerUserID =
     query_row E ErrorAuthProviderNotFound (\<lambda>d. find (\<lambda>p. prv_provider_user_id p = Some providerUserID
       \<and> prv_provider p = provider) (auth_providers d))"

text \<open>The stored Apple credential goes with its provider (\<open>ON DELETE CASCADE\<close>).\<close>

definition cascade_providers :: "(auth_provider \<Rightarrow> bool) \<Rightarrow> db \<Rightarrow> db" where
  "cascade_providers p d = d\<lparr>auth_providers := del_where p (auth_providers d),
     apple_credentials := del_where (\<lambda>c. list_ex (\<lambda>r. p r \<and> prv_id r = apc_provider c) (auth_providers d))
       (apple_credentials d)\<rparr>"

definition DeleteAuthProviderByMethodAndUserID :: "env \<Rightarrow> string \<Rightarrow> uuid \<Rightarrow> unit M" where
  "DeleteAuthProviderByMethodAndUserID E provider userID =
     require_affected ErrorAuthProviderNotFound (exec_count E (\<lambda>_ d.
       let hit = (\<lambda>p. prv_user p = userID \<and> prv_provider p = provider)
       in (count_where hit (auth_providers d), cascade_providers hit d)))"

text \<open>\<open>UPDATE auth_providers SET password_hash\<close> of the password provider of a user.\<close>

definition set_password ::
  "env \<Rightarrow> (auth_provider \<Rightarrow> bool) \<Rightarrow> uuid \<Rightarrow> string \<Rightarrow> nat M" where
  "set_password E p userID passwordHash = exec E (\<lambda>t _ d.
     let hit = (\<lambda>r. prv_user r = userID \<and> prv_provider r = ProviderPassword \<and> p r) in
     if list_ex hit (auth_providers d) \<and> too_long 255 passwordHash then Inl ValueTooLong
     else Inr (count_where hit (auth_providers d), d\<lparr>auth_providers := upd_where hit
            (\<lambda>r. r\<lparr>prv_password_hash := Some (fit 255 passwordHash), prv_updated_at := t\<rparr>) (auth_providers d)\<rparr>))"

definition UpdatePasswordHash :: "env \<Rightarrow> uuid \<Rightarrow> string \<Rightarrow> unit M" where
  "UpdatePasswordHash E userID passwordHash =
     require_affected ErrorAuthProviderNotFound (set_password E (\<lambda>_. True) userID passwordHash)"

definition CompareAndSwapPasswordHash :: "env \<Rightarrow> uuid \<Rightarrow> string \<Rightarrow> string \<Rightarrow> bool M" where
  "CompareAndSwapPasswordHash E userID oldPasswordHash newPasswordHash =
     bnd (set_password E (\<lambda>r. prv_password_hash r = Some oldPasswordHash) userID newPasswordHash)
       (\<lambda>affected. ret (affected = 1))"

definition UpdateAuthProviderIdentity :: "env \<Rightarrow> uuid \<Rightarrow> string \<Rightarrow> string \<Rightarrow> unit M" where
  "UpdateAuthProviderIdentity E userID provider providerUserID =
     require_affected ErrorAuthProviderNotFound (exec E (\<lambda>t _ d.
       let hit = (\<lambda>p. prv_user p = userID \<and> prv_provider p = provider) in
       if list_ex hit (auth_providers d) \<and> too_long 255 providerUserID then Inl ValueTooLong
       else if list_ex hit (auth_providers d) \<and> list_ex (\<lambda>p. \<not> hit p \<and> prv_provider p = provider
            \<and> prv_provider_user_id p = Some (fit 255 providerUserID)) (auth_providers d)
         then Inl (UniqueViolation ''unique_provider_user'')
       else Inr (count_where hit (auth_providers d), d\<lparr>auth_providers := upd_where hit
            (\<lambda>p. p\<lparr>prv_provider_user_id := Some (fit 255 providerUserID), prv_updated_at := t\<rparr>) (auth_providers d)\<rparr>)))"

end
