(* ===== verification/Keyset.thy ===== *)
theory Keyset
  imports Effects Encoding
begin

text \<open>
  Keyset pagination (\<open>internal/keyset/pagination.go\<close>): a cursor is the JSON text of the
  last row's key, with the kind and the scope of the listing, in base64. \<open>Decode\<close> and
  \<open>Finish\<close> are the two ends of a page; the locale \<open>keyset_listing\<close> is the contract
  between them and the store's statements, and shows that following \<open>NextCursor\<close> from the
  empty cursor visits every row once, in order.
\<close>

section \<open>Cursors and pages\<close>

record cursor =
  cur_Version :: int
  cur_Kind :: string
  cur_Scope :: uuid
  cur_CreatedAt :: time
  cur_ID :: uuid

text \<open>
  \<open>encoding/json\<close> on a \<open>cursor\<close>: \<open>json_marshal\<close> is None for a time whose year
  JSON cannot carry; \<open>json_cursor\<close> is the strict decoding of the code (unknown fields and
  trailing data refused).
\<close>

record json_codec =
  json_marshal :: "cursor \<Rightarrow> string option"
  json_cursor :: "string \<Rightarrow> cursor option"

record list_options =
  opt_Cursor :: string
  opt_Limit :: "int option"

record 'a page =
  Items :: "'a list"
  NextCursor :: string

definition DefaultLimit :: int where
  "DefaultLimit = 50"

definition MaxLimit :: int where
  "MaxLimit = 100"

definition Decode ::
  "json_codec \<Rightarrow> list_options \<Rightarrow> string \<Rightarrow> uuid \<Rightarrow> err + ((time \<times> uuid) option \<times> nat)" where
  "Decode J opts kind scope =
     (let limit = (case opt_Limit opts of None \<Rightarrow> DefaultLimit | Some n \<Rightarrow> n) in
      if limit < 1 \<or> MaxLimit < limit then Inl EInvalidPage
      else if opt_Cursor opts = '''' then Inr (None, nat limit)
      else (case base64_decode (opt_Cursor opts) of
          None \<Rightarrow> Inl EInvalidPage
        | Some raw \<Rightarrow> (case json_cursor J raw of
            None \<Rightarrow> Inl EInvalidPage
          | Some v \<Rightarrow>
              if cur_Version v \<noteq> 1 \<or> cur_Kind v \<noteq> kind \<or> cur_Scope v \<noteq> scope
                 \<or> cur_CreatedAt v = zero_time \<or> cur_ID v = nil_uuid
              then Inl EInvalidPage
              else Inr (Some (cur_CreatedAt v, cur_ID v), nat limit))))"

definition page_cursor :: "string \<Rightarrow> uuid \<Rightarrow> time \<times> uuid \<Rightarrow> cursor" where
  "page_cursor kind scope k =
     \<lparr>cur_Version = 1, cur_Kind = kind, cur_Scope = scope, cur_CreatedAt = fst k, cur_ID = snd k\<rparr>"

definition Finish ::
  "json_codec \<Rightarrow> 'a list \<Rightarrow> nat \<Rightarrow> string \<Rightarrow> uuid \<Rightarrow> ('a \<Rightarrow> time \<times> uuid) \<Rightarrow> err + 'a page" where
  "Finish J items limit kind scope key =
     (if length items \<le> limit then Inr \<lparr>Items = items, NextCursor = ''''\<rparr>
      else let kept = take limit items in
        (case json_marshal J (page_cursor kind scope (key (last kept))) of
           None \<Rightarrow> Inl (EText ''json: error calling MarshalJSON for type time.Time'')
         | Some raw \<Rightarrow> Inr \<lparr>Items = kept, NextCursor = base64_encode raw\<rparr>))"

section \<open>What a round trip needs\<close>

text \<open>The codec reads back the cursor of a row, and the row's key is one \<open>Decode\<close> accepts.\<close>

definition codec_reads :: "json_codec \<Rightarrow> string \<Rightarrow> uuid \<Rightarrow> time \<times> uuid \<Rightarrow> bool" where
  "codec_reads J kind scope k \<longleftrightarrow> fst k \<noteq> zero_time \<and> snd k \<noteq> nil_uuid
     \<and> (\<exists>raw. raw \<noteq> '''' \<and> json_marshal J (page_cursor kind scope k) = Some raw
          \<and> json_cursor J raw = Some (page_cursor kind scope k))"

definition next_options :: "int option \<Rightarrow> string \<Rightarrow> list_options" where
  "next_options limit c = \<lparr>opt_Cursor = c, opt_Limit = limit\<rparr>"

definition chosen_limit :: "int option \<Rightarrow> nat" where
  "chosen_limit limit = nat (case limit of None \<Rightarrow> DefaultLimit | Some n \<Rightarrow> n)"

definition limit_allowed :: "int option \<Rightarrow> bool" where
  "limit_allowed limit \<longleftrightarrow> (case limit of None \<Rightarrow> True | Some n \<Rightarrow> 1 \<le> n \<and> n \<le> MaxLimit)"

lemma chosen_limit_pos: "limit_allowed limit \<Longrightarrow> 0 < chosen_limit limit"
  by (auto simp: limit_allowed_def chosen_limit_def DefaultLimit_def split: option.splits)

lemma base64_encode_Nil_iff [simp]: "base64_encode s = [] \<longleftrightarrow> s = []"
proof
  assume "base64_encode s = []"
  then have "base64_encode s = base64_encode []" by (simp add: base64_encode_def)
  then show "s = []" by (simp only: base64_encode_inj)
qed (simp add: base64_encode_def)

lemma Decode_empty: "limit_allowed limit \<Longrightarrow> Decode J (next_options limit []) kind scope = Inr (None, chosen_limit limit)"
  by (auto simp: Decode_def next_options_def limit_allowed_def chosen_limit_def Let_def DefaultLimit_def
      MaxLimit_def split: option.splits)

lemma Decode_marshalled:
  assumes "limit_allowed limit" and "codec_reads J kind scope k"
    and "json_marshal J (page_cursor kind scope k) = Some raw"
  shows "Decode J (next_options limit (base64_encode raw)) kind scope = Inr (Some k, chosen_limit limit)"
  using assms
  by (auto simp: Decode_def next_options_def limit_allowed_def chosen_limit_def codec_reads_def Let_def
      DefaultLimit_def MaxLimit_def base64_roundtrip page_cursor_def split: option.splits)

definition cursor_at :: "('a \<Rightarrow> time \<times> uuid) \<Rightarrow> 'a list \<Rightarrow> (time \<times> uuid) option" where
  "cursor_at key seen = (if seen = [] then None else Some (key (last seen)))"

section \<open>Following the cursors\<close>

text \<open>
  A client that asks for page after page, starting with the empty cursor, until
  \<open>NextCursor\<close> is empty; None when \<open>fuel\<close> requests were not enough.
\<close>

fun walk_pages :: "nat \<Rightarrow> (string \<Rightarrow> 'a page M) \<Rightarrow> string \<Rightarrow> 'a list option M" where
  "walk_pages 0 list_page c = ret None"
| "walk_pages (Suc fuel) list_page c = bnd (list_page c) (\<lambda>p.
     if NextCursor p = '''' then ret (Some (Items p))
     else bnd (walk_pages fuel list_page (NextCursor p)) (\<lambda>more. ret (map_option (append (Items p)) more)))"

text \<open>
  What a service's listing answers: the cursor decoded, one row more than the limit fetched,
  the page finished.
\<close>

definition serve ::
  "((time \<times> uuid) option \<Rightarrow> nat \<Rightarrow> 'a list) \<Rightarrow> ('a \<Rightarrow> time \<times> uuid) \<Rightarrow> json_codec \<Rightarrow> string \<Rightarrow> uuid
    \<Rightarrow> int option \<Rightarrow> string \<Rightarrow> err + 'a page" where
  "serve fetch key J kind scope limit c = (case Decode J (next_options limit c) kind scope of
       Inl e \<Rightarrow> Inl e
     | Inr (cur, n) \<Rightarrow> Finish J (fetch cur (Suc n)) n kind scope key)"

section \<open>The contract of a listing\<close>

text \<open>
  The rows a listing ranges over, in its order, and the statement that fetches what follows a
  cursor: \<open>before\<close> is the strict order of the statement, by which the rows are sorted.
\<close>

locale keyset_listing =
  fixes rows :: "'d \<Rightarrow> 'a list"
    and key :: "'a \<Rightarrow> time \<times> uuid"
    and before :: "time \<times> uuid \<Rightarrow> time \<times> uuid \<Rightarrow> bool"
    and fetch :: "'d \<Rightarrow> (time \<times> uuid) option \<Rightarrow> nat \<Rightarrow> 'a list"
    and good :: "'d \<Rightarrow> bool"
  assumes before_asym: "before a b \<Longrightarrow> \<not> before b a"
    and rows_sorted: "good d \<Longrightarrow> sorted_wrt (\<lambda>r s. before (key r) (key s)) (rows d)"
    and fetch_rows: "0 < n \<Longrightarrow> fetch d c n =
      take n (filter (\<lambda>r. case c of None \<Rightarrow> True | Some k \<Rightarrow> before k (key r)) (rows d))"
begin

lemma before_irrefl: "\<not> before a a"
  using before_asym by blast

text \<open>The rows after the cursor of the \<open>i\<close>-th row are the rest of the listing.\<close>

lemma filter_after:
  assumes "sorted_wrt (\<lambda>r s. before (key r) (key s)) (xs @ r # ys)"
  shows "filter (\<lambda>s. before (key r) (key s)) (xs @ r # ys) = ys"
proof -
  have "filter (\<lambda>s. before (key r) (key s)) xs = []"
    using assms before_asym by (auto simp: sorted_wrt_append filter_empty_conv)
  moreover have "filter (\<lambda>s. before (key r) (key s)) ys = ys"
    using assms by (auto simp: sorted_wrt_append)
  ultimately show ?thesis by (simp add: before_irrefl)
qed

lemma fetch_rest:
  assumes "good d" and "rows d = xs @ ys" and "0 < n"
  shows "fetch d (cursor_at key xs) n = take n ys"
proof (cases "xs = []")
  case True
  then show ?thesis using assms by (simp add: fetch_rows cursor_at_def)
next
  case False
  then have split: "rows d = butlast xs @ last xs # ys" using assms(2) by simp
  have "filter (\<lambda>s. before (key (last xs)) (key s)) (rows d) = ys"
    unfolding split by (rule filter_after) (use rows_sorted [OF assms(1)] split in simp)
  then show ?thesis using False assms(3) by (simp add: fetch_rows cursor_at_def)
qed

text \<open>One page: the next rows, and the cursor of the last of them unless nothing follows.\<close>

lemma page_step:
  assumes "good d" and "rows d = xs @ ys" and "0 < limit"
    and "\<And>r. r \<in> set (rows d) \<Longrightarrow> codec_reads J kind scope (key r)"
  obtains "length ys \<le> limit" and "Finish J (fetch d (cursor_at key xs) (Suc limit)) limit kind scope key
        = Inr \<lparr>Items = ys, NextCursor = ''''\<rparr>"
  | raw where "limit < length ys" and "raw \<noteq> ''''"
      and "json_marshal J (page_cursor kind scope (key (last (take limit ys)))) = Some raw"
      and "Finish J (fetch d (cursor_at key xs) (Suc limit)) limit kind scope key
        = Inr \<lparr>Items = take limit ys, NextCursor = base64_encode raw\<rparr>"
      and "cursor_at key (xs @ take limit ys) = Some (key (last (take limit ys)))"
proof (cases "length ys \<le> limit")
  case True
  then show ?thesis
    using that(1) fetch_rest [OF assms(1,2), of "Suc limit"] by (simp add: Finish_def)
next
  case False
  then have ne: "take limit ys \<noteq> []" using assms(3) by (cases ys) auto
  have "last (take limit ys) \<in> set (rows d)"
    using last_in_set [OF ne] assms(2) by (auto dest: in_set_takeD)
  from assms(4) [OF this] obtain raw where raw: "raw \<noteq> ''''"
    "json_marshal J (page_cursor kind scope (key (last (take limit ys)))) = Some raw"
    by (auto simp: codec_reads_def)
  have "fetch d (cursor_at key xs) (Suc limit) = take (Suc limit) ys"
    by (rule fetch_rest [OF assms(1,2)]) simp
  then have "Finish J (fetch d (cursor_at key xs) (Suc limit)) limit kind scope key
      = Inr \<lparr>Items = take limit ys, NextCursor = base64_encode raw\<rparr>"
    using False raw by (simp add: Finish_def min_def)
  moreover have "cursor_at key (xs @ take limit ys) = Some (key (last (take limit ys)))"
    using ne by (simp add: cursor_at_def)
  ultimately show ?thesis using that(2) raw False by simp
qed

text \<open>
  Following the cursors, over worlds in which the rows stay what they are, yields every row
  once and in order.
\<close>

lemma walk_from:
  assumes d: "good d" and limit: "limit_allowed limit"
    and reads: "\<And>r. r \<in> set (rows d) \<Longrightarrow> codec_reads J kind scope (key r)"
    and served: "\<And>c w cur. W w \<Longrightarrow> Decode J (next_options limit c) kind scope = Inr cur
      \<Longrightarrow> \<exists>w'. W w' \<and> list_page c w = (serve (fetch d) key J kind scope limit c, w')"
    and "rows d = xs @ ys" and "length ys < fuel" and "W w"
    and "Decode J (next_options limit c) kind scope = Inr (cursor_at key xs, chosen_limit limit)"
  shows "\<exists>w'. W w' \<and> walk_pages fuel list_page c w = (Inr (Some ys), w')"
  using assms(5-)
proof (induction fuel arbitrary: xs ys c w)
  case 0
  then show ?case by simp
next
  case (Suc fuel)
  let ?n = "chosen_limit limit"
  have pos: "0 < ?n" by (rule chosen_limit_pos [OF limit])
  from served [OF Suc.prems(3,4)] obtain w1 where w1: "W w1"
    "list_page c w = (Finish J (fetch d (cursor_at key xs) (Suc ?n)) ?n kind scope key, w1)"
    by (auto simp: serve_def Suc.prems(4))
  from d Suc.prems(1) pos reads show ?case
  proof (rule page_step)
    assume "Finish J (fetch d (cursor_at key xs) (Suc ?n)) ?n kind scope key = Inr \<lparr>Items = ys, NextCursor = ''''\<rparr>"
    then show ?thesis using w1 by (simp add: bnd_def ret_def)
  next
    fix raw
    assume more: "?n < length ys" "raw \<noteq> ''''"
      and raw: "json_marshal J (page_cursor kind scope (key (last (take ?n ys)))) = Some raw"
      and fin: "Finish J (fetch d (cursor_at key xs) (Suc ?n)) ?n kind scope key
        = Inr \<lparr>Items = take ?n ys, NextCursor = base64_encode raw\<rparr>"
      and at: "cursor_at key (xs @ take ?n ys) = Some (key (last (take ?n ys)))"
    have "rows d = (xs @ take ?n ys) @ drop ?n ys" using Suc.prems(1) by simp
    moreover have "length (drop ?n ys) < fuel" using Suc.prems(2) more(1) pos by simp
    moreover have "take ?n ys \<noteq> []" using more(1) pos by (cases ys) auto
    then have "last (take ?n ys) \<in> set (rows d)"
      using in_set_takeD [OF last_in_set] Suc.prems(1) by fastforce
    then have "Decode J (next_options limit (base64_encode raw)) kind scope
        = Inr (cursor_at key (xs @ take ?n ys), ?n)"
      using Decode_marshalled [OF limit reads raw] at by simp
    ultimately obtain w2 where "W w2"
      "walk_pages fuel list_page (base64_encode raw) w1 = (Inr (Some (drop ?n ys)), w2)"
      using Suc.IH [OF _ _ w1(1)] by blast
    then show ?thesis using w1(2) fin more(2) by (simp add: bnd_def ret_def)
  qed
qed

lemma walk_complete:
  assumes "good d" and "limit_allowed limit"
    and "\<And>r. r \<in> set (rows d) \<Longrightarrow> codec_reads J kind scope (key r)"
    and "\<And>c w cur. W w \<Longrightarrow> Decode J (next_options limit c) kind scope = Inr cur
      \<Longrightarrow> \<exists>w'. W w' \<and> list_page c w = (serve (fetch d) key J kind scope limit c, w')"
    and "length (rows d) < fuel" and "W w"
  shows "\<exists>w'. W w' \<and> walk_pages fuel list_page '''' w = (Inr (Some (rows d)), w')"
  by (rule walk_from [OF assms(1-4) _ assms(5,6), where xs = "[]"])
    (simp_all add: cursor_at_def Decode_empty [OF assms(2)])

end

end
