(* ===== verification/Store_Organization.thy ===== *)
theory Store_Organization
  imports Store_Challenge Keyset
begin

text \<open>
  The store's remaining operations on organizations (\<open>internal/store/organizations.go\<close>:
  deletion with its cascades, members, pages) and on invitations
  (\<open>internal/store/organization_invitations.go\<close>), with the constraints of the migrations
  012, 013, 018, 032 and 040.
\<close>

section \<open>Organizations and members\<close>

text \<open>
  Deleting an organization cascades to its memberships, its invitations and the pending signups
  of these; sessions and refresh tokens that still name it forbid the deletion.
\<close>

definition cascade_organization :: "uuid \<Rightarrow> db \<Rightarrow> db" where
  "cascade_organization i d =
     (let gone = (\<lambda>j. list_ex (\<lambda>v. inv_org v = i \<and> inv_id v = j) (invitations d))
      in d\<lparr>organizations := del_where (\<lambda>r. org_id r = i) (organizations d),
           memberships := del_where (\<lambda>m. mem_org m = i) (memberships d),
           invitations := del_where (\<lambda>v. inv_org v = i) (invitations d),
           pending_signups := del_where (\<lambda>p. case ps_invitation p of None \<Rightarrow> False | Some j \<Rightarrow> gone j)
             (pending_signups d)\<rparr>)"

definition store_DeleteOrganization :: "env \<Rightarrow> uuid \<Rightarrow> unit M" where
  "store_DeleteOrganization E organizationID = require_affected ErrOrganizationNotFound (exec E (\<lambda>t u d.
     let n = count_where (\<lambda>r. org_id r = organizationID) (organizations d) in
     if 0 < n \<and> (list_ex (\<lambda>r. ses_org r = organizationID) (sessions d)
          \<or> list_ex (\<lambda>r. rt_org r = organizationID) (refresh_tokens d))
     then Inl ForeignKeyViolation
     else Inr (n, cascade_organization organizationID d)))"

text \<open>The join with \<open>users\<close> does not read \<open>email_verified_at\<close>.\<close>

record organization_member =
  omr_user :: user
  omr_membership :: membership

record user_organization =
  uo_organization :: organization
  uo_membership :: membership

definition member_of :: "db \<Rightarrow> membership \<Rightarrow> organization_member list" where
  "member_of d m = map (\<lambda>r. \<lparr>omr_user = r\<lparr>usr_email_verified_at := None\<rparr>, omr_membership = m\<rparr>)
     (filter (\<lambda>r. usr_id r = mem_user m) (users d))"

definition member_rows :: "uuid \<Rightarrow> db \<Rightarrow> organization_member list" where
  "member_rows organizationID d =
     concat (map (member_of d) (sort_key (\<lambda>m. (mem_created_at m, mem_user m))
       (filter (\<lambda>m. mem_org m = organizationID) (memberships d))))"

definition member_key :: "organization_member \<Rightarrow> time \<times> uuid" where
  "member_key r = (mem_created_at (omr_membership r), mem_user (omr_membership r))"

definition ListOrganizationMembersPage ::
  "env \<Rightarrow> uuid \<Rightarrow> (time \<times> uuid) option \<Rightarrow> nat \<Rightarrow> organization_member list M" where
  "ListOrganizationMembersPage E organizationID cursor limit = query E (\<lambda>d. limit_nullif limit
     (filter (\<lambda>r. case cursor of None \<Rightarrow> True | Some c \<Rightarrow> c < member_key r) (member_rows organizationID d)))"

definition ListOrganizationMembersByOrganizationID :: "env \<Rightarrow> uuid \<Rightarrow> organization_member list M" where
  "ListOrganizationMembersByOrganizationID E organizationID =
     ListOrganizationMembersPage E organizationID None 0"

definition GetOrganizationMember :: "env \<Rightarrow> uuid \<Rightarrow> uuid \<Rightarrow> organization_member M" where
  "GetOrganizationMember E organizationID userID = query_row E ErrOrganizationMembershipNotFound
     (\<lambda>d. find (\<lambda>_. True) (concat (map (member_of d)
        (filter (\<lambda>m. mem_org m = organizationID \<and> mem_user m = userID) (memberships d)))))"

definition user_organization_rows :: "uuid \<Rightarrow> db \<Rightarrow> user_organization list" where
  "user_organization_rows userID d =
     concat (map (\<lambda>m. map (\<lambda>r. \<lparr>uo_organization = r, uo_membership = m\<rparr>)
         (filter (\<lambda>r. org_id r = mem_org m) (organizations d)))
       (sort_key (\<lambda>m. (mem_created_at m, mem_org m)) (filter (\<lambda>m. mem_user m = userID) (memberships d))))"

definition user_organization_key :: "user_organization \<Rightarrow> time \<times> uuid" where
  "user_organization_key r = (mem_created_at (uo_membership r), mem_org (uo_membership r))"

definition ListUserOrganizationsPage ::
  "env \<Rightarrow> uuid \<Rightarrow> (time \<times> uuid) option \<Rightarrow> nat \<Rightarrow> user_organization list M" where
  "ListUserOrganizationsPage E userID cursor limit = query E (\<lambda>d. take limit
     (filter (\<lambda>r. case cursor of None \<Rightarrow> True | Some c \<Rightarrow> c < user_organization_key r)
       (user_organization_rows userID d)))"

section \<open>Invitations\<close>

definition OrganizationInvitationStatusPending :: string where
  "OrganizationInvitationStatusPending = ''pending''"
definition OrganizationInvitationStatusAccepted :: string where
  "OrganizationInvitationStatusAccepted = ''accepted''"
definition OrganizationInvitationStatusRevoked :: string where
  "OrganizationInvitationStatusRevoked = ''revoked''"
definition OrganizationInvitationStatusExpired :: string where
  "OrganizationInvitationStatusExpired = ''expired''"

lemmas invitation_status_defs = OrganizationInvitationStatusPending_def
  OrganizationInvitationStatusAccepted_def OrganizationInvitationStatusRevoked_def
  OrganizationInvitationStatusExpired_def

definition invitation_Status :: "invitation \<Rightarrow> time \<Rightarrow> string" where
  "invitation_Status i now =
     (if inv_accepted_at i \<noteq> None then OrganizationInvitationStatusAccepted
      else if inv_revoked_at i \<noteq> None then OrganizationInvitationStatusRevoked
      else if inv_expires_at i \<le> now then OrganizationInvitationStatusExpired
      else OrganizationInvitationStatusPending)"

definition ConstraintInvitationTokenHash :: string where
  "ConstraintInvitationTokenHash = ''organization_invitations_token_hash_key''"
definition ConstraintActiveInvitation :: string where
  "ConstraintActiveInvitation = ''unique_active_organization_invitation_email''"

text \<open>\<open>toModelOrganizationInvitation\<close>: the columns an INSERT writes.\<close>

definition toModelOrganizationInvitation :: "invitation \<Rightarrow> invitation" where
  "toModelOrganizationInvitation i = i\<lparr>inv_email := CanonicalEmail (inv_email i),
     inv_profile := (if inv_profile i = '''' then ''authara-hosted'' else inv_profile i),
     inv_metadata := (if inv_metadata i = '''' then ''{}'' else inv_metadata i)\<rparr>"

text \<open>The CHECK on \<open>delivery_profile\<close>: \<open>^[a-z0-9][a-z0-9_-]{0,63}$\<close>.\<close>

definition profile_key_char :: "char \<Rightarrow> bool" where
  "profile_key_char c \<longleftrightarrow> is_digit c \<or> 97 \<le> code c \<and> code c \<le> 122"

definition profile_key_ok :: "string \<Rightarrow> bool" where
  "profile_key_ok s \<longleftrightarrow> s \<noteq> '''' \<and> length s \<le> 64 \<and> profile_key_char (hd s)
     \<and> list_all (\<lambda>c. profile_key_char c \<or> c = CHR ''_'' \<or> c = CHR ''-'') s"

definition active_invitation :: "uuid \<Rightarrow> string \<Rightarrow> invitation \<Rightarrow> bool" where
  "active_invitation organizationID email i \<longleftrightarrow> inv_org i = organizationID
     \<and> to_lower (inv_email i) = to_lower email \<and> inv_accepted_at i = None \<and> inv_revoked_at i = None"

text \<open>
  \<open>jsonb\<close> is what a metadata text reads back as; None when PostgreSQL refuses it (it has no
  \<open>\u0000\<close>).
\<close>

definition CreateOrganizationInvitation :: "env \<Rightarrow> (string \<Rightarrow> string option) \<Rightarrow> invitation \<Rightarrow> invitation M" where
  "CreateOrganizationInvitation E jsonb new = exec E (\<lambda>t u d.
     let m = toModelOrganizationInvitation new in
     if jsonb (inv_metadata m) = None then Inl DriverError
     else if too_long 255 (inv_email m) \<or> too_long 50 (inv_role m) \<or> too_long 64 (inv_profile m)
       \<or> too_long 512 (inv_token_hash m) then Inl ValueTooLong
     else if btrim (fit 255 (inv_email m)) = '''' \<or> fit 50 (inv_role m) \<notin> set known_org_roles
       \<or> \<not> profile_key_ok (fit 64 (inv_profile m)) then Inl CheckViolation
     else if u \<in> inv_id ` set (invitations d) then Inl (UniqueViolation ''organization_invitations_pkey'')
     else if fit 512 (inv_token_hash m) \<in> inv_token_hash ` set (invitations d)
       then Inl (UniqueViolation ConstraintInvitationTokenHash)
     else if list_ex (active_invitation (inv_org m) (fit 255 (inv_email m))) (invitations d)
       then Inl (UniqueViolation ConstraintActiveInvitation)
     else if inv_org m \<notin> org_id ` set (organizations d)
       \<or> (case inv_invited_by m of None \<Rightarrow> False | Some i \<Rightarrow> i \<notin> usr_id ` set (users d))
       then Inl ForeignKeyViolation
     else let row = m\<lparr>inv_id := u, inv_created_at := t, inv_updated_at := t,
            inv_email := fit 255 (inv_email m), inv_role := fit 50 (inv_role m),
            inv_profile := fit 64 (inv_profile m), inv_metadata := the (jsonb (inv_metadata m)),
            inv_token_hash := fit 512 (inv_token_hash m),
            inv_accepted_at := None, inv_accepted_by := None, inv_revoked_at := None, inv_revoked_by := None\<rparr>
       in Inr (row, d\<lparr>invitations := invitations d @ [row]\<rparr>))"

definition find_invitation :: "uuid \<Rightarrow> db \<Rightarrow> invitation option" where
  "find_invitation invitationID d = find (\<lambda>i. inv_id i = invitationID) (invitations d)"

definition find_invitation_hash :: "string \<Rightarrow> db \<Rightarrow> invitation option" where
  "find_invitation_hash tokenHash d = find (\<lambda>i. inv_token_hash i = tokenHash) (invitations d)"

definition GetOrganizationInvitationByID :: "env \<Rightarrow> uuid \<Rightarrow> invitation M" where
  "GetOrganizationInvitationByID E invitationID =
     query_row E ErrOrganizationInvitationNotFound (find_invitation invitationID)"

definition GetOrganizationInvitationByIDForUpdate :: "env \<Rightarrow> uuid \<Rightarrow> invitation M" where
  "GetOrganizationInvitationByIDForUpdate E invitationID =
     query_row E ErrOrganizationInvitationNotFound (find_invitation invitationID)"

definition GetOrganizationInvitationByTokenHash :: "env \<Rightarrow> string \<Rightarrow> invitation M" where
  "GetOrganizationInvitationByTokenHash E tokenHash =
     query_row E ErrOrganizationInvitationNotFound (find_invitation_hash tokenHash)"

definition GetOrganizationInvitationByTokenHashForUpdate :: "env \<Rightarrow> string \<Rightarrow> invitation M" where
  "GetOrganizationInvitationByTokenHashForUpdate E tokenHash =
     query_row E ErrOrganizationInvitationNotFound (find_invitation_hash tokenHash)"

definition GetActiveOrganizationInvitationByOrganizationAndEmail ::
  "env \<Rightarrow> uuid \<Rightarrow> string \<Rightarrow> invitation M" where
  "GetActiveOrganizationInvitationByOrganizationAndEmail E organizationID email =
     query_row E ErrOrganizationInvitationNotFound (\<lambda>d. find (\<lambda>_. True)
       (sort_key (\<lambda>i. - inv_created_at i)
         (filter (active_invitation organizationID (CanonicalEmail email)) (invitations d))))"

text \<open>Both transitions are guarded: only an invitation that is neither accepted nor revoked.\<close>

definition open_invitation :: "uuid \<Rightarrow> invitation \<Rightarrow> bool" where
  "open_invitation invitationID i \<longleftrightarrow>
     inv_id i = invitationID \<and> inv_accepted_at i = None \<and> inv_revoked_at i = None"

text \<open>Accepting names a user the foreign key asks for.\<close>

definition MarkOrganizationInvitationAccepted :: "env \<Rightarrow> uuid \<Rightarrow> uuid \<Rightarrow> time \<Rightarrow> unit M" where
  "MarkOrganizationInvitationAccepted E invitationID acceptedByUserID now =
     require_affected ErrOrganizationInvitationNotFound (exec E (\<lambda>t u d.
       let n = count_where (open_invitation invitationID) (invitations d) in
       if 0 < n \<and> acceptedByUserID \<notin> usr_id ` set (users d) then Inl ForeignKeyViolation
       else Inr (n, d\<lparr>invitations := upd_where (open_invitation invitationID)
         (\<lambda>i. i\<lparr>inv_accepted_at := Some now, inv_accepted_by := Some acceptedByUserID, inv_updated_at := t\<rparr>)
         (invitations d)\<rparr>)))"

definition MarkOrganizationInvitationRevoked :: "env \<Rightarrow> uuid \<Rightarrow> uuid option \<Rightarrow> time \<Rightarrow> unit M" where
  "MarkOrganizationInvitationRevoked E invitationID revokedByUserID now =
     require_affected ErrOrganizationInvitationNotFound (exec E (\<lambda>t u d.
       let n = count_where (open_invitation invitationID) (invitations d) in
       if 0 < n \<and> (case revokedByUserID of None \<Rightarrow> False | Some i \<Rightarrow> i \<notin> usr_id ` set (users d))
       then Inl ForeignKeyViolation
       else Inr (n, d\<lparr>invitations := upd_where (open_invitation invitationID)
         (\<lambda>i. i\<lparr>inv_revoked_at := Some now, inv_revoked_by := revokedByUserID, inv_updated_at := t\<rparr>)
         (invitations d)\<rparr>)))"

definition invitation_key :: "invitation \<Rightarrow> time \<times> uuid" where
  "invitation_key i = (inv_created_at i, inv_id i)"

definition invitation_rows :: "uuid \<Rightarrow> db \<Rightarrow> invitation list" where
  "invitation_rows organizationID d =
     rev (sort_key invitation_key (filter (\<lambda>i. inv_org i = organizationID) (invitations d)))"

definition ListOrganizationInvitationsPage ::
  "env \<Rightarrow> uuid \<Rightarrow> (time \<times> uuid) option \<Rightarrow> nat \<Rightarrow> invitation list M" where
  "ListOrganizationInvitationsPage E organizationID cursor limit = query E (\<lambda>d. limit_nullif limit
     (filter (\<lambda>i. case cursor of None \<Rightarrow> True | Some c \<Rightarrow> invitation_key i < c)
       (invitation_rows organizationID d)))"

definition ListOrganizationInvitationsByOrganizationID :: "env \<Rightarrow> uuid \<Rightarrow> invitation list M" where
  "ListOrganizationInvitationsByOrganizationID E organizationID =
     ListOrganizationInvitationsPage E organizationID None 0"

end
