(* ===== verification/Store_Auth.thy ===== *)
theory Store_Auth
  imports Store_Organization Utf8
begin

text \<open>
  The store's operations of the authentication methods: pending provider links
  (\<open>internal/store/pending_provider_linking.go\<close>), Apple credentials and the queue of tokens
  to revoke (\<open>apple_credentials.go\<close>), passkeys and WebAuthn challenges
  (\<open>passkeys.go\<close>), OAuth challenges (\<open>oauth_challenges.go\<close>), platform roles
  (\<open>user_platform_roles.go\<close>) and the deletion of a user (\<open>users.go\<close>), with the
  constraints and cascades of the migrations 001, 007, 009, 010, 013, 027, 037 and 039.
\<close>

section \<open>Pending provider links\<close>

definition PendingProviderLinkPurposeAuthenticatedLink :: string where
  "PendingProviderLinkPurposeAuthenticatedLink = ''authenticated_link''"
definition PendingProviderLinkPurposeAccountRecovery :: string where
  "PendingProviderLinkPurposeAccountRecovery = ''account_recovery_link''"

lemmas link_purpose_defs =
  PendingProviderLinkPurposeAuthenticatedLink_def PendingProviderLinkPurposeAccountRecovery_def

definition opt_long :: "string option \<Rightarrow> bool" where
  "opt_long s = (case s of None \<Rightarrow> False | Some x \<Rightarrow> too_long 255 x)"

definition opt_missing :: "uuid option \<Rightarrow> uuid list \<Rightarrow> bool" where
  "opt_missing i ids = (case i of None \<Rightarrow> False | Some x \<Rightarrow> x \<notin> set ids)"

definition CreatePendingProviderLink :: "env \<Rightarrow> provider_link \<Rightarrow> provider_link M" where
  "CreatePendingProviderLink E link = exec E (\<lambda>t u d.
     let email = map_option CanonicalEmail (pl_provider_email link) in
     if too_long 50 (pl_provider link) \<or> opt_long (pl_provider_user_id link) \<or> opt_long email
        \<or> too_long 64 (pl_purpose link) then Inl ValueTooLong
     else if pl_purpose link \<notin> {PendingProviderLinkPurposeAuthenticatedLink,
          PendingProviderLinkPurposeAccountRecovery} then Inl CheckViolation
     else if u \<in> pl_id ` set (provider_links d) then Inl (UniqueViolation ''pending_provider_links_pkey'')
     else if pl_user link \<notin> usr_id ` set (users d) \<or> opt_missing (pl_session link) (map ses_id (sessions d))
        \<or> opt_missing (pl_challenge link) (map ch_id (challenges d)) then Inl ForeignKeyViolation
     else let row = link\<lparr>pl_id := u, pl_created_at := t,
                pl_provider_user_id := map_option (fit 255) (pl_provider_user_id link),
                pl_provider_email := map_option (fit 255) email\<rparr>
       in Inr (row, d\<lparr>provider_links := provider_links d @ [row]\<rparr>))"

definition find_link :: "uuid \<Rightarrow> db \<Rightarrow> provider_link option" where
  "find_link i d = find (\<lambda>l. pl_id l = i) (provider_links d)"

definition GetPendingProviderLinkByID :: "env \<Rightarrow> uuid \<Rightarrow> provider_link M" where
  "GetPendingProviderLinkByID E i = query_row E ErrorPendingProviderLinkNotFound (find_link i)"

definition ConsumePendingProviderLink :: "env \<Rightarrow> uuid \<Rightarrow> time \<Rightarrow> unit M" where
  "ConsumePendingProviderLink E i now =
     require_affected ErrorPendingProviderLinkNotFound (exec_count E (\<lambda>_ d.
       let hit = (\<lambda>l. pl_id l = i \<and> pl_consumed_at l = None \<and> now < pl_expires_at l)
       in (count_where hit (provider_links d),
           d\<lparr>provider_links := upd_where hit (\<lambda>l. l\<lparr>pl_consumed_at := Some now\<rparr>) (provider_links d)\<rparr>)))"

definition UpdatePendingProviderLinkOAuthIdentity ::
  "env \<Rightarrow> uuid \<Rightarrow> string \<Rightarrow> string \<Rightarrow> bool \<Rightarrow> unit M" where
  "UpdatePendingProviderLinkOAuthIdentity E i providerUserID providerEmail verified =
     require_affected ErrorPendingProviderLinkNotFound (exec E (\<lambda>_ _ d.
       let hit = (\<lambda>l. pl_id l = i \<and> pl_consumed_at l = None) in
       if list_ex hit (provider_links d) \<and> (too_long 255 providerUserID \<or> too_long 255 providerEmail)
       then Inl ValueTooLong
       else Inr (count_where hit (provider_links d), d\<lparr>provider_links := upd_where hit
         (\<lambda>l. l\<lparr>pl_provider_user_id := Some (fit 255 providerUserID),
              pl_provider_email := Some (fit 255 providerEmail), pl_email_verified := verified\<rparr>)
         (provider_links d)\<rparr>)))"

section \<open>Apple credentials\<close>

definition new_revocation ::
  "uuid \<Rightarrow> uuid option \<Rightarrow> uuid \<Rightarrow> string \<Rightarrow> string \<Rightarrow> time \<Rightarrow> time \<Rightarrow> apple_revocation" where
  "new_revocation i provider context key_id secret nextAttempt t =
     \<lparr>apr_id = i, apr_provider = provider, apr_context = context, apr_key_id = key_id, apr_token = secret,
      apr_attempt_count = 0, apr_next_attempt_at = nextAttempt, apr_last_error = None,
      apr_created_at = t, apr_updated_at = t\<rparr>"

definition find_credential :: "uuid \<Rightarrow> db \<Rightarrow> apple_credential option" where
  "find_credential provider d = find (\<lambda>c. apc_provider c = provider) (apple_credentials d)"

text \<open>The credential that is replaced is queued for revocation by the same statement.\<close>

definition UpsertAppleCredential :: "env \<Rightarrow> apple_credential \<Rightarrow> uuid \<Rightarrow> unit M" where
  "UpsertAppleCredential E new revocationID = exec E (\<lambda>t _ d.
     let key = fit 128 (apc_key_id new); previous = find_credential (apc_provider new) d in
     if too_long 128 (apc_key_id new) then Inl ValueTooLong
     else case previous of
         Some old \<Rightarrow>
           if revocationID \<in> apr_id ` set (apple_revocations d)
           then Inl (UniqueViolation ''apple_token_revocations_pkey'')
           else Inr ((), d\<lparr>apple_revocations := apple_revocations d @ [new_revocation revocationID
                    (Some (apc_provider old)) (apc_provider old) (apc_key_id old) (apc_token old) t t],
                apple_credentials := upd_where (\<lambda>c. apc_provider c = apc_provider new)
                  (\<lambda>c. c\<lparr>apc_key_id := key, apc_token := apc_token new, apc_updated_at := t\<rparr>)
                  (apple_credentials d)\<rparr>)
       | None \<Rightarrow>
           if apc_provider new \<notin> prv_id ` set (auth_providers d) then Inl ForeignKeyViolation
           else Inr ((), d\<lparr>apple_credentials := apple_credentials d @
                [\<lparr>apc_provider = apc_provider new, apc_key_id = key, apc_token = apc_token new,
                  apc_created_at = t, apc_updated_at = t\<rparr>]\<rparr>))"

definition credentials_of_user :: "uuid \<Rightarrow> db \<Rightarrow> apple_credential list" where
  "credentials_of_user userID d = filter (\<lambda>c. list_ex (\<lambda>p. prv_id p = apc_provider c \<and> prv_user p = userID
     \<and> prv_provider p = ProviderApple) (auth_providers d)) (apple_credentials d)"

definition first_row :: "'r list \<Rightarrow> 'r option" where
  "first_row rs = (case rs of [] \<Rightarrow> None | r # _ \<Rightarrow> Some r)"

definition GetAppleCredentialByUserID :: "env \<Rightarrow> uuid \<Rightarrow> apple_credential M" where
  "GetAppleCredentialByUserID E userID =
     query_row E ErrorAuthProviderNotFound (\<lambda>d. first_row (credentials_of_user userID d))"

definition GetAppleCredentialByAuthProviderID :: "env \<Rightarrow> uuid \<Rightarrow> apple_credential M" where
  "GetAppleCredentialByAuthProviderID E provider =
     query_row E ErrorAuthProviderNotFound (find_credential provider)"

definition insert_revocation :: "apple_revocation \<Rightarrow> db \<Rightarrow> sql_error + (unit \<times> db)" where
  "insert_revocation row d =
     (if too_long 128 (apr_key_id row) then Inl ValueTooLong
      else if apr_id row \<in> apr_id ` set (apple_revocations d)
        then Inl (UniqueViolation ''apple_token_revocations_pkey'')
      else Inr ((), d\<lparr>apple_revocations := apple_revocations d @
             [row\<lparr>apr_key_id := fit 128 (apr_key_id row)\<rparr>]\<rparr>))"

definition CreateAppleTokenRevocation :: "env \<Rightarrow> apple_revocation \<Rightarrow> unit M" where
  "CreateAppleTokenRevocation E r = exec E (\<lambda>t _.
     if apr_next_attempt_at r \<noteq> zero_time
     then insert_revocation (new_revocation (apr_id r) (apr_provider r) (apr_context r) (apr_key_id r)
            (apr_token r) (apr_next_attempt_at r) t)
     else insert_revocation (new_revocation (apr_id r) None (apr_context r) (apr_key_id r) (apr_token r) t t))"

definition GetAppleTokenRevocationByIDForUpdate :: "env \<Rightarrow> uuid \<Rightarrow> apple_revocation M" where
  "GetAppleTokenRevocationByIDForUpdate E i = query_row E ErrorAppleTokenRevocationNotFound
     (\<lambda>d. find (\<lambda>r. apr_id r = i) (apple_revocations d))"

text \<open>\<open>ensureOneRow\<close>.\<close>

definition ensure_one_row :: "store_error \<Rightarrow> nat M \<Rightarrow> unit M" where
  "ensure_one_row e m = bnd m (\<lambda>n. guard_err (n \<noteq> 1) (EStore e))"

definition CreateAppleTokenRevocationForUser :: "env \<Rightarrow> uuid \<Rightarrow> uuid \<Rightarrow> unit M" where
  "CreateAppleTokenRevocationForUser E i userID =
     ensure_one_row ErrorAuthProviderNotFound (exec E (\<lambda>t _ d.
       let cs = credentials_of_user userID d in
       if 1 < length cs \<or> cs \<noteq> [] \<and> i \<in> apr_id ` set (apple_revocations d)
       then Inl (UniqueViolation ''apple_token_revocations_pkey'')
       else Inr (length cs, d\<lparr>apple_revocations := apple_revocations d @
         map (\<lambda>c. new_revocation i (Some (apc_provider c)) (apc_provider c) (apc_key_id c) (apc_token c) t t)
           cs\<rparr>)))"

definition next_revocation :: "time \<Rightarrow> db \<Rightarrow> apple_revocation option" where
  "next_revocation now d = first_row (sort_key
     (\<lambda>r. (apr_next_attempt_at r, apr_created_at r, apr_id r))
     (filter (\<lambda>r. apr_next_attempt_at r \<le> now) (apple_revocations d)))"

definition GetNextAppleTokenRevocation :: "env \<Rightarrow> time \<Rightarrow> apple_revocation M" where
  "GetNextAppleTokenRevocation E now =
     query_row E ErrorAppleTokenRevocationNotFound (next_revocation now)"

definition RescheduleAppleTokenRevocation :: "env \<Rightarrow> uuid \<Rightarrow> time \<Rightarrow> string \<Rightarrow> unit M" where
  "RescheduleAppleTokenRevocation E i nextAttemptAt lastError =
     ensure_one_row ErrorAppleTokenRevocationNotFound (exec_count E (\<lambda>t d.
       (count_where (\<lambda>r. apr_id r = i) (apple_revocations d),
        d\<lparr>apple_revocations := upd_where (\<lambda>r. apr_id r = i)
            (\<lambda>r. r\<lparr>apr_attempt_count := apr_attempt_count r + 1, apr_next_attempt_at := nextAttemptAt,
                 apr_last_error := Some lastError, apr_updated_at := t\<rparr>) (apple_revocations d)\<rparr>)))"

definition DeleteAppleTokenRevocation :: "env \<Rightarrow> uuid \<Rightarrow> unit M" where
  "DeleteAppleTokenRevocation E i =
     ensure_one_row ErrorAppleTokenRevocationNotFound (exec_count E (\<lambda>_ d.
       (count_where (\<lambda>r. apr_id r = i) (apple_revocations d),
        d\<lparr>apple_revocations := del_where (\<lambda>r. apr_id r = i) (apple_revocations d)\<rparr>)))"

section \<open>Passkeys\<close>

text \<open>
  The transports go through a comma-separated text on the way in and out
  (\<open>joinTransport\<close>, \<open>splitTransport\<close>); the row holds what a read returns.
\<close>

definition joinTransport :: "string list \<Rightarrow> string" where
  "joinTransport v =
     (case filter (\<lambda>p. p \<noteq> '''') (map trim_space v) of
        [] \<Rightarrow> ''''
      | p # ps \<Rightarrow> p @ concat (map (\<lambda>q. CHR '','' # q) ps))"

definition splitTransport :: "string \<Rightarrow> string list" where
  "splitTransport v = (if trim_space v = '''' then []
     else filter (\<lambda>p. p \<noteq> '''') (map trim_space (split_on (CHR '','') v)))"

definition ConstraintPasskeyCredentialID :: string where
  "ConstraintPasskeyCredentialID = ''unique_passkey_credential_id''"

text \<open>\<open>name varchar(255)\<close> counts characters.\<close>

definition name_too_long :: "string \<Rightarrow> bool" where
  "name_too_long s \<longleftrightarrow> (\<exists>r\<in>set (drop 255 (runes s)). r \<noteq> 32)"

definition name_fit :: "string \<Rightarrow> string" where
  "name_fit s = (if rune_count s \<le> 255 then s else string_of_runes (take 255 (runes s)))"

definition CreatePasskey :: "env \<Rightarrow> passkey \<Rightarrow> passkey M" where
  "CreatePasskey E new = map_err
     (\<lambda>e. if is_unique_violation e ConstraintPasskeyCredentialID then EStore ErrStorePasskeyAlreadyExists
          else e)
     (exec E (\<lambda>t u d.
       let name = (if pk_name new = '''' then ''Passkey'' else pk_name new) in
       if name_too_long name then Inl ValueTooLong
       else if u \<in> pk_id ` set (passkeys d) then Inl (UniqueViolation ''passkeys_pkey'')
       else if pk_credential_id new \<in> pk_credential_id ` set (passkeys d)
         then Inl (UniqueViolation ConstraintPasskeyCredentialID)
       else if pk_user new \<notin> usr_id ` set (users d) then Inl ForeignKeyViolation
       else let row = new\<lparr>pk_id := u, pk_created_at := t, pk_updated_at := t, pk_name := name_fit name,
                  pk_transport := splitTransport (joinTransport (pk_transport new))\<rparr>
         in Inr (row, d\<lparr>passkeys := passkeys d @ [row]\<rparr>)))"

definition ListPasskeysPageByUserID :: "env \<Rightarrow> uuid \<Rightarrow> (time \<times> uuid) option \<Rightarrow> nat \<Rightarrow> passkey list M" where
  "ListPasskeysPageByUserID E userID cursor limit = query E (\<lambda>d.
     limit_nullif limit (sort_key (\<lambda>r. (pk_created_at r, pk_id r))
       (filter (\<lambda>r. pk_user r = userID
           \<and> (case cursor of None \<Rightarrow> True | Some c \<Rightarrow> c < (pk_created_at r, pk_id r))) (passkeys d))))"

definition ListPasskeysByUserID :: "env \<Rightarrow> uuid \<Rightarrow> passkey list M" where
  "ListPasskeysByUserID E userID = ListPasskeysPageByUserID E userID None 0"

definition ListPasskeysByUserIDOffsetPage :: "env \<Rightarrow> uuid \<Rightarrow> nat \<Rightarrow> nat \<Rightarrow> passkey list M" where
  "ListPasskeysByUserIDOffsetPage E userID limit offset = query E (\<lambda>d.
     take limit (drop offset (sort_key (\<lambda>r. (pk_created_at r, pk_id r))
       (filter (\<lambda>r. pk_user r = userID) (passkeys d)))))"

definition find_passkey :: "string \<Rightarrow> db \<Rightarrow> passkey option" where
  "find_passkey credentialID d = find (\<lambda>r. pk_credential_id r = credentialID) (passkeys d)"

definition GetPasskeyByCredentialID :: "env \<Rightarrow> string \<Rightarrow> passkey M" where
  "GetPasskeyByCredentialID E credentialID = query_row E ErrPasskeyNotFound (find_passkey credentialID)"

definition DeletePasskeyByIDAndUserID :: "env \<Rightarrow> uuid \<Rightarrow> uuid \<Rightarrow> unit M" where
  "DeletePasskeyByIDAndUserID E passkeyID userID =
     require_affected ErrPasskeyNotFound (exec_count E (\<lambda>_ d.
       let hit = (\<lambda>r. pk_id r = passkeyID \<and> pk_user r = userID)
       in (count_where hit (passkeys d), d\<lparr>passkeys := del_where hit (passkeys d)\<rparr>)))"

definition UpdatePasskeyAfterLogin :: "env \<Rightarrow> string \<Rightarrow> 32 word \<Rightarrow> bool \<Rightarrow> time \<Rightarrow> unit M" where
  "UpdatePasskeyAfterLogin E credentialID signCount cloneWarning now =
     require_affected ErrPasskeyNotFound (exec_count E (\<lambda>t d.
       let hit = (\<lambda>r. pk_credential_id r = credentialID)
       in (count_where hit (passkeys d), d\<lparr>passkeys := upd_where hit
            (\<lambda>r. r\<lparr>pk_sign_count := max (pk_sign_count r) signCount,
                 pk_clone_warning := (pk_clone_warning r \<or> cloneWarning),
                 pk_last_used_at := Some now, pk_updated_at := t\<rparr>) (passkeys d)\<rparr>)))"

definition RestrictPasskey :: "env \<Rightarrow> uuid \<Rightarrow> time \<Rightarrow> unit M" where
  "RestrictPasskey E passkeyID now =
     require_affected ErrPasskeyNotFound (exec_count E (\<lambda>t d.
       let hit = (\<lambda>r. pk_id r = passkeyID)
       in (count_where hit (passkeys d), d\<lparr>passkeys := upd_where hit
            (\<lambda>r. r\<lparr>pk_restricted_at := (case pk_restricted_at r of None \<Rightarrow> Some now | Some v \<Rightarrow> Some v),
                 pk_updated_at := t\<rparr>) (passkeys d)\<rparr>)))"

text \<open>The ways a user can sign in: a password, a linked identity, a passkey that is not restricted.\<close>

definition usable_provider :: "auth_provider \<Rightarrow> bool" where
  "usable_provider p \<longleftrightarrow>
     (if prv_provider p = ProviderPassword
      then prv_password_hash p \<noteq> None \<and> prv_password_hash p \<noteq> Some ''''
      else prv_provider_user_id p \<noteq> None \<and> prv_provider_user_id p \<noteq> Some '''')"

definition auth_methods :: "uuid \<Rightarrow> db \<Rightarrow> nat" where
  "auth_methods userID d = count_where (\<lambda>p. prv_user p = userID \<and> usable_provider p) (auth_providers d)
     + count_where (\<lambda>r. pk_user r = userID \<and> pk_restricted_at r = None) (passkeys d)"

definition CountAuthMethods :: "env \<Rightarrow> uuid \<Rightarrow> nat M" where
  "CountAuthMethods E userID = query E (auth_methods userID)"

section \<open>WebAuthn and OAuth challenges\<close>

definition WebAuthnChallengePurposeRegistration :: string where
  "WebAuthnChallengePurposeRegistration = ''registration''"
definition WebAuthnChallengePurposeAuthentication :: string where
  "WebAuthnChallengePurposeAuthentication = ''authentication''"
definition WebAuthnChallengePurposeReauthentication :: string where
  "WebAuthnChallengePurposeReauthentication = ''reauthentication''"

lemmas webauthn_purpose_defs = WebAuthnChallengePurposeRegistration_def
  WebAuthnChallengePurposeAuthentication_def WebAuthnChallengePurposeReauthentication_def

definition CreateWebAuthnChallenge :: "env \<Rightarrow> webauthn_challenge \<Rightarrow> webauthn_challenge M" where
  "CreateWebAuthnChallenge E new = exec E (\<lambda>t u d.
     if too_long 64 (wc_purpose new) then Inl ValueTooLong
     else if wc_purpose new \<notin> {WebAuthnChallengePurposeRegistration,
          WebAuthnChallengePurposeAuthentication, WebAuthnChallengePurposeReauthentication}
       then Inl CheckViolation
     else if u \<in> wc_id ` set (webauthn_challenges d) then Inl (UniqueViolation ''webauthn_challenges_pkey'')
     else if opt_missing (wc_user new) (map usr_id (users d))
        \<or> opt_missing (wc_session new) (map ses_id (sessions d)) then Inl ForeignKeyViolation
     else let row = new\<lparr>wc_id := u, wc_created_at := t\<rparr>
       in Inr (row, d\<lparr>webauthn_challenges := webauthn_challenges d @ [row]\<rparr>))"

definition find_webauthn :: "uuid \<Rightarrow> db \<Rightarrow> webauthn_challenge option" where
  "find_webauthn i d = find (\<lambda>c. wc_id c = i) (webauthn_challenges d)"

definition GetWebAuthnChallengeByIDForUpdate :: "env \<Rightarrow> uuid \<Rightarrow> webauthn_challenge M" where
  "GetWebAuthnChallengeByIDForUpdate E i = query_row E ErrWebAuthnChallengeNotFound (find_webauthn i)"

definition ConsumeWebAuthnChallenge :: "env \<Rightarrow> uuid \<Rightarrow> time \<Rightarrow> unit M" where
  "ConsumeWebAuthnChallenge E i now =
     require_affected ErrWebAuthnChallengeAlreadyConsumed (exec_count E (\<lambda>_ d.
       let hit = (\<lambda>c. wc_id c = i \<and> wc_consumed_at c = None)
       in (count_where hit (webauthn_challenges d), d\<lparr>webauthn_challenges := upd_where hit
            (\<lambda>c. c\<lparr>wc_consumed_at := Some now\<rparr>) (webauthn_challenges d)\<rparr>)))"

text \<open>\<open>LEAST(expires_at, COALESCE(consumed_at, expires_at))\<close>.\<close>

definition least_end :: "time \<Rightarrow> time option \<Rightarrow> time" where
  "least_end expiresAt consumedAt = min expiresAt (case consumedAt of None \<Rightarrow> expiresAt | Some c \<Rightarrow> c)"

definition DeleteExpiredWebAuthnChallenges :: "env \<Rightarrow> time \<Rightarrow> nat \<Rightarrow> nat M" where
  "DeleteExpiredWebAuthnChallenges E now batchSize = exec_count E (\<lambda>_ d.
     let ids = map wc_id (oldest (\<lambda>c. wc_expires_at c < now \<or> wc_consumed_at c \<noteq> None)
           (\<lambda>c. (least_end (wc_expires_at c) (wc_consumed_at c), wc_id c)) batchSize (webauthn_challenges d));
         hit = (\<lambda>c. wc_id c \<in> set ids)
     in (count_where hit (webauthn_challenges d),
         d\<lparr>webauthn_challenges := del_where hit (webauthn_challenges d)\<rparr>))"

definition CreateOAuthAuthenticationChallenge :: "env \<Rightarrow> oauth_challenge \<Rightarrow> oauth_challenge M" where
  "CreateOAuthAuthenticationChallenge E new = exec E (\<lambda>t u d.
     if oc_provider new \<notin> {ProviderGoogle, ProviderApple, ProviderMicrosoft} then Inl CheckViolation
     else if u \<in> oc_id ` set (oauth_challenges d)
       then Inl (UniqueViolation ''oauth_authentication_challenges_pkey'')
     else let row = \<lparr>oc_id = u, oc_created_at = t, oc_provider = oc_provider new, oc_state = oc_state new,
                oc_nonce = oc_nonce new, oc_expires_at = oc_expires_at new, oc_consumed_at = None\<rparr>
       in Inr (row, d\<lparr>oauth_challenges := oauth_challenges d @ [row]\<rparr>))"

definition GetOAuthAuthenticationChallengeForUpdate :: "env \<Rightarrow> uuid \<Rightarrow> oauth_challenge M" where
  "GetOAuthAuthenticationChallengeForUpdate E i = query_row E ErrOAuthAuthenticationChallengeNotFound
     (\<lambda>d. find (\<lambda>c. oc_id c = i) (oauth_challenges d))"

definition ConsumeOAuthAuthenticationChallenge :: "env \<Rightarrow> uuid \<Rightarrow> time \<Rightarrow> unit M" where
  "ConsumeOAuthAuthenticationChallenge E i now =
     require_affected ErrOAuthAuthenticationChallengeConsumed (exec_count E (\<lambda>_ d.
       let hit = (\<lambda>c. oc_id c = i \<and> oc_consumed_at c = None)
       in (count_where hit (oauth_challenges d), d\<lparr>oauth_challenges := upd_where hit
            (\<lambda>c. c\<lparr>oc_consumed_at := Some now\<rparr>) (oauth_challenges d)\<rparr>)))"

definition DeleteExpiredOAuthAuthenticationChallenges :: "env \<Rightarrow> time \<Rightarrow> nat \<Rightarrow> nat M" where
  "DeleteExpiredOAuthAuthenticationChallenges E now batchSize = exec_count E (\<lambda>_ d.
     let ids = map oc_id (oldest (\<lambda>c. oc_expires_at c < now \<or> oc_consumed_at c \<noteq> None)
           (\<lambda>c. (least_end (oc_expires_at c) (oc_consumed_at c), oc_id c)) batchSize (oauth_challenges d));
         hit = (\<lambda>c. oc_id c \<in> set ids)
     in (count_where hit (oauth_challenges d), d\<lparr>oauth_challenges := del_where hit (oauth_challenges d)\<rparr>))"

section \<open>Platform roles\<close>

text \<open>The rows of \<open>platform_roles\<close> after the migrations 001, 019 and 033.\<close>

definition platform_roles :: "string list" where
  "platform_roles = [''admin'', ''operator'']"

definition getPlatformRoleIDByName :: "env \<Rightarrow> string \<Rightarrow> string M" where
  "getPlatformRoleIDByName E name =
     query_row E ErrorRoleNotFound (\<lambda>_. find (\<lambda>r. r = name) platform_roles)"

definition LockPlatformRoleByName :: "env \<Rightarrow> string \<Rightarrow> unit M" where
  "LockPlatformRoleByName E name =
     query_row E ErrorRoleNotFound (\<lambda>_. map_option (\<lambda>_. ()) (find (\<lambda>r. r = name) platform_roles))"

definition AddUserPlatformRoleByName :: "env \<Rightarrow> uuid \<Rightarrow> string \<Rightarrow> unit M" where
  "AddUserPlatformRoleByName E userID roleName = bnd (getPlatformRoleIDByName E roleName) (\<lambda>role.
     exec E (\<lambda>_ _ d.
       if (userID, role) \<in> set (user_roles d) then Inr ((), d)
       else if userID \<notin> usr_id ` set (users d) then Inl ForeignKeyViolation
       else Inr ((), d\<lparr>user_roles := user_roles d @ [(userID, role)]\<rparr>)))"

definition RemoveUserPlatformRoleByName :: "env \<Rightarrow> uuid \<Rightarrow> string \<Rightarrow> unit M" where
  "RemoveUserPlatformRoleByName E userID roleName = bnd (getPlatformRoleIDByName E roleName) (\<lambda>role.
     exec_upd E (\<lambda>_ d. d\<lparr>user_roles := del_where (\<lambda>p. p = (userID, role)) (user_roles d)\<rparr>))"

section \<open>Deleting a user\<close>

definition LockUserForAuthMethodMutation :: "env \<Rightarrow> uuid \<Rightarrow> unit M" where
  "LockUserForAuthMethodMutation E userID = LockUserForUpdate E userID"

definition unset :: "uuid \<Rightarrow> uuid option \<Rightarrow> uuid option" where
  "unset i x = (if x = Some i then None else x)"

text \<open>
  \<open>DELETE FROM users\<close> with its cascades: the rows that belong to the user go, the columns
  that only mention them become NULL.
\<close>

definition cascade_user :: "uuid \<Rightarrow> db \<Rightarrow> db" where
  "cascade_user i d0 =
     (let d = cascade_providers (\<lambda>p. prv_user p = i) (cascade_sessions (\<lambda>r. ses_user r = i) d0)
      in d\<lparr>users := del_where (\<lambda>r. usr_id r = i) (users d),
           user_roles := del_where (\<lambda>p. fst p = i) (user_roles d),
           organizations := upd_where (\<lambda>r. org_created_by r = Some i) (\<lambda>r. r\<lparr>org_created_by := None\<rparr>)
             (organizations d),
           memberships := del_where (\<lambda>m. mem_user m = i) (memberships d),
           passkeys := del_where (\<lambda>p. pk_user p = i) (passkeys d),
           webauthn_challenges := del_where (\<lambda>c. wc_user c = Some i) (webauthn_challenges d),
           auth_challenges := del_where (\<lambda>c. ac_user c = i) (auth_challenges d),
           pending_resets := del_where (\<lambda>p. pr_user p = i) (pending_resets d),
           pending_email_changes := del_where (\<lambda>p. pe_user p = i) (pending_email_changes d),
           email_verifications := del_where (\<lambda>v. ev_user v = i) (email_verifications d),
           provider_links := del_where (\<lambda>l. pl_user l = i) (provider_links d),
           invitations := map (\<lambda>v. v\<lparr>inv_invited_by := unset i (inv_invited_by v),
               inv_accepted_by := unset i (inv_accepted_by v),
               inv_revoked_by := unset i (inv_revoked_by v)\<rparr>) (invitations d),
           admin_audit_events := map (\<lambda>a. a\<lparr>aa_actor := unset i (aa_actor a),
               aa_target_user := unset i (aa_target_user a)\<rparr>) (admin_audit_events d)\<rparr>)"

text \<open>
  \<open>organization_invitation_accepted_by_required\<close> refuses the NULL in an invitation that the
  user accepted.
\<close>

definition store_DeleteUser :: "env \<Rightarrow> uuid \<Rightarrow> unit M" where
  "store_DeleteUser E userID = exec E (\<lambda>_ _ d.
     if userID \<in> usr_id ` set (users d)
        \<and> list_ex (\<lambda>v. inv_accepted_at v \<noteq> None \<and> inv_accepted_by v = Some userID) (invitations d)
     then Inl CheckViolation
     else Inr ((), if userID \<in> usr_id ` set (users d) then cascade_user userID d else d))"

definition cascade_invitations :: "(invitation \<Rightarrow> bool) \<Rightarrow> db \<Rightarrow> db" where
  "cascade_invitations p d = d\<lparr>invitations := del_where p (invitations d),
     pending_signups := del_where (\<lambda>s. case ps_invitation s of None \<Rightarrow> False
       | Some j \<Rightarrow> list_ex (\<lambda>v. p v \<and> inv_id v = j) (invitations d)) (pending_signups d)\<rparr>"

text \<open>The eight statements of \<open>DeleteUserEmailReferences\<close>, in order.\<close>

definition DeleteUserEmailReferences :: "env \<Rightarrow> uuid \<Rightarrow> string \<Rightarrow> unit M" where
  "DeleteUserEmailReferences E userID email0 =
     (let email = CanonicalEmail email0 in
      if email = '''' then ret ()
      else
      bnd (exec_upd E (\<lambda>_. cascade_invitations
             (\<lambda>v. to_lower (inv_email v) = email \<or> inv_accepted_by v = Some userID))) (\<lambda>_.
      bnd (exec_upd E (\<lambda>_ d. d\<lparr>allowed_emails :=
             del_where (\<lambda>r. to_lower (al_email r) = email) (allowed_emails d)\<rparr>)) (\<lambda>_.
      bnd (exec_upd E (\<lambda>_ d. d\<lparr>email_jobs :=
             del_where (\<lambda>j. to_lower (ej_to_email j) = email) (email_jobs d)\<rparr>)) (\<lambda>_.
      bnd (exec_upd E (\<lambda>_ d. d\<lparr>pending_signups :=
             del_where (\<lambda>p. to_lower (ps_email p) = email) (pending_signups d)\<rparr>)) (\<lambda>_.
      bnd (exec_upd E (\<lambda>_ d. d\<lparr>pending_email_changes := del_where (\<lambda>p. pe_user p = userID
             \<or> to_lower (pe_old_email p) = email \<or> to_lower (pe_new_email p) = email)
             (pending_email_changes d)\<rparr>)) (\<lambda>_.
      bnd (exec_upd E (\<lambda>_ d. d\<lparr>provider_links := del_where (\<lambda>l. pl_user l = userID
             \<or> to_lower (case pl_provider_email l of None \<Rightarrow> '''' | Some e \<Rightarrow> e) = email)
             (provider_links d)\<rparr>)) (\<lambda>_.
      bnd (exec E (\<lambda>_ _ d.
             let gone = map ch_id (filter (\<lambda>c. to_lower (ch_email c) = email) (challenges d))
             in if attached_to gone d then Inl CheckViolation else Inr ((), cascade_challenges gone d))) (\<lambda>_.
      exec_upd E (\<lambda>_ d. d\<lparr>admin_audit_events := map (\<lambda>a.
             if map_option to_lower (aa_target_email a) = Some email then a\<lparr>aa_target_email := None\<rparr> else a)
             (admin_audit_events d)\<rparr>)))))))))"

end
