(* ===== verification/Webhook.thy ===== *)
theory Webhook
  imports Encoding Security_Events
begin

text \<open>
  \<open>internal/webhook\<close>, the publishing half: event types and envelopes
  (\<open>types.go\<close>), the publishers (\<open>noop.go\<close>, \<open>filter.go\<close>,
  \<open>queue.go\<close>), the signature (\<open>sign.go\<close>) and the HTTP sender
  (\<open>sender.go\<close>). The client that posts a request, the URL parser, the validity of JSON
  text and PostgreSQL's rendering of a \<open>jsonb\<close> value are parameters.
\<close>

section \<open>Envelopes\<close>

definition EventRegistrationCompleted :: string where
  "EventRegistrationCompleted = ''registration.completed''"
definition EventUserCreated :: string where "EventUserCreated = ''user.created''"
definition EventUserUpdated :: string where "EventUserUpdated = ''user.updated''"
definition EventUserDeleted :: string where "EventUserDeleted = ''user.deleted''"
definition EventOrganizationCreated :: string where
  "EventOrganizationCreated = ''organization.created''"
definition EventOrganizationUpdated :: string where
  "EventOrganizationUpdated = ''organization.updated''"
definition EventOrganizationDeleted :: string where
  "EventOrganizationDeleted = ''organization.deleted''"
definition EventOrganizationMembershipCreated :: string where
  "EventOrganizationMembershipCreated = ''organization.membership.created''"
definition EventOrganizationMembershipUpdated :: string where
  "EventOrganizationMembershipUpdated = ''organization.membership.updated''"
definition EventOrganizationMembershipDeleted :: string where
  "EventOrganizationMembershipDeleted = ''organization.membership.deleted''"
definition EventOrganizationInvitationCreated :: string where
  "EventOrganizationInvitationCreated = ''organization.invitation.created''"
definition EventOrganizationInvitationAccepted :: string where
  "EventOrganizationInvitationAccepted = ''organization.invitation.accepted''"
definition EventOrganizationInvitationRevoked :: string where
  "EventOrganizationInvitationRevoked = ''organization.invitation.revoked''"

lemmas event_type_defs =
  EventRegistrationCompleted_def EventUserCreated_def EventUserUpdated_def EventUserDeleted_def
  EventOrganizationCreated_def EventOrganizationUpdated_def EventOrganizationDeleted_def
  EventOrganizationMembershipCreated_def EventOrganizationMembershipUpdated_def
  EventOrganizationMembershipDeleted_def EventOrganizationInvitationCreated_def
  EventOrganizationInvitationAccepted_def EventOrganizationInvitationRevoked_def

definition SupportedEventTypes :: "string list" where
  "SupportedEventTypes = [EventRegistrationCompleted, EventUserCreated, EventUserUpdated,
     EventUserDeleted, EventOrganizationCreated, EventOrganizationUpdated,
     EventOrganizationDeleted, EventOrganizationMembershipCreated,
     EventOrganizationMembershipUpdated, EventOrganizationMembershipDeleted,
     EventOrganizationInvitationCreated, EventOrganizationInvitationAccepted,
     EventOrganizationInvitationRevoked]"

text \<open>\<open>uuid.NewString\<close> makes the identifier.\<close>

definition newEnvelope :: "env \<Rightarrow> string \<Rightarrow> time \<Rightarrow> event_data \<Rightarrow> envelope M" where
  "newEnvelope E ty now dat = bnd (new_uuid E) (\<lambda>u. ret
     \<lparr>env_id = uuid_string E u, env_type = ty, env_created_at = now, env_data = dat\<rparr>)"

definition organizationData :: "organization \<Rightarrow> event_data" where
  "organizationData org = OrganizationData (org_id org) (org_name org) (org_kind org) (org_created_by org)"

definition organizationMembershipData :: "membership \<Rightarrow> event_data" where
  "organizationMembershipData m = OrganizationMembershipData (mem_org m) (mem_user m) (mem_role m)"

definition organizationInvitationMetadata :: "invitation \<Rightarrow> string" where
  "organizationInvitationMetadata i = (if inv_metadata i = '''' then ''{}'' else inv_metadata i)"

definition NewUserCreated :: "env \<Rightarrow> uuid \<Rightarrow> time \<Rightarrow> envelope M" where
  "NewUserCreated E userID now = newEnvelope E EventUserCreated now (UserData userID)"

definition NewRegistrationCompleted ::
  "env \<Rightarrow> user \<Rightarrow> organization \<Rightarrow> membership \<Rightarrow> time \<Rightarrow> envelope M" where
  "NewRegistrationCompleted E user org m now = newEnvelope E EventRegistrationCompleted now
     (RegistrationCompletedData (usr_id user) (org_id org) (org_name org) (mem_role m) ''{}'')"

definition NewUserUpdated :: "env \<Rightarrow> uuid \<Rightarrow> time \<Rightarrow> envelope M" where
  "NewUserUpdated E userID now = newEnvelope E EventUserUpdated now (UserData userID)"

definition NewUserDeleted :: "env \<Rightarrow> uuid \<Rightarrow> time \<Rightarrow> envelope M" where
  "NewUserDeleted E userID now = newEnvelope E EventUserDeleted now (UserData userID)"

definition NewOrganizationCreated :: "env \<Rightarrow> organization \<Rightarrow> time \<Rightarrow> envelope M" where
  "NewOrganizationCreated E org now = newEnvelope E EventOrganizationCreated now (organizationData org)"

definition NewOrganizationUpdated :: "env \<Rightarrow> organization \<Rightarrow> time \<Rightarrow> envelope M" where
  "NewOrganizationUpdated E org now = newEnvelope E EventOrganizationUpdated now (organizationData org)"

definition NewOrganizationDeleted :: "env \<Rightarrow> organization \<Rightarrow> time \<Rightarrow> envelope M" where
  "NewOrganizationDeleted E org now = newEnvelope E EventOrganizationDeleted now (organizationData org)"

definition NewOrganizationMembershipCreated :: "env \<Rightarrow> membership \<Rightarrow> time \<Rightarrow> envelope M" where
  "NewOrganizationMembershipCreated E m now = newEnvelope E EventOrganizationMembershipCreated now
     (OrganizationMembershipCreatedData (mem_org m) (mem_user m) (mem_role m) True None ''{}'')"

definition NewOrganizationMembershipCreatedFromInvitation ::
  "env \<Rightarrow> membership \<Rightarrow> invitation \<Rightarrow> time \<Rightarrow> envelope M" where
  "NewOrganizationMembershipCreatedFromInvitation E m i now =
     newEnvelope E EventOrganizationMembershipCreated now
       (OrganizationMembershipCreatedData (mem_org m) (mem_user m) (mem_role m) False
          (Some (inv_id i)) (organizationInvitationMetadata i))"

definition NewOrganizationMembershipUpdated :: "env \<Rightarrow> membership \<Rightarrow> time \<Rightarrow> envelope M" where
  "NewOrganizationMembershipUpdated E m now =
     newEnvelope E EventOrganizationMembershipUpdated now (organizationMembershipData m)"

definition NewOrganizationMembershipDeleted :: "env \<Rightarrow> membership \<Rightarrow> time \<Rightarrow> envelope M" where
  "NewOrganizationMembershipDeleted E m now =
     newEnvelope E EventOrganizationMembershipDeleted now (organizationMembershipData m)"

definition NewOrganizationInvitationCreated :: "env \<Rightarrow> invitation \<Rightarrow> time \<Rightarrow> envelope M" where
  "NewOrganizationInvitationCreated E i now = newEnvelope E EventOrganizationInvitationCreated now
     (OrganizationInvitationCreatedData (inv_id i) (inv_org i) (inv_email i) (inv_role i)
        (organizationInvitationMetadata i) (inv_invited_by i) (inv_expires_at i))"

definition NewOrganizationInvitationAccepted :: "env \<Rightarrow> invitation \<Rightarrow> time \<Rightarrow> envelope M" where
  "NewOrganizationInvitationAccepted E i now =
     (let acceptedAt = (case inv_accepted_at i of None \<Rightarrow> now | Some t \<Rightarrow> t);
          acceptedBy = (case inv_accepted_by i of None \<Rightarrow> nil_uuid | Some u \<Rightarrow> u)
      in newEnvelope E EventOrganizationInvitationAccepted now
           (OrganizationInvitationAcceptedData (inv_id i) (inv_org i) (inv_email i) (inv_role i)
              (organizationInvitationMetadata i) acceptedBy acceptedAt))"

definition NewOrganizationInvitationRevoked :: "env \<Rightarrow> invitation \<Rightarrow> time \<Rightarrow> envelope M" where
  "NewOrganizationInvitationRevoked E i now =
     (let revokedAt = (case inv_revoked_at i of None \<Rightarrow> now | Some t \<Rightarrow> t)
      in newEnvelope E EventOrganizationInvitationRevoked now
           (OrganizationInvitationRevokedData (inv_id i) (inv_org i) (inv_email i) (inv_role i)
              (organizationInvitationMetadata i) (inv_revoked_by i) revokedAt))"

section \<open>Publishers\<close>

text \<open>
  \<open>json.Marshal\<close> fails only on the raw JSON a payload embeds; whether a text is valid
  JSON is a parameter.
\<close>

fun raw_json :: "event_data \<Rightarrow> string option" where
  "raw_json (RegistrationCompletedData _ _ _ _ m) = Some m"
| "raw_json (OrganizationMembershipCreatedData _ _ _ _ _ m) = Some m"
| "raw_json (OrganizationInvitationCreatedData _ _ _ _ m _ _) = Some m"
| "raw_json (OrganizationInvitationAcceptedData _ _ _ _ m _ _) = Some m"
| "raw_json (OrganizationInvitationRevokedData _ _ _ _ m _ _) = Some m"
| "raw_json _ = None"

definition WebhookEventStatusPending :: string where
  "WebhookEventStatusPending = ''pending''"
definition WebhookEventStatusProcessing :: string where
  "WebhookEventStatusProcessing = ''processing''"
definition WebhookEventStatusDelivered :: string where
  "WebhookEventStatusDelivered = ''delivered''"
definition WebhookEventStatusFailed :: string where
  "WebhookEventStatusFailed = ''failed''"

lemmas webhook_status_defs =
  WebhookEventStatusPending_def WebhookEventStatusProcessing_def
  WebhookEventStatusDelivered_def WebhookEventStatusFailed_def

definition CreateWebhookEvent :: "env \<Rightarrow> string \<Rightarrow> string \<Rightarrow> envelope \<Rightarrow> webhook_event M" where
  "CreateWebhookEvent E eventID ty payload = exec E (\<lambda>t _ d.
     if too_long 64 eventID \<or> too_long 128 ty then Inl ValueTooLong
     else if fit 64 eventID \<in> wh_id ` set (webhook_events d)
       then Inl (UniqueViolation ''webhook_events_pkey'')
     else let row = \<lparr>wh_id = fit 64 eventID, wh_created_at = t, wh_updated_at = t,
                wh_type = fit 128 ty, wh_payload = payload, wh_status = WebhookEventStatusPending,
                wh_attempt_count = 0, wh_next_attempt_at = t, wh_processing_started_at = None,
                wh_last_error = None, wh_delivered_at = None\<rparr>
       in Inr (row, d\<lparr>webhook_events := webhook_events d @ [row]\<rparr>))"

definition QueuePublisher :: "env \<Rightarrow> (string \<Rightarrow> bool) \<Rightarrow> envelope \<Rightarrow> unit M" where
  "QueuePublisher E json_valid event =
     (if (case raw_json (env_data event) of None \<Rightarrow> False | Some m \<Rightarrow> \<not> json_valid m)
      then fail (EText ''marshal webhook event'')
      else bnd (CreateWebhookEvent E (env_id event) (env_type event) event) (\<lambda>_. ret ()))"

definition NoopPublisher :: "envelope \<Rightarrow> unit M" where
  "NoopPublisher evt = ret ()"

text \<open>
  A \<open>FilteringPublisher\<close>: \<open>Policy\<close>, when set, is read at every event; a nil
  \<open>Enabled\<close> map is the empty one. Nothing enabled means that everything is.
\<close>

record filtering_publisher =
  Inner :: "envelope \<Rightarrow> unit M"
  Enabled :: "string list"
  Policy :: "string list option"

definition FilteringPublish :: "filtering_publisher \<Rightarrow> envelope \<Rightarrow> unit M" where
  "FilteringPublish p evt = (case Policy p of
       Some enabled \<Rightarrow>
         if enabled = [] then Inner p evt
         else if list_ex (\<lambda>event. event = env_type evt) enabled then Inner p evt
         else ret ()
     | None \<Rightarrow>
         if Enabled p = [] then Inner p evt
         else if env_type evt \<notin> set (Enabled p) then ret ()
         else Inner p evt)"

section \<open>Signature and sender\<close>

definition SignaturePrefix :: string where "SignaturePrefix = ''sha256=''"

definition Sign :: "env \<Rightarrow> string \<Rightarrow> string \<Rightarrow> string" where
  "Sign E secret body = SignaturePrefix @ hex_encode (hmac_sha256 E secret body)"

definition EventHeader :: string where "EventHeader = ''X-Authara-Event''"
definition DeliveryHeader :: string where "DeliveryHeader = ''X-Authara-Delivery''"
definition SignatureHeader :: string where "SignatureHeader = ''X-Authara-Signature''"

definition RetryReasonNetworkError :: string where "RetryReasonNetworkError = ''network_error''"
definition RetryReasonHTTP429 :: string where "RetryReasonHTTP429 = ''http_429''"
definition RetryReasonHTTP5xx :: string where "RetryReasonHTTP5xx = ''http_5xx''"
definition RetryReasonOtherHTTP4xx :: string where "RetryReasonOtherHTTP4xx = ''other_http_4xx''"

lemmas retry_reason_defs =
  RetryReasonNetworkError_def RetryReasonHTTP429_def RetryReasonHTTP5xx_def RetryReasonOtherHTTP4xx_def

definition RetryOn :: "string list" where
  "RetryOn = [RetryReasonNetworkError, RetryReasonHTTP429, RetryReasonHTTP5xx]"

definition RetryNotOn :: "string list" where
  "RetryNotOn = [RetryReasonOtherHTTP4xx]"

text \<open>What the HTTP client answers: a transport error, or a response with a status code.\<close>

datatype http_result = TransportError string | Response int

definition retryReason :: "http_result \<Rightarrow> string" where
  "retryReason r = (case r of
       TransportError _ \<Rightarrow> RetryReasonNetworkError
     | Response c \<Rightarrow>
         if c = 429 then RetryReasonHTTP429
         else if 500 \<le> c \<and> c \<le> 599 then RetryReasonHTTP5xx
         else if 400 \<le> c \<and> c \<le> 499 then RetryReasonOtherHTTP4xx
         else '''')"

definition shouldRetryReason :: "string \<Rightarrow> bool" where
  "shouldRetryReason reason \<longleftrightarrow> reason \<in> set RetryOn"

definition shouldNotRetryReason :: "string \<Rightarrow> bool" where
  "shouldNotRetryReason reason \<longleftrightarrow> reason \<in> set RetryNotOn"

text \<open>
  The client runs while the rest of the system goes on: it is a step of the world, of which a
  proof assumes what it needs.
\<close>

record sender =
  URL :: string
  Secret :: string
  Client :: "string \<Rightarrow> (string \<times> string) list \<Rightarrow> string \<Rightarrow> world \<Rightarrow> http_result \<times> world"

definition call_client :: "(world \<Rightarrow> 'a \<times> world) \<Rightarrow> 'a M" where
  "call_client c = (\<lambda>w. case c w of (r, w1) \<Rightarrow> (Inr r, w1))"

definition request_headers :: "env \<Rightarrow> sender \<Rightarrow> string \<Rightarrow> string \<Rightarrow> string \<Rightarrow> (string \<times> string) list" where
  "request_headers E s eventType deliveryID body =
     [(''Content-Type'', ''application/json''), (EventHeader, eventType),
      (DeliveryHeader, deliveryID), (SignatureHeader, Sign E (Secret s) body)]"

text \<open>The result is Go's pair: may the delivery be retried, and the error.\<close>

definition sendOnce ::
  "env \<Rightarrow> (string \<Rightarrow> bool) \<Rightarrow> sender \<Rightarrow> string \<Rightarrow> string \<Rightarrow> string \<Rightarrow> (bool \<times> string option) M" where
  "sendOnce E url_valid s eventType deliveryID body =
     (if \<not> url_valid (URL s) then ret (False, Some ''build webhook request'')
      else bnd (call_client (Client s (URL s) (request_headers E s eventType deliveryID body) body))
        (\<lambda>resp. case resp of
            TransportError msg \<Rightarrow>
              ret (shouldRetryReason (retryReason resp), Some (''send webhook request: '' @ msg))
          | Response c \<Rightarrow>
              if 200 \<le> c \<and> c < 300 then ret (False, None)
              else let reason = retryReason resp;
                       msg = ''webhook endpoint returned status '' @ format_int c
                in if shouldRetryReason reason then ret (True, Some msg)
                   else if shouldNotRetryReason reason then ret (False, Some msg)
                   else ret (False, Some msg)))"

text \<open>Publishing directly, without the queue (\<open>Sender.Publish\<close>).\<close>

definition PublishPayload ::
  "env \<Rightarrow> (string \<Rightarrow> bool) \<Rightarrow> sender \<Rightarrow> string \<Rightarrow> string \<Rightarrow> string \<Rightarrow> unit M" where
  "PublishPayload E url_valid s eventType deliveryID body =
     bnd (sendOnce E url_valid s eventType deliveryID body) (\<lambda>(_, err).
       case err of None \<Rightarrow> ret () | Some msg \<Rightarrow> fail (EText msg))"

lemma retryable_iff:
  "shouldRetryReason (retryReason r) \<longleftrightarrow>
     (case r of TransportError _ \<Rightarrow> True | Response c \<Rightarrow> c = 429 \<or> 500 \<le> c \<and> c \<le> 599)"
  by (auto simp: shouldRetryReason_def retryReason_def RetryOn_def retry_reason_defs
      split: http_result.splits)

lemma keeps_newEnvelope [keeps_intro]: "keeps J (newEnvelope E ty now dat)"
  unfolding newEnvelope_def by (intro keeps_intro)

lemma keeps_CreateWebhookEvent:
  assumes "\<And>d x. J d \<Longrightarrow> J (d\<lparr>webhook_events := x\<rparr>)"
  shows "keeps J (CreateWebhookEvent E i ty p)"
  unfolding CreateWebhookEvent_def
  by (rule keeps_exec) (auto simp: assms Let_def split: if_splits)

end
