(* ===== verification/Apple_Credentials.thy ===== *)
theory Apple_Credentials
  imports Store_Auth Webhook
begin

text \<open>
  Apple refresh tokens (\<open>internal/oauth/apple/credentials.go\<close>, \<open>revoker.go\<close>):
  kept encrypted with AES-GCM under the id of their provider row, archived for revocation when
  they are replaced, staged for a link that is not yet confirmed, and revoked at Apple by the
  maintenance.

  AES-GCM is the library \<open>aead\<close> (key, nonce, text, additional data); the call to Apple is
  the field \<open>ap_revoke\<close>.
\<close>

record aead =
  gcm_seal :: "string \<Rightarrow> string \<Rightarrow> string \<Rightarrow> string \<Rightarrow> string"
  gcm_open :: "string \<Rightarrow> string \<Rightarrow> string \<Rightarrow> string \<Rightarrow> string option"

record apple_service =
  ap_aead :: aead
  ap_active_key :: string
  ap_keys :: "(string \<times> string) list"
  ap_revoke :: "(string \<Rightarrow> world \<Rightarrow> err option \<times> world) option"

definition nonceSize :: nat where
  "nonceSize = 12"

definition NewCredentials ::
  "aead \<Rightarrow> string \<Rightarrow> (string \<times> string) list \<Rightarrow> (string \<Rightarrow> world \<Rightarrow> err option \<times> world) option
    \<Rightarrow> err + apple_service" where
  "NewCredentials lib activeKeyID keys revoker =
     (if activeKeyID = '''' then Inl (EText ''apple credential active key id is required'')
      else if (case map_of keys activeKeyID of None \<Rightarrow> True | Some k \<Rightarrow> length k \<noteq> 32)
        then Inl (EText ''apple credential active key must contain 32 bytes'')
      else if list_ex (\<lambda>p. length (snd p) \<noteq> 32) keys then Inl (EText ''apple credential key must contain 32 bytes'')
      else Inr \<lparr>ap_aead = lib, ap_active_key = activeKeyID, ap_keys = keys, ap_revoke = revoker\<rparr>)"

section \<open>Encryption\<close>

definition newAEAD :: "string \<Rightarrow> err option" where
  "newAEAD key = (if length key \<in> {16, 24, 32} then None else Some (EText ''crypto/aes: invalid key size''))"

definition encrypt :: "env \<Rightarrow> apple_service \<Rightarrow> string \<Rightarrow> string \<Rightarrow> string \<Rightarrow> string M" where
  "encrypt E C key plaintext additionalData = (case newAEAD key of
       Some e \<Rightarrow> fail e
     | None \<Rightarrow> bnd (rand_read E nonceSize) (\<lambda>nonce.
         ret (nonce @ gcm_seal (ap_aead C) key nonce plaintext additionalData)))"

definition decrypt :: "apple_service \<Rightarrow> string \<Rightarrow> string \<Rightarrow> string \<Rightarrow> err + string" where
  "decrypt C key ciphertext additionalData = (case newAEAD key of
       Some e \<Rightarrow> Inl e
     | None \<Rightarrow>
         if length ciphertext < nonceSize then Inl (EText ''apple credential ciphertext is invalid'')
         else (case gcm_open (ap_aead C) key (take nonceSize ciphertext) (drop nonceSize ciphertext)
                 additionalData of
             None \<Rightarrow> Inl (EText ''cipher: message authentication failed'')
           | Some p \<Rightarrow> Inr p))"

text \<open>The key of the active id; \<open>NewCredentials\<close> has checked that there is one.\<close>

definition active_key :: "apple_service \<Rightarrow> string" where
  "active_key C = (case map_of (ap_keys C) (ap_active_key C) of None \<Rightarrow> '''' | Some k \<Rightarrow> k)"

section \<open>Keeping a token\<close>

definition apple_Revoke :: "apple_service \<Rightarrow> string \<Rightarrow> unit M" where
  "apple_Revoke C refreshToken = (case ap_revoke C of
       None \<Rightarrow> ret ()
     | Some call \<Rightarrow> if refreshToken = '''' then ret ()
         else bnd (call_client (call refreshToken)) (\<lambda>r. case r of None \<Rightarrow> ret () | Some e \<Rightarrow> fail e))"

definition apple_Save :: "env \<Rightarrow> apple_service \<Rightarrow> uuid \<Rightarrow> string \<Rightarrow> unit M" where
  "apple_Save E C userID refreshToken =
     (if refreshToken = '''' then fail (EText ''apple refresh token is empty'')
      else
      bnd (GetAuthProviderByMethodAndUserIDForUpdate E ProviderApple userID) (\<lambda>provider.
      bnd (encrypt E C (active_key C) refreshToken (uuid_string E (prv_id provider))) (\<lambda>ciphertext.
      bnd (new_uuid E) (\<lambda>revocationID.
      UpsertAppleCredential E \<lparr>apc_provider = prv_id provider, apc_key_id = ap_active_key C,
          apc_token = ciphertext, apc_created_at = zero_time, apc_updated_at = zero_time\<rparr> revocationID))))"

definition QueueRevocation :: "env \<Rightarrow> apple_service \<Rightarrow> string \<Rightarrow> unit M" where
  "QueueRevocation E C refreshToken =
     (if refreshToken = '''' then ret ()
      else
      bnd (new_uuid E) (\<lambda>i.
      bnd (encrypt E C (active_key C) refreshToken (uuid_string E i)) (\<lambda>ciphertext.
      CreateAppleTokenRevocation E
        (new_revocation i None i (ap_active_key C) ciphertext zero_time zero_time))))"

definition StageProviderLink :: "env \<Rightarrow> apple_service \<Rightarrow> uuid \<Rightarrow> string \<Rightarrow> time \<Rightarrow> unit M" where
  "StageProviderLink E C linkID refreshToken expiresAt =
     (if linkID = nil_uuid \<or> refreshToken = '''' \<or> expiresAt = zero_time
      then fail (EText ''pending Apple provider credential is invalid'')
      else
      bnd (encrypt E C (active_key C) refreshToken (uuid_string E linkID)) (\<lambda>ciphertext.
      CreateAppleTokenRevocation E
        (new_revocation linkID None linkID (ap_active_key C) ciphertext expiresAt zero_time)))"

definition stored_text :: "env \<Rightarrow> apple_service \<Rightarrow> string \<Rightarrow> string \<Rightarrow> uuid \<Rightarrow> err + string" where
  "stored_text E C key_id ciphertext context = (case map_of (ap_keys C) key_id of
       None \<Rightarrow> Inl (EText ''apple credential encryption key is unavailable'')
     | Some key \<Rightarrow> decrypt C key ciphertext (uuid_string E context))"

definition PromoteProviderLink :: "env \<Rightarrow> apple_service \<Rightarrow> uuid \<Rightarrow> uuid \<Rightarrow> unit M" where
  "PromoteProviderLink E C userID linkID =
     bnd (GetAppleTokenRevocationByIDForUpdate E linkID) (\<lambda>r.
     if apr_provider r \<noteq> None \<or> apr_context r \<noteq> linkID
     then fail (EText ''pending Apple provider credential is invalid'')
     else
     bnd (of_sum (stored_text E C (apr_key_id r) (apr_token r) linkID)) (\<lambda>plaintext.
     bnd (apple_Save E C userID plaintext) (\<lambda>_.
     DeleteAppleTokenRevocation E linkID)))"

section \<open>Revoking the queued tokens\<close>

definition revocationRetryBase :: duration where "revocationRetryBase = minute"
definition revocationRetryMax :: duration where "revocationRetryMax = 24 * hour"

text \<open>A negative shift would panic; the count in the table starts at 0 and only grows.\<close>

definition revocationRetryDelay :: "int \<Rightarrow> duration" where
  "revocationRetryDelay tries =
     (let shift = (if 10 < tries then 10 else tries);
          delay = revocationRetryBase * 2 ^ nat shift
      in if revocationRetryMax < delay then revocationRetryMax else delay)"

text \<open>
  One queued token: what is still the current credential of its provider leaves the queue
  without being revoked; otherwise Apple is asked. The result is the error to retry after, or
  whether the row was the current credential.
\<close>

definition still_current :: "env \<Rightarrow> apple_service \<Rightarrow> apple_revocation \<Rightarrow> string \<Rightarrow> bool M" where
  "still_current E C r plaintext = (case apr_provider r of
       None \<Rightarrow> ret False
     | Some provider \<Rightarrow>
         try_bnd (GetAppleCredentialByAuthProviderID E provider)
           (\<lambda>e. if errors_is e (EStore ErrorAuthProviderNotFound) then ret False else fail e)
           (\<lambda>current. bnd (of_sum (stored_text E C (apc_key_id current) (apc_token current)
                (apc_provider current))) (\<lambda>currentPlaintext. ret (plaintext = currentPlaintext))))"

definition revoke_queued :: "env \<Rightarrow> apple_service \<Rightarrow> apple_revocation \<Rightarrow> bool M" where
  "revoke_queued E C r =
     bnd (of_sum (stored_text E C (apr_key_id r) (apr_token r) (apr_context r))) (\<lambda>plaintext.
     bnd (still_current E C r plaintext) (\<lambda>current.
     if current then ret True else bnd (apple_Revoke C plaintext) (\<lambda>_. ret False)))"

text \<open>\<open>err.Error()\<close> is the parameter \<open>text_of\<close>. The result is the count and \<open>more\<close>.\<close>

definition ProcessRevocationBatch ::
  "env \<Rightarrow> apple_service \<Rightarrow> (err \<Rightarrow> string) \<Rightarrow> time \<Rightarrow> (nat \<times> bool) M" where
  "ProcessRevocationBatch E C text_of now =
     try_bnd (GetNextAppleTokenRevocation E now)
       (\<lambda>e. if errors_is e (EStore ErrorAppleTokenRevocationNotFound) then ret (0, False) else fail e)
       (\<lambda>r. try_bnd (revoke_queued E C r)
          (\<lambda>e. bnd (RescheduleAppleTokenRevocation E (apr_id r)
                 (now + revocationRetryDelay (apr_attempt_count r)) (text_of e)) (\<lambda>_. ret (1, True)))
          (\<lambda>_. bnd (DeleteAppleTokenRevocation E (apr_id r)) (\<lambda>_. ret (1, True))))"

text \<open>\<open>NewFallbackRevoker\<close>: the first of several clients that succeeds.\<close>

fun fallback_Revoke ::
  "(string \<Rightarrow> world \<Rightarrow> err option \<times> world) list \<Rightarrow> err list \<Rightarrow> string \<Rightarrow> world \<Rightarrow> err option \<times> world" where
  "fallback_Revoke [] errs t w = (if errs = [] then None else Some (EJoin errs), w)"
| "fallback_Revoke (r # rs) errs t w = (case r t w of
       (None, w1) \<Rightarrow> (None, w1)
     | (Some e, w1) \<Rightarrow> fallback_Revoke rs (errs @ [e]) t w1)"

end
