(* ===== verification/Organization_Service.thy ===== *)
theory Organization_Service
  imports Store_Organization Session_Service Webhook
begin

text \<open>
  \<open>internal/organization\<close>: modes and signup plans (\<open>mode.go\<close>), organizations and
  their members (\<open>service.go\<close>, \<open>lifecycle.go\<close>) and invitations
  (\<open>invitations.go\<close>). A handler is its sequence of store, cache, mail and webhook calls
  inside \<open>with_tx\<close>.
\<close>

section \<open>Modes\<close>

definition OrgModePersonal :: string where "OrgModePersonal = ''personal''"
definition OrgModeSingle :: string where "OrgModeSingle = ''single''"
definition OrgModeMulti :: string where "OrgModeMulti = ''multi''"
definition SignupSourceDirect :: string where "SignupSourceDirect = ''direct''"
definition SignupSourceInvite :: string where "SignupSourceInvite = ''invite''"

lemmas mode_defs = OrgModePersonal_def OrgModeSingle_def OrgModeMulti_def SignupSourceDirect_def
  SignupSourceInvite_def

record signup_plan =
  CreateInitialOrg :: bool
  InitialOrgKind :: string
  plan_AcceptInvitation :: bool

definition SignupOrganizationPlanFor :: "string \<Rightarrow> string \<Rightarrow> err + signup_plan" where
  "SignupOrganizationPlanFor mode source =
     (if mode = OrgModePersonal then
        if source = SignupSourceInvite then Inl (EOrganization ErrOrganizationInviteForbidden)
        else Inr \<lparr>CreateInitialOrg = True, InitialOrgKind = OrganizationKindPersonal, plan_AcceptInvitation = False\<rparr>
      else if mode = OrgModeSingle then
        if source = SignupSourceInvite
        then Inr \<lparr>CreateInitialOrg = False, InitialOrgKind = '''', plan_AcceptInvitation = True\<rparr>
        else Inr \<lparr>CreateInitialOrg = True, InitialOrgKind = OrganizationKindTeam, plan_AcceptInvitation = False\<rparr>
      else if mode = OrgModeMulti then
        Inr \<lparr>CreateInitialOrg = True, InitialOrgKind = OrganizationKindPersonal,
             plan_AcceptInvitation = (source = SignupSourceInvite)\<rparr>
      else Inl (EOrganization ErrInvalidOrganizationMode))"

definition AllowsInvitations :: "string \<Rightarrow> bool" where
  "AllowsInvitations m \<longleftrightarrow> m = OrgModeSingle \<or> m = OrgModeMulti"
definition AllowsOrgSwitching :: "string \<Rightarrow> bool" where
  "AllowsOrgSwitching m \<longleftrightarrow> m = OrgModeMulti"
definition AllowsUserCreatedTeamOrgs :: "string \<Rightarrow> bool" where
  "AllowsUserCreatedTeamOrgs m \<longleftrightarrow> m = OrgModeMulti"
definition AllowsLeaveOrg :: "string \<Rightarrow> bool" where
  "AllowsLeaveOrg m \<longleftrightarrow> m = OrgModeSingle \<or> m = OrgModeMulti"
definition HasVisibleOrganizations :: "string \<Rightarrow> bool" where
  "HasVisibleOrganizations m \<longleftrightarrow> m = OrgModeSingle \<or> m = OrgModeMulti"

section \<open>The service\<close>

text \<open>
  The libraries the invitations use: \<open>net/mail\<close>'s address parser (the address part),
  \<open>net/url\<close> (a URL with one more parameter in its query, or in its fragment), and what
  PostgreSQL makes of a metadata text.
\<close>

record invitation_lib =
  mail_address :: "string \<Rightarrow> string option"
  url_with :: "string \<Rightarrow> string \<Rightarrow> bool \<Rightarrow> string \<Rightarrow> string option"
  jsonb_text :: "string \<Rightarrow> string option"

record delivery_profile =
  dp_Target :: string
  dp_URL :: string
  dp_EmailAction :: string
  dp_TokenTransport :: string

definition DefaultInvitationDeliveryProfile :: string where
  "DefaultInvitationDeliveryProfile = ''authara-hosted''"
definition InvitationTargetHosted :: string where "InvitationTargetHosted = ''authara_hosted''"
definition InvitationTargetExternal :: string where "InvitationTargetExternal = ''external''"
definition InvitationTargetNone :: string where "InvitationTargetNone = ''none''"
definition InvitationEmailLinkOnly :: string where "InvitationEmailLinkOnly = ''link_only''"
definition InvitationEmailLinkAndCode :: string where "InvitationEmailLinkAndCode = ''link_and_code''"
definition InvitationEmailCodeOnly :: string where "InvitationEmailCodeOnly = ''code_only''"
definition InvitationTokenQuery :: string where "InvitationTokenQuery = ''query''"
definition InvitationTokenFragment :: string where "InvitationTokenFragment = ''fragment''"

text \<open>
  \<open>Config\<close> and \<open>Service\<close>: the policies are read at the start of a call and do not
  change during it.
\<close>

record organization_service =
  os_publish :: "envelope \<Rightarrow> unit M"
  os_InvitationTTL :: duration
  os_UserEnabled :: bool
  os_publicURL :: string
  os_mode :: string
  os_profiles :: "(string \<times> delivery_profile) list"
  os_defaultProfile :: string
  os_revocations :: "revocations option"
  os_lib :: invitation_lib
  os_json :: json_codec

definition hosted_profile :: delivery_profile where
  "hosted_profile = \<lparr>dp_Target = InvitationTargetHosted, dp_URL = '''',
     dp_EmailAction = InvitationEmailLinkAndCode, dp_TokenTransport = InvitationTokenQuery\<rparr>"

text \<open>\<open>New\<close>: the hosted profile is always there; trailing slashes of the public URL go.\<close>

definition new_organization_service :: "organization_service \<Rightarrow> organization_service" where
  "new_organization_service cfg = cfg\<lparr>
     os_publicURL := rev (dropWhile (\<lambda>c. c = CHR ''/'') (rev (os_publicURL cfg))),
     os_profiles := (if map_of (os_profiles cfg) DefaultInvitationDeliveryProfile = None
       then (DefaultInvitationDeliveryProfile, hosted_profile) # os_profiles cfg else os_profiles cfg),
     os_defaultProfile := (if os_defaultProfile cfg = '''' then DefaultInvitationDeliveryProfile
       else os_defaultProfile cfg)\<rparr>"

definition publish_event :: "organization_service \<Rightarrow> envelope M \<Rightarrow> unit M" where
  "publish_event S mk = bnd mk (os_publish S)"

definition defaultOrganizationName :: "string \<Rightarrow> string \<Rightarrow> string" where
  "defaultOrganizationName username email =
     (if trim_space username \<noteq> '''' then trim_space username
      else let e = trim_space email; local = takeWhile (\<lambda>c. c \<noteq> CHR ''@'') e
        in if CHR ''@'' \<in> set e \<and> local \<noteq> '''' then local else ''Personal workspace'')"

section \<open>Initial organizations\<close>

definition EnsureInitialOrganization ::
  "env \<Rightarrow> organization_service \<Rightarrow> user \<Rightarrow> string \<Rightarrow> (organization \<times> membership \<times> bool) option M" where
  "EnsureInitialOrganization E S user source =
     (case SignupOrganizationPlanFor (os_mode S) source of
        Inl e \<Rightarrow> fail e
      | Inr plan \<Rightarrow>
          if \<not> CreateInitialOrg plan then ret None
          else bnd (with_tx E (EnsureOrganizationForUserWithCreated E (usr_id user)
                 (defaultOrganizationName (usr_username user) (usr_email user)) (InitialOrgKind plan)))
               (\<lambda>r. ret (Some r)))"

definition EnsureDefaultOrganization ::
  "env \<Rightarrow> organization_service \<Rightarrow> user \<Rightarrow> (organization \<times> membership) option M" where
  "EnsureDefaultOrganization E S user = with_tx E
     (bnd (EnsureInitialOrganization E S user SignupSourceDirect) (\<lambda>r. case r of
        None \<Rightarrow> ret None
      | Some (org, m, created) \<Rightarrow>
          if \<not> created then ret (Some (org, m))
          else bnd (now_utc E) (\<lambda>now.
            bnd (publish_event S (NewOrganizationCreated E org now)) (\<lambda>_.
            bnd (publish_event S (NewOrganizationMembershipCreated E m now)) (\<lambda>_.
            ret (Some (org, m)))))))"

section \<open>Organizations\<close>

definition service_CreateOrganization ::
  "env \<Rightarrow> organization_service \<Rightarrow> string \<Rightarrow> uuid \<Rightarrow> (organization \<times> membership) M" where
  "service_CreateOrganization E S name createdBy =
     (if \<not> AllowsUserCreatedTeamOrgs (os_mode S) then fail (EOrganization ErrOrganizationOperationForbidden)
      else if createdBy = nil_uuid then fail (EStore ErrUserNotFound)
      else with_tx E
        (bnd (GetUserByID E createdBy) (\<lambda>_.
         bnd (CreateOrganization E \<lparr>org_id = nil_uuid, org_created_at = zero_time, org_updated_at = zero_time,
                org_name = name, org_kind = OrganizationKindTeam, org_created_by = Some createdBy\<rparr>) (\<lambda>org.
         bnd (CreateOrganizationMembership E \<lparr>mem_org = org_id org, mem_user = createdBy,
                mem_role = OrganizationRoleOwner, mem_created_at = zero_time, mem_updated_at = zero_time\<rparr>) (\<lambda>m.
         bnd (now_utc E) (\<lambda>now.
         bnd (publish_event S (NewOrganizationCreated E org now)) (\<lambda>_.
         bnd (publish_event S (NewOrganizationMembershipCreated E m now)) (\<lambda>_.
         ret (org, m)))))))))"

definition UpdateOrganization :: "env \<Rightarrow> organization_service \<Rightarrow> uuid \<Rightarrow> string \<Rightarrow> organization M" where
  "UpdateOrganization E S organizationID name =
     (if organizationID = nil_uuid then fail (EStore ErrOrganizationNotFound)
      else with_tx E
        (bnd (UpdateOrganizationName E organizationID name) (\<lambda>org.
         bnd (now_utc E) (\<lambda>now.
         bnd (publish_event S (NewOrganizationUpdated E org now)) (\<lambda>_. ret org)))))"

fun with_organizations :: "env \<Rightarrow> membership list \<Rightarrow> user_organization list M" where
  "with_organizations E [] = ret []"
| "with_organizations E (m # ms) = bnd (GetOrganizationByID E (mem_org m)) (\<lambda>org.
     bnd (with_organizations E ms) (\<lambda>rest. ret (\<lparr>uo_organization = org, uo_membership = m\<rparr> # rest)))"

definition ListUserOrganizations :: "env \<Rightarrow> uuid \<Rightarrow> user_organization list M" where
  "ListUserOrganizations E userID = bnd (ListOrganizationMembershipsByUserID E userID) (with_organizations E)"

definition ListUserMemberships :: "env \<Rightarrow> uuid \<Rightarrow> user_organization list M" where
  "ListUserMemberships E userID = bnd (GetUserByID E userID) (\<lambda>_. ListUserOrganizations E userID)"

section \<open>Pages (\<open>pagination.go\<close>)\<close>

definition membersCursorKind :: string where "membersCursorKind = ''organization_members''"
definition membershipsCursorKind :: string where "membershipsCursorKind = ''user_memberships''"
definition organizationsCursorKind :: string where "organizationsCursorKind = ''user_organizations''"
definition invitationsCursorKind :: string where "invitationsCursorKind = ''organization_invitations''"

definition decodeListOptions ::
  "json_codec \<Rightarrow> list_options \<Rightarrow> string \<Rightarrow> uuid \<Rightarrow> err + ((time \<times> uuid) option \<times> nat)" where
  "decodeListOptions J opts kind scope = (case Decode J opts kind scope of
       Inl _ \<Rightarrow> Inl (EOrganization ErrInvalidOrganizationListPage)
     | Inr r \<Rightarrow> Inr r)"

text \<open>The common shape: decode, fetch one row more, finish.\<close>

definition list_page ::
  "json_codec \<Rightarrow> list_options \<Rightarrow> string \<Rightarrow> uuid \<Rightarrow> ((time \<times> uuid) option \<Rightarrow> nat \<Rightarrow> 'a list M)
    \<Rightarrow> ('a \<Rightarrow> time \<times> uuid) \<Rightarrow> 'a page M" where
  "list_page J opts kind scope fetch key =
     bnd (of_sum (decodeListOptions J opts kind scope)) (\<lambda>(cursor, limit).
     bnd (fetch cursor (Suc limit)) (\<lambda>items. of_sum (Finish J items limit kind scope key)))"

definition service_ListUserOrganizationsPage ::
  "env \<Rightarrow> organization_service \<Rightarrow> uuid \<Rightarrow> list_options \<Rightarrow> user_organization page M" where
  "service_ListUserOrganizationsPage E S userID opts =
     list_page (os_json S) opts organizationsCursorKind userID (ListUserOrganizationsPage E userID) user_organization_key"

definition ListUserMembershipsPage ::
  "env \<Rightarrow> organization_service \<Rightarrow> uuid \<Rightarrow> list_options \<Rightarrow> user_organization page M" where
  "ListUserMembershipsPage E S userID opts = bnd (GetUserByID E userID) (\<lambda>_.
     list_page (os_json S) opts membershipsCursorKind userID (ListUserOrganizationsPage E userID) user_organization_key)"

definition service_ListOrganizationMembersPage ::
  "env \<Rightarrow> organization_service \<Rightarrow> uuid \<Rightarrow> list_options \<Rightarrow> organization_member page M" where
  "service_ListOrganizationMembersPage E S organizationID opts = bnd (GetOrganizationByID E organizationID) (\<lambda>_.
     list_page (os_json S) opts membersCursorKind organizationID (ListOrganizationMembersPage E organizationID) member_key)"

definition ListOrganizationMembers :: "env \<Rightarrow> uuid \<Rightarrow> organization_member list M" where
  "ListOrganizationMembers E organizationID = bnd (GetOrganizationByID E organizationID) (\<lambda>_.
     ListOrganizationMembersByOrganizationID E organizationID)"

definition ListCurrentOrganizationMembers ::
  "env \<Rightarrow> organization_service \<Rightarrow> uuid \<Rightarrow> uuid \<Rightarrow> organization_member list M" where
  "ListCurrentOrganizationMembers E S userID organizationID =
     (if \<not> HasVisibleOrganizations (os_mode S) then fail (EOrganization ErrOrganizationOperationForbidden)
      else bnd (GetOrganizationMembership E organizationID userID) (\<lambda>_. ListOrganizationMembers E organizationID))"

definition ListCurrentOrganizationMembersPage ::
  "env \<Rightarrow> organization_service \<Rightarrow> uuid \<Rightarrow> uuid \<Rightarrow> list_options \<Rightarrow> organization_member page M" where
  "ListCurrentOrganizationMembersPage E S userID organizationID opts =
     (if \<not> HasVisibleOrganizations (os_mode S) then fail (EOrganization ErrOrganizationOperationForbidden)
      else bnd (GetOrganizationMembership E organizationID userID)
        (\<lambda>_. service_ListOrganizationMembersPage E S organizationID opts))"

definition service_GetOrganizationMember :: "env \<Rightarrow> uuid \<Rightarrow> uuid \<Rightarrow> organization_member M" where
  "service_GetOrganizationMember E organizationID userID = bnd (GetOrganizationByID E organizationID) (\<lambda>_.
     GetOrganizationMember E organizationID userID)"

section \<open>Roles\<close>

text \<open>An actor who is no member is reported as such.\<close>

definition actor_membership :: "env \<Rightarrow> uuid \<Rightarrow> uuid \<Rightarrow> membership M" where
  "actor_membership E organizationID actorUserID =
     map_err (\<lambda>e. if errors_is e (EStore ErrOrganizationMembershipNotFound)
         then EOrganization ErrOrganizationActorNotMember else e)
       (GetOrganizationMembership E organizationID actorUserID)"

definition UpdateOrganizationMember ::
  "env \<Rightarrow> organization_service \<Rightarrow> uuid \<Rightarrow> uuid \<Rightarrow> uuid \<Rightarrow> string \<Rightarrow> membership M" where
  "UpdateOrganizationMember E S organizationID userID actorUserID role =
     (if role \<noteq> OrganizationRoleAdmin \<and> role \<noteq> OrganizationRoleMember
      then fail (EOrganization ErrInvalidOrganizationRole)
      else with_tx E
        (bnd (GetOrganizationByIDForUpdate E organizationID) (\<lambda>org.
         bnd (actor_membership E organizationID actorUserID) (\<lambda>actor.
         bnd (GetOrganizationMembership E organizationID userID) (\<lambda>current.
         if mem_role actor \<noteq> OrganizationRoleOwner
            \<and> (mem_role actor \<noteq> OrganizationRoleAdmin \<or> mem_role current = OrganizationRoleOwner)
         then fail (EOrganization ErrOrganizationActorNotAllowed)
         else if mem_role current = OrganizationRoleOwner then fail (EOrganization ErrLastOrganizationOwner)
         else if mem_role current = role then ret current
         else
         bnd (now_utc E) (\<lambda>now.
         bnd (RevokeMembershipTokens E (os_revocations S) userID organizationID now) (\<lambda>_.
         bnd (UpdateOrganizationMembershipRole E organizationID userID role) (\<lambda>m.
         bnd (GetUserByID E userID) (\<lambda>user.
         bnd (Enqueue E (usr_email user) EmailTemplateOrganizationRoleChanged
            [(TemplateVariableOrganizationName, org_name org),
             (TemplateVariablePreviousRole, mem_role current),
             (TemplateVariableRole, mem_role m),
             (TemplateVariableOccurredAt, OccurredAt E now)] now) (\<lambda>_.
         bnd (publish_event S (NewOrganizationMembershipUpdated E m now)) (\<lambda>_.
         ret m)))))))))))"

section \<open>Leaving, removing, deleting (\<open>lifecycle.go\<close>)\<close>

definition canRemoveOrganizationMember :: "string \<Rightarrow> string \<Rightarrow> bool" where
  "canRemoveOrganizationMember actorRole targetRole \<longleftrightarrow> actorRole = OrganizationRoleOwner
     \<or> actorRole = OrganizationRoleAdmin \<and> targetRole \<noteq> OrganizationRoleOwner"

definition countOrganizationOwners :: "membership list \<Rightarrow> nat" where
  "countOrganizationOwners ms = length (filter (\<lambda>m. mem_role m = OrganizationRoleOwner) ms)"

definition removeOrganizationMembership ::
  "env \<Rightarrow> organization_service \<Rightarrow> organization \<Rightarrow> membership \<Rightarrow> time \<Rightarrow> bool \<Rightarrow> unit M" where
  "removeOrganizationMembership E S org m now notify =
     bnd (if notify then bnd (GetUserByID E (mem_user m)) (\<lambda>u. ret (Some u)) else ret None) (\<lambda>user.
     bnd (RevokeMembershipTokens E (os_revocations S) (mem_user m) (mem_org m) now) (\<lambda>_.
     bnd (DeleteSessionsByOrganizationMembership E (mem_org m) (mem_user m)) (\<lambda>_.
     bnd (DeleteOrganizationMembership E (mem_org m) (mem_user m)) (\<lambda>_.
     bnd (case user of None \<Rightarrow> ret ()
        | Some u \<Rightarrow> Enqueue E (usr_email u) EmailTemplateOrganizationMembershipRemoved
            [(TemplateVariableOrganizationName, org_name org), (TemplateVariableRole, mem_role m),
             (TemplateVariableOccurredAt, OccurredAt E now)] now) (\<lambda>_.
     publish_event S (NewOrganizationMembershipDeleted E m now))))))"

fun user_emails :: "env \<Rightarrow> membership list \<Rightarrow> string list M" where
  "user_emails E [] = ret []"
| "user_emails E (m # ms) = bnd (GetUserByID E (mem_user m)) (\<lambda>u.
     bnd (user_emails E ms) (\<lambda>rest. ret (usr_email u # rest)))"

definition deleteOrganization ::
  "env \<Rightarrow> organization_service \<Rightarrow> organization \<Rightarrow> membership list \<Rightarrow> time \<Rightarrow> bool \<Rightarrow> unit M" where
  "deleteOrganization E S org ms now notify =
     bnd (if notify then user_emails E ms else ret []) (\<lambda>recipients.
     bnd (for_each (\<lambda>m. RevokeMembershipTokens E (os_revocations S) (mem_user m) (org_id org) now) ms) (\<lambda>_.
     bnd (DeleteSessionsByOrganization E (org_id org)) (\<lambda>_.
     bnd (store_DeleteOrganization E (org_id org)) (\<lambda>_.
     bnd (for_each (\<lambda>recipient. Enqueue E recipient EmailTemplateOrganizationDeleted
            [(TemplateVariableOrganizationName, org_name org),
             (TemplateVariableOccurredAt, OccurredAt E now)] now) recipients) (\<lambda>_.
     publish_event S (NewOrganizationDeleted E org now))))))"

definition RemoveOrganizationMember ::
  "env \<Rightarrow> organization_service \<Rightarrow> uuid \<Rightarrow> uuid \<Rightarrow> uuid \<Rightarrow> unit M" where
  "RemoveOrganizationMember E S organizationID userID actorUserID = with_tx E
     (bnd (GetOrganizationByIDForUpdate E organizationID) (\<lambda>org.
      if org_kind org = OrganizationKindPersonal
         \<and> (os_mode S \<noteq> OrgModeMulti \<or> org_created_by org = None \<or> org_created_by org = Some userID)
      then fail (EOrganization ErrPersonalOrganizationImmutable)
      else
      bnd (actor_membership E organizationID actorUserID) (\<lambda>actor.
      bnd (GetOrganizationMembership E organizationID userID) (\<lambda>target.
      if actorUserID \<noteq> userID \<and> \<not> canRemoveOrganizationMember (mem_role actor) (mem_role target)
      then fail (EOrganization ErrOrganizationActorNotAllowed)
      else
      bnd (ListOrganizationMembershipsByOrganizationID E organizationID) (\<lambda>ms.
      if length ms = 1 then fail (EOrganization ErrLastOrganizationMember)
      else if mem_role target = OrganizationRoleOwner \<and> countOrganizationOwners ms = 1
      then fail (EOrganization ErrLastOrganizationOwner)
      else bnd (now_utc E) (\<lambda>now. removeOrganizationMembership E S org target now True))))))"

definition DeleteOrganizationMember :: "env \<Rightarrow> organization_service \<Rightarrow> uuid \<Rightarrow> uuid \<Rightarrow> unit M" where
  "DeleteOrganizationMember E S organizationID userID = RemoveOrganizationMember E S organizationID userID userID"

definition DeleteOrganization :: "env \<Rightarrow> organization_service \<Rightarrow> uuid \<Rightarrow> uuid \<Rightarrow> unit M" where
  "DeleteOrganization E S organizationID actorUserID = with_tx E
     (bnd (GetOrganizationByIDForUpdate E organizationID) (\<lambda>org.
      if org_kind org = OrganizationKindPersonal then fail (EOrganization ErrPersonalOrganizationImmutable)
      else
      bnd (actor_membership E organizationID actorUserID) (\<lambda>actor.
      if mem_role actor \<noteq> OrganizationRoleOwner then fail (EOrganization ErrOrganizationActorNotAllowed)
      else
      bnd (ListOrganizationMembershipsByOrganizationID E organizationID) (\<lambda>ms.
      if os_mode S = OrgModeSingle \<and> 1 < length ms then fail (EOrganization ErrOrganizationHasOtherMembers)
      else bnd (now_utc E) (\<lambda>now. deleteOrganization E S org ms now True)))))"

definition TransferOrganizationOwnership ::
  "env \<Rightarrow> organization_service \<Rightarrow> uuid \<Rightarrow> uuid \<Rightarrow> uuid \<Rightarrow> unit M" where
  "TransferOrganizationOwnership E S organizationID actorUserID newOwnerUserID =
     (if actorUserID = newOwnerUserID then fail (EOrganization ErrInvalidOrganizationOwnershipTransfer)
      else with_tx E
        (bnd (map_err (\<lambda>e. if errors_is e (EStore ErrUserNotFound)
             then EOrganization ErrOrganizationActorNotMember else e) (LockUserForKeyShare E actorUserID)) (\<lambda>_.
         bnd (map_err (\<lambda>e. if errors_is e (EStore ErrUserNotFound)
             then EStore ErrOrganizationMembershipNotFound else e) (LockUserForKeyShare E newOwnerUserID)) (\<lambda>_.
         bnd (GetOrganizationByIDForUpdate E organizationID) (\<lambda>org.
         if org_kind org = OrganizationKindPersonal then fail (EOrganization ErrPersonalOrganizationImmutable)
         else
         bnd (actor_membership E organizationID actorUserID) (\<lambda>actor.
         if mem_role actor \<noteq> OrganizationRoleOwner then fail (EOrganization ErrOrganizationActorNotAllowed)
         else
         bnd (GetOrganizationMembership E organizationID newOwnerUserID) (\<lambda>_.
         bnd (GetUserByID E actorUserID) (\<lambda>previousOwnerUser.
         bnd (GetUserByID E newOwnerUserID) (\<lambda>newOwnerUser.
         bnd (now_utc E) (\<lambda>now.
         bnd (for_each (\<lambda>userID. RevokeMembershipTokens E (os_revocations S) userID organizationID now)
                [newOwnerUserID, actorUserID]) (\<lambda>_.
         bnd (UpdateOrganizationMembershipRole E organizationID actorUserID OrganizationRoleAdmin) (\<lambda>oldOwner.
         bnd (UpdateOrganizationMembershipRole E organizationID newOwnerUserID OrganizationRoleOwner) (\<lambda>newOwner.
         bnd (for_each (\<lambda>m. publish_event S (NewOrganizationMembershipUpdated E m now)) [newOwner, oldOwner]) (\<lambda>_.
         for_each (\<lambda>recipient. Enqueue E recipient EmailTemplateOrganizationOwnershipTransferred
             [(TemplateVariableOrganizationName, org_name org),
              (TemplateVariablePreviousOwnerEmail, usr_email previousOwnerUser),
              (TemplateVariableNewOwnerEmail, usr_email newOwnerUser),
              (TemplateVariableOccurredAt, OccurredAt E now)] now)
           [usr_email previousOwnerUser, usr_email newOwnerUser]))))))))))))))"

subsection \<open>Before a user is deleted\<close>

record locked_organization =
  lo_organization :: organization
  lo_membership :: membership
  lo_memberships :: "membership list"

fun lock_organizations :: "env \<Rightarrow> uuid \<Rightarrow> membership list \<Rightarrow> locked_organization list M" where
  "lock_organizations E userID [] = ret []"
| "lock_organizations E userID (m # ms) =
     try_bnd (GetOrganizationByIDForUpdate E (mem_org m))
       (\<lambda>e. if errors_is e (EStore ErrOrganizationNotFound) then lock_organizations E userID ms else fail e)
       (\<lambda>org. bnd (ListOrganizationMembershipsByOrganizationID E (org_id org)) (\<lambda>all_ms.
          case find (\<lambda>c. mem_user c = userID) all_ms of
            None \<Rightarrow> lock_organizations E userID ms
          | Some own \<Rightarrow> bnd (lock_organizations E userID ms) (\<lambda>rest.
              ret (\<lparr>lo_organization = org, lo_membership = own, lo_memberships = all_ms\<rparr> # rest))))"

text \<open>What forbids the deletion of the user, organization by organization.\<close>

definition deletion_refused :: "organization_service \<Rightarrow> uuid \<Rightarrow> locked_organization \<Rightarrow> organization_error option" where
  "deletion_refused S userID item =
     (let org = lo_organization item; ms = lo_memberships item in
      if org_kind org = OrganizationKindPersonal \<and> org_created_by org = None
      then Some ErrPersonalOrganizationImmutable
      else if org_kind org = OrganizationKindPersonal \<and> org_created_by org = Some userID then None
      else if org_kind org = OrganizationKindPersonal \<and> os_mode S \<noteq> OrgModeMulti
      then Some ErrPersonalOrganizationImmutable
      else if length ms = 1 \<and> org_kind org \<noteq> OrganizationKindTeam then Some ErrLastOrganizationMember
      else if 1 < length ms \<and> mem_role (lo_membership item) = OrganizationRoleOwner
        \<and> countOrganizationOwners ms = 1 then Some ErrLastOrganizationOwner
      else None)"

definition goes_with_user :: "uuid \<Rightarrow> locked_organization \<Rightarrow> bool" where
  "goes_with_user userID item \<longleftrightarrow>
     org_kind (lo_organization item) = OrganizationKindPersonal \<and> org_created_by (lo_organization item) = Some userID
     \<or> org_kind (lo_organization item) = OrganizationKindTeam \<and> length (lo_memberships item) = 1"

definition PrepareUserDeletion :: "env \<Rightarrow> organization_service \<Rightarrow> uuid \<Rightarrow> unit M" where
  "PrepareUserDeletion E S userID =
     bnd (ListOrganizationMembershipsByUserID E userID) (\<lambda>ms.
     bnd (lock_organizations E userID (sort_key mem_org ms)) (\<lambda>locked.
     bnd (for_each (\<lambda>item. case deletion_refused S userID item of
            None \<Rightarrow> ret () | Some e \<Rightarrow> fail (EOrganization e)) locked) (\<lambda>_.
     bnd (now_utc E) (\<lambda>now.
     for_each (\<lambda>item.
         if goes_with_user userID item
         then deleteOrganization E S (lo_organization item) (lo_memberships item) now False
         else removeOrganizationMembership E S (lo_organization item) (lo_membership item) now False) locked))))"

end
