(* ===== verification/Organization_Invitations.thy ===== *)
theory Organization_Invitations
  imports Organization_Service
begin

text \<open>
  \<open>internal/organization/invitations.go\<close>: inviting, resending, previewing, revoking and
  accepting. A raw token leaves the program only in the mail and in the answer to the inviter;
  the store keeps its SHA-256.
\<close>

section \<open>Input and tokens\<close>

definition normalizeInvitationEmail :: "invitation_lib \<Rightarrow> string \<Rightarrow> err + string" where
  "normalizeInvitationEmail L raw =
     (let email = CanonicalEmail raw in
      if email = '''' \<or> mail_address L email \<noteq> Some email
      then Inl (EOrganization ErrInvalidOrganizationInvitationEmail) else Inr email)"

definition normalizeInvitationRole :: "string \<Rightarrow> err + string" where
  "normalizeInvitationRole role =
     (if role = '''' then Inr OrganizationRoleMember
      else if role \<noteq> OrganizationRoleMember \<and> role \<noteq> OrganizationRoleAdmin
      then Inl (EOrganization ErrInvalidOrganizationRole) else Inr role)"

definition maxInvitationMetadataBytes :: nat where
  "maxInvitationMetadataBytes = 16 * 1024"

text \<open>
  The metadata as \<open>json.Marshal\<close> renders it: None for a nil map, \<open>Some None\<close> when it
  cannot be rendered.
\<close>

definition normalizeInvitationMetadata :: "string option option \<Rightarrow> err + string" where
  "normalizeInvitationMetadata metadata = (case metadata of
       None \<Rightarrow> Inr ''{}''
     | Some None \<Rightarrow> Inl (EOrganization ErrInvalidOrganizationInvitationMetadata)
     | Some (Some raw) \<Rightarrow>
         if maxInvitationMetadataBytes < length raw
         then Inl (EOrganization ErrInvalidOrganizationInvitationMetadata) else Inr raw)"

definition canInvite :: "string \<Rightarrow> bool" where
  "canInvite role \<longleftrightarrow> role = OrganizationRoleOwner \<or> role = OrganizationRoleAdmin"

definition hashInvitationToken :: "env \<Rightarrow> string \<Rightarrow> err + string" where
  "hashInvitationToken E rawToken =
     (if rawToken = '''' then Inl (EOrganization ErrInvalidOrganizationInvitationToken)
      else Inr (hex_encode (sha256 E rawToken)))"

definition generateInvitationToken :: "env \<Rightarrow> (string \<times> string) M" where
  "generateInvitationToken E = bnd (rand_read E 32) (\<lambda>b.
     bnd (of_sum (hashInvitationToken E (base64_encode b))) (\<lambda>tokenHash. ret (base64_encode b, tokenHash)))"

definition normalizeNow :: "env \<Rightarrow> time \<Rightarrow> time M" where
  "normalizeNow E now = (if now = zero_time then now_utc E else ret now)"

definition invitationDeliveryProfile :: "organization_service \<Rightarrow> string \<Rightarrow> err + (string \<times> delivery_profile)" where
  "invitationDeliveryProfile S rawKey =
     (let key = (if trim_space rawKey = '''' then os_defaultProfile S else trim_space rawKey) in
      case map_of (os_profiles S) key of
        None \<Rightarrow> Inl (EOrganization ErrInvalidInvitationDeliveryProfile)
      | Some profile \<Rightarrow>
          if dp_Target profile = InvitationTargetHosted \<and> \<not> os_UserEnabled S
          then Inl (EOrganization ErrInvalidInvitationDeliveryProfile) else Inr (key, profile))"

definition inviteURL :: "organization_service \<Rightarrow> delivery_profile \<Rightarrow> string \<Rightarrow> err + string" where
  "inviteURL S profile rawToken =
     (if dp_Target profile = InvitationTargetNone then Inr ''''
      else let hosted = dp_Target profile = InvitationTargetHosted;
               base = (if hosted
                 then (if os_publicURL S = '''' then ''http://localhost:3000'' else os_publicURL S)
                   @ ''/auth/invitations/accept''
                 else dp_URL profile);
               parameter = (if hosted then ''token'' else ''invitation_code'')
        in (case url_with (os_lib S) base parameter (dp_TokenTransport profile = InvitationTokenFragment) rawToken of
              None \<Rightarrow> Inl (EText ''build invitation url'')
            | Some u \<Rightarrow> Inr u))"

definition HostedInvitationFallbackURL :: "organization_service \<Rightarrow> string \<Rightarrow> err + string" where
  "HostedInvitationFallbackURL S rawToken = (case map_of (os_profiles S) (os_defaultProfile S) of
       None \<Rightarrow> Inl (EOrganization ErrInvalidInvitationDeliveryProfile)
     | Some profile \<Rightarrow> if dp_Target profile \<noteq> InvitationTargetExternal then Inr ''''
         else inviteURL S profile rawToken)"

definition invitation_template :: "delivery_profile \<Rightarrow> string" where
  "invitation_template profile =
     (if dp_EmailAction profile = InvitationEmailLinkOnly then EmailTemplateOrganizationInviteLinkOnly
      else if dp_EmailAction profile = InvitationEmailCodeOnly then EmailTemplateOrganizationInviteCodeOnly
      else EmailTemplateOrganizationInvite)"

definition enqueueInvitationEmail ::
  "env \<Rightarrow> invitation \<Rightarrow> organization \<Rightarrow> delivery_profile \<Rightarrow> string \<Rightarrow> string \<Rightarrow> time \<Rightarrow> unit M" where
  "enqueueInvitationEmail E i org profile url rawToken now =
     bnd (CreateEmailJob E (new_email_job None (inv_email i) (invitation_template profile)
            [(''organization_name'', org_name org), (''invite_url'', url), (''invitation_code'', rawToken),
             (''role'', inv_role i), (''expires_at'', rfc3339 E (inv_expires_at i))]
            now (inv_expires_at i))) (\<lambda>_. ret ())"

definition ensureInvitationTargetNotMember :: "env \<Rightarrow> uuid \<Rightarrow> string \<Rightarrow> unit M" where
  "ensureInvitationTargetNotMember E organizationID email =
     try_bnd (GetUserByEmail E email)
       (\<lambda>e. if errors_is e (EStore ErrUserNotFound) then ret () else fail e)
       (\<lambda>target. try_bnd (GetOrganizationMembership E organizationID (usr_id target))
          (\<lambda>e. if errors_is e (EStore ErrOrganizationMembershipNotFound) then ret () else fail e)
          (\<lambda>_. fail (EOrganization ErrOrganizationMemberAlreadyExists)))"

section \<open>Inviting\<close>

record create_invitation =
  ci_organization :: uuid
  ci_actor :: uuid
  ci_email :: string
  ci_role :: string
  ci_profile :: string
  ci_metadata :: "string option option"
  ci_now :: time

record invitation_with_token =
  iwt_invitation :: invitation
  iwt_RawToken :: string
  iwt_InviteURL :: string

definition new_invitation ::
  "uuid \<Rightarrow> string \<Rightarrow> string \<Rightarrow> string \<Rightarrow> string \<Rightarrow> string \<Rightarrow> uuid option \<Rightarrow> time \<Rightarrow> invitation" where
  "new_invitation org email role profile metadata tokenHash invitedBy expiresAt =
     \<lparr>inv_id = nil_uuid, inv_created_at = zero_time, inv_updated_at = zero_time, inv_org = org,
      inv_email = email, inv_role = role, inv_profile = profile, inv_metadata = metadata,
      inv_token_hash = tokenHash, inv_invited_by = invitedBy, inv_expires_at = expiresAt,
      inv_accepted_at = None, inv_accepted_by = None, inv_revoked_at = None, inv_revoked_by = None\<rparr>"

text \<open>\<open>CreateOrganizationInvitation\<close> with the error of a concurrent invitation translated.\<close>

definition create_pending :: "env \<Rightarrow> organization_service \<Rightarrow> invitation \<Rightarrow> invitation M" where
  "create_pending E S i = map_err
     (\<lambda>e. if is_unique_violation e ConstraintActiveInvitation
        then EOrganization ErrOrganizationInvitationAlreadyPending else e)
     (CreateOrganizationInvitation E (jsonb_text (os_lib S)) i)"

definition revoke_expired :: "env \<Rightarrow> create_invitation \<Rightarrow> string \<Rightarrow> time \<Rightarrow> unit M" where
  "revoke_expired E inp email now =
     try_bnd (GetActiveOrganizationInvitationByOrganizationAndEmail E (ci_organization inp) email)
       (\<lambda>e. if errors_is e (EStore ErrOrganizationInvitationNotFound) then ret () else fail e)
       (\<lambda>existing. if now < inv_expires_at existing
          then fail (EOrganization ErrOrganizationInvitationAlreadyPending)
          else MarkOrganizationInvitationRevoked E (inv_id existing) (Some (ci_actor inp)) now)"

definition CreateInvitation :: "env \<Rightarrow> organization_service \<Rightarrow> create_invitation \<Rightarrow> invitation_with_token M" where
  "CreateInvitation E S inp =
     bnd (normalizeNow E (ci_now inp)) (\<lambda>now.
     bnd (of_sum (normalizeInvitationEmail (os_lib S) (ci_email inp))) (\<lambda>email.
     bnd (of_sum (normalizeInvitationRole (ci_role inp))) (\<lambda>role.
     bnd (of_sum (normalizeInvitationMetadata (ci_metadata inp))) (\<lambda>metadata.
     if \<not> AllowsInvitations (os_mode S) then fail (EOrganization ErrOrganizationInviteForbidden)
     else
     bnd (of_sum (invitationDeliveryProfile S (ci_profile inp))) (\<lambda>(profileKey, profile).
     if ci_actor inp = nil_uuid then fail (EOrganization ErrOrganizationActorNotMember)
     else
     bnd (generateInvitationToken E) (\<lambda>(rawToken, tokenHash).
     bnd (of_sum (inviteURL S profile rawToken)) (\<lambda>url.
     with_tx E
       (bnd (map_err (\<lambda>e. if errors_is e (EStore ErrUserNotFound)
            then EOrganization ErrOrganizationActorNotMember else e) (LockUserForKeyShare E (ci_actor inp))) (\<lambda>_.
        bnd (LockOrganizationForKeyShare E (ci_organization inp)) (\<lambda>_.
        bnd (GetOrganizationByID E (ci_organization inp)) (\<lambda>org.
        bnd (actor_membership E (ci_organization inp) (ci_actor inp)) (\<lambda>m.
        if \<not> canInvite (mem_role m) then fail (EOrganization ErrOrganizationInviteForbidden)
        else
        bnd (ensureInvitationTargetNotMember E (ci_organization inp) email) (\<lambda>_.
        bnd (revoke_expired E inp email now) (\<lambda>_.
        bnd (create_pending E S (new_invitation (org_id org) email role profileKey metadata tokenHash
               (Some (ci_actor inp)) (now + os_InvitationTTL S))) (\<lambda>created.
        bnd (enqueueInvitationEmail E created org profile url rawToken now) (\<lambda>_.
        bnd (publish_event S (NewOrganizationInvitationCreated E created now)) (\<lambda>_.
        ret \<lparr>iwt_invitation = created, iwt_RawToken = rawToken, iwt_InviteURL = url\<rparr>)))))))))))))))))"

definition ResendInvitation ::
  "env \<Rightarrow> organization_service \<Rightarrow> uuid \<Rightarrow> uuid \<Rightarrow> time \<Rightarrow> invitation_with_token M" where
  "ResendInvitation E S organizationID invitationID now0 =
     (if \<not> AllowsInvitations (os_mode S) then fail (EOrganization ErrOrganizationInviteForbidden)
      else
      bnd (GetOrganizationInvitationByID E invitationID) (\<lambda>preview.
      if inv_org preview \<noteq> organizationID then fail (EStore ErrOrganizationInvitationNotFound)
      else
      bnd (normalizeNow E now0) (\<lambda>now.
      bnd (of_sum (invitationDeliveryProfile S (inv_profile preview))) (\<lambda>(profileKey, profile).
      bnd (generateInvitationToken E) (\<lambda>(rawToken, tokenHash).
      bnd (of_sum (inviteURL S profile rawToken)) (\<lambda>url.
      with_tx E
        (bnd (case inv_invited_by preview of None \<Rightarrow> ret ()
            | Some inviter \<Rightarrow> try_bnd (LockUserForKeyShare E inviter)
                (\<lambda>e. if errors_is e (EStore ErrUserNotFound) then ret () else fail e) ret) (\<lambda>_.
         bnd (LockOrganizationForKeyShare E organizationID) (\<lambda>_.
         bnd (GetOrganizationByID E organizationID) (\<lambda>org.
         bnd (GetOrganizationInvitationByIDForUpdate E invitationID) (\<lambda>old.
         if inv_org old \<noteq> organizationID then fail (EStore ErrOrganizationInvitationNotFound)
         else if invitation_Status old now = OrganizationInvitationStatusAccepted
         then fail (EOrganization ErrOrganizationInvitationAlreadyAccepted)
         else if invitation_Status old now = OrganizationInvitationStatusRevoked
         then fail (EOrganization ErrOrganizationInvitationRevoked)
         else
         bnd (ensureInvitationTargetNotMember E (inv_org old) (inv_email old)) (\<lambda>_.
         bnd (MarkOrganizationInvitationRevoked E (inv_id old) (inv_invited_by old) now) (\<lambda>_.
         let revoked = old\<lparr>inv_revoked_at := Some now, inv_revoked_by := inv_invited_by old\<rparr> in
         bnd (create_pending E S (new_invitation (inv_org old) (inv_email old) (inv_role old) profileKey
                (inv_metadata old) tokenHash (inv_invited_by old) (now + os_InvitationTTL S))) (\<lambda>created.
         bnd (enqueueInvitationEmail E created org profile url rawToken now) (\<lambda>_.
         bnd (publish_event S (NewOrganizationInvitationRevoked E revoked now)) (\<lambda>_.
         bnd (publish_event S (NewOrganizationInvitationCreated E created now)) (\<lambda>_.
         ret \<lparr>iwt_invitation = created, iwt_RawToken = rawToken, iwt_InviteURL = url\<rparr>)))))))))))))))))"

section \<open>Looking\<close>

definition InvitationByToken :: "env \<Rightarrow> organization_service \<Rightarrow> string \<Rightarrow> (invitation \<times> organization) M" where
  "InvitationByToken E S rawToken =
     (if \<not> AllowsInvitations (os_mode S) then fail (EOrganization ErrOrganizationInviteForbidden)
      else bnd (of_sum (hashInvitationToken E (trim_space rawToken))) (\<lambda>tokenHash.
        bnd (GetOrganizationInvitationByTokenHash E tokenHash) (\<lambda>i.
        bnd (GetOrganizationByID E (inv_org i)) (\<lambda>org. ret (i, org)))))"

definition InvitationByID :: "env \<Rightarrow> organization_service \<Rightarrow> uuid \<Rightarrow> (invitation \<times> organization) M" where
  "InvitationByID E S invitationID =
     (if \<not> AllowsInvitations (os_mode S) then fail (EOrganization ErrOrganizationInviteForbidden)
      else if invitationID = nil_uuid then fail (EStore ErrOrganizationInvitationNotFound)
      else bnd (GetOrganizationInvitationByID E invitationID) (\<lambda>i.
        bnd (GetOrganizationByID E (inv_org i)) (\<lambda>org. ret (i, org))))"

definition InvitationByOrganizationAndID ::
  "env \<Rightarrow> organization_service \<Rightarrow> uuid \<Rightarrow> uuid \<Rightarrow> (invitation \<times> organization) M" where
  "InvitationByOrganizationAndID E S organizationID invitationID =
     bnd (InvitationByID E S invitationID) (\<lambda>(i, org).
       if org_id org \<noteq> organizationID then fail (EStore ErrOrganizationInvitationNotFound) else ret (i, org))"

definition ListInvitations :: "env \<Rightarrow> organization_service \<Rightarrow> uuid \<Rightarrow> invitation list M" where
  "ListInvitations E S organizationID =
     (if \<not> AllowsInvitations (os_mode S) then fail (EOrganization ErrOrganizationInviteForbidden)
      else bnd (GetOrganizationByID E organizationID) (\<lambda>_.
        ListOrganizationInvitationsByOrganizationID E organizationID))"

definition ListInvitationsPage ::
  "env \<Rightarrow> organization_service \<Rightarrow> uuid \<Rightarrow> list_options \<Rightarrow> invitation page M" where
  "ListInvitationsPage E S organizationID opts =
     (if \<not> AllowsInvitations (os_mode S) then fail (EOrganization ErrOrganizationInviteForbidden)
      else bnd (GetOrganizationByID E organizationID) (\<lambda>_.
        list_page (os_json S) opts invitationsCursorKind organizationID
          (ListOrganizationInvitationsPage E organizationID) invitation_key))"

section \<open>Revoking\<close>

definition RevokeInvitation ::
  "env \<Rightarrow> organization_service \<Rightarrow> uuid \<Rightarrow> uuid \<Rightarrow> uuid option \<Rightarrow> time \<Rightarrow> invitation M" where
  "RevokeInvitation E S organizationID invitationID revokedBy now0 =
     (if \<not> AllowsInvitations (os_mode S) then fail (EOrganization ErrOrganizationInviteForbidden)
      else
      bnd (normalizeNow E now0) (\<lambda>now.
      with_tx E
        (bnd (case revokedBy of None \<Rightarrow> ret () | Some actor \<Rightarrow> LockUserForKeyShare E actor) (\<lambda>_.
         bnd (LockOrganizationForKeyShare E organizationID) (\<lambda>_.
         bnd (GetOrganizationByID E organizationID) (\<lambda>org.
         bnd (GetOrganizationInvitationByIDForUpdate E invitationID) (\<lambda>i.
         if inv_org i \<noteq> organizationID then fail (EStore ErrOrganizationInvitationNotFound)
         else if invitation_Status i now = OrganizationInvitationStatusAccepted
         then fail (EOrganization ErrOrganizationInvitationAlreadyAccepted)
         else if invitation_Status i now = OrganizationInvitationStatusRevoked
         then fail (EOrganization ErrOrganizationInvitationRevoked)
         else if invitation_Status i now = OrganizationInvitationStatusExpired
         then fail (EOrganization ErrOrganizationInvitationExpired)
         else
         bnd (MarkOrganizationInvitationRevoked E (inv_id i) revokedBy now) (\<lambda>_.
         let out = i\<lparr>inv_revoked_at := Some now, inv_revoked_by := revokedBy\<rparr> in
         bnd (Enqueue E (inv_email i) EmailTemplateOrganizationInvitationRevoked
            [(TemplateVariableOrganizationName, org_name org),
             (TemplateVariableOccurredAt, OccurredAt E now)] now) (\<lambda>_.
         bnd (publish_event S (NewOrganizationInvitationRevoked E out now)) (\<lambda>_. ret out))))))))))"

section \<open>Accepting\<close>

record accept_result =
  acc_invitation :: invitation
  acc_organization :: organization
  acc_membership :: membership
  acc_InvitationAccepted :: bool
  acc_MembershipCreated :: bool

text \<open>
  The membership the invited user gets, and whether it was created; a unique violation is
  answered by reading the membership somebody else has just made.
\<close>

definition invited_membership ::
  "env \<Rightarrow> organization_service \<Rightarrow> uuid \<Rightarrow> invitation \<Rightarrow> (membership \<times> bool) M" where
  "invited_membership E S userID i =
     try_bnd (GetOrganizationMembership E (inv_org i) userID)
       (\<lambda>e. if \<not> errors_is e (EStore ErrOrganizationMembershipNotFound) then fail e
          else
          bnd (if os_mode S = OrgModeSingle
            then bnd (ListOrganizationMembershipsByUserID E userID) (\<lambda>ms.
                if ms \<noteq> [] then fail (EOrganization ErrOrganizationSingleMembershipConflict) else ret ())
            else ret ()) (\<lambda>_.
          try_bnd (CreateOrganizationMembership E \<lparr>mem_org = inv_org i, mem_user = userID,
               mem_role = inv_role i, mem_created_at = zero_time, mem_updated_at = zero_time\<rparr>)
            (\<lambda>e. if is_unique_violation e ''''
               then bnd (GetOrganizationMembership E (inv_org i) userID) (\<lambda>m. ret (m, False)) else fail e)
            (\<lambda>m. ret (m, True))))
       (\<lambda>m. ret (m, False))"

definition acceptInvitation ::
  "env \<Rightarrow> organization_service \<Rightarrow> uuid \<Rightarrow> uuid \<Rightarrow> time \<Rightarrow> invitation M \<Rightarrow> accept_result M" where
  "acceptInvitation E S userID organizationID now loadInvitation = with_tx E
     (bnd (GetUserByIDForUpdate E userID) (\<lambda>user.
      bnd (LockOrganizationForKeyShare E organizationID) (\<lambda>_.
      bnd loadInvitation (\<lambda>i.
      if inv_org i \<noteq> organizationID then fail (EStore ErrOrganizationInvitationNotFound)
      else
      bnd (of_sum (normalizeInvitationEmail (os_lib S) (usr_email user))) (\<lambda>userEmail.
      if userEmail \<noteq> inv_email i then fail (EOrganization ErrOrganizationInviteEmailMismatch)
      else
      bnd (GetOrganizationByID E (inv_org i)) (\<lambda>org.
      if invitation_Status i now = OrganizationInvitationStatusAccepted
      then (if inv_accepted_by i = Some userID
         then bnd (GetOrganizationMembership E (inv_org i) userID) (\<lambda>m.
            ret \<lparr>acc_invitation = i, acc_organization = org, acc_membership = m,
                 acc_InvitationAccepted = False, acc_MembershipCreated = False\<rparr>)
         else fail (EOrganization ErrOrganizationInvitationAlreadyAccepted))
      else if invitation_Status i now = OrganizationInvitationStatusRevoked
      then fail (EOrganization ErrOrganizationInvitationRevoked)
      else if invitation_Status i now = OrganizationInvitationStatusExpired
      then fail (EOrganization ErrOrganizationInvitationExpired)
      else
      bnd (invited_membership E S userID i) (\<lambda>(m, created).
      bnd (MarkOrganizationInvitationAccepted E (inv_id i) userID now) (\<lambda>_.
      let accepted = i\<lparr>inv_accepted_at := Some now, inv_accepted_by := Some userID\<rparr> in
      bnd (case inv_invited_by i of None \<Rightarrow> ret ()
         | Some inviterID \<Rightarrow> bnd (GetUserByID E inviterID) (\<lambda>inviter.
             Enqueue E (usr_email inviter) EmailTemplateOrganizationInvitationAccepted
               [(TemplateVariableOrganizationName, org_name org),
                (TemplateVariableMemberEmail, usr_email user), (TemplateVariableRole, mem_role m),
                (TemplateVariableOccurredAt, OccurredAt E now)] now)) (\<lambda>_.
      bnd (publish_event S (NewOrganizationInvitationAccepted E accepted now)) (\<lambda>_.
      bnd (if created
         then publish_event S (NewOrganizationMembershipCreatedFromInvitation E m accepted now)
         else ret ()) (\<lambda>_.
      ret \<lparr>acc_invitation = accepted, acc_organization = org, acc_membership = m,
           acc_InvitationAccepted = True, acc_MembershipCreated = created\<rparr>)))))))))))"

definition AcceptInvitation :: "env \<Rightarrow> organization_service \<Rightarrow> string \<Rightarrow> uuid \<Rightarrow> time \<Rightarrow> accept_result M" where
  "AcceptInvitation E S rawToken userID now0 =
     (if \<not> AllowsInvitations (os_mode S) then fail (EOrganization ErrOrganizationInviteForbidden)
      else
      bnd (normalizeNow E now0) (\<lambda>now.
      bnd (of_sum (hashInvitationToken E (trim_space rawToken))) (\<lambda>tokenHash.
      bnd (GetOrganizationInvitationByTokenHash E tokenHash) (\<lambda>preview.
      acceptInvitation E S userID (inv_org preview) now
        (GetOrganizationInvitationByTokenHashForUpdate E tokenHash)))))"

definition AcceptInvitationByID :: "env \<Rightarrow> organization_service \<Rightarrow> uuid \<Rightarrow> uuid \<Rightarrow> time \<Rightarrow> accept_result M" where
  "AcceptInvitationByID E S invitationID userID now0 =
     (if \<not> AllowsInvitations (os_mode S) then fail (EOrganization ErrOrganizationInviteForbidden)
      else if invitationID = nil_uuid then fail (EStore ErrOrganizationInvitationNotFound)
      else
      bnd (GetOrganizationInvitationByID E invitationID) (\<lambda>preview.
      bnd (normalizeNow E now0) (\<lambda>now.
      acceptInvitation E S userID (inv_org preview) now
        (GetOrganizationInvitationByIDForUpdate E invitationID))))"

end
