(* ===== verification/Auth_Service.thy ===== *)
theory Auth_Service
  imports Usernames Apple_Credentials Organization_Invitations
begin

text \<open>
  \<open>internal/auth/service.go\<close>: signing up, signing in with a password or an external
  identity, linking and unlinking identities, passwords, and the end of an account. A handler is
  its sequence of store, cache, mail, event and webhook calls inside \<open>with_tx\<close>.
\<close>

section \<open>The service\<close>

record auth_service =
  as_publish :: "envelope \<Rightarrow> unit M"
  as_access :: access_policy
  as_oauth :: "string list"
  as_organizations :: organization_service
  as_revocations :: "revocations option"
  as_passwordMinimumLength :: int
  as_events :: recorder
  as_apple :: "apple_service option"
  as_argon2 :: argon2

record signup_input =
  si_Provider :: string
  si_Username :: string
  si_Email :: string
  si_PasswordHash :: string
  si_InvitationToken :: string
  si_InvitationID :: uuid
  si_EmailVerifiedAt :: "time option"
  si_OAuthID :: string

record login_input =
  li_Provider :: string
  li_Identifier :: string
  li_Username :: string
  li_Email :: string
  li_Password :: string
  li_OAuthID :: string
  li_EmailVerified :: bool
  li_InvitationToken :: string

record oauth_identity =
  oi_Provider :: string
  oi_Username :: string
  oi_Email :: string
  oi_ProviderUserID :: string
  oi_EmailVerified :: bool

definition ReasonInvalidCredentials :: string where "ReasonInvalidCredentials = ''invalid_credentials''"
definition ReasonInvalidAssertion :: string where "ReasonInvalidAssertion = ''invalid_assertion''"
definition ReasonAccountLinkRequired :: string where
  "ReasonAccountLinkRequired = ''account_link_required''"
definition ReasonProviderDisabled :: string where "ReasonProviderDisabled = ''provider_disabled''"

definition SecurityEventCredentialPasswordAdded :: string where
  "SecurityEventCredentialPasswordAdded = ''credential.password_added''"
definition SecurityEventCredentialPasswordChanged :: string where
  "SecurityEventCredentialPasswordChanged = ''credential.password_changed''"
definition SecurityEventCredentialProviderLinked :: string where
  "SecurityEventCredentialProviderLinked = ''credential.provider_linked''"
definition SecurityEventCredentialProviderChanged :: string where
  "SecurityEventCredentialProviderChanged = ''credential.provider_changed''"
definition SecurityEventCredentialProviderRemoved :: string where
  "SecurityEventCredentialProviderRemoved = ''credential.provider_removed''"

definition user_credential :: "uuid \<Rightarrow> uuid option \<Rightarrow> string \<Rightarrow> credential_event" where
  "user_credential userID sessionID provider = \<lparr>ce_actor_type = '''', ce_actor_user = None,
     ce_user = userID, ce_session = sessionID, ce_passkey = None, ce_provider = provider\<rparr>"

definition CredentialPasswordAdded :: "env \<Rightarrow> recorder \<Rightarrow> credential_event \<Rightarrow> unit M" where
  "CredentialPasswordAdded E r ev = recordCredential E r SecurityEventCredentialPasswordAdded ev"
definition CredentialPasswordChanged :: "env \<Rightarrow> recorder \<Rightarrow> credential_event \<Rightarrow> unit M" where
  "CredentialPasswordChanged E r ev = recordCredential E r SecurityEventCredentialPasswordChanged ev"
definition CredentialProviderLinked :: "env \<Rightarrow> recorder \<Rightarrow> credential_event \<Rightarrow> unit M" where
  "CredentialProviderLinked E r ev = recordCredential E r SecurityEventCredentialProviderLinked ev"
definition CredentialProviderChanged :: "env \<Rightarrow> recorder \<Rightarrow> credential_event \<Rightarrow> unit M" where
  "CredentialProviderChanged E r ev = recordCredential E r SecurityEventCredentialProviderChanged ev"
definition CredentialProviderRemoved :: "env \<Rightarrow> recorder \<Rightarrow> credential_event \<Rightarrow> unit M" where
  "CredentialProviderRemoved E r ev = recordCredential E r SecurityEventCredentialProviderRemoved ev"

definition auth_publish :: "auth_service \<Rightarrow> envelope M \<Rightarrow> unit M" where
  "auth_publish A mk = bnd mk (as_publish A)"

definition IsProviderEnabled :: "auth_service \<Rightarrow> string \<Rightarrow> bool" where
  "IsProviderEnabled A provider \<longleftrightarrow>
     provider = ProviderPassword \<or> list_ex (\<lambda>p. p = provider) (as_oauth A)"

text \<open>\<open>if errors.Is(err, t) { return nil }; return err\<close>.\<close>

definition ignoring :: "err \<Rightarrow> unit M \<Rightarrow> unit M" where
  "ignoring t m = try_bnd m (\<lambda>e. if errors_is e t then ret () else fail e) ret"

definition auth_PasswordMinimumLength :: "auth_service \<Rightarrow> int" where
  "auth_PasswordMinimumLength A = passwordMinimumLength (as_passwordMinimumLength A)"

definition ValidatePassword :: "auth_service \<Rightarrow> string \<Rightarrow> password_error option" where
  "ValidatePassword A password = validatePassword password (auth_PasswordMinimumLength A)"

definition HashPassword :: "env \<Rightarrow> auth_service \<Rightarrow> string \<Rightarrow> string M" where
  "HashPassword E A password = (case ValidatePassword A password of
       Some e \<Rightarrow> fail (EPassword e)
     | None \<Rightarrow> hashPassword E (as_argon2 A) password)"

section \<open>Mails\<close>

definition enqueueAccountCreated :: "env \<Rightarrow> user \<Rightarrow> string \<Rightarrow> time \<Rightarrow> unit M" where
  "enqueueAccountCreated E user provider now = Enqueue E (usr_email user) EmailTemplateAccountCreated
     [(TemplateVariableUsername, usr_username user), (TemplateVariableAuthMethod, provider),
      (TemplateVariableOccurredAt, OccurredAt E now)] now"

definition enqueueAuthMethodChanged :: "env \<Rightarrow> user \<Rightarrow> string \<Rightarrow> string \<Rightarrow> time \<Rightarrow> unit M" where
  "enqueueAuthMethodChanged E user provider template now = Enqueue E (usr_email user) template
     [(TemplateVariableAuthMethod, provider), (TemplateVariableOccurredAt, OccurredAt E now)] now"

definition auth_enqueuePasswordChanged :: "env \<Rightarrow> user \<Rightarrow> time \<Rightarrow> unit M" where
  "auth_enqueuePasswordChanged E user now = Enqueue E (usr_email user) EmailTemplatePasswordChanged
     [(TemplateVariableOccurredAt, OccurredAt E now)] now"

section \<open>Reading\<close>

definition auth_GetUser :: "env \<Rightarrow> uuid \<Rightarrow> user M" where
  "auth_GetUser E userID = GetUserByID E userID"

definition ListUserAuthProviders :: "env \<Rightarrow> uuid \<Rightarrow> auth_provider list M" where
  "ListUserAuthProviders E userID = ListAuthProvidersByUserID E userID"

definition auth_GetUserByEmail :: "env \<Rightarrow> string \<Rightarrow> user M" where
  "auth_GetUserByEmail E email = GetUserByEmail E email"

text \<open>A link that is not there is an invalid link.\<close>

definition link_invalid :: "err \<Rightarrow> err" where
  "link_invalid = err_as (EStore ErrorPendingProviderLinkNotFound) (EAuth ErrPendingProviderLinkInvalid)"

definition GetPendingProviderLink :: "env \<Rightarrow> uuid \<Rightarrow> provider_link M" where
  "GetPendingProviderLink E linkID = map_err link_invalid (GetPendingProviderLinkByID E linkID)"

definition auth_UserExistsByEmail :: "env \<Rightarrow> string \<Rightarrow> bool M" where
  "auth_UserExistsByEmail E email = try_bnd (GetUserByEmail E email)
     (\<lambda>e. if errors_is e (EStore ErrUserNotFound) then ret False else fail e) (\<lambda>_. ret True)"

section \<open>Admission\<close>

definition signupSource :: "string \<Rightarrow> uuid \<Rightarrow> string" where
  "signupSource invitationToken invitationID =
     (if trim_space invitationToken \<noteq> '''' \<or> invitationID \<noteq> nil_uuid then SignupSourceInvite
      else SignupSourceDirect)"

definition signupOrganizationPlan :: "auth_service \<Rightarrow> string \<Rightarrow> uuid \<Rightarrow> err + (signup_plan \<times> string)" where
  "signupOrganizationPlan A invitationToken invitationID =
     (let source = signupSource invitationToken invitationID in
      case SignupOrganizationPlanFor (os_mode (as_organizations A)) source of
        Inl e \<Rightarrow> Inl e | Inr plan \<Rightarrow> Inr (plan, source))"

definition requirePendingInvitationForEmail ::
  "env \<Rightarrow> auth_service \<Rightarrow> string \<Rightarrow> string \<Rightarrow> uuid \<Rightarrow> unit M" where
  "requirePendingInvitationForEmail E A email token invitationID =
     bnd (if invitationID \<noteq> nil_uuid then InvitationByID E (as_organizations A) invitationID
          else InvitationByToken E (as_organizations A) token) (\<lambda>(i, _).
     if CanonicalEmail (inv_email i) \<noteq> CanonicalEmail email
     then fail (EOrganization ErrOrganizationInviteEmailMismatch)
     else bnd (now_utc E) (\<lambda>now.
       if invitation_Status i now = OrganizationInvitationStatusPending then ret ()
       else if invitation_Status i now = OrganizationInvitationStatusAccepted
       then fail (EOrganization ErrOrganizationInvitationAlreadyAccepted)
       else if invitation_Status i now = OrganizationInvitationStatusRevoked
       then fail (EOrganization ErrOrganizationInvitationRevoked)
       else if invitation_Status i now = OrganizationInvitationStatusExpired
       then fail (EOrganization ErrOrganizationInvitationExpired)
       else fail (EOrganization ErrOrganizationInviteForbidden)))"

definition ensureEmailAllowed ::
  "env \<Rightarrow> auth_service \<Rightarrow> string \<Rightarrow> string \<Rightarrow> uuid \<Rightarrow> unit M" where
  "ensureEmailAllowed E A email token invitationID =
     bnd (IsEmailAllowed E (as_access A) email) (\<lambda>allowed.
     if allowed then ret ()
     else if trim_space token = '''' \<and> invitationID = nil_uuid then fail (EAuth ErrEmailNotAllowed)
     else
     bnd (requirePendingInvitationForEmail E A email token invitationID) (\<lambda>_.
     bnd (AllowEmail E (as_access A) email) (\<lambda>_.
     bnd (IsEmailAllowed E (as_access A) email) (\<lambda>allowed2.
     if \<not> allowed2 then fail (EAuth ErrEmailNotAllowed) else ret ()))))"

definition acceptSignupInvitation :: "env \<Rightarrow> auth_service \<Rightarrow> string \<Rightarrow> uuid \<Rightarrow> uuid \<Rightarrow> unit M" where
  "acceptSignupInvitation E A token invitationID userID =
     bnd (now_utc E) (\<lambda>now.
     bnd (if invitationID \<noteq> nil_uuid
          then AcceptInvitationByID E (as_organizations A) invitationID userID now
          else AcceptInvitation E (as_organizations A) token userID now) (\<lambda>_. ret ()))"

section \<open>Signing up\<close>

definition user_taken :: "auth_error \<Rightarrow> err \<Rightarrow> err" where
  "user_taken email_taken e =
     (if is_unique_violation e ConstraintUserEmail then EAuth email_taken
      else if is_unique_violation e ConstraintUserUsername then EAuth ErrUsernameTaken else e)"

definition new_user :: "string \<Rightarrow> time option \<Rightarrow> string \<Rightarrow> user" where
  "new_user email verifiedAt username = \<lparr>usr_id = nil_uuid, usr_created_at = zero_time,
     usr_updated_at = zero_time, usr_disabled_at = None, usr_email = email,
     usr_email_verified_at = verifiedAt, usr_username = username\<rparr>"

definition new_provider :: "uuid \<Rightarrow> string \<Rightarrow> string option \<Rightarrow> string option \<Rightarrow> auth_provider" where
  "new_provider userID provider providerUserID passwordHash =
     \<lparr>prv_id = nil_uuid, prv_created_at = zero_time, prv_updated_at = zero_time, prv_user = userID,
      prv_provider = provider, prv_provider_user_id = providerUserID, prv_password_hash = passwordHash\<rparr>"

text \<open>The initial organization, when the plan asks for one and it had to be created.\<close>

definition initial_organization ::
  "env \<Rightarrow> auth_service \<Rightarrow> signup_plan \<Rightarrow> user \<Rightarrow> string \<Rightarrow> (organization \<times> membership) option M" where
  "initial_organization E A plan user source =
     (if \<not> CreateInitialOrg plan then ret None
      else bnd (EnsureInitialOrganization E (as_organizations A) user source) (\<lambda>r. case r of
          None \<Rightarrow> ret None
        | Some (org, m, created) \<Rightarrow> ret (if created then Some (org, m) else None)))"

definition announce_user ::
  "env \<Rightarrow> auth_service \<Rightarrow> user \<Rightarrow> (organization \<times> membership) option \<Rightarrow> time \<Rightarrow> unit M" where
  "announce_user E A user initial now = (case initial of
       Some (org, m) \<Rightarrow> auth_publish A (NewRegistrationCompleted E user org m now)
     | None \<Rightarrow> auth_publish A (NewUserCreated E (usr_id user) now))"

definition signupWithPassword :: "env \<Rightarrow> auth_service \<Rightarrow> signup_input \<Rightarrow> user M" where
  "signupWithPassword E A i =
     bnd (of_sum (signupOrganizationPlan A (si_InvitationToken i) (si_InvitationID i))) (\<lambda>(plan, source).
     bnd (with_tx E
       (bnd (map_err (user_taken ErrUserAlreadyExists)
               (CreateUser E (new_user (si_Email i) (si_EmailVerifiedAt i) (si_Username i)))) (\<lambda>user.
        bnd (initial_organization E A plan user source) (\<lambda>initial.
        bnd (CreateAuthProvider E
               (new_provider (usr_id user) ProviderPassword None (Some (si_PasswordHash i)))) (\<lambda>_.
        bnd (if plan_AcceptInvitation plan
             then acceptSignupInvitation E A (si_InvitationToken i) (si_InvitationID i) (usr_id user)
             else ret ()) (\<lambda>_.
        ret (user, initial))))))) (\<lambda>(user, initial).
     bnd (now_utc E) (\<lambda>now.
     bnd (announce_user E A user initial now) (\<lambda>_. ret user))))"

definition Signup :: "env \<Rightarrow> auth_service \<Rightarrow> signup_input \<Rightarrow> user M" where
  "Signup E A i0 =
     bnd (EnsureUsername E (si_Username i0) (si_Email i0)) (\<lambda>uname.
     let i = i0\<lparr>si_InvitationToken := trim_space (si_InvitationToken i0), si_Username := uname\<rparr> in
     bnd (ensureEmailAllowed E A (si_Email i) (si_InvitationToken i) (si_InvitationID i)) (\<lambda>_.
     if si_Provider i = ProviderPassword
     then with_tx E
       (bnd (signupWithPassword E A i) (\<lambda>user.
        bnd (now_utc E) (\<lambda>now.
        bnd (enqueueAccountCreated E user ProviderPassword now) (\<lambda>_. ret user))))
     else fail (EAuth ErrUnsupportedProvider)))"

section \<open>Signing in\<close>

text \<open>
  \<open>VerifyPassword\<close> and the rehash read the stored hash of a user; the code looks at the
  zero provider of a failed read, so every failure of the read is a wrong password.
\<close>

definition stored_hash :: "env \<Rightarrow> uuid \<Rightarrow> string M" where
  "stored_hash E userID = try_bnd (GetAuthProviderByMethodAndUserID E ProviderPassword userID)
     (\<lambda>_. fail (EAuth ErrInvalidCredentials))
     (\<lambda>p. of_option (EAuth ErrInvalidCredentials) (prv_password_hash p))"

text \<open>At most two attempts to replace the hash that was verified by one of today's cost.\<close>

fun upgrade_hash ::
  "env \<Rightarrow> argon2 \<Rightarrow> nat \<Rightarrow> uuid \<Rightarrow> string \<Rightarrow> string \<Rightarrow> verification \<Rightarrow> unit M" where
  "upgrade_hash E idkey 0 userID password storedHash v = fail (EAuth ErrInvalidCredentials)"
| "upgrade_hash E idkey (Suc n) userID password storedHash v =
     (if \<not> ver_valid v then fail (EAuth ErrInvalidCredentials)
      else if \<not> ver_needs_rehash v then ret ()
      else
      bnd (hashPassword E idkey password) (\<lambda>upgraded.
      bnd (CompareAndSwapPasswordHash E userID storedHash upgraded) (\<lambda>updated.
      if updated then ret ()
      else
      bnd (stored_hash E userID) (\<lambda>storedHash2.
      case VerifyPasswordHash idkey password storedHash2 of
        Inl _ \<Rightarrow> fail (EAuth ErrInvalidCredentials)
      | Inr v2 \<Rightarrow> upgrade_hash E idkey n userID password storedHash2 v2))))"

definition upgradePasswordHashIfNeeded ::
  "env \<Rightarrow> auth_service \<Rightarrow> uuid \<Rightarrow> string \<Rightarrow> string \<Rightarrow> verification \<Rightarrow> unit M" where
  "upgradePasswordHashIfNeeded E A userID password storedHash v =
     upgrade_hash E (as_argon2 A) 2 userID password storedHash v"

text \<open>
  The second half of \<open>loginWithPassword\<close>: the password work is done for every caller, and
  only then is its outcome, the missing account or the refused address told.
\<close>

definition check_password ::
  "env \<Rightarrow> auth_service \<Rightarrow> string \<Rightarrow> (user \<times> string) option \<Rightarrow> err option \<Rightarrow> user M" where
  "check_password E A password known accessErr =
     (let passwordHash = (case known of None \<Rightarrow> dummyPasswordHash | Some (_, h) \<Rightarrow> h) in
      bnd (of_sum (VerifyPasswordHash (as_argon2 A) password passwordHash)) (\<lambda>v.
      case known of None \<Rightarrow> fail (EAuth ErrInvalidCredentials)
      | Some (user, h) \<Rightarrow>
          if \<not> ver_valid v then fail (EAuth ErrInvalidCredentials)
          else (case accessErr of Some e \<Rightarrow> fail e
            | None \<Rightarrow> bnd (upgradePasswordHashIfNeeded E A (usr_id user) password h v) (\<lambda>_. ret user))))"

definition usable_hash :: "auth_provider \<Rightarrow> string option" where
  "usable_hash p = (case prv_password_hash p of None \<Rightarrow> None
     | Some h \<Rightarrow> if h = '''' then None else (case decodeHash h of Inl _ \<Rightarrow> None | Inr _ \<Rightarrow> Some h))"

definition loginWithPassword :: "env \<Rightarrow> auth_service \<Rightarrow> login_input \<Rightarrow> user M" where
  "loginWithPassword E A i =
     (let identifier = trim_space (li_Identifier i) in
      try_bnd (if identifier \<noteq> '''' then GetUserByEmailOrUsername E identifier
               else GetUserByEmail E (li_Email i))
        (\<lambda>e. if errors_is e (EStore ErrUserNotFound) then check_password E A (li_Password i) None None
           else fail e)
        (\<lambda>user.
         bnd (attempt (ensureEmailAllowed E A (usr_email user) (trim_space (li_InvitationToken i)) nil_uuid))
           (\<lambda>access.
         let accessErr = (case access of Inl e \<Rightarrow> Some e | Inr _ \<Rightarrow> None) in
         try_bnd (GetAuthProviderByMethodAndUserID E ProviderPassword (usr_id user))
           (\<lambda>e. if errors_is e (EStore ErrorAuthProviderNotFound)
              then check_password E A (li_Password i) None accessErr else fail e)
           (\<lambda>p. check_password E A (li_Password i) (map_option (Pair user) (usable_hash p)) accessErr))))"

definition login_denied :: "string \<Rightarrow> string \<Rightarrow> authentication_event" where
  "login_denied auth_method reason = \<lparr>ae_outcome = OutcomeDenied, ae_reason = reason,
     ae_actor_type = ActorAnonymous, ae_actor_user = None, ae_user = None, ae_session = None,
     ae_org = None, ae_passkey = None, ae_method = auth_method\<rparr>"

definition RecordLoginDenied :: "env \<Rightarrow> auth_service \<Rightarrow> string \<Rightarrow> string \<Rightarrow> unit M" where
  "RecordLoginDenied E A auth_method reason =
     AuthenticationLogin E (as_events A) (login_denied auth_method reason)"

definition auth_verified_now :: "env \<Rightarrow> user \<Rightarrow> user M" where
  "auth_verified_now E user = bnd (now_utc E) (\<lambda>verifiedAt.
     bnd (MarkUserEmailVerified E (usr_id user) (usr_email user) verifiedAt) (\<lambda>updated.
     ret (if updated then user\<lparr>usr_email_verified_at := Some verifiedAt\<rparr> else user)))"

text \<open>The identity is known: its user, whose address the provider may have verified.\<close>

definition login_known_identity :: "env \<Rightarrow> login_input \<Rightarrow> auth_provider \<Rightarrow> user M" where
  "login_known_identity E i p = bnd (GetUserByID E (prv_user p)) (\<lambda>user.
     if li_EmailVerified i \<and> usr_email_verified_at user = None \<and> equal_fold (usr_email user) (li_Email i)
     then auth_verified_now E user else ret user)"

text \<open>The identity is new: an account is made for it, unless its address has one.\<close>

definition login_new_identity ::
  "env \<Rightarrow> auth_service \<Rightarrow> login_input \<Rightarrow> signup_plan \<Rightarrow> string
    \<Rightarrow> (user \<times> (organization \<times> membership) option) M" where
  "login_new_identity E A i plan source =
     bnd (UserExistsByEmail E (li_Email i)) (\<lambda>emailExists.
     if emailExists then fail (EAuth ErrAccountExistsMustLink)
     else
     bnd (if li_EmailVerified i then bnd (now_utc E) (\<lambda>t. ret (Some t)) else ret None) (\<lambda>verifiedAt.
     bnd (map_err (user_taken ErrAccountExistsMustLink)
            (CreateUser E (new_user (li_Email i) verifiedAt (li_Username i)))) (\<lambda>user.
     bnd (initial_organization E A plan user source) (\<lambda>initial.
     bnd (CreateAuthProvider E
            (new_provider (usr_id user) (li_Provider i) (Some (li_OAuthID i)) None)) (\<lambda>_.
     bnd (if plan_AcceptInvitation plan
          then acceptSignupInvitation E A (li_InvitationToken i) nil_uuid (usr_id user)
          else ret ()) (\<lambda>_.
     bnd (now_utc E) (\<lambda>now.
     bnd (enqueueAccountCreated E user (li_Provider i) now) (\<lambda>_. ret (user, initial)))))))))"

definition loginWithExternalIdentity :: "env \<Rightarrow> auth_service \<Rightarrow> login_input \<Rightarrow> user M" where
  "loginWithExternalIdentity E A i0 =
     (if \<not> IsProviderEnabled A (li_Provider i0) then fail (EAuth ErrProviderDisabled)
      else
      bnd (of_sum (signupOrganizationPlan A (li_InvitationToken i0) nil_uuid)) (\<lambda>(plan, source).
      bnd (EnsureUsername E (li_Username i0) (li_Email i0)) (\<lambda>uname.
      let i = i0\<lparr>li_Username := uname\<rparr> in
      bnd (with_tx E
        (try_bnd (GetAuthProviderByProviderAndProviderUserID E (li_Provider i) (li_OAuthID i))
          (\<lambda>e. if e \<noteq> EStore ErrorAuthProviderNotFound then fail e
             else bnd (login_new_identity E A i plan source) (\<lambda>(user, initial). ret (user, Some initial)))
          (\<lambda>p. bnd (login_known_identity E i p) (\<lambda>user. ret (user, None))))) (\<lambda>(user, created).
      case created of None \<Rightarrow> ret user
      | Some initial \<Rightarrow> bnd (now_utc E) (\<lambda>now.
          bnd (announce_user E A user initial now) (\<lambda>_. ret user))))))"

definition apple_unavailable :: err where
  "apple_unavailable = EText ''apple credential storage is unavailable''"

definition save_apple :: "env \<Rightarrow> auth_service \<Rightarrow> uuid \<Rightarrow> string \<Rightarrow> unit M" where
  "save_apple E A userID refreshToken = (case as_apple A of
       None \<Rightarrow> fail apple_unavailable
     | Some C \<Rightarrow> if refreshToken = '''' then fail apple_unavailable else apple_Save E C userID refreshToken)"

definition denied_reason :: "err \<Rightarrow> string" where
  "denied_reason e =
     (if errors_is e (EAuth ErrAccountExistsMustLink) then ReasonAccountLinkRequired
      else if errors_is e (EAuth ErrProviderDisabled) then ReasonProviderDisabled else '''')"

definition loginWithExternal :: "env \<Rightarrow> auth_service \<Rightarrow> login_input \<Rightarrow> string \<Rightarrow> user M" where
  "loginWithExternal E A i appleRefreshToken =
     (let auth_method = (if li_Provider i = ProviderApple then AuthenticationMethodApple
            else if li_Provider i = ProviderMicrosoft then AuthenticationMethodMicrosoft
            else AuthenticationMethodGoogle) in
      try_bnd (ensureEmailAllowed E A (li_Email i) (trim_space (li_InvitationToken i)) nil_uuid)
        (\<lambda>e. if errors_is e (EAuth ErrEmailNotAllowed)
           then bnd (RecordLoginDenied E A auth_method ReasonAccessPolicy) (\<lambda>_. fail e) else fail e)
        (\<lambda>_. try_bnd (with_tx E
            (bnd (loginWithExternalIdentity E A i) (\<lambda>user.
             if li_Provider i = ProviderApple
             then bnd (save_apple E A (usr_id user) appleRefreshToken) (\<lambda>_. ret user) else ret user)))
          (\<lambda>e. if denied_reason e \<noteq> ''''
             then bnd (RecordLoginDenied E A auth_method (denied_reason e)) (\<lambda>_. fail e) else fail e)
          ret))"

definition Login :: "env \<Rightarrow> auth_service \<Rightarrow> login_input \<Rightarrow> user M" where
  "Login E A i =
     (if li_Provider i = ProviderPassword
      then raise_result (with_tx E
        (bnd (attempt (loginWithPassword E A i)) (\<lambda>r. case r of
           Inr user \<Rightarrow> ret (Inr user)
         | Inl e \<Rightarrow>
             if \<not> errors_is e (EAuth ErrInvalidCredentials) \<and> \<not> errors_is e (EAuth ErrEmailNotAllowed)
             then fail e
             else bnd (RecordLoginDenied E A AuthenticationMethodPassword
                 (if errors_is e (EAuth ErrEmailNotAllowed) then ReasonAccessPolicy
                  else ReasonInvalidCredentials)) (\<lambda>_. ret (Inl e)))))
      else if li_Provider i \<in> {ProviderGoogle, ProviderApple, ProviderMicrosoft}
      then loginWithExternal E A i ''''
      else fail (EAuth ErrUnsupportedProvider))"

definition LoginWithApple :: "env \<Rightarrow> auth_service \<Rightarrow> login_input \<Rightarrow> string \<Rightarrow> user M" where
  "LoginWithApple E A i refreshToken =
     (if li_Provider i \<noteq> ProviderApple then fail (EAuth ErrUnsupportedProvider)
      else if as_apple A = None then fail apple_unavailable
      else loginWithExternal E A i refreshToken)"

definition SaveAppleCredential :: "env \<Rightarrow> auth_service \<Rightarrow> uuid \<Rightarrow> string \<Rightarrow> unit M" where
  "SaveAppleCredential E A userID refreshToken =
     (if as_apple A = None \<or> refreshToken = '''' then fail apple_unavailable
      else with_tx E (save_apple E A userID refreshToken))"

definition VerifyPassword :: "env \<Rightarrow> auth_service \<Rightarrow> uuid \<Rightarrow> string \<Rightarrow> unit M" where
  "VerifyPassword E A userID password =
     bnd (stored_hash E userID) (\<lambda>h.
     bnd (of_sum (Verify (as_argon2 A) password h)) (\<lambda>valid.
     if \<not> valid then fail (EAuth ErrInvalidCredentials) else ret ()))"

definition VerifyExternalIdentity :: "env \<Rightarrow> uuid \<Rightarrow> string \<Rightarrow> string \<Rightarrow> unit M" where
  "VerifyExternalIdentity E userID provider providerUserID =
     (if providerUserID = '''' then fail (EAuth ErrInvalidCredentials)
      else
      bnd (map_err (err_as (EStore ErrorAuthProviderNotFound) (EAuth ErrInvalidCredentials))
             (GetAuthProviderByProviderAndProviderUserID E provider providerUserID)) (\<lambda>linked.
      if prv_user linked \<noteq> userID then fail (EAuth ErrInvalidCredentials) else ret ()))"

section \<open>Linking an identity\<close>

definition new_link ::
  "uuid \<Rightarrow> uuid option \<Rightarrow> string \<Rightarrow> string option \<Rightarrow> string option \<Rightarrow> bool \<Rightarrow> string \<Rightarrow> time \<Rightarrow> provider_link" where
  "new_link userID sessionID provider providerUserID email verified purpose expiresAt =
     \<lparr>pl_id = nil_uuid, pl_created_at = zero_time, pl_user = userID, pl_session = sessionID,
      pl_challenge = None, pl_provider = provider, pl_provider_user_id = providerUserID,
      pl_provider_email = email, pl_email_verified = verified, pl_purpose = purpose,
      pl_expires_at = expiresAt, pl_consumed_at = None\<rparr>"

definition StartProviderLink :: "env \<Rightarrow> auth_service \<Rightarrow> uuid \<Rightarrow> uuid \<Rightarrow> string \<Rightarrow> time \<Rightarrow> uuid M" where
  "StartProviderLink E A userID sessionID provider now =
     (if \<not> IsProviderEnabled A provider then fail (EAuth ErrProviderDisabled)
      else bnd (CreatePendingProviderLink E (new_link userID (Some sessionID) provider None None False
             PendingProviderLinkPurposeAuthenticatedLink (now + 5 * minute))) (\<lambda>link. ret (pl_id link)))"

definition unlinked_identity :: "env \<Rightarrow> string \<Rightarrow> string \<Rightarrow> unit M" where
  "unlinked_identity E provider providerUserID =
     try_bnd (GetAuthProviderByProviderAndProviderUserID E provider providerUserID)
       (\<lambda>e. if e \<noteq> EStore ErrorAuthProviderNotFound then fail e else ret ())
       (\<lambda>_. fail (EAuth ErrAuthProviderAlreadyLinked))"

definition StartAccountRecoveryProviderLink ::
  "env \<Rightarrow> auth_service \<Rightarrow> oauth_identity \<Rightarrow> time \<Rightarrow> provider_link M" where
  "StartAccountRecoveryProviderLink E A i now =
     (if \<not> IsProviderEnabled A (oi_Provider i) then fail (EAuth ErrProviderDisabled)
      else if oi_ProviderUserID i = '''' \<or> oi_Email i = '''' then fail (EAuth ErrPendingProviderLinkInvalid)
      else with_tx E
        (bnd (unlinked_identity E (oi_Provider i) (oi_ProviderUserID i)) (\<lambda>_.
         bnd (GetUserByEmail E (oi_Email i)) (\<lambda>user.
         CreatePendingProviderLink E (new_link (usr_id user) None (oi_Provider i)
           (Some (oi_ProviderUserID i)) (Some (oi_Email i)) (oi_EmailVerified i)
           PendingProviderLinkPurposeAccountRecovery (now + 10 * minute))))))"

definition linkExternalIdentityToUser ::
  "env \<Rightarrow> auth_service \<Rightarrow> uuid \<Rightarrow> string \<Rightarrow> string \<Rightarrow> unit M" where
  "linkExternalIdentityToUser E A userID provider providerUserID = with_tx E
     (try_bnd (GetAuthProviderByProviderAndProviderUserID E provider providerUserID)
       (\<lambda>e. if e \<noteq> EStore ErrorAuthProviderNotFound then fail e
          else
          bnd (try_bnd (GetAuthProviderByMethodAndUserID E provider userID)
             (\<lambda>e. if e \<noteq> EStore ErrorAuthProviderNotFound then fail e else ret ())
             (\<lambda>_. fail (EAuth ErrAuthProviderAlreadyLinkedToUser))) (\<lambda>_.
          bnd (CreateAuthProvider E (new_provider userID provider (Some providerUserID) None)) (\<lambda>_.
          CredentialProviderLinked E (as_events A) (user_credential userID None provider))))
       (\<lambda>existing. if prv_user existing = userID then ret ()
          else fail (EAuth ErrAuthProviderAlreadyLinked)))"

definition markCurrentEmailVerified :: "env \<Rightarrow> user \<Rightarrow> string \<Rightarrow> time \<Rightarrow> user M" where
  "markCurrentEmailVerified E user providerEmail verifiedAt =
     (if usr_email_verified_at user \<noteq> None \<or> \<not> equal_fold (usr_email user) providerEmail then ret user
      else bnd (MarkUserEmailVerified E (usr_id user) (usr_email user) verifiedAt) (\<lambda>updated.
        ret (if updated then user\<lparr>usr_email_verified_at := Some verifiedAt\<rparr> else user)))"

definition completeProviderLink ::
  "env \<Rightarrow> auth_service \<Rightarrow> uuid \<Rightarrow> uuid \<Rightarrow> uuid \<Rightarrow> string \<Rightarrow> string \<Rightarrow> string \<Rightarrow> bool \<Rightarrow> string \<Rightarrow> time
    \<Rightarrow> unit M" where
  "completeProviderLink E A linkID userID sessionID provider providerUserID providerEmail verified
      appleRefreshToken now =
     (if \<not> IsProviderEnabled A provider then fail (EAuth ErrProviderDisabled)
      else with_tx E
        (bnd (map_err link_invalid (GetPendingProviderLinkByID E linkID)) (\<lambda>link.
         if pl_consumed_at link \<noteq> None \<or> \<not> now < pl_expires_at link
         then fail (EAuth ErrPendingProviderLinkExpired)
         else if pl_session link \<noteq> Some sessionID then fail (EAuth ErrPendingProviderLinkInvalid)
         else if pl_user link \<noteq> userID \<or> pl_provider link \<noteq> provider
            \<or> pl_purpose link \<noteq> PendingProviderLinkPurposeAuthenticatedLink
         then fail (EAuth ErrPendingProviderLinkInvalid)
         else if providerUserID = '''' \<or> providerEmail = '''' then fail (EAuth ErrPendingProviderLinkInvalid)
         else
         bnd (map_err link_invalid
                (UpdatePendingProviderLinkOAuthIdentity E linkID providerUserID providerEmail verified)) (\<lambda>_.
         bnd (map_err link_invalid (ConsumePendingProviderLink E linkID now)) (\<lambda>_.
         bnd (linkExternalIdentityToUser E A userID provider providerUserID) (\<lambda>_.
         bnd (GetUserByID E userID) (\<lambda>user0.
         bnd (if verified then markCurrentEmailVerified E user0 providerEmail now else ret user0) (\<lambda>user.
         bnd (if provider = ProviderApple then save_apple E A userID appleRefreshToken else ret ()) (\<lambda>_.
         enqueueAuthMethodChanged E user provider EmailTemplateAuthMethodAdded now))))))))) "

definition CompleteProviderLink ::
  "env \<Rightarrow> auth_service \<Rightarrow> uuid \<Rightarrow> uuid \<Rightarrow> uuid \<Rightarrow> string \<Rightarrow> string \<Rightarrow> string \<Rightarrow> bool \<Rightarrow> time \<Rightarrow> unit M" where
  "CompleteProviderLink E A linkID userID sessionID provider providerUserID providerEmail verified now =
     completeProviderLink E A linkID userID sessionID provider providerUserID providerEmail verified '''' now"

definition CompleteAppleProviderLink ::
  "env \<Rightarrow> auth_service \<Rightarrow> uuid \<Rightarrow> uuid \<Rightarrow> uuid \<Rightarrow> string \<Rightarrow> string \<Rightarrow> bool \<Rightarrow> string \<Rightarrow> time \<Rightarrow> unit M" where
  "CompleteAppleProviderLink E A linkID userID sessionID providerUserID providerEmail verified
      refreshToken now =
     (if as_apple A = None \<or> refreshToken = '''' then fail apple_unavailable
      else completeProviderLink E A linkID userID sessionID ProviderApple providerUserID providerEmail
             verified refreshToken now)"

subsection \<open>Recovering an account by a link\<close>

text \<open>The link, the identity it carries and its user, checked as both proofs need them.\<close>

definition nonempty_text :: "string option \<Rightarrow> string option" where
  "nonempty_text x = (case x of None \<Rightarrow> None | Some s \<Rightarrow> if s = '''' then None else Some s)"

definition recovery_link ::
  "env \<Rightarrow> uuid \<Rightarrow> time \<Rightarrow> (provider_link \<times> string \<times> string \<times> user) M" where
  "recovery_link E linkID now =
     bnd (map_err link_invalid (GetPendingProviderLinkByID E linkID)) (\<lambda>link.
     if pl_consumed_at link \<noteq> None \<or> \<not> now < pl_expires_at link
     then fail (EAuth ErrPendingProviderLinkExpired)
     else if pl_purpose link \<noteq> PendingProviderLinkPurposeAccountRecovery
     then fail (EAuth ErrPendingProviderLinkInvalid)
     else
     bnd (of_option (EAuth ErrPendingProviderLinkInvalid) (nonempty_text (pl_provider_user_id link)))
       (\<lambda>providerUserID.
     bnd (of_option (EAuth ErrPendingProviderLinkInvalid) (nonempty_text (pl_provider_email link)))
       (\<lambda>providerEmail.
     bnd (GetUserByID E (pl_user link)) (\<lambda>user.
     if usr_email user \<noteq> providerEmail then fail (EAuth ErrPendingProviderLinkInvalid)
     else ret (link, providerUserID, providerEmail, user)))))"

text \<open>What both proofs end with.\<close>

definition finish_recovery ::
  "env \<Rightarrow> auth_service \<Rightarrow> provider_link \<Rightarrow> string \<Rightarrow> user \<Rightarrow> time \<Rightarrow> user M" where
  "finish_recovery E A link providerEmail user0 now =
     bnd (if pl_provider link = ProviderApple
          then (case as_apple A of None \<Rightarrow> fail apple_unavailable
            | Some C \<Rightarrow> PromoteProviderLink E C (usr_id user0) (pl_id link))
          else ret ()) (\<lambda>_.
     bnd (if pl_email_verified link then markCurrentEmailVerified E user0 providerEmail now
          else ret user0) (\<lambda>user.
     bnd (enqueueAuthMethodChanged E user (pl_provider link) EmailTemplateAuthMethodAdded now) (\<lambda>_.
     ret user)))"

definition CompleteAccountRecoveryProviderLinkWithPassword ::
  "env \<Rightarrow> auth_service \<Rightarrow> uuid \<Rightarrow> string \<Rightarrow> time \<Rightarrow> user M" where
  "CompleteAccountRecoveryProviderLinkWithPassword E A linkID password now = with_tx E
     (bnd (recovery_link E linkID now) (\<lambda>(link, providerUserID, providerEmail, user).
      bnd (map_err (err_as (EStore ErrorAuthProviderNotFound) (EAuth ErrPasswordProviderMissing))
             (GetAuthProviderByMethodAndUserID E ProviderPassword (usr_id user))) (\<lambda>passwordProvider.
      bnd (of_option (EAuth ErrPasswordProviderMissing) (prv_password_hash passwordProvider)) (\<lambda>h.
      bnd (of_sum (Verify (as_argon2 A) password h)) (\<lambda>valid.
      if \<not> valid then fail (EAuth ErrInvalidCredentials)
      else
      bnd (unlinked_identity E (pl_provider link) providerUserID) (\<lambda>_.
      bnd (map_err link_invalid (ConsumePendingProviderLink E linkID now)) (\<lambda>_.
      bnd (linkExternalIdentityToUser E A (usr_id user) (pl_provider link) providerUserID) (\<lambda>_.
      finish_recovery E A link providerEmail user now))))))))"

definition CompleteAccountRecoveryProviderLinkWithProviderProof ::
  "env \<Rightarrow> auth_service \<Rightarrow> uuid \<Rightarrow> string \<Rightarrow> string \<Rightarrow> time \<Rightarrow> user M" where
  "CompleteAccountRecoveryProviderLinkWithProviderProof E A linkID proofProvider proofProviderUserID now =
     (if \<not> IsProviderEnabled A proofProvider then fail (EAuth ErrProviderDisabled)
      else if proofProviderUserID = '''' then fail (EAuth ErrPendingProviderLinkInvalid)
      else with_tx E
        (bnd (recovery_link E linkID now) (\<lambda>(link, providerUserID, providerEmail, user).
         bnd (map_err (err_as (EStore ErrorAuthProviderNotFound) (EAuth ErrInvalidCredentials))
                (GetAuthProviderByProviderAndProviderUserID E proofProvider proofProviderUserID)) (\<lambda>proof.
         if prv_user proof \<noteq> usr_id user then fail (EAuth ErrInvalidCredentials)
         else
         bnd (unlinked_identity E (pl_provider link) providerUserID) (\<lambda>_.
         bnd (map_err link_invalid (ConsumePendingProviderLink E linkID now)) (\<lambda>_.
         bnd (if proofProvider = pl_provider link
              then bnd (UpdateAuthProviderIdentity E (usr_id user) (pl_provider link) providerUserID) (\<lambda>_.
                CredentialProviderChanged E (as_events A)
                  (user_credential (usr_id user) None (pl_provider link)))
              else linkExternalIdentityToUser E A (usr_id user) (pl_provider link) providerUserID) (\<lambda>_.
         finish_recovery E A link providerEmail user now)))))))"

section \<open>Removing and changing credentials\<close>

definition UnlinkAuthProvider :: "env \<Rightarrow> auth_service \<Rightarrow> uuid \<Rightarrow> string \<Rightarrow> unit M" where
  "UnlinkAuthProvider E A userID provider = with_tx E
     (bnd (LockUserForAuthMethodMutation E userID) (\<lambda>_.
      bnd (CountAuthMethods E userID) (\<lambda>count.
      if count \<le> 1 then fail (EAuth ErrCannotRemoveLastAuthMethod)
      else
      bnd (GetUserByID E userID) (\<lambda>user.
      bnd (if provider = ProviderApple
           then bnd (new_uuid E) (\<lambda>i.
             ignoring (EStore ErrorAuthProviderNotFound) (CreateAppleTokenRevocationForUser E i userID))
           else ret ()) (\<lambda>_.
      bnd (DeleteAuthProviderByMethodAndUserID E provider userID) (\<lambda>_.
      bnd (if provider = ProviderPassword then DeletePendingPasswordResetsByUserID E userID else ret ()) (\<lambda>_.
      bnd (now_utc E) (\<lambda>now.
      bnd (enqueueAuthMethodChanged E user provider EmailTemplateAuthMethodRemoved now) (\<lambda>_.
      CredentialProviderRemoved E (as_events A) (user_credential userID None provider))))))))))"

definition AddPassword :: "env \<Rightarrow> auth_service \<Rightarrow> uuid \<Rightarrow> string \<Rightarrow> unit M" where
  "AddPassword E A userID passwordHash = with_tx E
     (bnd (LockUserForAuthMethodMutation E userID) (\<lambda>_.
      try_bnd (GetAuthProviderByMethodAndUserID E ProviderPassword userID)
        (\<lambda>e. if e \<noteq> EStore ErrorAuthProviderNotFound then fail e
           else
           bnd (GetUserByID E userID) (\<lambda>user.
           bnd (CreateAuthProvider E (new_provider userID ProviderPassword None (Some passwordHash))) (\<lambda>_.
           bnd (DeletePendingPasswordResetsByUserID E userID) (\<lambda>_.
           bnd (now_utc E) (\<lambda>now.
           bnd (enqueueAuthMethodChanged E user ProviderPassword EmailTemplateAuthMethodAdded now) (\<lambda>_.
           CredentialPasswordAdded E (as_events A) (user_credential userID None '''')))))))
        (\<lambda>_. fail (EAuth ErrPasswordAlreadyExists))))"

text \<open>
  A password provider always has a hash; the code would panic on one that has none. The
  cutoffs of the other sessions are written before the database is changed.
\<close>

definition ChangePassword ::
  "env \<Rightarrow> auth_service \<Rightarrow> uuid \<Rightarrow> uuid \<Rightarrow> string \<Rightarrow> string \<Rightarrow> unit M" where
  "ChangePassword E A userID sessionID currentPassword newPasswordHash = with_tx E
     (bnd (LockUserForAuthMethodMutation E userID) (\<lambda>_.
      bnd (GetAuthProviderByMethodAndUserID E ProviderPassword userID) (\<lambda>provider.
      bnd (of_option (EText ''nil pointer dereference'') (prv_password_hash provider)) (\<lambda>h.
      bnd (of_sum (Verify (as_argon2 A) currentPassword h)) (\<lambda>valid.
      if \<not> valid then fail (EAuth ErrInvalidCredentials)
      else
      bnd (GetUserByID E userID) (\<lambda>user.
      bnd (now_utc E) (\<lambda>now.
      bnd (GetActiveSessionByIDForUpdate E sessionID now) (\<lambda>currentSession.
      if ses_user currentSession \<noteq> userID then fail (EStore ErrSessionNotFound)
      else
      bnd (ListActiveSessionsByUserID E userID now) (\<lambda>sessions.
      bnd (for_each (\<lambda>s. if ses_id s = sessionID then ret ()
             else RevokeSessionTokens E (as_revocations A) (ses_id s) now) sessions) (\<lambda>_.
      bnd (UpdatePasswordHash E userID newPasswordHash) (\<lambda>_.
      bnd (RevokeOtherSessionsByUserID E userID sessionID now) (\<lambda>_.
      bnd (DeleteRefreshTokensForOtherSessions E userID sessionID) (\<lambda>_.
      bnd (DeletePendingPasswordResetsByUserID E userID) (\<lambda>_.
      bnd (UpdateSessionAuthentication E userID sessionID AuthenticationMethodPassword now) (\<lambda>_.
      bnd (auth_enqueuePasswordChanged E user now) (\<lambda>_.
      CredentialPasswordChanged E (as_events A) (user_credential userID (Some sessionID) '''')))))))))))))))))"

definition SetPassword :: "env \<Rightarrow> auth_service \<Rightarrow> uuid \<Rightarrow> string \<Rightarrow> time \<Rightarrow> unit M" where
  "SetPassword E A userID passwordHash now = with_tx E
     (bnd (LockUserForAuthMethodMutation E userID) (\<lambda>_.
      bnd (GetUserByID E userID) (\<lambda>user.
      try_bnd (GetAuthProviderByMethodAndUserID E ProviderPassword userID)
        (\<lambda>e. if \<not> errors_is e (EStore ErrorAuthProviderNotFound) then fail e
           else
           bnd (now_utc E) (\<lambda>markerAt.
           bnd (RevokeUserTokens E (as_revocations A) userID (later markerAt now)) (\<lambda>_.
           bnd (CreateAuthProvider E (new_provider userID ProviderPassword None (Some passwordHash))) (\<lambda>_.
           bnd (RevokeAllSessionsForUser E userID now) (\<lambda>_.
           bnd (DeleteRefreshTokensByUserID E userID) (\<lambda>_.
           bnd (DeletePendingPasswordResetsByUserID E userID) (\<lambda>_.
           bnd (auth_enqueuePasswordChanged E user now) (\<lambda>_.
           bnd (auth_publish A (NewUserUpdated E userID now)) (\<lambda>_.
           CredentialPasswordAdded E (as_events A) (user_credential userID None ''''))))))))))
        (\<lambda>_. fail (EAuth ErrPasswordAlreadyExists)))))"

section \<open>The account\<close>

definition auth_DisableUser :: "env \<Rightarrow> auth_service \<Rightarrow> uuid \<Rightarrow> unit M" where
  "auth_DisableUser E A userID = with_tx E
     (bnd (GetUserByIDForUpdate E userID) (\<lambda>user.
      bnd (now_utc E) (\<lambda>now.
      bnd (RevokeUserTokens E (as_revocations A) userID now) (\<lambda>_.
      bnd (DisableUser E userID now) (\<lambda>_.
      bnd (RevokeAllSessionsForUser E userID now) (\<lambda>_.
      bnd (DeleteRefreshTokensByUserID E userID) (\<lambda>_.
      bnd (Enqueue E (usr_email user) EmailTemplateAccountDisabled
             [(TemplateVariableOccurredAt, OccurredAt E now)] now) (\<lambda>_.
      auth_publish A (NewUserUpdated E userID now)))))))))"

definition ChangeUsername :: "env \<Rightarrow> auth_service \<Rightarrow> uuid \<Rightarrow> string \<Rightarrow> unit M" where
  "ChangeUsername E A userID username = (case ValidateUsername username of
       Some e \<Rightarrow> fail e
     | None \<Rightarrow> map_err (\<lambda>e. if is_unique_violation e ConstraintUserUsername then EAuth ErrUsernameTaken else e)
         (with_tx E
           (bnd (UpdateUsername E userID username) (\<lambda>_.
            bnd (now_utc E) (\<lambda>now. auth_publish A (NewUserUpdated E userID now))))))"

text \<open>An enabled administrator may only go when there is another one.\<close>

definition require_other_admin :: "env \<Rightarrow> err \<Rightarrow> user \<Rightarrow> unit M" where
  "require_other_admin E e user =
     bnd (UserHasPlatformRole E (usr_id user) DBAdminRoleName) (\<lambda>hasAdmin.
     if hasAdmin \<and> usr_disabled_at user = None
     then bnd (CountActiveUsersWithRole E DBAdminRoleName) (\<lambda>activeAdmins. guard_err (activeAdmins \<le> 1) e)
     else ret ())"

definition auth_DeleteUser :: "env \<Rightarrow> auth_service \<Rightarrow> uuid \<Rightarrow> unit M" where
  "auth_DeleteUser E A userID = with_tx E
     (bnd (LockPlatformRoleByName E DBAdminRoleName) (\<lambda>_.
      bnd (GetUserByIDForUpdate E userID) (\<lambda>user.
      bnd (require_other_admin E (EAuth ErrCannotDeleteLastAdmin) user) (\<lambda>_.
      bnd (now_utc E) (\<lambda>now.
      bnd (RevokeUserTokens E (as_revocations A) userID now) (\<lambda>_.
      bnd (PrepareUserDeletion E (as_organizations A) userID) (\<lambda>_.
      bnd (new_uuid E) (\<lambda>i.
      bnd (ignoring (EStore ErrorAuthProviderNotFound) (CreateAppleTokenRevocationForUser E i userID)) (\<lambda>_.
      bnd (DeleteUserEmailReferences E userID (usr_email user)) (\<lambda>_.
      bnd (store_DeleteUser E userID) (\<lambda>_.
      auth_publish A (NewUserDeleted E userID now))))))))))))"

end
