(* ===== verification/Store_Admin.thy ===== *)
theory Store_Admin
  imports Store_Auth
begin

text \<open>
  The store's operations behind the administration pages: the audit trail
  (\<open>internal/store/admin_audit.go\<close>, migration 011) and the allowlist by row
  (\<open>allowed_emails.go\<close>).
\<close>

section \<open>Audit events\<close>

record audit_filter =
  af_ActorUserID :: "uuid option"
  af_TargetUserID :: "uuid option"
  af_Action :: string
  af_TargetEmail :: string
  af_Limit :: int
  af_Offset :: int

definition optional_too_long :: "nat \<Rightarrow> string option \<Rightarrow> bool" where
  "optional_too_long n s = (case s of None \<Rightarrow> False | Some x \<Rightarrow> too_long n x)"

text \<open>\<open>jsonb\<close> is the text PostgreSQL gives for a document, None for what is no document.\<close>

definition CreateAdminAuditEvent ::
  "env \<Rightarrow> (string \<Rightarrow> string option) \<Rightarrow> admin_audit_event \<Rightarrow> admin_audit_event M" where
  "CreateAdminAuditEvent E jsonb new = exec E (\<lambda>t u d.
     case jsonb (if aa_metadata new = '''' then ''{}'' else aa_metadata new) of
       None \<Rightarrow> Inl DriverError
     | Some document \<Rightarrow>
         if too_long 100 (aa_action new) \<or> optional_too_long 255 (aa_target_email new)
            \<or> optional_too_long 255 (aa_ip new) \<or> optional_too_long 512 (aa_user_agent new)
         then Inl ValueTooLong
         else if u \<in> aa_id ` set (admin_audit_events d)
           then Inl (UniqueViolation ''admin_audit_events_pkey'')
         else if opt_missing (aa_actor new) (map usr_id (users d))
            \<or> opt_missing (aa_target_user new) (map usr_id (users d)) then Inl ForeignKeyViolation
         else let row = \<lparr>aa_id = u, aa_created_at = t, aa_actor = aa_actor new,
                    aa_action = fit 100 (aa_action new), aa_target_user = aa_target_user new,
                    aa_target_email = map_option (fit 255) (aa_target_email new),
                    aa_metadata = document, aa_ip = map_option (fit 255) (aa_ip new),
                    aa_user_agent = map_option (fit 512) (aa_user_agent new)\<rparr>
           in Inr (row, d\<lparr>admin_audit_events := admin_audit_events d @ [row]\<rparr>))"

definition audit_key :: "admin_audit_event \<Rightarrow> time \<times> uuid" where
  "audit_key e = (aa_created_at e, aa_id e)"

definition audit_matches :: "audit_filter \<Rightarrow> admin_audit_event \<Rightarrow> bool" where
  "audit_matches f e \<longleftrightarrow>
     (case af_ActorUserID f of None \<Rightarrow> True | Some a \<Rightarrow> aa_actor e = Some a)
     \<and> (case af_TargetUserID f of None \<Rightarrow> True | Some a \<Rightarrow> aa_target_user e = Some a)
     \<and> (af_Action f = '''' \<or> aa_action e = af_Action f)
     \<and> (af_TargetEmail f = '''' \<or> aa_target_email e = Some (af_TargetEmail f))"

definition audit_limit :: "int \<Rightarrow> nat" where
  "audit_limit limit = (if limit \<le> 0 then 50 else if 200 < limit then 200 else nat limit)"

text \<open>Each event comes with the address its actor has now, if the actor still exists.\<close>

definition actor_email :: "db \<Rightarrow> admin_audit_event \<Rightarrow> string option" where
  "actor_email d e = (case aa_actor e of None \<Rightarrow> None
     | Some a \<Rightarrow> map_option usr_email (find (\<lambda>r. usr_id r = a) (users d)))"

definition ListAdminAuditEvents ::
  "env \<Rightarrow> audit_filter \<Rightarrow> (admin_audit_event \<times> string option) list M" where
  "ListAdminAuditEvents E f = query E (\<lambda>d. map (\<lambda>e. (e, actor_email d e))
     (take (audit_limit (af_Limit f)) (drop (nat (af_Offset f))
       (rev (sort_key audit_key (filter (audit_matches f) (admin_audit_events d)))))))"

definition DeleteAdminAuditEventsBefore :: "env \<Rightarrow> time \<Rightarrow> nat \<Rightarrow> nat M" where
  "DeleteAdminAuditEventsBefore E cutoff batchSize = exec_count E (\<lambda>t d.
     let ids = map aa_id (oldest (\<lambda>e. aa_created_at e < cutoff) audit_key batchSize (admin_audit_events d));
         hit = (\<lambda>e. aa_id e \<in> set ids)
     in (count_where hit (admin_audit_events d),
         d\<lparr>admin_audit_events := del_where hit (admin_audit_events d)\<rparr>))"

section \<open>The allowlist\<close>

text \<open>\<open>LIKE\<close>: a percent sign is any string, an underscore any character, a backslash escapes.\<close>

fun sql_like :: "string \<Rightarrow> string \<Rightarrow> bool" where
  "sql_like [] s = (s = [])"
| "sql_like (p # ps) s =
     (if p = CHR ''%'' then sql_like ps s \<or> (case s of [] \<Rightarrow> False | _ # cs \<Rightarrow> sql_like (p # ps) cs)
      else if p = CHR ''_'' then (case s of [] \<Rightarrow> False | _ # cs \<Rightarrow> sql_like ps cs)
      else if p = CHR 0x5C then (case ps of [] \<Rightarrow> False
        | q # qs \<Rightarrow> (case s of [] \<Rightarrow> False | c # cs \<Rightarrow> c = q \<and> sql_like qs cs))
      else (case s of [] \<Rightarrow> False | c # cs \<Rightarrow> c = p \<and> sql_like ps cs))"

definition allowed_matching :: "string \<Rightarrow> db \<Rightarrow> allowed_email list" where
  "allowed_matching q0 d =
     (let q = CanonicalEmail q0; pattern = ''%'' @ q @ ''%'' in
      sort_key al_email (filter (\<lambda>r. q = '''' \<or> sql_like pattern (to_lower (al_email r))) (allowed_emails d)))"

definition CountAllowedEmails :: "env \<Rightarrow> string \<Rightarrow> nat M" where
  "CountAllowedEmails E q = query E (\<lambda>d. length (allowed_matching q d))"

definition ListAllowedEmailsPage :: "env \<Rightarrow> string \<Rightarrow> nat \<Rightarrow> nat \<Rightarrow> allowed_email list M" where
  "ListAllowedEmailsPage E q limit offset = query E (\<lambda>d. take limit (drop offset (allowed_matching q d)))"

definition store_ListAllowedEmails :: "env \<Rightarrow> allowed_email list M" where
  "store_ListAllowedEmails E = query E (\<lambda>d. sort_key al_email (allowed_emails d))"

definition GetAllowedEmailByID :: "env \<Rightarrow> uuid \<Rightarrow> allowed_email M" where
  "GetAllowedEmailByID E i =
     query_row E ErrAllowedEmailNotFound (\<lambda>d. find (\<lambda>r. al_id r = i) (allowed_emails d))"

definition DeleteAllowedEmailByID :: "env \<Rightarrow> uuid \<Rightarrow> allowed_email M" where
  "DeleteAllowedEmailByID E i = bnd
     (exec E (\<lambda>_ _ d. Inr (find (\<lambda>r. al_id r = i) (allowed_emails d),
        d\<lparr>allowed_emails := del_where (\<lambda>r. al_id r = i) (allowed_emails d)\<rparr>)))
     (of_option (EStore ErrAllowedEmailNotFound))"

text \<open>A search text without wildcards finds the addresses that contain it.\<close>

definition plain_text :: "string \<Rightarrow> bool" where
  "plain_text q \<longleftrightarrow> list_all (\<lambda>c. c \<noteq> CHR ''%'' \<and> c \<noteq> CHR ''_'' \<and> c \<noteq> CHR 0x5C) q"

lemma sql_like_percent: "sql_like ''%'' s"
  by (induction s) auto

lemma sql_like_prefix:
  "plain_text q \<Longrightarrow> sql_like (q @ ''%'') s \<longleftrightarrow> (\<exists>r. s = q @ r)"
proof (induction q arbitrary: s)
  case Nil
  then show ?case using sql_like_percent by simp
next
  case (Cons c q)
  then show ?case by (cases s) (auto simp: plain_text_def simp del: append_assoc)
qed

lemma sql_like_contains:
  assumes "plain_text q"
  shows "sql_like (''%'' @ q @ ''%'') s \<longleftrightarrow> (\<exists>l r. s = l @ q @ r)"
proof (induction s)
  case Nil
  then show ?case using sql_like_prefix [OF assms, of "[]"] by simp
next
  case (Cons c s)
  have "sql_like (''%'' @ q @ ''%'') (c # s) \<longleftrightarrow> (\<exists>r. c # s = q @ r) \<or> (\<exists>l r. s = l @ q @ r)"
    using Cons sql_like_prefix [OF assms, of "c # s"] by simp
  also have "\<dots> \<longleftrightarrow> (\<exists>l r. c # s = l @ q @ r)"
    by (metis append_Cons append_Nil neq_Nil_conv list.inject)
  finally show ?case .
qed

end
