(* ===== verification/User_Agent.thy ===== *)
theory User_Agent
  imports Prelude
begin

text \<open>
  \<open>internal/useragent/useragent.go\<close>: what the User-Agent header and the browser's
  platform hint say of the browser, the system and the device.
\<close>

text \<open>\<open>strings.Contains\<close>.\<close>

fun contains :: "string \<Rightarrow> string \<Rightarrow> bool" where
  "contains [] needle = (needle = [])"
| "contains (c # cs) needle = (take (length needle) (c # cs) = needle \<or> contains cs needle)"

definition containsAny :: "string \<Rightarrow> string list \<Rightarrow> bool" where
  "containsAny v needles \<longleftrightarrow> list_ex (contains v) needles"

definition ua_normalize :: "string \<Rightarrow> string" where
  "ua_normalize v = to_lower (trim_space v)"

datatype device_kind = DeviceDesktop | DevicePhone | DeviceTablet | DeviceUnknown

record agent =
  ag_Raw :: string
  ag_Browser :: string
  ag_OS :: string
  ag_Device :: string
  ag_DeviceKind :: device_kind
  ag_Mobile :: bool

definition detectBrowser :: "string \<Rightarrow> string" where
  "detectBrowser ua =
     (if contains ua ''edg/'' then ''Edge''
      else if containsAny ua [''opr/'', ''opera''] then ''Opera''
      else if containsAny ua [''crios/'', ''chrome/'', ''chromium/''] then ''Chrome''
      else if containsAny ua [''fxios/'', ''firefox/''] then ''Firefox''
      else if contains ua ''safari/'' then ''Safari'' else '''')"

definition detectOS :: "string \<Rightarrow> string" where
  "detectOS ua =
     (if containsAny ua [''iphone'', ''ipad''] then ''iOS''
      else if containsAny ua [''mac os x'', ''macintosh''] then ''macOS''
      else if contains ua ''windows'' then ''Windows''
      else if contains ua ''android'' then ''Android''
      else if contains ua ''cros'' then ''ChromeOS''
      else if contains ua ''linux'' then ''Linux'' else '''')"

definition detectDevice :: "string \<Rightarrow> string" where
  "detectDevice ua =
     (if contains ua ''iphone'' then ''iPhone'' else if contains ua ''ipad'' then ''iPad'' else '''')"

definition detectDeviceKind :: "string \<Rightarrow> device_kind" where
  "detectDeviceKind ua =
     (if ua = '''' then DeviceUnknown
      else if containsAny ua [''ipad'', ''tablet''] then DeviceTablet
      else if contains ua ''iphone'' \<or> contains ua ''android'' \<and> contains ua ''mobile'' then DevicePhone
      else DeviceDesktop)"

definition Parse_agent :: "string \<Rightarrow> agent" where
  "Parse_agent raw = (let ua = ua_normalize raw in
     \<lparr>ag_Raw = raw, ag_Browser = detectBrowser ua, ag_OS = detectOS ua, ag_Device = detectDevice ua,
      ag_DeviceKind = detectDeviceKind ua, ag_Mobile = contains ua ''mobile''\<rparr>)"

definition BrowserSummary :: "agent \<Rightarrow> string" where
  "BrowserSummary a =
     (if trim_space (ag_Raw a) = '''' then ''Unknown browser''
      else if ag_Browser a = '''' then ''Unknown browser''
      else if ag_OS a = '''' then ag_Browser a
      else ag_Browser a @ '' on '' @ ag_OS a)"

text \<open>The separator is a space, U+00B7 and a space.\<close>

definition agent_Label :: "agent \<Rightarrow> string" where
  "agent_Label a =
     (let browser = (if ag_Browser a = ''Safari'' \<and> ag_Mobile a then ''Mobile Safari'' else ag_Browser a);
          platform = (if ag_Device a = '''' then ag_OS a else ag_Device a)
      in if browser = '''' \<and> platform = '''' then ''Unknown device''
         else if browser = '''' then platform
         else if platform = '''' then browser
         else browser @ [CHR '' '', CHR 0xC2, CHR 0xB7, CHR '' ''] @ platform)"

section \<open>Platform signals\<close>

record signals =
  sg_hint :: string
  sg_agent :: agent

definition NewPlatformSignals :: "string \<Rightarrow> string \<Rightarrow> signals" where
  "NewPlatformSignals platformHint rawUserAgent =
     \<lparr>sg_hint = ua_normalize platformHint, sg_agent = Parse_agent rawUserAgent\<rparr>"

definition IsIPhone :: "signals \<Rightarrow> bool" where
  "IsIPhone s \<longleftrightarrow> contains (sg_hint s) ''iphone'' \<or> ag_Device (sg_agent s) = ''iPhone''"
definition IsIPad :: "signals \<Rightarrow> bool" where
  "IsIPad s \<longleftrightarrow> contains (sg_hint s) ''ipad'' \<or> ag_Device (sg_agent s) = ''iPad''"
definition IsIOS :: "signals \<Rightarrow> bool" where
  "IsIOS s \<longleftrightarrow> sg_hint s = ''ios'' \<or> IsIPhone s \<or> IsIPad s \<or> ag_OS (sg_agent s) = ''iOS''"
definition IsMacOS :: "signals \<Rightarrow> bool" where
  "IsMacOS s \<longleftrightarrow> containsAny (sg_hint s) [''macos'', ''mac os'', ''mac''] \<or> ag_OS (sg_agent s) = ''macOS''"
definition IsChromeOS :: "signals \<Rightarrow> bool" where
  "IsChromeOS s \<longleftrightarrow> containsAny (sg_hint s) [''chrome os'', ''chromium os'', ''cros'']
     \<or> ag_OS (sg_agent s) = ''ChromeOS''"
definition IsWindows :: "signals \<Rightarrow> bool" where
  "IsWindows s \<longleftrightarrow> contains (sg_hint s) ''windows'' \<or> ag_OS (sg_agent s) = ''Windows''"
definition IsAndroid :: "signals \<Rightarrow> bool" where
  "IsAndroid s \<longleftrightarrow> contains (sg_hint s) ''android'' \<or> ag_OS (sg_agent s) = ''Android''"
definition IsLinux :: "signals \<Rightarrow> bool" where
  "IsLinux s \<longleftrightarrow> contains (sg_hint s) ''linux'' \<or> ag_OS (sg_agent s) = ''Linux''"

end
