(* ===== verification/Challenge_Service.thy ===== *)
theory Challenge_Service
  imports Store_Challenge Tokens Email_Queue Webhook
begin

text \<open>
  \<open>internal/challenge\<close>: the verification codes
  (\<open>verification_code_service.go\<close>), the life of a challenge (\<open>service.go\<close>) and
  the four flows built on it (\<open>signup.go\<close>, \<open>password_reset.go\<close>,
  \<open>email_change.go\<close>, \<open>email_verification.go\<close>). The delivery worker is modelled
  in \<open>Email_Delivery\<close>.
\<close>

section \<open>Verification codes\<close>

record challenge_policy =
  Enabled :: bool
  TTL :: duration
  VerificationCodeTTL :: duration
  MaxAttempts :: int
  MaxResends :: int
  MinimumResendInterval :: duration

text \<open>The first secret signs, every secret verifies; empty secrets are dropped.\<close>

record code_service =
  cs_policy :: challenge_policy
  cs_secrets :: "string list"

definition NewVerificationCodeServiceWithPolicy :: "challenge_policy \<Rightarrow> string list \<Rightarrow> code_service" where
  "NewVerificationCodeServiceWithPolicy policy secrets =
     \<lparr>cs_policy = policy, cs_secrets = filter (\<lambda>s. s \<noteq> '''') secrets\<rparr>"

definition hashVerificationCode :: "env \<Rightarrow> string \<Rightarrow> string \<Rightarrow> string" where
  "hashVerificationCode E code_text secret = hex_encode (hmac_sha256 E secret code_text)"

definition matchesVerificationCodeHash :: "env \<Rightarrow> code_service \<Rightarrow> string \<Rightarrow> string \<Rightarrow> bool" where
  "matchesVerificationCodeHash E C code_text storedHash \<longleftrightarrow>
     list_ex (\<lambda>secret. hashVerificationCode E code_text secret = storedHash) (cs_secrets C)"

text \<open>The bytes of a UUID, a number from big-endian bytes, and \<open>%06d\<close>.\<close>

definition uuid_bytes :: "uuid \<Rightarrow> string" where
  "uuid_bytes u = map (\<lambda>i. char_of (unat u div 256 ^ (15 - i) mod 256 :: nat)) [0..<16]"

definition bytes_number :: "string \<Rightarrow> nat" where
  "bytes_number s = foldl (\<lambda>n c. n * 256 + of_char c) 0 s"

definition six_digits :: "nat \<Rightarrow> string" where
  "six_digits n = (let s = show_nat n in replicate (6 - length s) (CHR ''0'') @ s)"

definition stableSixDigitCode :: "env \<Rightarrow> uuid \<Rightarrow> uuid \<Rightarrow> string \<Rightarrow> string" where
  "stableSixDigitCode E challengeID deliveryID secret =
     six_digits (bytes_number (hmac_sha256 E secret
       (''authara-email-verification-code-v1'' @ uuid_bytes challengeID @ uuid_bytes deliveryID)) mod 1000000)"

definition storeCode :: "env \<Rightarrow> code_service \<Rightarrow> challenge \<Rightarrow> string \<Rightarrow> time \<Rightarrow> string M" where
  "storeCode E C c code_text now =
     (let expiresAt0 = now + VerificationCodeTTL (cs_policy C);
          expiresAt = (if ch_expires_at c < expiresAt0 then ch_expires_at c else expiresAt0)
      in bnd (UpsertVerificationCode E \<lparr>vc_id = nil_uuid, vc_challenge = ch_id c, vc_created_at = zero_time,
             vc_expires_at = expiresAt,
             vc_code_hash = hashVerificationCode E code_text (hd (cs_secrets C))\<rparr>)
           (\<lambda>_. ret code_text))"

definition GenerateCodeForDelivery :: "env \<Rightarrow> code_service \<Rightarrow> challenge \<Rightarrow> uuid \<Rightarrow> time \<Rightarrow> string M" where
  "GenerateCodeForDelivery E C c deliveryID now =
     (if cs_secrets C = [] then fail (EChallenge ErrVerificationCodeSecretNotConfigured)
      else storeCode E C c (stableSixDigitCode E (ch_id c) deliveryID (hd (cs_secrets C))) now)"

definition VerifyCode :: "env \<Rightarrow> code_service \<Rightarrow> uuid \<Rightarrow> string \<Rightarrow> time \<Rightarrow> unit M" where
  "VerifyCode E C challengeID code_text now =
     bnd (GetVerificationCodeByChallengeID E challengeID) (\<lambda>row.
     if vc_expires_at row < now then fail (EChallenge ErrChallengeExpired)
     else if cs_secrets C = [] then fail (EChallenge ErrVerificationCodeSecretNotConfigured)
     else if \<not> matchesVerificationCodeHash E C code_text (vc_code_hash row)
       then fail (EChallenge ErrInvalidVerificationCode)
     else ret ())"

section \<open>The life of a challenge\<close>

record challenge_service =
  cv_policy :: challenge_policy
  cv_verification_required :: bool
  cv_allowlist_enabled :: bool
  cv_publish :: "envelope \<Rightarrow> unit M"
  cv_revocations :: "revocations option"
  cv_events :: recorder

definition emailTemplateForPurpose :: "string \<Rightarrow> string M" where
  "emailTemplateForPurpose purpose =
     (if purpose = ChallengePurposeSignup then ret EmailTemplateSignupCode
      else if purpose = ChallengePurposePasswordReset then ret EmailTemplatePasswordResetCode
      else if purpose = ChallengePurposeEmailChange then ret EmailTemplateEmailChangeCode
      else if purpose = ChallengePurposeEmailVerification then ret EmailTemplateEmailChangeCode
      else fail (EChallenge ErrUnsupportedChallengePurpose))"

definition enqueueChallengeEmail ::
  "env \<Rightarrow> uuid \<Rightarrow> string \<Rightarrow> string \<Rightarrow> time \<Rightarrow> time \<Rightarrow> unit M" where
  "enqueueChallengeEmail E challengeID toEmail template now deliveryDeadline =
     bnd (CreateEmailJob E ((new_email_job (Some challengeID) toEmail template [] now deliveryDeadline)
            \<lparr>ej_data := None\<rparr>)) (\<lambda>_. ret ())"

definition new_challenge :: "challenge_policy \<Rightarrow> string \<Rightarrow> string \<Rightarrow> time \<Rightarrow> int \<Rightarrow> challenge" where
  "new_challenge policy purpose email now maxResends =
     \<lparr>ch_id = nil_uuid, ch_created_at = zero_time, ch_updated_at = zero_time,
      ch_expires_at = now + TTL policy, ch_consumed_at = None, ch_purpose = purpose, ch_email = email,
      ch_attempt_count = 0, ch_max_attempts = MaxAttempts policy, ch_resend_count = 0,
      ch_max_resends = maxResends, ch_last_sent_at = None,
      ch_min_resend_interval = MinimumResendInterval policy, ch_has_min_resend_interval = True\<rparr>"

definition CreateOpaqueChallenge ::
  "env \<Rightarrow> challenge_service \<Rightarrow> time \<Rightarrow> string \<Rightarrow> string \<Rightarrow> uuid M" where
  "CreateOpaqueChallenge E S now purpose email = with_tx E
     (bnd (CreateChallenge E (new_challenge (cv_policy S) purpose email now 0)) (\<lambda>c. ret (ch_id c)))"

definition createChallenge ::
  "env \<Rightarrow> challenge_service \<Rightarrow> string \<Rightarrow> string \<Rightarrow> time \<Rightarrow> (challenge \<Rightarrow> unit M) \<Rightarrow> uuid M" where
  "createChallenge E S purpose email now createPendingAction = with_tx E
     (bnd (CreateChallenge E (new_challenge (cv_policy S) purpose email now (MaxResends (cv_policy S)))) (\<lambda>c.
      bnd (createPendingAction c) (\<lambda>_.
      bnd (emailTemplateForPurpose purpose) (\<lambda>template.
      bnd (enqueueChallengeEmail E (ch_id c) email template now (ch_expires_at c)) (\<lambda>_.
      ret (ch_id c))))))"

definition validateChallengeForVerify :: "challenge \<Rightarrow> time \<Rightarrow> challenge_error option" where
  "validateChallengeForVerify c now =
     (if IsConsumed c then Some ErrChallengeConsumed
      else if IsExpired c now then Some ErrChallengeExpired
      else if \<not> HasAttemptsRemaining c then Some ErrTooManyAttempts
      else None)"

definition validateChallengeForResend :: "challenge \<Rightarrow> time \<Rightarrow> duration \<Rightarrow> challenge_error option" where
  "validateChallengeForResend c now legacyMinimumResendInterval =
     (if IsConsumed c then Some ErrChallengeConsumed
      else if IsExpired c now then Some ErrChallengeExpired
      else if ch_max_resends c \<le> ch_resend_count c then Some ErrTooManyResends
      else let interval = (if ch_has_min_resend_interval c then ch_min_resend_interval c
             else legacyMinimumResendInterval) in
        case ch_last_sent_at c of
          None \<Rightarrow> None
        | Some t \<Rightarrow> if now < t + interval then Some ErrResendTooSoon else None)"

text \<open>The user a pending action belongs to; \<open>None\<close> when the purpose has no such action.\<close>

definition pendingActionUserID :: "env \<Rightarrow> challenge \<Rightarrow> uuid option M" where
  "pendingActionUserID E c =
     (if ch_purpose c = ChallengePurposePasswordReset then
        bnd (map_err (err_as (EStore ErrorPendingPasswordResetNotFound) (EChallenge ErrChallengeConsumed))
          (GetPendingPasswordResetByChallengeID E (ch_id c))) (\<lambda>a. ret (Some (pr_user a)))
      else if ch_purpose c = ChallengePurposeEmailChange then
        bnd (map_err (err_as (EStore ErrorPendingEmailChangeNotFound) (EChallenge ErrChallengeConsumed))
          (GetPendingEmailChangeByChallengeID E (ch_id c))) (\<lambda>a. ret (Some (pe_user a)))
      else if ch_purpose c = ChallengePurposeEmailVerification then
        bnd (map_err (err_as (EStore ErrEmailVerificationTransactionNotFound) (EChallenge ErrChallengeConsumed))
          (GetEmailVerificationTransactionByChallengeID E (ch_id c))) (\<lambda>a. ret (Some (ev_user a)))
      else ret None)"

definition lockPendingActionForResend :: "env \<Rightarrow> challenge \<Rightarrow> unit M" where
  "lockPendingActionForResend E c = bnd (pendingActionUserID E c) (\<lambda>guarded. case guarded of
       None \<Rightarrow> ret ()
     | Some userID \<Rightarrow>
         bnd (map_err (err_as (EStore ErrUserNotFound) (EChallenge ErrChallengeConsumed))
           (GetUserByIDForUpdate E userID)) (\<lambda>_.
         bnd (pendingActionUserID E c) (\<lambda>current.
         guard_err ((case current of None \<Rightarrow> nil_uuid | Some u \<Rightarrow> u) \<noteq> userID) (EChallenge ErrChallengeConsumed))))"

text \<open>The \<open>resultErr\<close> outcomes commit the transaction and are returned all the same.\<close>

definition resend_locked :: "env \<Rightarrow> uuid \<Rightarrow> challenge \<Rightarrow> time \<Rightarrow> (err + unit) M" where
  "resend_locked E challengeID c now = bnd (IncrementChallengeResendCount E challengeID now) (\<lambda>ok.
     if \<not> ok then ret (Inl (EChallenge ErrTooManyResends))
     else bnd (emailTemplateForPurpose (ch_purpose c)) (\<lambda>template.
       bnd (enqueueChallengeEmail E challengeID (ch_email c) template now (ch_expires_at c))
         (\<lambda>_. ret (Inr ()))))"

definition ResendChallenge :: "env \<Rightarrow> challenge_service \<Rightarrow> uuid \<Rightarrow> time \<Rightarrow> unit M" where
  "ResendChallenge E S challengeID now = raise_result (with_tx E
     (bnd (GetChallengeByIDForUpdate E challengeID) (\<lambda>c.
      case validateChallengeForResend c now (MinimumResendInterval (cv_policy S)) of
        Some e \<Rightarrow> ret (Inl (EChallenge e))
      | None \<Rightarrow> try_bnd (lockPendingActionForResend E c)
          (\<lambda>e. if errors_is e (EChallenge ErrChallengeConsumed) then ret (Inl e) else fail e)
          (\<lambda>_. resend_locked E challengeID c now))))"

text \<open>
  \<open>verifyChallenge\<close>: the two callbacks run inside the transaction; what the first
  returns (the captured variables of the Go closures) is handed to the second, whose result
  is the call's.
\<close>

definition verify_body ::
  "env \<Rightarrow> uuid \<Rightarrow> string \<Rightarrow> string \<Rightarrow> code_service \<Rightarrow> time \<Rightarrow> (challenge \<Rightarrow> 'a M) \<Rightarrow>
     ('a \<Rightarrow> challenge \<Rightarrow> 'b M) \<Rightarrow> (err + challenge \<times> 'b) M" where
  "verify_body E challengeID purpose code_text verifier now beforeVerify afterVerify =
     bnd (GetChallengeByIDForUpdate E challengeID) (\<lambda>c.
     case validateChallengeForVerify c now of
       Some e \<Rightarrow> ret (Inl (EChallenge e))
     | None \<Rightarrow>
         if ch_purpose c \<noteq> purpose then ret (Inl (EChallenge ErrUnsupportedChallengePurpose))
         else bnd (beforeVerify c) (\<lambda>a. try_bnd (VerifyCode E verifier challengeID code_text now)
           (\<lambda>e. if errors_is e (EChallenge ErrInvalidVerificationCode)
              then bnd (IncrementChallengeAttemptCount E challengeID) (\<lambda>_. ret (Inl e))
              else ret (Inl e))
           (\<lambda>_. bnd (afterVerify a c) (\<lambda>b. try_bnd (ConsumeChallenge E challengeID now)
              (\<lambda>e. if e = EStore ErrorChallengeAlreadyConsumed
                 then ret (Inl (EChallenge ErrChallengeConsumed)) else fail e)
              (\<lambda>_. ret (Inr (c\<lparr>ch_consumed_at := Some now\<rparr>, b)))))))"

definition verifyChallenge ::
  "env \<Rightarrow> uuid \<Rightarrow> string \<Rightarrow> string \<Rightarrow> code_service \<Rightarrow> time \<Rightarrow> (challenge \<Rightarrow> 'a M) \<Rightarrow>
     ('a \<Rightarrow> challenge \<Rightarrow> 'b M) \<Rightarrow> (challenge \<times> 'b) M" where
  "verifyChallenge E challengeID purpose code_text verifier now beforeVerify afterVerify =
     raise_result (with_tx E
       (verify_body E challengeID purpose code_text verifier now beforeVerify afterVerify))"

section \<open>Sign-up\<close>

definition CreateSignupChallenge ::
  "env \<Rightarrow> challenge_service \<Rightarrow> string \<Rightarrow> string \<Rightarrow> string \<Rightarrow> uuid option \<Rightarrow> time \<Rightarrow> uuid M" where
  "CreateSignupChallenge E S email username passwordHash invitationID now =
     createChallenge E S ChallengePurposeSignup email now (\<lambda>c.
       bnd (CreatePendingSignupAction E \<lparr>ps_id = nil_uuid, ps_challenge = ch_id c, ps_created_at = zero_time,
         ps_email = email, ps_username = username, ps_password_hash = passwordHash,
         ps_invitation = invitationID\<rparr>) (\<lambda>_. ret ()))"

definition VerifySignupChallenge ::
  "env \<Rightarrow> uuid \<Rightarrow> string \<Rightarrow> code_service \<Rightarrow> time \<Rightarrow> (pending_signup \<Rightarrow> unit M) \<Rightarrow> (challenge \<times> pending_signup) M" where
  "VerifySignupChallenge E challengeID code_text verifier now complete =
     verifyChallenge E challengeID ChallengePurposeSignup code_text verifier now (\<lambda>_. ret ())
       (\<lambda>_ c. bnd (GetPendingSignupActionByChallengeID E (ch_id c)) (\<lambda>action.
          bnd (complete action) (\<lambda>_. ret action)))"

section \<open>Password reset\<close>

definition requirePasswordResetEligibility :: "env \<Rightarrow> challenge_service \<Rightarrow> uuid \<Rightarrow> string \<Rightarrow> user M" where
  "requirePasswordResetEligibility E S userID challengeEmail =
     (let unavailable = EChallenge ErrPasswordResetUnavailable in
      bnd (map_err (err_as (EStore ErrUserNotFound) unavailable) (GetUserByID E userID)) (\<lambda>user.
      if \<not> equal_fold (trim_space (usr_email user)) (trim_space challengeEmail) then fail unavailable
      else if cv_verification_required S \<and> usr_email_verified_at user = None then fail unavailable
      else bnd (map_err (err_as (EStore ErrorAuthProviderNotFound) unavailable)
          (GetAuthProviderByMethodAndUserID E ProviderPassword userID)) (\<lambda>provider.
        case prv_password_hash provider of
          None \<Rightarrow> fail unavailable
        | Some h \<Rightarrow> if trim_space h = '''' then fail unavailable else ret user)))"

definition create_reset_action :: "env \<Rightarrow> challenge_service \<Rightarrow> uuid \<Rightarrow> string \<Rightarrow> string \<Rightarrow> challenge \<Rightarrow> unit M" where
  "create_reset_action E S userID email passwordHash c =
     bnd (map_err (err_as (EStore ErrUserNotFound) (EChallenge ErrPasswordResetUnavailable))
       (LockUserForUpdate E userID)) (\<lambda>_.
     bnd (requirePasswordResetEligibility E S userID email) (\<lambda>_.
     bnd (CreatePendingPasswordReset E \<lparr>pr_id = nil_uuid, pr_created_at = zero_time,
       pr_challenge = ch_id c, pr_user = userID, pr_password_hash = passwordHash\<rparr>) (\<lambda>_. ret ())))"

definition CreatePasswordResetChallenge ::
  "env \<Rightarrow> challenge_service \<Rightarrow> uuid \<Rightarrow> string \<Rightarrow> string \<Rightarrow> time \<Rightarrow> uuid M" where
  "CreatePasswordResetChallenge E S userID email passwordHash now =
     try_bnd (createChallenge E S ChallengePurposePasswordReset email now
         (create_reset_action E S userID email passwordHash))
       (\<lambda>e. if errors_is e (EChallenge ErrPasswordResetUnavailable)
          then CreateOpaqueChallenge E S now ChallengePurposePasswordReset email
          else fail e)
       ret"

definition executePasswordReset ::
  "env \<Rightarrow> challenge_service \<Rightarrow> user \<Rightarrow> pending_reset \<Rightarrow> time \<Rightarrow> time \<Rightarrow> unit M" where
  "executePasswordReset E S user action now markerAt =
     bnd (map_err (err_as (EStore ErrorAuthProviderNotFound) (EChallenge ErrPasswordResetUnavailable))
       (UpdatePasswordHash E (pr_user action) (pr_password_hash action))) (\<lambda>_.
     bnd (RevokeUserTokens E (cv_revocations S) (pr_user action) markerAt) (\<lambda>_.
     bnd (RevokeAllSessionsForUser E (pr_user action) now) (\<lambda>_.
     bnd (DeletePendingPasswordResetsByUserID E (pr_user action)) (\<lambda>_.
     bnd (Enqueue E (usr_email user) EmailTemplatePasswordChanged
        [(TemplateVariableOccurredAt, OccurredAt E now)] now) (\<lambda>_.
     CredentialPasswordReset E (cv_events S) \<lparr>ce_actor_type = ActorAnonymous, ce_actor_user = None,
       ce_user = pr_user action, ce_session = None, ce_passkey = None, ce_provider = ''''\<rparr>)))))"

definition reset_after :: "env \<Rightarrow> challenge_service \<Rightarrow> time \<Rightarrow> challenge \<Rightarrow> unit M" where
  "reset_after E S now c =
     (let unavailable = EChallenge ErrPasswordResetUnavailable;
          pending = map_err (err_as (EStore ErrorPendingPasswordResetNotFound) unavailable)
            (GetPendingPasswordResetByChallengeID E (ch_id c))
      in bnd pending (\<lambda>action0.
         bnd (map_err (err_as (EStore ErrUserNotFound) unavailable) (LockUserForUpdate E (pr_user action0))) (\<lambda>_.
         bnd pending (\<lambda>action.
         bnd (requirePasswordResetEligibility E S (pr_user action) (ch_email c)) (\<lambda>user.
         bnd (now_utc E) (\<lambda>t.
         executePasswordReset E S user action now (if t < now then now else t)))))))"

definition CompletePasswordResetChallenge ::
  "env \<Rightarrow> challenge_service \<Rightarrow> uuid \<Rightarrow> string \<Rightarrow> code_service \<Rightarrow> time \<Rightarrow> unit M" where
  "CompletePasswordResetChallenge E S challengeID code_text verifier now =
     bnd (verifyChallenge E challengeID ChallengePurposePasswordReset code_text verifier now
       (\<lambda>_. ret ()) (\<lambda>_. reset_after E S now)) (\<lambda>_. ret ())"

section \<open>E-mail change\<close>

definition sameEmail :: "string \<Rightarrow> string \<Rightarrow> bool" where
  "sameEmail a b \<longleftrightarrow> equal_fold (trim_space a) (trim_space b)"

definition requireActiveEmailChangeSession :: "env \<Rightarrow> uuid \<Rightarrow> uuid \<Rightarrow> time \<Rightarrow> user M" where
  "requireActiveEmailChangeSession E userID sessionID now =
     (let no = EChallenge ErrEmailChangeNotAuthorized in
      bnd (map_err (err_as (EStore ErrUserNotFound) no) (GetUserByIDForUpdate E userID)) (\<lambda>user.
      if usr_disabled_at user \<noteq> None then fail no
      else bnd (map_err (err_as (EStore ErrSessionNotFound) no)
          (GetActiveSessionByIDForUpdate E sessionID now)) (\<lambda>session.
        if ses_user session \<noteq> userID then fail no else ret user)))"

definition CreateEmailChangeChallenge ::
  "env \<Rightarrow> challenge_service \<Rightarrow> uuid \<Rightarrow> uuid \<Rightarrow> string \<Rightarrow> string \<Rightarrow> time \<Rightarrow> uuid M" where
  "CreateEmailChangeChallenge E S userID initiatingSessionID oldEmail newEmail now =
     createChallenge E S ChallengePurposeEmailChange newEmail now (\<lambda>c.
       bnd (requireActiveEmailChangeSession E userID initiatingSessionID now) (\<lambda>user.
       if \<not> sameEmail (usr_email user) oldEmail then fail (EChallenge ErrEmailChangeNotAuthorized)
       else bnd (CreatePendingEmailChange E \<lparr>pe_id = nil_uuid, pe_created_at = zero_time,
           pe_challenge = ch_id c, pe_user = userID, pe_session = initiatingSessionID,
           pe_old_email = usr_email user, pe_new_email = newEmail\<rparr>) (\<lambda>_. ret ())))"

definition executeEmailChange :: "env \<Rightarrow> challenge_service \<Rightarrow> pending_email_change \<Rightarrow> time \<Rightarrow> unit M" where
  "executeEmailChange E S action now = with_tx E
     (bnd (map_err (\<lambda>e. if is_unique_violation e ConstraintUserEmail then EChallenge ErrEmailAlreadyInUse else e)
        (UpdateUserEmailVerifiedIfCurrent E (pe_user action) (pe_old_email action) (pe_new_email action) now))
      (\<lambda>updated. if \<not> updated then fail (EChallenge ErrEmailChangeNotAuthorized) else
      bnd (if cv_allowlist_enabled S
           then bnd (DeleteAllowedEmail E (pe_old_email action)) (\<lambda>_. EnsureAllowedEmail E (pe_new_email action))
           else ret ()) (\<lambda>_.
      bnd (DeletePendingEmailChangesByUserID E (pe_user action)) (\<lambda>_.
      bnd (DeletePendingPasswordResetsByUserID E (pe_user action)) (\<lambda>_.
      let dat = [(TemplateVariableOldEmail, pe_old_email action), (TemplateVariableNewEmail, pe_new_email action),
            (TemplateVariableOccurredAt, OccurredAt E now)] in
      bnd (Enqueue E (pe_old_email action) EmailTemplateEmailChangedOldAddress dat now) (\<lambda>_.
      bnd (Enqueue E (pe_new_email action) EmailTemplateEmailChangedNewAddress dat now) (\<lambda>_.
      bnd (NewUserUpdated E (pe_user action) now) (\<lambda>evt.
      bnd (cv_publish S evt) (\<lambda>_.
      AccountEmailChanged E (cv_events S) \<lparr>ce_actor_type = '''', ce_actor_user = None,
        ce_user = pe_user action, ce_session = Some (pe_session action), ce_passkey = None,
        ce_provider = ''''\<rparr>)))))))))"

definition email_change_before ::
  "env \<Rightarrow> uuid \<Rightarrow> uuid \<Rightarrow> time \<Rightarrow> challenge \<Rightarrow> pending_email_change M" where
  "email_change_before E userID sessionID now c =
     bnd (requireActiveEmailChangeSession E userID sessionID now) (\<lambda>user.
     bnd (map_err (err_as (EStore ErrorPendingEmailChangeNotFound) (EChallenge ErrEmailChangeNotAuthorized))
        (GetPendingEmailChangeByChallengeIDForUpdate E (ch_id c))) (\<lambda>action.
     if pe_user action \<noteq> userID \<or> pe_session action \<noteq> sessionID
        \<or> \<not> sameEmail (usr_email user) (pe_old_email action)
     then fail (EChallenge ErrEmailChangeNotAuthorized) else ret action))"

definition CompleteEmailChangeChallenge ::
  "env \<Rightarrow> challenge_service \<Rightarrow> uuid \<Rightarrow> uuid \<Rightarrow> uuid \<Rightarrow> string \<Rightarrow> code_service \<Rightarrow> time \<Rightarrow> unit M" where
  "CompleteEmailChangeChallenge E S challengeID userID sessionID code_text verifier now =
     bnd (verifyChallenge E challengeID ChallengePurposeEmailChange code_text verifier now
       (email_change_before E userID sessionID now) (\<lambda>action _. executeEmailChange E S action now)) (\<lambda>_. ret ())"

section \<open>Required e-mail verification\<close>

text \<open>Nothing is opened, and a zero transaction is returned, when the address is verified already.\<close>

definition BeginRequiredEmailVerification ::
  "env \<Rightarrow> challenge_service \<Rightarrow> uuid \<Rightarrow> uuid \<Rightarrow> string \<Rightarrow> string \<Rightarrow> time \<Rightarrow> email_verification option M" where
  "BeginRequiredEmailVerification E S userID sessionID audience returnTo now = with_tx E
     (bnd (GetUserByIDForUpdate E userID) (\<lambda>user.
      if usr_email_verified_at user \<noteq> None then ret None
      else bnd (map_err (\<lambda>_. EChallenge ErrEmailVerificationInvalid)
          (GetActiveSessionByIDForUpdate E sessionID now)) (\<lambda>session.
        if ses_user session \<noteq> userID then fail (EChallenge ErrEmailVerificationInvalid)
        else bnd (UpsertEmailVerificationTransaction E \<lparr>ev_id = nil_uuid, ev_created_at = zero_time,
            ev_user = userID, ev_session = sessionID, ev_audience = audience, ev_method = ses_method session,
            ev_return_to = returnTo, ev_expires_at = now + TTL (cv_policy S), ev_consumed_at = None,
            ev_challenge = None, ev_target_email = None\<rparr>) (\<lambda>v.
          bnd (case cv_revocations S of None \<Rightarrow> ret ()
               | Some _ \<Rightarrow> RevokeSessionTokens E (cv_revocations S) sessionID now) (\<lambda>_.
          bnd (store_RevokeSession E sessionID now) (\<lambda>_. ret (Some v)))))))"

definition GetEmailVerificationTransaction :: "env \<Rightarrow> uuid \<Rightarrow> time \<Rightarrow> (email_verification \<times> user) M" where
  "GetEmailVerificationTransaction E i now =
     (let invalid = EChallenge ErrEmailVerificationInvalid in
      bnd (map_err (\<lambda>_. invalid) (GetEmailVerificationTransactionByID E i)) (\<lambda>v.
      if \<not> IsActive v now then fail invalid
      else bnd (map_err (\<lambda>_. invalid) (GetUserByID E (ev_user v))) (\<lambda>user.
        if usr_email_verified_at user \<noteq> None then fail invalid else ret (v, user))))"

definition attach_verification ::
  "env \<Rightarrow> uuid \<Rightarrow> string \<Rightarrow> time \<Rightarrow> challenge \<Rightarrow> unit M" where
  "attach_verification E transactionID targetEmail now c =
     (let invalid = EChallenge ErrEmailVerificationInvalid in
      bnd (map_err (\<lambda>_. invalid) (GetEmailVerificationTransactionByIDForUpdate E transactionID)) (\<lambda>v.
      if \<not> IsActive v now then fail invalid
      else bnd (map_err (\<lambda>_. invalid) (GetUserByIDForUpdate E (ev_user v))) (\<lambda>user.
        if usr_email_verified_at user \<noteq> None then fail invalid
        else bnd (if \<not> equal_fold (usr_email user) targetEmail
                  then bnd (UserExistsByEmail E targetEmail)
                    (\<lambda>exists. guard_err exists (EChallenge ErrEmailAlreadyInUse))
                  else ret ()) (\<lambda>_.
          AttachEmailVerificationChallenge E (ev_id v) (ch_id c) targetEmail))))"

definition CreateRequiredEmailVerificationChallenge ::
  "env \<Rightarrow> challenge_service \<Rightarrow> uuid \<Rightarrow> string \<Rightarrow> time \<Rightarrow> uuid M" where
  "CreateRequiredEmailVerificationChallenge E S transactionID targetEmail0 now =
     (let targetEmail = to_lower (trim_space targetEmail0)
      in createChallenge E S ChallengePurposeEmailVerification targetEmail now
           (attach_verification E transactionID targetEmail now))"

definition verification_before ::
  "env \<Rightarrow> uuid \<Rightarrow> uuid \<Rightarrow> time \<Rightarrow> challenge \<Rightarrow> (email_verification \<times> user) M" where
  "verification_before E transactionID challengeID now c =
     (let invalid = EChallenge ErrEmailVerificationInvalid in
      bnd (map_err (\<lambda>_. invalid) (GetEmailVerificationTransactionByChallengeIDForUpdate E challengeID)) (\<lambda>v.
      if ev_id v \<noteq> transactionID \<or> \<not> IsActive v now \<or> ev_target_email v = None then fail invalid
      else bnd (map_err (\<lambda>_. invalid) (GetUserByIDForUpdate E (ev_user v))) (\<lambda>user.
        if usr_email_verified_at user \<noteq> None then fail invalid else ret (v, user))))"

definition verify_target ::
  "env \<Rightarrow> challenge_service \<Rightarrow> user \<Rightarrow> string \<Rightarrow> time \<Rightarrow> user M" where
  "verify_target E S user targetEmail now =
     (let invalid = EChallenge ErrEmailVerificationInvalid in
      if equal_fold (usr_email user) targetEmail
      then bnd (map_err (\<lambda>_. invalid) (MarkUserEmailVerified E (usr_id user) (usr_email user) now))
        (\<lambda>updated. if \<not> updated then fail invalid else ret user)
      else bnd (map_err (\<lambda>e. if is_unique_violation e ConstraintUserEmail then EChallenge ErrEmailAlreadyInUse else e)
          (UpdateUserEmailVerifiedIfCurrent E (usr_id user) (usr_email user) targetEmail now)) (\<lambda>updated.
        if \<not> updated then fail invalid
        else bnd (if cv_allowlist_enabled S
                  then try_bnd (DeleteAllowedEmail E (usr_email user))
                    (\<lambda>e. if errors_is e (EStore ErrAllowedEmailNotFound) then EnsureAllowedEmail E targetEmail
                         else fail e)
                    (\<lambda>_. EnsureAllowedEmail E targetEmail)
                  else ret ()) (\<lambda>_. ret (user\<lparr>usr_email := targetEmail\<rparr>))))"

definition verification_after ::
  "env \<Rightarrow> challenge_service \<Rightarrow> time \<Rightarrow> email_verification \<times> user \<Rightarrow> (email_verification \<times> user) M" where
  "verification_after E S now vu = (case vu of (v, user0) \<Rightarrow>
     bnd (verify_target E S user0 (case ev_target_email v of None \<Rightarrow> '''' | Some t \<Rightarrow> t) now) (\<lambda>user.
     bnd (ConsumeEmailVerificationTransaction E (ev_id v) now) (\<lambda>_.
     bnd (NewUserUpdated E (usr_id user) now) (\<lambda>evt.
     bnd (cv_publish S evt) (\<lambda>_.
     ret (v, user\<lparr>usr_email_verified_at := Some now\<rparr>))))))"

definition CompleteRequiredEmailVerification ::
  "env \<Rightarrow> challenge_service \<Rightarrow> uuid \<Rightarrow> uuid \<Rightarrow> string \<Rightarrow> code_service \<Rightarrow> time \<Rightarrow> (email_verification \<times> user) M" where
  "CompleteRequiredEmailVerification E S transactionID challengeID code_text verifier now =
     bnd (verifyChallenge E challengeID ChallengePurposeEmailVerification code_text verifier now
       (verification_before E transactionID challengeID now) (\<lambda>vu _. verification_after E S now vu))
       (\<lambda>(_, vu). ret vu)"

end
