(* ===== verification/Job_Queue.thy ===== *)
theory Job_Queue
  imports Schema
begin

text \<open>
  The contract of a job queue that several workers share through one table
  (\<open>email_jobs\<close>, \<open>webhook_events\<close>): a waiting job is leased by the worker
  that claims it, and only that lease lets the worker finish it; a reaper takes expired leases
  back. The abstract machine is a map from job identifiers to a phase and a number of
  attempts; the locale \<open>leased_queue\<close> states what the row operations promise and
  proves, once for all queues, that they implement the machine. The machine's invariant bounds
  the attempts under every interleaving of workers, reaper and clean-up.
\<close>

section \<open>The abstract machine\<close>

datatype phase = Waiting | Leased time | Finished | Dead

definition terminal :: "phase \<Rightarrow> bool" where
  "terminal p \<longleftrightarrow> p = Finished \<or> p = Dead"

type_synonym 'k jobs = "'k \<rightharpoonup> phase \<times> int"

inductive job_step :: "int \<Rightarrow> 'k jobs \<Rightarrow> 'k jobs \<Rightarrow> bool" for maxAttempts where
  enqueue: "q k = None \<Longrightarrow> job_step maxAttempts q (q(k \<mapsto> (Waiting, 0)))"
| claim: "q k = Some (Waiting, n) \<Longrightarrow> job_step maxAttempts q (q(k \<mapsto> (Leased t, n + 1)))"
| finish: "q k = Some (Leased t, n) \<Longrightarrow> job_step maxAttempts q (q(k \<mapsto> (Finished, n)))"
| give_up: "q k = Some (Leased t, n) \<Longrightarrow> job_step maxAttempts q (q(k \<mapsto> (Dead, n)))"
| retry: "q k = Some (Leased t, n) \<Longrightarrow> n < maxAttempts \<Longrightarrow>
    job_step maxAttempts q (q(k \<mapsto> (Waiting, n)))"
| purge: "q k = Some (p, n) \<Longrightarrow> terminal p \<Longrightarrow> job_step maxAttempts q (q(k := None))"

abbreviation job_steps :: "int \<Rightarrow> 'k jobs \<Rightarrow> 'k jobs \<Rightarrow> bool" where
  "job_steps maxAttempts \<equiv> (job_step maxAttempts)\<^sup>*\<^sup>*"

text \<open>Attempts are counted from 0 and never pass the bound; a waiting job has one left.\<close>

definition job_ok :: "int \<Rightarrow> phase \<times> int \<Rightarrow> bool" where
  "job_ok maxAttempts j = (case j of (p, n) \<Rightarrow> 0 \<le> n \<and> n \<le> maxAttempts
     \<and> (p = Waiting \<longrightarrow> n < maxAttempts) \<and> (p \<noteq> Waiting \<longrightarrow> 0 < n))"

definition queue_ok :: "int \<Rightarrow> 'k jobs \<Rightarrow> bool" where
  "queue_ok maxAttempts q \<longleftrightarrow> (\<forall>k j. q k = Some j \<longrightarrow> job_ok maxAttempts j)"

lemma queue_ok_upd [intro]:
  "queue_ok m q \<Longrightarrow> job_ok m j \<Longrightarrow> queue_ok m (q(k \<mapsto> j))"
  by (auto simp: queue_ok_def)

lemma queue_ok_del [intro]: "queue_ok m q \<Longrightarrow> queue_ok m (q(k := None))"
  by (simp add: queue_ok_def)

lemma job_step_ok:
  assumes "job_step m q q'" and "queue_ok m q" and "0 < m"
  shows "queue_ok m q'"
  using assms
proof (induction rule: job_step.induct)
  case (claim q k n t)
  then have "job_ok m (Waiting, n)" by (simp add: queue_ok_def)
  then show ?case using claim by (intro queue_ok_upd) (auto simp: job_ok_def)
next
  case (finish q k t n)
  then have "job_ok m (Leased t, n)" by (simp add: queue_ok_def)
  then show ?case using finish by (intro queue_ok_upd) (auto simp: job_ok_def)
next
  case (give_up q k t n)
  then have "job_ok m (Leased t, n)" by (simp add: queue_ok_def)
  then show ?case using give_up by (intro queue_ok_upd) (auto simp: job_ok_def)
next
  case (retry q k t n)
  then have "job_ok m (Leased t, n)" by (simp add: queue_ok_def)
  then show ?case using retry by (intro queue_ok_upd) (auto simp: job_ok_def)
qed (auto simp: job_ok_def)

lemma job_steps_ok:
  assumes "job_steps m q q'" and "queue_ok m q" and "0 < m"
  shows "queue_ok m q'"
  using assms by (induction rule: rtranclp_induct) (auto intro: job_step_ok)

text \<open>A finished or dead job is never worked on again: it stays as it is until it is purged.\<close>

lemma job_step_terminal:
  assumes "job_step m q q'" and "q k = Some (p, n)" and "terminal p"
  shows "q' k = Some (p, n) \<or> q' k = None"
  using assms by (cases rule: job_step.cases) (auto simp: terminal_def)

section \<open>Tables as machine states\<close>

definition jobs_of :: "('j \<Rightarrow> 'k) \<Rightarrow> ('j \<Rightarrow> phase) \<Rightarrow> ('j \<Rightarrow> int) \<Rightarrow> 'j list \<Rightarrow> 'k jobs" where
  "jobs_of key phase attempts rs k = map_option (\<lambda>j. (phase j, attempts j)) (find (\<lambda>j. key j = k) rs)"

lemma jobs_of_Nil [simp]: "jobs_of key phase attempts [] = Map.empty"
  by (simp add: jobs_of_def fun_eq_iff)

lemma jobs_of_Cons:
  "jobs_of key phase attempts (r # rs) = (jobs_of key phase attempts rs)(key r \<mapsto> (phase r, attempts r))"
  by (auto simp: jobs_of_def fun_eq_iff)

lemma jobs_of_append_new:
  assumes "key r \<notin> key ` set rs"
  shows "jobs_of key phase attempts (rs @ [r]) = (jobs_of key phase attempts rs)(key r \<mapsto> (phase r, attempts r))"
  using assms by (induction rs) (auto simp: jobs_of_Cons fun_upd_twist)

lemma jobs_of_None: "jobs_of key phase attempts rs k = None \<longleftrightarrow> k \<notin> key ` set rs"
  by (auto simp: jobs_of_def find_None_iff)

lemma jobs_of_row:
  "distinct (map key rs) \<Longrightarrow> r \<in> set rs \<Longrightarrow> jobs_of key phase attempts rs (key r) = Some (phase r, attempts r)"
  by (simp add: jobs_of_def find_unique)

text \<open>Updating the row with one identifier is updating the map there.\<close>

lemma jobs_of_upd_key:
  assumes "distinct (map key rs)" and "r \<in> set rs" and "\<And>x. key (f x) = key x"
    and "\<And>x. x \<in> set rs \<Longrightarrow> p x \<Longrightarrow> x = r" and "p r"
  shows "jobs_of key phase attempts (upd_where p f rs) =
    (jobs_of key phase attempts rs)(key r \<mapsto> (phase (f r), attempts (f r)))"
proof
  fix k
  have e: "find (\<lambda>j. key j = k) (upd_where p f rs) =
      map_option (\<lambda>x. if p x then f x else x) (find (\<lambda>j. key j = k) rs)"
    by (rule find_upd_where) (simp add: assms(3))
  show "jobs_of key phase attempts (upd_where p f rs) k =
      ((jobs_of key phase attempts rs)(key r \<mapsto> (phase (f r), attempts (f r)))) k"
  proof (cases "k = key r")
    case True
    then show ?thesis
      using find_unique [OF assms(1,2)] assms(5) e by (simp add: jobs_of_def)
  next
    case False
    have "\<not> p x" if "find (\<lambda>j. key j = k) rs = Some x" for x
      using find_Some_in [OF that] assms(4) [of x] False by auto
    then show ?thesis
      using False by (cases "find (\<lambda>j. key j = k) rs") (simp_all add: jobs_of_def e)
  qed
qed

text \<open>
  An update of many rows, or a deletion of many, is a sequence of machine steps when each of
  its rows makes one.
\<close>

lemma jobs_of_upd_steps:
  assumes "distinct (map key rs)" and "\<And>x. key (f x) = key x"
    and step: "\<And>x q. x \<in> set rs \<Longrightarrow> p x \<Longrightarrow> q (key x) = Some (phase x, attempts x) \<Longrightarrow>
      job_steps m q (q(key x \<mapsto> (phase (f x), attempts (f x))))"
  shows "job_steps m (jobs_of key phase attempts rs) (jobs_of key phase attempts (upd_where p f rs))"
proof -
  let ?J = "jobs_of key phase attempts"
  have "job_steps m (?J (xs @ ys)) (?J (xs @ upd_where p f ys))"
    if "rs = upd @ ys" "map key upd = map key xs" for upd xs ys
    using that
  proof (induction ys arbitrary: upd xs)
    case Nil
    then show ?case by simp
  next
    case (Cons y ys)
    let ?y = "if p y then f y else y"
    have d: "distinct (map key (xs @ y # ys))" using assms(1) Cons.prems by simp
    have eq: "?J (xs @ ?y # ys) = (if p y then (?J (xs @ y # ys))(key y \<mapsto> (phase (f y), attempts (f y)))
        else ?J (xs @ y # ys))"
      using d assms(2)
      by (induction xs) (auto simp: jobs_of_Cons fun_upd_twist)
    have s1: "job_steps m (?J (xs @ y # ys)) (?J (xs @ ?y # ys))"
      unfolding eq using Cons.prems(1) jobs_of_row [OF d, of y phase attempts] by (auto intro: step)
    have "job_steps m (?J ((xs @ [?y]) @ ys)) (?J ((xs @ [?y]) @ upd_where p f ys))"
      by (rule Cons.IH [of "upd @ [y]"]) (use Cons.prems assms(2) in auto)
    with s1 show ?case by simp
  qed
  from this [of "[]" rs "[]"] show ?thesis by simp
qed

lemma jobs_of_del_steps:
  assumes "distinct (map key rs)" and "\<And>x. x \<in> set rs \<Longrightarrow> p x \<Longrightarrow> terminal (phase x)"
  shows "job_steps m (jobs_of key phase attempts rs) (jobs_of key phase attempts (del_where p rs))"
proof -
  let ?J = "jobs_of key phase attempts"
  have "job_steps m (?J (xs @ ys)) (?J (xs @ del_where p ys))"
    if "distinct (map key (xs @ ys))" "\<And>x. x \<in> set ys \<Longrightarrow> p x \<Longrightarrow> terminal (phase x)" for xs ys
    using that
  proof (induction ys arbitrary: xs)
    case Nil
    then show ?case by (simp add: del_where_def)
  next
    case (Cons y ys)
    show ?case
    proof (cases "p y")
      case True
      have eq: "?J (xs @ ys) = (?J (xs @ y # ys))(key y := None)"
        using Cons.prems(1) jobs_of_None [of key phase attempts ys "key y"]
        by (induction xs) (auto simp: jobs_of_Cons fun_upd_twist fun_upd_idem)
      have "job_step m (?J (xs @ y # ys)) (?J (xs @ ys))"
        unfolding eq using jobs_of_row [OF Cons.prems(1), of y phase attempts] True Cons.prems(2)
        by (intro job_step.purge) auto
      moreover have "job_steps m (?J (xs @ ys)) (?J (xs @ del_where p ys))"
        using Cons by (intro Cons.IH) auto
      ultimately show ?thesis using True by (simp add: del_where_def)
    next
      case False
      have "job_steps m (?J ((xs @ [y]) @ ys)) (?J ((xs @ [y]) @ del_where p ys))"
        using Cons.prems by (intro Cons.IH) auto
      then show ?thesis using False by (simp add: del_where_def)
    qed
  qed
  from this [of "[]" rs] assms show ?thesis by simp
qed

section \<open>The interface\<close>

text \<open>
  What a queue's rows and row operations promise: a claim picks a waiting row and leases it at
  the claim's time, a transition is guarded by identifier and lease, the reaper touches leased
  rows and decides by the attempts, the clean-up touches terminal rows.
\<close>

locale leased_queue =
  fixes key :: "'j \<Rightarrow> 'k" and phase :: "'j \<Rightarrow> phase" and attempts :: "'j \<Rightarrow> int"
    and claimable :: "time \<Rightarrow> 'j list \<Rightarrow> 'j option" and claimed :: "time \<Rightarrow> time \<Rightarrow> 'j \<Rightarrow> 'j"
    and holds :: "'k \<Rightarrow> time \<Rightarrow> 'j \<Rightarrow> bool"
    and stale :: "time \<Rightarrow> 'j \<Rightarrow> bool" and purgeable :: "'p \<Rightarrow> 'j \<Rightarrow> bool"
  assumes claimable: "claimable now rs = Some r \<Longrightarrow> r \<in> set rs \<and> phase r = Waiting"
    and claimed: "phase r = Waiting \<Longrightarrow> key (claimed now t r) = key r \<and> phase (claimed now t r) = Leased now
        \<and> attempts (claimed now t r) = attempts r + 1"
    and claimed_key: "key (claimed now t r) = key r"
    and holds: "holds k l r \<longleftrightarrow> key r = k \<and> phase r = Leased l"
    and stale: "stale s r \<Longrightarrow> \<exists>l. phase r = Leased l \<and> l \<le> s"
    and purgeable: "purgeable p r \<Longrightarrow> terminal (phase r)"
begin

lemma claim_step:
  assumes "distinct (map key rs)" and "claimable now rs = Some r"
  shows "job_step m (jobs_of key phase attempts rs)
    (jobs_of key phase attempts (upd_where (\<lambda>x. key x = key r) (claimed now t) rs))"
proof -
  have r: "r \<in> set rs" "phase r = Waiting" using claimable [OF assms(2)] by auto
  have "jobs_of key phase attempts (upd_where (\<lambda>x. key x = key r) (claimed now t) rs) =
      (jobs_of key phase attempts rs)(key r \<mapsto> (Leased now, attempts r + 1))"
    using jobs_of_upd_key [OF assms(1) r(1), of "claimed now t" "\<lambda>x. key x = key r" phase attempts]
      claimed [OF r(2)] claimed_key assms(1) r(1) by (auto simp: distinct_map inj_on_def)
  then show ?thesis
    using jobs_of_row [OF assms(1) r(1), of phase attempts] r(2) by (simp add: job_step.claim)
qed

lemma no_holder:
  assumes "jobs_of key phase attempts rs k = Some (p, n)" and "p \<noteq> Leased l" and "distinct (map key rs)"
  shows "count_where (holds k l) rs = 0" and "upd_where (holds k l) f rs = rs"
proof -
  have "\<not> holds k l r" if "r \<in> set rs" for r
    using jobs_of_row [OF assms(3) that, of phase attempts] assms(1,2) by (auto simp: holds)
  then show "count_where (holds k l) rs = 0" and "upd_where (holds k l) f rs = rs"
    by (auto simp: upd_where_def intro: map_idI)
qed

lemma holder_unique:
  assumes "distinct (map key rs)"
  shows "count_where (holds k l) rs \<le> 1"
proof (cases "\<exists>r\<in>set rs. holds k l r")
  case True
  then obtain r where r: "r \<in> set rs" "key r = k" by (auto simp: holds)
  have "set (filter (holds k l) rs) \<subseteq> {r}"
    using r assms by (auto simp: holds distinct_map inj_on_def)
  moreover have "distinct (filter (holds k l) rs)"
    using assms by (simp add: distinct_map)
  ultimately show ?thesis
    using card_mono [of "{r}" "set (filter (holds k l) rs)"]
    by (simp add: count_where_def flip: distinct_card)
next
  case False
  then show ?thesis by (simp add: count_where_def filter_False)
qed

lemma transition_steps:
  assumes "distinct (map key rs)" and "\<And>x. key (f x) = key x"
    and "\<And>x. x \<in> set rs \<Longrightarrow> holds k l x \<Longrightarrow> attempts (f x) = attempts x \<and> (terminal (phase (f x))
        \<or> phase (f x) = Waiting \<and> attempts x < m)"
  shows "job_steps m (jobs_of key phase attempts rs)
    (jobs_of key phase attempts (upd_where (holds k l) f rs))"
proof (rule jobs_of_upd_steps [OF assms(1,2)])
  fix x and q :: "'k jobs"
  assume x: "x \<in> set rs" "holds k l x" "q (key x) = Some (phase x, attempts x)"
  then have "q (key x) = Some (Leased l, attempts x)" by (simp add: holds)
  with assms(3) [OF x(1,2)] show "job_steps m q (q(key x \<mapsto> (phase (f x), attempts (f x))))"
    by (auto simp: terminal_def intro!: r_into_rtranclp intro: job_step.intros)
qed

lemma reap_steps:
  assumes "distinct (map key rs)" and "\<And>x. key (f x) = key x"
    and "\<And>x. x \<in> set rs \<Longrightarrow> p x \<Longrightarrow> stale s x"
    and "\<And>x. x \<in> set rs \<Longrightarrow> stale s x \<Longrightarrow> attempts (f x) = attempts x
        \<and> (phase (f x) = Dead \<or> phase (f x) = Waiting \<and> attempts x < m)"
  shows "job_steps m (jobs_of key phase attempts rs) (jobs_of key phase attempts (upd_where p f rs))"
proof (rule jobs_of_upd_steps [OF assms(1,2)])
  fix x and q :: "'k jobs"
  assume x: "x \<in> set rs" "p x" "q (key x) = Some (phase x, attempts x)"
  obtain l where "phase x = Leased l" using stale [OF assms(3) [OF x(1,2)]] by blast
  with x(3) have "q (key x) = Some (Leased l, attempts x)" by simp
  with assms(4) [OF x(1) assms(3) [OF x(1,2)]]
  show "job_steps m q (q(key x \<mapsto> (phase (f x), attempts (f x))))"
    by (auto intro!: r_into_rtranclp intro: job_step.intros)
qed

lemma purge_steps:
  assumes "distinct (map key rs)" and "\<And>x. x \<in> set rs \<Longrightarrow> p x \<Longrightarrow> purgeable c x"
  shows "job_steps m (jobs_of key phase attempts rs) (jobs_of key phase attempts (del_where p rs))"
  by (rule jobs_of_del_steps [OF assms(1)]) (auto dest: purgeable assms(2))

end

end
