(* ===== verification/Webhook_Queue.thy ===== *)
theory Webhook_Queue
  imports Webhook Job_Queue "HOL-Library.Option_ord"
begin

text \<open>
  The delivery queue of webhooks: the statements of \<open>internal/store/webhook.go\<close> and
  the worker of \<open>internal/webhook/worker.go\<close> (\<open>runOnce\<close>, the stale reaper, the
  clean-up batch). A claim runs in a transaction of its own; \<open>FOR UPDATE SKIP LOCKED\<close>
  makes it one atomic step. The trigger \<open>set_updated_at\<close> stamps every updated row.
\<close>

section \<open>The store\<close>

definition GetWebhookEventByID :: "env \<Rightarrow> string \<Rightarrow> webhook_event M" where
  "GetWebhookEventByID E eventID =
     query_row E ErrorWebhookEventNotFound (\<lambda>d. find (\<lambda>e. wh_id e = eventID) (webhook_events d))"

definition event_due :: "time \<Rightarrow> webhook_event list \<Rightarrow> webhook_event option" where
  "event_due now es = (case oldest (\<lambda>e. wh_status e = WebhookEventStatusPending \<and> wh_next_attempt_at e \<le> now)
       (\<lambda>e. (wh_next_attempt_at e, wh_created_at e, wh_id e)) 1 es of [] \<Rightarrow> None | e # _ \<Rightarrow> Some e)"

definition event_claimed :: "time \<Rightarrow> time \<Rightarrow> webhook_event \<Rightarrow> webhook_event" where
  "event_claimed now t e = e\<lparr>wh_status := WebhookEventStatusProcessing,
     wh_attempt_count := wh_attempt_count e + 1, wh_processing_started_at := Some now, wh_updated_at := t\<rparr>"

definition ClaimNextWebhookEvent :: "env \<Rightarrow> time \<Rightarrow> webhook_event M" where
  "ClaimNextWebhookEvent E now = with_tx E
     (bnd (query_row E ErrorWebhookEventNotFound (\<lambda>d. event_due now (webhook_events d))) (\<lambda>row.
      bnd (exec_upd E (\<lambda>t d. d\<lparr>webhook_events :=
             upd_where (\<lambda>e. wh_id e = wh_id row) (event_claimed now t) (webhook_events d)\<rparr>)) (\<lambda>_.
      ret (row\<lparr>wh_status := WebhookEventStatusProcessing, wh_attempt_count := wh_attempt_count row + 1,
               wh_processing_started_at := Some now\<rparr>))))"

definition holds_event :: "string \<Rightarrow> time \<Rightarrow> webhook_event \<Rightarrow> bool" where
  "holds_event eventID lease e \<longleftrightarrow> wh_id e = eventID
     \<and> wh_status e = WebhookEventStatusProcessing \<and> wh_processing_started_at e = Some lease"

definition ensureWebhookEventTransition :: "nat M \<Rightarrow> unit M" where
  "ensureWebhookEventTransition m = bnd m (\<lambda>affected. guard_err (affected \<noteq> 1) (EStore ErrorWebhookEventLeaseLost))"

definition event_transition ::
  "env \<Rightarrow> string \<Rightarrow> time \<Rightarrow> (time \<Rightarrow> webhook_event \<Rightarrow> webhook_event) \<Rightarrow> unit M" where
  "event_transition E eventID lease f = ensureWebhookEventTransition (exec_count E (\<lambda>t d.
     (count_where (holds_event eventID lease) (webhook_events d),
      d\<lparr>webhook_events := upd_where (holds_event eventID lease) (f t) (webhook_events d)\<rparr>)))"

definition MarkWebhookEventDelivered :: "env \<Rightarrow> string \<Rightarrow> time \<Rightarrow> time \<Rightarrow> unit M" where
  "MarkWebhookEventDelivered E eventID processingStartedAt deliveredAt =
     event_transition E eventID processingStartedAt (\<lambda>t e. e\<lparr>wh_status := WebhookEventStatusDelivered,
       wh_delivered_at := Some deliveredAt, wh_processing_started_at := None, wh_last_error := None,
       wh_updated_at := t\<rparr>)"

definition MarkWebhookEventFailed :: "env \<Rightarrow> string \<Rightarrow> time \<Rightarrow> string \<Rightarrow> unit M" where
  "MarkWebhookEventFailed E eventID processingStartedAt lastError =
     event_transition E eventID processingStartedAt (\<lambda>t e. e\<lparr>wh_status := WebhookEventStatusFailed,
       wh_processing_started_at := None, wh_last_error := Some lastError, wh_updated_at := t\<rparr>)"

definition RequeueWebhookEvent :: "env \<Rightarrow> string \<Rightarrow> time \<Rightarrow> string \<Rightarrow> time \<Rightarrow> unit M" where
  "RequeueWebhookEvent E eventID processingStartedAt lastError nextAttemptAt =
     event_transition E eventID processingStartedAt (\<lambda>t e. e\<lparr>wh_status := WebhookEventStatusPending,
       wh_next_attempt_at := nextAttemptAt, wh_processing_started_at := None,
       wh_last_error := Some lastError, wh_updated_at := t\<rparr>)"

text \<open>The reaper's single statement; a lease is stale when it is not after the bound.\<close>

record reap_result =
  Retried :: int
  Failed :: int

definition reap_total :: "reap_result \<Rightarrow> int" where
  "reap_total r = Retried r + Failed r"

definition event_stale :: "time \<Rightarrow> webhook_event \<Rightarrow> bool" where
  "event_stale staleBefore e \<longleftrightarrow> wh_status e = WebhookEventStatusProcessing
     \<and> (case wh_processing_started_at e of None \<Rightarrow> False | Some t \<Rightarrow> t \<le> staleBefore)"

definition event_reaped :: "int \<Rightarrow> time \<Rightarrow> time \<Rightarrow> webhook_event \<Rightarrow> webhook_event" where
  "event_reaped maxAttempts nextAttemptAt t e = e\<lparr>
     wh_status := (if maxAttempts \<le> wh_attempt_count e then WebhookEventStatusFailed else WebhookEventStatusPending),
     wh_next_attempt_at := (if maxAttempts \<le> wh_attempt_count e then wh_next_attempt_at e else nextAttemptAt),
     wh_processing_started_at := None, wh_last_error := Some ''processing lease expired'',
     wh_updated_at := t\<rparr>"

definition ReapStaleWebhookEvents :: "env \<Rightarrow> time \<Rightarrow> time \<Rightarrow> int \<Rightarrow> nat \<Rightarrow> reap_result M" where
  "ReapStaleWebhookEvents E staleBefore nextAttemptAt maxAttempts batchSize = exec E (\<lambda>t _ d.
     let picked = oldest (event_stale staleBefore) (\<lambda>e. (wh_processing_started_at e, wh_id e)) batchSize
           (webhook_events d);
         hit = (\<lambda>e. wh_id e \<in> set (map wh_id picked));
         updated = map (event_reaped maxAttempts nextAttemptAt t) (filter hit (webhook_events d))
     in Inr (\<lparr>Retried = int (count_where (\<lambda>e. wh_status e = WebhookEventStatusPending) updated),
              Failed = int (count_where (\<lambda>e. wh_status e = WebhookEventStatusFailed) updated)\<rparr>,
             d\<lparr>webhook_events := upd_where hit (event_reaped maxAttempts nextAttemptAt t) (webhook_events d)\<rparr>))"

definition event_expired :: "time \<times> time \<Rightarrow> webhook_event \<Rightarrow> bool" where
  "event_expired before e = (case before of (deliveredBefore, failedBefore) \<Rightarrow>
     wh_status e = WebhookEventStatusDelivered \<and> wh_updated_at e < deliveredBefore
     \<or> wh_status e = WebhookEventStatusFailed \<and> wh_updated_at e < failedBefore)"

definition DeleteExpiredWebhookEvents :: "env \<Rightarrow> time \<Rightarrow> time \<Rightarrow> nat \<Rightarrow> nat M" where
  "DeleteExpiredWebhookEvents E deliveredBefore failedBefore batchSize = exec_count E (\<lambda>_ d.
     let picked = oldest (event_expired (deliveredBefore, failedBefore))
           (\<lambda>e. (wh_updated_at e, wh_id e)) batchSize (webhook_events d);
         hit = (\<lambda>e. wh_id e \<in> set (map wh_id picked))
     in (count_where hit (webhook_events d),
         d\<lparr>webhook_events := del_where hit (webhook_events d)\<rparr>))"

section \<open>The worker\<close>

record worker_policy =
  MaxDeliveryAttempts :: int
  ProcessingStaleAfter :: duration
  DeliveredRetention :: duration
  FailedRetention :: duration
  MaintenanceBatchSize :: nat

text \<open>\<open>wk_body\<close> is the text PostgreSQL gives back for the stored \<open>jsonb\<close>.\<close>

record worker =
  wk_sender :: sender
  wk_url_valid :: "string \<Rightarrow> bool"
  wk_body :: "envelope \<Rightarrow> string"
  wk_policy :: worker_policy

definition deliveryRetryDelay :: "int \<Rightarrow> duration" where
  "deliveryRetryDelay attempts = (if attempts = 1 then 30 * second else 2 * minute)"

text \<open>
  \<open>runOnce\<close> returns whether an event was processed together with the error. The lease
  of a claimed event is never nil.
\<close>

definition RunOnce :: "env \<Rightarrow> worker \<Rightarrow> time \<Rightarrow> (bool \<times> err option) M" where
  "RunOnce E W now = try_bnd (ClaimNextWebhookEvent E now)
     (\<lambda>err. ret (False, if errors_is err (EStore ErrorWebhookEventNotFound) then None else Some err))
     (\<lambda>event. bnd (sendOnce E (wk_url_valid W) (wk_sender W) (wh_type event) (wh_id event)
            (wk_body W (wh_payload event))) (\<lambda>(retryable, err).
        let lease = (case wh_processing_started_at event of None \<Rightarrow> zero_time | Some t \<Rightarrow> t) in
        case err of
          Some msg \<Rightarrow>
            if retryable \<and> wh_attempt_count event < MaxDeliveryAttempts (wk_policy W)
            then let nextAttemptAt = now + deliveryRetryDelay (wh_attempt_count event) in
              try_bnd (RequeueWebhookEvent E (wh_id event) lease msg nextAttemptAt)
                (\<lambda>e. ret (True, Some e)) (\<lambda>_. ret (True, None))
            else try_bnd (MarkWebhookEventFailed E (wh_id event) lease msg)
                (\<lambda>e. ret (True, Some e)) (\<lambda>_. ret (True, None))
        | None \<Rightarrow> try_bnd (MarkWebhookEventDelivered E (wh_id event) lease now)
            (\<lambda>e. ret (True, Some e)) (\<lambda>_. ret (True, None))))"

text \<open>The reaper loops until a batch is not full; it has \<open>fuel\<close> batches here.\<close>

fun reapStale :: "env \<Rightarrow> nat \<Rightarrow> worker_policy \<Rightarrow> time \<Rightarrow> reap_result \<Rightarrow> (reap_result \<times> err option) option M" where
  "reapStale E 0 p now acc = ret None"
| "reapStale E (Suc fuel) p now acc =
     try_bnd (ReapStaleWebhookEvents E (now - ProcessingStaleAfter p) now (MaxDeliveryAttempts p)
          (MaintenanceBatchSize p))
       (\<lambda>err. ret (Some (acc, Some err)))
       (\<lambda>r. let acc' = \<lparr>Retried = Retried acc + Retried r, Failed = Failed acc + Failed r\<rparr>
            in if reap_total r < int (MaintenanceBatchSize p) then ret (Some (acc', None))
               else reapStale E fuel p now acc')"

definition CleanupExpiredEventsBatch :: "env \<Rightarrow> worker_policy \<Rightarrow> time \<Rightarrow> (nat \<times> bool) M" where
  "CleanupExpiredEventsBatch E p now =
     bnd (DeleteExpiredWebhookEvents E (now - DeliveredRetention p) (now - FailedRetention p)
          (MaintenanceBatchSize p)) (\<lambda>deleted. ret (deleted, deleted = MaintenanceBatchSize p))"

section \<open>The queue contract\<close>

definition event_phase :: "webhook_event \<Rightarrow> phase" where
  "event_phase e =
     (if wh_status e = WebhookEventStatusPending then Waiting
      else if wh_status e = WebhookEventStatusProcessing
        then (case wh_processing_started_at e of None \<Rightarrow> Dead | Some t \<Rightarrow> Leased t)
      else if wh_status e = WebhookEventStatusDelivered then Finished
      else Dead)"

lemma event_status_phase:
  "wh_status e = WebhookEventStatusPending \<longleftrightarrow> event_phase e = Waiting"
  "wh_status e = WebhookEventStatusProcessing \<and> wh_processing_started_at e = Some t \<longleftrightarrow> event_phase e = Leased t"
  "wh_status e = WebhookEventStatusDelivered \<longleftrightarrow> event_phase e = Finished"
  "wh_status e = WebhookEventStatusFailed \<Longrightarrow> event_phase e = Dead"
  by (auto simp: event_phase_def webhook_status_defs split: option.splits)

lemma event_due_SomeD:
  assumes "event_due now es = Some e"
  shows "e \<in> set es" and "wh_status e = WebhookEventStatusPending" and "wh_next_attempt_at e \<le> now"
proof -
  let ?p = "\<lambda>e. wh_status e = WebhookEventStatusPending \<and> wh_next_attempt_at e \<le> now"
  let ?es = "sort_key (\<lambda>e. (wh_next_attempt_at e, wh_created_at e, wh_id e)) (filter ?p es)"
  have "e \<in> set (take 1 ?es)"
    using assms by (auto simp: event_due_def oldest_def split: list.splits)
  then have "e \<in> set (filter ?p es)"
    using set_take_subset [of 1 ?es] by auto
  then show "e \<in> set es" and "wh_status e = WebhookEventStatusPending" and "wh_next_attempt_at e \<le> now"
    by auto
qed

interpretation webhook: leased_queue wh_id event_phase wh_attempt_count event_due event_claimed
    holds_event event_stale event_expired
proof
  fix now :: time and rs r
  assume "event_due now rs = Some r"
  then show "r \<in> set rs \<and> event_phase r = Waiting"
    using event_due_SomeD [of now rs r] event_status_phase(1) by blast
next
  fix r and now t :: time
  show "wh_id (event_claimed now t r) = wh_id r"
    by (simp add: event_claimed_def)
next
  fix r and now t :: time
  assume "event_phase r = Waiting"
  then show "wh_id (event_claimed now t r) = wh_id r \<and> event_phase (event_claimed now t r) = Leased now
      \<and> wh_attempt_count (event_claimed now t r) = wh_attempt_count r + 1"
    by (simp add: event_claimed_def event_phase_def webhook_status_defs)
next
  fix k l r
  show "holds_event k l r \<longleftrightarrow> wh_id r = k \<and> event_phase r = Leased l"
    unfolding holds_event_def using event_status_phase(2) [of r l] by blast
next
  fix s r
  assume "event_stale s r"
  then show "\<exists>l. event_phase r = Leased l \<and> l \<le> s"
    by (auto simp: event_stale_def event_phase_def webhook_status_defs split: option.splits)
next
  fix p r
  assume "event_expired p r"
  then show "terminal (event_phase r)"
    by (auto simp: event_expired_def event_phase_def terminal_def webhook_status_defs split: prod.splits)
qed

abbreviation webhook_jobs :: "db \<Rightarrow> string jobs" where
  "webhook_jobs d \<equiv> jobs_of wh_id event_phase wh_attempt_count (webhook_events d)"

definition events_distinct :: "db \<Rightarrow> bool" where
  "events_distinct d \<longleftrightarrow> distinct (map wh_id (webhook_events d))"

text \<open>A piece of work on the queue: identifiers stay distinct, and the machine makes steps.\<close>

definition queue_work :: "int \<Rightarrow> db \<Rightarrow> db \<Rightarrow> bool" where
  "queue_work m d d' \<longleftrightarrow> events_distinct d' \<and> job_steps m (webhook_jobs d) (webhook_jobs d')"

lemma queue_work_refl [simp]: "events_distinct d \<Longrightarrow> queue_work m d d"
  by (simp add: queue_work_def)

lemma queue_work_trans:
  "queue_work m d d' \<Longrightarrow> queue_work m d' d'' \<Longrightarrow> queue_work m d d''"
  unfolding queue_work_def by (metis rtranclp_trans)

lemma events_distinct_upd:
  "(\<And>e. wh_id (f e) = wh_id e) \<Longrightarrow> events_distinct d \<Longrightarrow>
     events_distinct (d\<lparr>webhook_events := upd_where p f (webhook_events d)\<rparr>)"
  by (simp add: events_distinct_def map_upd_where_same)

lemma claim_work:
  assumes "events_distinct d" and "event_due now (webhook_events d) = Some r"
  shows "queue_work m d (d\<lparr>webhook_events :=
    upd_where (\<lambda>e. wh_id e = wh_id r) (event_claimed now t) (webhook_events d)\<rparr>)"
  using webhook.claim_step [of "webhook_events d" now r m t] assms
  by (simp add: queue_work_def events_distinct_upd event_claimed_def r_into_rtranclp)
     (simp add: events_distinct_def)

lemma transition_work:
  assumes "events_distinct d" and "\<And>e. wh_id (f e) = wh_id e"
    and "\<And>e. wh_attempt_count (f e) = wh_attempt_count e"
    and "\<And>e. e \<in> set (webhook_events d) \<Longrightarrow> holds_event k l e \<Longrightarrow>
      terminal (event_phase (f e)) \<or> event_phase (f e) = Waiting \<and> wh_attempt_count e < m"
  shows "queue_work m d (d\<lparr>webhook_events := upd_where (holds_event k l) f (webhook_events d)\<rparr>)"
  using webhook.transition_steps [of "webhook_events d" f k l m] assms
  by (simp add: queue_work_def events_distinct_upd) (simp add: events_distinct_def)

lemma oldest_subset: "r \<in> set (oldest p k n rs) \<Longrightarrow> r \<in> set rs \<and> p r"
  unfolding oldest_def using set_take_subset [of n "sort_key k (filter p rs)"] by auto

lemma picked_by_id:
  assumes "distinct (map key rs)" and "e \<in> set rs" and "key e \<in> set (map key (oldest p k n rs))"
  shows "p e"
proof -
  obtain x where x: "x \<in> set (oldest p k n rs)" "key x = key e" using assms(3) by auto
  have "x \<in> set rs" "p x" using oldest_subset [OF x(1)] by auto
  with assms(1,2) x(2) show ?thesis by (auto simp: distinct_map inj_on_def)
qed

end
