(* ===== verification/Email_Delivery.thy ===== *)
theory Email_Delivery
  imports Challenge_Service Webhook_Queue Complex_Main
begin

text \<open>
  The delivery of queued mails: the statements of \<open>internal/store/email.go\<close> on jobs that
  exist (the insertion is in \<open>Email_Queue\<close>), the two purges of \<open>challange.go\<close>, the
  classification of failures (\<open>internal/email/errors.go\<close>) and the worker of
  \<open>internal/challenge/worker.go\<close>. Rendering and sending are parameters of the worker, as
  they are interfaces in the code; the random numbers of the back-off are arbitrary.
\<close>

section \<open>The store\<close>

definition GetEmailJobByID :: "env \<Rightarrow> uuid \<Rightarrow> email_job M" where
  "GetEmailJobByID E jobID =
     query_row E ErrorEmailJobNotFound (\<lambda>d. find (\<lambda>j. ej_id j = jobID) (email_jobs d))"

definition job_due :: "time \<Rightarrow> email_job list \<Rightarrow> email_job option" where
  "job_due now js = (case oldest (\<lambda>j. ej_status j = EmailJobStatusPending \<and> ej_next_attempt_at j \<le> now)
       (\<lambda>j. (ej_next_attempt_at j, ej_created_at j)) 1 js of [] \<Rightarrow> None | j # _ \<Rightarrow> Some j)"

definition job_claimed :: "time \<Rightarrow> time \<Rightarrow> email_job \<Rightarrow> email_job" where
  "job_claimed now t j = j\<lparr>ej_status := EmailJobStatusProcessing, ej_attempt_count := ej_attempt_count j + 1,
     ej_processing_started_at := Some now, ej_updated_at := t\<rparr>"

definition ClaimNextEmailJob :: "env \<Rightarrow> time \<Rightarrow> email_job M" where
  "ClaimNextEmailJob E now = with_tx E
     (bnd (query_row E ErrorEmailJobNotFound (\<lambda>d. job_due now (email_jobs d))) (\<lambda>row.
      bnd (exec_upd E (\<lambda>t d. d\<lparr>email_jobs :=
             upd_where (\<lambda>j. ej_id j = ej_id row) (job_claimed now t) (email_jobs d)\<rparr>)) (\<lambda>_.
      ret (row\<lparr>ej_status := EmailJobStatusProcessing, ej_attempt_count := ej_attempt_count row + 1,
               ej_processing_started_at := Some now\<rparr>))))"

definition holds_job :: "uuid \<Rightarrow> time \<Rightarrow> email_job \<Rightarrow> bool" where
  "holds_job jobID lease j \<longleftrightarrow> ej_id j = jobID
     \<and> ej_status j = EmailJobStatusProcessing \<and> ej_processing_started_at j = Some lease"

definition ensureEmailJobTransition :: "nat M \<Rightarrow> unit M" where
  "ensureEmailJobTransition m = bnd m (\<lambda>affected. guard_err (affected \<noteq> 1) (EStore ErrorEmailJobLeaseLost))"

definition job_transition :: "env \<Rightarrow> uuid \<Rightarrow> time \<Rightarrow> (time \<Rightarrow> email_job \<Rightarrow> email_job) \<Rightarrow> unit M" where
  "job_transition E jobID lease f = ensureEmailJobTransition (exec_count E (\<lambda>t d.
     (count_where (holds_job jobID lease) (email_jobs d),
      d\<lparr>email_jobs := upd_where (holds_job jobID lease) (f t) (email_jobs d)\<rparr>)))"

definition MarkEmailJobSent :: "env \<Rightarrow> uuid \<Rightarrow> time \<Rightarrow> time \<Rightarrow> unit M" where
  "MarkEmailJobSent E jobID processingStartedAt now = job_transition E jobID processingStartedAt
     (\<lambda>t j. j\<lparr>ej_status := EmailJobStatusSent, ej_sent_at := Some now, ej_processing_started_at := None,
       ej_last_error := None, ej_terminal_reason := None, ej_failed_at := None, ej_updated_at := t\<rparr>)"

definition RequeueEmailJob :: "env \<Rightarrow> uuid \<Rightarrow> time \<Rightarrow> string \<Rightarrow> time \<Rightarrow> unit M" where
  "RequeueEmailJob E jobID processingStartedAt lastError nextAttemptAt = job_transition E jobID processingStartedAt
     (\<lambda>t j. j\<lparr>ej_status := EmailJobStatusPending, ej_last_error := Some lastError,
       ej_next_attempt_at := nextAttemptAt, ej_processing_started_at := None,
       ej_terminal_reason := None, ej_failed_at := None, ej_updated_at := t\<rparr>)"

definition MarkEmailJobFailed :: "env \<Rightarrow> uuid \<Rightarrow> time \<Rightarrow> string \<Rightarrow> string \<Rightarrow> time \<Rightarrow> unit M" where
  "MarkEmailJobFailed E jobID processingStartedAt lastError terminalReason failedAt =
     job_transition E jobID processingStartedAt
       (\<lambda>t j. j\<lparr>ej_status := EmailJobStatusFailed, ej_last_error := Some lastError,
         ej_processing_started_at := None, ej_terminal_reason := Some terminalReason,
         ej_failed_at := Some failedAt, ej_updated_at := t\<rparr>)"

text \<open>
  The reaper's statement. \<open>retry_nominal_sql\<close> is its \<open>LEAST(max, base * power(2, ..))\<close>;
  \<open>rnd\<close> is the value of \<open>random()\<close> for a row.
\<close>

definition job_stale :: "time \<Rightarrow> email_job \<Rightarrow> bool" where
  "job_stale staleBefore j \<longleftrightarrow> ej_status j = EmailJobStatusProcessing
     \<and> (case ej_processing_started_at j of None \<Rightarrow> False | Some t \<Rightarrow> t \<le> staleBefore)"

definition retry_nominal_sql :: "int \<Rightarrow> duration \<Rightarrow> duration \<Rightarrow> duration" where
  "retry_nominal_sql attempts baseDelay maxDelay =
     min maxDelay (baseDelay * 2 ^ nat (min (max (attempts - 1) 0) 30))"

definition job_exhausted :: "int \<Rightarrow> time \<Rightarrow> email_job \<Rightarrow> bool" where
  "job_exhausted maxAttempts now j \<longleftrightarrow> maxAttempts \<le> ej_attempt_count j \<or> ej_deadline_at j \<le> now"

definition job_reaped ::
  "int \<Rightarrow> time \<Rightarrow> duration \<Rightarrow> duration \<Rightarrow> (uuid \<Rightarrow> rat) \<Rightarrow> time \<Rightarrow> email_job \<Rightarrow> email_job" where
  "job_reaped maxAttempts now baseDelay maxDelay rnd t j = j\<lparr>
     ej_status := (if job_exhausted maxAttempts now j then EmailJobStatusFailed else EmailJobStatusPending),
     ej_next_attempt_at := (if job_exhausted maxAttempts now j then ej_next_attempt_at j
        else min (ej_deadline_at j) (now + \<lfloor>of_int (retry_nominal_sql (ej_attempt_count j) baseDelay maxDelay)
               * (1 / 2 + rnd (ej_id j) * (1 / 2))\<rfloor>)),
     ej_processing_started_at := None, ej_last_error := Some ''processing lease expired'',
     ej_terminal_reason := (if ej_deadline_at j \<le> now then Some ''delivery_deadline_exceeded''
        else if maxAttempts \<le> ej_attempt_count j then Some ''attempts_exhausted'' else None),
     ej_failed_at := (if job_exhausted maxAttempts now j then Some now else None), ej_updated_at := t\<rparr>"

definition ReapStaleEmailJobs ::
  "env \<Rightarrow> (uuid \<Rightarrow> rat) \<Rightarrow> time \<Rightarrow> time \<Rightarrow> int \<Rightarrow> nat \<Rightarrow> duration \<Rightarrow> duration \<Rightarrow> reap_result M" where
  "ReapStaleEmailJobs E rnd staleBefore now maxAttempts batchSize retryBaseDelay retryMaxDelay = exec E (\<lambda>t _ d.
     let picked = oldest (job_stale staleBefore) (\<lambda>j. (ej_processing_started_at j, ej_id j)) batchSize (email_jobs d);
         hit = (\<lambda>j. ej_id j \<in> set (map ej_id picked));
         upd = job_reaped maxAttempts now retryBaseDelay retryMaxDelay rnd t;
         updated = map upd (filter hit (email_jobs d))
     in Inr (\<lparr>Retried = int (count_where (\<lambda>j. ej_status j = EmailJobStatusPending) updated),
              Failed = int (count_where (\<lambda>j. ej_status j = EmailJobStatusFailed) updated)\<rparr>,
             d\<lparr>email_jobs := upd_where hit upd (email_jobs d)\<rparr>))"

definition sent_before :: "time \<Rightarrow> email_job \<Rightarrow> bool" where
  "sent_before t j \<longleftrightarrow> ej_status j = EmailJobStatusSent \<and> (case ej_sent_at j of None \<Rightarrow> False | Some s \<Rightarrow> s < t)"

definition failed_time :: "email_job \<Rightarrow> time" where
  "failed_time j = (case ej_failed_at j of None \<Rightarrow> ej_created_at j | Some f \<Rightarrow> f)"

definition failed_before :: "time \<Rightarrow> email_job \<Rightarrow> bool" where
  "failed_before t j \<longleftrightarrow> ej_status j = EmailJobStatusFailed \<and> failed_time j < t"

definition DeleteSentEmailJobsBefore :: "env \<Rightarrow> time \<Rightarrow> nat \<Rightarrow> nat M" where
  "DeleteSentEmailJobsBefore E t batchSize = exec_count E (\<lambda>_ d.
     let gone = oldest (sent_before t) (\<lambda>j. (ej_sent_at j, ej_id j)) batchSize (email_jobs d);
         hit = (\<lambda>j. ej_id j \<in> set (map ej_id gone))
     in (count_where hit (email_jobs d), d\<lparr>email_jobs := del_where hit (email_jobs d)\<rparr>))"

definition DeleteFailedEmailJobsBefore :: "env \<Rightarrow> time \<Rightarrow> nat \<Rightarrow> nat M" where
  "DeleteFailedEmailJobsBefore E t batchSize = exec_count E (\<lambda>_ d.
     let gone = oldest (failed_before t) (\<lambda>j. (failed_time j, ej_id j)) batchSize (email_jobs d);
         hit = (\<lambda>j. ej_id j \<in> set (map ej_id gone))
     in (count_where hit (email_jobs d), d\<lparr>email_jobs := del_where hit (email_jobs d)\<rparr>))"

definition ListActiveOrFailedEmailJobs :: "env \<Rightarrow> nat \<Rightarrow> nat \<Rightarrow> email_job list M" where
  "ListActiveOrFailedEmailJobs E limit offset = query E (\<lambda>d. take limit (drop offset
     (sort_key (\<lambda>j. (- ej_updated_at j, - ej_created_at j))
        (filter (\<lambda>j. ej_status j \<noteq> EmailJobStatusSent) (email_jobs d)))))"

definition CountActiveOrFailedEmailJobs :: "env \<Rightarrow> nat M" where
  "CountActiveOrFailedEmailJobs E = query E (\<lambda>d. count_where (\<lambda>j. ej_status j \<noteq> EmailJobStatusSent) (email_jobs d))"

section \<open>Queue statistics\<close>

record queue_state_stats =
  qs_state :: string
  qs_count :: int
  qs_oldest_created_at :: "time option"

record queue_stats =
  States :: "queue_state_stats list"
  OldestReadyAt :: "time option"
  Stuck :: int

definition min_time :: "time list \<Rightarrow> time option" where
  "min_time ts = (case ts of [] \<Rightarrow> None | t # us \<Rightarrow> Some (foldl min t us))"

definition state_stats :: "string \<Rightarrow> ('j \<Rightarrow> time) \<Rightarrow> 'j list \<Rightarrow> queue_state_stats" where
  "state_stats name created js =
     \<lparr>qs_state = name, qs_count = int (length js), qs_oldest_created_at = min_time (map created js)\<rparr>"

definition EmailQueueStats :: "env \<Rightarrow> time \<Rightarrow> time \<Rightarrow> queue_stats M" where
  "EmailQueueStats E now staleBefore = query E (\<lambda>d.
     let pending = filter (\<lambda>j. ej_status j = ''pending'') (email_jobs d);
         processing = filter (\<lambda>j. ej_status j = ''processing'') (email_jobs d)
     in \<lparr>States =
           [state_stats ''pending'' ej_created_at (filter (\<lambda>j. ej_attempt_count j = 0) pending),
            state_stats ''retry'' ej_created_at (filter (\<lambda>j. 0 < ej_attempt_count j) pending),
            state_stats ''processing'' ej_created_at processing,
            state_stats ''failed'' ej_created_at (filter (\<lambda>j. ej_status j = ''failed'') (email_jobs d))],
         OldestReadyAt = min_time (filter (\<lambda>t. t \<le> now) (map ej_next_attempt_at pending)),
         Stuck = int (count_where (\<lambda>j. case ej_processing_started_at j of None \<Rightarrow> False | Some t \<Rightarrow> t \<le> staleBefore)
           processing)\<rparr>)"

definition WebhookQueueStats :: "env \<Rightarrow> time \<Rightarrow> time \<Rightarrow> queue_stats M" where
  "WebhookQueueStats E now staleBefore = query E (\<lambda>d.
     let pending = filter (\<lambda>e. wh_status e = ''pending'') (webhook_events d);
         processing = filter (\<lambda>e. wh_status e = ''processing'') (webhook_events d)
     in \<lparr>States =
           [state_stats ''pending'' wh_created_at (filter (\<lambda>e. wh_attempt_count e = 0) pending),
            state_stats ''retry'' wh_created_at (filter (\<lambda>e. 0 < wh_attempt_count e) pending),
            state_stats ''processing'' wh_created_at processing,
            state_stats ''failed'' wh_created_at (filter (\<lambda>e. wh_status e = ''failed'') (webhook_events d))],
         OldestReadyAt = min_time (filter (\<lambda>t. t \<le> now) (map wh_next_attempt_at pending)),
         Stuck = int (count_where (\<lambda>e. case wh_processing_started_at e of None \<Rightarrow> False | Some t \<Rightarrow> t \<le> staleBefore)
           processing)\<rparr>)"

section \<open>Failures\<close>

text \<open>
  What \<open>errors.As\<close> and \<open>errors.Is\<close> find in the chain of a delivery error: a
  \<open>DeliveryError\<close>, an SMTP reply code, cancellation, a network or a certificate error; and
  the text of \<open>Error()\<close>.
\<close>

datatype failure_class = FailureTransient | FailurePermanent

record failure =
  fl_text :: string
  fl_delivery :: "(failure_class \<times> string) option"
  fl_smtp :: "int option"
  fl_cancelled :: bool
  fl_network :: bool
  fl_certificate :: bool

definition TransientError :: "string \<Rightarrow> failure \<Rightarrow> failure" where
  "TransientError reason f = f\<lparr>fl_delivery := Some (FailureTransient, reason)\<rparr>"

definition PermanentError :: "string \<Rightarrow> failure \<Rightarrow> failure" where
  "PermanentError reason f = f\<lparr>fl_delivery := Some (FailurePermanent, reason)\<rparr>"

definition permanent_code :: "failure \<Rightarrow> bool" where
  "permanent_code f \<longleftrightarrow> (case fl_smtp f of None \<Rightarrow> False | Some c \<Rightarrow> 500 \<le> c \<and> c \<le> 599)"

definition ClassifyFailure :: "failure \<Rightarrow> failure_class \<times> string" where
  "ClassifyFailure f = (case fl_delivery f of
       Some cr \<Rightarrow> cr
     | None \<Rightarrow>
         if permanent_code f then (FailurePermanent, ''smtp_permanent_failure'')
         else if (case fl_smtp f of None \<Rightarrow> False | Some c \<Rightarrow> 400 \<le> c \<and> c \<le> 499)
           then (FailureTransient, ''smtp_transient_failure'')
         else if fl_cancelled f then (FailureTransient, ''delivery_cancelled'')
         else if fl_network f then (FailureTransient, ''smtp_unavailable'')
         else (FailureTransient, ''delivery_error''))"

definition classifySMTPError :: "string \<Rightarrow> failure \<Rightarrow> failure" where
  "classifySMTPError reason f = (if permanent_code f then PermanentError reason f else TransientError reason f)"

definition classifySMTPAuthError :: "failure \<Rightarrow> failure" where
  "classifySMTPAuthError f =
     (if fl_smtp f \<noteq> None then classifySMTPError ''smtp_authentication_failed'' f
      else if fl_cancelled f \<or> fl_network f then TransientError ''smtp_authentication_failed'' f
      else PermanentError ''smtp_authentication_failed'' f)"

definition classifySMTPTLSError :: "failure \<Rightarrow> failure" where
  "classifySMTPTLSError f =
     (if fl_certificate f then PermanentError ''smtp_tls_failed'' f else classifySMTPError ''smtp_tls_failed'' f)"

section \<open>Back-off\<close>

text \<open>
  The loop doubles the delay once per attempt up to the maximum; \<open>random\<close> is the worker's
  source of numbers in \<open>[0, 1)\<close>, and the product is taken exactly.
\<close>

fun retry_loop :: "nat \<Rightarrow> duration \<Rightarrow> duration \<Rightarrow> duration" where
  "retry_loop 0 maxDelay nominal = nominal"
| "retry_loop (Suc n) maxDelay nominal =
     (if nominal < maxDelay
      then if maxDelay div 2 < nominal then maxDelay else retry_loop n maxDelay (nominal * 2)
      else nominal)"

definition emailRetryDelay :: "int \<Rightarrow> duration \<Rightarrow> duration \<Rightarrow> rat \<Rightarrow> duration" where
  "emailRetryDelay attempt0 baseDelay maxDelay random0 =
     (let k = (if attempt0 < 1 then 1 else attempt0);
          nominal0 = retry_loop (nat (k - 1)) maxDelay baseDelay;
          nominal = (if maxDelay < nominal0 then maxDelay else nominal0);
          random1 = (if random0 < 0 then 0 else random0);
          random = (if 1 \<le> random1 then 999999999 / 1000000000 else random1);
          half = nominal div 2
      in half + \<lfloor>random * of_int (nominal - half)\<rfloor>)"

section \<open>The worker\<close>

record email_policy =
  JobMaxAttempts :: int
  CleanupSentAfter :: duration
  CleanupFailedAfter :: duration

record worker_config =
  RetryBaseDelay :: duration
  RetryMaxDelay :: duration
  wc_ProcessingStaleAfter :: duration
  wc_MaintenanceBatchSize :: nat
  SendTimeout :: duration

record message =
  MessageID :: string
  Subject :: string
  msg_text :: string
  msg_html :: string

text \<open>
  The renderer tells whether its error is one of the permanent ones; \<open>observe\<close> is what the
  chain of a store error shows (its text, cancellation, network).
\<close>

type_synonym renderer = "string \<Rightarrow> template_data \<Rightarrow> world \<Rightarrow> ((failure \<times> bool) + message) \<times> world"
type_synonym mailer = "string \<Rightarrow> message \<Rightarrow> world \<Rightarrow> failure option \<times> world"

record email_worker =
  ew_codes :: "code_service option"
  ew_templates :: "renderer option"
  ew_sender :: "mailer option"
  ew_config :: worker_config
  ew_policy :: email_policy
  ew_random :: "nat \<Rightarrow> rat"
  ew_observe :: "err \<Rightarrow> string \<times> bool \<times> bool"

definition plain_failure :: "string \<Rightarrow> failure" where
  "plain_failure s = \<lparr>fl_text = s, fl_delivery = None, fl_smtp = None, fl_cancelled = False,
     fl_network = False, fl_certificate = False\<rparr>"

definition store_failure :: "email_worker \<Rightarrow> err \<Rightarrow> failure" where
  "store_failure W e = (case ew_observe W e of (s, cancelled, network) \<Rightarrow>
     (plain_failure s)\<lparr>fl_cancelled := cancelled, fl_network := network\<rparr>)"

definition with_defaults :: "worker_config \<Rightarrow> worker_config" where
  "with_defaults cfg =
     (let base = (if RetryBaseDelay cfg \<le> 0 then 30 * second else RetryBaseDelay cfg);
          mx = (if RetryMaxDelay cfg < base then 6 * hour else RetryMaxDelay cfg);
          stale = (if wc_ProcessingStaleAfter cfg \<le> 0 then 2 * minute else wc_ProcessingStaleAfter cfg);
          stale2 = (if stale \<le> SendTimeout cfg then SendTimeout cfg + minute else stale);
          batch = (if wc_MaintenanceBatchSize cfg = 0 then 1000 else wc_MaintenanceBatchSize cfg)
      in cfg\<lparr>RetryBaseDelay := base, RetryMaxDelay := mx, wc_ProcessingStaleAfter := stale2,
           wc_MaintenanceBatchSize := batch\<rparr>)"

definition verificationCodeForJob :: "env \<Rightarrow> email_worker \<Rightarrow> email_job \<Rightarrow> time \<Rightarrow> (failure + string) M" where
  "verificationCodeForJob E W job now =
     (case ej_challenge job of
        None \<Rightarrow> ret (Inl (PermanentError ''invalid_job_data''
          (plain_failure (ej_template job @ '' email job missing challenge_id''))))
      | Some challengeID \<Rightarrow> (case ew_codes W of
          None \<Rightarrow> ret (Inl (PermanentError ''configuration_error''
            (plain_failure ''verification code service is not configured'')))
        | Some C \<Rightarrow> try_bnd (GetChallengeByID E challengeID)
            (\<lambda>e. ret (Inl (if errors_is e (EStore ErrorChallengeNotFound)
                 then PermanentError ''challenge_unavailable'' (store_failure W e) else store_failure W e)))
            (\<lambda>c. if IsConsumed c \<or> IsExpired c now
                 then ret (Inl (PermanentError ''message_expired''
                   (plain_failure ''email challenge is no longer active'')))
                 else try_bnd (GenerateCodeForDelivery E C c (ej_id job) now)
                   (\<lambda>e. ret (Inl (if errors_is e (EChallenge ErrVerificationCodeSecretNotConfigured)
                        then PermanentError ''configuration_error'' (store_failure W e) else store_failure W e)))
                   (\<lambda>code_text. ret (Inr code_text)))))"

text \<open>Rendering and sending, with the code among the template's data when there is one.\<close>

definition set_data :: "string \<Rightarrow> string \<Rightarrow> template_data \<Rightarrow> template_data" where
  "set_data k v dat = (k, v) # filter (\<lambda>p. fst p \<noteq> k) dat"

definition quoted :: "string \<Rightarrow> string" where
  "quoted s = CHR 0x22 # s @ [CHR 0x22]"

definition render_and_send ::
  "env \<Rightarrow> email_worker \<Rightarrow> email_job \<Rightarrow> renderer \<Rightarrow> template_data \<Rightarrow> failure option M" where
  "render_and_send E W job render dat = (\<lambda>w. case render (ej_template job) dat w of
     (Inl (f, permanent), w1) \<Rightarrow>
       let wrapped = f\<lparr>fl_text := ''render email template '' @ quoted (ej_template job) @ '': '' @ fl_text f\<rparr>
       in (Inr (Some (if fl_cancelled f then TransientError ''delivery_cancelled'' wrapped
             else if permanent then PermanentError ''template_render_failed'' wrapped else wrapped)), w1)
   | (Inr msg, w1) \<Rightarrow> (case ew_sender W of
       None \<Rightarrow> (Inr (Some (PermanentError ''configuration_error''
         (plain_failure ''email sender is not configured''))), w1)
     | Some send \<Rightarrow>
         let msg' = (if ej_id job \<noteq> nil_uuid
               then msg\<lparr>MessageID := ''<'' @ uuid_string E (ej_id job) @ ''@authara.local>''\<rparr> else msg)
         in (case send (ej_to_email job) msg' w1 of (r, w2) \<Rightarrow> (Inr r, w2))))"

definition processJob :: "env \<Rightarrow> email_worker \<Rightarrow> email_job \<Rightarrow> time \<Rightarrow> failure option M" where
  "processJob E W job now =
     (case ew_templates W of
        None \<Rightarrow> ret (Some (PermanentError ''configuration_error''
          (plain_failure ''email template renderer is not configured'')))
      | Some render \<Rightarrow>
          let templateData = (case ej_data job of None \<Rightarrow> [] | Some dat \<Rightarrow> dat) in
          if ej_template job \<in> {EmailTemplateSignupCode, EmailTemplatePasswordResetCode, EmailTemplateEmailChangeCode}
          then bnd (verificationCodeForJob E W job now) (\<lambda>r. case r of
              Inl f \<Rightarrow> ret (Some f)
            | Inr code_text \<Rightarrow>
                render_and_send E W job render (set_data TemplateVariableCode code_text templateData))
          else (case LookupTemplate (ej_template job) of
              Inl e \<Rightarrow> ret (Some (PermanentError ''unsupported_template''
                (let f = store_failure W e in f\<lparr>fl_text := ''unsupported email template: '' @ fl_text f\<rparr>)))
            | Inr _ \<Rightarrow> render_and_send E W job render templateData))"

text \<open>\<open>runOnce\<close> returns whether a job was processed together with the error.\<close>

definition failJob ::
  "env \<Rightarrow> email_job \<Rightarrow> time \<Rightarrow> string \<Rightarrow> string \<Rightarrow> time \<Rightarrow> (bool \<times> err option) M" where
  "failJob E job lease deliveryErr terminalReason now =
     try_bnd (MarkEmailJobFailed E (ej_id job) lease deliveryErr terminalReason now)
       (\<lambda>e. ret (True, Some e)) (\<lambda>_. ret (True, None))"

definition after_delivery ::
  "env \<Rightarrow> email_worker \<Rightarrow> email_job \<Rightarrow> time \<Rightarrow> time \<Rightarrow> failure option \<Rightarrow> (bool \<times> err option) M" where
  "after_delivery E W job lease now outcome = (case outcome of
     Some f \<Rightarrow> (case ClassifyFailure f of (failureClass, failureReason) \<Rightarrow>
       if failureClass = FailurePermanent then failJob E job lease (fl_text f) failureReason now
       else if JobMaxAttempts (ew_policy W) \<le> ej_attempt_count job
         then failJob E job lease (fl_text f) ''attempts_exhausted'' now
       else (\<lambda>w.
         let next0 = now + emailRetryDelay (ej_attempt_count job) (RetryBaseDelay (ew_config W))
               (RetryMaxDelay (ew_config W)) (ew_random W (w_step w));
             nextAttemptAt = (if ej_deadline_at job < next0 then ej_deadline_at job else next0)
         in try_bnd (RequeueEmailJob E (ej_id job) lease (fl_text f) nextAttemptAt)
              (\<lambda>e. ret (True, Some e)) (\<lambda>_. ret (True, None)) w))
   | None \<Rightarrow> try_bnd (MarkEmailJobSent E (ej_id job) lease now)
       (\<lambda>e. ret (True, Some e))
       (\<lambda>_. case ej_challenge job of
          None \<Rightarrow> ret (True, None)
        | Some challengeID \<Rightarrow> bnd (attempt (SetChallengeLastSentAt E challengeID now)) (\<lambda>_. ret (True, None))))"

definition runOnce :: "env \<Rightarrow> email_worker \<Rightarrow> time \<Rightarrow> (bool \<times> err option) M" where
  "runOnce E W now = try_bnd (ClaimNextEmailJob E now)
     (\<lambda>e. ret (False, if errors_is e (EStore ErrorEmailJobNotFound) then None else Some e))
     (\<lambda>job.
        let lease = (case ej_processing_started_at job of None \<Rightarrow> zero_time | Some t \<Rightarrow> t) in
        if ej_deadline_at job \<le> now
        then failJob E job lease (''email delivery deadline exceeded at '' @ rfc3339 E (ej_deadline_at job))
          ''delivery_deadline_exceeded'' now
        else bnd (processJob E W job now) (after_delivery E W job lease now))"

text \<open>The reaper's loop, with \<open>fuel\<close> batches.\<close>

fun reapStaleJobs ::
  "env \<Rightarrow> (uuid \<Rightarrow> rat) \<Rightarrow> nat \<Rightarrow> email_worker \<Rightarrow> time \<Rightarrow> reap_result \<Rightarrow> (reap_result \<times> err option) option M" where
  "reapStaleJobs E rnd 0 W now acc = ret None"
| "reapStaleJobs E rnd (Suc fuel) W now acc =
     try_bnd (ReapStaleEmailJobs E rnd (now - wc_ProcessingStaleAfter (ew_config W)) now
          (JobMaxAttempts (ew_policy W)) (wc_MaintenanceBatchSize (ew_config W))
          (RetryBaseDelay (ew_config W)) (RetryMaxDelay (ew_config W)))
       (\<lambda>e. ret (Some (acc, Some e)))
       (\<lambda>r. let acc' = \<lparr>Retried = Retried acc + Retried r, Failed = Failed acc + Failed r\<rparr>
            in if reap_total r < int (wc_MaintenanceBatchSize (ew_config W)) then ret (Some (acc', None))
               else reapStaleJobs E rnd fuel W now acc')"

end
