(* ===== verification/Admin_Service.thy ===== *)
theory Admin_Service
  imports Auth_Service Store_Admin User_Agent Email_Delivery
begin

text \<open>
  \<open>internal/admin\<close>: what administrators do to users, sessions, platform roles and the
  allowlist, each with its entry in the audit trail, and the pages they read.
\<close>

section \<open>The service\<close>

text \<open>
  Values of audit metadata. \<open>adm_marshal\<close> is \<open>json.Marshal\<close> of a map, \<open>adm_jsonb\<close>
  the text of a \<open>jsonb\<close> column.
\<close>

datatype audit_value = AuditString string | AuditNumber int | AuditMap "(string \<times> audit_value) list"

record admin_service =
  adm_audit_retention :: duration
  adm_allowlist_enabled :: bool
  adm_publish :: "envelope \<Rightarrow> unit M"
  adm_revocations :: "revocations option"
  adm_marshal :: "(string \<times> audit_value) list \<Rightarrow> string option"
  adm_jsonb :: "string \<Rightarrow> string option"

record admin_actor =
  act_UserID :: uuid
  act_Email :: string

record request_meta =
  rq_IP :: string
  rq_UserAgent :: string

record admin_page =
  pg_Page :: int
  pg_Size :: int

definition ActionUserDisabled :: string where "ActionUserDisabled = ''user.disabled''"
definition ActionUserEnabled :: string where "ActionUserEnabled = ''user.enabled''"
definition ActionUserAdminGranted :: string where "ActionUserAdminGranted = ''user.admin_granted''"
definition ActionUserAdminRevoked :: string where "ActionUserAdminRevoked = ''user.admin_revoked''"
definition ActionUserSessionRevoked :: string where
  "ActionUserSessionRevoked = ''user.session_revoked''"
definition ActionUserSessionsRevoked :: string where
  "ActionUserSessionsRevoked = ''user.sessions_revoked''"
definition ActionAllowlistEmailAdded :: string where
  "ActionAllowlistEmailAdded = ''allowlist.email_added''"
definition ActionAllowlistEmailRemoved :: string where
  "ActionAllowlistEmailRemoved = ''allowlist.email_removed''"

text \<open>
  Page numbers are \<open>int\<close>s of 64 bits, so the offset of a page can wrap; PostgreSQL refuses
  a negative one.
\<close>

definition normalizePage :: "admin_page \<Rightarrow> int \<Rightarrow> admin_page" where
  "normalizePage page defaultSize =
     (let p = (if pg_Page page \<le> 0 then page\<lparr>pg_Page := 1\<rparr> else page);
          q = (if pg_Size p \<le> 0 then p\<lparr>pg_Size := defaultSize\<rparr> else p)
      in if 100 < pg_Size q then q\<lparr>pg_Size := 100\<rparr> else q)"

definition page_offset :: "admin_page \<Rightarrow> int" where
  "page_offset page = sint (word_of_int ((pg_Page page - 1) * pg_Size page) :: 64 word)"

definition at_offset :: "int \<Rightarrow> (nat \<Rightarrow> 'a M) \<Rightarrow> 'a M" where
  "at_offset offset f = (if offset < 0 then sql_fail DriverError else f (nat offset))"

section \<open>The audit trail\<close>

definition sensitive_tokens :: "string list" where
  "sensitive_tokens = [''password'', ''token'', ''hash'', ''secret'', ''code'', ''credential'',
     ''public_key'', ''request_body'', ''body'']"

definition isSensitiveAuditMetadataKey :: "string \<Rightarrow> bool" where
  "isSensitiveAuditMetadataKey key =
     (let normalized = to_lower (map (\<lambda>c. if c = CHR ''-'' then CHR ''_'' else c) key)
      in list_ex (contains normalized) sensitive_tokens)"

fun sanitizeAuditMetadata :: "(string \<times> audit_value) list \<Rightarrow> (string \<times> audit_value) list"
and sanitizeAuditMetadataValue :: "audit_value \<Rightarrow> audit_value" where
  "sanitizeAuditMetadata [] = []"
| "sanitizeAuditMetadata ((k, v) # m) =
     (if isSensitiveAuditMetadataKey k then sanitizeAuditMetadata m
      else (k, sanitizeAuditMetadataValue v) # sanitizeAuditMetadata m)"
| "sanitizeAuditMetadataValue (AuditMap m) = AuditMap (sanitizeAuditMetadata m)"
| "sanitizeAuditMetadataValue (AuditString s) = AuditString (if 512 < length s then take 512 s else s)"
| "sanitizeAuditMetadataValue (AuditNumber n) = AuditNumber n"

definition non_empty :: "string \<Rightarrow> string option" where
  "non_empty s = (if s = '''' then None else Some s)"

definition audit :: "env \<Rightarrow> admin_service \<Rightarrow> admin_actor \<Rightarrow> string \<Rightarrow> uuid option \<Rightarrow> string
    \<Rightarrow> (string \<times> audit_value) list \<Rightarrow> request_meta \<Rightarrow> unit M" where
  "audit E S actor action targetUserID targetEmail metadata meta =
     bnd (of_option (EText ''json: unsupported value'') (adm_marshal S (sanitizeAuditMetadata metadata)))
       (\<lambda>raw.
     bnd (CreateAdminAuditEvent E (adm_jsonb S) \<lparr>aa_id = nil_uuid, aa_created_at = zero_time,
        aa_actor = Some (act_UserID actor), aa_action = action, aa_target_user = targetUserID,
        aa_target_email = non_empty targetEmail, aa_metadata = raw, aa_ip = non_empty (rq_IP meta),
        aa_user_agent = non_empty (rq_UserAgent meta)\<rparr>) (\<lambda>_. ret ()))"

text \<open>One row more than a page shows tells whether there is a next page.\<close>

definition page_of :: "admin_page \<Rightarrow> 'a list \<Rightarrow> 'a list \<times> bool" where
  "page_of page rows = (take (nat (pg_Size page)) rows, pg_Size page < int (length rows))"

definition ListAuditEvents ::
  "env \<Rightarrow> admin_page \<Rightarrow> ((admin_audit_event \<times> string option) list \<times> bool \<times> admin_page) M" where
  "ListAuditEvents E page0 =
     (let page = normalizePage page0 50 in
      bnd (ListAdminAuditEvents E \<lparr>af_ActorUserID = None, af_TargetUserID = None, af_Action = '''',
             af_TargetEmail = '''', af_Limit = pg_Size page + 1, af_Offset = page_offset page\<rparr>) (\<lambda>rows.
      ret (fst (page_of page rows), snd (page_of page rows), page)))"

definition admin_ListSecurityEvents ::
  "env \<Rightarrow> admin_page \<Rightarrow> (security_event list \<times> bool \<times> admin_page) M" where
  "admin_ListSecurityEvents E page0 =
     (let page = normalizePage page0 50 in
      bnd (ListSecurityEvents E (pg_Size page + 1) (page_offset page)) (\<lambda>rows.
      ret (fst (page_of page rows), snd (page_of page rows), page)))"

definition RecentFailures :: "env \<Rightarrow> admin_page \<Rightarrow> (email_job list \<times> challenge list \<times> admin_page) M" where
  "RecentFailures E page0 =
     (let page = normalizePage page0 25; limit = nat (pg_Size page) in
      bnd (at_offset (page_offset page) (ListActiveOrFailedEmailJobs E limit)) (\<lambda>jobs.
      bnd (now_utc E) (\<lambda>now.
      bnd (at_offset (page_offset page) (ListRecentRiskyChallenges E now limit)) (\<lambda>cs.
      ret (jobs, cs, page)))))"

definition CleanupExpiredAuditEventsBatch ::
  "env \<Rightarrow> admin_service \<Rightarrow> time \<Rightarrow> nat \<Rightarrow> (nat \<times> bool) M" where
  "CleanupExpiredAuditEventsBatch E S now batchSize =
     (if adm_audit_retention S \<le> 0 then ret (0, False)
      else bnd (DeleteAdminAuditEventsBefore E (now - adm_audit_retention S) batchSize)
        (\<lambda>deleted. ret (deleted, deleted = batchSize)))"

section \<open>Dashboard\<close>

record dashboard_stats =
  db_TotalUsers :: nat
  db_SignupsLast24Hours :: nat
  db_DisabledUsers :: nat
  db_ActiveSessions :: nat

definition DashboardStats :: "env \<Rightarrow> dashboard_stats M" where
  "DashboardStats E =
     bnd (now_utc E) (\<lambda>now.
     bnd (CountUsers E) (\<lambda>totalUsers.
     bnd (CountUsersCreatedSince E (now - 24 * hour)) (\<lambda>signups.
     bnd (CountDisabledUsers E) (\<lambda>disabledUsers.
     bnd (CountActiveSessions E now) (\<lambda>activeSessions.
     ret \<lparr>db_TotalUsers = totalUsers, db_SignupsLast24Hours = signups,
       db_DisabledUsers = disabledUsers, db_ActiveSessions = activeSessions\<rparr>)))))"

section \<open>The allowlist\<close>

definition requireAllowlistEnabled :: "admin_service \<Rightarrow> unit M" where
  "requireAllowlistEnabled S = guard_err (\<not> adm_allowlist_enabled S) (EAdmin ErrAllowlistDisabled)"

record allowed_email_page =
  ap_Emails :: "allowed_email list"
  ap_Query :: string
  ap_Page :: int
  ap_Size :: int
  ap_Total :: nat
  ap_Message :: string

definition ap_HasPrevious :: "allowed_email_page \<Rightarrow> bool" where
  "ap_HasPrevious p \<longleftrightarrow> 1 < ap_Page p"

definition ap_HasNext :: "allowed_email_page \<Rightarrow> bool" where
  "ap_HasNext p \<longleftrightarrow> sint (word_of_int (ap_Page p * ap_Size p) :: 64 word) < int (ap_Total p)"

definition ListAllowedEmails ::
  "env \<Rightarrow> admin_service \<Rightarrow> string \<Rightarrow> admin_page \<Rightarrow> allowed_email_page M" where
  "ListAllowedEmails E S query0 page0 =
     bnd (requireAllowlistEnabled S) (\<lambda>_.
     let page = normalizePage page0 25; q = CanonicalEmail query0 in
     if q \<noteq> '''' \<and> length q < 3
     then ret \<lparr>ap_Emails = [], ap_Query = q, ap_Page = 1, ap_Size = pg_Size page, ap_Total = 0,
       ap_Message = ''Type at least 3 characters to search, or clear the field to show all emails.''\<rparr>
     else
     bnd (CountAllowedEmails E q) (\<lambda>count.
     bnd (at_offset (page_offset page) (ListAllowedEmailsPage E q (nat (pg_Size page)))) (\<lambda>rows.
     ret \<lparr>ap_Emails = rows, ap_Query = q, ap_Page = pg_Page page, ap_Size = pg_Size page,
       ap_Total = count, ap_Message = ''''\<rparr>)))"

definition AddAllowedEmail ::
  "env \<Rightarrow> admin_service \<Rightarrow> admin_actor \<Rightarrow> string \<Rightarrow> request_meta \<Rightarrow> unit M" where
  "AddAllowedEmail E S actor email0 meta =
     bnd (requireAllowlistEnabled S) (\<lambda>_.
     let email = CanonicalEmail email0 in
     if email = '''' then fail (EAdmin ErrInvalidEmail)
     else with_tx E
       (bnd (map_err (err_as (EStore ErrAllowedEmailAlreadyExists) (EAdmin ErrAllowedEmailAlreadyAdded))
               (CreateAllowedEmail E email)) (\<lambda>_.
        audit E S actor ActionAllowlistEmailAdded None email [] meta)))"

definition actor_address :: "env \<Rightarrow> admin_actor \<Rightarrow> string M" where
  "actor_address E actor =
     (if CanonicalEmail (act_Email actor) \<noteq> '''' then ret (CanonicalEmail (act_Email actor))
      else bnd (GetUserByID E (act_UserID actor)) (\<lambda>user. ret (CanonicalEmail (usr_email user))))"

definition RemoveAllowedEmail ::
  "env \<Rightarrow> admin_service \<Rightarrow> admin_actor \<Rightarrow> uuid \<Rightarrow> request_meta \<Rightarrow> unit M" where
  "RemoveAllowedEmail E S actor allowedEmailID meta =
     bnd (requireAllowlistEnabled S) (\<lambda>_. with_tx E
       (bnd (actor_address E actor) (\<lambda>actorEmail.
        bnd (GetAllowedEmailByID E allowedEmailID) (\<lambda>row0.
        if CanonicalEmail (al_email row0) = actorEmail then fail (EAdmin ErrSelfRemoveAllowedEmail)
        else
        bnd (DeleteAllowedEmailByID E allowedEmailID) (\<lambda>row.
        audit E S actor ActionAllowlistEmailRemoved None (al_email row)
          [(''allowed_email_id'', AuditString (uuid_string E (al_id row)))] meta)))))"

section \<open>Roles\<close>

definition enqueueAdminAccessChanged :: "env \<Rightarrow> string \<Rightarrow> string \<Rightarrow> time \<Rightarrow> unit M" where
  "enqueueAdminAccessChanged E toEmail change now = Enqueue E toEmail EmailTemplateAdminAccessChanged
     [(TemplateVariableAccessChange, change), (TemplateVariableOccurredAt, OccurredAt E now)] now"

definition GrantAdmin ::
  "env \<Rightarrow> admin_service \<Rightarrow> admin_actor \<Rightarrow> uuid \<Rightarrow> request_meta \<Rightarrow> unit M" where
  "GrantAdmin E S actor userID meta =
     bnd (now_utc E) (\<lambda>now. with_tx E
       (bnd (GetUserByID E userID) (\<lambda>user.
        bnd (AddUserPlatformRoleByName E userID DBAdminRoleName) (\<lambda>_.
        bnd (audit E S actor ActionUserAdminGranted (Some userID) (usr_email user) [] meta) (\<lambda>_.
        enqueueAdminAccessChanged E (usr_email user) ''granted'' now)))))"

definition RevokeAdmin ::
  "env \<Rightarrow> admin_service \<Rightarrow> admin_actor \<Rightarrow> uuid \<Rightarrow> request_meta \<Rightarrow> unit M" where
  "RevokeAdmin E S actor userID meta =
     (if act_UserID actor = userID then fail (EAdmin ErrSelfRevokeAdmin)
      else with_tx E
       (bnd (LockPlatformRoleByName E DBAdminRoleName) (\<lambda>_.
        bnd (GetUserByIDForUpdate E userID) (\<lambda>user.
        bnd (require_other_admin E (EAdmin ErrLastAdmin) user) (\<lambda>_.
        bnd (now_utc E) (\<lambda>now.
        bnd (RevokeUserTokens E (adm_revocations S) userID now) (\<lambda>_.
        bnd (RemoveUserPlatformRoleByName E userID DBAdminRoleName) (\<lambda>_.
        bnd (RevokeAllActiveSessionsForUser E userID now) (\<lambda>_.
        bnd (DeleteRefreshTokensByUserID E userID) (\<lambda>_.
        bnd (audit E S actor ActionUserAdminRevoked (Some userID) (usr_email user) [] meta) (\<lambda>_.
        enqueueAdminAccessChanged E (usr_email user) ''revoked'' now)))))))))))"

section \<open>Users and their sessions\<close>

definition admin_DisableUser ::
  "env \<Rightarrow> admin_service \<Rightarrow> admin_actor \<Rightarrow> uuid \<Rightarrow> request_meta \<Rightarrow> unit M" where
  "admin_DisableUser E S actor userID meta =
     (if act_UserID actor = userID then fail (EAdmin ErrSelfDisable)
      else with_tx E
       (bnd (LockPlatformRoleByName E DBAdminRoleName) (\<lambda>_.
        bnd (GetUserByIDForUpdate E userID) (\<lambda>user.
        bnd (require_other_admin E (EAdmin ErrLastAdmin) user) (\<lambda>_.
        bnd (now_utc E) (\<lambda>now.
        bnd (RevokeUserTokens E (adm_revocations S) userID now) (\<lambda>_.
        bnd (DisableUser E userID now) (\<lambda>_.
        bnd (RevokeAllActiveSessionsForUser E userID now) (\<lambda>_.
        bnd (DeleteRefreshTokensByUserID E userID) (\<lambda>_.
        bnd (audit E S actor ActionUserDisabled (Some userID) (usr_email user) [] meta) (\<lambda>_.
        bnd (Enqueue E (usr_email user) EmailTemplateAccountDisabled
               [(TemplateVariableOccurredAt, OccurredAt E now)] now) (\<lambda>_.
        bnd (NewUserUpdated E userID now) (adm_publish S)))))))))))))"

definition admin_EnableUser ::
  "env \<Rightarrow> admin_service \<Rightarrow> admin_actor \<Rightarrow> uuid \<Rightarrow> request_meta \<Rightarrow> unit M" where
  "admin_EnableUser E S actor userID meta =
     bnd (now_utc E) (\<lambda>now. with_tx E
       (bnd (GetUserByID E userID) (\<lambda>user.
        bnd (EnableUser E userID) (\<lambda>_.
        bnd (audit E S actor ActionUserEnabled (Some userID) (usr_email user) [] meta) (\<lambda>_.
        bnd (Enqueue E (usr_email user) EmailTemplateAccountEnabled
               [(TemplateVariableOccurredAt, OccurredAt E now)] now) (\<lambda>_.
        bnd (NewUserUpdated E userID now) (adm_publish S)))))))"

definition admin_RevokeUserSession ::
  "env \<Rightarrow> admin_service \<Rightarrow> admin_actor \<Rightarrow> uuid \<Rightarrow> uuid \<Rightarrow> request_meta \<Rightarrow> unit M" where
  "admin_RevokeUserSession E S actor userID sessionID meta = with_tx E
     (bnd (GetUserByIDForUpdate E userID) (\<lambda>user.
      bnd (GetSessionByID E sessionID) (\<lambda>session.
      if ses_user session \<noteq> userID then fail (EStore ErrSessionNotFound)
      else
      bnd (now_utc E) (\<lambda>now.
      bnd (RevokeSessionTokens E (adm_revocations S) sessionID now) (\<lambda>_.
      bnd (RevokeSessionByIDAndUserID E sessionID userID now) (\<lambda>_.
      bnd (DeleteRefreshTokensBySession E sessionID) (\<lambda>_.
      audit E S actor ActionUserSessionRevoked (Some userID) (usr_email user)
        [(''session_id'', AuditString (uuid_string E sessionID))] meta)))))))"

definition RevokeAllUserSessions ::
  "env \<Rightarrow> admin_service \<Rightarrow> admin_actor \<Rightarrow> uuid \<Rightarrow> request_meta \<Rightarrow> unit M" where
  "RevokeAllUserSessions E S actor userID meta =
     (if act_UserID actor = userID then fail (EAdmin ErrSelfRevokeSessions)
      else with_tx E
       (bnd (GetUserByIDForUpdate E userID) (\<lambda>user.
        bnd (now_utc E) (\<lambda>now.
        bnd (RevokeUserTokens E (adm_revocations S) userID now) (\<lambda>_.
        bnd (RevokeAllActiveSessionsForUser E userID now) (\<lambda>revoked.
        bnd (DeleteRefreshTokensByUserID E userID) (\<lambda>_.
        audit E S actor ActionUserSessionsRevoked (Some userID) (usr_email user)
          [(''revoked_sessions'', AuditNumber (int revoked))] meta))))))) "

section \<open>What the pages show of a user\<close>

record user_summary =
  us_ID :: uuid
  us_CreatedAt :: time
  us_UpdatedAt :: time
  us_DisabledAt :: "time option"
  us_Username :: string
  us_Email :: string
  us_Roles :: "string list"
  us_AuthProviderCount :: nat
  us_ActiveSessionCount :: nat

definition us_Disabled :: "user_summary \<Rightarrow> bool" where
  "us_Disabled u \<longleftrightarrow> us_DisabledAt u \<noteq> None"

definition us_HasRole :: "user_summary \<Rightarrow> string \<Rightarrow> bool" where
  "us_HasRole u roleName \<longleftrightarrow> list_ex (\<lambda>r. r = roleName) (us_Roles u)"

definition userSummary :: "env \<Rightarrow> user \<Rightarrow> user_summary M" where
  "userSummary E user =
     bnd (now_utc E) (\<lambda>now.
     bnd (GetUserPlatformRoleNames E (usr_id user)) (\<lambda>roleNames.
     bnd (ListAuthProvidersByUserID E (usr_id user)) (\<lambda>providers.
     bnd (CountActiveSessionsByUserID E (usr_id user) now) (\<lambda>activeSessions.
     ret \<lparr>us_ID = usr_id user, us_CreatedAt = usr_created_at user, us_UpdatedAt = usr_updated_at user,
       us_DisabledAt = usr_disabled_at user, us_Username = usr_username user,
       us_Email = usr_email user, us_Roles = roleNames, us_AuthProviderCount = length providers,
       us_ActiveSessionCount = activeSessions\<rparr>))))"

definition SearchUser :: "env \<Rightarrow> string \<Rightarrow> user_summary M" where
  "SearchUser E q = bnd (GetUserByEmailOrUsername E q) (userSummary E)"

record provider_summary =
  vs_ID :: uuid
  vs_Provider :: string
  vs_CreatedAt :: time
  vs_HasPassword :: bool
  vs_HasOAuthID :: bool

definition summarizeAuthProviders :: "auth_provider list \<Rightarrow> provider_summary list" where
  "summarizeAuthProviders = map (\<lambda>p. \<lparr>vs_ID = prv_id p, vs_Provider = prv_provider p,
     vs_CreatedAt = prv_created_at p, vs_HasPassword = (prv_password_hash p \<noteq> None),
     vs_HasOAuthID = (prv_provider_user_id p \<noteq> None)\<rparr>)"

text \<open>The first transport that is known decides.\<close>

fun transport_label :: "string list \<Rightarrow> string" where
  "transport_label [] = ''Passkey''"
| "transport_label (t # ts) =
     (let kind = to_lower (trim_space t) in
      if kind = ''internal'' then ''Platform authenticator''
      else if kind = ''hybrid'' then ''Phone or cross-device passkey''
      else if kind \<in> {''usb'', ''nfc'', ''ble''} then ''Security key'' else transport_label ts)"

definition passkeyDeviceLabel :: "string list \<Rightarrow> string" where
  "passkeyDeviceLabel transports = (if transports = [] then ''Passkey'' else transport_label transports)"

record passkey_summary =
  ks_ID :: uuid
  ks_Name :: string
  ks_CreatedAt :: time
  ks_LastUsedAt :: "time option"
  ks_CloneWarning :: bool
  ks_RestrictedAt :: "time option"
  ks_BackupEligible :: bool
  ks_BackupState :: bool
  ks_DeviceLabel :: string
  ks_Transport :: "string list"

definition summarizePasskeys :: "passkey list \<Rightarrow> passkey_summary list" where
  "summarizePasskeys = map (\<lambda>p. \<lparr>ks_ID = pk_id p, ks_Name = pk_name p, ks_CreatedAt = pk_created_at p,
     ks_LastUsedAt = pk_last_used_at p, ks_CloneWarning = pk_clone_warning p,
     ks_RestrictedAt = pk_restricted_at p, ks_BackupEligible = pk_backup_eligible p,
     ks_BackupState = pk_backup_state p, ks_DeviceLabel = passkeyDeviceLabel (pk_transport p),
     ks_Transport = pk_transport p\<rparr>)"

record session_summary =
  ss_ID :: uuid
  ss_CreatedAt :: time
  ss_ExpiresAt :: time
  ss_RevokedAt :: "time option"
  ss_UserAgent :: string
  ss_UserAgentSummary :: string
  ss_Status :: string

definition session_status :: "time \<Rightarrow> session \<Rightarrow> string" where
  "session_status now s = (if ses_revoked_at s \<noteq> None then ''Revoked''
     else if \<not> now < ses_expires_at s then ''Expired'' else ''Active'')"

definition summarizeSessions :: "time \<Rightarrow> session list \<Rightarrow> session_summary list" where
  "summarizeSessions now = map (\<lambda>s. \<lparr>ss_ID = ses_id s, ss_CreatedAt = ses_created_at s,
     ss_ExpiresAt = ses_expires_at s, ss_RevokedAt = ses_revoked_at s,
     ss_UserAgent = ses_user_agent s,
     ss_UserAgentSummary = BrowserSummary (Parse_agent (ses_user_agent s)),
     ss_Status = session_status now s\<rparr>)"

section \<open>What an administrator may do to a user\<close>

record availability =
  av_Allowed :: bool
  av_Reason :: string

definition ReasonSelfDisable :: string where
  "ReasonSelfDisable = ''You cannot disable your own account.''"
definition ReasonSelfRevokeAdmin :: string where
  "ReasonSelfRevokeAdmin = ''You cannot remove your own admin role.''"
definition ReasonSelfRevokeSessions :: string where
  "ReasonSelfRevokeSessions = ''You cannot revoke all sessions for your own account from here.''"
definition ReasonLastAdmin :: string where
  "ReasonLastAdmin = ''You cannot remove the last admin.''"

definition canDisableUser :: "uuid \<Rightarrow> user_summary \<Rightarrow> nat \<Rightarrow> availability" where
  "canDisableUser actorID user activeAdminCount =
     (if us_Disabled user then \<lparr>av_Allowed = False, av_Reason = ''''\<rparr>
      else if actorID = us_ID user then \<lparr>av_Allowed = False, av_Reason = ReasonSelfDisable\<rparr>
      else if us_HasRole user DBAdminRoleName \<and> activeAdminCount \<le> 1
      then \<lparr>av_Allowed = False, av_Reason = ReasonLastAdmin\<rparr>
      else \<lparr>av_Allowed = True, av_Reason = ''''\<rparr>)"

definition canRevokeAdmin :: "uuid \<Rightarrow> user_summary \<Rightarrow> nat \<Rightarrow> availability" where
  "canRevokeAdmin actorID user activeAdminCount =
     (if \<not> us_HasRole user DBAdminRoleName then \<lparr>av_Allowed = False, av_Reason = ''''\<rparr>
      else if actorID = us_ID user then \<lparr>av_Allowed = False, av_Reason = ReasonSelfRevokeAdmin\<rparr>
      else if \<not> us_Disabled user \<and> activeAdminCount \<le> 1
      then \<lparr>av_Allowed = False, av_Reason = ReasonLastAdmin\<rparr>
      else \<lparr>av_Allowed = True, av_Reason = ''''\<rparr>)"

definition CanRevokeAllSessions :: "uuid \<Rightarrow> uuid \<Rightarrow> availability" where
  "CanRevokeAllSessions actorID targetID =
     (if actorID = targetID then \<lparr>av_Allowed = False, av_Reason = ReasonSelfRevokeSessions\<rparr>
      else \<lparr>av_Allowed = True, av_Reason = ''''\<rparr>)"

record detail_actions =
  da_Disable :: availability
  da_Enable :: availability
  da_GrantAdmin :: availability
  da_RevokeAdmin :: availability
  da_RevokeAllSessions :: availability

definition userDetailActions :: "env \<Rightarrow> admin_actor \<Rightarrow> user_summary \<Rightarrow> detail_actions M" where
  "userDetailActions E actor user =
     (let hasAdmin = us_HasRole user DBAdminRoleName in
      bnd (if hasAdmin \<and> \<not> us_Disabled user then CountActiveUsersWithRole E DBAdminRoleName else ret 0)
        (\<lambda>activeAdminCount.
      ret \<lparr>da_Disable = canDisableUser (act_UserID actor) user activeAdminCount,
        da_Enable = \<lparr>av_Allowed = us_Disabled user, av_Reason = ''''\<rparr>,
        da_GrantAdmin = \<lparr>av_Allowed = \<not> hasAdmin, av_Reason = ''''\<rparr>,
        da_RevokeAdmin = canRevokeAdmin (act_UserID actor) user activeAdminCount,
        da_RevokeAllSessions = CanRevokeAllSessions (act_UserID actor) (us_ID user)\<rparr>))"

record user_detail =
  ud_User :: user_summary
  ud_AuthProviders :: "provider_summary list"
  ud_Passkeys :: "passkey_summary list"
  ud_Sessions :: "session_summary list"
  ud_SessionPage :: admin_page
  ud_SessionsNext :: bool
  ud_PasskeyPage :: admin_page
  ud_PasskeysNext :: bool
  ud_Actions :: detail_actions

definition GetUserDetail ::
  "env \<Rightarrow> admin_actor \<Rightarrow> uuid \<Rightarrow> admin_page \<Rightarrow> admin_page \<Rightarrow> user_detail M" where
  "GetUserDetail E actor userID sessions0 passkeys0 =
     (let sessionPage = normalizePage sessions0 25; passkeyPage = normalizePage passkeys0 25 in
      bnd (GetUserByID E userID) (\<lambda>user.
      bnd (userSummary E user) (\<lambda>summary.
      bnd (ListAuthProvidersByUserID E userID) (\<lambda>providers.
      bnd (at_offset (page_offset passkeyPage)
             (ListPasskeysByUserIDOffsetPage E userID (nat (pg_Size passkeyPage + 1)))) (\<lambda>passkeys.
      bnd (at_offset (page_offset sessionPage)
             (ListSessionsPageByUserID E userID (nat (pg_Size sessionPage + 1)))) (\<lambda>rows.
      bnd (userDetailActions E actor summary) (\<lambda>actions.
      bnd (now_utc E) (\<lambda>now.
      ret \<lparr>ud_User = summary, ud_AuthProviders = summarizeAuthProviders providers,
        ud_Passkeys = summarizePasskeys (fst (page_of passkeyPage passkeys)),
        ud_Sessions = summarizeSessions now (fst (page_of sessionPage rows)),
        ud_SessionPage = sessionPage, ud_SessionsNext = snd (page_of sessionPage rows),
        ud_PasskeyPage = passkeyPage, ud_PasskeysNext = snd (page_of passkeyPage passkeys),
        ud_Actions = actions\<rparr>))))))))"

end
