(* ===== verification/Passkey_Service.thy ===== *)
theory Passkey_Service
  imports Auth_Service User_Agent Challenge_Service
begin

text \<open>
  \<open>internal/passkey\<close>: registering passkeys, signing in and stepping up with them, the
  response to a cloned authenticator, deleting and listing them, and the name a new passkey gets.

  The WebAuthn library (\<open>github.com/go-webauthn/webauthn\<close>) is the record
  \<open>webauthn_lib\<close>: what it is given and what it returns, the challenge it draws being a
  function of the number of the call.
\<close>

section \<open>The library and the service\<close>

record credential =
  cr_ID :: string
  cr_PublicKey :: string
  cr_AttestationType :: string
  cr_AttestationFormat :: string
  cr_Transport :: "string list"
  cr_UserPresent :: bool
  cr_UserVerified :: bool
  cr_BackupEligible :: bool
  cr_BackupState :: bool
  cr_AAGUID :: string
  cr_SignCount :: "32 word"
  cr_CloneWarning :: bool
  cr_Attachment :: string

record wa_user =
  wu_user :: user
  wu_credentials :: "credential list"

record ceremony =
  cy_challenge :: string
  cy_session :: string
  cy_options :: string

record webauthn_lib =
  wa_begin_registration :: "nat \<Rightarrow> wa_user \<Rightarrow> err + ceremony"
  wa_begin_login :: "nat \<Rightarrow> wa_user option \<Rightarrow> err + ceremony"
  wa_session_data :: "string \<Rightarrow> err + string"
  wa_finish_registration :: "wa_user \<Rightarrow> string \<Rightarrow> string \<Rightarrow> err + credential"
  wa_credential_id :: "string \<Rightarrow> err + string"
  wa_finish_login :: "wa_user \<Rightarrow> string \<Rightarrow> string \<Rightarrow> err + credential"
  wa_options_json :: "uuid \<Rightarrow> string \<Rightarrow> string"

definition PasskeyCloneResponseAlert :: string where "PasskeyCloneResponseAlert = ''alert''"
definition PasskeyCloneResponseRestrict :: string where "PasskeyCloneResponseRestrict = ''restrict''"
definition PasskeyCloneResponseRestrictAndRevoke :: string where
  "PasskeyCloneResponseRestrictAndRevoke = ''restrict_and_revoke''"

lemmas clone_response_defs = PasskeyCloneResponseAlert_def PasskeyCloneResponseRestrict_def
  PasskeyCloneResponseRestrictAndRevoke_def

record passkey_service =
  px_lib :: webauthn_lib
  px_challengeTTL :: duration
  px_cloneResponse :: string
  px_cloneNotifyUser :: bool
  px_sessionRevoker :: "(uuid \<Rightarrow> unit M) option"
  px_events :: recorder
  px_json :: json_codec

definition passkey_challengeTTL :: "duration \<Rightarrow> duration" where
  "passkey_challengeTTL ttl = (if ttl \<le> 0 then 5 * minute else ttl)"

definition call_lib :: "(nat \<Rightarrow> err + 'a) \<Rightarrow> 'a M" where
  "call_lib f = (\<lambda>w. (f (w_step w), tick w))"

definition SecurityEventCredentialPasskeyAdded :: string where
  "SecurityEventCredentialPasskeyAdded = ''credential.passkey_added''"
definition SecurityEventCredentialPasskeyRemoved :: string where
  "SecurityEventCredentialPasskeyRemoved = ''credential.passkey_removed''"

definition passkey_credential :: "uuid \<Rightarrow> uuid \<Rightarrow> credential_event" where
  "passkey_credential userID passkeyID = \<lparr>ce_actor_type = '''', ce_actor_user = None, ce_user = userID,
     ce_session = None, ce_passkey = Some passkeyID, ce_provider = ''''\<rparr>"

definition CredentialPasskeyAdded :: "env \<Rightarrow> recorder \<Rightarrow> credential_event \<Rightarrow> unit M" where
  "CredentialPasskeyAdded E r ev = recordCredential E r SecurityEventCredentialPasskeyAdded ev"
definition CredentialPasskeyRemoved :: "env \<Rightarrow> recorder \<Rightarrow> credential_event \<Rightarrow> unit M" where
  "CredentialPasskeyRemoved E r ev = recordCredential E r SecurityEventCredentialPasskeyRemoved ev"

definition authentication_invalid :: err where
  "authentication_invalid = EAuth ErrPasskeyAuthenticationInvalid"
definition registration_invalid :: err where
  "registration_invalid = EAuth ErrPasskeyRegistrationInvalid"

section \<open>Credentials and users\<close>

definition aaguid_uuid :: "string \<Rightarrow> uuid option" where
  "aaguid_uuid a = (if length a = 16 then Some (word_of_nat (bytes_number a)) else None)"

definition transportsToStrings :: "string list \<Rightarrow> string list" where
  "transportsToStrings ts = filter (\<lambda>t. t \<noteq> '''') ts"

definition transportsFromStrings :: "string list \<Rightarrow> string list" where
  "transportsFromStrings ts = filter (\<lambda>t. t \<noteq> '''') (map trim_space ts)"

definition domainFromCredential :: "uuid \<Rightarrow> credential \<Rightarrow> string \<Rightarrow> passkey" where
  "domainFromCredential userID c name =
     \<lparr>pk_id = nil_uuid, pk_user = userID, pk_created_at = zero_time, pk_updated_at = zero_time,
      pk_credential_id = cr_ID c, pk_public_key = cr_PublicKey c,
      pk_attestation_type = cr_AttestationType c, pk_attestation_format = cr_AttestationFormat c,
      pk_transport = transportsToStrings (cr_Transport c),
      pk_aaguid = (case aaguid_uuid (cr_AAGUID c) of None \<Rightarrow> None
        | Some u \<Rightarrow> if u = nil_uuid then None else Some u),
      pk_sign_count = cr_SignCount c, pk_clone_warning = cr_CloneWarning c, pk_restricted_at = None,
      pk_name = name, pk_last_used_at = None, pk_user_present = cr_UserPresent c,
      pk_user_verified = cr_UserVerified c, pk_backup_eligible = cr_BackupEligible c,
      pk_backup_state = cr_BackupState c\<rparr>"

definition credentialFromDomain :: "passkey \<Rightarrow> credential" where
  "credentialFromDomain p =
     \<lparr>cr_ID = pk_credential_id p, cr_PublicKey = pk_public_key p,
      cr_AttestationType = pk_attestation_type p, cr_AttestationFormat = pk_attestation_format p,
      cr_Transport = transportsFromStrings (pk_transport p), cr_UserPresent = pk_user_present p,
      cr_UserVerified = pk_user_verified p, cr_BackupEligible = pk_backup_eligible p,
      cr_BackupState = pk_backup_state p,
      cr_AAGUID = (case pk_aaguid p of None \<Rightarrow> '''' | Some u \<Rightarrow> uuid_bytes u),
      cr_SignCount = pk_sign_count p, cr_CloneWarning = pk_clone_warning p, cr_Attachment = ''''\<rparr>"

definition activePasskeys :: "passkey list \<Rightarrow> passkey list" where
  "activePasskeys ps = filter (\<lambda>p. pk_restricted_at p = None) ps"

definition passkeyByCredentialID :: "passkey list \<Rightarrow> string \<Rightarrow> passkey option" where
  "passkeyByCredentialID ps credentialID = find (\<lambda>p. pk_credential_id p = credentialID) ps"

definition newUser :: "user \<Rightarrow> passkey list \<Rightarrow> wa_user" where
  "newUser u ps = \<lparr>wu_user = u, wu_credentials = map credentialFromDomain (activePasskeys ps)\<rparr>"

definition WebAuthnID :: "wa_user \<Rightarrow> string" where
  "WebAuthnID u = uuid_bytes (usr_id (wu_user u))"

definition WebAuthnName :: "wa_user \<Rightarrow> string" where
  "WebAuthnName u = usr_email (wu_user u)"

definition WebAuthnDisplayName :: "wa_user \<Rightarrow> string" where
  "WebAuthnDisplayName u = (if trim_space (usr_username (wu_user u)) \<noteq> '''' then usr_username (wu_user u)
     else usr_email (wu_user u))"

section \<open>Names\<close>

record registration_metadata =
  rm_Name :: string
  rm_UserAgent :: string
  rm_PlatformHint :: string

definition sanitizeName :: "string \<Rightarrow> string" where
  "sanitizeName name0 =
     (let name = trim_space name0 in
      if name = '''' then ''Passkey''
      else if 255 < rune_count name then string_of_runes (take 255 (runes name)) else name)"

definition hasTransport :: "credential \<Rightarrow> string list \<Rightarrow> bool" where
  "hasTransport c ts \<longleftrightarrow> list_ex (\<lambda>a. list_ex (\<lambda>t. a = t) ts) (cr_Transport c)"

definition isSecurityKeyCredential :: "credential \<Rightarrow> bool" where
  "isSecurityKeyCredential c \<longleftrightarrow> hasTransport c [''usb'', ''nfc'', ''ble'', ''smart-card'']
     \<or> cr_Attachment c = ''cross-platform'' \<and> \<not> hasTransport c [''hybrid'', ''internal'']"

definition yubicoAAGUIDNames :: "(string \<times> string) list" where
  "yubicoAAGUIDNames =
     [(''cb69481e-8ff7-4039-93ec-0a2729a154a8'', ''YubiKey 5''),
      (''ee882879-721c-4913-9775-3dfcce97072a'', ''YubiKey 5''),
      (''fa2b99dc-9e39-4257-8f92-4a30d23c4118'', ''YubiKey 5 NFC''),
      (''2fc0579f-8113-47ea-b116-bb5a8db9202a'', ''YubiKey 5 NFC''),
      (''1ac71f64-468d-4fe0-bef1-0e5f2f551f18'', ''YubiKey 5 NFC''),
      (''6ab56fad-881f-4a43-acb2-0be065924522'', ''YubiKey 5 NFC''),
      (''b2c1a50b-dad8-4dc7-ba4d-0ce9597904bc'', ''YubiKey 5 NFC''),
      (''20ac7a17-c814-4833-93fe-539f0d5e3389'', ''YubiKey 5 Series''),
      (''4599062e-6926-4fe7-9566-9e8fb1aedaa0'', ''YubiKey 5 Series'')]"

definition securityKeyPlatformName :: "env \<Rightarrow> credential \<Rightarrow> string" where
  "securityKeyPlatformName E c = (case aaguid_uuid (cr_AAGUID c) of None \<Rightarrow> ''Security Key''
     | Some u \<Rightarrow> (case map_of yubicoAAGUIDNames (uuid_string E u) of
           None \<Rightarrow> ''Security Key'' | Some name \<Rightarrow> name))"

definition passkeyPlatformName :: "env \<Rightarrow> registration_metadata \<Rightarrow> credential \<Rightarrow> string" where
  "passkeyPlatformName E m c =
     (let s = NewPlatformSignals (rm_PlatformHint m) (rm_UserAgent m) in
      if isSecurityKeyCredential c then securityKeyPlatformName E c
      else if IsIPhone s then ''iPhone''
      else if IsIPad s then ''iPad''
      else if IsIOS s then ''iPhone''
      else if IsMacOS s then ''MacBook Pro''
      else if IsChromeOS s then ''Chromebook''
      else if IsWindows s then ''Windows PC''
      else if IsAndroid s then ''Android Phone''
      else if IsLinux s then ''Linux PC'' else ''This Device'')"

definition passkeyAuthenticatorType :: "registration_metadata \<Rightarrow> credential \<Rightarrow> string" where
  "passkeyAuthenticatorType m c =
     (let s = NewPlatformSignals (rm_PlatformHint m) (rm_UserAgent m) in
      if isSecurityKeyCredential c then ''Security Key''
      else if cr_Attachment c = ''platform'' \<or> hasTransport c [''internal''] then
        if IsWindows s then ''Windows Hello''
        else if IsIOS s then ''Face ID''
        else if IsMacOS s then ''Touch ID''
        else if IsAndroid s then ''Android Biometrics''
        else if IsChromeOS s then ''ChromeOS Biometrics'' else ''Device Passkey''
      else if hasTransport c [''hybrid''] then ''Synced Passkey'' else ''Passkey'')"

text \<open>\<open>Format("Jan 2006")\<close> of an instant in UTC: the civil date of its day.\<close>

definition month_names :: "string list" where
  "month_names = [''Jan'', ''Feb'', ''Mar'', ''Apr'', ''May'', ''Jun'', ''Jul'', ''Aug'', ''Sep'',
     ''Oct'', ''Nov'', ''Dec'']"

definition month_year :: "time \<Rightarrow> string" where
  "month_year t =
     (let z = t div (24 * hour) + 719468;
          era = z div 146097; doe = z mod 146097;
          yoe = (doe - doe div 1460 + doe div 36524 - doe div 146096) div 365;
          doy = doe - (365 * yoe + yoe div 4 - yoe div 100);
          mp = (5 * doy + 2) div 153;
          m = (if mp < 10 then mp + 3 else mp - 9);
          y = format_int (yoe + era * 400 + (if m \<le> 2 then 1 else 0))
      in month_names ! nat (m - 1) @ '' '' @ replicate (4 - length y) (CHR ''0'') @ y)"

text \<open>The parts are separated by a space, U+2022 and a space.\<close>

definition name_separator :: string where
  "name_separator = [CHR '' '', CHR 0xE2, CHR 0x80, CHR 0xA2, CHR '' '']"

definition passkeyRegistrationName ::
  "env \<Rightarrow> registration_metadata \<Rightarrow> credential \<Rightarrow> time \<Rightarrow> string" where
  "passkeyRegistrationName E m c createdAt =
     (if trim_space (rm_Name m) \<noteq> '''' then sanitizeName (rm_Name m)
      else sanitizeName (passkeyPlatformName E m c @ name_separator @ passkeyAuthenticatorType m c @
             name_separator @ month_year createdAt))"

definition passkeyMethodLabel :: "string \<Rightarrow> string" where
  "passkeyMethodLabel name0 = (let name = trim_space name0 in
     if name = '''' then ''passkey'' else ''passkey ('' @ name @ '')'')"

section \<open>Ceremonies\<close>

definition new_webauthn ::
  "uuid option \<Rightarrow> uuid option \<Rightarrow> string \<Rightarrow> ceremony \<Rightarrow> time \<Rightarrow> webauthn_challenge" where
  "new_webauthn userID sessionID purpose y expiresAt = \<lparr>wc_id = nil_uuid, wc_created_at = zero_time,
     wc_user = userID, wc_session = sessionID, wc_purpose = purpose, wc_challenge = cy_challenge y,
     wc_session_data = cy_session y, wc_expires_at = expiresAt, wc_consumed_at = None\<rparr>"

text \<open>The challenge is stored and its options are given to the browser.\<close>

definition open_ceremony ::
  "env \<Rightarrow> passkey_service \<Rightarrow> uuid option \<Rightarrow> uuid option \<Rightarrow> string \<Rightarrow> ceremony \<Rightarrow> time \<Rightarrow> (string \<times> uuid) M" where
  "open_ceremony E P userID sessionID purpose y now =
     bnd (CreateWebAuthnChallenge E
            (new_webauthn userID sessionID purpose y (now + px_challengeTTL P))) (\<lambda>c.
     ret (wa_options_json (px_lib P) (wc_id c) (cy_options y), wc_id c))"

definition BeginRegistration :: "env \<Rightarrow> passkey_service \<Rightarrow> uuid \<Rightarrow> (string \<times> uuid) M" where
  "BeginRegistration E P userID =
     bnd (GetUserByID E userID) (\<lambda>user.
     bnd (ListPasskeysByUserID E userID) (\<lambda>ps.
     bnd (call_lib (\<lambda>n. wa_begin_registration (px_lib P) n (newUser user ps))) (\<lambda>y.
     bnd (now_utc E) (\<lambda>now.
     open_ceremony E P (Some userID) None WebAuthnChallengePurposeRegistration y now))))"

definition BeginLogin :: "env \<Rightarrow> passkey_service \<Rightarrow> (string \<times> uuid) M" where
  "BeginLogin E P =
     bnd (call_lib (\<lambda>n. wa_begin_login (px_lib P) n None)) (\<lambda>y.
     bnd (now_utc E) (\<lambda>now.
     open_ceremony E P None None WebAuthnChallengePurposeAuthentication y now))"

definition active_session_of :: "env \<Rightarrow> uuid \<Rightarrow> uuid \<Rightarrow> time \<Rightarrow> session M" where
  "active_session_of E userID sessionID now =
     bnd (map_err (err_as (EStore ErrSessionNotFound) authentication_invalid)
            (GetActiveSessionByID E sessionID now)) (\<lambda>s.
     if ses_user s \<noteq> userID then fail authentication_invalid else ret s)"

definition BeginReauthentication ::
  "env \<Rightarrow> passkey_service \<Rightarrow> uuid \<Rightarrow> uuid \<Rightarrow> (string \<times> uuid) M" where
  "BeginReauthentication E P userID sessionID =
     bnd (now_utc E) (\<lambda>now.
     bnd (active_session_of E userID sessionID now) (\<lambda>_.
     bnd (GetUserByID E userID) (\<lambda>u.
     bnd (ListPasskeysByUserID E userID) (\<lambda>all_ps.
     let ps = activePasskeys all_ps in
     if ps = [] then fail (EAuth ErrAuthPasskeyNotFound)
     else
     bnd (call_lib (\<lambda>n. wa_begin_login (px_lib P) n (Some (newUser u ps)))) (\<lambda>y.
     open_ceremony E P (Some userID) (Some sessionID) WebAuthnChallengePurposeReauthentication y now)))))"

definition loadChallengeSession ::
  "env \<Rightarrow> passkey_service \<Rightarrow> uuid \<Rightarrow> time \<Rightarrow> (webauthn_challenge \<times> string) M" where
  "loadChallengeSession E P challengeID now =
     bnd (map_err (err_as (EStore ErrWebAuthnChallengeNotFound) authentication_invalid)
            (GetWebAuthnChallengeByIDForUpdate E challengeID)) (\<lambda>c.
     if wc_consumed_at c \<noteq> None \<or> \<not> now < wc_expires_at c then fail authentication_invalid
     else bnd (of_sum (wa_session_data (px_lib P) (wc_session_data c))) (\<lambda>s. ret (c, s)))"

definition registrationSession ::
  "env \<Rightarrow> passkey_service \<Rightarrow> uuid \<Rightarrow> uuid \<Rightarrow> time \<Rightarrow> (webauthn_challenge \<times> string) M" where
  "registrationSession E P userID challengeID now =
     bnd (map_err (err_as authentication_invalid registration_invalid)
            (loadChallengeSession E P challengeID now)) (\<lambda>(c, s).
     if wc_purpose c \<noteq> WebAuthnChallengePurposeRegistration \<or> wc_user c \<noteq> Some userID
     then fail registration_invalid else ret (c, s))"

definition authenticationSession ::
  "env \<Rightarrow> passkey_service \<Rightarrow> uuid \<Rightarrow> time \<Rightarrow> (webauthn_challenge \<times> string) M" where
  "authenticationSession E P challengeID now =
     bnd (loadChallengeSession E P challengeID now) (\<lambda>(c, s).
     if wc_purpose c \<noteq> WebAuthnChallengePurposeAuthentication then fail authentication_invalid
     else ret (c, s))"

definition FinishRegistration ::
  "env \<Rightarrow> passkey_service \<Rightarrow> uuid \<Rightarrow> uuid \<Rightarrow> string \<Rightarrow> registration_metadata \<Rightarrow> unit M" where
  "FinishRegistration E P userID challengeID response metadata = with_tx E
     (bnd (now_utc E) (\<lambda>now.
      bnd (registrationSession E P userID challengeID now) (\<lambda>(challenge, session).
      bnd (GetUserByID E userID) (\<lambda>user.
      bnd (ListPasskeysByUserID E userID) (\<lambda>ps.
      case wa_finish_registration (px_lib P) (newUser user ps) session response of
        Inl _ \<Rightarrow> fail registration_invalid
      | Inr c \<Rightarrow>
          if \<not> cr_UserVerified c then fail registration_invalid
          else
          bnd (map_err (\<lambda>e. if errors_is e (EStore ErrStorePasskeyAlreadyExists)
                   \<or> is_unique_violation e ConstraintPasskeyCredentialID
                 then EAuth ErrPasskeyAlreadyExists else e)
               (CreatePasskey E (domainFromCredential userID c (passkeyRegistrationName E metadata c now))))
            (\<lambda>created.
          bnd (ConsumeWebAuthnChallenge E (wc_id challenge) now) (\<lambda>_.
          bnd (Enqueue E (usr_email user) EmailTemplateAuthMethodAdded
                 [(TemplateVariableAuthMethod, passkeyMethodLabel (pk_name created)),
                  (TemplateVariableOccurredAt, OccurredAt E now)] now) (\<lambda>_.
          CredentialPasskeyAdded E (px_events P) (passkey_credential userID (pk_id created))))))))))"

section \<open>A cloned authenticator\<close>

definition restricts :: "string \<Rightarrow> bool" where
  "restricts response \<longleftrightarrow> response = PasskeyCloneResponseRestrict
     \<or> response = PasskeyCloneResponseRestrictAndRevoke"

definition clone_response :: "passkey_service \<Rightarrow> string" where
  "clone_response P = (if px_cloneResponse P = '''' then PasskeyCloneResponseAlert else px_cloneResponse P)"

text \<open>The result is \<open>AllowSession\<close>.\<close>

definition applyAuthenticationResult ::
  "env \<Rightarrow> passkey_service \<Rightarrow> user \<Rightarrow> passkey \<Rightarrow> credential \<Rightarrow> time \<Rightarrow> bool M" where
  "applyAuthenticationResult E P user stored c now =
     bnd (UpdatePasskeyAfterLogin E (cr_ID c) (cr_SignCount c) (cr_CloneWarning c) now) (\<lambda>_.
     let response = clone_response P in
     if \<not> cr_CloneWarning c then ret True
     else if pk_clone_warning stored \<and> response = PasskeyCloneResponseAlert then ret True
     else
     bnd (PasskeyCloneWarning E (px_events P) \<lparr>pc_user = usr_id user, pc_passkey = pk_id stored,
            pc_outcome = (if restricts response then OutcomeDenied else OutcomeSuccess),
            pc_response = response\<rparr>) (\<lambda>_.
     bnd (if px_cloneNotifyUser P
          then Enqueue E (usr_email user) EmailTemplateSuspiciousPasskeyActivity
                 [(TemplateVariableOccurredAt, OccurredAt E now)] now
          else ret ()) (\<lambda>_.
     bnd (if restricts response then RestrictPasskey E (pk_id stored) now else ret ()) (\<lambda>_.
     bnd (if response = PasskeyCloneResponseRestrictAndRevoke
          then (case px_sessionRevoker P of
              None \<Rightarrow> fail (EText ''passkey clone response requires a session revoker'')
            | Some revoke \<Rightarrow> revoke (usr_id user))
          else ret ()) (\<lambda>_.
     ret (\<not> restricts response))))))"

section \<open>Signing in\<close>

definition lookupUserByCredential :: "env \<Rightarrow> string \<Rightarrow> (wa_user \<times> passkey) M" where
  "lookupUserByCredential E rawID =
     bnd (GetPasskeyByCredentialID E rawID) (\<lambda>p0.
     bnd (LockUserForUpdate E (pk_user p0)) (\<lambda>_.
     bnd (GetPasskeyByCredentialID E rawID) (\<lambda>p.
     if pk_restricted_at p \<noteq> None then fail authentication_invalid
     else
     bnd (GetUserByID E (pk_user p)) (\<lambda>u.
     bnd (ListPasskeysByUserID E (pk_user p)) (\<lambda>ps. ret (newUser u ps, p))))))"

record login_result =
  lr_User :: user
  lr_PasskeyID :: uuid
  lr_AllowSession :: bool

definition recordPasskeyAuthenticationDenied ::
  "env \<Rightarrow> passkey_service \<Rightarrow> uuid option \<Rightarrow> uuid option \<Rightarrow> uuid option \<Rightarrow> unit M" where
  "recordPasskeyAuthenticationDenied E P userID passkeyID sessionID =
     (let ev = \<lparr>ae_outcome = OutcomeDenied, ae_reason = ReasonInvalidAssertion,
            ae_actor_type = (if sessionID = None then ActorAnonymous else ActorUser),
            ae_actor_user = (if sessionID = None then None else userID), ae_user = userID,
            ae_session = sessionID, ae_org = None, ae_passkey = passkeyID,
            ae_method = AuthenticationMethodPasskey\<rparr>
      in if sessionID = None then AuthenticationLogin E (px_events P) ev
         else AuthenticationReauthenticated E (px_events P) ev)"

text \<open>
  \<open>FinishPasskeyLogin\<close> reads the credential id from the response, asks the callback
  (\<open>lookupUserByCredential\<close>) for its user and validates the assertion against that user's
  credentials; whatever fails there is an invalid authentication.
\<close>

definition login_lookup ::
  "env \<Rightarrow> passkey_service \<Rightarrow> uuid \<Rightarrow> string \<Rightarrow> time
    \<Rightarrow> (webauthn_challenge \<times> string \<times> wa_user \<times> passkey) M" where
  "login_lookup E P challengeID response now =
     bnd (authenticationSession E P challengeID now) (\<lambda>(challenge, session).
     bnd (map_err (\<lambda>_. authentication_invalid)
            (bnd (of_sum (wa_credential_id (px_lib P) response)) (lookupUserByCredential E)))
       (\<lambda>(waUser, stored). ret (challenge, session, waUser, stored)))"

definition login_finish ::
  "env \<Rightarrow> passkey_service \<Rightarrow> string \<Rightarrow> time \<Rightarrow> webauthn_challenge \<times> string \<times> wa_user \<times> passkey
    \<Rightarrow> login_result M" where
  "login_finish E P response now found = (case found of (challenge, session, waUser, stored) \<Rightarrow>
     bnd (map_err (\<lambda>_. authentication_invalid)
            (of_sum (wa_finish_login (px_lib P) waUser session response))) (\<lambda>c.
     if \<not> cr_UserVerified c then fail authentication_invalid
     else
     bnd (applyAuthenticationResult E P (wu_user waUser) stored c now) (\<lambda>allow.
     bnd (ConsumeWebAuthnChallenge E (wc_id challenge) now) (\<lambda>_.
     ret \<lparr>lr_User = wu_user waUser, lr_PasskeyID = pk_id stored, lr_AllowSession = allow\<rparr>))))"

text \<open>
  What the closure leaves in the captured variables \<open>attemptedUserID\<close> and
  \<open>attemptedPasskeyID\<close>: the passkey its first part found, in the transaction that was
  opened at \<open>w\<close>.
\<close>

definition captured_passkey ::
  "env \<Rightarrow> passkey_service \<Rightarrow> uuid \<Rightarrow> string \<Rightarrow> time \<Rightarrow> world \<Rightarrow> passkey option" where
  "captured_passkey E P challengeID response now w =
     (if w_tx w = NoTx \<and> o_fault E (w_step w) then None
      else (case login_lookup E P challengeID response now (if w_tx w = NoTx then open_tx w else w) of
          (Inr (_, _, _, stored), _) \<Rightarrow> Some stored
        | (Inl _, _) \<Rightarrow> None))"

definition FinishLogin ::
  "env \<Rightarrow> passkey_service \<Rightarrow> uuid \<Rightarrow> string \<Rightarrow> time \<Rightarrow> login_result M" where
  "FinishLogin E P challengeID response now = (\<lambda>w.
     try_bnd (with_tx E (bnd (login_lookup E P challengeID response now) (login_finish E P response now)))
       (\<lambda>e. if errors_is e authentication_invalid
          then (let p = captured_passkey E P challengeID response now w in
            bnd (recordPasskeyAuthenticationDenied E P (map_option pk_user p) (map_option pk_id p) None)
              (\<lambda>_. fail e))
          else fail e)
       ret w)"

text \<open>The pair of the code, the decision and the error: the error, or the decision.\<close>

definition FinishReauthentication ::
  "env \<Rightarrow> passkey_service \<Rightarrow> uuid \<Rightarrow> uuid \<Rightarrow> uuid \<Rightarrow> string \<Rightarrow> time \<Rightarrow> bool M" where
  "FinishReauthentication E P userID sessionID challengeID response now =
     try_bnd (with_tx E
       (bnd (active_session_of E userID sessionID now) (\<lambda>_.
        bnd (loadChallengeSession E P challengeID now) (\<lambda>(challenge, sessionData).
        if wc_purpose challenge \<noteq> WebAuthnChallengePurposeReauthentication
           \<or> wc_user challenge \<noteq> Some userID \<or> wc_session challenge \<noteq> Some sessionID
        then fail authentication_invalid
        else
        bnd (LockUserForUpdate E userID) (\<lambda>_.
        bnd (GetUserByID E userID) (\<lambda>u.
        bnd (ListPasskeysByUserID E userID) (\<lambda>all_ps.
        let ps = activePasskeys all_ps in
        if ps = [] then fail authentication_invalid
        else (case wa_finish_login (px_lib P) (newUser u ps) sessionData response of
            Inl _ \<Rightarrow> fail authentication_invalid
          | Inr c \<Rightarrow>
              if \<not> cr_UserVerified c then fail authentication_invalid
              else
              bnd (of_option authentication_invalid (passkeyByCredentialID ps (cr_ID c))) (\<lambda>stored.
              bnd (applyAuthenticationResult E P u stored c now) (\<lambda>decision.
              bnd (ConsumeWebAuthnChallenge E (wc_id challenge) now) (\<lambda>_. ret decision)))))))))))
       (\<lambda>e. if errors_is e authentication_invalid
          then bnd (recordPasskeyAuthenticationDenied E P (Some userID) None (Some sessionID)) (\<lambda>_. fail e)
          else fail e)
       ret"

section \<open>Deleting and listing\<close>

definition ListUserPasskeys :: "env \<Rightarrow> uuid \<Rightarrow> passkey list M" where
  "ListUserPasskeys E userID = ListPasskeysByUserID E userID"

definition DeletePasskey :: "env \<Rightarrow> passkey_service \<Rightarrow> uuid \<Rightarrow> uuid \<Rightarrow> unit M" where
  "DeletePasskey E P userID passkeyID =
     with_tx E
     (bnd (LockUserForAuthMethodMutation E userID) (\<lambda>_.
      bnd (GetUserByID E userID) (\<lambda>user.
      bnd (map_err (err_as (EStore ErrPasskeyNotFound) (EAuth ErrAuthPasskeyNotFound))
             (GetPasskeyByID E passkeyID)) (\<lambda>p.
      if pk_user p \<noteq> userID then fail (EAuth ErrAuthPasskeyNotFound)
      else
      bnd (CountAuthMethods E userID) (\<lambda>count.
      if pk_restricted_at p = None \<and> count \<le> 1 then fail (EAuth ErrCannotRemoveLastAuthMethod)
      else
      bnd (map_err (err_as (EStore ErrPasskeyNotFound) (EAuth ErrAuthPasskeyNotFound))
             (DeletePasskeyByIDAndUserID E passkeyID userID)) (\<lambda>_.
      bnd (now_utc E) (\<lambda>now.
      bnd (Enqueue E (usr_email user) EmailTemplateAuthMethodRemoved
             [(TemplateVariableAuthMethod, passkeyMethodLabel (pk_name p)),
              (TemplateVariableOccurredAt, OccurredAt E now)] now) (\<lambda>_.
      CredentialPasskeyRemoved E (px_events P) (passkey_credential userID passkeyID)))))))))"

definition passkeysCursorKind :: string where
  "passkeysCursorKind = ''account_passkeys''"

definition passkey_key :: "passkey \<Rightarrow> time \<times> uuid" where
  "passkey_key p = (pk_created_at p, pk_id p)"

definition ListUserPasskeysPage ::
  "env \<Rightarrow> passkey_service \<Rightarrow> uuid \<Rightarrow> list_options \<Rightarrow> passkey page M" where
  "ListUserPasskeysPage E P userID opts =
     (case Decode (px_json P) opts passkeysCursorKind userID of
        Inl _ \<Rightarrow> fail (EText ''invalid passkey list page'')
      | Inr (cursor, limit) \<Rightarrow>
          bnd (ListPasskeysPageByUserID E userID cursor (Suc limit)) (\<lambda>items.
          of_sum (Finish (px_json P) items limit passkeysCursorKind userID passkey_key)))"

end
