(* ===== verification/Operations.thy ===== *)
theory Operations
  imports Auth_Service
begin

text \<open>
  \<open>internal/operations/service.go\<close>: the commands of the operator's shell that grant and
  revoke platform roles and edit the allowlist. The arguments are parsed before
  (\<open>command.go\<close> uses the \<open>flag\<close> package); the dependencies it opens are the parameters.
\<close>

record operational_command =
  cmd_target :: string
  cmd_action :: string
  cmd_email :: string

definition operational_usage :: string where
  "operational_usage = ''usage: authara <operator|admin> <grant|revoke> --email user@example.com | authara allowlist <add|remove> --email user@example.com''"

definition IsCommand :: "string \<Rightarrow> bool" where
  "IsCommand name \<longleftrightarrow> name \<in> {''operator'', ''admin'', ''allowlist''}"

definition errLastActiveAdmin :: err where
  "errLastActiveAdmin = EText ''cannot revoke the last active admin''"

text \<open>\<open>fmt.Errorf("context: %w", err)\<close>.\<close>

definition wrap_err :: "string \<Rightarrow> err \<Rightarrow> err" where
  "wrap_err context e = EJoin [EText context, e]"

definition findOperationalUser :: "env \<Rightarrow> string \<Rightarrow> user M" where
  "findOperationalUser E email = map_err (\<lambda>e. if errors_is e (EStore ErrUserNotFound)
       then wrap_err (''user '' @ email @ '' does not exist'') e else wrap_err ''find user'' e)
     (GetUserByEmail E email)"

text \<open>What is printed is the role, the address and the id of the user.\<close>

definition revoke_role :: "env \<Rightarrow> revocations \<Rightarrow> string \<Rightarrow> string \<Rightarrow> user M" where
  "revoke_role E R email roleName = with_tx E
     (bnd (if roleName = DBAdminRoleName then LockPlatformRoleByName E roleName else ret ()) (\<lambda>_.
      bnd (findOperationalUser E email) (\<lambda>found.
      bnd (GetUserByIDForUpdate E (usr_id found)) (\<lambda>user.
      bnd (UserHasPlatformRole E (usr_id user) roleName) (\<lambda>hasRole.
      if \<not> hasRole then ret user
      else
      bnd (if roleName = DBAdminRoleName \<and> usr_disabled_at user = None
           then bnd (CountActiveUsersWithRole E roleName)
             (\<lambda>activeAdmins. guard_err (activeAdmins \<le> 1) errLastActiveAdmin)
           else ret ()) (\<lambda>_.
      bnd (now_utc E) (\<lambda>revokedAt.
      bnd (RevokeUserTokens E (Some R) (usr_id user) revokedAt) (\<lambda>_.
      bnd (RemoveUserPlatformRoleByName E (usr_id user) roleName) (\<lambda>_.
      bnd (RevokeAllSessionsForUser E (usr_id user) revokedAt) (\<lambda>_. ret user))))))))))"

definition executeRoleCommand ::
  "env \<Rightarrow> revocations option \<Rightarrow> operational_command \<Rightarrow> string \<Rightarrow> user M" where
  "executeRoleCommand E R command roleName =
     (if cmd_action command = ''grant''
      then bnd (findOperationalUser E (cmd_email command)) (\<lambda>user.
        bnd (map_err (wrap_err (''grant '' @ cmd_target command @ '' role''))
               (AddUserPlatformRoleByName E (usr_id user) roleName)) (\<lambda>_. ret user))
      else (case R of None \<Rightarrow> fail (EText ''role revocation dependencies are not configured'')
        | Some r \<Rightarrow> map_err (wrap_err (''revoke '' @ cmd_target command @ '' role''))
            (revoke_role E r (cmd_email command) roleName)))"

definition executeAllowlistCommand :: "env \<Rightarrow> operational_command \<Rightarrow> unit M" where
  "executeAllowlistCommand E command =
     (if cmd_action command = ''add''
      then map_err (wrap_err ''add allowlist email'') (EnsureAllowedEmail E (cmd_email command))
      else try_bnd (DeleteAllowedEmail E (cmd_email command))
        (\<lambda>e. if \<not> errors_is e (EStore ErrAllowedEmailNotFound)
           then fail (wrap_err ''remove allowlist email'' e) else ret ()) ret)"

definition role_message :: "env \<Rightarrow> operational_command \<Rightarrow> user \<Rightarrow> string" where
  "role_message E command user = cmd_target command @ '' role '' @
     (if cmd_action command = ''grant'' then ''granted to '' else ''revoked from '') @
     usr_email user @ '' ('' @ uuid_string E (usr_id user) @ '')''"

definition allowlist_message :: "operational_command \<Rightarrow> string" where
  "allowlist_message command = cmd_email command @
     (if cmd_action command = ''add'' then '' added to the allowlist'' else '' removed from the allowlist'')"

definition executeOperationalCommand ::
  "env \<Rightarrow> revocations option \<Rightarrow> operational_command \<Rightarrow> string M" where
  "executeOperationalCommand E R command =
     (if cmd_target command = ''operator''
      then bnd (executeRoleCommand E R command DBOperatorRoleName) (\<lambda>u. ret (role_message E command u))
      else if cmd_target command = ''admin''
      then bnd (executeRoleCommand E R command DBAdminRoleName) (\<lambda>u. ret (role_message E command u))
      else if cmd_target command = ''allowlist''
      then bnd (executeAllowlistCommand E command) (\<lambda>_. ret (allowlist_message command))
      else fail (EText operational_usage))"

definition isRoleRevocation :: "operational_command \<Rightarrow> bool" where
  "isRoleRevocation command \<longleftrightarrow>
     (cmd_target command = ''operator'' \<or> cmd_target command = ''admin'') \<and> cmd_action command = ''revoke''"

end
