(* ===== verification/OAuth_Challenges.thy ===== *)
theory OAuth_Challenges
  imports Store_Auth Encoding
begin

text \<open>
  \<open>internal/oauth/challenges.go\<close>: the state and nonce of an OpenID Connect sign-in, kept for
  ten minutes and used once; and the registered providers (\<open>providers.go\<close>).
\<close>

definition oauthChallengeTTL :: duration where
  "oauthChallengeTTL = 10 * minute"

text \<open>\<open>ErrInvalidAuthenticationChallenge\<close> of this package.\<close>

definition ErrInvalidOAuthChallenge :: err where
  "ErrInvalidOAuthChallenge = EText ''invalid oauth authentication challenge''"

definition randomChallengeValue :: "env \<Rightarrow> string M" where
  "randomChallengeValue E = bnd (rand_read E 32) (\<lambda>b. ret (base64_encode b))"

definition oauth_Create :: "env \<Rightarrow> string \<Rightarrow> time \<Rightarrow> oauth_challenge M" where
  "oauth_Create E provider now =
     bnd (randomChallengeValue E) (\<lambda>state.
     bnd (randomChallengeValue E) (\<lambda>nonce.
     CreateOAuthAuthenticationChallenge E \<lparr>oc_id = nil_uuid, oc_created_at = zero_time,
       oc_provider = provider, oc_state = state, oc_nonce = nonce,
       oc_expires_at = now + oauthChallengeTTL, oc_consumed_at = None\<rparr>))"

definition oauth_acceptable :: "oauth_challenge \<Rightarrow> string \<Rightarrow> string \<Rightarrow> time \<Rightarrow> bool" where
  "oauth_acceptable c provider state now \<longleftrightarrow>
     \<not> (oc_consumed_at c \<noteq> None \<or> \<not> now < oc_expires_at c \<or> oc_provider c \<noteq> provider
        \<or> (state \<noteq> '''' \<and> oc_state c \<noteq> state))"

definition oauth_Consume :: "env \<Rightarrow> uuid \<Rightarrow> string \<Rightarrow> string \<Rightarrow> time \<Rightarrow> oauth_challenge M" where
  "oauth_Consume E i provider state now = with_tx E
     (bnd (map_err (err_as (EStore ErrOAuthAuthenticationChallengeNotFound) ErrInvalidOAuthChallenge)
             (GetOAuthAuthenticationChallengeForUpdate E i)) (\<lambda>c.
      if \<not> oauth_acceptable c provider state now then fail ErrInvalidOAuthChallenge
      else
      bnd (map_err (err_as (EStore ErrOAuthAuthenticationChallengeConsumed) ErrInvalidOAuthChallenge)
             (ConsumeOAuthAuthenticationChallenge E i now)) (\<lambda>_. ret c)))"

section \<open>Registered providers\<close>

record oauth_provider =
  op_Name :: string
  op_ClientID :: string
  op_RedirectURI :: string

definition trim_right_slash :: "string \<Rightarrow> string" where
  "trim_right_slash s = rev (dropWhile (\<lambda>c. c = CHR ''/'') (rev s))"

definition NewOAuthProvider :: "string \<Rightarrow> string \<Rightarrow> string \<Rightarrow> oauth_provider" where
  "NewOAuthProvider providerName clientID appURL =
     \<lparr>op_Name = providerName, op_ClientID = clientID,
      op_RedirectURI = trim_right_slash appURL @ ''/auth/oauth/'' @ providerName @ ''/callback''\<rparr>"

end
