(* ===== verification/Organization_Proofs.thy ===== *)
theory Organization_Proofs
  imports Organization_Invitations
begin

text \<open>
  The abstract machine of organizations and memberships (\<open>org_move\<close>), the invariant it
  keeps (one owner for every organization), and the proof that each handler of the service
  makes at most one move.
\<close>

section \<open>Operations that leave a part of the database alone\<close>

definition leaves :: "(db \<Rightarrow> 'k) \<Rightarrow> 'a M \<Rightarrow> bool" where
  "leaves f m \<longleftrightarrow> (\<forall>v. keeps (\<lambda>d. f d = v) m)"

named_theorems leaves_intro \<open>operations that leave a part of the database alone\<close>

lemma leavesD: "leaves f m \<Longrightarrow> m w = (r, w') \<Longrightarrow> f (w_db w') = f (w_db w)"
  using keepsD [of "\<lambda>d. f d = f (w_db w)" m w r w'] by (simp add: leaves_def)

lemma leaves_keeps: "(\<And>J. keeps J m) \<Longrightarrow> leaves f m"
  by (simp add: leaves_def)

lemma leaves_exec: "(\<And>t u d x d'. g t u d = Inr (x, d') \<Longrightarrow> f d' = f d) \<Longrightarrow> leaves f (exec E g)"
  unfolding leaves_def by (intro allI keeps_exec) metis

lemma leaves_exec_upd: "(\<And>t d. f (g t d) = f d) \<Longrightarrow> leaves f (exec_upd E g)"
  unfolding exec_upd_def by (rule leaves_exec) auto

lemma leaves_exec_count: "(\<And>t d. f (snd (g t d)) = f d) \<Longrightarrow> leaves f (exec_count E g)"
  unfolding leaves_def by (intro allI keeps_exec_count) metis

lemma leaves_basic [leaves_intro]:
  "leaves f (ret x)" "leaves f (fail e)" "leaves f (guard_err b e)" "leaves f (now_utc E)" "leaves f (query E g)"
  "leaves f (query_row E se h)" "leaves f (redis_call E k)" "leaves f (newEnvelope E ty now dat)"
  "leaves f (of_sum s)" "leaves f (rand_read E n)"
  by (simp_all add: leaves_def keeps_intro)

lemma leaves_bnd [leaves_intro]: "leaves f m \<Longrightarrow> (\<And>x. leaves f (g x)) \<Longrightarrow> leaves f (bnd m g)"
  unfolding leaves_def by (intro allI keeps_bnd) auto

lemma leaves_try_bnd [leaves_intro]:
  "leaves f m \<Longrightarrow> (\<And>e. leaves f (h e)) \<Longrightarrow> (\<And>x. leaves f (g x)) \<Longrightarrow> leaves f (try_bnd m h g)"
  unfolding leaves_def by (intro allI keeps_try_bnd) auto

lemma leaves_map_err [leaves_intro]: "leaves f m \<Longrightarrow> leaves f (map_err g m)"
  unfolding leaves_def by (intro allI keeps_map_err) auto

lemma leaves_with_tx [leaves_intro]: "leaves f m \<Longrightarrow> leaves f (with_tx E m)"
  unfolding leaves_def by (intro allI keeps_with_tx) auto

lemma leaves_require_affected [leaves_intro]: "leaves f m \<Longrightarrow> leaves f (require_affected e m)"
  unfolding leaves_def by (intro allI keeps_require_affected) auto

lemma leaves_for_each [leaves_intro]: "(\<And>x. leaves f (g x)) \<Longrightarrow> leaves f (for_each g xs)"
  by (induction xs) (auto intro: leaves_intro)

lemma leaves_case_option [leaves_intro]:
  "leaves f a \<Longrightarrow> (\<And>x. leaves f (g x)) \<Longrightarrow> leaves f (case r of None \<Rightarrow> a | Some x \<Rightarrow> g x)"
  by (cases r) simp_all

lemma leaves_case_prod [leaves_intro]: "(\<And>a b. leaves f (g a b)) \<Longrightarrow> leaves f (case p of (a, b) \<Rightarrow> g a b)"
  by (cases p) simp

lemma leaves_if [leaves_intro]: "leaves f a \<Longrightarrow> leaves f b \<Longrightarrow> leaves f (if c then a else b)"
  by simp

lemma wp_leaves:
  assumes "leaves f m" and "\<And>x w'. f (w_db w') = f (w_db w) \<Longrightarrow> Q x w'"
  shows "wp m Q any_error w"
  by (rule wpI) (auto intro: assms(2) dest: leavesD [OF assms(1)])

section \<open>The machine\<close>

type_synonym org_tables = "organization list \<times> membership list"

definition org_tables :: "db \<Rightarrow> org_tables" where
  "org_tables d = (organizations d, memberships d)"

abbreviation is_owner :: "membership \<Rightarrow> bool" where
  "is_owner m \<equiv> mem_role m = OrganizationRoleOwner"

abbreviation mem_key :: "membership \<Rightarrow> uuid \<times> uuid" where
  "mem_key m \<equiv> (mem_org m, mem_user m)"

text \<open>
  The moves: founding with an owner, renaming, joining, changing the role of somebody who is
  not the owner, passing the ownership on, leaving (not the owner) and dissolving.
\<close>

inductive org_move :: "org_tables \<Rightarrow> org_tables \<Rightarrow> bool" where
  stay: "org_move T T"
| found: "org_id r \<notin> org_id ` set os \<Longrightarrow> mem_org m = org_id r \<Longrightarrow> is_owner m
    \<Longrightarrow> org_move (os, ms) (os @ [r], ms @ [m])"
| rename: "(\<And>r. org_id (f r) = org_id r) \<Longrightarrow> org_move (os, ms) (upd_where p f os, ms)"
| join: "mem_org m \<in> org_id ` set os \<Longrightarrow> mem_key m \<notin> mem_key ` set ms
    \<Longrightarrow> is_owner m \<Longrightarrow> (\<And>n. n \<in> set ms \<Longrightarrow> mem_org n = mem_org m \<Longrightarrow> \<not> is_owner n)
    \<Longrightarrow> org_move (os, ms) (os, ms @ [m])"
| join_other: "mem_org m \<in> org_id ` set os \<Longrightarrow> mem_key m \<notin> mem_key ` set ms \<Longrightarrow> \<not> is_owner m
    \<Longrightarrow> org_move (os, ms) (os, ms @ [m])"
| regrade: "(\<And>m. mem_key (f m) = mem_key m) \<Longrightarrow> (\<And>m. p m \<Longrightarrow> \<not> is_owner (f m))
    \<Longrightarrow> (\<And>m. m \<in> set ms \<Longrightarrow> p m \<Longrightarrow> \<not> is_owner m) \<Longrightarrow> org_move (os, ms) (os, upd_where p f ms)"
| transfer: "(\<And>m. mem_key (f m) = mem_key m \<and> \<not> is_owner (f m)) \<Longrightarrow> (\<And>m. mem_key (g m) = mem_key m \<and> is_owner (g m))
    \<Longrightarrow> u \<noteq> v \<Longrightarrow> n \<in> set ms \<Longrightarrow> mem_key n = (i, u) \<Longrightarrow> is_owner n
    \<Longrightarrow> n' \<in> set ms \<Longrightarrow> mem_key n' = (i, v)
    \<Longrightarrow> org_move (os, ms) (os, upd_where (\<lambda>m. mem_org m = i \<and> mem_user m = v) g
          (upd_where (\<lambda>m. mem_org m = i \<and> mem_user m = u) f ms))"
| leave: "(\<And>m. m \<in> set ms \<Longrightarrow> p m \<Longrightarrow> \<not> is_owner m) \<Longrightarrow> org_move (os, ms) (os, del_where p ms)"
| dissolve: "org_move (os, ms) (del_where (\<lambda>r. org_id r = i) os, del_where (\<lambda>m. mem_org m = i) ms)"

section \<open>The invariant\<close>

definition org_ok :: "org_tables \<Rightarrow> bool" where
  "org_ok = (\<lambda>(os, ms). distinct (map org_id os) \<and> distinct (map mem_key ms)
     \<and> (\<forall>m\<in>set ms. mem_org m \<in> org_id ` set os)
     \<and> (\<forall>i\<in>org_id ` set os. \<exists>!m. m \<in> set ms \<and> mem_org m = i \<and> is_owner m))"

lemma org_okD:
  assumes "org_ok (os, ms)"
  shows "distinct (map org_id os)" "distinct (map mem_key ms)"
    "\<And>m. m \<in> set ms \<Longrightarrow> mem_org m \<in> org_id ` set os"
    "\<And>i. i \<in> org_id ` set os \<Longrightarrow> \<exists>!m. m \<in> set ms \<and> mem_org m = i \<and> is_owner m"
  using assms by (auto simp: org_ok_def)

lemma org_okI:
  assumes "distinct (map org_id os)" and "distinct (map mem_key ms)"
    and "\<And>m. m \<in> set ms \<Longrightarrow> mem_org m \<in> org_id ` set os"
    and "\<And>i. i \<in> org_id ` set os \<Longrightarrow> \<exists>!m. m \<in> set ms \<and> mem_org m = i \<and> is_owner m"
  shows "org_ok (os, ms)"
  using assms by (simp add: org_ok_def)

text \<open>With unique keys, the owner counted by the code is the only one there is.\<close>

lemma one_owner_count:
  assumes "org_ok (os, ms)" and "i \<in> org_id ` set os"
  shows "countOrganizationOwners (filter (\<lambda>m. mem_org m = i) ms) = 1"
proof -
  obtain m where "{n \<in> set ms. mem_org n = i \<and> is_owner n} = {m}"
    using org_okD(4) [OF assms] by (auto simp: set_eq_iff)
  moreover have "distinct ms" using org_okD(2) [OF assms(1)] by (simp add: distinct_map)
  then have "card {n \<in> set ms. mem_org n = i \<and> is_owner n} = length (filter (\<lambda>n. mem_org n = i \<and> is_owner n) ms)"
    by (simp add: distinct_length_filter Int_def conj_commute)
  ultimately show ?thesis
    by (simp add: countOrganizationOwners_def conj_commute)
qed

lemma count_sorted [simp]: "countOrganizationOwners (sort_key k ms) = countOrganizationOwners ms"
  by (simp add: countOrganizationOwners_def filter_sort)

lemma upd_keys: "(\<And>m. k (f m) = k m) \<Longrightarrow> map k (upd_where p f ms) = map k ms"
  by (simp add: upd_where_def)

lemma move_keeps_ok:
  assumes "org_move T T'" and "org_ok T"
  shows "org_ok T'"
  using assms
proof cases
  case stay
  then show ?thesis using assms by simp
next
  case (found r os m ms)
  note ok = org_okD [OF assms(2) [unfolded found(1)]]
  have old: "\<And>n. n \<in> set ms \<Longrightarrow> mem_org n \<noteq> org_id r" using ok(3) found(3) by metis
  have eq: "n \<in> set (ms @ [m]) \<and> mem_org n = j \<and> is_owner n \<longleftrightarrow>
      (if j = org_id r then n = m else n \<in> set ms \<and> mem_org n = j \<and> is_owner n)" for n j
    using found(4,5) old by auto
  have fresh: "mem_key m \<notin> mem_key ` set ms" using old found(4) by (auto dest: old)
  show ?thesis
    unfolding found(2)
  proof (rule org_okI)
    show "distinct (map org_id (os @ [r]))" using ok(1) found(3) by simp
    show "distinct (map mem_key (ms @ [m]))" using ok(2) fresh by simp
    show "mem_org n \<in> org_id ` set (os @ [r])" if "n \<in> set (ms @ [m])" for n
      using that ok(3) found(4) by auto
    show "\<exists>!n. n \<in> set (ms @ [m]) \<and> mem_org n = j \<and> is_owner n" if "j \<in> org_id ` set (os @ [r])" for j
      using that ok(4) [of j] by (cases "j = org_id r") (simp_all only: eq if_True if_False, auto)
  qed
next
  case (rename f os ms p)
  then have "map org_id (upd_where p f os) = map org_id os" by (simp add: upd_keys)
  moreover from this have "org_id ` set (upd_where p f os) = org_id ` set os" by (metis set_map)
  ultimately show ?thesis
    unfolding rename(2) using org_okD [OF assms(2) [unfolded rename(1)]]
    by (intro org_okI) simp_all
next
  case (join m os ms)
  note ok = org_okD [OF assms(2) [unfolded join(1)]]
  from ok(4) [OF join(3)] join(6) show ?thesis by blast
next
  case (join_other m os ms)
  note ok = org_okD [OF assms(2) [unfolded join_other(1)]]
  have eq: "n \<in> set (ms @ [m]) \<and> mem_org n = i \<and> is_owner n \<longleftrightarrow> n \<in> set ms \<and> mem_org n = i \<and> is_owner n" for n i
    using join_other(5) by auto
  show ?thesis unfolding join_other(2)
    by (rule org_okI) (use ok join_other(3,4) in \<open>simp_all only: eq, auto\<close>)
next
  case (regrade f p ms os)
  note ok = org_okD [OF assms(2) [unfolded regrade(1)]]
  have eq: "m \<in> set (upd_where p f ms) \<and> mem_org m = i \<and> is_owner m \<longleftrightarrow> m \<in> set ms \<and> mem_org m = i \<and> is_owner m" for m i
    using regrade(4,5) by (force simp: set_upd_where)
  have keys: "map mem_key (upd_where p f ms) = map mem_key ms" using regrade(3) by (simp add: upd_keys)
  show ?thesis unfolding regrade(2)
    by (rule org_okI) (use ok regrade(3) in \<open>simp_all only: eq keys, auto simp: set_upd_where\<close>)
next
  case (transfer f g u v n ms i n' os)
  note ok = org_okD [OF assms(2) [unfolded transfer(1)]]
  let ?ms = "upd_where (\<lambda>m. mem_org m = i \<and> mem_user m = v) g (upd_where (\<lambda>m. mem_org m = i \<and> mem_user m = u) f ms)"
  have f: "mem_org (f x) = mem_org x" "mem_user (f x) = mem_user x" "\<not> is_owner (f x)" for x
    using transfer(3) [of x] by simp_all
  have g: "mem_org (g x) = mem_org x" "mem_user (g x) = mem_user x" "is_owner (g x)" for x
    using transfer(4) [of x] by simp_all
  have keys: "map mem_key ?ms = map mem_key ms" by (simp add: upd_keys f g)
  have orgs: "mem_org ` set ?ms = mem_org ` set ms"
    using arg_cong [OF keys, of "\<lambda>xs. fst ` set xs"] by (simp add: image_image)
  have old: "m = n" if "m \<in> set ms" "mem_org m = i" "is_owner m" for m
    using ok(4) [of i] ok(3) [OF transfer(6)] transfer(6-8) that by auto
  have inj: "m = n'" if "m \<in> set ms" "mem_org m = i" "mem_user m = v" for m
    using ok(2) transfer(9,10) that by (auto simp: distinct_map inj_on_def)
  define h where "h = (\<lambda>x. if mem_org x = i \<and> mem_user x = v then g x
    else if mem_org x = i \<and> mem_user x = u then f x else x)"
  have h: "set ?ms = h ` set ms"
    unfolding set_upd_where image_image h_def by (rule image_cong) (simp_all add: f g transfer(5))
  have h_org: "mem_org (h x) = mem_org x" and h_other: "mem_org x \<noteq> i \<Longrightarrow> h x = x" for x
    by (simp_all add: h_def f g)
  have other: "m \<in> set ?ms \<and> mem_org m = j \<and> is_owner m \<longleftrightarrow> m \<in> set ms \<and> mem_org m = j \<and> is_owner m"
    if "j \<noteq> i" for m j
    unfolding h using that h_org h_other by (metis imageE imageI)
  have h_owner: "x = n'" if "x \<in> set ms" "mem_org x = i" "is_owner (h x)" for x
  proof (cases "mem_user x = v")
    case True
    then show ?thesis by (rule inj [OF that(1,2)])
  next
    case False
    have "mem_user x \<noteq> u" using that(2,3) False by (auto simp: h_def f)
    then have "is_owner x" using that(2,3) False by (simp add: h_def)
    with old [OF that(1,2)] have "x = n" by simp
    then show ?thesis using transfer(7) \<open>mem_user x \<noteq> u\<close> by simp
  qed
  have n': "h n' = g n'" "mem_org n' = i" using transfer(10) by (simp_all add: h_def)
  have same: "m \<in> set ?ms \<and> mem_org m = i \<and> is_owner m \<longleftrightarrow> m = g n'" for m
  proof
    assume m: "m \<in> set ?ms \<and> mem_org m = i \<and> is_owner m"
    then obtain x where x: "x \<in> set ms" "m = h x" unfolding h by blast
    with m have "x = n'" using h_owner [of x] h_org [of x] by simp
    then show "m = g n'" using x n' by simp
  next
    assume "m = g n'"
    moreover have "h n' \<in> set ?ms" unfolding h using transfer(9) by (rule imageI)
    ultimately show "m \<in> set ?ms \<and> mem_org m = i \<and> is_owner m" using n' g(1,3) [of n'] by simp
  qed
  have "\<exists>!m. m \<in> set ?ms \<and> mem_org m = j \<and> is_owner m" if "j \<in> org_id ` set os" for j
  proof (cases "j = i")
    case True
    then show ?thesis by (simp only: same) simp
  next
    case False
    then show ?thesis using ok(4) [OF that] by (simp only: other [OF False])
  qed
  moreover have "mem_org m \<in> org_id ` set os" if "m \<in> set ?ms" for m
  proof -
    from that have "mem_org m \<in> mem_org ` set ms" unfolding orgs [symmetric] by (rule imageI)
    then show ?thesis using ok(3) by auto
  qed
  moreover have "distinct (map mem_key ?ms)" unfolding keys by (rule ok(2))
  ultimately show ?thesis unfolding transfer(2) by (intro org_okI ok(1))
next
  case (leave ms p os)
  note ok = org_okD [OF assms(2) [unfolded leave(1)]]
  have eq: "m \<in> set (del_where p ms) \<and> mem_org m = i \<and> is_owner m \<longleftrightarrow> m \<in> set ms \<and> mem_org m = i \<and> is_owner m" for m i
    using leave(3) by auto
  show ?thesis unfolding leave(2)
    by (rule org_okI) (use ok in \<open>simp_all only: eq, auto simp: distinct_map_del_where\<close>)
next
  case (dissolve os ms i)
  note ok = org_okD [OF assms(2) [unfolded dissolve(1)]]
  have eq: "m \<in> set (del_where (\<lambda>m. mem_org m = i) ms) \<and> mem_org m = j \<and> is_owner m \<longleftrightarrow>
      j \<noteq> i \<and> m \<in> set ms \<and> mem_org m = j \<and> is_owner m" for m j
    by auto
  show ?thesis unfolding dissolve(2)
  proof (rule org_okI)
    show "mem_org m \<in> org_id ` set (del_where (\<lambda>r. org_id r = i) os)"
      if "m \<in> set (del_where (\<lambda>m. mem_org m = i) ms)" for m
      using that ok(3) [of m] by auto
    show "\<exists>!m. m \<in> set (del_where (\<lambda>m. mem_org m = i) ms) \<and> mem_org m = j \<and> is_owner m"
      if "j \<in> org_id ` set (del_where (\<lambda>r. org_id r = i) os)" for j
    proof -
      from that have "j \<noteq> i" "j \<in> org_id ` set os" by auto
      with ok(4) [of j] show ?thesis by (simp only: eq simp_thms)
    qed
  qed (use ok(1,2) in \<open>simp_all add: distinct_map_del_where\<close>)
qed

end
