(* ===== verification/Publishers.thy ===== *)
theory Publishers
  imports Organization_Proofs
begin

text \<open>
  The publishers the services are given. Which one a process uses is decided in
  \<open>internal/bootstrap/webhook.go\<close>: none (\<open>NoopPublisher\<close>) as long as webhooks
  are not configured, otherwise the queue behind a filter. All of them keep one contract, the
  locale \<open>publisher\<close>: publishing writes the table \<open>webhook_events\<close> at most. What
  the services promise is proved for every publisher that keeps it.
\<close>

section \<open>The contract\<close>

definition events_only :: "(envelope \<Rightarrow> unit M) \<Rightarrow> bool" where
  "events_only publish \<longleftrightarrow> (\<forall>evt. leaves (\<lambda>d. d\<lparr>webhook_events := []\<rparr>) (publish evt))"

lemma without_events: "d\<lparr>webhook_events := []\<rparr> = d'\<lparr>webhook_events := []\<rparr> \<Longrightarrow> \<exists>es. d' = d\<lparr>webhook_events := es\<rparr>"
  by (intro exI [of _ "webhook_events d'"]) (cases d, cases d', simp)

text \<open>A publisher as the services see it: a property that ignores the events is kept.\<close>

locale publisher =
  fixes publish :: "envelope \<Rightarrow> unit M"
  assumes writes_events: "events_only publish"
begin

lemma ran:
  assumes "publish evt w = (r, w')"
  shows "\<exists>es. w_db w' = (w_db w)\<lparr>webhook_events := es\<rparr>"
proof -
  have "leaves (\<lambda>d. d\<lparr>webhook_events := []\<rparr>) (publish evt)"
    using writes_events by (simp add: events_only_def)
  from leavesD [OF this assms] show ?thesis by (metis without_events)
qed

lemma keeps_other:
  assumes "\<And>d es. J d \<Longrightarrow> J (d\<lparr>webhook_events := es\<rparr>)"
  shows "keeps J (publish evt)"
  by (rule keepsI) (metis ran assms)

lemma leaves_other:
  assumes "\<And>d es. f (d\<lparr>webhook_events := es\<rparr>) = f d"
  shows "leaves f (publish evt)"
  unfolding leaves_def by (intro allI keeps_other) (simp add: assms)

end

lemma publisher_iff: "publisher publish \<longleftrightarrow> events_only publish"
  by (simp add: publisher_def)

lemmas events_only_keeps = publisher.keeps_other [unfolded publisher_iff]
  and events_only_leaves = publisher.leaves_other [unfolded publisher_iff]

section \<open>The publishers of the program\<close>

lemma events_only_Noop: "events_only NoopPublisher"
  by (simp add: events_only_def NoopPublisher_def leaves_basic)

lemma events_only_Queue: "events_only (QueuePublisher E json_valid)"
  unfolding events_only_def QueuePublisher_def CreateWebhookEvent_def Let_def
  by (intro allI leaves_intro leaves_exec) (auto split: if_splits)

lemma events_only_Filtering: "events_only (Inner p) \<Longrightarrow> events_only (FilteringPublish p)"
  unfolding events_only_def FilteringPublish_def by (intro allI leaves_intro) simp_all

definition NewFilteringPublisherWithPolicy ::
  "(envelope \<Rightarrow> unit M) \<Rightarrow> string list \<Rightarrow> filtering_publisher" where
  "NewFilteringPublisherWithPolicy inner policy = \<lparr>Inner = inner, Enabled = [], Policy = Some policy\<rparr>"

text \<open>\<open>Enabled\<close> of the webhook configuration (\<open>internal/config/webhook.go\<close>).\<close>

definition webhook_enabled :: "string \<Rightarrow> string \<Rightarrow> bool" where
  "webhook_enabled url secret \<longleftrightarrow> url \<noteq> '''' \<and> secret \<noteq> ''''"

text \<open>
  \<open>enabledEvents\<close> is what the current configuration answers when an event is published.
\<close>

definition newWebhookPublisher ::
  "env \<Rightarrow> (string \<Rightarrow> bool) \<Rightarrow> string \<Rightarrow> string \<Rightarrow> string list \<Rightarrow> envelope \<Rightarrow> unit M" where
  "newWebhookPublisher E json_valid url secret enabledEvents =
     (if \<not> webhook_enabled url secret then NoopPublisher
      else FilteringPublish (NewFilteringPublisherWithPolicy (QueuePublisher E json_valid) enabledEvents))"

lemma events_only_new: "events_only (newWebhookPublisher E json_valid url secret enabledEvents)"
  unfolding newWebhookPublisher_def NewFilteringPublisherWithPolicy_def
  by (simp add: events_only_Noop events_only_Queue events_only_Filtering)

interpretation noop: publisher NoopPublisher
  by unfold_locales (rule events_only_Noop)

interpretation queue: publisher "QueuePublisher E json_valid" for E json_valid
  by unfold_locales (rule events_only_Queue)

interpretation wired: publisher "newWebhookPublisher E json_valid url secret enabledEvents"
  for E json_valid url secret enabledEvents
  by unfold_locales (rule events_only_new)

text \<open>With webhooks off nothing happens at all; an event that is not enabled is not queued.\<close>

lemma disabled_publisher: "\<not> webhook_enabled url secret \<Longrightarrow> newWebhookPublisher E json_valid url secret evs evt w = (Inr (), w)"
  by (simp add: newWebhookPublisher_def NoopPublisher_def ret_def)

lemma filtered_out:
  assumes "webhook_enabled url secret" and "evs \<noteq> []" and "env_type evt \<notin> set evs"
  shows "newWebhookPublisher E json_valid url secret evs evt w = (Inr (), w)"
  using assms
  by (auto simp: newWebhookPublisher_def NewFilteringPublisherWithPolicy_def FilteringPublish_def list_ex_iff ret_def)

end
