(* ===== verification/Organization_Moves.thy ===== *)
theory Organization_Moves
  imports Publishers Webhook_Queue
begin

text \<open>
  Every handler of the organization service makes at most one move of the machine; what
  \<open>PrepareUserDeletion\<close> leaves of the user.
\<close>

section \<open>What leaves the tables of organizations and memberships alone\<close>

lemma leaves_statements [leaves_intro]:
  "leaves org_tables (DeleteSessionsByOrganizationMembership E i u)" "leaves org_tables (DeleteSessionsByOrganization E i)"
  "leaves org_tables (CreateOrganizationInvitation E jb v)" "leaves org_tables (MarkOrganizationInvitationAccepted E i u now)"
  "leaves org_tables (MarkOrganizationInvitationRevoked E i a now)"
  unfolding DeleteSessionsByOrganizationMembership_def DeleteSessionsByOrganization_def
    CreateOrganizationInvitation_def MarkOrganizationInvitationAccepted_def MarkOrganizationInvitationRevoked_def
    cascade_sessions_def org_tables_def Let_def
  by (intro leaves_intro leaves_exec leaves_exec_upd leaves_exec_count; auto split: if_splits option.splits)+

lemma leaves_services [leaves_intro]:
  "leaves org_tables (Enqueue E to tpl dat now)" "leaves org_tables (CreateEmailJob E j)"
  "leaves f (RevokeMembershipTokens E R u i now)"
  by (auto simp: leaves_def org_tables_def intro!: keeps_Enqueue keeps_CreateEmailJob keeps_intro)

lemma leaves_reads [leaves_intro]:
  "leaves f (GetUserByID E u)" "leaves f (GetUserByIDForUpdate E u)" "leaves f (GetUserByEmail E a)"
  "leaves f (LockUserForKeyShare E u)" "leaves f (GetOrganizationByID E i)" "leaves f (GetOrganizationByIDForUpdate E i)"
  "leaves f (LockOrganizationForKeyShare E i)" "leaves f (GetOrganizationMembership E i u)"
  "leaves f (ListOrganizationMembershipsByUserID E u)" "leaves f (ListOrganizationMembershipsByOrganizationID E i)"
  by (simp_all add: leaves_def keeps_intro)

lemma leaves_invitation_reads [leaves_intro]:
  "leaves f (GetOrganizationInvitationByID E i)" "leaves f (GetOrganizationInvitationByIDForUpdate E i)"
  "leaves f (GetOrganizationInvitationByTokenHash E h)" "leaves f (GetOrganizationInvitationByTokenHashForUpdate E h)"
  "leaves f (GetActiveOrganizationInvitationByOrganizationAndEmail E i a)"
  by (simp_all add: GetOrganizationInvitationByID_def GetOrganizationInvitationByIDForUpdate_def
      GetOrganizationInvitationByTokenHash_def GetOrganizationInvitationByTokenHashForUpdate_def
      GetActiveOrganizationInvitationByOrganizationAndEmail_def leaves_basic)

lemma leaves_user_emails [leaves_intro]: "leaves f (user_emails E ms)"
  by (induction ms) (auto intro: leaves_intro)

definition quiet :: "organization_service \<Rightarrow> bool" where
  "quiet S \<longleftrightarrow> (\<forall>evt. leaves org_tables (os_publish S evt))"

lemma leaves_events [leaves_intro]:
  "leaves f (NewOrganizationCreated E org now)" "leaves f (NewOrganizationUpdated E org now)"
  "leaves f (NewOrganizationDeleted E org now)" "leaves f (NewOrganizationMembershipCreated E m now)"
  "leaves f (NewOrganizationMembershipCreatedFromInvitation E m i now)"
  "leaves f (NewOrganizationMembershipUpdated E m now)" "leaves f (NewOrganizationMembershipDeleted E m now)"
  "leaves f (NewOrganizationInvitationCreated E i now)" "leaves f (NewOrganizationInvitationAccepted E i now)"
  "leaves f (NewOrganizationInvitationRevoked E i now)"
  by (simp_all add: NewOrganizationCreated_def NewOrganizationUpdated_def NewOrganizationDeleted_def
      NewOrganizationMembershipCreated_def NewOrganizationMembershipCreatedFromInvitation_def
      NewOrganizationMembershipUpdated_def NewOrganizationMembershipDeleted_def
      NewOrganizationInvitationCreated_def NewOrganizationInvitationAccepted_def
      NewOrganizationInvitationRevoked_def Let_def leaves_basic)

lemma leaves_publish [leaves_intro]: "quiet S \<Longrightarrow> leaves org_tables mk \<Longrightarrow> leaves org_tables (publish_event S mk)"
  unfolding publish_event_def quiet_def by (intro leaves_intro) auto

section \<open>Operations that make at most one move\<close>

definition moves :: "'a M \<Rightarrow> bool" where
  "moves m \<longleftrightarrow> (\<forall>w r w'. w_tx w = NoTx \<longrightarrow> org_ok (org_tables (w_db w)) \<longrightarrow> m w = (r, w')
     \<longrightarrow> org_move (org_tables (w_db w)) (org_tables (w_db w')) \<and> w_tx w' = NoTx)"

named_theorems moves_intro \<open>operations that make at most one move\<close>

lemma moves_tx:
  assumes "\<And>w. w_tx w = TxOpen \<Longrightarrow> org_ok (org_tables (w_db w)) \<Longrightarrow> wp m (\<lambda>x w'. org_move (org_tables (w_db w)) (org_tables (w_db w'))) any_error w"
  shows "moves (with_tx E m)"
  unfolding moves_def
proof (intro allI impI)
  fix w r w'
  assume w: "w_tx w = NoTx" "org_ok (org_tables (w_db w))" and run: "with_tx E m w = (r, w')"
  have "wp m (\<lambda>x w'. org_move (org_tables (w_db w)) (org_tables (w_db w'))) any_error (open_tx w)"
    using assms [of "open_tx w"] w by simp
  then have "wp (with_tx E m) (\<lambda>x w'. org_move (org_tables (w_db w)) (org_tables (w_db w')) \<and> w_tx w' = NoTx)
      (\<lambda>e w'. org_move (org_tables (w_db w)) (org_tables (w_db w')) \<and> w_tx w' = NoTx) w"
    using w by (auto simp: wp_with_tx intro: org_move.stay elim: wp_mono)
  then show "org_move (org_tables (w_db w)) (org_tables (w_db w')) \<and> w_tx w' = NoTx"
    using run by (auto simp: wp_def split: sum.splits)
qed

text \<open>Reading outside a transaction, and what follows it.\<close>

definition peeks :: "'a M \<Rightarrow> bool" where
  "peeks m \<longleftrightarrow> (\<forall>w r w'. w_tx w = NoTx \<longrightarrow> m w = (r, w') \<longrightarrow> w_db w' = w_db w \<and> w_tx w' = NoTx)"

lemma peeksD:
  "peeks m \<Longrightarrow> m w = (r, w') \<Longrightarrow> w_tx w = NoTx \<Longrightarrow> w_db w' = w_db w \<and> w_tx w' = NoTx"
  unfolding peeks_def by blast

lemma peeksI:
  assumes "\<And>w. w_tx w = NoTx \<Longrightarrow> wp m (\<lambda>_ w'. w_db w' = w_db w \<and> w_tx w' = NoTx) (\<lambda>_ w'. w_db w' = w_db w \<and> w_tx w' = NoTx) w"
  shows "peeks m"
  unfolding peeks_def
proof (intro allI impI)
  fix w r w'
  assume "w_tx w = NoTx" and run: "m w = (r, w')"
  from assms [OF this(1)] run show "w_db w' = w_db w \<and> w_tx w' = NoTx"
    by (cases r) (simp_all add: wp_def)
qed

lemma peeks_basic [moves_intro]:
  "peeks (ret x)" "peeks (fail e)" "peeks (now_utc E)" "peeks (of_sum s)" "peeks (rand_read E n)" "peeks (query_row E se g)"
  by (rule peeksI, simp add: wps failed_sql_def)+

lemma movesD:
  "moves m \<Longrightarrow> m w = (r, w') \<Longrightarrow> w_tx w = NoTx \<Longrightarrow> org_ok (org_tables (w_db w))
    \<Longrightarrow> org_move (org_tables (w_db w)) (org_tables (w_db w')) \<and> w_tx w' = NoTx"
  unfolding moves_def by blast

lemma movesI:
  "(\<And>w r w'. m w = (r, w') \<Longrightarrow> w_tx w = NoTx \<Longrightarrow> org_ok (org_tables (w_db w))
    \<Longrightarrow> org_move (org_tables (w_db w)) (org_tables (w_db w')) \<and> w_tx w' = NoTx) \<Longrightarrow> moves m"
  unfolding moves_def by blast

lemma bnd_cases:
  assumes "bnd m f w = (r, w')"
  obtains e where "m w = (Inl e, w')" | x w1 where "m w = (Inr x, w1)" "f x w1 = (r, w')"
  using assms by (auto simp: bnd_def split: prod.splits sum.splits)

lemma peeks_bnd [moves_intro]:
  assumes "peeks m" and "\<And>x. peeks (f x)"
  shows "peeks (bnd m f)"
  unfolding peeks_def
proof (intro allI impI, elim bnd_cases)
  fix w r w' e
  assume "w_tx w = NoTx" "m w = (Inl e, w')"
  then show "w_db w' = w_db w \<and> w_tx w' = NoTx" using peeksD [OF assms(1)] by blast
next
  fix w r w' x w1
  assume w: "w_tx w = NoTx" "m w = (Inr x, w1)" "f x w1 = (r, w')"
  with peeksD [OF assms(1) w(2,1)] peeksD [OF assms(2) w(3)] show "w_db w' = w_db w \<and> w_tx w' = NoTx" by simp
qed

lemma moves_peeks: "peeks m \<Longrightarrow> moves m"
  by (rule movesI) (simp add: peeksD org_move.stay)

lemma moves_bnd [moves_intro]:
  assumes "peeks m" and "\<And>x. moves (f x)"
  shows "moves (bnd m f)"
proof (rule movesI, elim bnd_cases)
  fix w r w' e
  assume "w_tx w = NoTx" "m w = (Inl e, w')"
  then show "org_move (org_tables (w_db w)) (org_tables (w_db w')) \<and> w_tx w' = NoTx"
    using peeksD [OF assms(1)] by (simp add: org_move.stay)
next
  fix w r w' x w1
  assume w: "w_tx w = NoTx" "m w = (Inr x, w1)" "f x w1 = (r, w')" "org_ok (org_tables (w_db w))"
  with peeksD [OF assms(1) w(2,1)] movesD [OF assms(2) w(3)]
  show "org_move (org_tables (w_db w)) (org_tables (w_db w')) \<and> w_tx w' = NoTx" by simp
qed

lemma moves_then_ret [moves_intro]: "moves m \<Longrightarrow> moves (bnd m (\<lambda>x. ret (g x)))"
  by (rule movesI, erule bnd_cases) (auto simp: ret_def dest: movesD)

lemma moves_fail [moves_intro]: "moves (fail e)" "moves (ret x)"
  by (rule moves_peeks, rule moves_intro)+

lemma moves_if [moves_intro]: "(c \<Longrightarrow> moves a) \<Longrightarrow> (\<not> c \<Longrightarrow> moves b) \<Longrightarrow> moves (if c then a else b)"
  by simp

lemma moves_prod [moves_intro]: "(\<And>a b. moves (f a b)) \<Longrightarrow> moves (case p of (a, b) \<Rightarrow> f a b)"
  by (cases p) simp

section \<open>The statements, as steps of a proof\<close>

text \<open>
  \<open>intro steps\<close> walks through a handler: at each read the value read becomes a fact about
  the tables, at each write the tables change by what the statement does; an error ends the
  transaction and needs no proof.
\<close>

named_theorems steps \<open>weakest preconditions for any error, as introduction rules\<close>

lemma step_bnd [steps]: "wp m (\<lambda>x. wp (f x) Q any_error) any_error w \<Longrightarrow> wp (bnd m f) Q any_error w"
  by (simp add: wp_bnd)

lemma step_fail [steps]: "wp (fail e) Q any_error w"
  by (simp add: wps)

lemma step_ret [steps]: "Q x w \<Longrightarrow> wp (ret x) Q any_error w"
  by (simp add: wps)

lemma step_if [steps]: "(b \<Longrightarrow> wp m Q any_error w) \<Longrightarrow> (\<not> b \<Longrightarrow> wp m' Q any_error w) \<Longrightarrow> wp (if b then m else m') Q any_error w"
  by simp

lemma step_now_utc [steps]: "(\<And>t w'. w_db w' = w_db w \<Longrightarrow> Q t w') \<Longrightarrow> wp (now_utc E) Q any_error w"
  by (simp add: wps)

lemma step_of_sum [steps]: "(\<And>x. s = Inr x \<Longrightarrow> Q x w) \<Longrightarrow> wp (of_sum s) Q any_error w"
  by (simp add: wps)

lemma step_query_row:
  "(\<And>x w'. f (w_db w) = Some x \<Longrightarrow> w_db w' = w_db w \<Longrightarrow> Q x w') \<Longrightarrow> wp (query_row E e f) Q any_error w"
  by (simp add: wps)

lemma step_map_err: "wp m Q any_error w \<Longrightarrow> wp (map_err g m) Q any_error w"
  by (simp add: wps)

lemma step_GetOrganizationByID [steps]:
  "(\<And>r w'. r \<in> set (organizations (w_db w)) \<Longrightarrow> org_id r = i \<Longrightarrow> w_db w' = w_db w \<Longrightarrow> Q r w')
    \<Longrightarrow> wp (GetOrganizationByID E i) Q any_error w"
  "(\<And>r w'. r \<in> set (organizations (w_db w)) \<Longrightarrow> org_id r = i \<Longrightarrow> w_db w' = w_db w \<Longrightarrow> Q r w')
    \<Longrightarrow> wp (GetOrganizationByIDForUpdate E i) Q any_error w"
  unfolding GetOrganizationByID_def GetOrganizationByIDForUpdate_def
  by (auto intro!: step_query_row dest: find_Some_in)

lemma find_membershipD: "find_membership i u d = Some m \<Longrightarrow> m \<in> set (memberships d) \<and> mem_key m = (i, u)"
  by (auto simp: find_membership_def dest: find_Some_in)

lemma step_GetOrganizationMembership [steps]:
  "(\<And>m w'. find_membership i u (w_db w) = Some m \<Longrightarrow> w_db w' = w_db w \<Longrightarrow> Q m w')
    \<Longrightarrow> wp (GetOrganizationMembership E i u) Q any_error w"
  unfolding GetOrganizationMembership_def by (rule step_query_row)

lemma step_actor_membership [steps]:
  "(\<And>m w'. find_membership i u (w_db w) = Some m \<Longrightarrow> w_db w' = w_db w \<Longrightarrow> Q m w')
    \<Longrightarrow> wp (actor_membership E i u) Q any_error w"
  unfolding actor_membership_def by (intro step_map_err steps)

lemma step_ListMemberships [steps]:
  "(\<And>w'. w_db w' = w_db w \<Longrightarrow> Q (sort_key (\<lambda>m. (mem_created_at m, mem_user m))
       (filter (\<lambda>m. mem_org m = i) (memberships (w_db w)))) w')
    \<Longrightarrow> wp (ListOrganizationMembershipsByOrganizationID E i) Q any_error w"
  unfolding ListOrganizationMembershipsByOrganizationID_def by (simp add: wps)

lemma step_exec:
  "(\<And>t u x w'. f t u (w_db w) = Inr (x, w_db w') \<Longrightarrow> Q x w') \<Longrightarrow> wp (exec E f) Q any_error w"
  by (simp add: wps)

lemma insert_organization_tables:
  "insert_organization name kind c t u d = Inr (r, d') \<Longrightarrow>
    org_id r \<notin> org_id ` set (organizations d) \<and> org_tables d' = (organizations d @ [r], memberships d)"
  by (auto simp: insert_organization_def Let_def org_tables_def split: if_splits option.splits)

lemma insert_membership_tables:
  "insert_membership i u role t d = Inr (r, d') \<Longrightarrow>
    mem_key r = (i, u) \<and> mem_role r = role \<and> i \<in> org_id ` set (organizations d)
    \<and> (i, u) \<notin> mem_key ` set (memberships d)
    \<and> (role = OrganizationRoleOwner \<longrightarrow> (\<forall>n\<in>set (memberships d). mem_org n = i \<longrightarrow> \<not> is_owner n))
    \<and> org_tables d' = (organizations d, memberships d @ [r])"
  by (auto simp: insert_membership_def Let_def org_tables_def list_ex_iff split: if_splits)

lemma step_CreateOrganization [steps]:
  "(\<And>r w'. org_id r \<notin> org_id ` set (organizations (w_db w))
      \<Longrightarrow> org_tables (w_db w') = (organizations (w_db w) @ [r], memberships (w_db w)) \<Longrightarrow> Q r w')
    \<Longrightarrow> wp (CreateOrganization E org) Q any_error w"
  unfolding CreateOrganization_def
  by (auto simp: wp_fail split: sum.split intro!: step_exec dest!: insert_organization_tables)

lemma step_CreateOrganizationMembership [steps]:
  "(\<And>r w'. mem_key r = mem_key m \<Longrightarrow> mem_role r = mem_role m
      \<Longrightarrow> mem_org m \<in> org_id ` set (organizations (w_db w)) \<Longrightarrow> mem_key m \<notin> mem_key ` set (memberships (w_db w))
      \<Longrightarrow> is_owner m \<longrightarrow> (\<forall>n\<in>set (memberships (w_db w)). mem_org n = mem_org m \<longrightarrow> \<not> is_owner n)
      \<Longrightarrow> org_tables (w_db w') = (organizations (w_db w), memberships (w_db w) @ [r]) \<Longrightarrow> Q r w')
    \<Longrightarrow> wp (CreateOrganizationMembership E m) Q any_error w"
  unfolding CreateOrganizationMembership_def
  by (rule step_exec) (drule insert_membership_tables, simp)

lemma step_UpdateOrganizationName [steps]:
  assumes "\<And>r w' p f. (\<And>r. org_id (f r) = org_id r)
    \<Longrightarrow> org_tables (w_db w') = (upd_where p f (organizations (w_db w)), memberships (w_db w)) \<Longrightarrow> Q r w'"
  shows "wp (UpdateOrganizationName E i name) Q any_error w"
proof (cases "normalizeOrganizationName name")
  case (Inl e)
  then show ?thesis by (simp add: UpdateOrganizationName_def wps)
next
  case (Inr n)
  show ?thesis
    by (auto simp: UpdateOrganizationName_def Inr wps Let_def org_tables_def split: if_splits
        intro!: assms [where p = "\<lambda>r. org_id r = i"
          and f = "\<lambda>r. r\<lparr>org_name := fit 255 n, org_updated_at := o_dbnow E (w_step w)\<rparr>"])
qed

definition with_role :: "string \<Rightarrow> time \<Rightarrow> membership \<Rightarrow> membership" where
  "with_role role t m = m\<lparr>mem_role := role, mem_updated_at := t\<rparr>"

lemma with_role_sel [simp]:
  "mem_org (with_role role t m) = mem_org m" "mem_user (with_role role t m) = mem_user m" "mem_role (with_role role t m) = role"
  by (simp_all add: with_role_def)

lemma step_UpdateRole [steps]:
  "(\<And>t r w'. org_tables (w_db w') = (organizations (w_db w),
      upd_where (\<lambda>m. mem_org m = i \<and> mem_user m = u) (with_role role t) (memberships (w_db w))) \<Longrightarrow> Q r w')
    \<Longrightarrow> wp (UpdateOrganizationMembershipRole E i u role) Q any_error w"
  unfolding UpdateOrganizationMembershipRole_def
  by (auto simp: wps org_tables_def Let_def with_role_def [abs_def] split: if_splits)

lemma step_DeleteMembership [steps]:
  "(\<And>w'. org_tables (w_db w') = (organizations (w_db w),
      del_where (\<lambda>m. mem_org m = i \<and> mem_user m = u) (memberships (w_db w))) \<Longrightarrow> Q () w')
    \<Longrightarrow> wp (DeleteOrganizationMembership E i u) Q any_error w"
  unfolding DeleteOrganizationMembership_def
  by (auto simp: wps org_tables_def Let_def split: if_splits)

lemma step_DeleteOrganization [steps]:
  "(\<And>w'. org_tables (w_db w') = (del_where (\<lambda>r. org_id r = i) (organizations (w_db w)),
      del_where (\<lambda>m. mem_org m = i) (memberships (w_db w))) \<Longrightarrow> Q () w')
    \<Longrightarrow> wp (store_DeleteOrganization E i) Q any_error w"
  unfolding store_DeleteOrganization_def cascade_organization_def
  by (auto simp: wps org_tables_def Let_def split: if_splits)

section \<open>The handlers\<close>

text \<open>
  \<open>quietly\<close> steps over what does not touch the tables; the facts about the tables chain
  to the move.
\<close>

lemma step_quiet: "leaves org_tables m \<Longrightarrow> (\<And>x w'. org_tables (w_db w') = org_tables (w_db w) \<Longrightarrow> Q x w') \<Longrightarrow> wp m Q any_error w"
  by (rule wp_leaves)

lemmas quiet_steps = leaves_statements [THEN step_quiet] leaves_services [THEN step_quiet]
  leaves_reads(1-4,7,9) [THEN step_quiet] leaves_invitation_reads [THEN step_quiet]
  leaves_user_emails [THEN step_quiet]

lemmas publish_steps = leaves_events [THEN leaves_publish [THEN step_quiet, rotated]]

lemma step_case_option:
  "(r = None \<Longrightarrow> wp m Q any_error w) \<Longrightarrow> (\<And>x. r = Some x \<Longrightarrow> wp (f x) Q any_error w)
    \<Longrightarrow> wp (case r of None \<Rightarrow> m | Some x \<Rightarrow> f x) Q any_error w"
  by (cases r) simp_all

lemma step_for_each:
  "(\<And>x. leaves org_tables (f x)) \<Longrightarrow> (\<And>w'. org_tables (w_db w') = org_tables (w_db w) \<Longrightarrow> Q () w')
    \<Longrightarrow> wp (for_each f xs) Q any_error w"
  by (rule step_quiet) (auto intro: leaves_intro)

lemma find_membership_key:
  assumes "org_ok (org_tables d)" and "find_membership i u d = Some m" and "n \<in> set (memberships d)" and "mem_key n = (i, u)"
  shows "n = m"
  using assms(1) find_membershipD [OF assms(2)] assms(3,4)
  by (auto simp: org_ok_def org_tables_def distinct_map inj_on_def)

lemma leave_move:
  assumes ok: "org_ok (organizations d, memberships d)" and m: "find_membership i u d = Some m"
    and "is_owner m \<longrightarrow> countOrganizationOwners (filter (\<lambda>m. mem_org m = i) (memberships d)) \<noteq> Suc 0"
  shows "org_move (organizations d, memberships d)
    (organizations d, del_where (\<lambda>n. mem_org n = mem_org m \<and> mem_user n = mem_user m) (memberships d))"
proof -
  note m' = find_membershipD [OF m]
  have "mem_org m \<in> org_id ` set (organizations d)" "mem_org m = i"
    using ok m' by (auto simp: org_ok_def)
  then have "\<not> is_owner m"
    using assms(3) one_owner_count [OF ok, of i] by simp
  then show ?thesis
    using m' by (intro org_move.leave) (auto dest: find_membership_key [OF ok [folded org_tables_def] m])
qed

lemma moves_RemoveOrganizationMember:
  assumes "quiet S"
  shows "moves (RemoveOrganizationMember E S i u actor)"
  unfolding RemoveOrganizationMember_def removeOrganizationMembership_def if_True
  apply (rule moves_tx)
  apply (intro steps quiet_steps publish_steps assms step_case_option)
  apply (simp_all add: org_tables_def)
  apply (rule leave_move; simp)
  done

lemma step_deleteOrganization:
  assumes "quiet S"
    and "\<And>x w'. org_tables (w_db w') = (del_where (\<lambda>r. org_id r = org_id org) (organizations (w_db w)),
      del_where (\<lambda>m. mem_org m = org_id org) (memberships (w_db w))) \<Longrightarrow> Q x w'"
  shows "wp (deleteOrganization E S org ms now notify) Q any_error w"
  unfolding deleteOrganization_def
  apply (intro steps quiet_steps publish_steps assms(1) step_case_option step_for_each leaves_services)
   apply (rule assms(2), simp add: org_tables_def)+
  done

lemma moves_DeleteOrganization:
  assumes "quiet S"
  shows "moves (DeleteOrganization E S i actor)"
  unfolding DeleteOrganization_def
  by (rule moves_tx, intro steps step_deleteOrganization assms)
    (simp_all add: org_tables_def org_move.dissolve)

lemma regrade_move:
  assumes ok: "org_ok (organizations d, memberships d)" and m: "find_membership i u d = Some m" and "\<not> is_owner m"
    and "role \<noteq> OrganizationRoleOwner"
  shows "org_move (organizations d, memberships d)
    (organizations d, upd_where (\<lambda>m. mem_org m = i \<and> mem_user m = u) (with_role role t) (memberships d))"
  using assms(3,4)
  by (intro org_move.regrade) (auto dest: find_membership_key [OF ok [folded org_tables_def] m])

lemma role_distinct: "OrganizationRoleAdmin \<noteq> OrganizationRoleOwner" "OrganizationRoleMember \<noteq> OrganizationRoleOwner"
  "OrganizationRoleOwner \<noteq> OrganizationRoleAdmin" "OrganizationRoleOwner \<noteq> OrganizationRoleMember"
  by (simp_all add: OrganizationRoleAdmin_def OrganizationRoleMember_def OrganizationRoleOwner_def)

lemma moves_UpdateOrganizationMember:
  assumes "quiet S"
  shows "moves (UpdateOrganizationMember E S i u actor role)"
  unfolding UpdateOrganizationMember_def
  apply (intro moves_intro moves_tx)
  apply (intro steps quiet_steps publish_steps assms)
  apply (simp_all add: org_tables_def org_move.stay)
  apply (rule regrade_move)
     apply (auto simp: role_distinct)
  done

lemma transfer_move:
  assumes "find_membership i u d' = Some m" and "find_membership i v d' = Some n" and "is_owner m" and "u \<noteq> v"
    and "memberships d' = ms"
  shows "org_move (os, ms) (os, upd_where (\<lambda>m. mem_org m = i \<and> mem_user m = v) (with_role OrganizationRoleOwner t)
    (upd_where (\<lambda>m. mem_org m = i \<and> mem_user m = u) (with_role OrganizationRoleAdmin s) ms))"
  using find_membershipD [OF assms(1)] find_membershipD [OF assms(2)] assms(3-5)
  by (intro org_move.transfer [where n = m and n' = n]) (simp_all add: role_distinct)

lemma moves_TransferOrganizationOwnership:
  assumes "quiet S"
  shows "moves (TransferOrganizationOwnership E S i actor new)"
  unfolding TransferOrganizationOwnership_def
  apply (intro moves_intro moves_tx)
  apply (intro steps step_map_err quiet_steps publish_steps step_for_each leaves_publish leaves_events leaves_services assms)
  apply (simp_all add: org_tables_def)
  apply (rule transfer_move)
      apply (assumption | simp)+
  done

lemma moves_service_CreateOrganization:
  assumes "quiet S"
  shows "moves (service_CreateOrganization E S name c)"
  unfolding service_CreateOrganization_def
  apply (intro moves_intro moves_tx)
  apply (intro steps quiet_steps publish_steps assms)
  apply (simp_all add: org_tables_def)
  apply (rule org_move.found; simp)
  done

lemma moves_UpdateOrganization:
  assumes "quiet S"
  shows "moves (UpdateOrganization E S i name)"
  unfolding UpdateOrganization_def
  apply (intro moves_intro moves_tx)
  apply (intro steps quiet_steps publish_steps assms)
  apply (simp_all add: org_tables_def)
  apply (rule org_move.rename; simp)
  done

text \<open>The handlers of invitations, of which only accepting joins an organization.\<close>

lemma moves_tx_quiet: "leaves org_tables m \<Longrightarrow> moves (with_tx E m)"
  by (rule moves_tx, rule step_quiet, assumption, simp add: org_move.stay)

lemma peeks_normalizeNow [moves_intro]: "peeks (normalizeNow E now)"
  unfolding normalizeNow_def by (simp add: moves_intro)

lemma peeks_tokens [moves_intro]: "peeks (generateInvitationToken E)"
  unfolding generateInvitationToken_def by (intro moves_intro)

lemma peeks_invitation_reads [moves_intro]:
  "peeks (GetOrganizationInvitationByID E i)" "peeks (GetOrganizationInvitationByTokenHash E h)"
  by (simp_all add: GetOrganizationInvitationByID_def GetOrganizationInvitationByTokenHash_def moves_intro)

lemma leaves_invitation_parts [leaves_intro]:
  "leaves org_tables (actor_membership E i u)" "leaves org_tables (ensureInvitationTargetNotMember E i a)"
  "leaves org_tables (revoke_expired E inp a now)" "leaves org_tables (create_pending E S v)"
  "leaves org_tables (enqueueInvitationEmail E v org p url raw now)"
  unfolding actor_membership_def ensureInvitationTargetNotMember_def revoke_expired_def create_pending_def
    enqueueInvitationEmail_def
  by (intro leaves_intro)+

lemma moves_CreateInvitation: "quiet S \<Longrightarrow> moves (CreateInvitation E S inp)"
  unfolding CreateInvitation_def by (intro moves_intro moves_tx_quiet leaves_intro)

lemma moves_ResendInvitation: "quiet S \<Longrightarrow> moves (ResendInvitation E S i v now)"
  unfolding ResendInvitation_def Let_def by (intro moves_intro moves_tx_quiet leaves_intro)

lemma moves_RevokeInvitation: "quiet S \<Longrightarrow> moves (RevokeInvitation E S i v a now)"
  unfolding RevokeInvitation_def Let_def by (intro moves_intro moves_tx_quiet leaves_intro)

section \<open>Initial organizations and accepted invitations\<close>

text \<open>What a statement that adds a membership does to the tables, if anything.\<close>

definition joined :: "uuid \<Rightarrow> uuid \<Rightarrow> string \<Rightarrow> db \<Rightarrow> db \<Rightarrow> bool" where
  "joined i u role d d' \<longleftrightarrow> (\<exists>m. mem_key m = (i, u) \<and> mem_role m = role \<and> i \<in> org_id ` set (organizations d)
     \<and> (i, u) \<notin> mem_key ` set (memberships d)
     \<and> (role = OrganizationRoleOwner \<longrightarrow> (\<forall>n\<in>set (memberships d). mem_org n = i \<longrightarrow> \<not> is_owner n))
     \<and> org_tables d' = (organizations d, memberships d @ [m]))"

lemma joined_move:
  assumes "joined i u role d d'"
  shows "org_move (org_tables d) (org_tables d')"
proof -
  from assms obtain m where m: "mem_key m = (i, u)" "mem_role m = role" "mem_org m \<in> org_id ` set (organizations d)"
    "mem_key m \<notin> mem_key ` set (memberships d)"
    and owner: "role = OrganizationRoleOwner \<longrightarrow> (\<forall>n\<in>set (memberships d). mem_org n = mem_org m \<longrightarrow> \<not> is_owner n)"
    and d': "org_tables d' = (organizations d, memberships d @ [m])"
    unfolding joined_def by auto
  show ?thesis
  proof (cases "role = OrganizationRoleOwner")
    case True
    then show ?thesis unfolding d' org_tables_def [of d] using m(2-4) owner by (intro org_move.join) auto
  next
    case False
    then show ?thesis unfolding d' org_tables_def [of d] using m(2-4) by (intro org_move.join_other) auto
  qed
qed

lemma joined_cong: "org_tables c = org_tables d \<Longrightarrow> joined i u role c d' = joined i u role d d'"
  by (simp add: joined_def org_tables_def)

lemma ensure_owner_tables:
  assumes "(if list_ex (\<lambda>m. mem_org m = i \<and> mem_user m = u) (memberships d) then Inr ((), d)
      else case insert_membership i u OrganizationRoleOwner t d of Inl e \<Rightarrow> Inl e | Inr (m, d') \<Rightarrow> Inr ((), d')) = Inr (x, d')"
  shows "org_tables d' = org_tables d \<and> (i, u) \<in> mem_key ` set (memberships d) \<or> joined i u OrganizationRoleOwner d d'"
proof (cases "list_ex (\<lambda>m. mem_org m = i \<and> mem_user m = u) (memberships d)")
  case True
  then have "(i, u) \<in> mem_key ` set (memberships d)" by (force simp: list_ex_iff)
  with True assms show ?thesis by simp
next
  case False
  with assms show ?thesis
    by (auto simp: joined_def split: sum.splits prod.splits dest!: insert_membership_tables)
qed

lemma insert_or_conflict:
  assumes "(case insert_organization n kind c t u d of Inl e \<Rightarrow> if P e then Inr (None, d) else Inl e
      | Inr (row, d') \<Rightarrow> Inr (Some row, d')) = Inr (x, d')"
  shows "x = None \<and> d' = d \<or> (\<exists>r. x = Some r \<and> org_id r \<notin> org_id ` set (organizations d)
      \<and> org_tables d' = (organizations d @ [r], memberships d))"
  using assms by (auto split: sum.splits if_splits prod.splits dest!: insert_organization_tables)

lemma step_ensureOwnerMembership:
  assumes "\<And>x w'. org_tables (w_db w') = org_tables (w_db w) \<and> (org_id org, u) \<in> mem_key ` set (memberships (w_db w))
      \<or> joined (org_id org) u OrganizationRoleOwner (w_db w) (w_db w') \<Longrightarrow> Q x w'"
  shows "wp (ensureOwnerMembership E org u) Q any_error w"
  unfolding ensureOwnerMembership_def
  apply (intro steps step_exec)
  apply (drule ensure_owner_tables)
  apply (rule assms)
  apply simp
  done

lemma created_then_owned:
  assumes "org_tables d' = org_tables d \<and> (org_id r, u) \<in> mem_key ` set (memberships d)
      \<or> joined (org_id r) u OrganizationRoleOwner d d'"
    and "org_id r \<notin> org_id ` set (organizations d0) \<and> org_tables d = (organizations d0 @ [r], memberships d0)"
    and "org_ok (org_tables d0)"
  shows "org_move (org_tables d0) (org_tables d')"
proof -
  have "(org_id r, u) \<notin> mem_key ` set (memberships d0)"
    using org_okD(3) [OF assms(3) [unfolded org_tables_def]] assms(2) by force
  with assms(1,2) obtain m where "mem_org m = org_id r" "is_owner m"
    "org_tables d' = (organizations d0 @ [r], memberships d0 @ [m])"
    by (auto simp: joined_def org_tables_def)
  then show ?thesis using assms(2) by (simp add: org_tables_def [of d0] org_move.found)
qed

lemma step_prod [steps]: "(\<And>a b. wp (f a b) Q any_error w) \<Longrightarrow> wp (case p of (a, b) \<Rightarrow> f a b) Q any_error w"
  by (cases p) simp

lemma step_query: "(\<And>w'. w_db w' = w_db w \<Longrightarrow> Q (f (w_db w)) w') \<Longrightarrow> wp (query E f) Q any_error w"
  by (simp add: wps)

text \<open>Looking for the organization, and making it when it is not there.\<close>

lemma step_lookup:
  assumes ok: "org_ok (org_tables (w_db w))" and Q: "\<And>x w'. org_move (org_tables (w_db w)) (org_tables (w_db w')) \<Longrightarrow> Q x w'"
    and v: "org_tables (w_db v) = org_tables (w_db w)"
  shows "wp (bnd (query E (\<lambda>d. find (P d) (organizations d))) (\<lambda>found. case found of
       Some org \<Rightarrow> bnd (ensureOwnerMembership E org u) (\<lambda>(o', m). ret (o', m, False))
     | None \<Rightarrow> bnd (exec E (insert_organization n kind c))
         (\<lambda>org. bnd (ensureOwnerMembership E org u) (\<lambda>(o', m). ret (o', m, True))))) Q any_error v"
  apply (intro step_bnd step_query step_case_option)
   apply (intro steps step_exec step_ensureOwnerMembership)
   apply (rule Q)
   apply (drule insert_organization_tables)
   apply (erule created_then_owned)
    apply (use ok v in \<open>simp_all add: org_tables_def\<close>)[2]
  apply (intro steps step_ensureOwnerMembership)
  apply (rule Q)
  apply (erule disjE)
   apply (simp add: v org_move.stay)
  apply (drule joined_move)
  apply (simp add: v)
  done

lemma step_EnsureOrganization:
  assumes ok: "org_ok (org_tables (w_db w))" and Q: "\<And>x w'. org_move (org_tables (w_db w)) (org_tables (w_db w')) \<Longrightarrow> Q x w'"
  shows "wp (EnsureOrganizationForUserWithCreated E u name kind) Q any_error w"
proof (cases "normalizeOrganizationName name")
  case (Inl e)
  then show ?thesis by (simp add: EnsureOrganizationForUserWithCreated_def wps)
next
  case (Inr n)
  show ?thesis
    unfolding EnsureOrganizationForUserWithCreated_def Inr sum.case Let_def
    apply (rule step_if)
     apply (rule step_bnd, rule step_exec, rule step_case_option)
      apply (rule step_lookup [OF ok Q])
       apply assumption
      apply (drule insert_or_conflict, simp)
     apply (drule insert_or_conflict)
     apply (intro step_bnd step_ensureOwnerMembership step_prod step_ret)
     apply (rule Q)
     apply (erule created_then_owned)
      apply simp
     apply (rule ok)
    apply (rule step_lookup [OF ok Q])
     apply assumption
    apply (rule refl)
    done
qed

lemma moves_EnsureInitialOrganization [moves_intro]: "moves (EnsureInitialOrganization E S user source)"
proof (cases "SignupOrganizationPlanFor (os_mode S) source")
  case (Inl e)
  then show ?thesis by (simp add: EnsureInitialOrganization_def moves_intro)
next
  case (Inr plan)
  show ?thesis
    unfolding EnsureInitialOrganization_def Inr sum.case
    by (intro moves_intro moves_tx step_EnsureOrganization)
qed

lemma step_nested: "w_tx w \<noteq> NoTx \<Longrightarrow> wp m Q any_error w \<Longrightarrow> wp (with_tx E m) Q any_error w"
  by (simp add: wp_def with_tx_nested)

lemma step_EnsureInitialOrganization:
  assumes "w_tx w \<noteq> NoTx" and "org_ok (org_tables (w_db w))"
    and "\<And>x w'. org_move (org_tables (w_db w)) (org_tables (w_db w')) \<Longrightarrow> Q x w'"
  shows "wp (EnsureInitialOrganization E S user source) Q any_error w"
proof (cases "SignupOrganizationPlanFor (os_mode S) source")
  case (Inl e)
  then show ?thesis by (simp add: EnsureInitialOrganization_def wps)
next
  case (Inr plan)
  show ?thesis
    unfolding EnsureInitialOrganization_def Inr sum.case
    by (intro steps step_nested step_EnsureOrganization assms org_move.stay)
qed

lemma moves_EnsureDefaultOrganization:
  assumes "quiet S"
  shows "moves (EnsureDefaultOrganization E S user)"
  unfolding EnsureDefaultOrganization_def
  apply (rule moves_tx)
  apply (intro step_bnd step_EnsureInitialOrganization step_case_option step_prod step_if step_now_utc step_ret
      publish_steps assms)
      apply simp_all
  done

lemma step_try_bnd:
  "wp m (\<lambda>x. wp (f x) Q any_error) (\<lambda>e. wp (h e) Q any_error) w \<Longrightarrow> wp (try_bnd m h f) Q any_error w"
  by (simp add: wps)

lemma step_invited_membership:
  assumes "\<And>x w'. org_tables (w_db w') = org_tables (w_db w) \<or> joined (inv_org v) u (inv_role v) (w_db w) (w_db w') \<Longrightarrow> Q x w'"
  shows "wp (invited_membership E S u v) Q any_error w"
proof -
  have make: "wp (CreateOrganizationMembership E \<lparr>mem_org = inv_org v, mem_user = u, mem_role = inv_role v,
        mem_created_at = zero_time, mem_updated_at = zero_time\<rparr>) P R w'"
    if "w_db w' = w_db w" and "\<And>x w''. joined (inv_org v) u (inv_role v) (w_db w) (w_db w'') \<Longrightarrow> P x w''"
      and "\<And>e w''. w_db w'' = w_db w \<Longrightarrow> R e w''" for w' P R
    unfolding CreateOrganizationMembership_def
    using that by (auto simp: wp_exec joined_def dest!: insert_membership_tables)
  have stay: "Q x w'" if "w_db w' = w_db w" for x w'
    using that by (intro assms) simp
  show ?thesis
    unfolding invited_membership_def GetOrganizationMembership_def ListOrganizationMembershipsByUserID_def
    by (cases "os_mode S = OrgModeSingle")
      (auto simp: wp_try_bnd wp_query_row wp_bnd wp_ret wp_fail wp_query wp_if intro!: make stay assms split: if_splits)
qed

lemma moves_acceptInvitation:
  assumes "quiet S" and "leaves org_tables load_invitation"
  shows "moves (acceptInvitation E S u i now load_invitation)"
  unfolding acceptInvitation_def Let_def
  apply (rule moves_tx)
  apply (intro steps quiet_steps step_invited_membership publish_steps assms step_case_option
      assms(2) [THEN step_quiet])
  apply (simp_all add: org_tables_def)
  apply (auto simp: org_move.stay org_tables_def dest: joined_move)
  done

section \<open>Before a user is deleted\<close>

text \<open>What was locked for an organization is what the tables say.\<close>

definition item_ok :: "uuid \<Rightarrow> db \<Rightarrow> locked_organization \<Rightarrow> bool" where
  "item_ok u d item \<longleftrightarrow> (let i = org_id (lo_organization item) in
     lo_organization item \<in> set (organizations d)
     \<and> lo_memberships item = sort_key (\<lambda>m. (mem_created_at m, mem_user m)) (filter (\<lambda>m. mem_org m = i) (memberships d))
     \<and> lo_membership item \<in> set (memberships d) \<and> mem_key (lo_membership item) = (i, u))"

abbreviation item_id :: "locked_organization \<Rightarrow> uuid" where
  "item_id item \<equiv> org_id (lo_organization item)"

lemma item_ok_cong: "org_tables d' = org_tables d \<Longrightarrow> item_ok u d' item = item_ok u d item"
  by (simp add: item_ok_def org_tables_def)

lemma step_lock_organizations:
  assumes "org_ok (org_tables (w_db w))" and "set ms \<subseteq> set (memberships (w_db w))"
    and "\<And>m. m \<in> set ms \<Longrightarrow> mem_user m = u"
    and "\<And>locked w'. w_db w' = w_db w \<Longrightarrow> map item_id locked = map mem_org ms
      \<Longrightarrow> (\<And>item. item \<in> set locked \<Longrightarrow> item_ok u (w_db w) item) \<Longrightarrow> Q locked w'"
  shows "wp (lock_organizations E u ms) Q any_error w"
  using assms
proof (induction ms arbitrary: w Q)
  case Nil
  then show ?case by (simp add: wps)
next
  case (Cons m ms)
  have m: "m \<in> set (memberships (w_db w))" "mem_user m = u" using Cons.prems(2,3) by auto
  have "mem_org m \<in> org_id ` set (organizations (w_db w))"
    using org_okD(3) [OF Cons.prems(1) [unfolded org_tables_def] m(1)] .
  then obtain org where org: "find (\<lambda>r. org_id r = mem_org m) (organizations (w_db w)) = Some org"
    by (cases "find (\<lambda>r. org_id r = mem_org m) (organizations (w_db w))") (auto simp: find_None_iff_all)
  note orgD = find_Some_in [OF org]
  let ?ms = "sort_key (\<lambda>m. (mem_created_at m, mem_user m)) (filter (\<lambda>n. mem_org n = org_id org) (memberships (w_db w)))"
  have "m \<in> set ?ms" using m orgD by simp
  then obtain own where own: "find (\<lambda>c. mem_user c = u) ?ms = Some own"
    using m(2) by (cases "find (\<lambda>c. mem_user c = u) ?ms") (auto simp: find_None_iff_all)
  note ownD = find_Some_in [OF own]
  let ?item = "\<lparr>lo_organization = org, lo_membership = own, lo_memberships = ?ms\<rparr>"
  have item: "item_ok u (w_db w) ?item" using orgD ownD by (simp add: item_ok_def)
  have rest: "wp (lock_organizations E u ms) (\<lambda>rest. wp (ret (?item # rest)) Q any_error) any_error w1"
    if w1: "w_db w1 = w_db w" for w1 :: world
  proof (rule Cons.IH)
    fix locked and w' :: world
    assume "w_db w' = w_db w1" "map item_id locked = map mem_org ms" "\<And>item. item \<in> set locked \<Longrightarrow> item_ok u (w_db w1) item"
    then show "wp (ret (?item # locked)) Q any_error w'"
      unfolding wp_ret using w1 item orgD by (intro Cons.prems(4)) auto
  qed (use Cons.prems w1 in auto)
  show ?case
    unfolding lock_organizations.simps
    by (auto simp: wp_try_bnd wp_bnd GetOrganizationByIDForUpdate_def wp_query_row org wp_fail
        ListOrganizationMembershipsByOrganizationID_def wp_query own split: option.split intro: rest)
qed

text \<open>The tables after an organization has gone, or the user has left it.\<close>

definition item_done :: "uuid \<Rightarrow> locked_organization \<Rightarrow> db \<Rightarrow> db \<Rightarrow> bool" where
  "item_done u item d d' \<longleftrightarrow>
     org_tables d' = (del_where (\<lambda>r. org_id r = item_id item) (organizations d),
        del_where (\<lambda>m. mem_org m = item_id item) (memberships d))
     \<or> org_tables d' = (organizations d, del_where (\<lambda>m. mem_org m = item_id item \<and> mem_user m = u) (memberships d))"

lemma filter_del_other: "(\<And>m. q m \<Longrightarrow> \<not> p m) \<Longrightarrow> filter q (del_where p ms) = filter q ms"
  by (induction ms) (auto simp: del_where_def)

lemma item_done_other:
  assumes "item_done u item d d'" and "item_ok u d other" and "item_id other \<noteq> item_id item"
  shows "item_ok u d' other"
proof -
  let ?of = "\<lambda>ms. filter (\<lambda>m. mem_org m = item_id other) ms"
  have "?of (memberships d') = ?of (memberships d)"
    using assms(1,3) by (auto simp: item_done_def org_tables_def intro!: filter_del_other)
  moreover have "lo_organization other \<in> set (organizations d')" "lo_membership other \<in> set (memberships d')"
    using assms by (auto simp: item_done_def item_ok_def org_tables_def Let_def)
  ultimately show ?thesis
    using assms(2) by (simp add: item_ok_def Let_def)
qed

lemma item_done_memberships:
  assumes "item_done u item d d'" and "m \<in> set (memberships d')"
  shows "m \<in> set (memberships d) \<and> \<not> (mem_user m = u \<and> mem_org m = item_id item)"
  using assms by (auto simp: item_done_def org_tables_def)

lemma not_refused:
  assumes "deletion_refused S u item = None" and "\<not> goes_with_user u item" and "lo_memberships item \<noteq> []"
  shows "\<not> (is_owner (lo_membership item) \<and> countOrganizationOwners (lo_memberships item) = 1)"
proof -
  have "length (lo_memberships item) \<noteq> 1 \<Longrightarrow> 1 < length (lo_memberships item)"
    using assms(3) by (cases "lo_memberships item") auto
  then show ?thesis
    using assms(1,2) by (auto simp: deletion_refused_def goes_with_user_def Let_def split: if_splits)
qed

lemma item_leave_move:
  assumes "org_ok (org_tables d)" and "item_ok u d item" and "deletion_refused S u item = None" and "\<not> goes_with_user u item"
  shows "org_move (org_tables d) (organizations d, del_where (\<lambda>m. mem_org m = item_id item \<and> mem_user m = u) (memberships d))"
proof -
  let ?m = "lo_membership item"
  have m: "?m \<in> set (memberships d)" "mem_org ?m = item_id item" "mem_user ?m = u"
    and ms: "lo_memberships item = sort_key (\<lambda>m. (mem_created_at m, mem_user m))
      (filter (\<lambda>m. mem_org m = item_id item) (memberships d))"
    using assms(2) by (auto simp: item_ok_def Let_def)
  have "find_membership (item_id item) u d = Some ?m"
  proof (cases "find_membership (item_id item) u d")
    case None
    then show ?thesis using m by (auto simp: find_membership_def find_None_iff_all)
  next
    case (Some n)
    then show ?thesis using find_membership_key [OF assms(1) Some m(1)] m(2,3) by simp
  qed
  moreover have "?m \<in> set (lo_memberships item)" using m by (simp add: ms)
  then have "\<not> (is_owner ?m \<and> countOrganizationOwners (lo_memberships item) = 1)"
    by (intro not_refused [OF assms(3,4)]) auto
  ultimately show ?thesis
    using leave_move [of d "item_id item" u ?m] assms(1) m by (simp add: ms org_tables_def)
qed

abbreviation leave_item :: "env \<Rightarrow> organization_service \<Rightarrow> uuid \<Rightarrow> time \<Rightarrow> locked_organization \<Rightarrow> unit M" where
  "leave_item E S u now item \<equiv>
     (if goes_with_user u item then deleteOrganization E S (lo_organization item) (lo_memberships item) now False
      else removeOrganizationMembership E S (lo_organization item) (lo_membership item) now False)"

lemma step_leave_item:
  assumes "quiet S" and "org_ok (org_tables (w_db w))" and "item_ok u (w_db w) item" and "deletion_refused S u item = None"
    and "\<And>x w'. item_done u item (w_db w) (w_db w') \<Longrightarrow> org_move (org_tables (w_db w)) (org_tables (w_db w')) \<Longrightarrow> Q x w'"
  shows "wp (leave_item E S u now item) Q any_error w"
proof (cases "goes_with_user u item")
  case True
  then show ?thesis
    by (simp add: step_deleteOrganization [OF assms(1) assms(5)] item_done_def org_tables_def [of "w_db w"] org_move.dissolve)
next
  case False
  have m: "mem_org (lo_membership item) = item_id item" "mem_user (lo_membership item) = u"
    using assms(3) by (auto simp: item_ok_def Let_def)
  have go: "Q x w'" if "org_tables (w_db w') = (organizations (w_db w),
      del_where (\<lambda>m. mem_org m = item_id item \<and> mem_user m = u) (memberships (w_db w)))" for x w'
    using that item_leave_move [OF assms(2-4) False] by (intro assms(5)) (simp_all add: item_done_def)
  show ?thesis
    unfolding removeOrganizationMembership_def if_not_P [OF False] if_False m
    by (intro steps quiet_steps publish_steps assms(1) step_case_option) (rule go, simp add: org_tables_def)+
qed

lemma step_leave_items:
  assumes "quiet S" and "org_ok (org_tables (w_db w))" and "distinct (map item_id items)"
    and "\<And>item. item \<in> set items \<Longrightarrow> item_ok u (w_db w) item \<and> deletion_refused S u item = None"
    and "\<And>x w'. org_move\<^sup>*\<^sup>* (org_tables (w_db w)) (org_tables (w_db w'))
      \<Longrightarrow> (\<And>m. m \<in> set (memberships (w_db w')) \<Longrightarrow> m \<in> set (memberships (w_db w))
            \<and> \<not> (mem_user m = u \<and> mem_org m \<in> item_id ` set items)) \<Longrightarrow> Q x w'"
  shows "wp (for_each (leave_item E S u now) items) Q any_error w"
  using assms(2-)
proof (induction items arbitrary: w)
  case Nil
  then show ?case by (simp add: wp_ret)
next
  case (Cons item items)
  have first: "item_ok u (w_db w) item" "deletion_refused S u item = None" using Cons.prems(3) by auto
  show ?case
    unfolding for_each.simps
  proof (rule step_bnd, rule step_leave_item [OF assms(1) Cons.prems(1) first])
    fix x and w1 :: world
    assume gone: "item_done u item (w_db w) (w_db w1)" and move: "org_move (org_tables (w_db w)) (org_tables (w_db w1))"
    show "wp (for_each (leave_item E S u now) items) Q any_error w1"
    proof (rule Cons.IH)
      show "org_ok (org_tables (w_db w1))" by (rule move_keeps_ok [OF move Cons.prems(1)])
      show "distinct (map item_id items)" using Cons.prems(2) by simp
      show "item_ok u (w_db w1) other \<and> deletion_refused S u other = None" if "other \<in> set items" for other
      proof -
        have "item_id item \<notin> item_id ` set items" using Cons.prems(2) by simp
        moreover have "item_id other \<in> item_id ` set items" using that by (rule imageI)
        ultimately have "item_id other \<noteq> item_id item" by (rule_tac notI) simp
        then show ?thesis using item_done_other [OF gone, of other] Cons.prems(3) [of other] that by simp
      qed
      show "Q y w'" if rest: "org_move\<^sup>*\<^sup>* (org_tables (w_db w1)) (org_tables (w_db w'))"
        "\<And>m. m \<in> set (memberships (w_db w')) \<Longrightarrow> m \<in> set (memberships (w_db w1))
            \<and> \<not> (mem_user m = u \<and> mem_org m \<in> item_id ` set items)" for y w'
        using converse_rtranclp_into_rtranclp [OF move rest(1)] rest(2) item_done_memberships [OF gone]
        by (intro Cons.prems(4)) auto
    qed
  qed
qed

text \<open>
  A user prepared for deletion has left every organization, and the tables only changed by
  moves of the machine.
\<close>

lemma step_check_items:
  assumes "\<forall>item\<in>set items. deletion_refused S u item = None \<Longrightarrow> Q () w"
  shows "wp (for_each (\<lambda>item. case deletion_refused S u item of
     None \<Rightarrow> ret () | Some e \<Rightarrow> fail (EOrganization e)) items) Q any_error w"
  using assms
proof (induction items)
  case Nil
  then show ?case by (simp add: wp_ret)
next
  case (Cons item items)
  show ?case
    unfolding for_each.simps
    by (intro step_bnd step_case_option)
      (auto intro!: steps Cons.IH Cons.prems)
qed

lemma step_PrepareUserDeletion:
  assumes "quiet S" and "org_ok (org_tables (w_db w))"
    and "\<And>w'. org_move\<^sup>*\<^sup>* (org_tables (w_db w)) (org_tables (w_db w'))
      \<Longrightarrow> (\<And>m. m \<in> set (memberships (w_db w')) \<Longrightarrow> mem_user m \<noteq> u) \<Longrightarrow> Q () w'"
  shows "wp (PrepareUserDeletion E S u) Q any_error w"
  unfolding PrepareUserDeletion_def ListOrganizationMembershipsByUserID_def
proof (intro step_bnd step_query)
  fix w1 :: world
  assume w1: "w_db w1 = w_db w"
  define ms where "ms = sort_key mem_org (sort_key (\<lambda>m. (mem_created_at m, mem_org m))
    (filter (\<lambda>m. mem_user m = u) (memberships (w_db w))))"
  have ms: "set ms = {m \<in> set (memberships (w_db w)). mem_user m = u}" by (auto simp: ms_def)
  have keys: "distinct (map mem_key (memberships (w_db w)))"
    using org_okD(2) assms(2) by (simp add: org_tables_def)
  then have "distinct ms" by (simp add: ms_def distinct_map)
  moreover have "inj_on mem_org (set ms)" using keys by (auto simp: ms distinct_map inj_on_def)
  ultimately have orgs: "distinct (map mem_org ms)" by (simp add: distinct_map)
  show "wp (lock_organizations E u (sort_key mem_org (sort_key (\<lambda>m. (mem_created_at m, mem_org m))
      (filter (\<lambda>m. mem_user m = u) (memberships (w_db w)))))) (\<lambda>locked.
      wp (bnd (for_each (\<lambda>item. case deletion_refused S u item of None \<Rightarrow> ret () | Some e \<Rightarrow> fail (EOrganization e)) locked)
        (\<lambda>_. bnd (now_utc E) (\<lambda>now. for_each (leave_item E S u now) locked))) Q any_error) any_error w1"
    unfolding ms_def [symmetric]
  proof (rule step_lock_organizations)
    fix locked and w2 :: world
    assume w2: "w_db w2 = w_db w1" and ids: "map item_id locked = map mem_org ms"
      and ok: "\<And>item. item \<in> set locked \<Longrightarrow> item_ok u (w_db w1) item"
    show "wp (bnd (for_each (\<lambda>item. case deletion_refused S u item of None \<Rightarrow> ret () | Some e \<Rightarrow> fail (EOrganization e)) locked)
        (\<lambda>_. bnd (now_utc E) (\<lambda>now. for_each (leave_item E S u now) locked))) Q any_error w2"
    proof (intro step_bnd step_check_items step_now_utc)
      fix t and w4 :: world
      assume allowed: "\<forall>item\<in>set locked. deletion_refused S u item = None"
        and w4: "w_db w4 = w_db w2"
      have db: "w_db w4 = w_db w" using w1 w2 w4 by simp
      have left: "item_id ` set locked = mem_org ` set ms" using arg_cong [OF ids, of set] by simp
      show "wp (for_each (leave_item E S u t) locked) Q any_error w4"
      proof (rule step_leave_items [OF assms(1)])
        fix x and w' :: world
        assume move: "org_move\<^sup>*\<^sup>* (org_tables (w_db w4)) (org_tables (w_db w'))"
          and gone: "\<And>m. m \<in> set (memberships (w_db w')) \<Longrightarrow> m \<in> set (memberships (w_db w4))
            \<and> \<not> (mem_user m = u \<and> mem_org m \<in> item_id ` set locked)"
        have "mem_user m \<noteq> u" if "m \<in> set (memberships (w_db w'))" for m
          using gone [OF that] by (auto simp: db left ms)
        then show "Q x w'" using assms(3) [of w'] move by (simp add: db)
      qed (use assms(2) db w1 ids orgs ok allowed in simp_all)
    qed
  qed (use assms(2) w1 ms in auto)
qed

section \<open>Accepting, and the webhook publisher\<close>

lemma moves_AcceptInvitation: "quiet S \<Longrightarrow> moves (AcceptInvitation E S raw u now)"
  unfolding AcceptInvitation_def
  by (intro moves_intro moves_acceptInvitation leaves_invitation_reads)

lemma moves_AcceptInvitationByID: "quiet S \<Longrightarrow> moves (AcceptInvitationByID E S i u now)"
  unfolding AcceptInvitationByID_def
  by (intro moves_intro moves_acceptInvitation leaves_invitation_reads)

lemma events_only_quiet: "events_only (os_publish S) \<Longrightarrow> quiet S"
  by (auto simp: quiet_def org_tables_def intro: events_only_leaves)

lemmas service_moves = moves_RemoveOrganizationMember moves_DeleteOrganization moves_UpdateOrganizationMember
  moves_TransferOrganizationOwnership moves_service_CreateOrganization moves_UpdateOrganization
  moves_EnsureDefaultOrganization moves_CreateInvitation moves_ResendInvitation moves_RevokeInvitation
  moves_AcceptInvitation moves_AcceptInvitationByID

end
