(* ===== verification/Account_Proofs.thy ===== *)
theory Account_Proofs
  imports Admin_Service Passkey_Service Operations OAuth_Challenges Organization_Moves
begin

text \<open>
  The part of the database that says who is an account and how it signs in (\<open>accounts\<close>),
  the statements and services that leave it alone, and the effect of those that do not.
\<close>

section \<open>The tables of the accounts\<close>

definition user_states :: "db \<Rightarrow> (uuid \<times> time option) list" where
  "user_states d = map (\<lambda>r. (usr_id r, usr_disabled_at r)) (users d)"

definition accounts :: "db \<Rightarrow> (uuid \<times> time option) list \<times> (uuid \<times> string) list \<times> auth_provider list
    \<times> passkey list \<times> apple_credential list \<times> apple_revocation list" where
  "accounts d = (user_states d, user_roles d, auth_providers d, passkeys d, apple_credentials d,
     apple_revocations d)"

lemma accounts_eqD:
  assumes "accounts d' = accounts d"
  shows "user_states d' = user_states d" "user_roles d' = user_roles d" "auth_providers d' = auth_providers d"
    "passkeys d' = passkeys d" "apple_credentials d' = apple_credentials d"
    "apple_revocations d' = apple_revocations d"
  using assms by (simp_all add: accounts_def)

text \<open>Every other table.\<close>

lemma accounts_upd [simp]:
  "accounts (d\<lparr>allowed_emails := x1\<rparr>) = accounts d"
  "accounts (d\<lparr>organizations := x2\<rparr>) = accounts d"
  "accounts (d\<lparr>memberships := x3\<rparr>) = accounts d"
  "accounts (d\<lparr>webauthn_challenges := x4\<rparr>) = accounts d"
  "accounts (d\<lparr>sessions := x5\<rparr>) = accounts d"
  "accounts (d\<lparr>refresh_tokens := x6\<rparr>) = accounts d"
  "accounts (d\<lparr>auth_challenges := x7\<rparr>) = accounts d"
  "accounts (d\<lparr>challenges := x8\<rparr>) = accounts d"
  "accounts (d\<lparr>verification_codes := x9\<rparr>) = accounts d"
  "accounts (d\<lparr>pending_signups := x10\<rparr>) = accounts d"
  "accounts (d\<lparr>pending_resets := x11\<rparr>) = accounts d"
  "accounts (d\<lparr>pending_email_changes := x12\<rparr>) = accounts d"
  "accounts (d\<lparr>email_verifications := x13\<rparr>) = accounts d"
  "accounts (d\<lparr>email_jobs := x14\<rparr>) = accounts d"
  "accounts (d\<lparr>template_settings := x15\<rparr>) = accounts d"
  "accounts (d\<lparr>security_events := x16\<rparr>) = accounts d"
  "accounts (d\<lparr>webhook_events := x17\<rparr>) = accounts d"
  "accounts (d\<lparr>invitations := x18\<rparr>) = accounts d"
  "accounts (d\<lparr>maintenance_leases := x19\<rparr>) = accounts d"
  "accounts (d\<lparr>provider_links := x20\<rparr>) = accounts d"
  "accounts (d\<lparr>oauth_challenges := x21\<rparr>) = accounts d"
  "accounts (d\<lparr>admin_audit_events := x22\<rparr>) = accounts d"
  by (simp_all add: accounts_def user_states_def)

lemma accounts_cascades [simp]:
  "accounts (cascade_invitations p d) = accounts d" "accounts (cascade_challenges gone d) = accounts d"
  "accounts (cascade_sessions q d) = accounts d" "accounts (revoke_sessions q now t d) = accounts d"
  "accounts (cascade_organization i d) = accounts d"
  by (simp_all add: cascade_invitations_def cascade_challenges_def cascade_sessions_def revoke_sessions_def
      cascade_organization_def Let_def accounts_def user_states_def)

lemma leaves_values [leaves_intro]:
  "leaves f (new_uuid E)" "leaves f (of_option e s)" "leaves f (call_lib r)"
  unfolding call_lib_def by (simp_all add: leaves_def keeps_intro) (simp add: keeps_def)

lemma leaves_attempt [leaves_intro]: "leaves f m \<Longrightarrow> leaves f (attempt m)"
  by (simp add: leaves_def keeps_intro)

lemma leaves_raise_result [leaves_intro]: "leaves f m \<Longrightarrow> leaves f (raise_result m)"
  by (simp add: leaves_def keeps_intro)

lemma leaves_ensure_one_row [leaves_intro]: "leaves f m \<Longrightarrow> leaves f (ensure_one_row e m)"
  unfolding ensure_one_row_def by (intro leaves_intro)

lemma leaves_ignoring [leaves_intro]: "leaves f m \<Longrightarrow> leaves f (ignoring e m)"
  unfolding ignoring_def by (intro leaves_intro)

lemma leaves_case_sum [leaves_intro]:
  "(\<And>e. leaves f (h e)) \<Longrightarrow> (\<And>x. leaves f (g x)) \<Longrightarrow> leaves f (case r of Inl e \<Rightarrow> h e | Inr x \<Rightarrow> g x)"
  by (cases r) simp_all

lemma leaves_Let [leaves_intro]: "leaves f (g v) \<Longrightarrow> leaves f (let x = v in g x)"
  by simp

section \<open>Statements on other tables\<close>

lemma accounts_sessions [leaves_intro]:
  "leaves accounts (RevokeAllSessionsForUser E u now)" "leaves accounts (RevokeAllActiveSessionsForUser E u now)"
  "leaves accounts (RevokeSessionByIDAndUserID E s u now)" "leaves accounts (RevokeOtherSessionsByUserID E u s now)"
  "leaves accounts (DeleteRefreshTokensByUserID E u)" "leaves accounts (DeleteRefreshTokensBySession E s)"
  "leaves accounts (DeleteRefreshTokensForOtherSessions E u s)"
  "leaves accounts (DeleteSessionsByOrganizationMembership E i u)" "leaves accounts (DeleteSessionsByOrganization E i)"
  "leaves accounts (UpdateSessionAuthentication E u s am now)"
  unfolding RevokeAllSessionsForUser_def RevokeAllActiveSessionsForUser_def RevokeSessionByIDAndUserID_def
    RevokeOtherSessionsByUserID_def DeleteRefreshTokensByUserID_def DeleteRefreshTokensBySession_def
    DeleteRefreshTokensForOtherSessions_def DeleteSessionsByOrganizationMembership_def
    DeleteSessionsByOrganization_def UpdateSessionAuthentication_def Let_def
  by (intro leaves_intro leaves_exec leaves_exec_upd leaves_exec_count; auto split: if_splits option.splits)+

lemma accounts_organizations [leaves_intro]:
  "leaves accounts (exec E (insert_organization nm kd cb))" "leaves accounts (CreateOrganizationMembership E m)"
  "leaves accounts (DeleteOrganizationMembership E i u)" "leaves accounts (store_DeleteOrganization E i)"
  "leaves accounts (MarkOrganizationInvitationAccepted E i u now)"
  unfolding CreateOrganizationMembership_def insert_membership_def insert_organization_def Let_def
    DeleteOrganizationMembership_def store_DeleteOrganization_def
    MarkOrganizationInvitationAccepted_def
  by (intro leaves_intro leaves_exec leaves_exec_upd leaves_exec_count; auto split: if_splits option.splits)+

lemma accounts_pending [leaves_intro]:
  "leaves accounts (DeletePendingPasswordResetsByUserID E u)" "leaves accounts (CreatePendingProviderLink E l)"
  "leaves accounts (ConsumePendingProviderLink E i now)"
  "leaves accounts (UpdatePendingProviderLinkOAuthIdentity E i a b v)"
  "leaves accounts (CreateWebAuthnChallenge E c)" "leaves accounts (ConsumeWebAuthnChallenge E i now)"
  unfolding DeletePendingPasswordResetsByUserID_def CreatePendingProviderLink_def ConsumePendingProviderLink_def
    UpdatePendingProviderLinkOAuthIdentity_def CreateWebAuthnChallenge_def ConsumeWebAuthnChallenge_def Let_def
  by (intro leaves_intro leaves_exec leaves_exec_upd leaves_exec_count; auto split: if_splits option.splits)+

lemma accounts_allowlist [leaves_intro]:
  "leaves accounts (EnsureAllowedEmail E a)" "leaves accounts (CreateAllowedEmail E a)"
  "leaves accounts (DeleteAllowedEmail E a)" "leaves accounts (DeleteAllowedEmailByID E i)"
  unfolding EnsureAllowedEmail_def CreateAllowedEmail_def DeleteAllowedEmail_def DeleteAllowedEmailByID_def
    add_allowed_email_def Let_def
  by (intro leaves_intro leaves_exec leaves_exec_upd leaves_exec_count; auto split: if_splits option.splits)+

lemma accounts_services [leaves_intro]:
  "leaves accounts (Enqueue E to tpl dat now)" "leaves accounts (recordCredential E rc ty ce)"
  "leaves accounts (recordAuthentication E rc ty ae)" "leaves accounts (PasskeyCloneWarning E rc pc)"
  "leaves f (RevokeUserTokens E R u now)" "leaves f (RevokeSessionTokens E R s now)"
  by (auto simp: leaves_def
      intro!: keeps_Enqueue keeps_recorders keeps_intro)

lemma accounts_audit [leaves_intro]: "leaves accounts (CreateAdminAuditEvent E jb a)"
  unfolding CreateAdminAuditEvent_def Let_def
  by (intro leaves_intro leaves_exec) (auto split: if_splits option.splits)

text \<open>The columns of a user other than the id and \<open>disabled_at\<close>.\<close>

lemma accounts_user_columns [leaves_intro]:
  "leaves accounts (MarkUserEmailVerified E u a now)" "leaves accounts (UpdateUsername E u n)"
  unfolding MarkUserEmailVerified_def UpdateUsername_def accounts_def user_states_def Let_def
  by (intro leaves_intro leaves_exec leaves_exec_count;
      auto simp: map_upd_where_same split: if_splits)+

section \<open>Services that leave the accounts alone\<close>

definition account_quiet :: "(envelope \<Rightarrow> unit M) \<Rightarrow> bool" where
  "account_quiet pub \<longleftrightarrow> (\<forall>evt. leaves accounts (pub evt))"

lemma account_quietD: "account_quiet pub \<Longrightarrow> leaves accounts (pub evt)"
  by (simp add: account_quiet_def)

lemma events_only_account_quiet: "events_only pub \<Longrightarrow> account_quiet pub"
  by (simp add: account_quiet_def events_only_leaves)

lemma accounts_reads [leaves_intro]:
  "leaves f (LockUserForUpdate E u)" "leaves f (UserHasPlatformRole E u rl)" "leaves f (CountActiveUsersWithRole E rl)"
  "leaves f (LockPlatformRoleByName E rl)" "leaves f (getPlatformRoleIDByName E rl)"
  "leaves f (CountAuthMethods E u)" "leaves f (LockUserForAuthMethodMutation E u)"
  "leaves f (GetPasskeyByID E i)" "leaves f (UserExistsByEmail E a)" "leaves f (GetUserByEmailOrUsername E a)"
  "leaves f (GetAuthProviderByMethodAndUserID E p u)" "leaves f (GetAuthProviderByMethodAndUserIDForUpdate E p u)"
  "leaves f (GetAuthProviderByProviderAndProviderUserID E p s)" "leaves f (store_IsEmailAllowed E a)"
  by (simp_all add: leaves_def keeps_intro UserHasPlatformRole_def CountActiveUsersWithRole_def
      LockPlatformRoleByName_def getPlatformRoleIDByName_def CountAuthMethods_def
      LockUserForAuthMethodMutation_def GetAuthProviderByMethodAndUserID_def
      GetAuthProviderByMethodAndUserIDForUpdate_def GetAuthProviderByProviderAndProviderUserID_def)

lemma account_events [leaves_intro]:
  "leaves f (NewUserCreated E u now)" "leaves f (NewUserUpdated E u now)" "leaves f (NewUserDeleted E u now)"
  "leaves f (NewRegistrationCompleted E user org m now)"
  by (simp_all add: NewUserCreated_def NewUserUpdated_def NewUserDeleted_def NewRegistrationCompleted_def
      Let_def leaves_basic)

lemma accounts_audited [leaves_intro]: "leaves accounts (audit E S actor action u a md rq)"
  unfolding audit_def by (intro leaves_intro)

lemma accounts_lock_organizations [leaves_intro]: "leaves f (lock_organizations E u ms)"
  by (induction ms) (auto intro!: leaves_intro split: option.split)

lemma accounts_org_publish [leaves_intro]:
  "account_quiet (os_publish S) \<Longrightarrow> leaves accounts mk \<Longrightarrow> leaves accounts (publish_event S mk)"
  unfolding publish_event_def account_quiet_def by (intro leaves_intro) auto

lemma accounts_PrepareUserDeletion [leaves_intro]:
  "account_quiet (os_publish S) \<Longrightarrow> leaves accounts (PrepareUserDeletion E S u)"
  unfolding PrepareUserDeletion_def removeOrganizationMembership_def deleteOrganization_def
  by (intro leaves_intro)

lemma accounts_erase [leaves_intro]: "leaves accounts (DeleteUserEmailReferences E u a)"
  unfolding DeleteUserEmailReferences_def Let_def
  by (intro leaves_intro leaves_exec leaves_exec_upd) (auto split: if_splits)

section \<open>An administrator who stays\<close>

definition active_admins :: "db \<Rightarrow> uuid set" where
  "active_admins d = {u. (u, DBAdminRoleName) \<in> set (user_roles d) \<and> (u, None) \<in> set (user_states d)}"

text \<open>The primary keys of the two tables hold, and \<open>v\<close> is an enabled administrator.\<close>

definition admin_stays :: "uuid \<Rightarrow> db \<Rightarrow> bool" where
  "admin_stays v d \<longleftrightarrow> distinct (user_roles d) \<and> distinct (map fst (user_states d)) \<and> v \<in> active_admins d"

definition has_admin :: "db \<Rightarrow> bool" where
  "has_admin d \<longleftrightarrow> (\<exists>v. admin_stays v d)"

lemma has_admin_keeps: "(\<And>v. keeps (admin_stays v) m) \<Longrightarrow> keeps has_admin m"
  unfolding keeps_def has_admin_def by blast

lemma stays_of_accounts:
  assumes "accounts d' = accounts d"
  shows "admin_stays v d' = admin_stays v d"
  using accounts_eqD(1,2) [OF assms] by (simp add: admin_stays_def active_admins_def)

lemma keeps_stays: "leaves accounts m \<Longrightarrow> keeps (admin_stays v) m"
  by (rule keepsI) (metis leavesD stays_of_accounts)

lemma active_admin_row:
  "(u, None) \<in> set (user_states d) \<longleftrightarrow> list_ex (\<lambda>r. usr_id r = u \<and> usr_disabled_at r = None) (users d)"
proof -
  have "(u, None) \<in> set (map (\<lambda>r. (usr_id r, usr_disabled_at r)) rs)
      \<longleftrightarrow> list_ex (\<lambda>r. usr_id r = u \<and> usr_disabled_at r = None) rs" for rs :: "user list"
    by (induction rs) (simp_all add: eq_commute [of None] eq_commute [of u])
  then show ?thesis by (simp only: user_states_def)
qed

text \<open>With the primary key, the statement counts the enabled administrators.\<close>

lemma counted_admins:
  assumes "distinct (user_roles d)"
  shows "count_where (\<lambda>p. snd p = DBAdminRoleName
      \<and> list_ex (\<lambda>r. usr_id r = fst p \<and> usr_disabled_at r = None) (users d)) (user_roles d) = card (active_admins d)"
proof -
  let ?f = "filter (\<lambda>p. snd p = DBAdminRoleName \<and> (fst p, None) \<in> set (user_states d)) (user_roles d)"
  have inj: "inj_on fst (set ?f)" by (rule inj_onI) (simp add: prod_eq_iff)
  have "distinct ?f" using assms by (rule distinct_filter)
  then have "length ?f = card (set ?f)" by (rule distinct_card [symmetric])
  also have "\<dots> = card (fst ` set ?f)" by (rule card_image [OF inj, symmetric])
  also have "fst ` set ?f = active_admins d"
  proof (intro set_eqI iffI)
    fix u assume "u \<in> fst ` set ?f"
    then obtain p where "p \<in> set (user_roles d)" "snd p = DBAdminRoleName" "(fst p, None) \<in> set (user_states d)"
      "u = fst p" by auto
    then show "u \<in> active_admins d" unfolding active_admins_def by (metis (mono_tags) mem_Collect_eq prod.collapse)
  next
    fix u assume "u \<in> active_admins d"
    then have "(u, DBAdminRoleName) \<in> set ?f" by (simp add: active_admins_def)
    then show "u \<in> fst ` set ?f" by (rule image_eqI [rotated]) simp
  qed
  finally show ?thesis by (simp only: count_where_def active_admin_row)
qed

lemma another_admin:
  assumes "distinct (user_roles d)" and "1 < card (active_admins d)"
  shows "\<exists>v\<in>active_admins d. v \<noteq> u"
proof (rule ccontr)
  assume "\<not> ?thesis"
  then have "active_admins d \<subseteq> {u}" by auto
  then have "card (active_admins d) \<le> card {u}" by (rule card_mono [rotated]) simp
  with assms show False by simp
qed

lemma found_user: "find (\<lambda>r. usr_id r = u) (users d) = Some user \<Longrightarrow> usr_id user = u \<and> user \<in> set (users d)"
  by (auto simp: find_Some_iff)

text \<open>What the guards establish: somebody else is an enabled administrator.\<close>

lemma other_admin:
  assumes "has_admin d" and "find (\<lambda>r. usr_id r = u) (users d) = Some user"
    and "list_ex (\<lambda>p. fst p = u \<and> snd p = DBAdminRoleName) (user_roles d) \<Longrightarrow> usr_disabled_at user = None
      \<Longrightarrow> 1 < count_where (\<lambda>p. snd p = DBAdminRoleName
          \<and> list_ex (\<lambda>r. usr_id r = fst p \<and> usr_disabled_at r = None) (users d)) (user_roles d)"
  shows "\<exists>v. v \<noteq> u \<and> admin_stays v d"
proof -
  from assms(1) obtain v where v: "admin_stays v d" by (auto simp: has_admin_def)
  then have dr: "distinct (user_roles d)" and du: "distinct (map fst (user_states d))"
    by (simp_all add: admin_stays_def)
  have "\<exists>v\<in>active_admins d. v \<noteq> u"
  proof (cases "u \<in> active_admins d")
    case True
    then have r: "(u, DBAdminRoleName) \<in> set (user_roles d)" and s: "(u, None) \<in> set (user_states d)"
      by (simp_all add: active_admins_def)
    have "(usr_id user, usr_disabled_at user) \<in> set (user_states d)"
      using found_user [OF assms(2)] by (auto simp: user_states_def)
    then have "usr_disabled_at user = None"
      using s du found_user [OF assms(2)] by (auto dest: eq_key_imp_eq_value)
    moreover have "list_ex (\<lambda>p. fst p = u \<and> snd p = DBAdminRoleName) (user_roles d)"
      using r by (force simp: list_ex_iff)
    ultimately show ?thesis using assms(3) counted_admins [OF dr] another_admin [OF dr] by simp
  next
    case False
    then show ?thesis using v by (auto simp: admin_stays_def)
  qed
  then show ?thesis using dr du by (auto simp: admin_stays_def)
qed

section \<open>What the statements on users and roles do to an administrator\<close>

lemma stays_upd_where:
  assumes v: "admin_stays v d" and u: "users d' = upd_where q f (users d)" and "user_roles d' = user_roles d"
    and id: "\<And>r. usr_id (f r) = usr_id r"
    and dis: "\<And>r. q r \<Longrightarrow> usr_id r = v \<Longrightarrow> usr_disabled_at (f r) = None"
  shows "admin_stays v d'"
proof -
  have "map fst (user_states d') = map fst (user_states d)"
    by (simp add: user_states_def u upd_where_def id)
  moreover have "(v, None) \<in> set (user_states d')" if "(v, None) \<in> set (user_states d)"
  proof -
    from that obtain r where r: "r \<in> set (users d)" "usr_id r = v" "usr_disabled_at r = None"
      by (auto simp: user_states_def)
    let ?r = "if q r then f r else r"
    have "?r \<in> set (users d')" using r(1) by (simp add: u upd_where_def)
    moreover have "usr_id ?r = v" "usr_disabled_at ?r = None" using r dis id by auto
    ultimately show ?thesis by (auto simp: user_states_def intro!: image_eqI [where x = ?r])
  qed
  ultimately show ?thesis using v assms(3) by (simp add: admin_stays_def active_admins_def)
qed

lemma stays_DisableUser: "v \<noteq> u \<Longrightarrow> keeps (admin_stays v) (DisableUser E u now)"
  unfolding DisableUser_def Let_def
  by (intro keeps_intro keeps_exec_count)
    (auto elim!: stays_upd_where [where q = "\<lambda>r. usr_id r = u"
        and f = "\<lambda>r. r\<lparr>usr_disabled_at := Some now, usr_updated_at := _\<rparr>"])

lemma stays_EnableUser: "keeps (admin_stays v) (EnableUser E u)"
  unfolding EnableUser_def Let_def
  by (intro keeps_intro keeps_exec_count)
    (auto elim!: stays_upd_where [where q = "\<lambda>r. usr_id r = u"
        and f = "\<lambda>r. r\<lparr>usr_disabled_at := None, usr_updated_at := _\<rparr>"])

lemma keeps_bnd_value:
  assumes "keeps J m" and "\<And>x w w'. m w = (Inr x, w') \<Longrightarrow> keeps J (f x)"
  shows "keeps J (bnd m f)"
proof (rule keepsI)
  fix w r w'
  assume J: "J (w_db w)" and eq: "bnd m f w = (r, w')"
  show "J (w_db w')"
  proof (cases "m w")
    case (Pair r1 w1)
    then have J1: "J (w_db w1)" by (rule keepsD [OF assms(1) J])
    show ?thesis
    proof (cases r1)
      case (Inl e)
      then show ?thesis using eq Pair J1 by (simp add: bnd_def)
    next
      case (Inr x)
      then have "f x w1 = (r, w')" using eq Pair by (simp add: bnd_def)
      then show ?thesis by (rule keepsD [OF assms(2) [OF Pair [unfolded Inr]] J1])
    qed
  qed
qed

lemma stays_RemoveRole:
  assumes "v \<noteq> u \<or> rl \<noteq> DBAdminRoleName"
  shows "keeps (admin_stays v) (RemoveUserPlatformRoleByName E u rl)"
proof -
  have "keeps (admin_stays v) (exec_upd E (\<lambda>_ d. d\<lparr>user_roles := del_where (\<lambda>p. p = (u, role)) (user_roles d)\<rparr>))"
    if "v \<noteq> u \<or> role \<noteq> DBAdminRoleName" for role
    by (rule keeps_exec_upd) (use that in \<open>auto simp: admin_stays_def active_admins_def user_states_def del_where_def\<close>)
  moreover have "getPlatformRoleIDByName E rl w = (Inr role, w') \<Longrightarrow> role = rl" for w w' role
    by (auto simp: getPlatformRoleIDByName_def runs find_Some_iff)
  ultimately show ?thesis
    unfolding RemoveUserPlatformRoleByName_def
    by (intro keeps_bnd_value) (use assms in \<open>auto simp: getPlatformRoleIDByName_def intro: keeps_intro\<close>)
qed

lemma stays_AddRole: "keeps (admin_stays v) (AddUserPlatformRoleByName E u rl)"
  unfolding AddUserPlatformRoleByName_def getPlatformRoleIDByName_def
  by (intro keeps_intro keeps_exec)
    (auto simp: admin_stays_def active_admins_def user_states_def split: if_splits)

lemma stays_CreateUser: "keeps (admin_stays v) (CreateUser E new)"
  unfolding CreateUser_def Let_def
  by (intro keeps_exec) (auto simp: admin_stays_def active_admins_def user_states_def comp_def split: if_splits)

lemma stays_cascade_user:
  assumes "v \<noteq> u" and "admin_stays v d"
  shows "admin_stays v (cascade_user u d)"
proof -
  have "users (cascade_user u d) = del_where (\<lambda>r. usr_id r = u) (users d)"
    and r: "user_roles (cascade_user u d) = del_where (\<lambda>p. fst p = u) (user_roles d)"
    by (simp_all add: cascade_user_def cascade_providers_def cascade_sessions_def Let_def)
  then have s: "user_states (cascade_user u d) = filter (\<lambda>p. fst p \<noteq> u) (user_states d)"
    by (simp add: user_states_def del_where_def filter_map comp_def)
  show ?thesis
    using assms unfolding admin_stays_def active_admins_def s r del_where_def
    by (auto simp: distinct_map_filter)
qed

lemma stays_DeleteUser: "v \<noteq> u \<Longrightarrow> keeps (admin_stays v) (store_DeleteUser E u)"
  unfolding store_DeleteUser_def
  by (intro keeps_exec) (auto simp: stays_cascade_user split: if_splits)

lemmas stays_statements = stays_DisableUser stays_EnableUser stays_RemoveRole stays_AddRole stays_CreateUser
  stays_DeleteUser

section \<open>Guarded operations\<close>

text \<open>An operation that starts by finding its user and making sure of another administrator.\<close>

lemma keeps_has_admin_guarded:
  assumes "\<And>user v. usr_id user = u \<Longrightarrow> v \<noteq> u \<Longrightarrow> keeps (admin_stays v) (rest user)"
  shows "keeps has_admin (bnd (LockPlatformRoleByName E rl) (\<lambda>_. bnd (GetUserByIDForUpdate E u) (\<lambda>user.
    bnd (require_other_admin E e user) (\<lambda>_. rest user))))"
proof (rule keepsI)
  fix w r w'
  let ?m = "bnd (LockPlatformRoleByName E rl) (\<lambda>_. bnd (GetUserByIDForUpdate E u) (\<lambda>user.
    bnd (require_other_admin E e user) (\<lambda>_. rest user)))"
  assume J: "has_admin (w_db w)" and eq: "?m w = (r, w')"
  have rest: "wp (rest user) (\<lambda>_ w'. has_admin (w_db w')) (\<lambda>_ w'. has_admin (w_db w')) w1"
    if f: "find (\<lambda>r. usr_id r = u) (users (w_db w1)) = Some user" and h: "has_admin (w_db w1)"
      and g: "list_ex (\<lambda>p. fst p = usr_id user \<and> snd p = DBAdminRoleName) (user_roles (w_db w1))
        \<Longrightarrow> usr_disabled_at user = None \<Longrightarrow> 1 < count_where (\<lambda>p. snd p = DBAdminRoleName
          \<and> list_ex (\<lambda>r. usr_id r = fst p \<and> usr_disabled_at r = None) (users (w_db w1))) (user_roles (w_db w1))"
    for user w1
  proof -
    have id: "usr_id user = u" using found_user [OF f] by simp
    obtain v where "v \<noteq> u" and v: "admin_stays v (w_db w1)" using other_admin [OF h f] g id by auto
    with assms [OF id \<open>v \<noteq> u\<close>] show ?thesis
      by (auto intro!: wpI simp: has_admin_def dest: keepsD)
  qed
  have "wp ?m (\<lambda>_ w'. has_admin (w_db w')) (\<lambda>_ w'. has_admin (w_db w')) w"
    unfolding LockPlatformRoleByName_def GetUserByIDForUpdate_def require_other_admin_def
      UserHasPlatformRole_def CountActiveUsersWithRole_def
    using J by (auto simp: wps intro!: rest)
  then show "has_admin (w_db w')" using eq by (auto simp: wp_def split: sum.splits)
qed

section \<open>The services and the administrators\<close>

lemma stays_rest [keeps_intro]:
  "keeps J (ignoring e m)" if "keeps J m"
  unfolding ignoring_def using that by (intro keeps_intro)

lemma stays_AppleRevocation: "keeps (admin_stays v) (CreateAppleTokenRevocationForUser E i u)"
  unfolding CreateAppleTokenRevocationForUser_def ensure_one_row_def Let_def
  by (intro keeps_intro keeps_exec)
    (auto simp: admin_stays_def active_admins_def user_states_def split: if_splits option.splits)

lemma stays_auth_publish: "account_quiet (as_publish A) \<Longrightarrow> leaves accounts mk \<Longrightarrow> leaves accounts (auth_publish A mk)"
  unfolding auth_publish_def account_quiet_def by (intro leaves_intro) auto

lemma stays_other [keeps_intro]:
  "keeps (admin_stays v) (RevokeUserTokens E R u now)" "keeps (admin_stays v) (RevokeSessionTokens E R s now)"
  "keeps (admin_stays v) (RevokeAllSessionsForUser E u now)"
  "keeps (admin_stays v) (RevokeAllActiveSessionsForUser E u now)"
  "keeps (admin_stays v) (RevokeSessionByIDAndUserID E s u now)"
  "keeps (admin_stays v) (DeleteRefreshTokensByUserID E u)" "keeps (admin_stays v) (DeleteRefreshTokensBySession E s)"
  "keeps (admin_stays v) (audit E S actor action q a md rq)" "keeps (admin_stays v) (Enqueue E to tpl dat now)"
  "keeps (admin_stays v) (DeleteUserEmailReferences E u a)"
  by (intro keeps_stays leaves_intro)+

lemma stays_publish:
  "account_quiet pub \<Longrightarrow> keeps (admin_stays v) (bnd (NewUserUpdated E u now) pub)"
  unfolding account_quiet_def by (intro keeps_stays leaves_intro) auto

lemma has_admin_DeleteUser:
  assumes "account_quiet (as_publish A)" and "account_quiet (os_publish (as_organizations A))"
  shows "keeps has_admin (auth_DeleteUser E A u)"
  unfolding auth_DeleteUser_def
  by (rule keeps_with_tx, rule keeps_has_admin_guarded, intro keeps_intro stays_DeleteUser stays_AppleRevocation
      keeps_stays [OF accounts_PrepareUserDeletion [OF assms(2)]]
      keeps_stays [OF stays_auth_publish [OF assms(1) account_events(3)]])

lemma has_admin_DisableUser:
  assumes "account_quiet (adm_publish S)"
  shows "keeps has_admin (admin_DisableUser E S actor u rq)"
  unfolding admin_DisableUser_def
  by (rule keeps_if, rule keeps_fail, rule keeps_with_tx, rule keeps_has_admin_guarded,
      intro keeps_intro stays_DisableUser stays_publish [OF assms])

lemma has_admin_RevokeAdmin: "keeps has_admin (RevokeAdmin E S actor u rq)"
  unfolding RevokeAdmin_def enqueueAdminAccessChanged_def
  by (rule keeps_if, rule keeps_fail, rule keeps_with_tx, rule keeps_has_admin_guarded,
      intro keeps_intro stays_RemoveRole disjI1)

lemma has_admin_GrantAdmin: "keeps has_admin (GrantAdmin E S actor u rq)"
  unfolding GrantAdmin_def enqueueAdminAccessChanged_def
  by (rule has_admin_keeps, intro keeps_intro stays_AddRole)

lemma has_admin_EnableUser:
  assumes "account_quiet (adm_publish S)"
  shows "keeps has_admin (admin_EnableUser E S actor u rq)"
  unfolding admin_EnableUser_def
  by (rule has_admin_keeps, intro keeps_intro stays_EnableUser stays_publish [OF assms])

lemma has_admin_sessions:
  "keeps has_admin (admin_RevokeUserSession E S actor u s rq)" "keeps has_admin (RevokeAllUserSessions E S actor u rq)"
  unfolding admin_RevokeUserSession_def RevokeAllUserSessions_def GetSessionByID_def
  by (rule has_admin_keeps, intro keeps_intro)+

lemma has_admin_allowlist:
  "keeps has_admin (AddAllowedEmail E S actor a rq)" "keeps has_admin (RemoveAllowedEmail E S actor i rq)"
  unfolding AddAllowedEmail_def RemoveAllowedEmail_def requireAllowlistEnabled_def actor_address_def
    GetAllowedEmailByID_def Let_def
  by (rule has_admin_keeps, rule keeps_stays, intro leaves_intro)+

text \<open>The operator's commands. The loss of a role other than \<open>admin\<close> touches no administrator.\<close>

lemma stays_revocation:
  assumes "v \<noteq> u \<or> rl \<noteq> DBAdminRoleName"
  shows "keeps (admin_stays v) (bnd (now_utc E) (\<lambda>t. bnd (RevokeUserTokens E R u t) (\<lambda>_.
    bnd (RemoveUserPlatformRoleByName E u rl) (\<lambda>_. bnd (RevokeAllSessionsForUser E u t) (\<lambda>_. ret x)))))"
  by (intro keeps_intro stays_RemoveRole assms)

lemma operator_is_not_admin: "DBOperatorRoleName \<noteq> DBAdminRoleName"
  by (simp add: DBOperatorRoleName_def DBAdminRoleName_def)

lemma keeps_has_admin_revoked:
  assumes "\<And>user v. v \<noteq> usr_id user \<Longrightarrow> keeps (admin_stays v) (rest user)"
  shows "keeps has_admin (bnd (LockPlatformRoleByName E DBAdminRoleName) (\<lambda>_.
    bnd (findOperationalUser E a) (\<lambda>found.
    bnd (GetUserByIDForUpdate E (usr_id found)) (\<lambda>user.
    bnd (UserHasPlatformRole E (usr_id user) DBAdminRoleName) (\<lambda>hasRole.
    if \<not> hasRole then ret user
    else
    bnd (if usr_disabled_at user = None
         then bnd (CountActiveUsersWithRole E DBAdminRoleName)
           (\<lambda>activeAdmins. guard_err (activeAdmins \<le> 1) errLastActiveAdmin)
         else ret ()) (\<lambda>_. rest user))))))"
    (is "keeps has_admin ?m")
proof (rule keepsI)
  fix w r w'
  assume J: "has_admin (w_db w)" and eq: "?m w = (r, w')"
  have rest: "wp (rest user) (\<lambda>_ w'. has_admin (w_db w')) (\<lambda>_ w'. has_admin (w_db w')) w1"
    if f: "find (\<lambda>r. usr_id r = u) (users (w_db w1)) = Some user" and h: "has_admin (w_db w1)"
      and g: "usr_disabled_at user = None \<Longrightarrow> 1 < count_where (\<lambda>p. snd p = DBAdminRoleName
          \<and> list_ex (\<lambda>r. usr_id r = fst p \<and> usr_disabled_at r = None) (users (w_db w1))) (user_roles (w_db w1))"
    for user u w1
  proof -
    have id: "usr_id user = u" using found_user [OF f] by simp
    obtain v where "v \<noteq> usr_id user" and v: "admin_stays v (w_db w1)"
      using other_admin [OF h f] g id by auto
    from keepsD [OF assms [OF this(1)] v] show ?thesis
      by (auto intro!: wpI simp: has_admin_def)
  qed
  have "wp ?m (\<lambda>_ w'. has_admin (w_db w')) (\<lambda>_ w'. has_admin (w_db w')) w"
    unfolding LockPlatformRoleByName_def GetUserByIDForUpdate_def UserHasPlatformRole_def
      CountActiveUsersWithRole_def findOperationalUser_def GetUserByEmail_def
    using J by (auto simp: wps intro!: rest)
  then show "has_admin (w_db w')" using eq by (auto simp: wp_def split: sum.splits)
qed

lemma has_admin_revoke_role:
  assumes "rl = DBAdminRoleName \<or> rl = DBOperatorRoleName"
  shows "keeps has_admin (revoke_role E R a rl)"
proof (cases "rl = DBAdminRoleName")
  case False
  then show ?thesis
    unfolding revoke_role_def findOperationalUser_def GetUserByEmail_def
    by (simp only: simp_thms if_False, intro has_admin_keeps keeps_with_tx)
      (intro keeps_intro stays_RemoveRole keeps_stays [OF accounts_reads(2)]; simp)
next
  case True
  show ?thesis
    unfolding revoke_role_def True simp_thms if_True
    by (intro keeps_with_tx keeps_has_admin_revoked stays_revocation disjI1)
qed

lemma has_admin_executeRoleCommand:
  "rl = DBAdminRoleName \<or> rl = DBOperatorRoleName \<Longrightarrow> keeps has_admin (executeRoleCommand E R command rl)"
  unfolding executeRoleCommand_def
  by (intro keeps_intro has_admin_revoke_role has_admin_keeps [OF stays_AddRole])
    (auto simp: findOperationalUser_def GetUserByEmail_def intro: keeps_intro)

lemma has_admin_commands: "keeps has_admin (executeOperationalCommand E R command)"
  unfolding executeOperationalCommand_def
  by (intro keeps_intro has_admin_executeRoleCommand disjI1 disjI2 refl)
    (auto simp: executeAllowlistCommand_def intro!: has_admin_keeps keeps_stays leaves_intro)

section \<open>Signing up and signing in\<close>

lemma accounts_initial [leaves_intro]: "leaves accounts (EnsureInitialOrganization E S user source)"
  unfolding EnsureInitialOrganization_def EnsureOrganizationForUserWithCreated_def ensureOwnerMembership_def
    insert_organization_def Let_def
  by (intro leaves_intro leaves_exec leaves_exec_upd leaves_exec_count)
    (auto simp: insert_membership_def Let_def split: sum.splits if_splits option.splits)

lemma accounts_invitation_lookup [leaves_intro]:
  "leaves f (InvitationByID E S i)" "leaves f (InvitationByToken E S t)"
  unfolding InvitationByID_def InvitationByToken_def by (intro leaves_intro)+

lemma accounts_acceptInvitation:
  assumes "account_quiet (os_publish S)"
  shows "leaves accounts (AcceptInvitation E S t u now)" "leaves accounts (AcceptInvitationByID E S i u now)"
  unfolding AcceptInvitation_def AcceptInvitationByID_def acceptInvitation_def invited_membership_def
    normalizeNow_def Let_def
  by (intro leaves_intro assms)+

lemma accounts_allowed [leaves_intro]: "leaves accounts (ensureEmailAllowed E A a t i)"
  unfolding ensureEmailAllowed_def requirePendingInvitationForEmail_def IsEmailAllowed_def AllowEmail_def Let_def
  by (intro leaves_intro leaves_case_option) (auto split: access_policy.splits intro!: leaves_intro)

text \<open>The statements on authentication methods leave users and roles alone.\<close>

lemma stays_methods [keeps_intro]:
  "keeps (admin_stays v) (CreateAuthProvider E p)" "keeps (admin_stays v) (CompareAndSwapPasswordHash E u h h')"
  "keeps (admin_stays v) (UpsertAppleCredential E c i)"
  unfolding CreateAuthProvider_def CompareAndSwapPasswordHash_def UpsertAppleCredential_def set_password_def Let_def
  by (intro keeps_intro keeps_exec keeps_exec_count;
      auto simp: admin_stays_def active_admins_def user_states_def insert_revocation_def
        split: if_splits option.splits)+

lemma keeps_call_client [keeps_intro]: "keeps J (encrypt E C k t c)"
  unfolding encrypt_def by (intro keeps_intro)

lemma stays_save_apple [keeps_intro]: "keeps (admin_stays v) (save_apple E A u t)"
  unfolding save_apple_def apple_Save_def GetAuthProviderByMethodAndUserIDForUpdate_def
  by (intro keeps_intro)

lemma leaves_rand_int [leaves_intro]: "leaves f (rand_int E n)"
  by (induction n) (simp_all add: leaves_def keeps_intro)

lemma stays_signing_in [keeps_intro]:
  "keeps (admin_stays v) (ensureEmailAllowed E A a t i)" "keeps (admin_stays v) (initial_organization E A p user s)"
  "keeps (admin_stays v) (RecordLoginDenied E A am reason)"
  "keeps (admin_stays v) (enqueueAccountCreated E user prov now)"
  "keeps (admin_stays v) (EnsureUsername E n a)"
  unfolding initial_organization_def RecordLoginDenied_def AuthenticationLogin_def enqueueAccountCreated_def
    EnsureUsername_def SecureFiveDigits_def Let_def
  by (intro keeps_stays leaves_intro)+

lemma stays_quiet [keeps_intro]:
  assumes "account_quiet (as_publish A)" and "account_quiet (os_publish (as_organizations A))"
  shows "keeps (admin_stays v) (acceptSignupInvitation E A t i u)" "keeps (admin_stays v) (announce_user E A user ini now)"
  unfolding acceptSignupInvitation_def announce_user_def
  by (intro keeps_stays leaves_intro stays_auth_publish accounts_acceptInvitation assms)+

lemma stays_Signup:
  assumes "account_quiet (as_publish A)" and "account_quiet (os_publish (as_organizations A))"
  shows "keeps (admin_stays v) (Signup E A i)"
  unfolding Signup_def signupWithPassword_def Let_def
  by (intro keeps_intro stays_CreateUser assms)

lemma stays_stored_hash [keeps_intro]: "keeps J (stored_hash E u)"
  unfolding stored_hash_def GetAuthProviderByMethodAndUserID_def by (intro keeps_intro)

lemma stays_upgrade_hash [keeps_intro]: "keeps (admin_stays v) (upgrade_hash E idkey n u pw h vf)"
  by (induction n arbitrary: h vf)
    (auto simp: hashPassword_def intro!: keeps_intro split: sum.splits)

lemma stays_password_login [keeps_intro]: "keeps (admin_stays v) (loginWithPassword E A i)"
  unfolding loginWithPassword_def check_password_def upgradePasswordHashIfNeeded_def
    GetAuthProviderByMethodAndUserID_def GetUserByEmailOrUsername_def GetUserByEmail_def Let_def
  by (intro keeps_intro)

lemma stays_external_login:
  assumes "account_quiet (as_publish A)" and "account_quiet (os_publish (as_organizations A))"
  shows "keeps (admin_stays v) (loginWithExternal E A i t)"
proof -
  have "keeps (admin_stays v) (login_known_identity E i p)" for i p
    unfolding login_known_identity_def auth_verified_now_def
    by (intro keeps_stays leaves_intro)
  moreover have "keeps (admin_stays v) (login_new_identity E A i p s)" for i p s
    unfolding login_new_identity_def
    by (intro keeps_intro stays_CreateUser assms keeps_stays [OF accounts_reads(9)])
  ultimately show ?thesis
    unfolding loginWithExternal_def loginWithExternalIdentity_def Let_def
    by (intro keeps_intro stays_CreateUser assms keeps_stays [OF accounts_reads(13)])
qed

lemma stays_Login:
  assumes "account_quiet (as_publish A)" and "account_quiet (os_publish (as_organizations A))"
  shows "keeps (admin_stays v) (Login E A i)" "keeps (admin_stays v) (LoginWithApple E A i t)"
  unfolding Login_def LoginWithApple_def
  by (intro keeps_intro stays_external_login assms)+

section \<open>Password hashes\<close>

lemma sextets_length: "length (sextets ns) \<le> 2 * length ns"
  by (induction ns rule: sextets.induct) auto

lemma base64_std_length: "length (base64_std_encode s) \<le> 2 * length s"
  using sextets_length [of "map of_char s"] by (simp add: base64_std_encode_def)

lemma parsed_uint:
  assumes "n < 2 ^ 32"
  shows "parseUint (p @ ''='' @ show_nat n) p = Inr n"
  using assms by (simp add: parseUint_def parse_uint32_def show_nat_digits Let_def)

lemma no_dollar: "CHR ''$'' \<notin> set (show_nat n)"
  using show_nat_digits [of n] by (auto simp: list_all_iff is_digit_def)

text \<open>What \<open>encodeHash\<close> writes, \<open>decodeHash\<close> reads.\<close>

lemma decode_encode:
  assumes "length salt = saltLen" and "length hash = 32"
  shows "decodeHash (encodeHash argonTime argonMemory argonThreads salt hash) =
    Inr (\<lparr>pa_time = argonTime, pa_memory = argonMemory, pa_threads = argonThreads\<rparr>, salt, hash)"
proof -
  let ?e = "encodeHash argonTime argonMemory argonThreads salt hash"
  have "?e = '''' @ CHR ''$'' # ''argon2id'' @ CHR ''$'' # ''v=1'' @ CHR ''$'' # (''t'' @ ''='' @ show_nat 3) @ CHR ''$''
      # (''m'' @ ''='' @ show_nat 65536) @ CHR ''$'' # (''p'' @ ''='' @ show_nat 4) @ CHR ''$''
      # base64_std_encode salt @ CHR ''$'' # base64_std_encode hash"
    by (simp add: encodeHash_def argon_defs)
  then have "split_on (CHR ''$'') ?e = ['''', ''argon2id'', ''v=1'', ''t'' @ ''='' @ show_nat 3,
      ''m'' @ ''='' @ show_nat 65536, ''p'' @ ''='' @ show_nat 4, base64_std_encode salt, base64_std_encode hash]"
    by (simp only:) ((subst split_on_sep, simp add: no_dollar base64_std_no_dollar)+,
        simp add: split_on_last base64_std_no_dollar)
  moreover have "parseUint (''t'' @ ''='' @ show_nat 3) ''t'' = Inr 3"
    "parseUint (''m'' @ ''='' @ show_nat 65536) ''m'' = Inr 65536" "parseUint (''p'' @ ''='' @ show_nat 4) ''p'' = Inr 4"
    by (rule parsed_uint, simp)+
  ultimately show ?thesis
    using assms by (simp add: decodeHash_def Let_def sum_bind_def base64_field_def base64_std_roundtrip hash_fields_def
        argon_defs del: append.simps append_Cons)
qed

lemma unat_numeral_32: "unat (3 :: 32 word) = 3" "unat (65536 :: 32 word) = 65536" "unat (4 :: 8 word) = 4"
  by simp_all

lemma verify_hashed:
  assumes "hashPassword E idkey pw w = (Inr h, w')"
    and "\<And>n s. o_rand E n saltLen = Some s \<Longrightarrow> length s = saltLen"
    and "\<And>pw s. length (idkey pw s argonTime argonMemory argonThreads argonKeyLen) = unat argonKeyLen"
  shows "\<exists>salt. o_rand E (w_step w) saltLen = Some salt \<and> length h \<le> 255
    \<and> (\<forall>q. VerifyPasswordHash idkey q h = Inr \<lparr>ver_valid = (idkey q salt argonTime argonMemory argonThreads argonKeyLen
         = idkey pw salt argonTime argonMemory argonThreads argonKeyLen), ver_needs_rehash = False\<rparr>)"
proof -
  let ?key = "\<lambda>pw salt. idkey pw salt argonTime argonMemory argonThreads argonKeyLen"
  obtain salt where s: "o_rand E (w_step w) saltLen = Some salt"
    and h: "h = encodeHash argonTime argonMemory argonThreads salt (?key pw salt)"
    using assms(1) by (auto simp: hashPassword_def rand_read_def bnd_def ret_def split: option.splits)
  have l: "length salt = saltLen" "length (?key pw salt) = 32"
    using assms(2) [OF s] assms(3) by (simp_all add: argonKeyLen_def)
  have n: "length (show_nat 3) = 1" "length (show_nat 4) = 1" by (subst show_nat.simps, simp)+
  have m: "length (show_nat 65536) = 5" by (rule show_five) simp_all
  have "length h = 31 + length (base64_std_encode salt) + length (base64_std_encode (?key pw salt))"
    unfolding h encodeHash_def argonTime_def argonMemory_def argonThreads_def
    by (simp only: unat_numeral_32 length_append n m) simp
  then have "length h \<le> 255"
    using base64_std_length [of salt] base64_std_length [of "?key pw salt"] l by (simp add: saltLen_def)
  moreover have "VerifyPasswordHash idkey q h = Inr \<lparr>ver_valid = (?key q salt = ?key pw salt), ver_needs_rehash = False\<rparr>"
    for q unfolding VerifyPasswordHash_def h decode_encode [OF l] sum_bind_def sum.case prod.case Let_def l
    by (simp add: argonKeyLen_def saltLen_def)
  ultimately show ?thesis using s by blast
qed

text \<open>The hash a user signs in with.\<close>

definition password_is :: "uuid \<Rightarrow> string \<Rightarrow> db \<Rightarrow> bool" where
  "password_is u h d \<longleftrightarrow> (\<exists>p. find_provider ProviderPassword u d = Some p \<and> prv_password_hash p = Some h)"

lemma keeps_of_accounts: "leaves accounts m \<Longrightarrow> (\<And>d d'. accounts d' = accounts d \<Longrightarrow> J d \<Longrightarrow> J d') \<Longrightarrow> keeps J m"
  by (rule keepsI) (metis leavesD)

lemma keeps_password: "leaves accounts m \<Longrightarrow> keeps (password_is u h) m"
  by (erule keeps_of_accounts, drule accounts_eqD(3)) (simp add: password_is_def find_provider_def)

lemma wp_keeps: "keeps J m \<Longrightarrow> J (w_db w) \<Longrightarrow> (\<And>e w'. R e w') \<Longrightarrow> wp m (\<lambda>_ w'. J (w_db w')) R w"
  by (auto simp: wp_def split: prod.splits sum.splits dest: keepsD)

lemma password_appended:
  assumes "find_provider ProviderPassword u d = None"
    and "prv_user r = u" "prv_provider r = ProviderPassword" "prv_password_hash r = Some h"
  shows "password_is u h (d\<lparr>auth_providers := auth_providers d @ [r]\<rparr>)"
  using assms by (simp add: password_is_def find_provider_def find_append)

lemma password_created:
  assumes "length h \<le> 255" and "\<And>user. keeps (password_is u h) (rest user)" and "\<And>e w'. R e w'"
  shows "wp (bnd (LockUserForAuthMethodMutation E u) (\<lambda>_.
      try_bnd (GetAuthProviderByMethodAndUserID E ProviderPassword u)
        (\<lambda>e. if e \<noteq> EStore ErrorAuthProviderNotFound then fail e
           else
           bnd (GetUserByID E u) (\<lambda>user.
           bnd (CreateAuthProvider E (new_provider u ProviderPassword None (Some h))) (\<lambda>_. rest user)))
        (\<lambda>_. fail e2))) (\<lambda>_ w'. password_is u h (w_db w')) R w"
  unfolding LockUserForAuthMethodMutation_def LockUserForUpdate_def GetAuthProviderByMethodAndUserID_def
    GetUserByID_def CreateAuthProvider_def
  using assms(1,3)
  by (simp add: wps Let_def new_provider_def)
    (intro allI impI conjI wp_keeps [OF assms(2) _ assms(3)]; simp add: password_appended)

section \<open>Steps of a run whose end is of interest\<close>

lemma wp_skip: "(\<And>x w1. wp (f x) Q any_error w1) \<Longrightarrow> wp (bnd m f) Q any_error w"
  by (simp add: wp_bnd) (auto simp: wp_def split: prod.splits sum.splits)

lemma wp_seq:
  assumes "wp m (\<lambda>x w1. P x w1) any_error w" and "\<And>x w1. P x w1 \<Longrightarrow> wp (f x) Q any_error w1"
  shows "wp (bnd m f) Q any_error w"
  unfolding wp_bnd by (rule wp_mono [OF assms(1)]) (auto intro: assms(2))

lemma wp_seq_keeps:
  assumes "keeps J m" and "J (w_db w)" and "\<And>x w1. J (w_db w1) \<Longrightarrow> wp (f x) Q any_error w1"
  shows "wp (bnd m f) Q any_error w"
  by (rule wp_seq [OF wp_keeps [OF assms(1,2)]]) (simp_all add: assms(3))

end
