(* ===== verification/Signup_Completion.thy ===== *)
theory Signup_Completion
  imports Session_Invariant Account_Proofs
begin

text \<open>
  What the HTTP handlers do with a verified sign-up code, inside the transaction that verifies
  it: the pages sign the user up (\<open>ui/signup.go\<close>), the API opens a session as well
  (\<open>api/challenges_openapi.go\<close>). Both leave the challenges alone, which is what
  \<open>VerifySignupChallenge\<close> expects of its callback; the session the API opens is
  \<open>session_opened\<close>, as one opened by a call of its own.
\<close>

section \<open>The callbacks\<close>

definition signup_of_action :: "time \<Rightarrow> pending_signup \<Rightarrow> signup_input" where
  "signup_of_action now action = \<lparr>si_Provider = ProviderPassword, si_Username = ps_username action,
     si_Email = ps_email action, si_PasswordHash = ps_password_hash action, si_InvitationToken = '''',
     si_InvitationID = (case ps_invitation action of None \<Rightarrow> nil_uuid | Some i \<Rightarrow> i),
     si_EmailVerifiedAt = Some now, si_OAuthID = ''''\<rparr>"

definition complete_signup_ui :: "env \<Rightarrow> auth_service \<Rightarrow> time \<Rightarrow> pending_signup \<Rightarrow> unit M" where
  "complete_signup_ui E A now action = bnd (Signup E A (signup_of_action now action)) (\<lambda>_. ret ())"

definition complete_signup_api ::
  "env \<Rightarrow> auth_service \<Rightarrow> service \<Rightarrow> string \<Rightarrow> time \<Rightarrow> string \<Rightarrow> pending_signup \<Rightarrow> unit M" where
  "complete_signup_api E A S userAgent now clientIP action =
     bnd (Signup E A (signup_of_action now action)) (\<lambda>user.
     bnd (CreateSession E S (usr_id user) AudienceApp AuthenticationMethodPassword userAgent now clientIP)
       (\<lambda>_. ret ()))"

section \<open>The tables a sign-up leaves alone\<close>

definition signed_view :: "db \<Rightarrow> (session list \<times> refresh_token list) \<times> challenge list \<times> verification_code list" where
  "signed_view d = ((sessions d, refresh_tokens d), challenges d, verification_codes d)"

lemma view_statements [leaves_intro]:
  "leaves signed_view (CreateUser E new)" "leaves signed_view (CreateAuthProvider E ap)"
  "leaves signed_view (CreateOrganizationMembership E m)" "leaves signed_view (MarkOrganizationInvitationAccepted E i u now)"
  "leaves signed_view (exec E (insert_organization nm kd cb))" "leaves signed_view (EnsureAllowedEmail E a)"
  unfolding CreateUser_def CreateAuthProvider_def CreateOrganizationMembership_def insert_membership_def
    MarkOrganizationInvitationAccepted_def insert_organization_def EnsureAllowedEmail_def add_allowed_email_def
    signed_view_def Let_def
  by (intro leaves_intro leaves_exec leaves_exec_upd leaves_exec_count; auto split: if_splits option.splits)+

lemma view_services [leaves_intro]:
  "leaves signed_view (Enqueue E to tpl dat now)" "leaves signed_view (recordAuthentication E rc ty ae)"
  by (auto simp: leaves_def signed_view_def intro!: keeps_Enqueue keeps_recorders)

lemma view_publish: "events_only pub \<Longrightarrow> leaves signed_view (pub evt)"
  by (rule events_only_leaves) (simp_all add: signed_view_def)

lemma view_auth_publish:
  assumes "events_only (as_publish A)" and "leaves signed_view mk"
  shows "leaves signed_view (auth_publish A mk)"
  unfolding auth_publish_def by (intro leaves_intro view_publish assms)

lemma view_org_publish:
  assumes "events_only (os_publish S)" and "leaves signed_view mk"
  shows "leaves signed_view (publish_event S mk)"
  unfolding publish_event_def by (intro leaves_intro view_publish assms)

lemma view_initial [leaves_intro]: "leaves signed_view (EnsureInitialOrganization E S user source)"
  unfolding EnsureInitialOrganization_def EnsureOrganizationForUserWithCreated_def ensureOwnerMembership_def
    insert_organization_def Let_def
  by (intro leaves_intro leaves_exec leaves_exec_upd leaves_exec_count)
    (auto simp: insert_membership_def signed_view_def Let_def split: sum.splits if_splits option.splits)

lemma view_acceptInvitation:
  assumes "events_only (os_publish S)"
  shows "leaves signed_view (AcceptInvitation E S t u now)" "leaves signed_view (AcceptInvitationByID E S i u now)"
  unfolding AcceptInvitation_def AcceptInvitationByID_def acceptInvitation_def invited_membership_def
    normalizeNow_def Let_def
  by (intro leaves_intro view_org_publish assms)+

lemma view_allowed [leaves_intro]: "leaves signed_view (ensureEmailAllowed E A a t i)"
  unfolding ensureEmailAllowed_def requirePendingInvitationForEmail_def IsEmailAllowed_def AllowEmail_def Let_def
  by (intro leaves_intro leaves_case_option) (auto split: access_policy.splits intro!: leaves_intro)

lemma view_username [leaves_intro]: "leaves f (EnsureUsername E n a)"
  unfolding EnsureUsername_def SecureFiveDigits_def Let_def by (intro leaves_intro)

lemma view_signing_up:
  assumes "events_only (as_publish A)" and "events_only (os_publish (as_organizations A))"
  shows "leaves signed_view (acceptSignupInvitation E A t i u)" "leaves signed_view (announce_user E A user ini now)"
  unfolding acceptSignupInvitation_def announce_user_def
  by (intro leaves_intro view_auth_publish view_acceptInvitation assms)+

lemma view_started [leaves_intro]:
  "leaves signed_view (initial_organization E A p user src)" "leaves signed_view (enqueueAccountCreated E user prov now)"
  unfolding initial_organization_def enqueueAccountCreated_def by (intro leaves_intro)+

lemma view_Signup:
  assumes "events_only (as_publish A)" and "events_only (os_publish (as_organizations A))"
  shows "leaves signed_view (Signup E A i)"
  unfolding Signup_def signupWithPassword_def Let_def
  by (intro leaves_intro view_signing_up assms)

lemma Signup_sessions:
  assumes "events_only (as_publish A)" and "events_only (os_publish (as_organizations A))"
    and "Signup E A i w = (r, w')"
  shows "same_sessions (w_db w) (w_db w')"
  using leavesD [OF view_Signup [OF assms(1,2)] assms(3)] by (simp add: signed_view_def same_sessions_def)

section \<open>The session opened inside the transaction\<close>

lemma wp_with_tx_nested: "w_tx w \<noteq> NoTx \<Longrightarrow> wp (with_tx E m) Q R w = wp m Q R w"
  by (simp add: wp_def with_tx_def)

lemma wp_createSession_nested:
  assumes "w_tx w \<noteq> NoTx"
  shows "wp (createSession E S u pk aud meth ua now ip)
     (\<lambda>(a, r) w'. session_opened E S u pk aud meth now a r (w_db w) (w_db w')) any_error w"
  unfolding createSession_def recordSessionAuthenticationDenied_def AuthenticationLogin_def
    lock_defs lookup_defs
  by (auto simp: wps wp_with_tx_nested assms Let_def split: if_splits
        intro!: wp_ensureUserAllowed wp_passkey_available wp_recordAuthentication
          wp_DefaultOrganizationForUser wp_store_new_sessionI)
     (unfold session_opened_def, intro exI conjI, rule grantedI, assumption+)

lemma createSession_opened:
  assumes "createSession E S u pk aud meth ua now ip w = (Inr (a, r), w')"
  shows "session_opened E S u pk aud meth now a r (w_db w) (w_db w')"
  using wp_value [OF wp_createSession assms] wp_value [OF wp_createSession_nested assms] by (cases "w_tx w = NoTx") auto

lemma complete_signup_api_opens:
  assumes "events_only (as_publish A)" and "events_only (os_publish (as_organizations A))"
    and "complete_signup_api E A S ua now ip action w = (Inr (), w')"
  shows "\<exists>d1 u a r. same_sessions (w_db w) d1
    \<and> session_opened E S u None AudienceApp AuthenticationMethodPassword now a r d1 (w_db w')"
proof -
  obtain user w1 a r where "Signup E A (signup_of_action now action) w = (Inr user, w1)"
    and "createSession E S (usr_id user) None AudienceApp AuthenticationMethodPassword ua now ip w1 = (Inr (a, r), w')"
    using assms(3) by (auto simp: complete_signup_api_def CreateSession_def runs)
  from Signup_sessions [OF assms(1,2) this(1)] createSession_opened [OF this(2)] show ?thesis by metis
qed

end
