(* ===== verification/Challenge_Proofs.thy ===== *)
theory Challenge_Proofs
  imports Challenge_Service
begin

text \<open>
  The challenge table as a machine: every operation of the challenge service makes one move on
  it (or none), whatever fails on the way. The callbacks of \<open>createChallenge\<close> and
  \<open>verifyChallenge\<close> leave challenges and codes alone (\<open>frames\<close>), so one proof of
  each serves the four flows.
\<close>

section \<open>Operations that leave challenges and codes alone\<close>

definition frames :: "'a M \<Rightarrow> bool" where
  "frames m \<longleftrightarrow> (\<forall>C V. keeps (\<lambda>d. challenges d = C \<and> verification_codes d = V) m)"

lemma framesD:
  assumes "frames m" and "m w = (r, w')"
  shows "challenges (w_db w') = challenges (w_db w)" and "verification_codes (w_db w') = verification_codes (w_db w)"
  using assms keepsD [of "\<lambda>d. challenges d = challenges (w_db w) \<and> verification_codes d = verification_codes (w_db w)" m w r w']
  by (auto simp: frames_def)

named_theorems frames_intro \<open>operations that leave challenges and codes alone\<close>

lemma frames_keeps: "(\<And>J. keeps J m) \<Longrightarrow> frames m"
  by (simp add: frames_def)

lemma frames_exec:
  "(\<And>t u d x d'. f t u d = Inr (x, d') \<Longrightarrow> challenges d' = challenges d \<and> verification_codes d' = verification_codes d)
    \<Longrightarrow> frames (exec E f)"
  unfolding frames_def by (intro allI keeps_exec) metis

lemma frames_exec_upd:
  "(\<And>t d. challenges (f t d) = challenges d \<and> verification_codes (f t d) = verification_codes d) \<Longrightarrow> frames (exec_upd E f)"
  unfolding exec_upd_def by (rule frames_exec) auto

lemma frames_exec_count:
  "(\<And>t d. challenges (snd (f t d)) = challenges d \<and> verification_codes (snd (f t d)) = verification_codes d)
    \<Longrightarrow> frames (exec_count E f)"
  unfolding frames_def by (intro allI keeps_exec_count) metis

lemma frames_basic [frames_intro]:
  "frames (ret x)" "frames (fail e)" "frames (guard_err b e)" "frames (now_utc E)" "frames (query E f)"
  "frames (query_row E se g)" "frames (redis_call E h)" "frames (newEnvelope E ty now dat)"
  by (simp_all add: frames_def keeps_intro)

lemma frames_bnd [frames_intro]: "frames m \<Longrightarrow> (\<And>x. frames (f x)) \<Longrightarrow> frames (bnd m f)"
  unfolding frames_def by (intro allI keeps_bnd) auto

lemma frames_try_bnd [frames_intro]:
  "frames m \<Longrightarrow> (\<And>e. frames (h e)) \<Longrightarrow> (\<And>x. frames (f x)) \<Longrightarrow> frames (try_bnd m h f)"
  unfolding frames_def by (intro allI keeps_try_bnd) auto

lemma frames_map_err [frames_intro]: "frames m \<Longrightarrow> frames (map_err g m)"
  unfolding frames_def by (intro allI keeps_map_err) auto

lemma frames_with_tx [frames_intro]: "frames m \<Longrightarrow> frames (with_tx E m)"
  unfolding frames_def by (intro allI keeps_with_tx) auto

lemma frames_require_affected [frames_intro]: "frames m \<Longrightarrow> frames (require_affected e m)"
  unfolding frames_def by (intro allI keeps_require_affected) auto

lemma frames_case_option [frames_intro]:
  "frames a \<Longrightarrow> (\<And>x. frames (f x)) \<Longrightarrow> frames (case r of None \<Rightarrow> a | Some x \<Rightarrow> f x)"
  by (cases r) simp_all

lemma frames_if [frames_intro]: "frames a \<Longrightarrow> frames b \<Longrightarrow> frames (if c then a else b)"
  by simp

lemma frames_statements [frames_intro]:
  "frames (CreatePendingSignupAction E ps)" "frames (CreatePendingPasswordReset E pr)"
  "frames (CreatePendingEmailChange E pe)" "frames (UpsertEmailVerificationTransaction E ev)"
  "frames (AttachEmailVerificationChallenge E i c t)" "frames (ConsumeEmailVerificationTransaction E i now)"
  "frames (set_password E p u h)" "frames (swap_user_email E u a b v)" "frames (EnsureAllowedEmail E a)"
  "frames (DeleteAllowedEmail E a)" "frames (DeletePendingPasswordResetsByUserID E u)"
  "frames (DeletePendingEmailChangesByUserID E u)" "frames (RevokeAllSessionsForUser E u now)"
  "frames (store_RevokeSession E sid now)" "frames (MarkUserEmailVerified E u a now)"
  unfolding CreatePendingSignupAction_def CreatePendingPasswordReset_def CreatePendingEmailChange_def
    UpsertEmailVerificationTransaction_def AttachEmailVerificationChallenge_def
    ConsumeEmailVerificationTransaction_def set_password_def swap_user_email_def EnsureAllowedEmail_def
    DeleteAllowedEmail_def DeletePendingPasswordResetsByUserID_def DeletePendingEmailChangesByUserID_def
    RevokeAllSessionsForUser_def store_RevokeSession_def MarkUserEmailVerified_def revoke_sessions_def add_allowed_email_def Let_def
  by (intro frames_intro frames_exec frames_exec_upd frames_exec_count;
      auto split: if_splits option.splits)+

lemma frames_services [frames_intro]:
  "frames (Enqueue E to tpl dat now)" "frames (recordCredential E rc ty ce)" "frames (RevokeUserTokens E R u now)"
  "frames (RevokeSessionTokens E R sid now)" "frames (CreateEmailJob E j)"
  by (auto simp: frames_def intro!: keeps_Enqueue keeps_recorders keeps_CreateEmailJob keeps_intro)

lemma frames_reads [frames_intro]:
  "frames (GetUserByID E u)" "frames (GetUserByIDForUpdate E u)" "frames (LockUserForUpdate E u)"
  "frames (UserExistsByEmail E a)" "frames (GetActiveSessionByIDForUpdate E sid now)"
  "frames (GetPendingPasswordResetByChallengeID E c)" "frames (GetPendingSignupActionByChallengeID E c)"
  "frames (GetPendingEmailChangeByChallengeIDForUpdate E c)" "frames (GetAuthProviderByMethodAndUserID E p u)"
  "frames (GetEmailVerificationTransactionByIDForUpdate E i)" "frames (GetChallengeByIDForUpdate E c)"
  "frames (GetEmailVerificationTransactionByChallengeIDForUpdate E c)" "frames (GetVerificationCodeByChallengeID E c)"
  by (simp_all add: GetUserByID_def GetUserByIDForUpdate_def LockUserForUpdate_def UserExistsByEmail_def
      GetActiveSessionByIDForUpdate_def GetPendingPasswordResetByChallengeID_def
      GetPendingSignupActionByChallengeID_def GetPendingEmailChangeByChallengeIDForUpdate_def
      GetAuthProviderByMethodAndUserID_def GetEmailVerificationTransactionByIDForUpdate_def
      GetEmailVerificationTransactionByChallengeIDForUpdate_def GetVerificationCodeByChallengeID_def
      GetChallengeByIDForUpdate_def frames_basic)

text \<open>The callbacks of the four flows.\<close>

lemma frames_eligibility [frames_intro]: "frames (requirePasswordResetEligibility E S u a)"
  unfolding requirePasswordResetEligibility_def Let_def by (intro frames_intro)

lemma frames_change_session [frames_intro]: "frames (requireActiveEmailChangeSession E u sid now)"
  unfolding requireActiveEmailChangeSession_def Let_def by (intro frames_intro)

lemma frames_update_password [frames_intro]: "frames (UpdatePasswordHash E u h)"
  unfolding UpdatePasswordHash_def by (intro frames_intro)

lemma frames_reset_action: "frames (create_reset_action E S u a h c)"
  unfolding create_reset_action_def by (intro frames_intro)

lemma frames_reset_after: "frames (reset_after E S now c)"
  unfolding reset_after_def executePasswordReset_def CredentialPasswordReset_def Let_def by (intro frames_intro)

lemma frames_change_before: "frames (email_change_before E u sid now c)"
  unfolding email_change_before_def by (intro frames_intro)

lemma frames_change_email:
  assumes "\<And>evt. frames (cv_publish S evt)"
  shows "frames (executeEmailChange E S action now)"
  unfolding executeEmailChange_def UpdateUserEmailVerifiedIfCurrent_def AccountEmailChanged_def NewUserUpdated_def Let_def
  by (intro frames_intro assms)

lemma frames_attach: "frames (attach_verification E i t now c)"
  unfolding attach_verification_def Let_def by (intro frames_intro)

lemma frames_verification_before: "frames (verification_before E i cid now c)"
  unfolding verification_before_def Let_def by (intro frames_intro)

lemma frames_verification_after:
  assumes "\<And>evt. frames (cv_publish S evt)"
  shows "frames (verification_after E S now vu)"
  unfolding verification_after_def verify_target_def UpdateUserEmailVerifiedIfCurrent_def NewUserUpdated_def Let_def
  by (cases vu) (auto intro!: frames_intro assms)

section \<open>Moves on the challenge table\<close>

text \<open>
  \<open>P\<close> are the policies that may be in force (the configuration can change while the program
  runs), \<open>fresh\<close> the identifiers that may be generated.
\<close>

inductive challenge_move :: "challenge_policy set \<Rightarrow> uuid set \<Rightarrow> challenge list \<Rightarrow> challenge list \<Rightarrow> bool"
  for P fresh where
  stay: "challenge_move P fresh cs cs"
| create: "ch_id c \<in> fresh \<Longrightarrow> ch_id c \<notin> ch_id ` set cs \<Longrightarrow> ch_consumed_at c = None \<Longrightarrow>
    ch_attempt_count c = 0 \<Longrightarrow> p \<in> P \<Longrightarrow> ch_max_attempts c = MaxAttempts p \<Longrightarrow> ch_resend_count c = 0 \<Longrightarrow>
    ch_max_resends c \<in> {0, MaxResends p} \<Longrightarrow> challenge_move P fresh cs (cs @ [c])"
| consume: "challenge_move P fresh cs (upd_where (\<lambda>c. ch_id c = i \<and> ch_consumed_at c = None)
    (\<lambda>c. c\<lparr>ch_consumed_at := Some now, ch_updated_at := t\<rparr>) cs)"
| miss: "find (\<lambda>c. ch_id c = i) cs = Some c0 \<Longrightarrow> HasAttemptsRemaining c0 \<Longrightarrow>
    challenge_move P fresh cs (upd_where (\<lambda>c. ch_id c = i)
      (\<lambda>c. c\<lparr>ch_attempt_count := ch_attempt_count c + 1, ch_updated_at := t\<rparr>) cs)"
| resend: "challenge_move P fresh cs (upd_where (\<lambda>c. ch_id c = i \<and> ch_resend_count c < ch_max_resends c)
    (\<lambda>c. c\<lparr>ch_resend_count := ch_resend_count c + 1, ch_last_sent_at := Some now, ch_updated_at := t\<rparr>) cs)"
| sent: "challenge_move P fresh cs (upd_where (\<lambda>c. ch_id c = i)
    (\<lambda>c. c\<lparr>ch_last_sent_at := Some now, ch_updated_at := t\<rparr>) cs)"
| remove: "challenge_move P fresh cs (del_where p cs)"

definition counts_ok :: "challenge list \<Rightarrow> bool" where
  "counts_ok cs \<longleftrightarrow> distinct (map ch_id cs) \<and> (\<forall>c\<in>set cs. 0 \<le> ch_attempt_count c
     \<and> ch_attempt_count c \<le> ch_max_attempts c \<and> 0 \<le> ch_resend_count c \<and> ch_resend_count c \<le> ch_max_resends c)"

lemma move_counts_ok:
  assumes "challenge_move P fresh cs cs'" and "counts_ok cs"
    and "\<And>p. p \<in> P \<Longrightarrow> 0 \<le> MaxAttempts p \<and> 0 \<le> MaxResends p"
  shows "counts_ok cs'"
  using assms
proof (cases rule: challenge_move.cases)
  case (miss i c0 t)
  have "c = c0" if "c \<in> set cs" "ch_id c = i" for c
    using find_unique_key [of ch_id cs c i] assms(2) that miss(2) by (simp add: counts_ok_def)
  then show ?thesis
    using assms(2) miss by (auto simp: counts_ok_def map_upd_where_same set_upd_where HasAttemptsRemaining_def)
qed (auto simp: counts_ok_def map_upd_where_same set_upd_where distinct_map_del_where)

text \<open>A consumed challenge stays consumed; its identifier is not given out again.\<close>

definition spent_challenge :: "uuid \<Rightarrow> challenge list \<Rightarrow> bool" where
  "spent_challenge i cs \<longleftrightarrow> (\<forall>c\<in>set cs. ch_id c = i \<longrightarrow> ch_consumed_at c \<noteq> None)"

lemma move_keeps_spent:
  assumes "challenge_move P fresh cs cs'" and "spent_challenge i cs" and "i \<notin> fresh"
  shows "spent_challenge i cs'"
  using assms
  by (cases rule: challenge_move.cases) (auto simp: spent_challenge_def set_upd_where)

section \<open>Every operation is a move\<close>

lemma raise_result_world: "raise_result m w = (r, w') \<Longrightarrow> \<exists>q. m w = (q, w')"
  by (auto simp: raise_result_def bnd_def ret_def fail_def split: prod.splits sum.splits)

text \<open>A top-level transaction makes the move its committed body makes.\<close>

lemma with_tx_move:
  assumes "w_tx w = NoTx" and "with_tx E m w = (r, w')"
    and "\<And>x w1. m (open_tx w) = (Inr x, w1) \<Longrightarrow> challenge_move P fresh (challenges (w_db w)) (challenges (w_db w1))"
  shows "challenge_move P fresh (challenges (w_db w)) (challenges (w_db w'))"
proof (cases r)
  case (Inl e)
  with assms(1,2) have "w_db w' = w_db w" by (simp add: with_tx_error_rolls_back(1))
  then show ?thesis by (simp add: challenge_move.stay)
next
  case (Inr x)
  with assms(1,2) obtain w1 where "m (open_tx w) = (Inr x, w1)" "w_db w' = w_db w1"
    by (auto simp: with_tx_run)
  with assms(3) show ?thesis by simp
qed

lemma CreateChallenge_move:
  assumes "CreateChallenge E (new_challenge p purpose email now n) w = (Inr c, w1)"
    and "n \<in> {0, MaxResends p}" and "range (o_uuid E) \<subseteq> fresh" and "p \<in> P"
  shows "challenge_move P fresh (challenges (w_db w)) (challenges (w_db w1))"
  using assms
  by (auto simp: CreateChallenge_def exec_run Let_def new_challenge_def split: if_splits
      intro!: challenge_move.create)

lemma emailTemplate_run: "emailTemplateForPurpose p w = (Inr t, w') \<Longrightarrow> w' = w"
  by (auto simp: emailTemplateForPurpose_def runs split: if_splits)

lemma frames_enqueueChallengeEmail [frames_intro]: "frames (enqueueChallengeEmail E i a tpl now dl)"
  unfolding enqueueChallengeEmail_def by (intro frames_intro)

lemma createChallenge_move:
  assumes "w_tx w = NoTx" and "createChallenge E S purpose email now action w = (r, w')"
    and "\<And>c. frames (action c)" and "range (o_uuid E) \<subseteq> fresh" and "cv_policy S \<in> P"
  shows "challenge_move P fresh (challenges (w_db w)) (challenges (w_db w'))"
proof (rule with_tx_move [OF assms(1) assms(2) [unfolded createChallenge_def]])
  fix x w1
  let ?new = "new_challenge (cv_policy S) purpose email now (MaxResends (cv_policy S))"
  assume "bnd (CreateChallenge E ?new) (\<lambda>c. bnd (action c) (\<lambda>_. bnd (emailTemplateForPurpose purpose)
     (\<lambda>template. bnd (enqueueChallengeEmail E (ch_id c) email template now (ch_expires_at c))
       (\<lambda>_. ret (ch_id c))))) (open_tx w) = (Inr x, w1)"
  then obtain c u t1 u2 w2 w3 w4 where r: "CreateChallenge E ?new (open_tx w) = (Inr c, w2)"
    "action c w2 = (Inr u, w3)" "emailTemplateForPurpose purpose w3 = (Inr t1, w4)"
    "enqueueChallengeEmail E (ch_id c) email t1 now (ch_expires_at c) w4 = (Inr u2, w1)"
    by (auto simp: runs)
  have "challenges (w_db w1) = challenges (w_db w2)"
    using framesD(1) [OF assms(3) r(2)] emailTemplate_run [OF r(3)]
      framesD(1) [OF frames_enqueueChallengeEmail r(4)] by simp
  with CreateChallenge_move [OF r(1) _ assms(4,5)]
  show "challenge_move P fresh (challenges (w_db w)) (challenges (w_db w1))" by simp
qed

lemma CreateOpaqueChallenge_move:
  assumes "w_tx w = NoTx" and "CreateOpaqueChallenge E S now purpose email w = (r, w')"
    and "range (o_uuid E) \<subseteq> fresh" and "cv_policy S \<in> P"
  shows "challenge_move P fresh (challenges (w_db w)) (challenges (w_db w'))"
  by (rule with_tx_move [OF assms(1) assms(2) [unfolded CreateOpaqueChallenge_def]])
    (use assms(3,4) in \<open>auto simp: runs dest!: CreateChallenge_move [where fresh = fresh and P = P]\<close>)

lemma validate_attempts:
  "validateChallengeForVerify c now = None \<Longrightarrow> ch_consumed_at c = None \<and> now \<le> ch_expires_at c \<and> HasAttemptsRemaining c"
  by (auto simp: validateChallengeForVerify_def IsConsumed_def IsExpired_def split: if_splits)


lemma frames_VerifyCode [frames_intro]: "frames (VerifyCode E C i s now)"
  unfolding VerifyCode_def by (intro frames_intro)

lemma frames_pendingActionUserID [frames_intro]: "frames (pendingActionUserID E c)"
  unfolding pendingActionUserID_def GetPendingEmailChangeByChallengeID_def GetEmailVerificationTransactionByChallengeID_def
  by (intro frames_intro)

lemma frames_lockPendingAction [frames_intro]: "frames (lockPendingActionForResend E c)"
  unfolding lockPendingActionForResend_def by (intro frames_intro)

lemma IncrementAttempt_move:
  assumes "IncrementChallengeAttemptCount E i w = (Inr u, w1)"
    and "find (\<lambda>c. ch_id c = i) (challenges (w_db w)) = Some c0" and "HasAttemptsRemaining c0"
  shows "challenge_move P fresh (challenges (w_db w)) (challenges (w_db w1))"
  using assms by (auto simp: IncrementChallengeAttemptCount_def runs intro!: challenge_move.miss)

lemma ConsumeChallenge_move:
  "ConsumeChallenge E i now w = (r, w1) \<Longrightarrow> challenge_move P fresh (challenges (w_db w)) (challenges (w_db w1))"
  by (cases r) (auto simp: ConsumeChallenge_def require_affected_def exec_count_def exec_def bnd_def guard_err_def
      ret_def fail_def sql_fail_def Let_def split: option.splits if_splits prod.splits sum.splits
      intro: challenge_move.consume challenge_move.stay)

text \<open>What the body of \<open>verifyChallenge\<close> did when it came to a result.\<close>

lemma verify_body_cases:
  assumes "verify_body E i purpose code_text C now before_v after_v w = (Inr q, w')"
  obtains (refused) e where "q = Inl e" and "w_db w' = w_db w" and "\<not> errors_is e (EChallenge ErrInvalidVerificationCode)"
  | (unverified) c a e w1 w2 where "q = Inl e" and "find_challenge i (w_db w) = Some c"
      and "validateChallengeForVerify c now = None" and "ch_purpose c = purpose"
      and "before_v c (tick w) = (Inr a, w1)" and "VerifyCode E C i code_text now w1 = (Inl e, w2)"
      and "if errors_is e (EChallenge ErrInvalidVerificationCode)
           then \<exists>u. IncrementChallengeAttemptCount E i w2 = (Inr u, w') else w' = w2"
  | (raced) c a b w1 w2 w3 where "q = Inl (EChallenge ErrChallengeConsumed)" and "find_challenge i (w_db w) = Some c"
      and "validateChallengeForVerify c now = None" and "ch_purpose c = purpose"
      and "before_v c (tick w) = (Inr a, w1)" and "VerifyCode E C i code_text now w1 = (Inr (), w2)"
      and "after_v a c w2 = (Inr b, w3)" and "ConsumeChallenge E i now w3 = (Inl (EStore ErrorChallengeAlreadyConsumed), w')"
  | (verified) c a b w1 w2 w3 where "q = Inr (c\<lparr>ch_consumed_at := Some now\<rparr>, b)" and "find_challenge i (w_db w) = Some c"
      and "validateChallengeForVerify c now = None" and "ch_purpose c = purpose"
      and "before_v c (tick w) = (Inr a, w1)" and "VerifyCode E C i code_text now w1 = (Inr (), w2)"
      and "after_v a c w2 = (Inr b, w3)" and "ConsumeChallenge E i now w3 = (Inr (), w')"
proof -
  from assms obtain c where c: "find_challenge i (w_db w) = Some c"
    and rest: "(case validateChallengeForVerify c now of
       Some e \<Rightarrow> ret (Inl (EChallenge e))
     | None \<Rightarrow> if ch_purpose c \<noteq> purpose then ret (Inl (EChallenge ErrUnsupportedChallengePurpose))
         else bnd (before_v c) (\<lambda>a. try_bnd (VerifyCode E C i code_text now)
           (\<lambda>e. if errors_is e (EChallenge ErrInvalidVerificationCode)
              then bnd (IncrementChallengeAttemptCount E i) (\<lambda>_. ret (Inl e)) else ret (Inl e))
           (\<lambda>_. bnd (after_v a c) (\<lambda>b. try_bnd (ConsumeChallenge E i now)
              (\<lambda>e. if e = EStore ErrorChallengeAlreadyConsumed
                 then ret (Inl (EChallenge ErrChallengeConsumed)) else fail e)
              (\<lambda>_. ret (Inr (c\<lparr>ch_consumed_at := Some now\<rparr>, b))))))) (tick w) = (Inr q, w')"
    by (auto simp: verify_body_def GetChallengeByIDForUpdate_def runs)
  show ?thesis
  proof (cases "validateChallengeForVerify c now")
    case (Some e)
    then show ?thesis using rest by (intro refused) (auto simp: runs validateChallengeForVerify_def split: if_splits)
  next
    case None
    show ?thesis
    proof (cases "ch_purpose c = purpose")
      case False
      then show ?thesis using rest None by (intro refused) (auto simp: runs)
    next
      case True
      with rest None show ?thesis
        by (auto simp: runs split: if_splits intro: unverified [OF _ c None True] raced [OF _ c None True] verified [OF _ c None True])
    qed
  qed
qed


lemma verify_body_move:
  assumes "verify_body E i purpose code_text C now before_v after_v w = (Inr q, w')"
    and "\<And>c. frames (before_v c)" and "\<And>a c. frames (after_v a c)"
  shows "challenge_move P fresh (challenges (w_db w)) (challenges (w_db w'))"
  using assms(1)
proof (cases rule: verify_body_cases)
  case refused
  then show ?thesis by (simp add: challenge_move.stay)
next
  case (unverified c a e w1 w2)
  have same: "challenges (w_db w2) = challenges (w_db w)"
    using framesD(1) [OF assms(2) unverified(5)] framesD(1) [OF frames_VerifyCode unverified(6)] by simp
  show ?thesis
  proof (cases "errors_is e (EChallenge ErrInvalidVerificationCode)")
    case True
    with unverified(7) obtain u where "IncrementChallengeAttemptCount E i w2 = (Inr u, w')" by auto
    then have "challenge_move P fresh (challenges (w_db w2)) (challenges (w_db w'))"
      using unverified(2) validate_attempts [OF unverified(3)] same
      by (intro IncrementAttempt_move) (auto simp: find_challenge_def)
    with same show ?thesis by simp
  next
    case False
    with unverified(7) same show ?thesis by (simp add: challenge_move.stay)
  qed
next
  case (raced c a b w1 w2 w3)
  have "challenges (w_db w3) = challenges (w_db w)"
    using framesD(1) [OF assms(2) raced(5)] framesD(1) [OF frames_VerifyCode raced(6)]
      framesD(1) [OF assms(3) raced(7)] by simp
  with ConsumeChallenge_move [OF raced(8), of P fresh] show ?thesis by simp
next
  case (verified c a b w1 w2 w3)
  have "challenges (w_db w3) = challenges (w_db w)"
    using framesD(1) [OF assms(2) verified(5)] framesD(1) [OF frames_VerifyCode verified(6)]
      framesD(1) [OF assms(3) verified(7)] by simp
  with ConsumeChallenge_move [OF verified(8), of P fresh] show ?thesis by simp
qed

lemma verifyChallenge_move:
  assumes "w_tx w = NoTx" and "verifyChallenge E i purpose code_text C now before_v after_v w = (r, w')"
    and "\<And>c. frames (before_v c)" and "\<And>a c. frames (after_v a c)"
  shows "challenge_move P fresh (challenges (w_db w)) (challenges (w_db w'))"
proof -
  from assms(2) obtain q where "with_tx E (verify_body E i purpose code_text C now before_v after_v) w = (q, w')"
    by (auto simp: verifyChallenge_def dest: raise_result_world)
  from with_tx_move [OF assms(1) this] verify_body_move [where w = "open_tx w", OF _ assms(3,4)] show ?thesis
    by simp
qed

lemma resend_locked_move:
  assumes "resend_locked E i c now w = (Inr q, w')"
  shows "challenge_move P fresh (challenges (w_db w)) (challenges (w_db w'))"
proof -
  from assms obtain ok w1 where inc: "IncrementChallengeResendCount E i now w = (Inr ok, w1)"
    and rest: "(if \<not> ok then ret (Inl (EChallenge ErrTooManyResends))
     else bnd (emailTemplateForPurpose (ch_purpose c)) (\<lambda>template.
       bnd (enqueueChallengeEmail E i (ch_email c) template now (ch_expires_at c))
         (\<lambda>_. ret (Inr ())))) w1 = (Inr q, w')"
    by (auto simp: resend_locked_def runs)
  have "challenge_move P fresh (challenges (w_db w)) (challenges (w_db w1))"
    using inc by (auto simp: IncrementChallengeResendCount_def runs Let_def intro: challenge_move.resend)
  moreover have "challenges (w_db w') = challenges (w_db w1)"
    using rest by (auto simp: runs split: if_splits
      dest!: framesD(1) [OF frames_enqueueChallengeEmail] emailTemplate_run)
  ultimately show ?thesis by simp
qed

lemma ResendChallenge_move:
  assumes "w_tx w = NoTx" and "ResendChallenge E S i now w = (r, w')"
  shows "challenge_move P fresh (challenges (w_db w)) (challenges (w_db w'))"
proof -
  have lock: "lockPendingActionForResend E c w1 = (x, w2) \<Longrightarrow> challenges (w_db w2) = challenges (w_db w1)" for c w1 x w2
    by (rule framesD(1) [OF frames_lockPendingAction])
  from raise_result_world [OF assms(2) [unfolded ResendChallenge_def]] obtain q
    where "with_tx E (bnd (GetChallengeByIDForUpdate E i) (\<lambda>c.
      case validateChallengeForResend c now (MinimumResendInterval (cv_policy S)) of
        Some e \<Rightarrow> ret (Inl (EChallenge e))
      | None \<Rightarrow> try_bnd (lockPendingActionForResend E c)
          (\<lambda>e. if errors_is e (EChallenge ErrChallengeConsumed) then ret (Inl e) else fail e)
          (\<lambda>_. resend_locked E i c now))) w = (q, w')" by blast
  then show ?thesis
  proof (rule with_tx_move [OF assms(1)])
    fix x w1
    assume "bnd (GetChallengeByIDForUpdate E i) (\<lambda>c.
      case validateChallengeForResend c now (MinimumResendInterval (cv_policy S)) of
        Some e \<Rightarrow> ret (Inl (EChallenge e))
      | None \<Rightarrow> try_bnd (lockPendingActionForResend E c)
          (\<lambda>e. if errors_is e (EChallenge ErrChallengeConsumed) then ret (Inl e) else fail e)
          (\<lambda>_. resend_locked E i c now)) (open_tx w) = (Inr x, w1)"
    then show "challenge_move P fresh (challenges (w_db w)) (challenges (w_db w1))"
      by (auto simp: runs GetChallengeByIDForUpdate_def split: option.splits if_splits
        dest!: lock resend_locked_move [where P = P and fresh = fresh] intro: challenge_move.stay)
  qed
qed

end
