(* ===== verification/Session_Steps.thy ===== *)
theory Session_Steps
  imports Signup_Completion Challenge_Proofs
begin

text \<open>
  The program's steps on \<open>sessions\<close> and \<open>refresh_tokens\<close>: the session service and the
  clean-up, and the operations of every other service that writes the two tables (changed and
  reset passwords, disabled, demoted and deleted users, organizations that are left or deleted,
  the required e-mail verification, the administration and the operator's shell). The latter
  only end sessions; a sign-up by code opens one inside its own transaction.
\<close>

section \<open>What leaves both tables alone\<close>

definition session_tables :: "db \<Rightarrow> session list \<times> refresh_token list" where
  "session_tables d = (sessions d, refresh_tokens d)"

lemma same_sessions_tables: "same_sessions d d' \<longleftrightarrow> session_tables d' = session_tables d"
  by (auto simp: same_sessions_def session_tables_def)

lemma cascades_leave_sessions [simp]:
  "sessions (cascade_invitations p d) = sessions d" "refresh_tokens (cascade_invitations p d) = refresh_tokens d"
  "sessions (cascade_challenges c d) = sessions d" "refresh_tokens (cascade_challenges c d) = refresh_tokens d"
  "sessions (cascade_organization i d) = sessions d" "refresh_tokens (cascade_organization i d) = refresh_tokens d"
  by (simp_all add: cascade_invitations_def cascade_challenges_def cascade_organization_def Let_def)

lemma tables_accounts [leaves_intro]:
  "leaves session_tables (set_password E p u h)" "leaves session_tables (CompareAndSwapPasswordHash E u h h')"
  "leaves session_tables (CreateAuthProvider E ap)" "leaves session_tables (DisableUser E u now)"
  "leaves session_tables (AddUserPlatformRoleByName E u rl)" "leaves session_tables (RemoveUserPlatformRoleByName E u rl)"
  "leaves session_tables (CreateAppleTokenRevocationForUser E i u)" "leaves session_tables (MarkUserEmailVerified E u a now)"
  "leaves session_tables (EnsureAllowedEmail E a)" "leaves session_tables (DeleteAllowedEmail E a)"
  "leaves session_tables (DeletePendingPasswordResetsByUserID E u)" "leaves session_tables (CreateAdminAuditEvent E jb ev)"
  unfolding set_password_def CompareAndSwapPasswordHash_def CreateAuthProvider_def DisableUser_def
    AddUserPlatformRoleByName_def RemoveUserPlatformRoleByName_def CreateAppleTokenRevocationForUser_def
    MarkUserEmailVerified_def EnsureAllowedEmail_def DeleteAllowedEmail_def add_allowed_email_def
    DeletePendingPasswordResetsByUserID_def CreateAdminAuditEvent_def session_tables_def Let_def
  by (intro leaves_intro leaves_exec leaves_exec_upd leaves_exec_count; auto split: if_splits option.splits)+

lemma tables_organizations [leaves_intro]:
  "leaves session_tables (DeleteOrganizationMembership E i u)" "leaves session_tables (store_DeleteOrganization E i)"
  "leaves session_tables (CreateOrganizationMembership E m)"
  "leaves session_tables (MarkOrganizationInvitationAccepted E i u now)"
  "leaves session_tables (exec E (insert_organization nm kd cb))"
  unfolding DeleteOrganizationMembership_def store_DeleteOrganization_def CreateOrganizationMembership_def
    insert_membership_def MarkOrganizationInvitationAccepted_def insert_organization_def session_tables_def Let_def
  by (intro leaves_intro leaves_exec leaves_exec_upd leaves_exec_count; auto split: if_splits option.splits)+

lemma tables_challenges [leaves_intro]:
  "leaves session_tables (UpsertEmailVerificationTransaction E v)"
  "leaves session_tables (IncrementChallengeAttemptCount E i)" "leaves session_tables (ConsumeChallenge E i now)"
  unfolding UpsertEmailVerificationTransaction_def IncrementChallengeAttemptCount_def ConsumeChallenge_def
    session_tables_def Let_def
  by (intro leaves_intro leaves_exec leaves_exec_upd leaves_exec_count; auto split: if_splits option.splits)+

lemma tables_services [leaves_intro]:
  "leaves session_tables (Enqueue E to tpl dat now)" "leaves session_tables (recordCredential E rc ty ce)"
  "leaves session_tables (recordAuthentication E rc ty ae)"
  by (auto simp: leaves_def session_tables_def intro!: keeps_Enqueue keeps_recorders keeps_intro)

lemma tables_erase [leaves_intro]: "leaves session_tables (DeleteUserEmailReferences E u a)"
  unfolding DeleteUserEmailReferences_def session_tables_def Let_def
  by (intro leaves_intro leaves_exec leaves_exec_upd) (auto split: if_splits)

lemma tables_publish:
  "events_only pub \<Longrightarrow> leaves session_tables (pub evt)"
  by (rule events_only_leaves) (simp_all add: session_tables_def)

section \<open>Statements that end sessions\<close>

lemma curtails_leaves: "leaves session_tables m \<Longrightarrow> keeps (curtails d0) m"
  by (rule keepsI) (metis curtails_same same_sessions_tables leavesD)

lemma curtail_updates [keeps_intro]:
  "keeps (curtails d0) (RevokeAllSessionsForUser E u now)" "keeps (curtails d0) (RevokeOtherSessionsByUserID E u s now)"
  "keeps (curtails d0) (store_RevokeSession E s now)"
  "keeps (curtails d0) (DeleteSessionsByOrganizationMembership E i u)" "keeps (curtails d0) (DeleteSessionsByOrganization E i)"
  unfolding RevokeAllSessionsForUser_def RevokeOtherSessionsByUserID_def store_RevokeSession_def
    DeleteSessionsByOrganizationMembership_def DeleteSessionsByOrganization_def
  by (rule keeps_exec_upd, erule curtails.revoke curtails.drop_sessions, rule same_sessions_refl)+

lemma curtail_tokens [keeps_intro]:
  "keeps (curtails d0) (DeleteRefreshTokensByUserID E u)" "keeps (curtails d0) (DeleteRefreshTokensBySession E s)"
  "keeps (curtails d0) (DeleteRefreshTokensForOtherSessions E u s)"
  unfolding DeleteRefreshTokensByUserID_def DeleteRefreshTokensBySession_def DeleteRefreshTokensForOtherSessions_def
  by (rule keeps_exec_upd, erule curtails.drop_tokens, rule same_sessions_refl)+

lemma curtail_counts [keeps_intro]:
  "keeps (curtails d0) (RevokeAllActiveSessionsForUser E u now)" "keeps (curtails d0) (RevokeSessionByIDAndUserID E s u now)"
  unfolding RevokeAllActiveSessionsForUser_def RevokeSessionByIDAndUserID_def Let_def
  by (intro keeps_require_affected keeps_exec_count, simp, erule curtails.revoke, rule same_sessions_refl)+

lemma curtail_reauthentication [keeps_intro]: "keeps (curtails d0) (UpdateSessionAuthentication E u s meth now)"
  unfolding UpdateSessionAuthentication_def Let_def
  by (intro keeps_require_affected keeps_exec)
    (auto simp: provenance_ok_def list_ex_iff upd_where_none split: if_splits
      elim: curtails.reauthenticate [OF _ _ same_sessions_refl])

lemma cascade_user_sessions: "same_sessions (cascade_sessions (\<lambda>r. ses_user r = u) d) (cascade_user u d)"
  by (simp add: same_sessions_def cascade_user_def cascade_providers_def Let_def)

lemma curtail_user [keeps_intro]: "keeps (curtails d0) (store_DeleteUser E u)"
  unfolding store_DeleteUser_def
  by (rule keeps_exec) (auto split: if_splits intro: curtails.drop_sessions cascade_user_sessions)

section \<open>Services that end sessions\<close>

lemma tables_locks [leaves_intro]:
  "leaves f (GetSessionByID E s)" "leaves f (GetActiveSessionByIDForUpdate E s now)"
  "leaves f (ListActiveSessionsByUserID E u now)" "leaves f (GetChallengeByIDForUpdate E c)"
  "leaves f (GetPendingPasswordResetByChallengeID E c)" "leaves f (VerifyCode E C i code_text now)"
  by (simp_all add: leaves_def keeps_intro GetSessionByID_def GetActiveSessionByIDForUpdate_def
      ListActiveSessionsByUserID_def ListActiveSessionsPageByUserID_def GetChallengeByIDForUpdate_def GetPendingPasswordResetByChallengeID_def
      VerifyCode_def GetVerificationCodeByChallengeID_def)

lemma tables_publishing:
  assumes "events_only (as_publish A)" and "leaves session_tables mk"
  shows "leaves session_tables (auth_publish A mk)"
  unfolding auth_publish_def by (intro leaves_intro tables_publish assms)

lemma tables_org_publishing:
  assumes "events_only (os_publish S)" and "leaves session_tables mk"
  shows "leaves session_tables (publish_event S mk)"
  unfolding publish_event_def by (intro leaves_intro tables_publish assms)

lemma curtail_ChangePassword: "keeps (curtails d0) (ChangePassword E A u s pw h)"
  unfolding ChangePassword_def auth_enqueuePasswordChanged_def CredentialPasswordChanged_def UpdatePasswordHash_def Let_def
  by (intro keeps_intro; rule curtails_leaves; intro leaves_intro)

lemma curtail_SetPassword: "events_only (as_publish A) \<Longrightarrow> keeps (curtails d0) (SetPassword E A u h now)"
  unfolding SetPassword_def auth_enqueuePasswordChanged_def CredentialPasswordAdded_def Let_def
  by (intro keeps_intro; rule curtails_leaves; intro leaves_intro tables_publishing; assumption?)

lemma curtail_auth_DisableUser: "events_only (as_publish A) \<Longrightarrow> keeps (curtails d0) (auth_DisableUser E A u)"
  unfolding auth_DisableUser_def
  by (intro keeps_intro; rule curtails_leaves; intro leaves_intro tables_publishing; assumption?)

lemma curtail_admin_sessions:
  "keeps (curtails d0) (RevokeAdmin E T actor u rq)" "keeps (curtails d0) (admin_RevokeUserSession E T actor u s rq)"
  "keeps (curtails d0) (RevokeAllUserSessions E T actor u rq)"
  unfolding RevokeAdmin_def admin_RevokeUserSession_def RevokeAllUserSessions_def enqueueAdminAccessChanged_def
    require_other_admin_def audit_def Let_def
  by (intro keeps_intro; rule curtails_leaves; intro leaves_intro)+

lemma curtail_admin_DisableUser:
  assumes "events_only (adm_publish T)"
  shows "keeps (curtails d0) (admin_DisableUser E T actor u rq)"
  unfolding admin_DisableUser_def require_other_admin_def audit_def
  by (intro keeps_intro; rule curtails_leaves; intro leaves_intro tables_publish assms)

lemma curtail_shell: "keeps (curtails d0) (executeOperationalCommand E R command)"
  unfolding executeOperationalCommand_def executeRoleCommand_def revoke_role_def findOperationalUser_def
    executeAllowlistCommand_def
  by (intro keeps_intro; rule curtails_leaves; intro leaves_intro)

lemma curtail_organization:
  assumes "events_only (os_publish S)"
  shows "keeps (curtails d0) (removeOrganizationMembership E S org m now notify)"
    "keeps (curtails d0) (deleteOrganization E S org ms now notify)"
  unfolding removeOrganizationMembership_def deleteOrganization_def
  by (intro keeps_intro; rule curtails_leaves; intro leaves_intro tables_org_publishing assms)+

lemma curtail_RemoveOrganizationMember:
  assumes "events_only (os_publish S)"
  shows "keeps (curtails d0) (RemoveOrganizationMember E S i u actor)"
  unfolding RemoveOrganizationMember_def actor_membership_def Let_def
  by (intro keeps_intro curtail_organization assms; rule curtails_leaves; intro leaves_intro)

lemma curtail_DeleteOrganization:
  assumes "events_only (os_publish S)"
  shows "keeps (curtails d0) (DeleteOrganization E S i actor)"
  unfolding DeleteOrganization_def actor_membership_def Let_def
  by (intro keeps_intro curtail_organization assms; rule curtails_leaves; intro leaves_intro)

lemma curtail_PrepareUserDeletion:
  assumes "events_only (os_publish S)"
  shows "keeps (curtails d0) (PrepareUserDeletion E S u)"
  unfolding PrepareUserDeletion_def Let_def
  by (intro keeps_intro curtail_organization assms; rule curtails_leaves; intro leaves_intro)

lemma curtail_DeleteUser:
  assumes "events_only (as_publish A)" and "events_only (os_publish (as_organizations A))"
  shows "keeps (curtails d0) (auth_DeleteUser E A u)"
  unfolding auth_DeleteUser_def require_other_admin_def
  by (intro keeps_intro curtail_PrepareUserDeletion assms; rule curtails_leaves; intro leaves_intro tables_publishing assms)

lemma curtail_verify:
  assumes "\<And>c. keeps (curtails d0) (bv c)" and "\<And>a c. keeps (curtails d0) (av a c)"
  shows "keeps (curtails d0) (verifyChallenge E i purpose s C now bv av)"
  unfolding verifyChallenge_def verify_body_def
  by (intro keeps_intro assms; rule curtails_leaves; intro leaves_intro)

lemma curtail_CompletePasswordReset: "keeps (curtails d0) (CompletePasswordResetChallenge E S i s C now)"
  unfolding CompletePasswordResetChallenge_def reset_after_def executePasswordReset_def
    requirePasswordResetEligibility_def CredentialPasswordReset_def UpdatePasswordHash_def Let_def
  by (intro keeps_intro curtail_verify; rule curtails_leaves; intro leaves_intro)

lemma curtail_BeginVerification: "keeps (curtails d0) (BeginRequiredEmailVerification E S u s aud rt now)"
  unfolding BeginRequiredEmailVerification_def
  by (intro keeps_intro; rule curtails_leaves; intro leaves_intro)

section \<open>A sign-up by code\<close>

lemma tables_same: "leaves session_tables m \<Longrightarrow> m w = (r, w') \<Longrightarrow> same_sessions (w_db w) (w_db w')"
  by (simp add: same_sessions_tables leavesD)

text \<open>What the committed transaction of a verification did to the two tables.\<close>

lemma verified_effect:
  assumes "w_tx w = NoTx" and "verifyChallenge E i purpose s C now (\<lambda>_. ret ()) (\<lambda>_. av) w = (r, w')"
    and "\<And>c b w2 w3. av c w2 = (Inr b, w3) \<Longrightarrow> same_sessions (w_db w) (w_db w2) \<Longrightarrow>
      \<exists>d1 u pk aud meth a t. same_sessions (w_db w) d1 \<and> session_opened E S u pk aud meth now a t d1 (w_db w3)"
    and "A E S"
  shows "session_effect A (w_db w) (w_db w')"
proof -
  have same: "session_effect A d d'" if "same_sessions d d'" for d d'
    using that by (intro unchanged) (simp_all add: same_sessions_def)
  have opened: "session_effect A (w_db w) d'"
    if "av c w2 = (Inr b, w3)" "same_sessions (w_db w) (w_db w2)" "same_sessions (w_db w3) d'" for c b w2 w3 d'
    using assms(3) [OF that(1,2)] that(3) signed_up [of A E S, rule_format, OF assms(4)] by blast
  let ?body = "verify_body E i purpose s C now (\<lambda>_. ret ()) (\<lambda>_. av)"
  obtain p where p: "with_tx E ?body w = (p, w')"
    using assms(2) by (auto simp: verifyChallenge_def dest: raise_result_world)
  show ?thesis
  proof (cases p)
    case (Inl e)
    with p with_tx_error_rolls_back(1) [OF assms(1)] have "w_db w' = w_db w" by blast
    then show ?thesis by (simp add: same)
  next
    case (Inr q)
    with p obtain w1 where w1: "?body (open_tx w) = (Inr q, w1)" and db: "w_db w' = w_db w1"
      by (auto simp: with_tx_run [OF assms(1)])
    from w1 show ?thesis
    proof (cases rule: verify_body_cases)
      case refused
      then show ?thesis by (simp add: db same)
    next
      case (unverified c a e w2 w3)
      have "same_sessions (w_db w) (w_db w3)"
        using unverified(5) tables_same [OF tables_locks(6) unverified(6)] by (auto simp: ret_def)
      moreover have "same_sessions (w_db w3) (w_db w1)"
        using unverified(7) by (auto dest!: tables_same [OF tables_challenges(2)] split: if_splits)
      ultimately show ?thesis unfolding db by (intro same) (rule same_sessions_trans)
    next
      case (raced c a b w2 w3 w4)
      have "same_sessions (w_db w) (w_db w3)"
        using raced(5) tables_same [OF tables_locks(6) raced(6)] by (auto simp: ret_def)
      then show ?thesis unfolding db
        by (rule opened [OF raced(7)]) (rule tables_same [OF tables_challenges(3) raced(8)])
    next
      case (verified c a b w2 w3 w4)
      have "same_sessions (w_db w) (w_db w3)"
        using verified(5) tables_same [OF tables_locks(6) verified(6)] by (auto simp: ret_def)
      then show ?thesis unfolding db
        by (rule opened [OF verified(7)]) (rule tables_same [OF tables_challenges(3) verified(8)])
    qed
  qed
qed

lemma sign_up_effect:
  assumes "A E S" and "w_tx w = NoTx" and "events_only (as_publish T)" and "events_only (os_publish (as_organizations T))"
    and "VerifySignupChallenge E i s C now (complete_signup_api E T S ua now ip) w = (r, w')"
  shows "session_effect A (w_db w) (w_db w')"
proof (rule verified_effect [OF assms(2) assms(5) [unfolded VerifySignupChallenge_def]])
  fix c b w2 w3
  assume run: "bnd (GetPendingSignupActionByChallengeID E (ch_id c))
      (\<lambda>action. bnd (complete_signup_api E T S ua now ip action) (\<lambda>_. ret action)) w2 = (Inr b, w3)"
    and same: "same_sessions (w_db w) (w_db w2)"
  then have "complete_signup_api E T S ua now ip b (tick w2) = (Inr (), w3)"
    by (auto simp: GetPendingSignupActionByChallengeID_def runs)
  from complete_signup_api_opens [OF assms(3,4) this] same
  show "\<exists>d1 u pk aud meth a t. same_sessions (w_db w) d1 \<and> session_opened E S u pk aud meth now a t d1 (w_db w3)"
    unfolding tick_sel by (blast intro: same_sessions_trans)
qed (rule assms(1))

section \<open>The steps\<close>

text \<open>
  One rule per operation that writes the two tables: those of the session service and of the
  maintenance jobs first, then those of the other services, with any publisher that writes
  events only. The last rule stands for every run that leaves both tables alone. \<open>A\<close> says in
  which environments and under which configurations of the session service tokens are issued;
  the configuration may change from call to call.
\<close>

inductive session_step :: "(env \<Rightarrow> service \<Rightarrow> bool) \<Rightarrow> db \<Rightarrow> db \<Rightarrow> bool" for A where
  create: "A E S \<Longrightarrow> w_tx w = NoTx \<Longrightarrow>
     CreateSession E S u aud meth ua now ip w = (r, w') \<Longrightarrow> session_step A (w_db w) (w_db w')"
| create_passkey: "A E S \<Longrightarrow> w_tx w = NoTx \<Longrightarrow>
     CreatePasskeySession E S u pk aud ua now ip w = (r, w') \<Longrightarrow> session_step A (w_db w) (w_db w')"
| sign_up: "A E S \<Longrightarrow> w_tx w = NoTx \<Longrightarrow> events_only (as_publish T) \<Longrightarrow> events_only (os_publish (as_organizations T)) \<Longrightarrow>
     VerifySignupChallenge E i s C now (complete_signup_api E T S ua now ip) w = (rp, w') \<Longrightarrow> session_step A (w_db w) (w_db w')"
| switch: "A E S \<Longrightarrow> w_tx w = NoTx \<Longrightarrow>
     SwitchSessionOrganization E S u i oid aud now w = (r, w') \<Longrightarrow> session_step A (w_db w) (w_db w')"
| refresh: "A E S \<Longrightarrow> w_tx w = NoTx \<Longrightarrow>
     RefreshSession E S tok aud now w = (r, w') \<Longrightarrow> session_step A (w_db w) (w_db w')"
| logout: "w_tx w = NoTx \<Longrightarrow> Logout E S tok acc w = (r', w') \<Longrightarrow> session_step A (w_db w) (w_db w')"
| revoke_all: "w_tx w = NoTx \<Longrightarrow> RevokeAllSessions E S u w = (r', w') \<Longrightarrow> session_step A (w_db w) (w_db w')"
| revoke_one: "w_tx w = NoTx \<Longrightarrow>
     RevokeUserSession E S u i now w = (r', w') \<Longrightarrow> session_step A (w_db w) (w_db w')"
| revoke_others: "w_tx w = NoTx \<Longrightarrow>
     RevokeOtherUserSessions E S u i now w = (r', w') \<Longrightarrow> session_step A (w_db w) (w_db w')"
| mark: "MarkRecentlyAuthenticated E u i meth now w = (r', w') \<Longrightarrow> session_step A (w_db w) (w_db w')"
| complete: "w_tx w = NoTx \<Longrightarrow>
     CompleteAuthenticationChallenge E S u i c meth now w = (r', w') \<Longrightarrow> session_step A (w_db w) (w_db w')"
| start: "w_tx w = NoTx \<Longrightarrow>
     StartAuthenticationChallenge E u i now w = (rc, w') \<Longrightarrow> session_step A (w_db w) (w_db w')"
| expire_tokens: "DeleteExpiredRefreshTokens E now n w = (rn, w') \<Longrightarrow> session_step A (w_db w) (w_db w')"
| expire_sessions: "DeleteExpiredSessions E now n w = (rn, w') \<Longrightarrow> session_step A (w_db w) (w_db w')"
| purge_revoked: "DeleteRevokedSessions E n w = (rn, w') \<Longrightarrow> session_step A (w_db w) (w_db w')"
| change_password: "ChangePassword E T u i pw h w = (r', w') \<Longrightarrow> session_step A (w_db w) (w_db w')"
| set_password: "events_only (as_publish T) \<Longrightarrow>
     SetPassword E T u h now w = (r', w') \<Longrightarrow> session_step A (w_db w) (w_db w')"
| disable_account: "events_only (as_publish T) \<Longrightarrow>
     auth_DisableUser E T u w = (r', w') \<Longrightarrow> session_step A (w_db w) (w_db w')"
| delete_account: "events_only (as_publish T) \<Longrightarrow> events_only (os_publish (as_organizations T)) \<Longrightarrow>
     auth_DeleteUser E T u w = (r', w') \<Longrightarrow> session_step A (w_db w) (w_db w')"
| reset_password: "CompletePasswordResetChallenge E V i s C now w = (r', w') \<Longrightarrow> session_step A (w_db w) (w_db w')"
| begin_verification: "BeginRequiredEmailVerification E V u i aud url now w = (rv, w') \<Longrightarrow> session_step A (w_db w) (w_db w')"
| remove_member: "events_only (os_publish B) \<Longrightarrow>
     RemoveOrganizationMember E B oid u u' w = (r', w') \<Longrightarrow> session_step A (w_db w) (w_db w')"
| delete_organization: "events_only (os_publish B) \<Longrightarrow>
     DeleteOrganization E B oid u w = (r', w') \<Longrightarrow> session_step A (w_db w) (w_db w')"
| demote: "RevokeAdmin E D actor u rq w = (r', w') \<Longrightarrow> session_step A (w_db w) (w_db w')"
| disable_user: "events_only (adm_publish D) \<Longrightarrow>
     admin_DisableUser E D actor u rq w = (r', w') \<Longrightarrow> session_step A (w_db w) (w_db w')"
| end_session: "admin_RevokeUserSession E D actor u i rq w = (r', w') \<Longrightarrow> session_step A (w_db w) (w_db w')"
| end_sessions: "RevokeAllUserSessions E D actor u rq w = (r', w') \<Longrightarrow> session_step A (w_db w) (w_db w')"
| shell: "executeOperationalCommand E R command w = (rs, w') \<Longrightarrow> session_step A (w_db w) (w_db w')"
| elsewhere: "same_sessions d d' \<Longrightarrow> session_step A d d'"

lemma ended_by: "(\<And>d0. keeps (curtails d0) m) \<Longrightarrow> m w = (r, w') \<Longrightarrow> session_effect A (w_db w) (w_db w')"
  by (rule ended) (metis keepsD curtails.same same_sessions_refl)

theorem session_step_refines:
  assumes "session_step A d d'"
  shows "session_effect A d d'"
  using assms
proof (cases rule: session_step.cases)
  case create
  then show ?thesis by (auto simp: CreateSession_def CreatePasskeySession_def intro: createSession_effect)
next
  case create_passkey
  then show ?thesis by (auto simp: CreateSession_def CreatePasskeySession_def intro: createSession_effect)
next
  case sign_up
  then show ?thesis by (auto intro: sign_up_effect)
next
  case switch
  then show ?thesis by (auto intro: SwitchSessionOrganization_effect)
next
  case refresh
  then show ?thesis by (auto intro: RefreshSession_effect)
next
  case logout
  then show ?thesis by (auto intro: challenge_effects(1))
next
  case revoke_all
  then show ?thesis by (auto intro: RevokeAllSessions_effect)
next
  case revoke_one
  then show ?thesis by (auto intro: RevokeUserSession_effect)
next
  case revoke_others
  then show ?thesis by (auto intro: RevokeOtherUserSessions_effect)
next
  case mark
  then show ?thesis by (auto intro: challenge_effects(2))
next
  case complete
  then show ?thesis by (auto intro: challenge_effects(3))
next
  case start
  then show ?thesis by (auto intro: challenge_effects(4))
next
  case expire_tokens
  then show ?thesis by (auto intro: cleanup_effects(1))
next
  case expire_sessions
  then show ?thesis by (auto intro: cleanup_effects(2))
next
  case purge_revoked
  then show ?thesis by (auto intro: cleanup_effects(3))
next
  case elsewhere
  then show ?thesis by (intro unchanged) (simp_all add: same_sessions_def)
qed (auto intro: ended_by curtail_ChangePassword curtail_SetPassword curtail_auth_DisableUser curtail_DeleteUser
    curtail_CompletePasswordReset curtail_BeginVerification curtail_RemoveOrganizationMember
    curtail_DeleteOrganization curtail_admin_sessions curtail_admin_DisableUser curtail_shell)

section \<open>Runs\<close>

lemma steps_keep_revoked:
  assumes "(session_step A)\<^sup>*\<^sup>* d d'" and "revoked_in i d" and "\<And>E S. A E S \<Longrightarrow> i \<notin> range (o_uuid E)"
  shows "revoked_in i d'"
  using assms(1,2)
  by (induction rule: rtranclp_induct)
     (auto intro: effect_keeps_revoked [OF session_step_refines _ assms(3)])

lemma steps_keep_spent:
  assumes "(session_step A)\<^sup>*\<^sup>* d d'" and "spent_in h d" and "\<And>E S. A E S \<Longrightarrow> never_issues h E"
  shows "spent_in h d'"
  using assms(1,2)
  by (induction rule: rtranclp_induct)
     (auto intro: effect_keeps_spent [OF session_step_refines _ assms(3)])

lemma steps_keep_wf:
  assumes "(session_step A)\<^sup>*\<^sup>* d d'" and "session_wf d"
    and "\<And>E S. A E S \<Longrightarrow> RefreshTokenTTL (svc_policy S) \<le> SessionTTL (svc_policy S)"
  shows "session_wf d'"
  using assms(1,2)
  by (induction rule: rtranclp_induct)
     (auto intro: session_effect_wf [OF session_step_refines _ assms(3)])

end
