(* ===== verification/Session_Safety.thy ===== *)
theory Session_Safety
  imports Session_Steps Demo
begin

text \<open>
  Properties of whole runs of the session service: every call is an effect of the abstract
  machine, the tables stay well formed, and what was revoked or spent never comes back.
\<close>

lemmas revocation_eval = RevokeSessionTokens_def revokeScope_def NewAccessTokenRevocations_def
  AccessTokenRevocationModeExpiry_def cache_SetMaxInt64_def setMaxInt64Script_def redis_GET_def redis_PTTL_def
  live_def redis_SET_PX_def AccessTokenRevocationMarkerTTL_def MaxAccessTokenTTL_def milliseconds_def
  hour_def minute_def second_def store_RevokeSession_def revoke_sessions_def DeleteRefreshTokensBySession_def
  del_where_def SessionRevoked_def SessionLogout_def recordSession_def

section \<open>Refinement and invariant\<close>

lemma demo_refresh_run:
  obtains w' where "RefreshSession demo_env demo_service ''r1'' AudienceApp 6000 demo_world
    = (Inr (''jwt'', ''bmV3''), w')"
  using demo_refresh by (metis prod.collapse)

lemma demo_refresh_step:
  assumes "RefreshSession demo_env demo_service ''r1'' AudienceApp 6000 demo_world = (r, w')"
    and "A demo_env demo_service"
  shows "session_step A demo_db (w_db w')"
  using session_step.refresh [of A demo_env demo_service demo_world] assms by (simp add: demo_world_def)

lemma demo_wf: "session_wf demo_db"
  by (simp add: session_wf_def sessions_ok_def tokens_ok_def token_ok_def one_live_token_def provenance_ok_def
      known_methods_def demo_defs)



text \<open>
  C9. Invariant of the two tables under every sequence of the operations of C10 (and of whatever
  leaves the tables alone), as long as every configuration in force gives refresh tokens a life no
  longer than that of sessions, which \<open>config\<close> checks: session ids, token ids and token
  hashes are unique, every session has a consistent provenance, every refresh token belongs to a
  stored session, carries its active organization and does not outlive it, and no session has two
  unconsumed refresh tokens.
\<close>

theorem session_tables_invariant:
  assumes "(session_step A)\<^sup>*\<^sup>* d d'" and "session_wf d"
    and "\<And>E S. A E S \<Longrightarrow> RefreshTokenTTL (svc_policy S) \<le> SessionTTL (svc_policy S)"
  shows "session_wf d'"
  using assms by (rule steps_keep_wf)

theorem session_tables_invariant_witness:
  "\<exists>w'. RefreshSession demo_env demo_service ''r1'' AudienceApp 6000 demo_world = (Inr (''jwt'', ''bmV3''), w')
     \<and> session_wf (w_db w')"
proof (rule demo_refresh_run)
  fix w'
  assume run: "RefreshSession demo_env demo_service ''r1'' AudienceApp 6000 demo_world = (Inr (''jwt'', ''bmV3''), w')"
  have "(session_step (\<lambda>E S. S = demo_service))\<^sup>*\<^sup>* demo_db (w_db w')"
    by (rule r_into_rtranclp, rule demo_refresh_step [OF run]) simp
  from session_tables_invariant [OF this demo_wf] run show ?thesis
    by (simp add: demo_service_def demo_policy_def)
qed

section \<open>Revoked and spent\<close>

lemma refreshed_parts:
  assumes "session_refreshed E S refreshToken audience now a r d d'"
  obtains rt s where "find_token (hashRefreshToken E refreshToken) d = Some rt" and "rt_consumed_at rt = None"
    and "find_session (rt_session rt) d = Some s" and "ses_revoked_at s = None"
  using assms by (auto simp: session_refreshed_def refreshable_def)

lemma refresh_InrD:
  assumes "RefreshSession E S tok aud now w = (Inr (a, r), w')" and "w_tx w = NoTx"
  shows "session_refreshed E S tok aud now a r (w_db w) (w_db w')"
  using wp_RefreshSession [OF assms(2), of E S tok aud now] assms(1) by (auto dest: wp_value)

text \<open>
  C2. A revoked session never yields tokens again: after any sequence of the operations of C10
  (sign-ins, password changes and resets, administration, clean-up, and whatever leaves the two
  tables alone, under any configurations), a refresh with a refresh token of a session that was
  revoked is refused, as long as no environment of the run generates the session's UUID again.
\<close>

theorem revoked_session_never_refreshes:
  assumes "revoked_in sessionID d" and "(session_step A)\<^sup>*\<^sup>* d (w_db w)"
    and "\<And>E S. A E S \<Longrightarrow> sessionID \<notin> range (o_uuid E)" and "w_tx w = NoTx"
    and "find_token (hashRefreshToken E refreshToken) (w_db w) = Some rt" and "rt_session rt = sessionID"
  shows "\<exists>e w'. RefreshSession E S refreshToken audience now w = (Inl e, w')"
proof (cases "RefreshSession E S refreshToken audience now w")
  case (Pair r w')
  show ?thesis
  proof (cases r)
    case (Inr ar)
    obtain a r' where ar: "ar = (a, r')" by (cases ar)
    have "revoked_in sessionID (w_db w)" using steps_keep_revoked [OF assms(2,1,3)] .
    moreover obtain s where "find_session sessionID (w_db w) = Some s" "ses_revoked_at s = None"
      using refreshed_parts [OF refresh_InrD [OF Pair [unfolded Inr ar] assms(4)]] assms(5,6) by (metis option.inject)
    ultimately show ?thesis by (auto simp: revoked_in_def dest!: find_sessionD)
  qed (use Pair in simp)
qed

text \<open>Logging out, signing in again, and coming back with the old refresh token.\<close>

definition later_env :: env where
  "later_env = demo_env\<lparr>o_uuid := \<lambda>_. 77\<rparr>"

lemma demo_logout:
  obtains w' where "Logout demo_env demo_service ''r1'' '''' demo_world = (Inr (), w')"
    and "logged_out demo_env demo_service ''r1'' demo_world w'"
proof -
  have "fst (logout_refresh demo_env demo_service ''r1'' demo_world) = Inr True"
    by (simp add: logout_refresh_def Let_def eval_defs demo_defs session_store_eval session_eval
        revocation_eval)
  then obtain w' where run: "logout_refresh demo_env demo_service ''r1'' demo_world = (Inr True, w')"
    by (metis prod.collapse)
  have "logged_out demo_env demo_service ''r1'' demo_world w'"
    using wp_value [OF wp_logout_refresh run] by (simp add: demo_world_def)
  moreover have "Logout demo_env demo_service ''r1'' '''' demo_world = (Inr (), w')"
    by (simp add: Logout_def bnd_def run ret_def)
  ultimately show ?thesis using that by blast
qed

lemma logged_out_demo:
  assumes "logged_out demo_env demo_service ''r1'' demo_world w'"
  shows "revoked_in 30 (w_db w')" and "refresh_tokens (w_db w') = [demo_token]"
proof -
  obtain t t0 where eq: "core (w_db w') = core (revoke_sessions (\<lambda>r. ses_id r = 30) t t0 demo_db)"
    using assms
    by (auto simp: logged_out_def sessions_revoked_def demo_world_def demo_db_def find_token_def demo_token_def
        hashRefreshToken_def demo_env_def)
  show "revoked_in 30 (w_db w')" and "refresh_tokens (w_db w') = [demo_token]"
    using core_eqD(7,8) [OF eq] by (auto simp: revoked_in_def revoke_sessions_def demo_db_def demo_session_def)
qed

theorem revoked_session_never_refreshes_witness:
  "\<exists>w1 t w2 e w3. Logout demo_env demo_service ''r1'' '''' demo_world = (Inr (), w1)
     \<and> CreateSession later_env demo_service 10 AudienceApp AuthenticationMethodPassword ''ua'' 7000 ''::1''
         (w1\<lparr>w_tx := NoTx\<rparr>) = (t, w2)
     \<and> RefreshSession demo_env demo_service ''r1'' AudienceApp 8000 (w2\<lparr>w_tx := NoTx\<rparr>) = (Inl e, w3)"
proof (rule demo_logout)
  fix w1
  assume out: "Logout demo_env demo_service ''r1'' '''' demo_world = (Inr (), w1)"
    and eff: "logged_out demo_env demo_service ''r1'' demo_world w1"
  obtain t w2 where login: "createSession later_env demo_service 10 None AudienceApp AuthenticationMethodPassword
      ''ua'' 7000 ''::1'' (w1\<lparr>w_tx := NoTx\<rparr>) = (t, w2)" by fastforce
  let ?A = "\<lambda>E S. E = later_env"
  have "(session_step ?A)\<^sup>*\<^sup>* (w_db w1) (w_db w2)"
    using session_step.create [of ?A later_env demo_service "w1\<lparr>w_tx := NoTx\<rparr>"] login
    by (auto simp: CreateSession_def)
  moreover have "find_token (hashRefreshToken demo_env ''r1'') (w_db w2) = Some demo_token"
  proof -
    have "\<exists>ts. refresh_tokens (w_db w2) = demo_token # ts"
    proof (cases t)
      case (Inl e)
      with wp_error [OF wp_createSession login [unfolded Inl]] logged_out_demo(2) [OF eff]
      show ?thesis by (auto dest: core_eqD(8))
    next
      case (Inr ar)
      with wp_value [OF wp_createSession login [unfolded Inr]] logged_out_demo(2) [OF eff]
      show ?thesis by (cases ar) (auto simp: session_opened_def dest: core_eqD(8))
    qed
    then show ?thesis
      by (auto simp: find_token_def demo_token_def hashRefreshToken_def demo_env_def)
  qed
  ultimately have "\<exists>e w3. RefreshSession demo_env demo_service ''r1'' AudienceApp 8000 (w2\<lparr>w_tx := NoTx\<rparr>) = (Inl e, w3)"
    using revoked_session_never_refreshes [OF logged_out_demo(1) [OF eff], of ?A "w2\<lparr>w_tx := NoTx\<rparr>"]
    by (simp add: later_env_def demo_token_def)
  with out login show ?thesis by (auto simp: CreateSession_def)
qed

lemma rotation_spends:
  assumes wf: "session_wf d" and ref: "session_refreshed E S tok aud now a r d d'" and "r \<noteq> tok"
  shows "spent_in (hashRefreshToken E tok) d'"
proof -
  obtain rt s where rt: "find_token (hashRefreshToken E tok) d = Some rt"
    and eff: "if shouldRotate rt now (RefreshTokenRotation (svc_policy S))
         then (\<exists>t. let ts = upd_where (\<lambda>r. rt_id r = rt_id rt \<and> rt_consumed_at r = None)
                     (\<lambda>r. r\<lparr>rt_consumed_at := Some now\<rparr>) (refresh_tokens d) in
              fresh_token E S s (rt_org rt) now r t ts
              \<and> core d' = core (d\<lparr>refresh_tokens := ts @ [t]\<rparr>))
         else r = tok \<and> core d' = core d"
    using ref unfolding session_refreshed_def refreshable_def by blast
  let ?ts = "upd_where (\<lambda>r. rt_id r = rt_id rt \<and> rt_consumed_at r = None)
                     (\<lambda>r. r\<lparr>rt_consumed_at := Some now\<rparr>) (refresh_tokens d)"
  from eff \<open>r \<noteq> tok\<close> obtain t where t: "fresh_token E S s (rt_org rt) now r t ?ts"
    and d': "refresh_tokens d' = ?ts @ [t]"
    by (auto simp: Let_def dest: core_eqD(8) split: if_splits)
  have rt: "rt \<in> set (refresh_tokens d)" "rt_hash rt = hashRefreshToken E tok"
    using find_tokenD [OF rt] by blast+
  have only: "u = rt" if "u \<in> set (refresh_tokens d)" "rt_hash u = hashRefreshToken E tok" for u
    using wf that rt unfolding session_wf_def tokens_ok_def by (metis distinct_map inj_onD)
  have "rt_hash rt \<in> rt_hash ` set ?ts"
    unfolding set_upd_where image_image by (rule image_eqI [OF _ rt(1)]) simp
  then have "rt_hash t \<noteq> hashRefreshToken E tok"
    using t rt(2) by (auto simp: fresh_token_def)
  with only d' show ?thesis by (auto simp: spent_in_def set_upd_where)
qed

text \<open>
  C3. A refresh token is good for one rotation: once a refresh handed out a different token, the
  old one is refused for ever, by every configuration, audience and time, after any sequence of
  the operations of C10 (password changes and resets, administration, deletion of the user,
  clean-up, and whatever leaves the two tables alone), as long as no new token's hash collides
  with its hash and the tables were well formed.
\<close>

theorem rotated_token_is_spent:
  assumes "session_wf (w_db w)" and "w_tx w = NoTx"
    and "RefreshSession E S refreshToken audience now w = (Inr (accessToken, newToken), w1)"
    and "newToken \<noteq> refreshToken"
    and "(session_step A)\<^sup>*\<^sup>* (w_db w1) (w_db w2)"
    and "\<And>E' S'. A E' S' \<Longrightarrow> never_issues (hashRefreshToken E refreshToken) E'" and "w_tx w2 = NoTx"
  shows "\<exists>e w3. RefreshSession E S2 refreshToken audience2 now2 w2 = (Inl e, w3)"
proof (cases "RefreshSession E S2 refreshToken audience2 now2 w2")
  case (Pair r w3)
  show ?thesis
  proof (cases r)
    case (Inr ar)
    obtain a2 r2 where ar: "ar = (a2, r2)" by (cases ar)
    have "spent_in (hashRefreshToken E refreshToken) (w_db w1)"
      using rotation_spends [OF assms(1) refresh_InrD [OF assms(3,2)] assms(4)] .
    with assms(5) have "spent_in (hashRefreshToken E refreshToken) (w_db w2)"
      using assms(6) by (rule steps_keep_spent)
    moreover obtain rt where "find_token (hashRefreshToken E refreshToken) (w_db w2) = Some rt"
      "rt_consumed_at rt = None"
      using refreshed_parts [OF refresh_InrD [OF Pair [unfolded Inr ar] assms(7)]] by blast
    ultimately show ?thesis by (auto simp: spent_in_def dest!: find_tokenD)
  qed (use Pair in simp)
qed

theorem rotated_token_is_spent_witness:
  "\<exists>w1 w2 r e w3. RefreshSession demo_env demo_service ''r1'' AudienceApp 6000 demo_world = (Inr (''jwt'', ''bmV3''), w1)
     \<and> RevokeOtherUserSessions demo_env demo_service 10 30 6500 (w1\<lparr>w_tx := NoTx\<rparr>) = (r, w2)
     \<and> RefreshSession demo_env demo_service ''r1'' AudienceApp 7000 (w2\<lparr>w_tx := NoTx\<rparr>) = (Inl e, w3)"
proof (rule demo_refresh_run)
  fix w1
  assume run: "RefreshSession demo_env demo_service ''r1'' AudienceApp 6000 demo_world = (Inr (''jwt'', ''bmV3''), w1)"
  obtain r w2 where others: "RevokeOtherUserSessions demo_env demo_service 10 30 6500 (w1\<lparr>w_tx := NoTx\<rparr>) = (r, w2)"
    by fastforce
  have "(session_step (\<lambda>_ _. False))\<^sup>*\<^sup>* (w_db w1) (w_db w2)"
    using session_step.revoke_others [OF _ others] by auto
  then have "\<exists>e w3. RefreshSession demo_env demo_service ''r1'' AudienceApp 7000 (w2\<lparr>w_tx := NoTx\<rparr>) = (Inl e, w3)"
    using rotated_token_is_spent [OF _ _ run, of "\<lambda>_ _. False" "w2\<lparr>w_tx := NoTx\<rparr>"]
    by (simp add: demo_wf demo_world_def)
  with run others show ?thesis by blast
qed

section \<open>Revocation\<close>

text \<open>
  C18. \<open>RevokeUserSession\<close>: on success the session was the caller's, it is revoked, its
  refresh tokens are gone and a cutoff not older than \<open>now\<close> is in the revocation store;
  on any error the database is unchanged.
\<close>

theorem revoke_user_session_spec:
  assumes "w_tx w = NoTx" and "RevokeUserSession E S userID sessionID now w = (res, w')"
  shows "case res of Inr _ \<Rightarrow> session_dropped E S userID sessionID now w w' | Inl e \<Rightarrow> w_db w' = w_db w"
  using wp_RevokeUserSession [OF assms(1), of E S userID sessionID now] assms(2)
  by (auto simp: wp_def split: sum.splits)

theorem revoke_user_session_spec_witness:
  "\<exists>w'. RevokeUserSession demo_env demo_service 10 30 6000 demo_world = (Inr (), w')
     \<and> session_dropped demo_env demo_service 10 30 6000 demo_world w'"
proof -
  have "fst (RevokeUserSession demo_env demo_service 10 30 6000 demo_world) = Inr ()"
    by (simp add: RevokeUserSession_def Let_def eval_defs demo_defs session_store_eval session_eval
        revocation_eval)
  then obtain w' where run: "RevokeUserSession demo_env demo_service 10 30 6000 demo_world = (Inr (), w')"
    by (metis prod.collapse)
  from revoke_user_session_spec [OF _ run] run show ?thesis by (auto simp: demo_world_def)
qed

text \<open>
  \<open>RevokeOtherUserSessions\<close>: on success every other session of the user is revoked,
  the refresh tokens of all of them are deleted, and every one that was active has a cutoff in
  the revocation store; the current session is untouched. An error changes nothing.
\<close>

theorem revoke_other_sessions_spec:
  assumes "w_tx w = NoTx" and "RevokeOtherUserSessions E S userID currentSessionID now w = (res, w')"
  shows "case res of Inr _ \<Rightarrow> others_dropped E S userID currentSessionID now w w' | Inl e \<Rightarrow> w_db w' = w_db w"
  using wp_RevokeOtherUserSessions [OF assms(1), of E S userID currentSessionID now] assms(2)
  by (auto simp: wp_def split: sum.splits)

theorem revoke_other_sessions_spec_witness:
  "\<exists>r w'. RevokeOtherUserSessions demo_env demo_service 11 30 6000 demo_world = (Inl r, w')
     \<and> w_db w' = demo_db"
proof -
  have "fst (RevokeOtherUserSessions demo_env demo_service 11 30 6000 demo_world) = Inl (EStore ErrUserNotFound)"
    by (simp add: RevokeOtherUserSessions_def Let_def eval_defs demo_defs session_store_eval)
  then obtain w' where run: "RevokeOtherUserSessions demo_env demo_service 11 30 6000 demo_world
      = (Inl (EStore ErrUserNotFound), w')"
    by (metis prod.collapse)
  from revoke_other_sessions_spec [OF _ run] run show ?thesis by (auto simp: demo_world_def)
qed

text \<open>
  Logging out with a stored refresh token revokes its session and writes the session's
  cutoff; when the token is unknown or empty, no table of the core is touched; a failure with a
  refresh token leaves no half-done logout.
\<close>

theorem logout_refresh_spec:
  assumes "w_tx w = NoTx" and "logout_refresh E S refreshToken w = (res, w')"
  shows "case res of Inr True \<Rightarrow> logged_out E S refreshToken w w'
    | Inr False \<Rightarrow> find_token (hashRefreshToken E refreshToken) (w_db w) = None
        \<and> w_db w' = w_db w \<and> w_cache w' = w_cache w
    | Inl e \<Rightarrow> w_db w' = w_db w"
  using wp_logout_refresh [OF assms(1), of E S refreshToken] assms(2)
  by (auto simp: wp_def split: sum.splits bool.splits)

theorem logout_refresh_spec_witness:
  "\<exists>w'. logout_refresh demo_env demo_service ''r1'' demo_world = (Inr True, w')
     \<and> logged_out demo_env demo_service ''r1'' demo_world w'"
proof -
  have "fst (logout_refresh demo_env demo_service ''r1'' demo_world) = Inr True"
    by (simp add: logout_refresh_def Let_def eval_defs demo_defs session_store_eval session_eval
        revocation_eval)
  then obtain w' where run: "logout_refresh demo_env demo_service ''r1'' demo_world = (Inr True, w')"
    by (metis prod.collapse)
  from logout_refresh_spec [OF _ run] run show ?thesis by (auto simp: demo_world_def)
qed

end
