(* ===== verification/Token_Properties.thy ===== *)
theory Token_Properties
  imports Demo
begin

text \<open>
  Properties of the access tokens, their keys, roles and revocations, of transactions and of
  the security event export.
\<close>

section \<open>Transactions\<close>

text \<open>
  \<open>WithTransaction\<close> is atomic: a top-level transaction that reports an error (of its
  body, of an aborted transaction, or of the commit) leaves the database exactly as it was.
\<close>

theorem transaction_atomic:
  assumes "w_tx w = NoTx" and "with_tx E m w = (Inl e, w')"
  shows "w_db w' = w_db w \<and> w_tx w' = NoTx"
  using with_tx_error_rolls_back [OF assms] by simp

theorem transaction_atomic_witness:
  "\<exists>w'. with_tx demo_env (bnd (exec demo_env (\<lambda>t u d. Inr ((), empty_db))) (\<lambda>_. fail ECache :: unit M)) demo_world
     = (Inl ECache, w') \<and> w_db w' = demo_db"
proof -
  let ?m = "bnd (exec demo_env (\<lambda>t u d. Inr ((), empty_db))) (\<lambda>_. fail ECache) :: unit M"
  have "fst (with_tx demo_env ?m demo_world) = Inl ECache"
    by (simp add: eval_defs demo_env_def demo_world_def)
  then obtain w' where run: "with_tx demo_env ?m demo_world = (Inl ECache, w')" by (metis prod.collapse)
  from transaction_atomic [OF _ run] run show ?thesis by (auto simp: demo_world_def)
qed

section \<open>Keys and roles\<close>

text \<open>
  \<open>NewKeySet\<close>: the active key is one of the configured seeds, has 32 bytes, and the key
  that verifies under the active identifier is the public half of the key that signs.
\<close>

theorem key_set_pair:
  assumes "NewKeySet J active seeds = Inr k"
  shows "\<exists>seed. map_of seeds active = Some seed \<and> length seed = 32
      \<and> SigningKey k = (active, ed25519_new_key J seed)
      \<and> VerificationKey k active = Some (ed25519_public J (ed25519_new_key J seed))"
  using assms by (rule NewKeySet_pair)

theorem key_set_pair_witness:
  "\<exists>k. NewKeySet demo_jwt ''k1'' [(''k1'', replicate 32 CHR ''s'')] = Inr k
     \<and> VerificationKey k ''k1'' = Some (replicate 32 CHR ''s'')"
proof -
  have "\<exists>k. NewKeySet demo_jwt ''k1'' [(''k1'', replicate 32 CHR ''s'')] = Inr k"
    by (simp add: NewKeySet_def trim_space_def is_space_def Let_def)
  then obtain k where k: "NewKeySet demo_jwt ''k1'' [(''k1'', replicate 32 CHR ''s'')] = Inr k" by blast
  from key_set_pair [OF k] k show ?thesis by (auto simp: demo_jwt_def)
qed

text \<open>
  Platform roles round trip: the roles read from the database are stored without
  duplicates, are known roles, contain exactly the ones the database names, and parsing them
  back out of the claims of an access token gives the same roles.
\<close>

theorem roles_roundtrip:
  assumes "FromDBRoleNames names = Inr rs"
  shows "FromClaims rs = Inr rs \<and> distinct rs
    \<and> (Has rs AutharaAdmin \<longleftrightarrow> DBAdminRoleName \<in> set names)
    \<and> (Has rs AutharaOperator \<longleftrightarrow> DBOperatorRoleName \<in> set names)"
proof -
  have "distinct rs"
    using assms by (auto simp: FromDBRoleNames_def intro: FromDBRoleNames_from_distinct)
  with FromDBRoleNames_valid [OF assms] have "FromClaims rs = Inr rs"
    using FromClaims_from_distinct [of "[]" rs] by (simp add: FromClaims_def)
  with \<open>distinct rs\<close> FromDBRoleNames_Has [OF assms] show ?thesis by blast
qed

theorem roles_roundtrip_witness:
  "FromDBRoleNames [DBAdminRoleName, DBOperatorRoleName] = Inr [AutharaAdmin, AutharaOperator]
   \<and> FromClaims [AutharaAdmin, AutharaOperator] = Inr [AutharaAdmin, AutharaOperator]"
proof -
  have r: "FromDBRoleNames [DBAdminRoleName, DBOperatorRoleName] = Inr [AutharaAdmin, AutharaOperator]"
    by (simp add: FromDBRoleNames_def DBAdminRoleName_def DBOperatorRoleName_def roles_add_def
        AutharaAdmin_def AutharaOperator_def)
  from roles_roundtrip [OF this] r show ?thesis by simp
qed

section \<open>Revocation\<close>

text \<open>
  C19. The revocation check is fail-closed: with Redis, a token passes exactly when the store
  answered, there is no marker for the token itself, and each of its three scopes has either
  no cutoff or a readable one strictly before the token was issued.
\<close>

theorem revocation_check_exact:
  assumes "rv_cache r = Some RedisCache"
  shows "Check E (Some r) (Some c) w = (Inr (), w') \<longleftrightarrow>
    (\<exists>iat i. clm_issued_at c = Some iat \<and> accessTokenIdentifier E (Some c) = Inr i
      \<and> \<not> o_fault E (w_step w) \<and> w' = tick w
      \<and> redis_GET (o_redis_ms E (w_step w)) (w_cache w) (RevokedAccessTokenKey i) = None
      \<and> (\<forall>k\<in>set (revocation_keys E c). \<forall>v.
          redis_GET (o_redis_ms E (w_step w)) (w_cache w) k = Some v \<longrightarrow>
          (\<exists>r. parse_int64 v = Some r \<and> r < unix_nano iat)))"
  by (rule Check_run [OF assms])

theorem revocation_check_exact_witness:
  "Check demo_env (Some (NewAccessTokenRevocations ''immediate'' RedisCache 600)) (Some demo_claims) demo_world
     = (Inr (), tick demo_world)"
  by (subst revocation_check_exact)
     (simp_all add: NewAccessTokenRevocations_def AccessTokenRevocationModeExpiry_def demo_defs
       accessTokenIdentifier_def redis_GET_def live_def)

text \<open>The script against a cutoff key: the larger value wins, and the expiry never moves closer.\<close>

lemma cutoff_entry_value:
  assumes "cutoff_entry m k" and "live now m k = Some (cur, ex)"
  obtains n where "cur = format_int n" "0 \<le> n" "n < 2 ^ 63" "parse_int64 cur = Some n" "cutoff_at now m k = Some n"
proof -
  have "m k = Some (cur, ex)" using assms(2) by (auto dest: live_SomeD)
  with assms(1) obtain n where n: "cur = format_int n" "0 \<le> n" "n < 2 ^ 63" by (rule cutoff_entryE)
  then have "parse_int64 cur = Some n" by simp
  with that n assms(2) show thesis by (simp add: cutoff_at_live)
qed

text \<open>
  \<open>SetMaxInt64\<close> computes the integer maximum: although the Lua script compares decimal
  strings, the cutoff it leaves is the larger of the stored and the given number, at every
  instant at which either had not expired, and every other key is untouched.
\<close>

theorem cutoff_is_maximum:
  assumes "cutoff_entry m k" and "0 \<le> v" and "v < 2 ^ 63" and "0 < ttl" and "now \<le> t"
    and "t < now + ttl"
  shows "cutoff_at t (register_setmax now m k v ttl) k =
      Some (case cutoff_at now m k of None \<Rightarrow> v | Some c \<Rightarrow> max c v)
    \<and> (k' = k \<or> register_setmax now m k v ttl k' = m k')"
proof (cases "live now m k")
  case None
  then show ?thesis
    using assms by (simp add: register_setmax_eq cutoff_at_def redis_GET_def) (simp add: live_def)
next
  case (Some p)
  obtain cur ex where p: "p = (cur, ex)" by (cases p)
  obtain n where n: "cur = format_int n" "0 \<le> n" "n < 2 ^ 63" "parse_int64 cur = Some n" "cutoff_at now m k = Some n"
    using cutoff_entry_value [OF assms(1) Some [unfolded p]] .
  have mk: "m k = Some (cur, ex)" using Some p by (auto dest: live_SomeD)
  show ?thesis
    unfolding n(5)
    using Some p n(1-4) mk assms
    by (cases ex) (auto simp: register_setmax_eq cutoff_at_live live_def max_def split: option.splits)
qed

lemma nine_ten: "format_int 9 = ''9''" "parse_int64 ''9'' = Some 9"
  by code_simp+

theorem cutoff_is_maximum_witness:
  "cutoff_at 5 (register_setmax 3 [''k'' \<mapsto> (''9'', Some 8)] ''k'' 10 4) ''k'' = Some 10"
  by (subst cutoff_is_maximum [THEN conjunct1])
     (simp_all add: cutoff_entry_def cutoff_at_def redis_GET_def live_def nine_ten)

text \<open>
  C11. End to end: with Redis, once a session, a user or a membership has been revoked at
  \<open>revAt\<close>, no access token of that scope issued at or before \<open>revAt\<close> is ever accepted,
  whatever else the program writes to Redis in between (the clocks of Redis and of the server
  agree on the order of the events).
\<close>

theorem revoked_tokens_rejected:
  assumes "svc_revocations S = Some (NewAccessTokenRevocations mode RedisCache ttl)"
    and "mode \<noteq> AccessTokenRevocationModeExpiry"
    and "revokeScope E (svc_revocations S) k revAt w = (Inr (), w1)"
    and "scope_key k" and "cutoff_entry (w_cache w) k" and "0 \<le> revAt" and "revAt < 2 ^ 63"
    and "(cache_step (o_redis_ms E2 (w_step w2)))\<^sup>*\<^sup>* (w_cache w1) (w_cache w2)"
    and "revAt < o_redis_ms E (w_step w) * 1000000"
    and "o_redis_ms E (w_step w) \<le> o_redis_ms E2 (w_step w2)"
    and "o_redis_ms E2 (w_step w2) * 1000000 \<le> now"
    and "issued_here (svc_jwt S) (svc_tokens S)"
    and "Parse (svc_jwt S) (svc_tokens S) tok aud now = Inr c" and "k \<in> set (revocation_keys E2 c)"
    and "clm_issued_at c = Some iat" and "iat \<le> revAt"
  shows "\<exists>e w3. ValidateAccessToken E2 S tok aud now w2 = (Inl e, w3)"
proof (cases "ValidateAccessToken E2 S tok aud now w2")
  case (Pair r w3)
  show ?thesis
  proof (cases r)
    case (Inr ident)
    from Pair [unfolded this] obtain c' where "Parse (svc_jwt S) (svc_tokens S) tok aud now = Inr c'"
      and "Check E2 (svc_revocations S) (Some c') w2 = (Inr (), w3)"
      by (rule ValidateAccessToken_parts)
    then have ok: "Check E2 (svc_revocations S) (Some c) w2 = (Inr (), w3)" using assms(13) by simp
    have "\<exists>iat. clm_issued_at c = Some iat \<and> revAt < iat"
      using assms(1-14) ok by (intro revoked_scope_tokens_die)
    with assms(15,16) show ?thesis by simp
  qed (use Pair in simp)
qed

definition late_claims :: access_claims where
  "late_claims = demo_claims\<lparr>clm_expires_at := Some 2000000\<rparr>"

definition late_service :: service where
  "late_service = demo_service\<lparr>svc_jwt := demo_jwt\<lparr>jwt_parse :=
     (\<lambda>auds iss now kf s. if s = ''jwt'' then Some (late_claims, True) else None)\<rparr>\<rparr>"

lemma late_issued_here: "issued_here (svc_jwt late_service) (svc_tokens late_service)"
  by (auto simp: issued_here_def late_service_def late_claims_def demo_claims_def MaxAccessTokenTTL_def
      hour_def minute_def second_def)

theorem revoked_tokens_rejected_witness:
  "\<exists>w1. revokeScope demo_env (svc_revocations late_service) (RevokedAccessTokenSessionKey ''30'') 5000 demo_world = (Inr (), w1)
     \<and> (\<exists>e w3. ValidateAccessToken demo_env late_service ''jwt'' AudienceApp 1000000 w1 = (Inl e, w3))"
proof -
  let ?k = "RevokedAccessTokenSessionKey ''30''"
  have "fst (revokeScope demo_env (svc_revocations late_service) ?k 5000 demo_world) = Inr ()"
    using marker_ttl_ms [of 600]
    by (simp add: revokeScope_def late_service_def demo_defs NewAccessTokenRevocations_def AccessTokenRevocationModeExpiry_def eval_defs
        cache_SetMaxInt64_def setMaxInt64Script_def redis_GET_def live_def redis_SET_PX_def)
  then obtain w1 where run: "revokeScope demo_env (svc_revocations late_service) ?k 5000 demo_world = (Inr (), w1)"
    by (metis prod.collapse)
  have id: "uuid_string demo_env 30 = ''30''"
    unfolding demo_env_def by simp code_simp
  have "\<exists>e w3. ValidateAccessToken demo_env late_service ''jwt'' AudienceApp 1000000 w1 = (Inl e, w3)"
  proof (rule revoked_tokens_rejected [OF _ _ run, where c = late_claims and iat = 4000 and mode = "''immediate''" and ttl = 600])
    show "''immediate'' \<noteq> AccessTokenRevocationModeExpiry"
      by (simp add: AccessTokenRevocationModeExpiry_def)
    show "scope_key ?k" by (auto simp: scope_key_def)
    show "?k \<in> set (revocation_keys demo_env late_claims)"
      by (simp add: revocation_keys_def late_claims_def demo_claims_def id)
    show "issued_here (svc_jwt late_service) (svc_tokens late_service)"
      by (rule late_issued_here)
    show "Parse (svc_jwt late_service) (svc_tokens late_service) ''jwt'' AudienceApp 1000000 = Inr late_claims"
      by (simp add: Parse_def parse_access_def validateAccessClaims_def late_service_def late_claims_def demo_defs nil_uuid_def)
  qed (simp_all add: late_service_def demo_service_def demo_world_def demo_env_def late_claims_def demo_claims_def cutoff_entry_def
       AccessTokenRevocationModeExpiry_def)
  with run show ?thesis by blast
qed

end
