(* ===== verification/Stepup_Properties.thy ===== *)
theory Stepup_Properties
  imports Session_Invariant Demo
begin

text \<open>
  Recent authentication and step-up challenges, the export of the security events, and the
  catalog of e-mail templates.
\<close>

section \<open>Recent authentication\<close>

definition recently_authenticated :: "session_policy \<Rightarrow> session \<Rightarrow> time \<Rightarrow> bool" where
  "recently_authenticated p s now \<longleftrightarrow> RecentAuthenticationEnabled p \<longrightarrow>
     ses_method s \<noteq> '''' \<and> 0 < RecentAuthenticationWindow p
     \<and> (\<exists>at. ses_authenticated_at s = Some at \<and> at \<le> now \<and> now - at \<le> RecentAuthenticationWindow p)"

text \<open>
  C16. \<open>RequireRecentAuthentication\<close> lets a caller through exactly when the session is his,
  active, and, unless the policy is off, carries a known authentication that is not in the
  future and at most the window old (the saturating subtraction never lets an older one pass).
\<close>

theorem require_recent_authentication_exact:
  assumes "\<not> o_fault E (w_step w)" and "w_tx w \<noteq> TxAborted"
    and "RecentAuthenticationWindow (svc_policy S) < max_duration"
  shows "RequireRecentAuthentication E S userID sessionID now w = (Inr (), w') \<longleftrightarrow>
     w' = tick w \<and> (\<exists>s. find_active sessionID now (w_db w) = Some s \<and> ses_user s = userID
        \<and> recently_authenticated (svc_policy S) s now)"
proof -
  have sub: "RecentAuthenticationWindow (svc_policy S) < time_sub now at \<longleftrightarrow>
      RecentAuthenticationWindow (svc_policy S) < now - at" if "0 < RecentAuthenticationWindow (svc_policy S)" for at
    using that assms(3) by (intro time_sub_gt_iff) (simp_all add: min_duration_def)
  show ?thesis
  proof (cases "find_active sessionID now (w_db w)")
    case None
    then show ?thesis
      using assms(1,2)
      by (simp add: RequireRecentAuthentication_def GetActiveSessionByID_def runs sql_ok_def sql_problem_def)
  next
    case (Some s)
    then show ?thesis
      using assms(1,2) sub
      by (auto simp: RequireRecentAuthentication_def GetActiveSessionByID_def runs sql_ok_def sql_problem_def
          recently_authenticated_def Let_def split: option.splits if_splits)
  qed
qed

theorem require_recent_authentication_exact_witness:
  "RequireRecentAuthentication demo_env demo_service 10 30 500 demo_world = (Inr (), tick demo_world)"
  by (subst require_recent_authentication_exact)
     (simp_all add: demo_defs max_duration_def find_active_def is_active_def recently_authenticated_def
       AuthenticationMethodPassword_def)

section \<open>Step-up challenges\<close>

definition challenge_open :: "uuid \<Rightarrow> uuid \<Rightarrow> uuid \<Rightarrow> time \<Rightarrow> db \<Rightarrow> bool" where
  "challenge_open userID sessionID challengeID now d \<longleftrightarrow>
     (\<exists>s c. find_active sessionID now d = Some s \<and> ses_user s = userID
       \<and> find_auth_challenge challengeID d = Some c \<and> ac_user c = userID \<and> ac_session c = sessionID
       \<and> \<not> ac_is_consumed c \<and> \<not> ac_is_expired c now)"

definition challenge_completed :: "uuid \<Rightarrow> uuid \<Rightarrow> uuid \<Rightarrow> string \<Rightarrow> time \<Rightarrow> db \<Rightarrow> db \<Rightarrow> bool" where
  "challenge_completed userID sessionID challengeID authMethod now d d' \<longleftrightarrow>
     (\<exists>t0. core d' = core (d\<lparr>
        sessions := upd_where (\<lambda>r. ses_id r = sessionID \<and> ses_user r = userID \<and> ses_revoked_at r = None
            \<and> now < ses_expires_at r)
          (\<lambda>r. r\<lparr>ses_authenticated_at := Some now, ses_method := authMethod, ses_updated_at := t0\<rparr>) (sessions d),
        auth_challenges := upd_where (\<lambda>r. ac_id r = challengeID \<and> ac_consumed_at r = None \<and> now < ac_expires_at r)
          (\<lambda>r. r\<lparr>ac_consumed_at := Some now, ac_method := authMethod\<rparr>) (auth_challenges d)\<rparr>))"

lemma wp_ConsumeAuthenticationChallenge':
  assumes "\<And>w'. w_db w' = (w_db w)\<lparr>auth_challenges :=
      upd_where (\<lambda>r. ac_id r = i \<and> ac_consumed_at r = None \<and> t < ac_expires_at r)
          (\<lambda>r. r\<lparr>ac_consumed_at := Some t, ac_method := m\<rparr>) (auth_challenges (w_db w))\<rparr> \<Longrightarrow> Q () w'"
    and "\<And>e w'. R e w'"
  shows "wp (ConsumeAuthenticationChallenge E i m t) Q R w"
  unfolding ConsumeAuthenticationChallenge_def
  by (auto simp: wps Let_def intro!: assms split: if_splits)

lemma wp_CompleteAuthenticationChallenge:
  assumes "w_tx w = NoTx"
  shows "wp (CompleteAuthenticationChallenge E S userID sessionID challengeID authMethod now)
     (\<lambda>_ w'. authMethod \<in> set known_methods \<and> challenge_open userID sessionID challengeID now (w_db w)
        \<and> challenge_completed userID sessionID challengeID authMethod now (w_db w) (w_db w'))
     (\<lambda>_ w'. core (w_db w') = core (w_db w)) w"
  unfolding CompleteAuthenticationChallenge_def GetActiveSessionByIDForUpdate_def
    GetAuthenticationChallengeByIDForUpdate_def AuthenticationReauthenticated_def Let_def
  apply (auto simp: wps wp_with_tx assms split: if_splits intro!: wp_UpdateSessionAuthentication
      wp_ConsumeAuthenticationChallenge' wp_recordAuthentication)
  apply (auto simp: challenge_open_def challenge_completed_def)
  done

text \<open>
  C17. \<open>CompleteAuthenticationChallenge\<close>: it succeeds only for an active session of the user
  and an open challenge of exactly this user and session; then the session is freshly
  authenticated by the method and the challenge is consumed, in one transaction. A failed call
  changes neither.
\<close>

theorem complete_challenge_spec:
  assumes "w_tx w = NoTx"
    and "CompleteAuthenticationChallenge E S userID sessionID challengeID authMethod now w = (res, w')"
  shows "case res of
      Inr _ \<Rightarrow> authMethod \<in> set known_methods \<and> challenge_open userID sessionID challengeID now (w_db w)
        \<and> challenge_completed userID sessionID challengeID authMethod now (w_db w) (w_db w')
    | Inl e \<Rightarrow> core (w_db w') = core (w_db w)"
  using wp_CompleteAuthenticationChallenge [OF assms(1), of E S userID sessionID challengeID authMethod now] assms(2)
  by (auto simp: wp_def split: sum.splits)

definition stepup_world :: world where
  "stepup_world = demo_world\<lparr>w_db := demo_db\<lparr>auth_challenges := [\<lparr>ac_id = 50, ac_user = 10, ac_session = 30,
     ac_created_at = 1, ac_expires_at = 9000, ac_consumed_at = None, ac_method = ''''\<rparr>]\<rparr>\<rparr>"

theorem complete_challenge_spec_witness:
  "\<exists>w'. CompleteAuthenticationChallenge demo_env demo_service 10 30 50 AuthenticationMethodPasskey 6000 stepup_world
      = (Inr (), w')
   \<and> challenge_completed 10 30 50 AuthenticationMethodPasskey 6000 (w_db stepup_world) (w_db w')"
proof -
  have "fst (CompleteAuthenticationChallenge demo_env demo_service 10 30 50 AuthenticationMethodPasskey 6000 stepup_world)
      = Inr ()"
    by (simp add: CompleteAuthenticationChallenge_def Let_def eval_defs demo_defs session_store_eval stepup_world_def
        GetActiveSessionByIDForUpdate_def GetAuthenticationChallengeByIDForUpdate_def find_auth_challenge_def
        ac_is_consumed_def ac_is_expired_def UpdateSessionAuthentication_def ConsumeAuthenticationChallenge_def
        AuthenticationReauthenticated_def recordAuthentication_def)
  then obtain w' where run: "CompleteAuthenticationChallenge demo_env demo_service 10 30 50
      AuthenticationMethodPasskey 6000 stepup_world = (Inr (), w')"
    by (metis prod.collapse)
  from complete_challenge_spec [OF _ run] run show ?thesis by (auto simp: stepup_world_def demo_world_def)
qed

section \<open>The export of the security events\<close>




end
