(* ===== verification/Rate_Limit.thy ===== *)
theory Rate_Limit
  imports Cache "HOL-Library.AList"
begin

text \<open>
  \<open>internal/ratelimiter\<close>: the limiter that counts in memory (\<open>memory.go\<close>) and the one
  that counts in Redis (\<open>cache.go\<close>). The ten maps of \<open>InMemoryLimiter\<close>, which the
  code hands around by reference, are one function from their names to association lists; the
  order in which Go ranges over a map is a parameter. Every \<open>Allow*\<close> call is one step under
  the mutex.
\<close>

section \<open>Configuration\<close>

record limiter_config =
  LoginIPLimit :: int
  LoginIPWindow :: duration
  LoginEmailLimit :: int
  LoginEmailWindow :: duration
  SignupIPLimit :: int
  SignupIPWindow :: duration
  SignupEmailLimit :: int
  SignupEmailWindow :: duration
  PasswordResetIPLimit :: int
  PasswordResetIPWindow :: duration
  PasswordResetEmailLimit :: int
  PasswordResetEmailWindow :: duration
  PasskeyLoginIPLimit :: int
  PasskeyLoginIPWindow :: duration
  ChallengeVerifyIPLimit :: int
  ChallengeVerifyIPWindow :: duration
  ChallengeResendIPLimit :: int
  ChallengeResendIPWindow :: duration
  CleanupEvery :: int
  MaxEntries :: int

definition set_default :: "int \<Rightarrow> int \<Rightarrow> int" where
  "set_default v def_val = (if v \<le> 0 then def_val else v)"

definition defaultLimiterConfig :: "limiter_config \<Rightarrow> limiter_config" where
  "defaultLimiterConfig cfg = \<lparr>
     LoginIPLimit = set_default (LoginIPLimit cfg) 5,
     LoginIPWindow = set_default (LoginIPWindow cfg) minute,
     LoginEmailLimit = set_default (LoginEmailLimit cfg) 10,
     LoginEmailWindow = set_default (LoginEmailWindow cfg) hour,
     SignupIPLimit = set_default (SignupIPLimit cfg) 3,
     SignupIPWindow = set_default (SignupIPWindow cfg) hour,
     SignupEmailLimit = set_default (SignupEmailLimit cfg) 3,
     SignupEmailWindow = set_default (SignupEmailWindow cfg) (24 * hour),
     PasswordResetIPLimit = set_default (PasswordResetIPLimit cfg) 5,
     PasswordResetIPWindow = set_default (PasswordResetIPWindow cfg) hour,
     PasswordResetEmailLimit = set_default (PasswordResetEmailLimit cfg) 3,
     PasswordResetEmailWindow = set_default (PasswordResetEmailWindow cfg) (24 * hour),
     PasskeyLoginIPLimit = set_default (PasskeyLoginIPLimit cfg) 30,
     PasskeyLoginIPWindow = set_default (PasskeyLoginIPWindow cfg) (10 * minute),
     ChallengeVerifyIPLimit = set_default (ChallengeVerifyIPLimit cfg) 30,
     ChallengeVerifyIPWindow = set_default (ChallengeVerifyIPWindow cfg) (10 * minute),
     ChallengeResendIPLimit = set_default (ChallengeResendIPLimit cfg) 10,
     ChallengeResendIPWindow = set_default (ChallengeResendIPWindow cfg) hour,
     CleanupEvery = set_default (CleanupEvery cfg) 200,
     MaxEntries = set_default (MaxEntries cfg) 50000\<rparr>"

text \<open>A missing provider counts as one that returns the zero configuration.\<close>

definition zero_config :: limiter_config where
  "zero_config = \<lparr>LoginIPLimit = 0, LoginIPWindow = 0, LoginEmailLimit = 0, LoginEmailWindow = 0,
     SignupIPLimit = 0, SignupIPWindow = 0, SignupEmailLimit = 0, SignupEmailWindow = 0,
     PasswordResetIPLimit = 0, PasswordResetIPWindow = 0, PasswordResetEmailLimit = 0,
     PasswordResetEmailWindow = 0, PasskeyLoginIPLimit = 0, PasskeyLoginIPWindow = 0,
     ChallengeVerifyIPLimit = 0, ChallengeVerifyIPWindow = 0, ChallengeResendIPLimit = 0,
     ChallengeResendIPWindow = 0, CleanupEvery = 0, MaxEntries = 0\<rparr>"

definition normalizedConfigProvider :: "limiter_config option \<Rightarrow> limiter_config" where
  "normalizedConfigProvider provider =
     defaultLimiterConfig (case provider of None \<Rightarrow> zero_config | Some cfg \<Rightarrow> cfg)"

section \<open>Keys\<close>

definition normalizeKey :: "string \<Rightarrow> string" where
  "normalizeKey key = (let k = trim_space key in
     if k = '''' then ''__empty_key__'' else to_lower k)"

text \<open>The address is what \<open>net.IP.String\<close> gives, or nothing for a nil address.\<close>

definition normalizeIP :: "string option \<Rightarrow> string" where
  "normalizeIP ip = (case ip of None \<Rightarrow> ''__unknown_ip__''
     | Some s \<Rightarrow> if s = '''' then ''__unknown_ip__'' else s)"

definition retryAfter :: "time \<Rightarrow> time \<Rightarrow> duration" where
  "retryAfter now reset = (if now < reset then time_sub reset now else 0)"

datatype rate_limited = RateLimitedError (RetryAfter: duration) (Scope: string)

section \<open>Counting in memory\<close>

datatype table = LoginByIP | LoginByEmail | SignupByIP | SignupByEmail | PasswordResetByIP
  | PasswordResetByEmail | PasskeyLoginByIP | PasskeyLoginFinishByIP | ChallengeVerifyByIP
  | ChallengeResendByIP

record counter =
  cnt_count :: int
  cnt_reset :: time

type_synonym counters = "(string \<times> counter) list"

record memory_limiter =
  ml_tables :: "table \<Rightarrow> counters"
  ml_calls :: int

definition NewInMemoryLimiter :: memory_limiter where
  "NewInMemoryLimiter = \<lparr>ml_tables = (\<lambda>_. []), ml_calls = 0\<rparr>"

definition getCounterLocked :: "counters \<Rightarrow> string \<Rightarrow> time \<Rightarrow> duration \<Rightarrow> counter \<times> counters" where
  "getCounterLocked m key now window =
     (case map_of m key of
        Some c \<Rightarrow> if now < cnt_reset c then (c, m)
          else let c' = \<lparr>cnt_count = 0, cnt_reset = now + window\<rparr> in (c', AList.update key c' m)
      | None \<Rightarrow> let c' = \<lparr>cnt_count = 0, cnt_reset = now + window\<rparr> in (c', AList.update key c' m))"

text \<open>\<open>c.count++\<close> through the pointer the map holds.\<close>

definition bump :: "string \<Rightarrow> counter \<Rightarrow> counters \<Rightarrow> counters" where
  "bump key c m = AList.update key (c\<lparr>cnt_count := cnt_count c + 1\<rparr>) m"

definition sweep :: "time \<Rightarrow> counters \<Rightarrow> counters" where
  "sweep now m = filter (\<lambda>(k, c). now < cnt_reset c) m"

definition sweepExpiredLocked :: "time \<Rightarrow> (table \<Rightarrow> counters) \<Rightarrow> table \<Rightarrow> counters" where
  "sweepExpiredLocked now ts = (\<lambda>t. sweep now (ts t))"

text \<open>\<open>clearMap\<close>: the first argument is the order in which the map is ranged over.\<close>

fun clearMap :: "int \<Rightarrow> string list \<Rightarrow> counters \<Rightarrow> int \<Rightarrow> counters \<times> int" where
  "clearMap maxEntries [] m n = (m, n)"
| "clearMap maxEntries (k # ks) m n =
     (let m' = AList.delete k m; n' = n - 1
      in if n' \<le> maxEntries then (m', n') else clearMap maxEntries ks m' n')"

definition clear_order :: "table list" where
  "clear_order = [LoginByIP, SignupByIP, PasswordResetByIP, PasskeyLoginByIP, PasskeyLoginFinishByIP,
     ChallengeVerifyByIP, ChallengeResendByIP, LoginByEmail, SignupByEmail, PasswordResetByEmail]"

definition entries :: "(table \<Rightarrow> counters) \<Rightarrow> int" where
  "entries ts = (\<Sum>t\<leftarrow>clear_order. int (length (ts t)))"

fun clear_tables :: "(table \<Rightarrow> string list \<Rightarrow> string list) \<Rightarrow> int \<Rightarrow> table list \<Rightarrow> (table \<Rightarrow> counters) \<Rightarrow> int
    \<Rightarrow> (table \<Rightarrow> counters)" where
  "clear_tables order maxEntries [] ts n = ts"
| "clear_tables order maxEntries (t # rest) ts n =
     (let (m, n') = clearMap maxEntries (order t (map fst (ts t))) (ts t) n
      in clear_tables order maxEntries rest (ts(t := m)) n')"

definition enforceMaxEntriesLocked ::
  "(table \<Rightarrow> string list \<Rightarrow> string list) \<Rightarrow> int \<Rightarrow> (table \<Rightarrow> counters) \<Rightarrow> (table \<Rightarrow> counters)" where
  "enforceMaxEntriesLocked order maxEntries ts =
     (if entries ts \<le> maxEntries then ts
      else clear_tables order maxEntries clear_order ts (entries ts))"

definition cleanup ::
  "(table \<Rightarrow> string list \<Rightarrow> string list) \<Rightarrow> int \<Rightarrow> int \<Rightarrow> time \<Rightarrow> memory_limiter \<Rightarrow> memory_limiter" where
  "cleanup order cleanupEvery maxEntries now l =
     (let calls = ml_calls l + 1
      in \<lparr>ml_tables = (if calls mod cleanupEvery = 0
            then enforceMaxEntriesLocked order maxEntries (sweepExpiredLocked now (ml_tables l))
            else ml_tables l), ml_calls = calls\<rparr>)"

definition set_table :: "table \<Rightarrow> counters \<Rightarrow> memory_limiter \<Rightarrow> memory_limiter" where
  "set_table t m l = l\<lparr>ml_tables := (ml_tables l)(t := m)\<rparr>"

definition memory_allowIP ::
  "(table \<Rightarrow> string list \<Rightarrow> string list) \<Rightarrow> time \<Rightarrow> string option \<Rightarrow> table \<Rightarrow> int \<Rightarrow> duration \<Rightarrow> int \<Rightarrow> int
    \<Rightarrow> string \<Rightarrow> memory_limiter \<Rightarrow> (rate_limited + unit) \<times> memory_limiter" where
  "memory_allowIP order now ip byIP ipLimit ipWindow cleanupEvery maxEntries kind l0 =
     (let ipKey = normalizeIP ip;
          l = cleanup order cleanupEvery maxEntries now l0;
          (c, m) = getCounterLocked (ml_tables l byIP) ipKey now ipWindow
      in if ipLimit \<le> cnt_count c
         then (Inl (RateLimitedError (retryAfter now (cnt_reset c)) (kind @ '':ip'')), set_table byIP m l)
         else (Inr (), set_table byIP (bump ipKey c m) l))"

definition memory_allow ::
  "(table \<Rightarrow> string list \<Rightarrow> string list) \<Rightarrow> time \<Rightarrow> string option \<Rightarrow> string \<Rightarrow> table \<Rightarrow> table
    \<Rightarrow> int \<Rightarrow> duration \<Rightarrow> int \<Rightarrow> duration \<Rightarrow> int \<Rightarrow> int \<Rightarrow> string \<Rightarrow> string
    \<Rightarrow> memory_limiter \<Rightarrow> (rate_limited + unit) \<times> memory_limiter" where
  "memory_allow order now ip key byIP byKey ipLimit ipWindow keyLimit keyWindow cleanupEvery maxEntries
       kind keyScope l0 =
     (let ipKey = normalizeIP ip; normalizedKey = normalizeKey key;
          l = cleanup order cleanupEvery maxEntries now l0;
          (ipCounter, mi) = getCounterLocked (ml_tables l byIP) ipKey now ipWindow;
          l1 = set_table byIP mi l
      in if ipLimit \<le> cnt_count ipCounter
         then (Inl (RateLimitedError (retryAfter now (cnt_reset ipCounter)) (kind @ '':ip'')), l1)
         else let (keyCounter, mk) = getCounterLocked (ml_tables l1 byKey) normalizedKey now keyWindow;
                  l2 = set_table byKey mk l1
              in if keyLimit \<le> cnt_count keyCounter
                 then (Inl (RateLimitedError (retryAfter now (cnt_reset keyCounter))
                         (kind @ '':'' @ keyScope)), l2)
                 else let l3 = set_table byIP (bump ipKey ipCounter (ml_tables l2 byIP)) l2
                      in (Inr (), set_table byKey (bump normalizedKey keyCounter (ml_tables l3 byKey)) l3))"

datatype limited_attempt = LoginAttempt | OAuthAttempt | SignupAttempt | PasswordResetAttempt
  | PasskeyLoginAttempt | PasskeyLoginFinishAttempt | ChallengeVerifyAttempt | ChallengeResendAttempt

text \<open>The eight \<open>Allow*\<close> methods of \<open>InMemoryLimiter\<close>.\<close>

definition memory_attempt ::
  "(table \<Rightarrow> string list \<Rightarrow> string list) \<Rightarrow> limiter_config option \<Rightarrow> limited_attempt \<Rightarrow> time \<Rightarrow> string option \<Rightarrow> string
    \<Rightarrow> memory_limiter \<Rightarrow> (rate_limited + unit) \<times> memory_limiter" where
  "memory_attempt order provider a now ip email =
     (let cfg = normalizedConfigProvider provider;
          byIP = (\<lambda>t limit window kind.
            memory_allowIP order now ip t limit window (CleanupEvery cfg) (MaxEntries cfg) kind);
          both = (\<lambda>ti tk il iw kl kw kind.
            memory_allow order now ip email ti tk il iw kl kw (CleanupEvery cfg) (MaxEntries cfg) kind ''email'')
      in case a of
        LoginAttempt \<Rightarrow> both LoginByIP LoginByEmail (LoginIPLimit cfg) (LoginIPWindow cfg)
          (LoginEmailLimit cfg) (LoginEmailWindow cfg) ''login''
      | OAuthAttempt \<Rightarrow> byIP LoginByIP (LoginIPLimit cfg) (LoginIPWindow cfg) ''login''
      | SignupAttempt \<Rightarrow> both SignupByIP SignupByEmail (SignupIPLimit cfg) (SignupIPWindow cfg)
          (SignupEmailLimit cfg) (SignupEmailWindow cfg) ''signup''
      | PasswordResetAttempt \<Rightarrow> both PasswordResetByIP PasswordResetByEmail
          (PasswordResetIPLimit cfg) (PasswordResetIPWindow cfg)
          (PasswordResetEmailLimit cfg) (PasswordResetEmailWindow cfg) ''password_reset''
      | PasskeyLoginAttempt \<Rightarrow> byIP PasskeyLoginByIP (PasskeyLoginIPLimit cfg)
          (PasskeyLoginIPWindow cfg) ''passkey_login''
      | PasskeyLoginFinishAttempt \<Rightarrow> byIP PasskeyLoginFinishByIP (PasskeyLoginIPLimit cfg)
          (PasskeyLoginIPWindow cfg) ''passkey_login_finish''
      | ChallengeVerifyAttempt \<Rightarrow> byIP ChallengeVerifyByIP (ChallengeVerifyIPLimit cfg)
          (ChallengeVerifyIPWindow cfg) ''challenge_verify''
      | ChallengeResendAttempt \<Rightarrow> byIP ChallengeResendByIP (ChallengeResendIPLimit cfg)
          (ChallengeResendIPWindow cfg) ''challenge_resend'')"

section \<open>Counting in Redis\<close>

text \<open>
  The outer error is the failure of the cache (\<open>fmt.Errorf\<close> around it), the inner one the
  \<open>RateLimitedError\<close>.
\<close>

definition cache_allowIP ::
  "env \<Rightarrow> string option \<Rightarrow> int \<Rightarrow> duration \<Rightarrow> string \<Rightarrow> (rate_limited + unit) M" where
  "cache_allowIP E ip ipLimit ipWindow kind =
     bnd (map_err (\<lambda>e. EJoin [EText (''rate limit '' @ kind @ '' ip''), e])
            (cache_Increment E (RateLimitKey kind ''ip'' (normalizeIP ip)) ipWindow))
       (\<lambda>(ipCount, ipTTL).
          ret (if ipLimit < ipCount then Inl (RateLimitedError ipTTL (kind @ '':ip'')) else Inr ()))"

definition cache_allow ::
  "env \<Rightarrow> string option \<Rightarrow> string \<Rightarrow> int \<Rightarrow> duration \<Rightarrow> int \<Rightarrow> duration \<Rightarrow> string \<Rightarrow> string
    \<Rightarrow> (rate_limited + unit) M" where
  "cache_allow E ip key ipLimit ipWindow keyLimit keyWindow kind keyScope =
     bnd (map_err (\<lambda>e. EJoin [EText (''rate limit '' @ kind @ '' ip''), e])
            (cache_Increment E (RateLimitKey kind ''ip'' (normalizeIP ip)) ipWindow))
       (\<lambda>(ipCount, ipTTL).
          if ipLimit < ipCount then ret (Inl (RateLimitedError ipTTL (kind @ '':ip'')))
          else bnd (map_err (\<lambda>e. EJoin [EText (''rate limit '' @ kind @ '' '' @ keyScope), e])
                 (cache_Increment E (RateLimitKey kind keyScope (normalizeKey key)) keyWindow))
               (\<lambda>(keyCount, keyTTL).
                  ret (if keyLimit < keyCount then Inl (RateLimitedError keyTTL (kind @ '':'' @ keyScope))
                       else Inr ())))"

definition cache_attempt ::
  "env \<Rightarrow> limiter_config option \<Rightarrow> limited_attempt \<Rightarrow> string option \<Rightarrow> string \<Rightarrow> (rate_limited + unit) M" where
  "cache_attempt E provider a ip email =
     (let cfg = normalizedConfigProvider provider
      in case a of
        LoginAttempt \<Rightarrow> cache_allow E ip email (LoginIPLimit cfg) (LoginIPWindow cfg)
          (LoginEmailLimit cfg) (LoginEmailWindow cfg) ''login'' ''email''
      | OAuthAttempt \<Rightarrow> cache_allowIP E ip (LoginIPLimit cfg) (LoginIPWindow cfg) ''login''
      | SignupAttempt \<Rightarrow> cache_allow E ip email (SignupIPLimit cfg) (SignupIPWindow cfg)
          (SignupEmailLimit cfg) (SignupEmailWindow cfg) ''signup'' ''email''
      | PasswordResetAttempt \<Rightarrow> cache_allow E ip email
          (PasswordResetIPLimit cfg) (PasswordResetIPWindow cfg)
          (PasswordResetEmailLimit cfg) (PasswordResetEmailWindow cfg) ''password_reset'' ''email''
      | PasskeyLoginAttempt \<Rightarrow> cache_allowIP E ip (PasskeyLoginIPLimit cfg)
          (PasskeyLoginIPWindow cfg) ''passkey_login''
      | PasskeyLoginFinishAttempt \<Rightarrow> cache_allowIP E ip (PasskeyLoginIPLimit cfg)
          (PasskeyLoginIPWindow cfg) ''passkey_login_finish''
      | ChallengeVerifyAttempt \<Rightarrow> cache_allowIP E ip (ChallengeVerifyIPLimit cfg)
          (ChallengeVerifyIPWindow cfg) ''challenge_verify''
      | ChallengeResendAttempt \<Rightarrow> cache_allowIP E ip (ChallengeResendIPLimit cfg)
          (ChallengeResendIPWindow cfg) ''challenge_resend'')"

end
