(* ===== verification/Rate_Limit_Proofs.thy ===== *)
theory Rate_Limit_Proofs
  imports Rate_Limit
begin

text \<open>
  What a limiter promises, as a locale over one counted key: a fixed window that opens with the
  first attempt, admits \<open>limit\<close> attempts and ends \<open>width\<close> later. Both limiters are
  interpretations, so both compute the same decisions as the reference \<open>fixed_window_spec\<close>.
\<close>

section \<open>The contract\<close>

text \<open>The reference: the counted attempts and the end of the current window.\<close>

fun fixed_window_spec :: "int \<Rightarrow> int \<Rightarrow> (int \<times> time) option \<Rightarrow> time list \<Rightarrow> bool list" where
  "fixed_window_spec limit width w [] = []"
| "fixed_window_spec limit width w (t # ts) =
     (case w of
        Some (n, r) \<Rightarrow> if t < r
          then (n < limit) # fixed_window_spec limit width (Some (min (n + 1) limit, r)) ts
          else True # fixed_window_spec limit width (Some (1, t + width)) ts
      | None \<Rightarrow> True # fixed_window_spec limit width (Some (1, t + width)) ts)"

locale fixed_window =
  fixes hit :: "time \<Rightarrow> 's \<Rightarrow> bool \<times> 's"
    and window :: "time \<Rightarrow> 's \<Rightarrow> (int \<times> time) option"
    and limit :: int and width :: int
    and sound :: "'s \<Rightarrow> bool"
  assumes sound_limit: "sound s \<Longrightarrow> 1 \<le> limit"
    and hit_sound: "sound s \<Longrightarrow> hit t s = (b, s') \<Longrightarrow> sound s'"
    and hit_opens: "sound s \<Longrightarrow> window t s = None \<Longrightarrow> hit t s = (b, s') \<Longrightarrow>
      b \<and> window t s' = Some (1, t + width)"
    and hit_counts: "sound s \<Longrightarrow> window t s = Some (n, r) \<Longrightarrow> hit t s = (b, s') \<Longrightarrow>
      b = (n < limit) \<and> (\<exists>n'. window t s' = Some (n', r) \<and> min n' limit = min (n + 1) limit)"
    and window_lasts: "window t s = Some (n, r) \<Longrightarrow> t \<le> u \<Longrightarrow> window u s = (if u < r then Some (n, r) else None)"
begin

fun outcomes :: "time list \<Rightarrow> 's \<Rightarrow> bool list" where
  "outcomes [] s = []"
| "outcomes (t # ts) s = (case hit t s of (b, s') \<Rightarrow> b # outcomes ts s')"

lemma window_live: "window t s = Some (n, r) \<Longrightarrow> t < r"
  using window_lasts [of t s n r t] by (simp split: if_splits)

lemma outcomes_after:
  assumes "sound s" and "window t s = Some (n, r)" and "sorted (t # ts)"
    and "m = min n limit"
  shows "outcomes ts s = fixed_window_spec limit width (Some (m, r)) ts"
  using assms
proof (induction ts arbitrary: s t n r m)
  case Nil
  then show ?case by simp
next
  case (Cons u us)
  obtain b s' where h: "hit u s = (b, s')" by (cases "hit u s")
  have "t \<le> u" using Cons.prems(3) by simp
  have s': "sound s'" using hit_sound [OF Cons.prems(1) h] .
  have us: "sorted (u # us)" using Cons.prems(3) by simp
  show ?case
  proof (cases "u < r")
    case True
    have w: "window u s = Some (n, r)"
      using window_lasts [OF Cons.prems(2) \<open>t \<le> u\<close>] True by simp
    from hit_counts [OF Cons.prems(1) this h] obtain n' where
      b: "b = (n < limit)" and n': "window u s' = Some (n', r)" "min n' limit = min (n + 1) limit" by blast
    have "outcomes us s' = fixed_window_spec limit width (Some (min n' limit, r)) us"
      by (rule Cons.IH [OF s' n'(1) us]) auto
    moreover have "min n' limit = min (m + 1) limit" using n'(2) Cons.prems(4) by (simp add: min_def)
    moreover have "b = (m < limit)" using b Cons.prems(4) by (simp add: min_def)
    ultimately show ?thesis using h True by simp
  next
    case False
    have "window u s = None"
      using window_lasts [OF Cons.prems(2) \<open>t \<le> u\<close>] False by simp
    from hit_opens [OF Cons.prems(1) this h] have b: "b" and w: "window u s' = Some (1, u + width)" by blast+
    have "1 \<le> limit" using sound_limit [OF Cons.prems(1)] .
    have "outcomes us s' = fixed_window_spec limit width (Some (1, u + width)) us"
      by (rule Cons.IH [OF s' w us]) (use \<open>1 \<le> limit\<close> in auto)
    with h b False show ?thesis by simp
  qed
qed

text \<open>Both limiters decide as the reference does, from a state in which no window is open.\<close>

lemma outcomes_spec:
  assumes "sound s" and "sorted ts" and "\<And>t. window t s = None"
  shows "outcomes ts s = fixed_window_spec limit width None ts"
proof (cases ts)
  case (Cons u us)
  obtain b s' where h: "hit u s = (b, s')" by (cases "hit u s")
  from hit_opens [OF assms(1,3) h] have b: "b" and w: "window u s' = Some (1, u + width)" by blast+
  have "outcomes us s' = fixed_window_spec limit width (Some (1, u + width)) us"
    by (rule outcomes_after [OF hit_sound [OF assms(1) h] w])
       (use assms(2) Cons sound_limit [OF assms(1)] in auto)
  with h b Cons show ?thesis by simp
qed simp

end

text \<open>The reference admits at most \<open>limit\<close> attempts in one window, and the first ones.\<close>

lemma spec_in_window:
  assumes "\<forall>t\<in>set ts. t < r" and "0 \<le> n" and "n \<le> limit"
  shows "fixed_window_spec limit width (Some (n, r)) ts =
    map (\<lambda>i. n + int i < limit) [0..<length ts]"
  using assms
proof (induction ts arbitrary: n)
  case (Cons t ts)
  show ?case
  proof (cases "n < limit")
    case True
    then have "fixed_window_spec limit width (Some (n + 1, r)) ts = map (\<lambda>i. n + 1 + int i < limit) [0..<length ts]"
      using Cons by simp
    then show ?thesis
      using Cons.prems True by (simp add: upt_conv_Cons map_Suc_upt [symmetric] algebra_simps del: upt_Suc)
  next
    case False
    then have "fixed_window_spec limit width (Some (limit, r)) ts = map (\<lambda>i. limit + int i < limit) [0..<length ts]"
      using Cons by simp
    then show ?thesis
      using Cons.prems False by (simp add: upt_conv_Cons map_Suc_upt [symmetric] algebra_simps del: upt_Suc)
  qed
qed simp

lemma spec_first_window:
  assumes "1 \<le> limit" and "0 < width" and "\<forall>t\<in>set ts. t < u + width"
  shows "fixed_window_spec limit width None (u # ts) = map (\<lambda>i. int i < limit) [0..<Suc (length ts)]"
  using spec_in_window [OF assms(3), of 1 limit] assms(1)
  by (simp add: upt_conv_Cons map_Suc_upt [symmetric] algebra_simps del: upt_Suc)

lemma spec_scale:
  assumes "0 < (k::int)"
  shows "fixed_window_spec limit (width * k) (map_option (\<lambda>(n, r). (n, r * k)) w) (map (\<lambda>t. t * k) ts) =
    fixed_window_spec limit width w ts"
proof (induction limit width w ts rule: fixed_window_spec.induct)
  case (2 limit width w t ts)
  have "(t + width) * k = t * k + width * k" by (simp add: algebra_simps)
  with 2 assms show ?case by (cases w) (auto simp: mult_less_cancel_right)
qed simp

section \<open>The limiter in memory\<close>

definition memory_hit :: "(table \<Rightarrow> string list \<Rightarrow> string list) \<Rightarrow> string option \<Rightarrow> table \<Rightarrow> int \<Rightarrow> duration
    \<Rightarrow> int \<Rightarrow> int \<Rightarrow> string \<Rightarrow> time \<Rightarrow> memory_limiter \<Rightarrow> bool \<times> memory_limiter" where
  "memory_hit order ip tbl limit width every maxEntries kind t l =
     (case memory_allowIP order t ip tbl limit width every maxEntries kind l of
        (Inr _, l') \<Rightarrow> (True, l') | (Inl _, l') \<Rightarrow> (False, l'))"

definition memory_window :: "string option \<Rightarrow> table \<Rightarrow> time \<Rightarrow> memory_limiter \<Rightarrow> (int \<times> time) option" where
  "memory_window ip tbl t l = (case map_of (ml_tables l tbl) (normalizeIP ip) of None \<Rightarrow> None
     | Some c \<Rightarrow> if t < cnt_reset c then Some (cnt_count c, cnt_reset c) else None)"

text \<open>What the other keys occupy: below the bound, so that nothing is ever evicted.\<close>

definition others :: "table \<Rightarrow> string \<Rightarrow> (table \<Rightarrow> counters) \<Rightarrow> int" where
  "others tbl key ts = entries (ts(tbl := filter (\<lambda>(k, c). k \<noteq> key) (ts tbl)))"

definition memory_sound :: "string option \<Rightarrow> table \<Rightarrow> int \<Rightarrow> duration \<Rightarrow> int \<Rightarrow> memory_limiter \<Rightarrow> bool" where
  "memory_sound ip tbl limit width maxEntries l \<longleftrightarrow> 1 \<le> limit \<and> 0 < width
     \<and> others tbl (normalizeIP ip) (ml_tables l) < maxEntries \<and> distinct (map fst (ml_tables l tbl))
     \<and> (\<forall>c\<in>snd ` set (ml_tables l tbl). 0 \<le> cnt_count c)"

lemma entries_upd: "entries (ts(t := m)) = entries ts - int (length (ts t)) + int (length m)"
  by (cases t) (simp_all add: entries_def clear_order_def)

lemma entries_mono: "(\<And>t. length (ts t) \<le> length (ts' t)) \<Longrightarrow> entries ts \<le> entries ts'"
  unfolding entries_def by (rule sum_list_mono) simp

lemma filter_update: "filter (\<lambda>(k, c). k \<noteq> key) (AList.update key v m) = filter (\<lambda>(k, c). k \<noteq> key) m"
  by (induction m) auto

lemma length_other_keys:
  "distinct (map fst m) \<Longrightarrow> length m \<le> length (filter (\<lambda>(k, c). k \<noteq> key) m) + 1"
proof (induction m)
  case (Cons p m)
  show ?case
  proof (cases "fst p = key")
    case True
    then have "filter (\<lambda>(k, c). k \<noteq> key) m = m"
      using Cons.prems by (fastforce simp: filter_id_conv image_iff)
    with True show ?thesis by (cases p) simp
  next
    case False
    with Cons show ?thesis by (cases p) simp
  qed
qed simp

lemma entries_others:
  "distinct (map fst (ts tbl)) \<Longrightarrow> entries ts \<le> others tbl key ts + 1"
  using length_other_keys [of "ts tbl" key] by (simp add: others_def entries_upd)

lemma map_of_sweep:
  "distinct (map fst m) \<Longrightarrow> map_of (sweep now m) k =
    (case map_of m k of None \<Rightarrow> None | Some c \<Rightarrow> if now < cnt_reset c then Some c else None)"
proof (induction m)
  case (Cons p m)
  have "map_of m (fst p) = None" using Cons.prems by (simp add: map_of_eq_None_iff)
  with Cons show ?case by (cases p) (auto simp: sweep_def split: option.splits)
qed (simp add: sweep_def)

lemma distinct_sweep: "distinct (map fst m) \<Longrightarrow> distinct (map fst (sweep now m))"
  unfolding sweep_def by (rule distinct_map_filter)

lemma length_filter_sweep: "length (filter P (sweep now m)) \<le> length (filter P m)"
  by (induction m) (auto simp: sweep_def)

lemma others_sweep: "others tbl key (sweepExpiredLocked now ts) \<le> others tbl key ts"
  unfolding others_def
proof (rule entries_mono)
  fix t
  have "length (filter (\<lambda>(k, c). k \<noteq> key) (sweep now (ts tbl))) \<le> length (filter (\<lambda>(k, c). k \<noteq> key) (ts tbl))"
    by (rule length_filter_sweep)
  moreover have "length (sweep now m) \<le> length m" for m by (simp add: sweep_def)
  ultimately show "length (((sweepExpiredLocked now ts)(tbl := filter (\<lambda>(k, c). k \<noteq> key) (sweepExpiredLocked now ts tbl))) t)
      \<le> length ((ts(tbl := filter (\<lambda>(k, c). k \<noteq> key) (ts tbl))) t)"
    by (simp add: sweepExpiredLocked_def)
qed

lemma set_sweep: "set (sweep now m) \<subseteq> set m"
  by (auto simp: sweep_def)

text \<open>With room left, the clean-up only drops counters whose window is over.\<close>

lemma cleanup_sound:
  assumes "memory_sound ip tbl limit width maxEntries l"
  shows "memory_sound ip tbl limit width maxEntries (cleanup order every maxEntries now l)"
    and "now \<le> t \<Longrightarrow> memory_window ip tbl t (cleanup order every maxEntries now l) = memory_window ip tbl t l"
proof -
  let ?ts = "ml_tables l" and ?sw = "sweepExpiredLocked now (ml_tables l)"
  have d: "distinct (map fst (?ts tbl))" "distinct (map fst (?sw tbl))"
    using assms by (simp_all add: memory_sound_def sweepExpiredLocked_def distinct_sweep)
  have "others tbl (normalizeIP ip) ?sw < maxEntries"
    using others_sweep [of tbl "normalizeIP ip" now ?ts] assms by (simp add: memory_sound_def)
  moreover from this have "enforceMaxEntriesLocked order maxEntries ?sw = ?sw"
    using entries_others [where ts = ?sw, OF d(2), of "normalizeIP ip"] by (simp add: enforceMaxEntriesLocked_def)
  ultimately show "memory_sound ip tbl limit width maxEntries (cleanup order every maxEntries now l)"
    using assms d set_sweep [of now "?ts tbl"]
    by (auto simp: memory_sound_def cleanup_def Let_def sweepExpiredLocked_def)
  show "memory_window ip tbl t (cleanup order every maxEntries now l) = memory_window ip tbl t l" if "now \<le> t"
    using \<open>enforceMaxEntriesLocked order maxEntries ?sw = ?sw\<close> that d(1)
    by (auto simp: memory_window_def cleanup_def Let_def sweepExpiredLocked_def map_of_sweep split: option.splits)
qed

lemma others_set_table: "others tbl key (ts(tbl := AList.update key c m)) = others tbl key (ts(tbl := m))"
  by (simp add: others_def filter_update entries_upd)

lemma getCounterLocked_cases:
  assumes "getCounterLocked m key now width = (c, m')"
  obtains "map_of m key = Some c" "now < cnt_reset c" "m' = m"
  | "\<forall>c. map_of m key = Some c \<longrightarrow> \<not> now < cnt_reset c"
    "c = \<lparr>cnt_count = 0, cnt_reset = now + width\<rparr>" "m' = AList.update key c m"
  using assms by (auto simp: getCounterLocked_def Let_def split: option.splits if_splits)

lemma sound_update:
  assumes "memory_sound ip tbl limit width maxEntries l" and "0 \<le> cnt_count c"
  shows "memory_sound ip tbl limit width maxEntries
    (set_table tbl (AList.update (normalizeIP ip) c (ml_tables l tbl)) l)"
proof -
  have "snd ` set (AList.update k c m) \<subseteq> insert c (snd ` set m)" for k and m :: counters
    by (induction m) auto
  with assms show ?thesis
    by (fastforce simp: memory_sound_def set_table_def others_set_table distinct_update)
qed

text \<open>One attempt, spelled out.\<close>

lemma memory_hit_eq:
  assumes "memory_sound ip tbl limit width maxEntries l"
    and "memory_hit order ip tbl limit width every maxEntries kind t l = (b, l')"
  shows "memory_sound ip tbl limit width maxEntries l' \<and>
    (case memory_window ip tbl t l of
       Some (n, r) \<Rightarrow> b = (n < limit) \<and> memory_window ip tbl t l' = Some (if b then n + 1 else n, r)
     | None \<Rightarrow> b \<and> memory_window ip tbl t l' = Some (1, t + width))"
proof -
  let ?key = "normalizeIP ip"
  define l1 where "l1 = cleanup order every maxEntries t l"
  have s1: "memory_sound ip tbl limit width maxEntries l1"
    and w1: "memory_window ip tbl t l = memory_window ip tbl t l1"
    using cleanup_sound [OF assms(1)] unfolding l1_def by simp_all
  have pos: "1 \<le> limit" "0 < width" using s1 by (simp_all add: memory_sound_def)
  obtain c m where g: "getCounterLocked (ml_tables l1 tbl) ?key t width = (c, m)"
    by (cases "getCounterLocked (ml_tables l1 tbl) ?key t width")
  have hit: "b = (cnt_count c < limit)" "l' = set_table tbl (if b then bump ?key c m else m) l1"
    using assms(2) g unfolding memory_hit_def memory_allowIP_def l1_def [symmetric]
    by (auto simp: Let_def split: if_splits)
  from g show ?thesis
  proof (cases rule: getCounterLocked_cases)
    case 1
    have "0 \<le> cnt_count c" using s1 map_of_SomeD [OF 1(1)] by (force simp: memory_sound_def)
    have "memory_sound ip tbl limit width maxEntries l'"
    proof (cases b)
      case True
      then show ?thesis
        using hit(2) 1(3) sound_update [OF s1] \<open>0 \<le> cnt_count c\<close> by (simp add: bump_def)
    next
      case False
      then show ?thesis using hit(2) 1(3) s1 by (simp add: set_table_def)
    qed
    with 1 hit w1 show ?thesis
      by (auto simp: memory_window_def set_table_def bump_def update_conv')
  next
    case 2
    have b: "b" using hit(1) 2(2) pos by simp
    have "AList.update ?key c' m = AList.update ?key c' (ml_tables l1 tbl)" for c'
      unfolding 2(3) by (induction "ml_tables l1 tbl") (auto simp: 2)
    then have l': "l' = set_table tbl (AList.update ?key \<lparr>cnt_count = 1, cnt_reset = t + width\<rparr> (ml_tables l1 tbl)) l1"
      using hit(2) b 2(2) by (simp add: bump_def)
    have "memory_sound ip tbl limit width maxEntries l'"
      unfolding l' by (rule sound_update [OF s1]) simp
    moreover have "memory_window ip tbl t l1 = None"
      using 2(1) by (auto simp: memory_window_def split: option.splits)
    ultimately show ?thesis
      using b w1 pos by (simp add: l' memory_window_def set_table_def update_conv')
  qed
qed

interpretation memory: fixed_window "memory_hit order ip tbl limit width every maxEntries kind"
  "memory_window ip tbl" limit width "memory_sound ip tbl limit width maxEntries"
  for order ip tbl limit width every maxEntries kind
proof
  fix t u n r b and s s' :: memory_limiter
  assume s: "memory_sound ip tbl limit width maxEntries s"
  show "1 \<le> limit" using s by (simp add: memory_sound_def)
  assume h: "memory_hit order ip tbl limit width every maxEntries kind t s = (b, s')"
  note eq = memory_hit_eq [OF s h]
  show "memory_sound ip tbl limit width maxEntries s'" using eq by blast
  show "b \<and> memory_window ip tbl t s' = Some (1, t + width)" if "memory_window ip tbl t s = None"
    using eq that by simp
  show "b = (n < limit) \<and> (\<exists>n'. memory_window ip tbl t s' = Some (n', r) \<and> min n' limit = min (n + 1) limit)"
    if "memory_window ip tbl t s = Some (n, r)"
    using eq that by auto
next
  fix t u n r and s :: memory_limiter
  assume "memory_window ip tbl t s = Some (n, r)" "t \<le> u"
  then show "memory_window ip tbl u s = (if u < r then Some (n, r) else None)"
    by (auto simp: memory_window_def split: option.splits if_splits)
qed

section \<open>The limiter in Redis\<close>

definition redis_hit :: "string \<Rightarrow> int \<Rightarrow> int \<Rightarrow> int \<Rightarrow> redis \<Rightarrow> bool \<times> redis" where
  "redis_hit key limit ttl t c = (case incrementScript t c key ttl of
     Inl _ \<Rightarrow> (False, c) | Inr ((n, _), c') \<Rightarrow> (n \<le> limit, c'))"

definition redis_window :: "string \<Rightarrow> int \<Rightarrow> redis \<Rightarrow> (int \<times> int) option" where
  "redis_window key t c = (case live t c key of Some (v, Some e) \<Rightarrow> map_option (\<lambda>n. (n, e)) (parse_int64 v)
     | _ \<Rightarrow> None)"

text \<open>A key that only the script wrote.\<close>

definition redis_sound :: "string \<Rightarrow> int \<Rightarrow> int \<Rightarrow> redis \<Rightarrow> bool" where
  "redis_sound key limit ttl c \<longleftrightarrow> 1 \<le> limit \<and> limit < 2 ^ 63 \<and> 0 < ttl \<and>
     (case c key of None \<Rightarrow> True
      | Some (v, ex) \<Rightarrow> \<exists>n e. v = format_int n \<and> 1 \<le> n \<and> n < 2 ^ 63 \<and> ex = Some e)"

lemma redis_entryE:
  assumes "redis_sound key limit ttl c" and "c key = Some (v, ex)"
  obtains n e where "v = format_int n" "1 \<le> n" "n < 2 ^ 63" "ex = Some e" "parse_int64 v = Some n"
  using assms by (auto simp: redis_sound_def parse_int64_format_int)

lemma redis_hit_eq:
  assumes "redis_sound key limit ttl c" and "redis_hit key limit ttl t c = (b, c')"
  shows "redis_sound key limit ttl c' \<and>
    (case redis_window key t c of
       Some (n, r) \<Rightarrow> b = (n < limit) \<and> (\<exists>n'. redis_window key t c' = Some (n', r) \<and> min n' limit = min (n + 1) limit)
     | None \<Rightarrow> b \<and> redis_window key t c' = Some (1, t + ttl))"
proof (cases "live t c key")
  case None
  have "b" "c' = c(key \<mapsto> (format_int 1, Some (t + ttl)))"
    using assms None
    by (auto simp: redis_hit_def incrementScript_def redis_INCR_def redis_PEXPIRE_def live_def redis_sound_def Let_def)
  with assms(1) None show ?thesis
    by (auto simp: redis_window_def redis_sound_def live_def parse_int64_format_int split: option.splits)
next
  case (Some p)
  obtain v ex where p: "p = (v, ex)" by (cases p)
  with Some have ck: "c key = Some (v, ex)" by (auto dest: live_SomeD)
  obtain n e where n: "v = format_int n" "1 \<le> n" "n < 2 ^ 63" "ex = Some e" "parse_int64 v = Some n"
    by (rule redis_entryE [OF assms(1) ck])
  have "t < e" using live_SomeD [OF Some [unfolded p n(4)]] by simp
  have w: "redis_window key t c = Some (n, e)"
    using Some p n by (simp add: redis_window_def)
  show ?thesis
  proof (cases "n = 2 ^ 63 - 1")
    case True
    then have "c' = c" "\<not> b" "limit \<le> n"
      using assms Some p n by (auto simp: redis_hit_def incrementScript_def redis_INCR_def redis_sound_def)
    with w assms(1) show ?thesis by simp
  next
    case False
    have "b = (n + 1 \<le> limit)" "c' = c(key \<mapsto> (format_int (n + 1), Some e))"
      using assms(2) Some p n False
      by (auto simp: redis_hit_def incrementScript_def redis_INCR_def Let_def)
    with w assms(1) n False \<open>t < e\<close> show ?thesis
      by (auto simp: redis_window_def redis_sound_def live_def parse_int64_format_int)
  qed
qed

interpretation in_redis: fixed_window "redis_hit key limit ttl" "redis_window key" limit ttl "redis_sound key limit ttl"
  for key limit ttl
proof
  fix t n r :: int and b and s s' :: redis
  assume s: "redis_sound key limit ttl s"
  show "1 \<le> limit" using s by (simp add: redis_sound_def)
  assume h: "redis_hit key limit ttl t s = (b, s')"
  note eq = redis_hit_eq [OF s h]
  show "redis_sound key limit ttl s'" using eq by blast
  show "b \<and> redis_window key t s' = Some (1, t + ttl)" if "redis_window key t s = None"
    using eq that by simp
  show "b = (n < limit) \<and> (\<exists>n'. redis_window key t s' = Some (n', r) \<and> min n' limit = min (n + 1) limit)"
    if "redis_window key t s = Some (n, r)"
    using eq that by auto
next
  fix t u n r :: int and s :: redis
  assume "redis_window key t s = Some (n, r)" "t \<le> u"
  then show "redis_window key u s = (if u < r then Some (n, r) else None)"
    by (auto simp: redis_window_def live_def split: option.splits if_splits prod.splits)
qed

text \<open>The \<open>Allow*\<close> calls of the Redis limiter, one after the other, in one installation.\<close>

primrec cache_outcomes :: "env \<Rightarrow> string option \<Rightarrow> int \<Rightarrow> duration \<Rightarrow> string \<Rightarrow> nat \<Rightarrow> world \<Rightarrow> bool list" where
  "cache_outcomes E ip limit width kind 0 w = []"
| "cache_outcomes E ip limit width kind (Suc n) w =
     (case cache_allowIP E ip limit width kind w of
        (r, w') \<Rightarrow> (r = Inr (Inr ())) # cache_outcomes E ip limit width kind n w')"

primrec memory_outcomes :: "(table \<Rightarrow> string list \<Rightarrow> string list) \<Rightarrow> string option \<Rightarrow> table \<Rightarrow> int \<Rightarrow> duration
    \<Rightarrow> int \<Rightarrow> int \<Rightarrow> string \<Rightarrow> time list \<Rightarrow> memory_limiter \<Rightarrow> bool list" where
  "memory_outcomes order ip tbl limit width every maxEntries kind [] l = []"
| "memory_outcomes order ip tbl limit width every maxEntries kind (t # ts) l =
     (case memory_allowIP order t ip tbl limit width every maxEntries kind l of
        (r, l') \<Rightarrow> (r = Inr ()) # memory_outcomes order ip tbl limit width every maxEntries kind ts l')"

lemma memory_outcomes_eq:
  "memory_outcomes order ip tbl limit width every maxEntries kind ts l =
   memory.outcomes order ip tbl limit width every maxEntries kind ts l"
  by (induction ts arbitrary: l) (auto simp: memory_hit_def split: prod.splits sum.splits)

lemma cache_allowIP_run:
  assumes "\<not> o_fault E (w_step w)"
  obtains r w' where "cache_allowIP E ip limit width kind w = (r, w')" and "w_step w' = Suc (w_step w)"
    and "redis_hit (RateLimitKey kind ''ip'' (normalizeIP ip)) limit (milliseconds width)
      (o_redis_ms E (w_step w)) (w_cache w) = (r = Inr (Inr ()), w_cache w')"
proof -
  let ?r = "fst (cache_allowIP E ip limit width kind w)" and ?w = "snd (cache_allowIP E ip limit width kind w)"
  have "w_step ?w = Suc (w_step w) \<and> redis_hit (RateLimitKey kind ''ip'' (normalizeIP ip)) limit (milliseconds width)
      (o_redis_ms E (w_step w)) (w_cache w) = (?r = Inr (Inr ()), w_cache ?w)"
    using assms
    by (auto simp: cache_allowIP_def cache_Increment_def redis_hit_def bnd_def map_err_def redis_call_def tick_def
        ret_def split: sum.splits prod.splits)
  then show thesis using that [of ?r ?w] by simp
qed

lemma cache_outcomes_eq:
  assumes "\<forall>n. \<not> o_fault E n"
  shows "cache_outcomes E ip limit width kind n w =
    in_redis.outcomes (RateLimitKey kind ''ip'' (normalizeIP ip)) limit (milliseconds width)
      (map (\<lambda>i. o_redis_ms E (w_step w + i)) [0..<n]) (w_cache w)"
proof (induction n arbitrary: w)
  case (Suc n)
  obtain r w' where h: "cache_allowIP E ip limit width kind w = (r, w')" "w_step w' = Suc (w_step w)"
    "redis_hit (RateLimitKey kind ''ip'' (normalizeIP ip)) limit (milliseconds width)
      (o_redis_ms E (w_step w)) (w_cache w) = (r = Inr (Inr ()), w_cache w')"
    using assms cache_allowIP_run by metis
  have "map (\<lambda>i. o_redis_ms E (w_step w + i)) [0..<Suc n] =
     o_redis_ms E (w_step w) # map (\<lambda>i. o_redis_ms E (w_step w' + i)) [0..<n]"
    by (simp add: upt_conv_Cons map_Suc_upt [symmetric] h(2) del: upt_Suc)
  then show ?case using h Suc.IH [of w'] by simp
qed simp

section \<open>Eviction\<close>

lemma length_delete:
  "distinct (map fst m) \<Longrightarrow> k \<in> fst ` set m \<Longrightarrow> length (AList.delete k m) = length m - 1"
proof (induction m)
  case (Cons p m)
  show ?case
  proof (cases "fst p = k")
    case True
    then have "AList.delete k m = m" using Cons.prems by (auto simp: delete_idem)
    with True show ?thesis by (cases p) simp
  next
    case False
    with Cons have "length (AList.delete k m) = length m - 1" "m \<noteq> []" by auto
    with False show ?thesis by (cases p) (simp add: Suc_diff_1)
  qed
qed simp

lemma keys_delete: "fst ` set (AList.delete k m) = fst ` set m - {k}"
  by (induction m) auto

lemma clearMap_result:
  assumes "clearMap maxEntries ks m n = (m', n')" and "distinct (map fst m)" and "distinct ks"
    and "set ks = fst ` set m"
  shows "n' = n - int (length m) + int (length m') \<and> distinct (map fst m') \<and> (m' = [] \<or> n' \<le> maxEntries)
    \<and> (maxEntries < n \<longrightarrow> maxEntries \<le> n') \<and> n' \<le> n \<and> (n \<le> maxEntries \<longrightarrow> n - 1 \<le> n')"
  using assms
proof (induction maxEntries ks m n rule: clearMap.induct)
  case (1 maxEntries m n)
  then show ?case by simp
next
  case (2 maxEntries k ks m n)
  let ?m = "AList.delete k m"
  have "k \<in> fst ` set m" using 2(5) by auto
  then have len: "int (length ?m) = int (length m) - 1" "m \<noteq> []"
    using length_delete [OF 2(3)] by (cases m, auto)
  have d: "distinct (map fst ?m)" using 2(3) by (simp add: distinct_delete)
  show ?case
  proof (cases "n - 1 \<le> maxEntries")
    case True
    then have "m' = ?m" "n' = n - 1" using 2(2) by (simp_all add: Let_def)
    with True len d show ?thesis by auto
  next
    case False
    have "set ks = fst ` set ?m" using 2(4,5) by (auto simp: keys_delete)
    moreover have "clearMap maxEntries ks ?m (n - 1) = (m', n')" using 2(2) False by (simp add: Let_def)
    ultimately have "n' = n - 1 - int (length ?m) + int (length m') \<and> distinct (map fst m') \<and> (m' = [] \<or> n' \<le> maxEntries)
      \<and> (maxEntries < n - 1 \<longrightarrow> maxEntries \<le> n') \<and> n' \<le> n - 1 \<and> (n - 1 \<le> maxEntries \<longrightarrow> n - 1 - 1 \<le> n')"
      by (intro 2(1) [OF refl refl]) (use False d 2(4) in simp_all)
    with False len show ?thesis by (elim conjE) (intro conjI impI; (linarith | blast))
  qed
qed

definition order_ok :: "(table \<Rightarrow> string list \<Rightarrow> string list) \<Rightarrow> bool" where
  "order_ok order \<longleftrightarrow> (\<forall>t ks. set (order t ks) = set ks \<and> (distinct ks \<longrightarrow> distinct (order t ks)))"

lemma entries_nonneg: "0 \<le> entries ts"
  by (simp add: entries_def clear_order_def)

lemma clear_tables_step:
  assumes "order_ok order" and "\<forall>t. distinct (map fst (ts t))" and "n = entries ts"
  obtains ts' n' where "clear_tables order maxEntries (t # rest) ts n = clear_tables order maxEntries rest ts' n'"
    and "n' = entries ts'" and "\<forall>t. distinct (map fst (ts' t))" and "ts' t = [] \<or> n' \<le> maxEntries"
    and "\<forall>u. u \<noteq> t \<longrightarrow> ts' u = ts u" and "n' \<le> n"
    and "maxEntries < n \<longrightarrow> maxEntries \<le> n'" and "n \<le> maxEntries \<longrightarrow> n - 1 \<le> n'"
proof -
  let ?ks = "order t (map fst (ts t))"
  obtain m n' where c: "clearMap maxEntries ?ks (ts t) n = (m, n')"
    by (cases "clearMap maxEntries ?ks (ts t) n")
  have r: "n' = n - int (length (ts t)) + int (length m) \<and> distinct (map fst m) \<and> (m = [] \<or> n' \<le> maxEntries)
    \<and> (maxEntries < n \<longrightarrow> maxEntries \<le> n') \<and> n' \<le> n \<and> (n \<le> maxEntries \<longrightarrow> n - 1 \<le> n')"
    by (rule clearMap_result [OF c]) (use assms in \<open>simp_all add: order_ok_def\<close>)
  show thesis
  proof (rule that [of "ts(t := m)" n'])
    show "clear_tables order maxEntries (t # rest) ts n = clear_tables order maxEntries rest (ts(t := m)) n'"
      using c by simp
    show "n' = entries (ts(t := m))" using r assms(3) unfolding entries_upd by blast
    show "\<forall>u. distinct (map fst ((ts(t := m)) u))" using r assms(2) by simp
    have "m = [] \<or> n' \<le> maxEntries" using r by blast
    then show "(ts(t := m)) t = [] \<or> n' \<le> maxEntries" by simp
    show "n' \<le> n" "maxEntries < n \<longrightarrow> maxEntries \<le> n'" "n \<le> maxEntries \<longrightarrow> n - 1 \<le> n'"
      using r by blast+
  qed simp
qed

lemma clear_tables_upper:
  assumes "order_ok order" and "\<forall>t. distinct (map fst (ts t))" and "n = entries ts" and "0 \<le> maxEntries"
    and "\<forall>t. t \<notin> set rest \<longrightarrow> ts t = [] \<or> n \<le> maxEntries"
  shows "entries (clear_tables order maxEntries rest ts n) \<le> maxEntries"
  using assms(2,3,5)
proof (induction rest arbitrary: ts n)
  case Nil
  then show ?case using assms(4) by (cases "n \<le> maxEntries") (simp_all add: entries_def)
next
  case (Cons t rest)
  obtain ts' n' where c: "clear_tables order maxEntries (t # rest) ts n = clear_tables order maxEntries rest ts' n'"
    and s: "n' = entries ts'" "\<forall>t. distinct (map fst (ts' t))" "ts' t = [] \<or> n' \<le> maxEntries"
      "\<forall>u. u \<noteq> t \<longrightarrow> ts' u = ts u" "n' \<le> n"
    using clear_tables_step [OF assms(1) Cons.prems(1,2)] by metis
  have "ts' u = [] \<or> n' \<le> maxEntries" if "u \<notin> set rest" for u
    using s(3-5) Cons.prems(3) that by (cases "u = t") fastforce+
  then show ?case unfolding c using Cons.IH [OF s(2,1)] by blast
qed

lemma clear_tables_lower:
  assumes "order_ok order" and "\<forall>t. distinct (map fst (ts t))" and "n = entries ts"
  shows "(if n \<le> maxEntries then n - int (length rest) else maxEntries - int (length rest - 1))
       \<le> entries (clear_tables order maxEntries rest ts n)"
  using assms(2,3)
proof (induction rest arbitrary: ts n)
  case Nil
  then show ?case by simp
next
  case (Cons t rest)
  obtain ts' n' where c: "clear_tables order maxEntries (t # rest) ts n = clear_tables order maxEntries rest ts' n'"
    and s: "n' = entries ts'" "\<forall>t. distinct (map fst (ts' t))"
      "maxEntries < n \<longrightarrow> maxEntries \<le> n'" "n \<le> maxEntries \<longrightarrow> n - 1 \<le> n'" "n' \<le> n"
    using clear_tables_step [OF assms(1) Cons.prems] by metis
  have "(if n' \<le> maxEntries then n' - int (length rest) else maxEntries - int (length rest - 1))
      \<le> entries (clear_tables order maxEntries rest ts' n')"
    by (rule Cons.IH [OF s(2,1)])
  then show ?case unfolding c using s(3-5) by (auto split: if_splits)
qed

section \<open>Properties\<close>

text \<open>
  C14. The fixed-window contract: over any sequence of attempts in time order, the in-memory
  limiter decides about one address exactly as the reference counter does, clean-up runs
  included, as long as the other counters leave room (so that nothing is evicted).
\<close>

theorem memory_limiter_is_fixed_window:
  assumes "memory_sound ip tbl limit width maxEntries l" and "\<And>t. memory_window ip tbl t l = None" and "sorted ts"
  shows "memory_outcomes order ip tbl limit width every maxEntries kind ts l = fixed_window_spec limit width None ts"
  unfolding memory_outcomes_eq by (rule memory.outcomes_spec [OF assms(1,3,2)])

theorem memory_limiter_is_fixed_window_witness:
  "memory_outcomes (\<lambda>_ ks. ks) (Some ''1.2.3.4'') LoginByIP 2 10 200 50 ''login'' [0, 1, 2, 11] NewInMemoryLimiter
    = [True, True, False, True]"
  by (subst memory_limiter_is_fixed_window)
     (auto simp: memory_sound_def memory_window_def NewInMemoryLimiter_def others_def entries_def clear_order_def)

text \<open>
  C15. Both limiters agree: for the same address, limit and window (a whole number of
  milliseconds), the in-memory limiter and the Redis limiter take the same decision on every
  attempt of every sequence, when the cache does not fail.
\<close>

theorem limiters_agree:
  assumes "\<forall>n. \<not> o_fault E n" and "sorted (map (\<lambda>i. o_redis_ms E (w_step w + i)) [0..<n])"
    and "w_cache w (RateLimitKey kind ''ip'' (normalizeIP ip)) = None"
    and "limit < 2 ^ 63" and "width = 1000000 * ms"
    and "memory_sound ip tbl limit width maxEntries l" and "\<And>t. memory_window ip tbl t l = None"
  shows "cache_outcomes E ip limit width kind n w =
    memory_outcomes order ip tbl limit width every maxEntries kind
      (map (\<lambda>i. o_redis_ms E (w_step w + i) * 1000000) [0..<n]) l"
proof -
  let ?key = "RateLimitKey kind ''ip'' (normalizeIP ip)"
  let ?ts = "map (\<lambda>i. o_redis_ms E (w_step w + i)) [0..<n]"
  have pos: "1 \<le> limit" "0 < width" using assms(6) by (simp_all add: memory_sound_def)
  have ms: "milliseconds width = ms" "0 < ms" using pos(2) assms(5) by (auto simp: milliseconds_def)
  have "redis_sound ?key limit (milliseconds width) (w_cache w)"
    using assms(3,4) pos ms by (simp add: redis_sound_def)
  moreover have "redis_window ?key t (w_cache w) = None" for t
    using assms(3) by (simp add: redis_window_def live_def)
  ultimately have "cache_outcomes E ip limit width kind n w = fixed_window_spec limit ms None ?ts"
    unfolding cache_outcomes_eq [OF assms(1)] ms(1)
    by (intro in_redis.outcomes_spec assms(2))
  also have "\<dots> = fixed_window_spec limit (ms * 1000000) None (map (\<lambda>t. t * 1000000) ?ts)"
    using spec_scale [of 1000000 limit ms None ?ts] by simp
  also have "\<dots> = memory_outcomes order ip tbl limit width every maxEntries kind (map (\<lambda>t. t * 1000000) ?ts) l"
    unfolding memory_outcomes_eq
    by (subst memory.outcomes_spec [OF assms(6) _ assms(7)])
       (use assms(2,5) in \<open>simp_all add: sorted_iff_nth_mono mult.commute\<close>)
  finally show ?thesis by (simp add: comp_def)
qed

definition limiter_env :: env where
  "limiter_env = \<lparr>o_fault = (\<lambda>_. False), o_dbnow = int, o_now = int, o_redis_ms = int, o_uuid = (\<lambda>n. 0),
     o_rand = (\<lambda>n k. None), uuid_string = (\<lambda>u. ''''), uuid_parse = (\<lambda>s. None),
     sha256 = (\<lambda>s. s), hmac_sha256 = (\<lambda>k s. s), rfc3339 = format_int\<rparr>"

definition limiter_world :: world where
  "limiter_world = \<lparr>w_db = empty_db, w_cache = \<lambda>_. None, w_tx = NoTx, w_step = 0\<rparr>"

lemma four: "[0..<4] = [0, 1, 2, 3]"
  by code_simp

theorem limiters_agree_witness:
  "cache_outcomes limiter_env None 2 3000000 ''login'' 4 limiter_world =
   memory_outcomes (\<lambda>_ ks. ks) None LoginByIP 2 3000000 200 50 ''login'' [0, 1000000, 2000000, 3000000] NewInMemoryLimiter"
  by (subst limiters_agree [where ms = 3 and tbl = LoginByIP and l = NewInMemoryLimiter and maxEntries = 50
        and order = "\<lambda>_ ks. ks" and every = 200])
     (simp_all add: limiter_env_def limiter_world_def memory_sound_def memory_window_def NewInMemoryLimiter_def
        others_def entries_def clear_order_def four del: memory_outcomes.simps)

text \<open>
  C22. Bound of the Redis limiter: of the attempts from one address within one window, exactly
  the first \<open>limit\<close> are admitted.
\<close>

theorem cache_limiter_bound:
  assumes "\<forall>n. \<not> o_fault E n" and "sorted (map (\<lambda>i. o_redis_ms E (w_step w + i)) [0..<n])"
    and "w_cache w (RateLimitKey kind ''ip'' (normalizeIP ip)) = None"
    and "1 \<le> limit" and "limit < 2 ^ 63" and "0 < milliseconds width"
    and "\<forall>i<n. o_redis_ms E (w_step w + i) < o_redis_ms E (w_step w) + milliseconds width"
  shows "cache_outcomes E ip limit width kind n w = map (\<lambda>i. int i < limit) [0..<n]"
proof (cases n)
  case (Suc m)
  let ?key = "RateLimitKey kind ''ip'' (normalizeIP ip)"
  let ?ts = "map (\<lambda>i. o_redis_ms E (w_step w + i)) [0..<n]"
  have "redis_sound ?key limit (milliseconds width) (w_cache w)"
    using assms(3-6) by (simp add: redis_sound_def)
  moreover have "redis_window ?key t (w_cache w) = None" for t
    using assms(3) by (simp add: redis_window_def live_def)
  ultimately have "cache_outcomes E ip limit width kind n w = fixed_window_spec limit (milliseconds width) None ?ts"
    unfolding cache_outcomes_eq [OF assms(1)] by (intro in_redis.outcomes_spec assms(2))
  moreover have "?ts = o_redis_ms E (w_step w) # map (\<lambda>i. o_redis_ms E (w_step w + Suc i)) [0..<m]"
    by (simp add: Suc upt_conv_Cons map_Suc_upt [symmetric] del: upt_Suc)
  moreover have "o_redis_ms E (w_step w + Suc i) < o_redis_ms E (w_step w) + milliseconds width" if "i < m" for i
    using assms(7) [rule_format, of "Suc i"] that Suc by simp
  then have "\<forall>t\<in>set (map (\<lambda>i. o_redis_ms E (w_step w + Suc i)) [0..<m]).
      t < o_redis_ms E (w_step w) + milliseconds width"
    by auto
  ultimately show ?thesis
    using spec_first_window [OF assms(4,6)] Suc by (simp del: upt_Suc cache_outcomes.simps)
qed simp

theorem cache_limiter_bound_witness:
  "cache_outcomes limiter_env None 2 9000000 ''login'' 4 limiter_world = [True, True, False, False]"
  by (subst cache_limiter_bound) (simp_all add: limiter_env_def limiter_world_def milliseconds_def four)

text \<open>
  C23. Eviction: once the clean-up finds more counters than \<open>MaxEntries\<close>, it leaves at most
  \<open>MaxEntries\<close> of them and at least \<open>MaxEntries - 9\<close> (after the bound is reached, each of
  the remaining maps still loses one counter), whatever order Go ranges over the maps in.
\<close>

theorem eviction_bounds:
  assumes "order_ok order" and "\<forall>t. distinct (map fst (ts t))" and "0 \<le> maxEntries"
    and "maxEntries < entries ts"
  shows "entries (enforceMaxEntriesLocked order maxEntries ts) \<le> maxEntries
    \<and> maxEntries - 9 \<le> entries (enforceMaxEntriesLocked order maxEntries ts)"
proof -
  have eq: "enforceMaxEntriesLocked order maxEntries ts = clear_tables order maxEntries clear_order ts (entries ts)"
    using assms(4) by (simp add: enforceMaxEntriesLocked_def)
  have all: "t \<in> set clear_order" for t by (cases t) (simp_all add: clear_order_def)
  have "length clear_order = 10" by (simp add: clear_order_def)
  then show ?thesis
    unfolding eq
    using clear_tables_upper [OF assms(1,2) refl assms(3), of clear_order] all assms(4)
      clear_tables_lower [OF assms(1,2) refl, of maxEntries clear_order]
    by simp
qed

definition crowded :: "table \<Rightarrow> counters" where
  "crowded t = (if t \<in> {LoginByIP, SignupByIP, LoginByEmail} then [(''k'', \<lparr>cnt_count = 1, cnt_reset = 9\<rparr>)] else [])"

text \<open>Three counters in three maps and room for two: all three are evicted.\<close>

theorem eviction_bounds_witness:
  "entries crowded = 3 \<and> entries (enforceMaxEntriesLocked (\<lambda>_ ks. ks) 2 crowded) = 0 \<and> (2::int) - 9 \<le> 0"
proof -
  have "2 - 9 \<le> entries (enforceMaxEntriesLocked (\<lambda>_ ks. ks) 2 crowded)"
    by (rule eviction_bounds [THEN conjunct2])
       (simp_all add: order_ok_def crowded_def entries_def clear_order_def)
  moreover have "entries (enforceMaxEntriesLocked (\<lambda>_ ks. ks) 2 crowded) = 0"
    by (simp add: enforceMaxEntriesLocked_def crowded_def entries_def clear_order_def)
  ultimately show ?thesis by (simp add: crowded_def entries_def clear_order_def)
qed

lemma defaultLimiterConfig_sel:
  "LoginIPLimit (defaultLimiterConfig cfg) = set_default (LoginIPLimit cfg) 5"
  "LoginIPWindow (defaultLimiterConfig cfg) = set_default (LoginIPWindow cfg) minute"
  "LoginEmailLimit (defaultLimiterConfig cfg) = set_default (LoginEmailLimit cfg) 10"
  "LoginEmailWindow (defaultLimiterConfig cfg) = set_default (LoginEmailWindow cfg) hour"
  "SignupIPLimit (defaultLimiterConfig cfg) = set_default (SignupIPLimit cfg) 3"
  "SignupIPWindow (defaultLimiterConfig cfg) = set_default (SignupIPWindow cfg) hour"
  "SignupEmailLimit (defaultLimiterConfig cfg) = set_default (SignupEmailLimit cfg) 3"
  "SignupEmailWindow (defaultLimiterConfig cfg) = set_default (SignupEmailWindow cfg) (24 * hour)"
  "PasswordResetIPLimit (defaultLimiterConfig cfg) = set_default (PasswordResetIPLimit cfg) 5"
  "PasswordResetIPWindow (defaultLimiterConfig cfg) = set_default (PasswordResetIPWindow cfg) hour"
  "PasswordResetEmailLimit (defaultLimiterConfig cfg) = set_default (PasswordResetEmailLimit cfg) 3"
  "PasswordResetEmailWindow (defaultLimiterConfig cfg) = set_default (PasswordResetEmailWindow cfg) (24 * hour)"
  "PasskeyLoginIPLimit (defaultLimiterConfig cfg) = set_default (PasskeyLoginIPLimit cfg) 30"
  "PasskeyLoginIPWindow (defaultLimiterConfig cfg) = set_default (PasskeyLoginIPWindow cfg) (10 * minute)"
  "ChallengeVerifyIPLimit (defaultLimiterConfig cfg) = set_default (ChallengeVerifyIPLimit cfg) 30"
  "ChallengeVerifyIPWindow (defaultLimiterConfig cfg) = set_default (ChallengeVerifyIPWindow cfg) (10 * minute)"
  "ChallengeResendIPLimit (defaultLimiterConfig cfg) = set_default (ChallengeResendIPLimit cfg) 10"
  "ChallengeResendIPWindow (defaultLimiterConfig cfg) = set_default (ChallengeResendIPWindow cfg) hour"
  "CleanupEvery (defaultLimiterConfig cfg) = set_default (CleanupEvery cfg) 200"
  "MaxEntries (defaultLimiterConfig cfg) = set_default (MaxEntries cfg) 50000"
  by (simp_all add: defaultLimiterConfig_def)

lemma set_default_eq: "set_default v d = (if 0 < v then v else d)"
  by (simp add: set_default_def)

lemma windows_positive: "0 < minute" "0 < hour"
  by (simp_all add: hour_def minute_def second_def)

text \<open>
  Configuration: after \<open>defaultLimiterConfig\<close> every limit, window and bound is positive
  and a positive setting is kept as it is.
\<close>

theorem limiter_config_positive:
  "list_all (\<lambda>x. 0 < x (defaultLimiterConfig cfg) \<and> (x cfg \<le> 0 \<or> x (defaultLimiterConfig cfg) = x cfg))
     [LoginIPLimit, LoginIPWindow, LoginEmailLimit, LoginEmailWindow, SignupIPLimit, SignupIPWindow,
      SignupEmailLimit, SignupEmailWindow, PasswordResetIPLimit, PasswordResetIPWindow, PasswordResetEmailLimit,
      PasswordResetEmailWindow, PasskeyLoginIPLimit, PasskeyLoginIPWindow, ChallengeVerifyIPLimit,
      ChallengeVerifyIPWindow, ChallengeResendIPLimit, ChallengeResendIPWindow, CleanupEvery, MaxEntries]"
  using windows_positive by (simp add: defaultLimiterConfig_sel set_default_eq)

end
