(* ===== verification/Webhook_Proofs.thy ===== *)
theory Webhook_Proofs
  imports Webhook_Queue
begin

text \<open>
  What the webhook worker does, by weakest preconditions, and the refinement of the abstract
  job machine by every piece of work on the queue, whatever other workers do while a delivery
  is under way.
\<close>

section \<open>The statements\<close>

lemma wp_ClaimNextWebhookEvent:
  assumes "w_tx w = NoTx"
    and "\<And>r t w'. event_due now (webhook_events (w_db w)) = Some r \<Longrightarrow> w_tx w' = NoTx \<Longrightarrow>
      w_db w' = w_db w\<lparr>webhook_events :=
        upd_where (\<lambda>e. wh_id e = wh_id r) (event_claimed now t) (webhook_events (w_db w))\<rparr> \<Longrightarrow>
      Q (r\<lparr>wh_status := WebhookEventStatusProcessing, wh_attempt_count := wh_attempt_count r + 1,
           wh_processing_started_at := Some now\<rparr>) w'"
    and "\<And>e w'. w_db w' = w_db w \<Longrightarrow> w_tx w' = NoTx \<Longrightarrow>
      (errors_is e (EStore ErrorWebhookEventNotFound) \<longrightarrow> event_due now (webhook_events (w_db w)) = None) \<Longrightarrow> R e w'"
  shows "wp (ClaimNextWebhookEvent E now) Q R w"
  unfolding ClaimNextWebhookEvent_def wp_with_tx [OF assms(1)]
  by (auto simp: wps assms(1) intro!: assms(2,3))

lemma wp_event_transition:
  assumes "events_distinct (w_db w)"
    and "\<And>r t w'. r \<in> set (webhook_events (w_db w)) \<Longrightarrow> holds_event i l r \<Longrightarrow>
      w_db w' = w_db w\<lparr>webhook_events := upd_where (holds_event i l) (f t) (webhook_events (w_db w))\<rparr> \<Longrightarrow>
      Q () w'"
    and "\<And>e w'. w_db w' = w_db w \<Longrightarrow> R e w'"
  shows "wp (event_transition E i l f) Q R w"
proof -
  let ?n = "count_where (holds_event i l) (webhook_events (w_db w))"
  have le: "?n \<le> 1"
    using webhook.holder_unique assms(1) by (simp add: events_distinct_def)
  have same: "upd_where (holds_event i l) (f t) (webhook_events (w_db w)) = webhook_events (w_db w)"
    if "?n = 0" for t
    using that by (auto simp: upd_where_def intro: map_idI)
  have some: "\<exists>r\<in>set (webhook_events (w_db w)). holds_event i l r" if "?n = 1"
    using that count_where_0 [of "holds_event i l" "webhook_events (w_db w)"] by auto
  from le consider "?n = 0" | "?n = 1" by linarith
  then show ?thesis
  proof cases
    case 1
    then show ?thesis
      using same unfolding event_transition_def ensureWebhookEventTransition_def
      by (auto simp: wps simp del: count_where_0 intro!: assms(3))
  next
    case 2
    then show ?thesis
      using some unfolding event_transition_def ensureWebhookEventTransition_def
      by (auto simp: wps intro!: assms(3) intro: assms(2))
  qed
qed

lemmas transition_defs =
  MarkWebhookEventDelivered_def MarkWebhookEventFailed_def RequeueWebhookEvent_def

section \<open>Deliveries\<close>



text \<open>What the worker makes of the answer to one delivery attempt.\<close>

definition delivery_result :: "(string \<Rightarrow> bool) \<Rightarrow> sender \<Rightarrow> http_result \<Rightarrow> bool \<times> string option" where
  "delivery_result url_valid s resp =
     (if \<not> url_valid (URL s) then (False, Some ''build webhook request'')
      else case resp of
          TransportError msg \<Rightarrow> (True, Some (''send webhook request: '' @ msg))
        | Response c \<Rightarrow> if 200 \<le> c \<and> c < 300 then (False, None)
            else (c = 429 \<or> 500 \<le> c \<and> c \<le> 599, Some (''webhook endpoint returned status '' @ format_int c)))"

definition attempt_delivery ::
  "env \<Rightarrow> worker \<Rightarrow> webhook_event \<Rightarrow> world \<Rightarrow> (bool \<times> string option) \<times> world" where
  "attempt_delivery E W e w =
     (let s = wk_sender W; body = wk_body W (wh_payload e) in
      if \<not> wk_url_valid W (URL s) then (delivery_result (wk_url_valid W) s (Response 0), w)
      else case Client s (URL s) (request_headers E s (wh_type e) (wh_id e) body) body w of
          (resp, w') \<Rightarrow> (delivery_result (wk_url_valid W) s resp, w'))"

lemma sendOnce_run:
  "sendOnce E (wk_url_valid W) (wk_sender W) (wh_type e) (wh_id e) (wk_body W (wh_payload e)) w =
     (case attempt_delivery E W e w of (r, w') \<Rightarrow> (Inr r, w'))"
  by (auto simp: sendOnce_def attempt_delivery_def delivery_result_def call_client_def bnd_def ret_def
      Let_def retryable_iff split: prod.splits http_result.splits)

text \<open>What becomes of the row of an event whose lease is still held.\<close>

definition event_after ::
  "worker_policy \<Rightarrow> time \<Rightarrow> int \<Rightarrow> bool \<times> string option \<Rightarrow> time \<Rightarrow> webhook_event \<Rightarrow> webhook_event" where
  "event_after p now n r t e = (case r of
       (_, None) \<Rightarrow> e\<lparr>wh_status := WebhookEventStatusDelivered, wh_delivered_at := Some now,
          wh_processing_started_at := None, wh_last_error := None, wh_updated_at := t\<rparr>
     | (retryable, Some msg) \<Rightarrow>
         if retryable \<and> n < MaxDeliveryAttempts p
         then e\<lparr>wh_status := WebhookEventStatusPending, wh_next_attempt_at := now + deliveryRetryDelay n,
            wh_processing_started_at := None, wh_last_error := Some msg, wh_updated_at := t\<rparr>
         else e\<lparr>wh_status := WebhookEventStatusFailed, wh_processing_started_at := None,
            wh_last_error := Some msg, wh_updated_at := t\<rparr>)"

lemma event_after_key [simp]:
  "wh_id (event_after p now n r t e) = wh_id e"
  "wh_attempt_count (event_after p now n r t e) = wh_attempt_count e"
  by (auto simp: event_after_def split: prod.splits option.splits)

lemma event_after_phase:
  "event_phase (event_after p now n r t e) = (case r of
       (_, None) \<Rightarrow> Finished
     | (retryable, Some _) \<Rightarrow> if retryable \<and> n < MaxDeliveryAttempts p then Waiting else Dead)"
  by (auto simp: event_after_def event_phase_def webhook_status_defs split: prod.splits option.splits)

definition claimed_db :: "time \<Rightarrow> time \<Rightarrow> webhook_event \<Rightarrow> db \<Rightarrow> db" where
  "claimed_db now t r d = d\<lparr>webhook_events :=
     upd_where (\<lambda>e. wh_id e = wh_id r) (event_claimed now t) (webhook_events d)\<rparr>"

text \<open>
  One run of the worker: nothing due; an error of the claim; or an event was claimed, the
  attempt was made in the world the claim left, and its result was written if the lease was
  still held (and nothing if it was not, or if the statement failed).
\<close>

inductive ran_once :: "env \<Rightarrow> worker \<Rightarrow> time \<Rightarrow> db \<Rightarrow> bool \<times> err option \<Rightarrow> db \<Rightarrow> bool" for E W now where
  idle: "event_due now (webhook_events d) = None \<Longrightarrow> ran_once E W now d (False, None) d"
| claim_failed: "ran_once E W now d (False, Some e) d"
| written: "event_due now (webhook_events d) = Some r \<Longrightarrow> w_db w1 = claimed_db now t r d \<Longrightarrow>
    attempt_delivery E W r w1 = (res, w2) \<Longrightarrow>
    h \<in> set (webhook_events (w_db w2)) \<Longrightarrow> holds_event (wh_id r) now h \<Longrightarrow>
    ran_once E W now d (True, None) (w_db w2\<lparr>webhook_events := upd_where (holds_event (wh_id r) now)
      (event_after (wk_policy W) now (wh_attempt_count r + 1) res t') (webhook_events (w_db w2))\<rparr>)"
| not_written: "event_due now (webhook_events d) = Some r \<Longrightarrow> w_db w1 = claimed_db now t r d \<Longrightarrow>
    attempt_delivery E W r w1 = (res, w2) \<Longrightarrow> ran_once E W now d (True, Some e) (w_db w2)"

lemma RunOnce_ran:
  assumes "w_tx w = NoTx" and "events_distinct (w_db w)"
    and "\<And>url hs b w0 resp w1. Client (wk_sender W) url hs b w0 = (resp, w1) \<Longrightarrow>
      events_distinct (w_db w0) \<Longrightarrow> events_distinct (w_db w1)"
  shows "wp (RunOnce E W now) (\<lambda>res w'. ran_once E W now (w_db w) res (w_db w')) (\<lambda>_ _. False) w"
  unfolding RunOnce_def wp_try_bnd
proof (rule wp_ClaimNextWebhookEvent [OF assms(1)])
  fix r :: webhook_event and t and w1 :: world
  let ?e = "r\<lparr>wh_status := WebhookEventStatusProcessing, wh_attempt_count := wh_attempt_count r + 1,
      wh_processing_started_at := Some now\<rparr>"
  assume due: "event_due now (webhook_events (w_db w)) = Some r"
    and w1: "w_db w1 = w_db w\<lparr>webhook_events :=
        upd_where (\<lambda>e. wh_id e = wh_id r) (event_claimed now t) (webhook_events (w_db w))\<rparr>"
  have c: "w_db w1 = claimed_db now t r (w_db w)" by (simp add: w1 claimed_db_def)
  have d1: "events_distinct (w_db w1)"
    using assms(2) by (simp add: w1 events_distinct_upd event_claimed_def)
  obtain retryable err w2 where a: "attempt_delivery E W r w1 = ((retryable, err), w2)"
    by (metis prod.exhaust)
  have a': "attempt_delivery E W ?e w1 = ((retryable, err), w2)"
    using a by (auto simp: attempt_delivery_def Let_def split: if_splits)
  have d2: "events_distinct (w_db w2)"
    using a d1 by (auto simp: attempt_delivery_def Let_def split: if_splits prod.splits dest: assms(3))
  note fin = ran_once.written [OF due c a] ran_once.not_written [OF due c a]
  show "wp (bnd (sendOnce E (wk_url_valid W) (wk_sender W) (wh_type ?e) (wh_id ?e) (wk_body W (wh_payload ?e)))
      (\<lambda>(retryable, err).
        let lease = (case wh_processing_started_at ?e of None \<Rightarrow> zero_time | Some t \<Rightarrow> t) in
        case err of
          Some msg \<Rightarrow>
            if retryable \<and> wh_attempt_count ?e < MaxDeliveryAttempts (wk_policy W)
            then let nextAttemptAt = now + deliveryRetryDelay (wh_attempt_count ?e) in
              try_bnd (RequeueWebhookEvent E (wh_id ?e) lease msg nextAttemptAt)
                (\<lambda>e. ret (True, Some e)) (\<lambda>_. ret (True, None))
            else try_bnd (MarkWebhookEventFailed E (wh_id ?e) lease msg)
                (\<lambda>e. ret (True, Some e)) (\<lambda>_. ret (True, None))
        | None \<Rightarrow> try_bnd (MarkWebhookEventDelivered E (wh_id ?e) lease now)
            (\<lambda>e. ret (True, Some e)) (\<lambda>_. ret (True, None))))
      (\<lambda>res w'. ran_once E W now (w_db w) res (w_db w')) (\<lambda>_ _. False) w1"
  proof -
    let ?Q = "\<lambda>res w'. ran_once E W now (w_db w) res (w_db w')"
    let ?m = "sendOnce E (wk_url_valid W) (wk_sender W) (wh_type ?e) (wh_id ?e) (wk_body W (wh_payload ?e))"
    have run: "?m w1 = (Inr (retryable, err), w2)"
      using sendOnce_run [of E W ?e w1] a' by simp
    have wr: "wp (try_bnd (event_transition E (wh_id r) now f) (\<lambda>e. ret (True, Some e)) (\<lambda>_. ret (True, None)))
        ?Q (\<lambda>_ _. False) w2"
      if "f = event_after (wk_policy W) now (wh_attempt_count r + 1) (retryable, err)" for f
      unfolding that wp_try_bnd wp_ret
      by (rule wp_event_transition [OF d2]) (auto intro: fin)
    show ?thesis
      unfolding wp_bnd wp_of_run [of ?m w1, OF run]
      using wr
      by (cases err) (auto simp: transition_defs event_after_def [abs_def] Let_def)
  qed
next
  fix e and w' :: world
  assume "w_db w' = w_db w"
    and "errors_is e (EStore ErrorWebhookEventNotFound) \<longrightarrow> event_due now (webhook_events (w_db w)) = None"
  then show "wp (ret (False, if errors_is e (EStore ErrorWebhookEventNotFound) then None else Some e))
      (\<lambda>res w'. ran_once E W now (w_db w) res (w_db w')) (\<lambda>_ _. False) w'"
    by (auto simp: wps intro: ran_once.intros)
qed

section \<open>Everything is work on the queue\<close>

text \<open>
  The rely: while a delivery attempt runs, the rest of the system may do any work on the queue,
  but never leases the same event at the same instant again.
\<close>

definition others_work :: "int \<Rightarrow> sender \<Rightarrow> bool" where
  "others_work m s \<longleftrightarrow> (\<forall>url hs b w resp w'. Client s url hs b w = (resp, w') \<longrightarrow> events_distinct (w_db w) \<longrightarrow>
     queue_work m (w_db w) (w_db w') \<and>
     (\<forall>k l n n'. webhook_jobs (w_db w) k = Some (Leased l, n) \<longrightarrow>
        webhook_jobs (w_db w') k = Some (Leased l, n') \<longrightarrow> n' = n))"

lemma others_workD:
  assumes "others_work m (wk_sender W)" and "attempt_delivery E W r w = (res, w')" and "events_distinct (w_db w)"
  shows "queue_work m (w_db w) (w_db w')"
    and "webhook_jobs (w_db w) k = Some (Leased l, n) \<Longrightarrow> webhook_jobs (w_db w') k = Some (Leased l, n') \<Longrightarrow> n' = n"
  using assms
  by (auto simp: attempt_delivery_def others_work_def Let_def split: if_splits prod.splits)

lemma claimed_job:
  assumes "events_distinct d" and "event_due now (webhook_events d) = Some r"
  shows "webhook_jobs (claimed_db now t r d) (wh_id r) = Some (Leased now, wh_attempt_count r + 1)"
  using jobs_of_upd_key [of wh_id "webhook_events d" r "event_claimed now t" "\<lambda>e. wh_id e = wh_id r"
      event_phase wh_attempt_count] event_due_SomeD [OF assms(2)] assms(1)
  by (auto simp: claimed_db_def events_distinct_def distinct_map inj_on_def event_claimed_def
      event_phase_def webhook_status_defs)

lemma ran_once_work:
  assumes "ran_once E W now d res d'" and "events_distinct d"
    and "others_work (MaxDeliveryAttempts (wk_policy W)) (wk_sender W)"
  shows "queue_work (MaxDeliveryAttempts (wk_policy W)) d d'"
  using assms(1)
proof cases
  case (written r w1 t out w2 h t')
  let ?m = "MaxDeliveryAttempts (wk_policy W)"
  have q1: "queue_work ?m d (w_db w1)"
    using claim_work [OF assms(2) written(3), of ?m t] written(4) by (simp add: claimed_db_def)
  then have d1: "events_distinct (w_db w1)" by (simp add: queue_work_def)
  have q2: "queue_work ?m (w_db w1) (w_db w2)"
    by (rule others_workD(1) [OF assms(3) written(5) d1])
  then have d2: "events_distinct (w_db w2)" by (simp add: queue_work_def)
  have n: "wh_attempt_count e = wh_attempt_count r + 1"
    if "e \<in> set (webhook_events (w_db w2))" "holds_event (wh_id r) now e" for e
  proof -
    have ph: "wh_id e = wh_id r" "event_phase e = Leased now"
      using that(2) by (simp_all add: webhook.holds)
    have "webhook_jobs (w_db w2) (wh_id r) = Some (Leased now, wh_attempt_count e)"
      using jobs_of_row [of wh_id "webhook_events (w_db w2)" e event_phase wh_attempt_count] that(1) ph d2
      by (simp add: events_distinct_def)
    then show ?thesis
      using others_workD(2) [OF assms(3) written(5) d1] claimed_job [OF assms(2) written(3), of t] written(4)
      by metis
  qed
  have q3: "queue_work ?m (w_db w2) d'"
    unfolding written(2)
    by (rule transition_work [OF d2])
       (use n in \<open>auto simp: event_after_phase terminal_def split: prod.splits option.splits\<close>)
  show ?thesis using queue_work_trans [OF queue_work_trans [OF q1 q2] q3] .
next
  case (not_written r w1 t out w2 e)
  let ?m = "MaxDeliveryAttempts (wk_policy W)"
  have q1: "queue_work ?m d (w_db w1)"
    using claim_work [OF assms(2) not_written(3), of ?m t] not_written(4) by (simp add: claimed_db_def)
  then have d1: "events_distinct (w_db w1)" by (simp add: queue_work_def)
  show ?thesis
    unfolding not_written(2) using queue_work_trans [OF q1 others_workD(1) [OF assms(3) not_written(5) d1]] .
qed (use assms(2) in simp_all)

lemma ReapStale_work: "keeps (queue_work m d0) (ReapStaleWebhookEvents E staleBefore nextAttemptAt m batchSize)"
  unfolding ReapStaleWebhookEvents_def
proof (rule keeps_exec)
  fix t :: time and u :: uuid and d x d'
  assume q: "queue_work m d0 d"
    and run: "(let picked = oldest (event_stale staleBefore) (\<lambda>e. (wh_processing_started_at e, wh_id e)) batchSize
           (webhook_events d);
         hit = (\<lambda>e. wh_id e \<in> set (map wh_id picked));
         updated = map (event_reaped m nextAttemptAt t) (filter hit (webhook_events d))
     in Inr (\<lparr>Retried = int (count_where (\<lambda>e. wh_status e = WebhookEventStatusPending) updated),
              Failed = int (count_where (\<lambda>e. wh_status e = WebhookEventStatusFailed) updated)\<rparr>,
             d\<lparr>webhook_events := upd_where hit (event_reaped m nextAttemptAt t) (webhook_events d)\<rparr>)) = Inr (x, d')"
  from q have d: "distinct (map wh_id (webhook_events d))" by (simp add: queue_work_def events_distinct_def)
  define hit where "hit = (\<lambda>e :: webhook_event. wh_id e \<in> set (map wh_id (oldest (event_stale staleBefore)
      (\<lambda>e. (wh_processing_started_at e, wh_id e)) batchSize (webhook_events d))))"
  have d': "d' = d\<lparr>webhook_events := upd_where hit (event_reaped m nextAttemptAt t) (webhook_events d)\<rparr>"
    using run by (simp add: Let_def hit_def)
  have "job_steps m (webhook_jobs d) (jobs_of wh_id event_phase wh_attempt_count
      (upd_where hit (event_reaped m nextAttemptAt t) (webhook_events d)))"
  proof (rule webhook.reap_steps [OF d])
    show "event_stale staleBefore x" if "x \<in> set (webhook_events d)" "hit x" for x
      using picked_by_id [OF d that(1)] that(2) unfolding hit_def by blast
  qed (auto simp: event_reaped_def event_phase_def webhook_status_defs)
  then have "queue_work m d d'"
    using d by (simp add: d' queue_work_def events_distinct_def map_upd_where_same event_reaped_def)
  with q show "queue_work m d0 d'" by (rule queue_work_trans)
qed

lemma DeleteExpired_work: "keeps (queue_work m d0) (DeleteExpiredWebhookEvents E deliveredBefore failedBefore n)"
  unfolding DeleteExpiredWebhookEvents_def
proof (rule keeps_exec_count)
  fix t and d :: db
  assume q: "queue_work m d0 d"
  then have d: "distinct (map wh_id (webhook_events d))" by (simp add: queue_work_def events_distinct_def)
  define hit where "hit = (\<lambda>e :: webhook_event. wh_id e \<in> set (map wh_id
     (oldest (event_expired (deliveredBefore, failedBefore)) (\<lambda>e. (wh_updated_at e, wh_id e)) n (webhook_events d))))"
  have "job_steps m (webhook_jobs d) (jobs_of wh_id event_phase wh_attempt_count (del_where hit (webhook_events d)))"
  proof (rule webhook.purge_steps [OF d])
    show "event_expired (deliveredBefore, failedBefore) x" if "x \<in> set (webhook_events d)" "hit x" for x
      using picked_by_id [OF d that(1)] that(2) unfolding hit_def by blast
  qed
  then have "queue_work m d (d\<lparr>webhook_events := del_where hit (webhook_events d)\<rparr>)"
    using d by (simp add: queue_work_def events_distinct_def distinct_map_del_where)
  from queue_work_trans [OF q this] show "queue_work m d0 (snd (let picked = oldest (event_expired
         (deliveredBefore, failedBefore)) (\<lambda>e. (wh_updated_at e, wh_id e)) n (webhook_events d);
       hit = (\<lambda>e. wh_id e \<in> set (map wh_id picked))
     in (count_where hit (webhook_events d), d\<lparr>webhook_events := del_where hit (webhook_events d)\<rparr>)))"
    by (simp add: Let_def hit_def)
qed

lemma CreateWebhookEvent_work: "keeps (queue_work m d0) (CreateWebhookEvent E i ty p)"
  unfolding CreateWebhookEvent_def
proof (rule keeps_exec)
  fix t :: time and u :: uuid and d x d'
  assume q: "queue_work m d0 d"
    and run: "(if too_long 64 i \<or> too_long 128 ty then Inl ValueTooLong
     else if fit 64 i \<in> wh_id ` set (webhook_events d)
       then Inl (UniqueViolation ''webhook_events_pkey'')
     else let row = \<lparr>wh_id = fit 64 i, wh_created_at = t, wh_updated_at = t,
                wh_type = fit 128 ty, wh_payload = p, wh_status = WebhookEventStatusPending,
                wh_attempt_count = 0, wh_next_attempt_at = t, wh_processing_started_at = None,
                wh_last_error = None, wh_delivered_at = None\<rparr>
       in Inr (row, d\<lparr>webhook_events := webhook_events d @ [row]\<rparr>)) = Inr (x, d')"
  have n: "fit 64 i \<notin> wh_id ` set (webhook_events d)" using run by (auto split: if_splits)
  have j: "webhook_jobs d (fit 64 i) = None" using n by (simp add: jobs_of_None)
  have "queue_work m d d'"
    using run n job_step.enqueue [of "webhook_jobs d" "fit 64 i", OF j] q
    by (auto simp: Let_def queue_work_def events_distinct_def jobs_of_append_new event_phase_def
        split: if_splits)
  with q show "queue_work m d0 d'" by (rule queue_work_trans)
qed

end
