(* ===== verification/Webhook_Properties.thy ===== *)
theory Webhook_Properties
  imports Webhook_Proofs Demo
begin

text \<open>
  The properties of webhook delivery: which events are published, what one run of a worker
  does, the refinement of the job machine with its bound on attempts, the fencing of expired
  leases, and the end of the reaper's loop.
\<close>

section \<open>The queue as a system\<close>

inductive webhook_step :: "int \<Rightarrow> db \<Rightarrow> db \<Rightarrow> bool" for maxAttempts where
  worker: "RunOnce E W now w = (res, w') \<Longrightarrow> w_tx w = NoTx \<Longrightarrow>
    MaxDeliveryAttempts (wk_policy W) = maxAttempts \<Longrightarrow> others_work maxAttempts (wk_sender W) \<Longrightarrow>
    webhook_step maxAttempts (w_db w) (w_db w')"
| reaper: "ReapStaleWebhookEvents E staleBefore now maxAttempts n w = (r, w') \<Longrightarrow>
    webhook_step maxAttempts (w_db w) (w_db w')"
| cleanup: "CleanupExpiredEventsBatch E p now w = (c, w') \<Longrightarrow> webhook_step maxAttempts (w_db w) (w_db w')"
| publish: "QueuePublisher E json_valid event w = (u, w') \<Longrightarrow> webhook_step maxAttempts (w_db w) (w_db w')"

lemma others_keep_distinct:
  "others_work m s \<Longrightarrow> Client s url hs b w = (resp, w') \<Longrightarrow> events_distinct (w_db w) \<Longrightarrow> events_distinct (w_db w')"
  by (auto simp: others_work_def queue_work_def)

lemma webhook_step_work:
  assumes "webhook_step m d d'" and "events_distinct d"
  shows "queue_work m d d'"
  using assms
proof cases
  case (worker E W now w res w')
  have "wp (RunOnce E W now) (\<lambda>res w'. ran_once E W now (w_db w) res (w_db w')) (\<lambda>_ _. False) w"
    by (rule RunOnce_ran) (use worker assms(2) others_keep_distinct in auto)
  then have "\<exists>out. ran_once E W now (w_db w) out (w_db w')"
    using worker by (auto simp: wp_def split: sum.splits)
  then show ?thesis using ran_once_work assms(2) worker by blast
next
  case (reaper E staleBefore now n w r w')
  show ?thesis
    unfolding reaper(1,2) by (rule keepsD [OF ReapStale_work _ reaper(3)]) (use assms(2) reaper in simp)
next
  case (cleanup E p now w c w')
  have "keeps (queue_work m d) (CleanupExpiredEventsBatch E p now)"
    unfolding CleanupExpiredEventsBatch_def by (intro keeps_intro DeleteExpired_work)
  from keepsD [OF this _ cleanup(3)] show ?thesis using assms(2) cleanup by simp
next
  case (publish E json_valid event w u w')
  have "keeps (queue_work m d) (QueuePublisher E json_valid event)"
    unfolding QueuePublisher_def by (intro keeps_intro CreateWebhookEvent_work)
  from keepsD [OF this _ publish(3)] show ?thesis using assms(2) publish by simp
qed

lemma webhook_steps_work:
  assumes "(webhook_step m)\<^sup>*\<^sup>* d d'" and "events_distinct d"
  shows "queue_work m d d'"
  using assms(1)
proof (induction rule: rtranclp_induct)
  case base
  then show ?case by (simp add: assms(2))
next
  case (step y z)
  then show ?case
    using webhook_step_work [of m y z] queue_work_trans by (auto simp: queue_work_def)
qed

section \<open>A concrete queue\<close>

definition queued_event :: webhook_event where
  "queued_event = \<lparr>wh_id = ''e1'', wh_created_at = 0, wh_updated_at = 0, wh_type = ''user.created'',
     wh_payload = \<lparr>env_id = ''e1'', env_type = ''user.created'', env_created_at = 0, env_data = UserData 10\<rparr>,
     wh_status = ''pending'', wh_attempt_count = 0, wh_next_attempt_at = 5,
     wh_processing_started_at = None, wh_last_error = None, wh_delivered_at = None\<rparr>"

definition queue_world :: world where
  "queue_world = demo_world\<lparr>w_db := demo_db\<lparr>webhook_events := [queued_event]\<rparr>\<rparr>"

definition answering :: "int \<Rightarrow> sender" where
  "answering c = \<lparr>URL = ''https://hooks.test'', Secret = ''s'', Client = (\<lambda>_ _ _ w. (Response c, w))\<rparr>"

definition webhook_worker :: "int \<Rightarrow> worker" where
  "webhook_worker c = \<lparr>wk_sender = answering c, wk_url_valid = (\<lambda>_. True), wk_body = (\<lambda>_. ''{}''),
     wk_policy = \<lparr>MaxDeliveryAttempts = 3, ProcessingStaleAfter = 100, DeliveredRetention = 1000,
       FailedRetention = 1000, MaintenanceBatchSize = 10\<rparr>\<rparr>"

lemmas webhook_eval = queue_world_def queued_event_def answering_def webhook_worker_def

lemmas webhook_run_eval = RunOnce_def ClaimNextWebhookEvent_def event_due_def event_claimed_def
  sendOnce_def call_client_def event_transition_def ensureWebhookEventTransition_def holds_event_def
  transition_defs retryable_iff deliveryRetryDelay_def oldest_def count_where_def

lemma queue_world_runs:
  "RunOnce demo_env (webhook_worker 200) 7 queue_world = (Inr (True, None), w') \<Longrightarrow>
    map wh_status (webhook_events (w_db w')) = [''delivered'']"
  "RunOnce demo_env (webhook_worker 503) 7 queue_world = (Inr (True, None), w') \<Longrightarrow>
    map (\<lambda>e. (wh_status e, wh_next_attempt_at e)) (webhook_events (w_db w')) = [(''pending'', 7 + 30 * second)]"
  "RunOnce demo_env (webhook_worker 404) 7 queue_world = (Inr (True, None), w') \<Longrightarrow>
    map wh_status (webhook_events (w_db w')) = [''failed'']"
  "\<exists>w'. RunOnce demo_env (webhook_worker 200) 7 queue_world = (Inr (True, None), w')"
  by (auto simp: webhook_run_eval webhook_eval webhook_status_defs eval_defs demo_defs Let_def)

lemma others_work_alone: "others_work m (answering c)"
  by (auto simp: others_work_def answering_def)

section \<open>Properties\<close>

text \<open>
  C26. One run of the webhook worker: either nothing was due and nothing happened, or the claim
  failed and nothing happened, or the earliest due event was leased and attempted, and then
  the outcome (delivered, retried later, failed for good, by status code and attempts left) was
  written to the row holding this very lease, or nothing was written at all.
\<close>

theorem webhook_run_once_spec:
  assumes "w_tx w = NoTx" and "events_distinct (w_db w)"
    and "\<And>url hs b w0 resp w1. Client (wk_sender W) url hs b w0 = (resp, w1) \<Longrightarrow>
      events_distinct (w_db w0) \<Longrightarrow> events_distinct (w_db w1)"
    and "RunOnce E W now w = (out, w')"
  shows "\<exists>res. out = Inr res \<and> ran_once E W now (w_db w) res (w_db w')"
proof -
  have "wp (RunOnce E W now) (\<lambda>res w'. ran_once E W now (w_db w) res (w_db w')) (\<lambda>_ _. False) w"
    by (rule RunOnce_ran [OF assms(1,2)]) (rule assms(3))
  with assms(4) show ?thesis by (auto simp: wp_def split: sum.splits)
qed

theorem webhook_run_once_spec_witness:
  "\<exists>w'. RunOnce demo_env (webhook_worker 200) 7 queue_world = (Inr (True, None), w')
     \<and> ran_once demo_env (webhook_worker 200) 7 (w_db queue_world) (True, None) (w_db w')
     \<and> map wh_status (webhook_events (w_db w')) = [''delivered'']"
proof -
  obtain w' where r: "RunOnce demo_env (webhook_worker 200) 7 queue_world = (Inr (True, None), w')"
    using queue_world_runs(4) by blast
  have "w_tx queue_world = NoTx" and "events_distinct (w_db queue_world)"
    by (simp_all add: webhook_eval demo_world_def events_distinct_def)
  moreover have "events_distinct (w_db w1)"
    if "Client (wk_sender (webhook_worker 200)) url hs b w0 = (resp, w1)" "events_distinct (w_db w0)"
    for url hs b w0 resp w1
    using that by (simp add: webhook_worker_def answering_def)
  ultimately have "\<exists>res. Inr (True, None) = (Inr res :: err + bool \<times> err option)
      \<and> ran_once demo_env (webhook_worker 200) 7 (w_db queue_world) res (w_db w')"
    by (rule webhook_run_once_spec [OF _ _ _ r])
  then show ?thesis using r queue_world_runs(1) by auto
qed

text \<open>
  C25. The queue of webhooks implements the abstract job machine: publishing, the workers (with
  whatever other workers do during a delivery), the reaper and the clean-up only make steps of
  the machine, and event identifiers stay unique.
\<close>

theorem webhook_queue_refines:
  assumes "webhook_step maxAttempts d d'" and "events_distinct d"
  shows "events_distinct d' \<and> job_steps maxAttempts (webhook_jobs d) (webhook_jobs d')"
  using webhook_step_work [OF assms] by (simp add: queue_work_def)

theorem webhook_queue_refines_witness:
  "\<exists>w'. RunOnce demo_env (webhook_worker 200) 7 queue_world = (Inr (True, None), w')
     \<and> job_steps 3 (webhook_jobs (w_db queue_world)) (webhook_jobs (w_db w'))"
proof -
  obtain w' where r: "RunOnce demo_env (webhook_worker 200) 7 queue_world = (Inr (True, None), w')"
    using queue_world_runs(4) by blast
  have "webhook_step 3 (w_db queue_world) (w_db w')"
    by (rule webhook_step.worker [OF r])
      (simp_all add: webhook_eval demo_world_def others_work_alone [unfolded answering_def])
  then show ?thesis
    using r webhook_queue_refines [of 3 "w_db queue_world" "w_db w'"]
    by (auto simp: webhook_eval events_distinct_def)
qed

text \<open>
  C24. Bound on delivery attempts: whatever the interleaving of publishers, workers, reaper and
  clean-up, no event is attempted more than \<open>MaxDeliveryAttempts\<close> times, and an event
  waiting to be attempted has an attempt left.
\<close>

theorem webhook_attempts_bounded:
  assumes "(webhook_step maxAttempts)\<^sup>*\<^sup>* d d'" and "webhook_events d = []" and "0 < maxAttempts"
    and "e \<in> set (webhook_events d')"
  shows "0 \<le> wh_attempt_count e \<and> wh_attempt_count e \<le> maxAttempts
    \<and> (wh_status e = WebhookEventStatusPending \<longrightarrow> wh_attempt_count e < maxAttempts)"
proof -
  have q: "queue_work maxAttempts d d'"
    using webhook_steps_work [OF assms(1)] assms(2) by (simp add: events_distinct_def)
  have "queue_ok maxAttempts (webhook_jobs d')"
    using job_steps_ok [of maxAttempts "webhook_jobs d" "webhook_jobs d'"] q assms(2,3)
    by (simp add: queue_work_def queue_ok_def)
  moreover have "webhook_jobs d' (wh_id e) = Some (event_phase e, wh_attempt_count e)"
    using jobs_of_row [of wh_id, OF _ assms(4), of event_phase wh_attempt_count] q by (simp add: queue_work_def events_distinct_def)
  ultimately have "job_ok maxAttempts (event_phase e, wh_attempt_count e)"
    by (simp add: queue_ok_def)
  then show ?thesis by (simp add: job_ok_def event_status_phase(1))
qed

theorem webhook_attempts_bounded_witness:
  "\<exists>w'. QueuePublisher demo_env (\<lambda>_. True) (wh_payload queued_event) demo_world = (Inr (), w')
     \<and> (\<forall>e\<in>set (webhook_events (w_db w')). wh_attempt_count e \<le> 3)"
proof -
  obtain w' where r: "QueuePublisher demo_env (\<lambda>_. True) (wh_payload queued_event) demo_world = (Inr (), w')"
    by (simp add: QueuePublisher_def CreateWebhookEvent_def queued_event_def too_long_def eval_defs demo_defs Let_def)
  have "webhook_step 3 (w_db demo_world) (w_db w')" by (rule webhook_step.publish [OF r])
  then show ?thesis
    using r webhook_attempts_bounded [of 3 "w_db demo_world" "w_db w'"] by (auto simp: demo_defs)
qed

text \<open>
  Fencing: a worker whose lease is gone (the event was reaped, and perhaps leased again at
  another instant or finished) can neither deliver, nor fail, nor requeue it: the transition
  reports an error and the database is unchanged.
\<close>

theorem webhook_lease_fencing:
  assumes "events_distinct (w_db w)" and "webhook_jobs (w_db w) eventID = Some (p, n)" and "p \<noteq> Leased lease"
    and "transition \<in> {MarkWebhookEventDelivered E eventID lease t, MarkWebhookEventFailed E eventID lease msg,
      RequeueWebhookEvent E eventID lease msg t}"
    and "transition w = (res, w')"
  shows "res \<noteq> Inr () \<and> w_db w' = w_db w"
proof -
  have no: "\<not> holds_event eventID lease r" if "r \<in> set (webhook_events (w_db w))" for r
    using webhook.no_holder(1) [OF assms(2,3)] assms(1) that by (simp add: events_distinct_def)
  have "wp (event_transition E eventID lease f) (\<lambda>_ _. False) (\<lambda>_ w'. w_db w' = w_db w) w" for f
    by (rule wp_event_transition [OF assms(1)]) (use no in auto)
  then have refused: "a \<noteq> Inr () \<and> w_db b = w_db w" if "event_transition E eventID lease f w = (a, b)" for f a b
    using that by (auto simp: wp_def split: sum.splits dest!: meta_spec [of _ f])
  show ?thesis
    using assms(4,5) refused by (auto simp: transition_defs)
qed

theorem webhook_lease_fencing_witness:
  "\<exists>res w'. MarkWebhookEventDelivered demo_env ''e1'' 4 6 queue_world = (res, w')
     \<and> res \<noteq> Inr () \<and> webhook_events (w_db w') = [queued_event]"
proof -
  obtain res w' where r: "MarkWebhookEventDelivered demo_env ''e1'' 4 6 queue_world = (res, w')" by fastforce
  have "webhook_jobs (w_db queue_world) ''e1'' = Some (Waiting, 0)"
    by (simp add: queue_world_def queued_event_def jobs_of_def event_phase_def webhook_status_defs)
  then show ?thesis
    using webhook_lease_fencing [of queue_world "''e1''" Waiting 0 4
      "MarkWebhookEventDelivered demo_env ''e1'' 4 6" demo_env 6 "''m''" res w'] r
    by (simp add: queue_world_def events_distinct_def)
qed

section \<open>The reaper's loop\<close>

lemma filter_upd_none:
  assumes "\<And>x. x \<in> set rs \<Longrightarrow> p x \<Longrightarrow> \<not> q (f x)"
  shows "filter q (upd_where p f rs) = filter (\<lambda>x. q x \<and> \<not> p x) rs"
  using assms by (induction rs) (auto simp: upd_where_def)

lemma length_filter_id_hit:
  assumes "distinct (map key rs)" and "set xs \<subseteq> set rs" and "distinct xs"
  shows "length (filter (\<lambda>x. key x \<in> set (map key xs)) rs) = length xs"
proof -
  have inj: "inj_on key (set rs)" using assms(1) by (simp add: distinct_map)
  have "set (filter (\<lambda>x. key x \<in> set (map key xs)) rs) = set xs"
    using assms(2) inj by (auto simp: inj_on_def)
  moreover have "distinct (filter (\<lambda>x. key x \<in> set (map key xs)) rs)"
    using assms(1) by (simp add: distinct_map)
  ultimately show ?thesis using assms(3) by (metis distinct_card)
qed

text \<open>One batch: it takes back as many stale events as it may, and no others.\<close>

lemma reap_batch:
  fixes w :: world
  assumes "sql_ok E w" and "events_distinct (w_db w)"
  shows "\<exists>r w'. ReapStaleWebhookEvents E s nx m b w = (Inr r, w') \<and> events_distinct (w_db w') \<and> w_tx w' = w_tx w
    \<and> reap_total r = int (min b (count_where (event_stale s) (webhook_events (w_db w))))
    \<and> count_where (event_stale s) (webhook_events (w_db w')) =
        count_where (event_stale s) (webhook_events (w_db w)) - b"
proof -
  let ?es = "webhook_events (w_db w)" and ?t = "o_dbnow E (w_step w)"
  define picked where "picked = oldest (event_stale s) (\<lambda>e. (wh_processing_started_at e, wh_id e)) b ?es"
  define hit where "hit = (\<lambda>e :: webhook_event. wh_id e \<in> set (map wh_id picked))"
  let ?f = "event_reaped m nx ?t"
  define r where "r = \<lparr>Retried = int (count_where (\<lambda>e. wh_status e = WebhookEventStatusPending) (map ?f (filter hit ?es))),
     Failed = int (count_where (\<lambda>e. wh_status e = WebhookEventStatusFailed) (map ?f (filter hit ?es)))\<rparr>"
  let ?w' = "tick (w\<lparr>w_db := w_db w\<lparr>webhook_events := upd_where hit ?f ?es\<rparr>\<rparr>)"
  have run: "ReapStaleWebhookEvents E s nx m b w = (Inr r, ?w')"
    using assms(1) by (simp add: ReapStaleWebhookEvents_def exec_run Let_def r_def hit_def picked_def)
  have d: "distinct (map wh_id ?es)" using assms(2) by (simp add: events_distinct_def)
  have sub: "set picked \<subseteq> set (filter (event_stale s) ?es)"
    unfolding picked_def using oldest_subset by fastforce
  have dp: "distinct picked"
    unfolding picked_def oldest_def using d by (simp add: distinct_map)
  have lp: "length picked = min b (count_where (event_stale s) ?es)"
    by (simp add: picked_def oldest_def count_where_def min.commute)
  have lh: "length (filter hit ?es) = length picked"
    unfolding hit_def by (rule length_filter_id_hit [OF d _ dp]) (use sub in auto)
  have "(\<lambda>e. wh_status (?f e) = WebhookEventStatusFailed) = (\<lambda>e. \<not> wh_status (?f e) = WebhookEventStatusPending)"
    by (auto simp: event_reaped_def webhook_status_defs fun_eq_iff)
  then have tot: "reap_total r = int (length (filter hit ?es))"
    using sum_length_filter_compl [of "\<lambda>e. wh_status (?f e) = WebhookEventStatusPending" "filter hit ?es"]
    by (simp add: reap_total_def r_def count_where_def filter_map comp_def flip: of_nat_add)
  have st: "event_stale s e" if "e \<in> set ?es" "hit e" for e
    using picked_by_id [OF d that(1)] that(2) unfolding hit_def picked_def by blast
  have "filter (event_stale s) (upd_where hit ?f ?es) = filter (\<lambda>e. event_stale s e \<and> \<not> hit e) ?es"
    by (rule filter_upd_none) (simp add: event_reaped_def event_stale_def webhook_status_defs)
  also have "length \<dots> = length (filter (event_stale s) ?es) - length (filter hit ?es)"
  proof -
    have "filter (\<lambda>e. event_stale s e \<and> hit e) ?es = filter hit ?es"
      using st by (auto intro: filter_cong)
    then show ?thesis
      using sum_length_filter_compl [of hit "filter (event_stale s) ?es"] by (simp add: conj_commute)
  qed
  finally have "count_where (event_stale s) (webhook_events (w_db ?w')) = count_where (event_stale s) ?es - b"
    using lh lp by (simp add: count_where_def)
  moreover have "events_distinct (w_db ?w')"
    using events_distinct_upd [of ?f "w_db w" hit] assms(2) by (simp add: event_reaped_def)
  ultimately show ?thesis
    using run tot lh lp by (intro exI [of _ r] exI [of _ ?w']) simp
qed

lemma reapStale_ends:
  assumes "\<forall>n. \<not> o_fault E n" and "w_tx w \<noteq> TxAborted" and "events_distinct (w_db w)"
    and "count_where (event_stale (now - ProcessingStaleAfter p)) (webhook_events (w_db w)) < fuel * MaintenanceBatchSize p"
  shows "\<exists>r w'. reapStale E fuel p now acc w = (Inr (Some (r, None)), w')
    \<and> count_where (event_stale (now - ProcessingStaleAfter p)) (webhook_events (w_db w')) = 0
    \<and> reap_total r = reap_total acc
        + int (count_where (event_stale (now - ProcessingStaleAfter p)) (webhook_events (w_db w)))"
  using assms(2-4)
proof (induction fuel arbitrary: w acc)
  case 0
  then show ?case by simp
next
  case (Suc fuel)
  let ?s = "now - ProcessingStaleAfter p" and ?b = "MaintenanceBatchSize p"
  let ?c = "\<lambda>w. count_where (event_stale ?s) (webhook_events (w_db w))"
  have ok: "sql_ok E w" using assms(1) Suc.prems(1) by (simp add: sql_ok_def sql_problem_def)
  obtain r w1 where r: "ReapStaleWebhookEvents E ?s now (MaxDeliveryAttempts p) ?b w = (Inr r, w1)"
    and w1: "events_distinct (w_db w1)" "w_tx w1 = w_tx w" "?c w1 = ?c w - ?b"
    and tot: "reap_total r = int (min ?b (?c w))"
    using reap_batch [OF ok Suc.prems(2), of ?s now "MaxDeliveryAttempts p" ?b] by blast
  let ?acc = "\<lparr>Retried = Retried acc + Retried r, Failed = Failed acc + Failed r\<rparr>"
  have acc: "reap_total ?acc = reap_total acc + int (min ?b (?c w))"
    using tot by (simp add: reap_total_def)
  show ?case
  proof (cases "?c w < ?b")
    case True
    then have "?c w1 = 0" using w1(3) by linarith
    moreover have "reapStale E (Suc fuel) p now acc w = (Inr (Some (?acc, None)), w1)"
      using r tot True by (simp add: try_bnd_def ret_def Let_def)
    ultimately show ?thesis using acc True by (intro exI [of _ ?acc] exI [of _ w1]) simp
  next
    case False
    have "reapStale E (Suc fuel) p now acc w = reapStale E fuel p now ?acc w1"
      using r tot False by (simp add: try_bnd_def Let_def)
    moreover have "?c w1 < fuel * ?b" using Suc.prems(3) w1(3) False by simp
    ultimately show ?thesis
      using Suc.IH [of w1 ?acc] w1 Suc.prems(1) acc False by auto
  qed
qed

text \<open>
  C27. The reaper's loop ends: with a positive batch size and no failing statement, a number of
  batches that covers the stale leases is enough, the loop reports exactly that many events,
  and no stale lease is left.
\<close>

theorem webhook_reaper_terminates:
  assumes "\<forall>n. \<not> o_fault E n" and "w_tx w \<noteq> TxAborted" and "events_distinct (w_db w)"
    and "count_where (event_stale (now - ProcessingStaleAfter p)) (webhook_events (w_db w)) < fuel * MaintenanceBatchSize p"
  shows "\<exists>r w'. reapStale E fuel p now \<lparr>Retried = 0, Failed = 0\<rparr> w = (Inr (Some (r, None)), w')
    \<and> count_where (event_stale (now - ProcessingStaleAfter p)) (webhook_events (w_db w')) = 0
    \<and> reap_total r = int (count_where (event_stale (now - ProcessingStaleAfter p)) (webhook_events (w_db w)))"
  using reapStale_ends [OF assms, of "\<lparr>Retried = 0, Failed = 0\<rparr>"] by (simp add: reap_total_def)

theorem webhook_reaper_terminates_witness:
  "\<exists>r w'. reapStale demo_env 2 (wk_policy (webhook_worker 200)) 200 \<lparr>Retried = 0, Failed = 0\<rparr>
      (queue_world\<lparr>w_db := demo_db\<lparr>webhook_events := [event_claimed 7 8 queued_event]\<rparr>\<rparr>) = (Inr (Some (r, None)), w')
     \<and> reap_total r = 1"
  using webhook_reaper_terminates [of demo_env "queue_world\<lparr>w_db := demo_db\<lparr>webhook_events := [event_claimed 7 8 queued_event]\<rparr>\<rparr>"
      200 "wk_policy (webhook_worker 200)" 2]
  by (auto simp: demo_env_def webhook_worker_def queue_world_def demo_world_def events_distinct_def
      event_claimed_def event_stale_def count_where_def)

end
