(* ===== verification/Challenge_Steps.thy ===== *)
theory Challenge_Steps
  imports Signup_Completion Challenge_Proofs
begin

text \<open>
  The program's steps on the table \<open>challenges\<close>: every operation that writes it (the
  challenge service, the sign-ups and the deletion of users that run its statements, the delivery
  of codes, the clean-up), each shown to be one move of the challenge machine.
\<close>

section \<open>The callbacks of the sign-up leave the challenges alone\<close>

lemma frames_leaves: "leaves signed_view m \<Longrightarrow> frames m"
  unfolding frames_def by (intro allI keepsI) (auto dest: leavesD simp: signed_view_def)

lemma frames_publish: "events_only pub \<Longrightarrow> frames (pub evt)"
  unfolding frames_def by (intro allI events_only_keeps) auto

lemma frames_new_session [frames_intro]: "frames (store_CreateSession E s)" "frames (CreateRefreshToken E rt)"
  unfolding store_CreateSession_def CreateRefreshToken_def Let_def
  by (intro frames_intro frames_exec; auto split: if_splits)+

lemma frames_more [frames_intro]:
  "frames (of_sum v)" "frames (rand_read E n)" "frames (recordAuthentication E rc ty ae)"
  "frames (GenerateWithEmailVerification E J T u s oid rl aud rs ev now)"
  by (auto simp: frames_def GenerateWithEmailVerification_def intro!: keeps_intro keeps_recorders)

lemma frames_raise_result [frames_intro]: "frames m \<Longrightarrow> frames (raise_result m)"
  unfolding frames_def by (intro allI keeps_raise_result) auto

lemma frames_case_prod [frames_intro]: "(\<And>a b. frames (f a b)) \<Longrightarrow> frames (case p of (a, b) \<Rightarrow> f a b)"
  by (cases p) simp

lemma frames_store_new_session [frames_intro]:
  "frames (store_new_session E S u user org m rs pk aud meth ua now ip)"
  unfolding store_new_session_def generateRefreshToken_def AuthenticationLogin_def by (intro frames_intro)

lemma frames_createSession: "frames (createSession E S u pk aud meth ua now ip)"
  unfolding createSession_def ensureUserAllowed_def IsEmailAllowed_def store_IsEmailAllowed_def passkey_available_def
    recordSessionAuthenticationDenied_def AuthenticationLogin_def DefaultOrganizationForUser_def RequireMembership_def
    lock_defs lookup_defs GetPasskeyByID_def GetPersonalOrganizationForUser_def ListOrganizationMembershipsByUserID_def
    GetOrganizationByID_def Let_def
  by (intro frames_intro; auto intro!: frames_intro split: access_policy.splits list.splits)

lemma frames_callbacks:
  assumes "events_only (as_publish T)" and "events_only (os_publish (as_organizations T))"
  shows "frames (complete_signup_ui E T now action)" "frames (complete_signup_api E T S ua now ip action)"
  unfolding complete_signup_ui_def complete_signup_api_def CreateSession_def
  by (intro frames_intro frames_leaves [OF view_Signup] frames_createSession assms)+

section \<open>Deleting a user deletes challenges\<close>

lemma challenges_left [leaves_intro]:
  "leaves challenges (DeleteSessionsByOrganizationMembership E i u)" "leaves challenges (DeleteSessionsByOrganization E i)"
  "leaves challenges (DeleteOrganizationMembership E i u)" "leaves challenges (store_DeleteOrganization E i)"
  "leaves challenges (CreateAppleTokenRevocationForUser E j u)" "leaves challenges (store_DeleteUser E u)"
  unfolding DeleteSessionsByOrganizationMembership_def DeleteSessionsByOrganization_def
    DeleteOrganizationMembership_def store_DeleteOrganization_def CreateAppleTokenRevocationForUser_def
    store_DeleteUser_def cascade_user_def cascade_providers_def cascade_sessions_def cascade_organization_def Let_def
  by (intro leaves_intro leaves_exec leaves_exec_upd leaves_exec_count; auto split: if_splits option.splits)+

lemma challenges_Enqueue [leaves_intro]: "leaves challenges (Enqueue E to tpl dat now)"
  by (auto simp: leaves_def intro!: keeps_Enqueue)

lemma challenges_publish:
  assumes "events_only pub" and "leaves challenges mk"
  shows "leaves challenges (bnd mk pub)"
  by (intro leaves_bnd assms events_only_leaves) simp

definition fewer_challenges :: "challenge list \<Rightarrow> db \<Rightarrow> bool" where
  "fewer_challenges cs d \<longleftrightarrow> (\<exists>p. challenges d = del_where p cs)"

lemma fewer_left: "leaves challenges m \<Longrightarrow> keeps (fewer_challenges cs) m"
  by (rule keepsI) (simp add: fewer_challenges_def leavesD)

lemma del_where_twice: "del_where q (del_where p rs) = del_where (\<lambda>r. p r \<or> q r) rs"
  by (simp add: del_where_def)

lemma fewer_erased: "keeps (fewer_challenges cs) (DeleteUserEmailReferences E u a)"
  unfolding DeleteUserEmailReferences_def Let_def
  by (intro keeps_intro keeps_exec_upd keeps_exec)
    (auto simp: fewer_challenges_def cascade_challenges_def cascade_invitations_def del_where_twice split: if_splits)

lemma fewer_DeleteUser:
  assumes "events_only (as_publish T)" and "events_only (os_publish (as_organizations T))"
  shows "keeps (fewer_challenges cs) (auth_DeleteUser E T u)"
  unfolding auth_DeleteUser_def PrepareUserDeletion_def removeOrganizationMembership_def deleteOrganization_def
    require_other_admin_def publish_event_def auth_publish_def Let_def
  by (intro keeps_intro fewer_erased; rule fewer_left; intro leaves_intro challenges_publish events_only_leaves assms; simp?)

section \<open>The steps\<close>

text \<open>
  One rule per operation; the last one stands for every run, of whatever service, that leaves the
  table alone. \<open>A\<close> says in which environments and under which configurations challenges are
  opened; the configuration may change from call to call, and the publishers are any that write
  webhook events only.
\<close>

inductive challenge_step :: "(env \<Rightarrow> challenge_service \<Rightarrow> bool) \<Rightarrow> db \<Rightarrow> db \<Rightarrow> bool" for A where
  signup: "A E S \<Longrightarrow> w_tx w = NoTx \<Longrightarrow>
     CreateSignupChallenge E S email name h invitation now w = (r, w') \<Longrightarrow> challenge_step A (w_db w) (w_db w')"
| reset: "A E S \<Longrightarrow> w_tx w = NoTx \<Longrightarrow>
     CreatePasswordResetChallenge E S u email h now w = (r, w') \<Longrightarrow> challenge_step A (w_db w) (w_db w')"
| change: "A E S \<Longrightarrow> w_tx w = NoTx \<Longrightarrow>
     CreateEmailChangeChallenge E S u sid a b now w = (r, w') \<Longrightarrow> challenge_step A (w_db w) (w_db w')"
| verification: "A E S \<Longrightarrow> w_tx w = NoTx \<Longrightarrow>
     CreateRequiredEmailVerificationChallenge E S i a now w = (r, w') \<Longrightarrow> challenge_step A (w_db w) (w_db w')"
| opaque: "A E S \<Longrightarrow> w_tx w = NoTx \<Longrightarrow>
     CreateOpaqueChallenge E S now purpose email w = (r, w') \<Longrightarrow> challenge_step A (w_db w) (w_db w')"
| sign_up: "w_tx w = NoTx \<Longrightarrow> events_only (as_publish T) \<Longrightarrow> events_only (os_publish (as_organizations T)) \<Longrightarrow>
     VerifySignupChallenge E i s C now (complete_signup_ui E T now) w = (rp, w') \<Longrightarrow> challenge_step A (w_db w) (w_db w')"
| sign_up_api: "w_tx w = NoTx \<Longrightarrow> events_only (as_publish T) \<Longrightarrow> events_only (os_publish (as_organizations T)) \<Longrightarrow>
     VerifySignupChallenge E i s C now (complete_signup_api E T V ua now ip) w = (rp, w') \<Longrightarrow> challenge_step A (w_db w) (w_db w')"
| complete_reset: "w_tx w = NoTx \<Longrightarrow>
     CompletePasswordResetChallenge E S i s C now w = (ru, w') \<Longrightarrow> challenge_step A (w_db w) (w_db w')"
| complete_change: "w_tx w = NoTx \<Longrightarrow> events_only (cv_publish S) \<Longrightarrow>
     CompleteEmailChangeChallenge E S i u sid s C now w = (ru, w') \<Longrightarrow> challenge_step A (w_db w) (w_db w')"
| complete_verification: "w_tx w = NoTx \<Longrightarrow> events_only (cv_publish S) \<Longrightarrow>
     CompleteRequiredEmailVerification E S tid i s C now w = (rv, w') \<Longrightarrow> challenge_step A (w_db w) (w_db w')"
| resend: "w_tx w = NoTx \<Longrightarrow> ResendChallenge E S i now w = (ru, w') \<Longrightarrow> challenge_step A (w_db w) (w_db w')"
| delivered: "SetChallengeLastSentAt E i now w = (ru, w') \<Longrightarrow> challenge_step A (w_db w) (w_db w')"
| code: "GenerateCodeForDelivery E C c deliveryID now w = (t, w') \<Longrightarrow> challenge_step A (w_db w) (w_db w')"
| cleanup: "DeleteExpiredChallenges E now n w = (k, w') \<Longrightarrow> challenge_step A (w_db w) (w_db w')"
| delete_user: "events_only (as_publish T) \<Longrightarrow> events_only (os_publish (as_organizations T)) \<Longrightarrow>
     auth_DeleteUser E T u w = (ru, w') \<Longrightarrow> challenge_step A (w_db w) (w_db w')"
| elsewhere: "challenges d' = challenges d \<Longrightarrow> challenge_step A d d'"

definition generated_ids :: "(env \<Rightarrow> challenge_service \<Rightarrow> bool) \<Rightarrow> uuid set" where
  "generated_ids A = {u. \<exists>E S n. A E S \<and> u = o_uuid E n}"

text \<open>The policies under which challenges are opened.\<close>

definition policies_of :: "(env \<Rightarrow> challenge_service \<Rightarrow> bool) \<Rightarrow> challenge_policy set" where
  "policies_of A = {p. \<exists>E S. A E S \<and> p = cv_policy S}"

lemma policies_ofI: "A E S \<Longrightarrow> cv_policy S \<in> policies_of A"
  by (auto simp: policies_of_def)

lemma generated_range: "A E S \<Longrightarrow> range (o_uuid E) \<subseteq> generated_ids A"
  by (auto simp: generated_ids_def)

lemma bnd_world: "bnd m (\<lambda>x. ret (g x)) w = (r, w') \<Longrightarrow> \<exists>q. m w = (q, w')"
  by (auto simp: bnd_def ret_def split: prod.splits sum.splits)

lemma reset_challenge_move:
  assumes "w_tx w = NoTx" and "CreatePasswordResetChallenge E S u email h now w = (r, w')"
    and "range (o_uuid E) \<subseteq> fresh" and "cv_policy S \<in> P"
  shows "challenge_move P fresh (challenges (w_db w)) (challenges (w_db w'))"
proof -
  let ?create = "createChallenge E S ChallengePurposePasswordReset email now (create_reset_action E S u email h)"
  obtain q w1 where q: "?create w = (q, w1)" by fastforce
  show ?thesis
  proof (cases q)
    case (Inr x)
    with q assms(2) have "?create w = (r, w')"
      by (auto simp: CreatePasswordResetChallenge_def try_bnd_def ret_def)
    then show ?thesis by (rule createChallenge_move [OF assms(1) _ _ assms(3,4)]) (rule frames_reset_action)
  next
    case (Inl e)
    then have same: "w_db w1 = w_db w" "w_tx w1 = NoTx"
      using with_tx_error_rolls_back [OF assms(1)] q by (auto simp: createChallenge_def)
    consider "CreateOpaqueChallenge E S now ChallengePurposePasswordReset email w1 = (r, w')" | "w' = w1"
      using q Inl assms(2) by (auto simp: CreatePasswordResetChallenge_def try_bnd_def fail_def split: if_splits)
    then show ?thesis
    proof cases
      case 1
      with CreateOpaqueChallenge_move [OF same(2) _ assms(3,4)] same(1) show ?thesis by metis
    next
      case 2
      with same show ?thesis by (simp add: challenge_move.stay)
    qed
  qed
qed

lemma store_moves:
  "SetChallengeLastSentAt E i now w = (r, w') \<Longrightarrow> challenge_move P fresh (challenges (w_db w)) (challenges (w_db w'))"
  "DeleteExpiredChallenges E now n w = (k, w') \<Longrightarrow> challenge_move P fresh (challenges (w_db w)) (challenges (w_db w'))"
  by (auto simp: SetChallengeLastSentAt_def DeleteExpiredChallenges_def exec_upd_def exec_def sql_fail_def Let_def
      cascade_challenges_def split: option.splits if_splits sum.splits
      intro: challenge_move.sent challenge_move.stay challenge_move.remove)

lemma GenerateCode_challenges:
  assumes "GenerateCodeForDelivery E C c deliveryID now w = (t, w')"
  shows "challenges (w_db w') = challenges (w_db w)"
proof -
  have "keeps (\<lambda>d. challenges d = challenges (w_db w)) (UpsertVerificationCode E v)" for v
    unfolding UpsertVerificationCode_def by (rule keeps_exec) (auto simp: Let_def split: if_splits)
  then have "keeps (\<lambda>d. challenges d = challenges (w_db w)) (GenerateCodeForDelivery E C c deliveryID now)"
    unfolding GenerateCodeForDelivery_def storeCode_def Let_def by (intro keeps_intro)
  from keepsD [OF this refl assms] show ?thesis .
qed

lemma challenge_step_move:
  assumes "challenge_step A d d'"
  shows "challenge_move (policies_of A) (generated_ids A) (challenges d) (challenges d')"
  using assms(1)
proof cases
  case (signup E S w email name h invitation now r w')
  show ?thesis unfolding signup(1,2)
    by (rule createChallenge_move [OF signup(4) signup(5) [unfolded CreateSignupChallenge_def] _ generated_range policies_ofI])
      (auto intro: frames_intro signup(3))
next
  case (reset E S w u email h now r w')
  then show ?thesis by (auto intro!: reset_challenge_move [OF _ _ generated_range policies_ofI])
next
  case (change E S w u sid a b now r w')
  show ?thesis unfolding change(1,2)
    by (rule createChallenge_move [OF change(4) change(5) [unfolded CreateEmailChangeChallenge_def] _ generated_range policies_ofI])
      (auto intro: frames_intro change(3))
next
  case (verification E S w i a now r w')
  show ?thesis unfolding verification(1,2)
    by (rule createChallenge_move [OF verification(4)
        verification(5) [unfolded CreateRequiredEmailVerificationChallenge_def Let_def] frames_attach generated_range policies_ofI])
      (rule verification(3))+
next
  case (opaque E S w now purpose email r w')
  then show ?thesis by (auto intro!: CreateOpaqueChallenge_move [OF _ _ generated_range policies_ofI])
next
  case (sign_up w T E i s C now rp w')
  show ?thesis unfolding sign_up(1,2)
    by (rule verifyChallenge_move [OF sign_up(3) sign_up(6) [unfolded VerifySignupChallenge_def]])
      (auto intro!: frames_intro frames_callbacks sign_up(4,5))
next
  case (sign_up_api w T E i s C now V ua ip rp w')
  show ?thesis unfolding sign_up_api(1,2)
    by (rule verifyChallenge_move [OF sign_up_api(3) sign_up_api(6) [unfolded VerifySignupChallenge_def]])
      (auto intro!: frames_intro frames_callbacks sign_up_api(4,5))
next
  case (complete_reset w E S i s C now ru w')
  obtain q where q: "verifyChallenge E i ChallengePurposePasswordReset s C now (\<lambda>_. ret ()) (\<lambda>_. reset_after E S now) w = (q, w')"
    using bnd_world [OF complete_reset(4) [unfolded CompletePasswordResetChallenge_def]] by blast
  show ?thesis unfolding complete_reset(1,2)
    by (rule verifyChallenge_move [OF complete_reset(3) q]) (auto intro: frames_intro frames_reset_after)
next
  case (complete_change w S E i u sid s C now ru w')
  obtain q where q: "verifyChallenge E i ChallengePurposeEmailChange s C now (email_change_before E u sid now)
      (\<lambda>action _. executeEmailChange E S action now) w = (q, w')"
    using bnd_world [OF complete_change(5) [unfolded CompleteEmailChangeChallenge_def]] by blast
  show ?thesis unfolding complete_change(1,2)
    by (rule verifyChallenge_move [OF complete_change(3) q])
      (auto intro: frames_change_before frames_change_email frames_publish complete_change(4))
next
  case (complete_verification w S E tid i s C now rv w')
  obtain q' where q: "verifyChallenge E i ChallengePurposeEmailVerification s C now (verification_before E tid i now)
      (\<lambda>vu _. verification_after E S now vu) w = (q', w')"
    using bnd_world [OF complete_verification(5)
      [unfolded CompleteRequiredEmailVerification_def case_prod_beta']] by blast
  show ?thesis unfolding complete_verification(1,2)
    by (rule verifyChallenge_move [OF complete_verification(3) q])
      (auto intro: frames_verification_before frames_verification_after frames_publish complete_verification(4))
next
  case resend
  then show ?thesis by (auto intro: ResendChallenge_move)
next
  case delivered
  then show ?thesis by (auto intro: store_moves)
next
  case code
  then show ?thesis by (auto simp: GenerateCode_challenges intro: challenge_move.stay)
next
  case cleanup
  then show ?thesis by (auto intro: store_moves)
next
  case (delete_user T E u w ru w')
  have "fewer_challenges (challenges (w_db w)) (w_db w)"
    unfolding fewer_challenges_def by (intro exI [of _ "\<lambda>_. False"]) simp
  from keepsD [OF fewer_DeleteUser [OF delete_user(3,4)] this delete_user(5)] show ?thesis
    by (auto simp: fewer_challenges_def delete_user(1,2) intro: challenge_move.remove)
next
  case elsewhere
  then show ?thesis by (simp add: challenge_move.stay)
qed

end
