(* ===== verification/Challenge_Properties.thy ===== *)
theory Challenge_Properties
  imports Challenge_Steps Demo
begin

text \<open>
  The properties of the challenges: every operation is one move of the challenge machine, its
  counters stay within their limits, a verified challenge is spent for good, what completing a
  password reset does, which codes verify, and when a code is sent again.
\<close>

section \<open>A concrete password reset\<close>

definition demo_challenges :: challenge_service where
  "demo_challenges = \<lparr>cv_policy = \<lparr>Enabled = True, TTL = 1000, VerificationCodeTTL = 600, MaxAttempts = 5, MaxResends = 3,
       MinimumResendInterval = 60\<rparr>, cv_verification_required = True, cv_allowlist_enabled = False,
     cv_publish = QueuePublisher demo_env (\<lambda>_. True), cv_revocations = None, cv_events = NoopRecorder\<rparr>"

definition demo_codes :: code_service where
  "demo_codes = NewVerificationCodeServiceWithPolicy (cv_policy demo_challenges) [''k'']"

definition demo_challenge :: challenge where
  "demo_challenge = \<lparr>ch_id = 50, ch_created_at = 1, ch_updated_at = 1, ch_expires_at = 7000, ch_consumed_at = None,
     ch_purpose = ''password_reset'', ch_email = ''a@b.c'', ch_attempt_count = 0, ch_max_attempts = 5,
     ch_resend_count = 0, ch_max_resends = 3, ch_last_sent_at = Some 1, ch_min_resend_interval = 60,
     ch_has_min_resend_interval = True\<rparr>"

definition demo_code :: verification_code where
  "demo_code = \<lparr>vc_id = 51, vc_challenge = 50, vc_created_at = 1, vc_expires_at = 7000,
     vc_code_hash = hex_encode ''k123456''\<rparr>"

definition demo_provider :: auth_provider where
  "demo_provider = \<lparr>prv_id = 52, prv_created_at = 1, prv_updated_at = 1, prv_user = 10, prv_provider = ''password'',
     prv_provider_user_id = None, prv_password_hash = Some ''old''\<rparr>"

definition demo_reset :: pending_reset where
  "demo_reset = \<lparr>pr_id = 53, pr_created_at = 1, pr_challenge = 50, pr_user = 10, pr_password_hash = ''new''\<rparr>"

definition challenge_world :: world where
  "challenge_world = demo_world\<lparr>w_db := demo_db\<lparr>challenges := [demo_challenge], verification_codes := [demo_code],
     auth_providers := [demo_provider], pending_resets := [demo_reset]\<rparr>\<rparr>"

lemmas challenge_demo_defs = demo_challenges_def demo_codes_def demo_challenge_def demo_code_def demo_provider_def
  demo_reset_def challenge_world_def NewVerificationCodeServiceWithPolicy_def

lemmas verify_eval = verifyChallenge_def verify_body_def GetChallengeByIDForUpdate_def find_challenge_def
  validateChallengeForVerify_def IsConsumed_def IsExpired_def HasAttemptsRemaining_def VerifyCode_def
  GetVerificationCodeByChallengeID_def find_code_def matchesVerificationCodeHash_def hashVerificationCode_def
  ConsumeChallenge_def IncrementChallengeAttemptCount_def

lemmas reset_eval = CompletePasswordResetChallenge_def reset_after_def GetPendingPasswordResetByChallengeID_def
  find_reset_def LockUserForUpdate_def requirePasswordResetEligibility_def GetUserByID_def
  GetAuthProviderByMethodAndUserID_def find_provider_def ProviderPassword_def executePasswordReset_def
  UpdatePasswordHash_def set_password_def RevokeUserTokens_def RevokeAllSessionsForUser_def revoke_sessions_def
  DeletePendingPasswordResetsByUserID_def CredentialPasswordReset_def recordCredential_def purpose_defs

lemma mail_accepted:
  "case LookupTemplate EmailTemplatePasswordChanged of Inl e \<Rightarrow> False
   | Inr d \<Rightarrow> validateTemplateData d [(TemplateVariableOccurredAt, ''6000'')] = None"
  by code_simp

lemma change_mail:
  "trim_space to = to \<Longrightarrow> to \<noteq> '''' \<Longrightarrow> Enqueue E to EmailTemplatePasswordChanged [(TemplateVariableOccurredAt, ''6000'')] now =
   bnd (CreateEmailJob E (new_email_job None to EmailTemplatePasswordChanged [(TemplateVariableOccurredAt, ''6000'')] now
     (now + DefaultDeliveryWindow))) (\<lambda>_. ret ())"
  using mail_accepted by (auto simp: Enqueue_def Let_def split: sum.splits)

lemma reset_strings [simp]: "trim_space ''old'' = ''old''" "trim_space ''a@b.c'' = ''a@b.c''"
  "equal_fold a a" "\<not> too_long 64 EmailTemplatePasswordChanged"
  "\<not> too_long 32 EmailJobStatusPending"
  by (code_simp, code_simp, simp_all add: equal_fold_def too_long_def EmailTemplatePasswordChanged_def
    EmailJobStatusPending_def)

lemma shown_6000 [simp]: "format_int 6000 = ''6000''"
  by (simp add: format_int_def show_nat.simps digit_char_def, code_simp)

lemma demo_reset_runs:
  "fst (CompletePasswordResetChallenge demo_env demo_challenges 50 ''123456'' demo_codes 6000 challenge_world) = Inr ()"
  by (simp add: verify_eval reset_eval revokeScope_def change_mail OccurredAt_def CreateEmailJob_def
    new_email_job_def delivery_enabled_def Let_def eval_defs demo_defs challenge_demo_defs)

section \<open>What completing a password reset does\<close>








definition code_matches :: "env \<Rightarrow> code_service \<Rightarrow> uuid \<Rightarrow> string \<Rightarrow> time \<Rightarrow> db \<Rightarrow> bool" where
  "code_matches E C i code_text now d \<longleftrightarrow> (\<exists>row. find_code i d = Some row \<and> now \<le> vc_expires_at row
     \<and> matchesVerificationCodeHash E C code_text (vc_code_hash row))"

lemma VerifyCode_run:
  "VerifyCode E C i s now w = (Inr u, w') \<longleftrightarrow> sql_ok E w \<and> cs_secrets C \<noteq> [] \<and> code_matches E C i s now (w_db w) \<and> w' = tick w"
  by (auto simp: VerifyCode_def GetVerificationCodeByChallengeID_def runs code_matches_def not_less split: if_splits)


definition consume_in :: "uuid \<Rightarrow> time \<Rightarrow> time \<Rightarrow> db \<Rightarrow> db" where
  "consume_in i now t d = d\<lparr>challenges := upd_where (\<lambda>c. ch_id c = i \<and> ch_consumed_at c = None)
     (\<lambda>c. c\<lparr>ch_consumed_at := Some now, ch_updated_at := t\<rparr>) (challenges d)\<rparr>"



lemma ConsumeChallenge_run:
  "ConsumeChallenge E i now w = (Inr u, w') \<Longrightarrow> \<exists>t. w_db w' = consume_in i now t (w_db w) \<and> w_cache w' = w_cache w"
  by (auto simp: ConsumeChallenge_def runs Let_def consume_in_def)


definition challenge_open :: "uuid \<Rightarrow> string \<Rightarrow> time \<Rightarrow> db \<Rightarrow> challenge \<Rightarrow> bool" where
  "challenge_open i purpose now d c \<longleftrightarrow> find_challenge i d = Some c \<and> ch_purpose c = purpose
     \<and> ch_consumed_at c = None \<and> now \<le> ch_expires_at c \<and> ch_attempt_count c < ch_max_attempts c"


section \<open>Properties\<close>



lemma demo_reset_world:
  obtains w' where "CompletePasswordResetChallenge demo_env demo_challenges 50 ''123456'' demo_codes 6000 challenge_world
    = (Inr (), w')"
  using demo_reset_runs by (metis prod.collapse)


text \<open>
  C29. Every operation that writes the table \<open>challenges\<close> (the five ways to open a challenge,
  the opaque one among them, the two handlers that complete a sign-up and the three that complete
  a password reset, an e-mail change and a required verification, resending, the delivery's
  bookkeeping, the clean-up and the deletion of a user) makes at most one move of the challenge
  machine, whatever fails on the way, under whatever policy is in force and with any publisher
  that writes webhook events only.
\<close>

theorem challenge_operations_refine:
  assumes "challenge_step A d d'"
  shows "challenge_move (policies_of A) (generated_ids A) (challenges d) (challenges d')"
  using assms by (rule challenge_step_move)

lemma demo_reset_step:
  assumes "CompletePasswordResetChallenge demo_env demo_challenges 50 ''123456'' demo_codes 6000 challenge_world = (r, w')"
  shows "challenge_step A (w_db challenge_world) (w_db w')"
  using challenge_step.complete_reset [OF _ assms] by (simp add: challenge_world_def demo_world_def)

theorem challenge_operations_refine_witness:
  "\<exists>w'. CompletePasswordResetChallenge demo_env demo_challenges 50 ''123456'' demo_codes 6000 challenge_world = (Inr (), w')
     \<and> challenge_move {} {} [demo_challenge] (challenges (w_db w'))"
proof (rule demo_reset_world)
  fix w'
  assume run: "CompletePasswordResetChallenge demo_env demo_challenges 50 ''123456'' demo_codes 6000 challenge_world = (Inr (), w')"
  from challenge_operations_refine [OF demo_reset_step [OF run], of "\<lambda>_ _. False"] run
  show ?thesis by (simp add: challenge_world_def policies_of_def generated_ids_def)
qed

text \<open>
  C30. Under every sequence of the operations of C29, and of whatever leaves the table alone, the
  identifiers of challenges stay unique, no challenge counts more wrong codes than its limit (so a
  code can be guessed at most that often), and none is sent again more often than allowed. The
  policy may change from call to call; its limits are not negative, which \<open>config\<close> checks.
\<close>

theorem challenge_counts_bounded:
  assumes "(challenge_step A)\<^sup>*\<^sup>* d d'" and "counts_ok (challenges d)"
    and "\<And>E S. A E S \<Longrightarrow> 0 \<le> MaxAttempts (cv_policy S) \<and> 0 \<le> MaxResends (cv_policy S)"
  shows "counts_ok (challenges d')"
  using assms(1,2)
proof (induction rule: rtranclp_induct)
  case (step d1 d2)
  have "0 \<le> MaxAttempts p \<and> 0 \<le> MaxResends p" if "p \<in> policies_of A" for p
    using that assms(3) by (auto simp: policies_of_def)
  from move_counts_ok [OF challenge_step_move [OF step(2)] _ this] step show ?case by blast
qed

theorem challenge_counts_bounded_witness:
  "\<exists>w1 r w2. CompletePasswordResetChallenge demo_env demo_challenges 50 ''123456'' demo_codes 6000 challenge_world
      = (Inr (), w1)
     \<and> CreateOpaqueChallenge demo_env demo_challenges 6500 ChallengePurposeSignup ''c@b.c'' (w1\<lparr>w_tx := NoTx\<rparr>) = (r, w2)
     \<and> counts_ok (challenges (w_db w2))"
proof (rule demo_reset_world)
  fix w1
  assume run: "CompletePasswordResetChallenge demo_env demo_challenges 50 ''123456'' demo_codes 6000 challenge_world = (Inr (), w1)"
  obtain r w2 where op: "CreateOpaqueChallenge demo_env demo_challenges 6500 ChallengePurposeSignup ''c@b.c''
      (w1\<lparr>w_tx := NoTx\<rparr>) = (r, w2)" by fastforce
  let ?A = "\<lambda>E S. S = demo_challenges"
  have "challenge_step ?A (w_db w1) (w_db w2)" using challenge_step.opaque [OF _ _ op, of ?A] by simp
  with demo_reset_step [OF run] have "(challenge_step ?A)\<^sup>*\<^sup>* (w_db challenge_world) (w_db w2)"
    by (meson converse_rtranclp_into_rtranclp r_into_rtranclp)
  from challenge_counts_bounded [OF this] run op show ?thesis
    by (auto simp: counts_ok_def challenge_demo_defs demo_defs)
qed


lemma spent_stays:
  assumes "(challenge_step A)\<^sup>*\<^sup>* d d'" and "spent_challenge i (challenges d)" and "i \<notin> generated_ids A"
  shows "spent_challenge i (challenges d')"
  using assms(1,2)
proof (induction rule: rtranclp_induct)
  case (step d1 d2)
  from move_keeps_spent [OF challenge_step_move [OF step(2)] _ assms(3)] step show ?case by blast
qed

lemma verifyChallenge_value:
  "w_tx w = NoTx \<Longrightarrow> verifyChallenge E i purpose code_text C now before_v after_v w = (Inr x, w1) \<Longrightarrow>
    \<exists>w0. verify_body E i purpose code_text C now before_v after_v (open_tx w) = (Inr (Inr x), w0) \<and> w1 = close_tx w0"
  unfolding verifyChallenge_def raise_result_run with_tx_run by blast

lemma consume_spends: "spent_challenge i (challenges (consume_in i now t d))"
  unfolding spent_challenge_def consume_in_def upd_where_def by (simp split: if_splits) (simp add: ball_Un)

lemma verify_body_spends:
  assumes "verify_body E i purpose code_text C now before_v after_v w = (Inr (Inr x), w1)"
  shows "spent_challenge i (challenges (w_db w1))"
  using assms
proof (cases rule: verify_body_cases)
  case (verified c a b v1 v2 v3)
  from ConsumeChallenge_run [OF verified(8)] show ?thesis by (metis consume_spends)
qed simp_all

lemma verified_spends:
  assumes "w_tx w = NoTx"
    and "verifyChallenge E i purpose code_text C now before_v after_v w = (Inr x, w1)"
  shows "spent_challenge i (challenges (w_db w1))"
  using verifyChallenge_value [OF assms] by (auto dest: verify_body_spends)

lemma spent_body:
  assumes "spent_challenge i (challenges (w_db w))"
  shows "verify_body E i purpose code_text C now before_v after_v w \<noteq> (Inr (Inr x), w')"
proof
  assume "verify_body E i purpose code_text C now before_v after_v w = (Inr (Inr x), w')"
  then show False
  proof (cases rule: verify_body_cases)
    case (verified c a b v1 v2 v3)
    with validate_attempts [OF verified(3)] assms show False
      by (auto simp: spent_challenge_def find_challenge_def dest: find_Some_in)
  qed simp_all
qed

lemma spent_refuses:
  assumes "spent_challenge i (challenges (w_db w))"
  shows "verifyChallenge E i purpose code_text C now before_v after_v w \<noteq> (Inr x, w')"
proof
  assume "verifyChallenge E i purpose code_text C now before_v after_v w = (Inr x, w')"
  then have r: "with_tx E (verify_body E i purpose code_text C now before_v after_v) w = (Inr (Inr x), w')"
    by (simp add: verifyChallenge_def runs)
  show False
  proof (cases "w_tx w = NoTx")
    case True
    with r show False using spent_body [of i "open_tx w"] assms unfolding with_tx_run [OF True] open_tx_sel by blast
  next
    case False
    with r show False using spent_body [of i w E purpose code_text C now before_v after_v x w'] assms by (simp add: with_tx_nested)
  qed
qed

text \<open>
  C31. A challenge completes at most once: after a successful verification, in any flow, and any
  sequence of the operations of C29 and of whatever leaves the table alone (other services'
  sign-ins, mails, sessions), no later verification of the same challenge succeeds, with whatever
  code, secrets, time and flow, as long as the environments in which challenges are opened do not
  generate its identifier again.
\<close>

theorem challenge_single_use:
  assumes "w_tx w = NoTx"
    and "verifyChallenge E i purpose code_text C now before_v after_v w = (Inr x, w1)"
    and "(challenge_step A)\<^sup>*\<^sup>* (w_db w1) (w_db w2)" and "i \<notin> generated_ids A"
  shows "\<exists>e. fst (verifyChallenge E' i purpose' code' C' now' before' after' w2) = Inl e"
proof -
  have "spent_challenge i (challenges (w_db w2))"
    by (rule spent_stays [OF assms(3) verified_spends [OF assms(1,2)] assms(4)])
  from spent_refuses [OF this] show ?thesis by (metis prod.collapse sum.exhaust)
qed

text \<open>A reset, a challenge opened for somebody else, a mail sent, and the same code again.\<close>

definition other_env :: env where
  "other_env = demo_env\<lparr>o_uuid := \<lambda>_. 77\<rparr>"

theorem challenge_single_use_witness:
  "\<exists>w1 r w2 r' w3. CompletePasswordResetChallenge demo_env demo_challenges 50 ''123456'' demo_codes 6000 challenge_world
      = (Inr (), w1)
     \<and> CreateOpaqueChallenge other_env demo_challenges 6500 ChallengePurposeSignup ''c@b.c'' (w1\<lparr>w_tx := NoTx\<rparr>) = (r, w2)
     \<and> CreateEmailJob demo_env (new_email_job None ''a@b.c'' ''t'' [] 6600 6700) w2 = (r', w3)
     \<and> (\<exists>e. fst (verifyChallenge demo_env 50 ''password_reset'' ''123456'' demo_codes 7000 (\<lambda>_. ret ()) (\<lambda>_ _. ret ()) w3) = Inl e)"
proof (rule demo_reset_world)
  fix w1
  assume run: "CompletePasswordResetChallenge demo_env demo_challenges 50 ''123456'' demo_codes 6000 challenge_world = (Inr (), w1)"
  then obtain x where x: "verifyChallenge demo_env 50 ChallengePurposePasswordReset ''123456'' demo_codes 6000 (\<lambda>_. ret ())
      (\<lambda>_. reset_after demo_env demo_challenges 6000) challenge_world = (Inr x, w1)"
    by (auto simp: CompletePasswordResetChallenge_def runs)
  obtain r w2 where op: "CreateOpaqueChallenge other_env demo_challenges 6500 ChallengePurposeSignup ''c@b.c''
      (w1\<lparr>w_tx := NoTx\<rparr>) = (r, w2)" by fastforce
  obtain r' w3 where mail: "CreateEmailJob demo_env (new_email_job None ''a@b.c'' ''t'' [] 6600 6700) w2 = (r', w3)"
    by fastforce
  let ?A = "\<lambda>E S. E = other_env"
  have "challenge_step ?A (w_db w1) (w_db w2)" using challenge_step.opaque [OF _ _ op, of ?A] by simp
  moreover have "challenge_step ?A (w_db w2) (w_db w3)"
    by (rule challenge_step.elsewhere) (rule framesD(1) [OF frames_services(5) mail])
  ultimately have "(challenge_step ?A)\<^sup>*\<^sup>* (w_db w1) (w_db w3)"
    by (meson converse_rtranclp_into_rtranclp r_into_rtranclp)
  moreover have "w_tx challenge_world = NoTx" by (simp add: challenge_world_def demo_world_def)
  moreover have "50 \<notin> generated_ids ?A" by (auto simp: generated_ids_def other_env_def)
  ultimately obtain e where "fst (verifyChallenge demo_env 50 ''password_reset'' ''123456'' demo_codes 7000
      (\<lambda>_. ret ()) (\<lambda>_ _. ret ()) w3) = Inl e"
    using challenge_single_use [OF _ x] by metis
  with run op mail show ?thesis by (intro exI conjI)
qed

section \<open>Codes round trip\<close>

lemma length_show_nat: "n < 10 ^ Suc k \<Longrightarrow> length (show_nat n) \<le> Suc k"
proof (induction k arbitrary: n)
  case 0
  then show ?case by (simp add: show_nat.simps)
next
  case (Suc k)
  have "n div 10 < 10 ^ Suc k" using Suc.prems by (simp add: less_mult_imp_div_less)
  from Suc.IH [OF this] show ?case by (subst show_nat.simps) simp
qed

lemma six_digits_form:
  assumes "n < 1000000"
  shows "length (six_digits n) = 6" and "list_all is_digit (six_digits n)"
  using length_show_nat [of n 5] show_nat_digits [of n] assms
  by (auto simp: six_digits_def Let_def list_all_iff is_digit_def)

lemma upserted_code:
  assumes "UpsertVerificationCode E new w = (Inr u, w1)" and "length (vc_code_hash new) \<le> 255"
  shows "\<exists>row. find_code (vc_challenge new) (w_db w1) = Some row \<and> vc_code_hash row = vc_code_hash new
    \<and> vc_expires_at row = vc_expires_at new"
proof -
  let ?p = "\<lambda>v. vc_challenge v = vc_challenge new"
  have upd: "find ?p (upd_where ?p f vs) = map_option f (find ?p vs)" if "\<And>v. vc_challenge (f v) = vc_challenge v" for f vs
    by (induction vs) (auto simp: upd_where_def that)
  have append: "find ?p vs = None \<Longrightarrow> ?p v \<Longrightarrow> find ?p (vs @ [v]) = Some v" for vs v
    by (induction vs) (auto split: if_splits)
  show ?thesis
  proof (cases "find ?p (verification_codes (w_db w))")
    case None
    then have "\<not> list_ex ?p (verification_codes (w_db w))" by (auto simp: list_ex_iff find_None_iff)
    with assms None show ?thesis
      by (auto simp: UpsertVerificationCode_def exec_run find_code_def Let_def append split: if_splits)
  next
    case (Some v)
    then have "list_ex ?p (verification_codes (w_db w))" by (auto simp: list_ex_iff dest: find_Some_in)
    with assms Some show ?thesis
      by (auto simp: UpsertVerificationCode_def exec_run find_code_def Let_def upd split: if_splits)
  qed
qed

lemma stored_code_found:
  assumes "GenerateCodeForDelivery E C c deliveryID t0 w = (Inr code_text, w1)"
    and "\<And>m. length (hmac_sha256 E (hd (cs_secrets C)) m) = 32"
  obtains row where "find_code (ch_id c) (w_db w1) = Some row"
    and "vc_code_hash row = hashVerificationCode E code_text (hd (cs_secrets C))"
    and "vc_expires_at row = min (t0 + VerificationCodeTTL (cs_policy C)) (ch_expires_at c)"
    and "code_text = stableSixDigitCode E (ch_id c) deliveryID (hd (cs_secrets C))"
proof -
  let ?code = "stableSixDigitCode E (ch_id c) deliveryID (hd (cs_secrets C))"
  let ?hash = "hashVerificationCode E ?code (hd (cs_secrets C))"
  let ?exp = "if ch_expires_at c < t0 + VerificationCodeTTL (cs_policy C) then ch_expires_at c
      else t0 + VerificationCodeTTL (cs_policy C)"
  have short: "length ?hash \<le> 255" by (simp add: hashVerificationCode_def length_hex_encode assms(2))
  from assms(1) have code: "code_text = ?code"
    and put: "UpsertVerificationCode E \<lparr>vc_id = nil_uuid, vc_challenge = ch_id c, vc_created_at = zero_time,
        vc_expires_at = ?exp, vc_code_hash = ?hash\<rparr> w = (Inr (), w1)"
    by (auto simp: GenerateCodeForDelivery_def storeCode_def runs Let_def split: if_splits)
  have "\<exists>row. find_code (ch_id c) (w_db w1) = Some row \<and> vc_code_hash row = ?hash \<and> vc_expires_at row = ?exp"
    using upserted_code [OF put] short by simp
  with code show ?thesis by (auto intro!: that simp: min_def)
qed

text \<open>
  C32. The round trip of a delivered code: the six digits mailed out verify as long as the stored
  row is the one written for them, neither it nor the challenge has expired, and the signing
  secret is still among the verifier's secrets (in any position, so secrets can be rotated).
\<close>

theorem delivered_code_verifies:
  assumes "GenerateCodeForDelivery E C c deliveryID t0 w = (Inr code_text, w1)"
    and "\<And>m. length (hmac_sha256 E (hd (cs_secrets C)) m) = 32"
    and "find_code (ch_id c) (w_db w2) = find_code (ch_id c) (w_db w1)"
    and "hd (cs_secrets C) \<in> set (cs_secrets C')"
    and "now \<le> t0 + VerificationCodeTTL (cs_policy C)" and "now \<le> ch_expires_at c" and "sql_ok E w2"
  shows "length code_text = 6 \<and> list_all is_digit code_text
    \<and> VerifyCode E C' (ch_id c) code_text now w2 = (Inr (), tick w2)"
proof (rule stored_code_found [OF assms(1,2)])
  fix row
  assume row: "find_code (ch_id c) (w_db w1) = Some row"
    "vc_code_hash row = hashVerificationCode E code_text (hd (cs_secrets C))"
    "vc_expires_at row = min (t0 + VerificationCodeTTL (cs_policy C)) (ch_expires_at c)"
    and code: "code_text = stableSixDigitCode E (ch_id c) deliveryID (hd (cs_secrets C))"
  have "code_matches E C' (ch_id c) code_text now (w_db w2)"
    using row assms(3-6) by (auto simp: code_matches_def matchesVerificationCodeHash_def list_ex_iff)
  moreover have "cs_secrets C' \<noteq> []" using assms(4) by auto
  ultimately show ?thesis
    using assms(7) by (auto simp: VerifyCode_run code stableSixDigitCode_def six_digits_form)
qed

text \<open>An installation whose MAC has the right length, with the secret rotated to second place.\<close>

definition mac_env :: env where
  "mac_env = demo_env\<lparr>hmac_sha256 := (\<lambda>k s. replicate 32 (CHR ''m''))\<rparr>"

theorem delivered_code_verifies_witness:
  "\<exists>s w1. GenerateCodeForDelivery mac_env demo_codes demo_challenge 60 5000 challenge_world = (Inr s, w1)
     \<and> length s = 6 \<and> VerifyCode mac_env (demo_codes\<lparr>cs_secrets := [''new'', ''k'']\<rparr>) 50 s 5100 w1 = (Inr (), tick w1)"
proof -
  have "\<exists>s w1. GenerateCodeForDelivery mac_env demo_codes demo_challenge 60 5000 challenge_world = (Inr s, w1)
      \<and> w_tx w1 = NoTx"
    by (simp add: GenerateCodeForDelivery_def storeCode_def UpsertVerificationCode_def hashVerificationCode_def mac_env_def
      fit_def Let_def eval_defs demo_defs challenge_demo_defs too_long_def length_hex_encode varchar_def)
  then obtain s w1 where run: "GenerateCodeForDelivery mac_env demo_codes demo_challenge 60 5000 challenge_world = (Inr s, w1)"
    and tx: "w_tx w1 = NoTx" by blast
  have "length s = 6 \<and> list_all is_digit s
      \<and> VerifyCode mac_env (demo_codes\<lparr>cs_secrets := [''new'', ''k'']\<rparr>) (ch_id demo_challenge) s 5100 w1 = (Inr (), tick w1)"
    by (rule delivered_code_verifies [OF run _ refl])
      (simp_all add: mac_env_def demo_env_def challenge_demo_defs sql_ok_def sql_problem_def tx)
  with run show ?thesis by (auto simp: demo_challenge_def)
qed


section \<open>Challenges without a code\<close>

text \<open>
  An opaque challenge (\<open>CreateOpaqueChallenge\<close>) has no mail and so no code row: whatever is
  entered, the answer is \<open>ErrorVerificationCodeNotFound\<close> and no attempt is counted, while
  a challenge with a code answers \<open>ErrInvalidVerificationCode\<close> and counts.
\<close>

lemma opaque_challenge_reply:
  assumes "challenge_open i ChallengePurposePasswordReset now (w_db w) c" and "find_code i (w_db w) = None"
    and "w_tx w = NoTx" and "\<And>n. \<not> o_fault E n"
  obtains w' where "CompletePasswordResetChallenge E S i code_text C now w = (Inl (EStore ErrorVerificationCodeNotFound), w')"
    and "w_db w' = w_db w"
proof -
  have v: "validateChallengeForVerify c now = None" "ch_purpose c = ChallengePurposePasswordReset"
    "find_challenge i (w_db w) = Some c"
    using assms(1) by (auto simp: challenge_open_def validateChallengeForVerify_def IsConsumed_def IsExpired_def
      HasAttemptsRemaining_def)
  show ?thesis
    by (rule that [of "snd (CompletePasswordResetChallenge E S i code_text C now w)"])
      (simp_all add: CompletePasswordResetChallenge_def verifyChallenge_def verify_body_def GetChallengeByIDForUpdate_def
        VerifyCode_def GetVerificationCodeByChallengeID_def v assms(2-4) eval_defs prod_eq_iff)
qed

end
