(* ===== verification/Email_Proofs.thy ===== *)
theory Email_Proofs
  imports Email_Delivery Challenge_Proofs
begin

text \<open>
  The mail queue as a second instance of the leased job machine, the back-off in closed form,
  and what the worker does when a mail is no longer wanted.
\<close>

section \<open>Back-off in closed form\<close>

lemma retry_loop_closed:
  assumes "0 < n" and "0 < m"
  shows "min m (retry_loop k m n) = min m (n * 2 ^ k)"
  using assms
proof (induction k arbitrary: n)
  case 0
  then show ?case by simp
next
  case (Suc k)
  have grow: "n \<le> n * 2 ^ j" for j using Suc.prems by simp
  show ?case
  proof (cases "n < m")
    case False
    with grow [of "Suc k"] show ?thesis by simp
  next
    case True
    show ?thesis
    proof (cases "m div 2 < n")
      case True
      then have "m \<le> n * 2" by linarith
      also have "\<dots> \<le> (n * 2) * 2 ^ k" using Suc.prems by simp
      finally show ?thesis using \<open>n < m\<close> True by (simp add: mult.assoc)
    next
      case False
      with Suc.IH [of "n * 2"] Suc.prems \<open>n < m\<close> show ?thesis by (simp add: mult.assoc)
    qed
  qed
qed

definition retry_nominal :: "int \<Rightarrow> duration \<Rightarrow> duration \<Rightarrow> duration" where
  "retry_nominal a base mx = min mx (base * 2 ^ nat (max (a - 1) 0))"

lemma retry_nominal_pos: "0 < base \<Longrightarrow> 0 < mx \<Longrightarrow> 0 < retry_nominal a base mx"
  by (simp add: retry_nominal_def)

lemma emailRetryDelay_closed:
  assumes "0 < base" and "0 < mx"
  shows "emailRetryDelay a base mx r =
    (let n = retry_nominal a base mx; x = (if r < 0 then 0 else if 1 \<le> r then 999999999 / 1000000000 else r)
     in n div 2 + \<lfloor>x * of_int (n - n div 2)\<rfloor>)"
proof -
  let ?k = "nat ((if a < 1 then 1 else a) - 1)"
  have k: "?k = nat (max (a - 1) 0)" by simp
  have clamp: "(if mx < x then mx else x) = min mx x" for x by auto
  have "(if mx < retry_loop ?k mx base then mx else retry_loop ?k mx base) = retry_nominal a base mx"
    using retry_loop_closed [OF assms, of ?k] clamp unfolding retry_nominal_def k by simp
  then show ?thesis by (simp add: emailRetryDelay_def Let_def)
qed

text \<open>The exponent of the SQL text stops at 30; with delays that do not need more, both agree.\<close>

lemma retry_nominal_sql_eq:
  assumes "0 < base" and "mx \<le> base * 2 ^ 30"
  shows "retry_nominal_sql a base mx = retry_nominal a base mx"
proof (cases "max (a - 1) 0 \<le> 30")
  case True
  then show ?thesis by (simp add: retry_nominal_sql_def retry_nominal_def)
next
  case False
  have "base * 2 ^ 30 \<le> base * 2 ^ nat (max (a - 1) 0)"
    using assms(1) False by (intro mult_left_mono power_increasing) auto
  with assms(2) False show ?thesis by (simp add: retry_nominal_sql_def retry_nominal_def)
qed

section \<open>The queue contract\<close>

lemmas mail_status_defs = EmailJobStatusPending_def EmailJobStatusProcessing_def EmailJobStatusSent_def
  EmailJobStatusFailed_def

definition job_phase :: "email_job \<Rightarrow> phase" where
  "job_phase j =
     (if ej_status j = EmailJobStatusPending then Waiting
      else if ej_status j = EmailJobStatusProcessing
        then (case ej_processing_started_at j of None \<Rightarrow> Dead | Some t \<Rightarrow> Leased t)
      else if ej_status j = EmailJobStatusSent then Finished
      else Dead)"

lemma job_due_SomeD:
  assumes "job_due now js = Some j"
  shows "j \<in> set js" and "ej_status j = EmailJobStatusPending" and "ej_next_attempt_at j \<le> now"
proof -
  let ?p = "\<lambda>j. ej_status j = EmailJobStatusPending \<and> ej_next_attempt_at j \<le> now"
  have "j \<in> set (oldest ?p (\<lambda>j. (ej_next_attempt_at j, ej_created_at j)) 1 js)"
    using assms by (auto simp: job_due_def split: list.splits)
  from oldest_subset [OF this]
  show "j \<in> set js" and "ej_status j = EmailJobStatusPending" and "ej_next_attempt_at j \<le> now" by auto
qed

definition mail_purgeable :: "time \<times> bool \<Rightarrow> email_job \<Rightarrow> bool" where
  "mail_purgeable p j = (case p of (t, sent) \<Rightarrow> if sent then sent_before t j else failed_before t j)"

interpretation mail: leased_queue ej_id job_phase ej_attempt_count job_due job_claimed
    holds_job job_stale mail_purgeable
proof
  fix now :: time and rs r
  assume "job_due now rs = Some r"
  from job_due_SomeD [OF this] show "r \<in> set rs \<and> job_phase r = Waiting"
    by (simp add: job_phase_def)
next
  fix r and now t :: time
  show "ej_id (job_claimed now t r) = ej_id r"
    by (simp add: job_claimed_def)
next
  fix r and now t :: time
  assume "job_phase r = Waiting"
  then show "ej_id (job_claimed now t r) = ej_id r \<and> job_phase (job_claimed now t r) = Leased now
      \<and> ej_attempt_count (job_claimed now t r) = ej_attempt_count r + 1"
    by (simp add: job_claimed_def job_phase_def mail_status_defs)
next
  fix k l r
  show "holds_job k l r \<longleftrightarrow> ej_id r = k \<and> job_phase r = Leased l"
    by (auto simp: holds_job_def job_phase_def mail_status_defs split: option.splits)
next
  fix s r
  assume "job_stale s r"
  then show "\<exists>l. job_phase r = Leased l \<and> l \<le> s"
    by (auto simp: job_stale_def job_phase_def mail_status_defs split: option.splits)
next
  fix p r
  assume "mail_purgeable p r"
  then show "terminal (job_phase r)"
    by (auto simp: mail_purgeable_def sent_before_def failed_before_def job_phase_def terminal_def
      mail_status_defs split: prod.splits if_splits)
qed

abbreviation mail_jobs :: "db \<Rightarrow> uuid jobs" where
  "mail_jobs d \<equiv> jobs_of ej_id job_phase ej_attempt_count (email_jobs d)"

definition jobs_distinct :: "db \<Rightarrow> bool" where
  "jobs_distinct d \<longleftrightarrow> distinct (map ej_id (email_jobs d))"

text \<open>
  A mail can also vanish at any time, with the challenge it belongs to; the machine of this
  queue has that step besides those of every queue.
\<close>

inductive mail_move :: "int \<Rightarrow> uuid jobs \<Rightarrow> uuid jobs \<Rightarrow> bool" for m where
  job: "job_step m q q' \<Longrightarrow> mail_move m q q'"
| cancel: "mail_move m q (q(k := None))"

lemma job_steps_moves: "job_steps m q q' \<Longrightarrow> (mail_move m)\<^sup>*\<^sup>* q q'"
  by (induction rule: rtranclp_induct) (auto intro: mail_move.job rtranclp.rtrancl_into_rtrancl)

lemma mail_moves_ok:
  assumes "(mail_move m)\<^sup>*\<^sup>* q q'" and "queue_ok m q" and "0 < m"
  shows "queue_ok m q'"
  using assms
  by (induction rule: rtranclp_induct) (auto elim!: mail_move.cases intro: job_step_ok)

definition mail_work :: "int \<Rightarrow> db \<Rightarrow> db \<Rightarrow> bool" where
  "mail_work m d d' \<longleftrightarrow> jobs_distinct d' \<and> (mail_move m)\<^sup>*\<^sup>* (mail_jobs d) (mail_jobs d')"

lemma mail_work_refl [simp]: "jobs_distinct d \<Longrightarrow> mail_work m d d"
  by (simp add: mail_work_def)

lemma mail_work_trans: "mail_work m d d' \<Longrightarrow> mail_work m d' d'' \<Longrightarrow> mail_work m d d''"
  unfolding mail_work_def by (metis rtranclp_trans)

lemma mail_work_same:
  "mail_work m d0 d \<Longrightarrow> email_jobs d' = email_jobs d \<Longrightarrow> mail_work m d0 d'"
  by (simp add: mail_work_def jobs_distinct_def)

lemma job_steps_work:
  assumes "distinct (map ej_id js)" and "job_steps m (mail_jobs d) (jobs_of ej_id job_phase ej_attempt_count js)"
  shows "mail_work m d (d\<lparr>email_jobs := js\<rparr>)"
  using assms by (simp add: mail_work_def jobs_distinct_def job_steps_moves)


section \<open>Every operation is work on the queue\<close>

lemma wp_ClaimNextEmailJob:
  assumes "w_tx w = NoTx"
    and "\<And>r t w'. job_due now (email_jobs (w_db w)) = Some r \<Longrightarrow> w_tx w' = NoTx \<Longrightarrow>
      w_db w' = w_db w\<lparr>email_jobs := upd_where (\<lambda>j. ej_id j = ej_id r) (job_claimed now t) (email_jobs (w_db w))\<rparr> \<Longrightarrow>
      Q (r\<lparr>ej_status := EmailJobStatusProcessing, ej_attempt_count := ej_attempt_count r + 1,
           ej_processing_started_at := Some now\<rparr>) w'"
    and "\<And>e w'. w_db w' = w_db w \<Longrightarrow> w_tx w' = NoTx \<Longrightarrow>
      (errors_is e (EStore ErrorEmailJobNotFound) \<longrightarrow> job_due now (email_jobs (w_db w)) = None) \<Longrightarrow> R e w'"
  shows "wp (ClaimNextEmailJob E now) Q R w"
  unfolding ClaimNextEmailJob_def wp_with_tx [OF assms(1)]
  by (auto simp: wps assms(1) intro!: assms(2,3))

lemma claim_mail_work:
  assumes "jobs_distinct d" and "job_due now (email_jobs d) = Some r"
  shows "mail_work m d (d\<lparr>email_jobs := upd_where (\<lambda>j. ej_id j = ej_id r) (job_claimed now t) (email_jobs d)\<rparr>)"
  by (rule job_steps_work)
    (use mail.claim_step [of "email_jobs d" now r m t] assms in
      \<open>auto simp: jobs_distinct_def map_upd_where_same job_claimed_def\<close>)

lemma transition_mail_work:
  assumes "jobs_distinct d" and "\<And>j. ej_id (f j) = ej_id j" and "\<And>j. ej_attempt_count (f j) = ej_attempt_count j"
    and "\<And>j. j \<in> set (email_jobs d) \<Longrightarrow> holds_job k l j \<Longrightarrow>
      terminal (job_phase (f j)) \<or> job_phase (f j) = Waiting \<and> ej_attempt_count j < m"
  shows "mail_work m d (d\<lparr>email_jobs := upd_where (holds_job k l) f (email_jobs d)\<rparr>)"
  by (rule job_steps_work)
    (use mail.transition_steps [of "email_jobs d" f k l m] assms in
      \<open>auto simp: jobs_distinct_def map_upd_where_same\<close>)

lemma wp_job_transition:
  assumes "jobs_distinct (w_db w)"
    and "\<And>r t w'. r \<in> set (email_jobs (w_db w)) \<Longrightarrow> holds_job i l r \<Longrightarrow> w_tx w' = w_tx w \<Longrightarrow>
      w_db w' = w_db w\<lparr>email_jobs := upd_where (holds_job i l) (f t) (email_jobs (w_db w))\<rparr> \<Longrightarrow> Q () w'"
    and "\<And>e w'. w_db w' = w_db w \<Longrightarrow> R e w'"
  shows "wp (job_transition E i l f) Q R w"
proof -
  let ?n = "count_where (holds_job i l) (email_jobs (w_db w))"
  have le: "?n \<le> 1"
    using mail.holder_unique assms(1) by (simp add: jobs_distinct_def)
  have same: "upd_where (holds_job i l) (f t) (email_jobs (w_db w)) = email_jobs (w_db w)" if "?n = 0" for t
    using that by (auto simp: upd_where_def intro: map_idI)
  have some: "\<exists>r\<in>set (email_jobs (w_db w)). holds_job i l r" if "?n = 1"
    using that count_where_0 [of "holds_job i l" "email_jobs (w_db w)"] by auto
  from le consider "?n = 0" | "?n = 1" by linarith
  then show ?thesis
  proof cases
    case 1
    then show ?thesis
      using same unfolding job_transition_def ensureEmailJobTransition_def
      by (auto simp: wps simp del: count_where_0 intro!: assms(3))
  next
    case 2
    then show ?thesis
      using some unfolding job_transition_def ensureEmailJobTransition_def
      by (auto simp: wps intro!: assms(3) intro: assms(2))
  qed
qed

lemma ReapStaleEmailJobs_work:
  "keeps (mail_work m d0) (ReapStaleEmailJobs E rnd staleBefore now m batchSize base mx)"
  unfolding ReapStaleEmailJobs_def
proof (rule keeps_exec)
  fix t :: time and u :: uuid and d x d'
  assume q: "mail_work m d0 d"
    and run: "(let picked = oldest (job_stale staleBefore) (\<lambda>j. (ej_processing_started_at j, ej_id j)) batchSize (email_jobs d);
         hit = (\<lambda>j. ej_id j \<in> set (map ej_id picked));
         upd = job_reaped m now base mx rnd t;
         updated = map upd (filter hit (email_jobs d))
     in Inr (\<lparr>Retried = int (count_where (\<lambda>j. ej_status j = EmailJobStatusPending) updated),
              Failed = int (count_where (\<lambda>j. ej_status j = EmailJobStatusFailed) updated)\<rparr>,
             d\<lparr>email_jobs := upd_where hit upd (email_jobs d)\<rparr>)) = Inr (x, d')"
  from q have d: "distinct (map ej_id (email_jobs d))" by (simp add: mail_work_def jobs_distinct_def)
  define hit where "hit = (\<lambda>j :: email_job. ej_id j \<in> set (map ej_id (oldest (job_stale staleBefore)
      (\<lambda>j. (ej_processing_started_at j, ej_id j)) batchSize (email_jobs d))))"
  have d': "d' = d\<lparr>email_jobs := upd_where hit (job_reaped m now base mx rnd t) (email_jobs d)\<rparr>"
    using run by (simp add: Let_def hit_def)
  have "job_steps m (mail_jobs d) (jobs_of ej_id job_phase ej_attempt_count
      (upd_where hit (job_reaped m now base mx rnd t) (email_jobs d)))"
  proof (rule mail.reap_steps [OF d])
    show "job_stale staleBefore x" if "x \<in> set (email_jobs d)" "hit x" for x
      using picked_by_id [OF d that(1)] that(2) unfolding hit_def by blast
  qed (auto simp: job_reaped_def job_exhausted_def job_phase_def mail_status_defs)
  then have "mail_work m d d'"
    unfolding d' by (intro job_steps_work) (use d in \<open>simp_all add: map_upd_where_same job_reaped_def\<close>)
  with q show "mail_work m d0 d'" by (rule mail_work_trans)
qed

lemma purge_mail_work:
  assumes "jobs_distinct d" and "\<And>j. j \<in> set (email_jobs d) \<Longrightarrow> p j \<Longrightarrow> mail_purgeable c j"
  shows "mail_work m d (d\<lparr>email_jobs := del_where p (email_jobs d)\<rparr>)"
  by (rule job_steps_work)
    (use mail.purge_steps [of "email_jobs d" p c m] assms in
      \<open>auto simp: jobs_distinct_def distinct_map_del_where\<close>)

lemma DeleteEmailJobs_work:
  "keeps (mail_work m d0) (DeleteSentEmailJobsBefore E t n)"
  "keeps (mail_work m d0) (DeleteFailedEmailJobsBefore E t n)"
proof -
  have gone: "mail_work m d0 (d\<lparr>email_jobs := del_where (\<lambda>j. ej_id j \<in> ej_id ` set (oldest p k n (email_jobs d))) (email_jobs d)\<rparr>)"
    if "mail_work m d0 d" "\<And>j. p j \<Longrightarrow> mail_purgeable c j" for d c p and k :: "email_job \<Rightarrow> 'k :: linorder"
  proof -
    have d: "jobs_distinct d" using that(1) by (simp add: mail_work_def)
    have "p j" if "j \<in> set (email_jobs d)" "ej_id j \<in> ej_id ` set (oldest p k n (email_jobs d))" for j
      using picked_by_id [of ej_id "email_jobs d" j p k n] that d by (simp add: jobs_distinct_def)
    with purge_mail_work [OF d, of _ c m] that show ?thesis by (meson mail_work_trans)
  qed
  show "keeps (mail_work m d0) (DeleteSentEmailJobsBefore E t n)"
    unfolding DeleteSentEmailJobsBefore_def Let_def
    by (rule keeps_exec_count) (auto intro: gone [of _ "sent_before t" "(t, True)"] simp: mail_purgeable_def)
  show "keeps (mail_work m d0) (DeleteFailedEmailJobsBefore E t n)"
    unfolding DeleteFailedEmailJobsBefore_def Let_def
    by (rule keeps_exec_count) (auto intro: gone [of _ "failed_before t" "(t, False)"] simp: mail_purgeable_def)
qed


text \<open>
  The rely: while a mail is rendered and sent, the rest of the system may do any work on the
  queue, but claims nothing at the very instant of this claim.
\<close>

definition meanwhile :: "int \<Rightarrow> time \<Rightarrow> db \<Rightarrow> db \<Rightarrow> bool" where
  "meanwhile m now d d' \<longleftrightarrow> mail_work m d d' \<and>
     (\<forall>k n. mail_jobs d' k = Some (Leased now, n) \<longrightarrow> mail_jobs d k = Some (Leased now, n))"

definition others_mail :: "int \<Rightarrow> time \<Rightarrow> email_worker \<Rightarrow> bool" where
  "others_mail m now W \<longleftrightarrow>
     (\<forall>render key dat w r w'. ew_templates W = Some render \<longrightarrow> render key dat w = (r, w') \<longrightarrow>
        jobs_distinct (w_db w) \<longrightarrow> meanwhile m now (w_db w) (w_db w')) \<and>
     (\<forall>send to msg w r w'. ew_sender W = Some send \<longrightarrow> send to msg w = (r, w') \<longrightarrow>
        jobs_distinct (w_db w) \<longrightarrow> meanwhile m now (w_db w) (w_db w'))"

lemma meanwhile_trans: "meanwhile m now d d' \<Longrightarrow> meanwhile m now d' d'' \<Longrightarrow> meanwhile m now d d''"
  unfolding meanwhile_def by (blast intro: mail_work_trans)

lemma meanwhile_same: "jobs_distinct d \<Longrightarrow> email_jobs d' = email_jobs d \<Longrightarrow> meanwhile m now d d'"
  by (simp add: meanwhile_def mail_work_def jobs_distinct_def)

lemma keeps_email_jobs:
  "keeps (\<lambda>d. email_jobs d = js) (GetChallengeByID E c)"
  "keeps (\<lambda>d. email_jobs d = js) (GenerateCodeForDelivery E C ch i now)"
  "keeps (\<lambda>d. email_jobs d = js) (SetChallengeLastSentAt E c now)"
proof -
  have "keeps (\<lambda>d. email_jobs d = js) (UpsertVerificationCode E v)" for v
    unfolding UpsertVerificationCode_def by (rule keeps_exec) (auto simp: Let_def split: if_splits)
  then show "keeps (\<lambda>d. email_jobs d = js) (GenerateCodeForDelivery E C ch i now)"
    unfolding GenerateCodeForDelivery_def storeCode_def Let_def by (intro keeps_intro)
qed (simp_all add: GetChallengeByID_def SetChallengeLastSentAt_def keeps_intro keeps_exec_upd)

lemma verificationCodeForJob_jobs:
  assumes "verificationCodeForJob E W job now w = (r, w')"
  shows "email_jobs (w_db w') = email_jobs (w_db w)"
proof -
  have "keeps (\<lambda>d. email_jobs d = email_jobs (w_db w)) (verificationCodeForJob E W job now)"
    unfolding verificationCodeForJob_def
    by (auto intro!: keeps_intro keeps_email_jobs split: option.splits)
  from keepsD [OF this refl assms] show ?thesis .
qed

lemma render_and_send_others:
  assumes "others_mail m now W" and "ew_templates W = Some render" and "jobs_distinct (w_db w)"
    and "render_and_send E W job render dat w = (r, w')"
  shows "meanwhile m now (w_db w) (w_db w') \<and> (\<exists>f. r = Inr f)"
proof -
  obtain q w1 where q: "render (ej_template job) dat w = (q, w1)" by fastforce
  have r1: "meanwhile m now (w_db w) (w_db w1)"
    using assms(1-3) q unfolding others_mail_def by blast
  then have d1: "jobs_distinct (w_db w1)" by (simp add: meanwhile_def mail_work_def)
  show ?thesis
  proof (cases q)
    case (Inl fp)
    then show ?thesis
      using assms(4) q r1 by (auto simp: render_and_send_def Let_def split: prod.splits)
  next
    case (Inr msg)
    show ?thesis
    proof (cases "ew_sender W")
      case None
      then show ?thesis using assms(4) q Inr r1 by (auto simp: render_and_send_def Let_def)
    next
      case (Some send)
      then obtain msg' out where "send (ej_to_email job) msg' w1 = (out, w')" "r = Inr out"
        using assms(4) q Inr by (auto simp: render_and_send_def Let_def split: prod.splits if_splits)
      with assms(1) Some d1 have "meanwhile m now (w_db w1) (w_db w')" "\<exists>f. r = Inr f"
        unfolding others_mail_def by blast+
      with r1 show ?thesis by (blast intro: meanwhile_trans)
    qed
  qed
qed

lemma processJob_others:
  assumes "others_mail m now W" and "jobs_distinct (w_db w)" and "processJob E W job now w = (r, w')"
  shows "meanwhile m now (w_db w) (w_db w') \<and> (\<exists>f. r = Inr f)"
proof (cases "ew_templates W")
  case None
  with assms(2,3) show ?thesis by (auto simp: processJob_def ret_def intro: meanwhile_same)
next
  case (Some render)
  let ?dat = "case ej_data job of None \<Rightarrow> [] | Some dat \<Rightarrow> dat"
  show ?thesis
  proof (cases "ej_template job \<in> {EmailTemplateSignupCode, EmailTemplatePasswordResetCode, EmailTemplateEmailChangeCode}")
    case False
    then show ?thesis
      using assms Some render_and_send_others [OF assms(1) Some assms(2), of E job ?dat r w']
      by (auto simp: processJob_def Let_def ret_def split: sum.splits intro: meanwhile_same)
  next
    case True
    obtain v w1 where v: "verificationCodeForJob E W job now w = (v, w1)" by fastforce
    have j1: "meanwhile m now (w_db w) (w_db w1)" "jobs_distinct (w_db w1)"
      using verificationCodeForJob_jobs [OF v] assms(2) by (auto intro: meanwhile_same simp: jobs_distinct_def)
    have total: "\<exists>x. v = Inr x"
      using v by (auto simp: verificationCodeForJob_def try_bnd_def ret_def split: option.splits prod.splits sum.splits if_splits)
    have run: "processJob E W job now w = bnd (verificationCodeForJob E W job now) (\<lambda>r. case r of
          Inl f \<Rightarrow> ret (Some f)
        | Inr code_text \<Rightarrow> render_and_send E W job render (set_data TemplateVariableCode code_text ?dat)) w"
      using Some True by (auto simp: processJob_def Let_def)
    from total obtain x where "v = Inr x" ..
    then show ?thesis
    proof (cases x)
      case (Inl f)
      with \<open>v = Inr x\<close> v run assms(3) j1 show ?thesis by (auto simp: bnd_def ret_def)
    next
      case (Inr s)
      with \<open>v = Inr x\<close> v run assms(3)
      have "render_and_send E W job render (set_data TemplateVariableCode s ?dat) w1 = (r, w')"
        by (simp add: bnd_def)
      from render_and_send_others [OF assms(1) Some j1(2) this] j1(1) show ?thesis
        by (blast intro: meanwhile_trans)
    qed
  qed
qed


lemma wp_written:
  assumes "jobs_distinct (w_db w)" and "\<And>t j. ej_id (f t j) = ej_id j" and "\<And>t j. ej_attempt_count (f t j) = ej_attempt_count j"
    and "\<And>t j. j \<in> set (email_jobs (w_db w)) \<Longrightarrow> holds_job k l j \<Longrightarrow>
      terminal (job_phase (f t j)) \<or> job_phase (f t j) = Waiting \<and> ej_attempt_count j < m"
    and "\<And>w'. mail_work m (w_db w) (w_db w') \<Longrightarrow> Q () w'" and "\<And>e w'. w_db w' = w_db w \<Longrightarrow> R e w'"
  shows "wp (job_transition E k l f) Q R w"
proof (rule wp_job_transition [OF assms(1)])
  fix r :: email_job and t and w' :: world
  assume "w_db w' = w_db w\<lparr>email_jobs := upd_where (holds_job k l) (f t) (email_jobs (w_db w))\<rparr>"
  moreover have "mail_work m (w_db w) (w_db w\<lparr>email_jobs := upd_where (holds_job k l) (f t) (email_jobs (w_db w))\<rparr>)"
    by (rule transition_mail_work [OF assms(1-4)])
  ultimately show "Q () w'" by (intro assms(5)) simp
qed (rule assms(6))

lemma wp_failJob:
  assumes "jobs_distinct (w_db w)"
  shows "wp (failJob E job l s reason now) (\<lambda>_ w'. mail_work m (w_db w) (w_db w')) (\<lambda>_ _. False) w"
  unfolding failJob_def MarkEmailJobFailed_def wp_try_bnd wp_ret
  by (rule wp_written [OF assms, where m = m])
    (use assms in \<open>auto simp: job_phase_def terminal_def mail_status_defs\<close>)

lemma wp_after_delivery:
  assumes "jobs_distinct (w_db w)" and "m = JobMaxAttempts (ew_policy W)"
    and "\<And>j. j \<in> set (email_jobs (w_db w)) \<Longrightarrow> holds_job (ej_id job) l j \<Longrightarrow> ej_attempt_count j = ej_attempt_count job"
  shows "wp (after_delivery E W job l now outcome) (\<lambda>_ w'. mail_work m (w_db w) (w_db w')) (\<lambda>_ _. False) w"
proof (cases outcome)
  case None
  let ?Q = "\<lambda>_ w'. mail_work m (w_db w) (w_db w')"
  have last: "wp (case ej_challenge job of None \<Rightarrow> ret (True, None)
      | Some c \<Rightarrow> bnd (attempt (SetChallengeLastSentAt E c now)) (\<lambda>_. ret (True, None))) ?Q (\<lambda>_ _. False) w1"
    if "mail_work m (w_db w) (w_db w1)" for w1
    using that by (auto simp: wps SetChallengeLastSentAt_def intro: mail_work_same)
  show ?thesis
    unfolding after_delivery_def None option.case MarkEmailJobSent_def wp_try_bnd wp_ret
    by (rule wp_written [OF assms(1), where m = m])
      (use assms(1) last in \<open>auto simp: job_phase_def terminal_def mail_status_defs\<close>)
next
  case (Some f)
  obtain cl reason where c: "ClassifyFailure f = (cl, reason)" by fastforce
  consider "cl = FailurePermanent" | "cl \<noteq> FailurePermanent" "m \<le> ej_attempt_count job"
    | "cl \<noteq> FailurePermanent" "ej_attempt_count job < m" by linarith
  then show ?thesis
  proof cases
    case 3
    have requeue: "wp (try_bnd (RequeueEmailJob E (ej_id job) l s next) (\<lambda>e. ret (True, Some e)) (\<lambda>_. ret (True, None)))
        (\<lambda>_ w'. mail_work m (w_db w) (w_db w')) (\<lambda>_ _. False) w" for s "next"
      unfolding RequeueEmailJob_def wp_try_bnd wp_ret
      by (rule wp_written [OF assms(1), where m = m])
        (use 3 assms(1,3) in \<open>auto simp: job_phase_def terminal_def mail_status_defs\<close>)
    show ?thesis
      using 3 assms(2) requeue by (simp add: after_delivery_def Some c wp_def Let_def)
  qed (use assms(1,2) in \<open>simp_all add: after_delivery_def Some c wp_failJob\<close>)
qed

lemma claimed_mail:
  assumes "jobs_distinct d" and "job_due now (email_jobs d) = Some r"
  shows "mail_jobs (d\<lparr>email_jobs := upd_where (\<lambda>j. ej_id j = ej_id r) (job_claimed now t) (email_jobs d)\<rparr>) (ej_id r)
    = Some (Leased now, ej_attempt_count r + 1)"
  using jobs_of_upd_key [of ej_id "email_jobs d" r "job_claimed now t" "\<lambda>j. ej_id j = ej_id r"
      job_phase ej_attempt_count] job_due_SomeD [OF assms(2)] assms(1)
  by (auto simp: jobs_distinct_def distinct_map inj_on_def job_claimed_def job_phase_def mail_status_defs)

lemma runOnce_work:
  assumes "w_tx w = NoTx" and "jobs_distinct (w_db w)" and "others_mail m now W" and "m = JobMaxAttempts (ew_policy W)"
  shows "wp (runOnce E W now) (\<lambda>_ w'. mail_work m (w_db w) (w_db w')) (\<lambda>_ _. False) w"
  unfolding runOnce_def wp_try_bnd
proof (rule wp_ClaimNextEmailJob [OF assms(1)])
  fix r :: email_job and t and w1 :: world
  let ?j = "r\<lparr>ej_status := EmailJobStatusProcessing, ej_attempt_count := ej_attempt_count r + 1,
      ej_processing_started_at := Some now\<rparr>"
  assume due: "job_due now (email_jobs (w_db w)) = Some r"
    and w1: "w_db w1 = w_db w\<lparr>email_jobs := upd_where (\<lambda>j. ej_id j = ej_id r) (job_claimed now t) (email_jobs (w_db w))\<rparr>"
  have c: "mail_work m (w_db w) (w_db w1)" unfolding w1 by (rule claim_mail_work [OF assms(2) due])
  then have d1: "jobs_distinct (w_db w1)" by (simp add: mail_work_def)
  have fin: "wp M Q R w2 \<Longrightarrow> wp M Q' R' w2" if "\<And>x w'. Q x w' \<Longrightarrow> Q' x w'" "\<And>e w'. R e w' \<Longrightarrow> R' e w'"
    for M :: "(bool \<times> err option) M" and Q Q' R R' w2
    using that by (auto elim: wp_mono)
  show "wp (let lease = (case ej_processing_started_at ?j of None \<Rightarrow> zero_time | Some t \<Rightarrow> t) in
        if ej_deadline_at ?j \<le> now
        then failJob E ?j lease (''email delivery deadline exceeded at '' @ rfc3339 E (ej_deadline_at ?j))
          ''delivery_deadline_exceeded'' now
        else bnd (processJob E W ?j now) (after_delivery E W ?j lease now))
      (\<lambda>_ w'. mail_work m (w_db w) (w_db w')) (\<lambda>_ _. False) w1"
  proof (cases "ej_deadline_at r \<le> now")
    case True
    have "wp (failJob E ?j now (''email delivery deadline exceeded at '' @ rfc3339 E (ej_deadline_at ?j))
          ''delivery_deadline_exceeded'' now) (\<lambda>_ w'. mail_work m (w_db w) (w_db w')) (\<lambda>_ _. False) w1"
      by (rule fin [OF _ _ wp_failJob [OF d1, of _ _ _ _ _ _ m]]) (auto intro: mail_work_trans [OF c])
    with True show ?thesis by simp
  next
    case False
    obtain q w2 where q: "processJob E W ?j now w1 = (q, w2)" by fastforce
    from processJob_others [OF assms(3) d1 q] obtain f where f: "q = Inr f" and mw: "meanwhile m now (w_db w1) (w_db w2)"
      by blast
    have w2: "mail_work m (w_db w1) (w_db w2)" and d2: "jobs_distinct (w_db w2)"
      using mw by (simp_all add: meanwhile_def mail_work_def)
    have n: "ej_attempt_count j = ej_attempt_count ?j"
      if "j \<in> set (email_jobs (w_db w2))" "holds_job (ej_id ?j) now j" for j
    proof -
      have "mail_jobs (w_db w2) (ej_id r) = Some (Leased now, ej_attempt_count j)"
        using jobs_of_row [of ej_id "email_jobs (w_db w2)" j job_phase ej_attempt_count] that d2
        by (simp add: jobs_distinct_def mail.holds)
      then have "mail_jobs (w_db w1) (ej_id r) = Some (Leased now, ej_attempt_count j)"
        using mw by (simp add: meanwhile_def)
      then show ?thesis using claimed_mail [OF assms(2) due, of t] w1 by simp
    qed
    have "wp (after_delivery E W ?j now now f) (\<lambda>_ w'. mail_work m (w_db w) (w_db w')) (\<lambda>_ _. False) w2"
      by (rule fin [OF _ _ wp_after_delivery [OF d2 assms(4) n]])
        (auto intro: mail_work_trans [OF mail_work_trans [OF c w2]])
    with False q f show ?thesis by (simp add: wp_bnd wp_of_run)
  qed
next
  fix e and w' :: world
  assume "w_db w' = w_db w"
  then show "wp (ret (False, if errors_is e (EStore ErrorEmailJobNotFound) then None else Some e))
      (\<lambda>_ w'. mail_work m (w_db w) (w_db w')) (\<lambda>_ _. False) w'"
    using assms(2) by (simp add: wps)
qed

end
