(* ===== verification/Email_Properties.thy ===== *)
theory Email_Properties
  imports Email_Proofs Demo
begin

text \<open>
  The properties of mail delivery: the back-off's bounds and its agreement with the reaper's SQL,
  the refinement of the job machine with its bound on attempts, and that a mail which is no
  longer wanted is not sent.
\<close>

section \<open>The queue as a system\<close>

inductive mail_step :: "int \<Rightarrow> db \<Rightarrow> db \<Rightarrow> bool" for m where
  worker: "runOnce E W now w = (res, w') \<Longrightarrow> w_tx w = NoTx \<Longrightarrow> JobMaxAttempts (ew_policy W) = m \<Longrightarrow>
    others_mail m now W \<Longrightarrow> mail_step m (w_db w) (w_db w')"
| reaper: "ReapStaleEmailJobs E rnd staleBefore now m n base mx w = (r, w') \<Longrightarrow> mail_step m (w_db w) (w_db w')"
| purge_sent: "DeleteSentEmailJobsBefore E t n w = (c, w') \<Longrightarrow> mail_step m (w_db w) (w_db w')"
| purge_failed: "DeleteFailedEmailJobsBefore E t n w = (c, w') \<Longrightarrow> mail_step m (w_db w) (w_db w')"
| queued: "CreateEmailJob E j w = (c', w') \<Longrightarrow> ej_status j = EmailJobStatusPending \<Longrightarrow> ej_attempt_count j = 0 \<Longrightarrow>
    mail_step m (w_db w) (w_db w')"
| cascade: "DeleteExpiredChallenges E now n w = (c, w') \<Longrightarrow> mail_step m (w_db w) (w_db w')"

lemma CreateEmailJob_work:
  assumes "ej_status j = EmailJobStatusPending" and "ej_attempt_count j = 0"
  shows "keeps (mail_work m d0) (CreateEmailJob E j)"
  unfolding CreateEmailJob_def
proof (rule keeps_exec)
  fix t :: time and u d x d'
  let ?row = "j\<lparr>ej_id := u, ej_created_at := t, ej_updated_at := t, ej_to_email := fit 255 (ej_to_email j),
      ej_template := fit 64 (ej_template j),
      ej_deadline_at := (if ej_deadline_at j = zero_time then t + 72 * hour else ej_deadline_at j)\<rparr>"
  assume q: "mail_work m d0 d"
    and run: "(if \<not> delivery_enabled (ej_template j) d then Inr (None, d)
     else if too_long 255 (ej_to_email j) \<or> too_long 64 (ej_template j) \<or> too_long 32 (ej_status j)
          \<or> (case ej_terminal_reason j of None \<Rightarrow> False | Some r \<Rightarrow> too_long 64 r)
       then Inl ValueTooLong
     else if u \<in> ej_id ` set (email_jobs d) then Inl (UniqueViolation ''email_jobs_pkey'')
     else if (case ej_challenge j of None \<Rightarrow> False | Some c \<Rightarrow> c \<notin> ch_id ` set (challenges d))
       then Inl ForeignKeyViolation
     else let row = ?row in Inr (Some row, d\<lparr>email_jobs := email_jobs d @ [row]\<rparr>)) = Inr (x, d')"
  define row where "row = ?row"
  have row: "ej_id row = u" "ej_status row = EmailJobStatusPending" "ej_attempt_count row = 0"
    by (simp_all add: row_def assms)
  have "d' = d \<or> u \<notin> ej_id ` set (email_jobs d) \<and> d' = d\<lparr>email_jobs := email_jobs d @ [row]\<rparr>"
  proof (cases "delivery_enabled (ej_template j) d")
    case True
    with run show ?thesis unfolding Let_def row_def [symmetric] by (simp only: if_True not_True_eq_False if_False split: if_split_asm) simp_all
  next
    case False
    with run show ?thesis by simp
  qed
  then consider "d' = d" | "u \<notin> ej_id ` set (email_jobs d)" "d' = d\<lparr>email_jobs := email_jobs d @ [row]\<rparr>"
    by blast
  then show "mail_work m d0 d'"
  proof cases
    case 1
    with q show ?thesis by simp
  next
    case 2
    have new: "mail_jobs d u = None" using 2(1) by (simp add: jobs_of_None)
    have "job_steps m (mail_jobs d) (jobs_of ej_id job_phase ej_attempt_count (email_jobs d @ [row]))"
      using job_step.enqueue [of "mail_jobs d" u m, OF new] 2(1)
      by (simp add: jobs_of_append_new job_phase_def row r_into_rtranclp)
    then have "mail_work m d d'"
      unfolding 2(2) by (intro job_steps_work) (use q 2(1) in \<open>simp_all add: mail_work_def jobs_distinct_def row\<close>)
    with q show ?thesis by (rule mail_work_trans)
  qed
qed

lemma cancel_moves: "finite K \<Longrightarrow> (mail_move m)\<^sup>*\<^sup>* q (\<lambda>k. if k \<in> K then None else q k)"
proof (induction K rule: finite_induct)
  case (insert x K)
  let ?q = "\<lambda>k. if k \<in> K then None else q k"
  have "(\<lambda>k. if k \<in> insert x K then None else q k) = ?q(x := None)" by (auto simp: fun_eq_iff)
  with mail_move.cancel [of m ?q x] insert.IH show ?case by (simp add: rtranclp.rtrancl_into_rtrancl)
qed simp

lemma jobs_of_del_where:
  assumes "distinct (map key rs)"
  shows "jobs_of key phase attempts (del_where p rs) =
    (\<lambda>k. if k \<in> key ` {r \<in> set rs. p r} then None else jobs_of key phase attempts rs k)"
  using assms
proof (induction rs)
  case (Cons r rs)
  have "key r \<notin> key ` {r' \<in> set rs. p r'}" "jobs_of key phase attempts rs (key r) = None"
    using Cons.prems by (auto simp: jobs_of_None)
  with Cons show ?case by (auto simp: del_where_def jobs_of_Cons fun_eq_iff)
qed (simp add: del_where_def fun_eq_iff)

lemma DeleteExpiredChallenges_work: "keeps (mail_work m d0) (DeleteExpiredChallenges E now n)"
  unfolding DeleteExpiredChallenges_def
proof (rule keeps_exec)
  fix t :: time and u :: uuid and d x d'
  assume q: "mail_work m d0 d"
    and run: "(let gone = map ch_id (oldest (\<lambda>c. ch_expires_at c < now) (\<lambda>c. (ch_expires_at c, ch_id c)) n (challenges d))
     in if attached_to gone d then Inl CheckViolation
        else Inr (count_where (\<lambda>c. ch_id c \<in> set gone) (challenges d), cascade_challenges gone d)) = Inr (x, d')"
  then obtain p where d': "email_jobs d' = del_where p (email_jobs d)"
    by (auto simp: Let_def cascade_challenges_def split: if_splits)
  have d: "distinct (map ej_id (email_jobs d))" using q by (simp add: mail_work_def jobs_distinct_def)
  have "(mail_move m)\<^sup>*\<^sup>* (mail_jobs d) (mail_jobs d')"
    unfolding d' jobs_of_del_where [OF d] by (rule cancel_moves) simp
  moreover have "jobs_distinct d'" using d by (simp add: jobs_distinct_def d' distinct_map_del_where)
  ultimately have "mail_work m d d'" by (simp add: mail_work_def)
  with q show "mail_work m d0 d'" by (rule mail_work_trans)
qed

lemma mail_step_work:
  assumes "mail_step m d d'" and "jobs_distinct d"
  shows "mail_work m d d'"
  using assms(1)
proof cases
  case (worker E W now w res w')
  have "wp (runOnce E W now) (\<lambda>_ w'. mail_work m (w_db w) (w_db w')) (\<lambda>_ _. False) w"
    by (rule runOnce_work) (use worker assms(2) in auto)
  with worker show ?thesis by (auto simp: wp_def split: sum.splits)
next
  case (reaper E rnd staleBefore now n base mx w r w')
  from keepsD [OF ReapStaleEmailJobs_work _ reaper(3)] assms(2) show ?thesis by (simp add: reaper(1,2))
next
  case (purge_sent E t n w c w')
  from keepsD [OF DeleteEmailJobs_work(1) _ purge_sent(3)] assms(2) show ?thesis by (simp add: purge_sent(1,2))
next
  case (purge_failed E t n w c w')
  from keepsD [OF DeleteEmailJobs_work(2) _ purge_failed(3)] assms(2) show ?thesis by (simp add: purge_failed(1,2))
next
  case (queued E j w c' w')
  from keepsD [OF CreateEmailJob_work [OF queued(4,5)] _ queued(3)] assms(2) show ?thesis by (simp add: queued(1,2))
next
  case (cascade E now n w c w')
  from keepsD [OF DeleteExpiredChallenges_work _ cascade(3)] assms(2) show ?thesis by (simp add: cascade(1,2))
qed

lemma mail_steps_work:
  assumes "(mail_step m)\<^sup>*\<^sup>* d d'" and "jobs_distinct d"
  shows "mail_work m d d'"
  using assms(1)
proof (induction rule: rtranclp_induct)
  case (step y z)
  then have "jobs_distinct y" by (simp add: mail_work_def)
  from mail_work_trans [OF step.IH mail_step_work [OF step(2) this]] show ?case .
qed (simp add: assms(2))

section \<open>Properties\<close>

text \<open>
  The back-off of the mail worker: with \<open>n\<close> the base delay doubled once per further
  attempt and cut at the maximum, a retry waits at least half of \<open>n\<close> and less than
  \<open>n\<close>, whatever the random source returns; and \<open>n\<close> is the delay the reaper's SQL
  computes as long as the maximum is at most the base times 2 to the 30.
\<close>

theorem retry_delay_spec:
  assumes "0 < base" and "0 < mx"
  shows "let n = min mx (base * 2 ^ nat (max (a - 1) 0)) in
    n div 2 \<le> emailRetryDelay a base mx r \<and> emailRetryDelay a base mx r < n
    \<and> (mx \<le> base * 2 ^ 30 \<longrightarrow> retry_nominal_sql a base mx = n)"
proof -
  let ?n = "retry_nominal a base mx"
  let ?x = "if r < 0 then 0 else if 1 \<le> r then 999999999 / 1000000000 else r"
  have n: "0 < ?n" by (rule retry_nominal_pos [OF assms])
  then have h: "0 < ?n - ?n div 2" by linarith
  have x: "0 \<le> ?x" "?x < 1" by auto
  have "0 \<le> \<lfloor>?x * of_int (?n - ?n div 2)\<rfloor>" using x(1) h by simp
  moreover have "?x * of_int (?n - ?n div 2) < of_int (?n - ?n div 2)"
    using x(2) h by (simp add: mult_less_cancel_right1)
  then have "\<lfloor>?x * of_int (?n - ?n div 2)\<rfloor> < ?n - ?n div 2" by (simp add: floor_less_iff)
  ultimately have "?n div 2 \<le> emailRetryDelay a base mx r" "emailRetryDelay a base mx r < ?n"
    unfolding emailRetryDelay_closed [OF assms, of a r] Let_def by linarith+
  with retry_nominal_sql_eq [OF assms(1), of mx a] show ?thesis
    unfolding Let_def retry_nominal_def by blast
qed

theorem retry_delay_spec_witness:
  "150 \<le> emailRetryDelay 3 100 300 (1 / 2) \<and> emailRetryDelay 3 100 300 (1 / 2) < 300
    \<and> retry_nominal_sql 3 100 300 = 300"
proof -
  have n: "min 300 (100 * 2 ^ nat (max (3 - 1) 0)) = (300::int)" by simp
  show ?thesis using retry_delay_spec [of 100 300 3 "1 / 2"] unfolding n Let_def by simp
qed


text \<open>
  C33. The mail queue implements the job machine: claiming, delivering (with whatever the rest of
  the system does meanwhile), reaping, purging and queueing make its steps, and deleting expired
  challenges takes mails away. So under every sequence of operations identifiers stay unique,
  no mail is attempted more often than allowed, and a waiting one has an attempt left.
\<close>

theorem mail_queue_refines:
  assumes "(mail_step m)\<^sup>*\<^sup>* d d'" and "jobs_distinct d" and "queue_ok m (mail_jobs d)" and "0 < m"
  shows "jobs_distinct d' \<and> (mail_move m)\<^sup>*\<^sup>* (mail_jobs d) (mail_jobs d') \<and> queue_ok m (mail_jobs d')"
  using mail_steps_work [OF assms(1,2)] mail_moves_ok [OF _ assms(3,4)] by (simp add: mail_work_def)

definition demo_mail :: email_job where
  "demo_mail = (new_email_job None ''a@b.c'' EmailTemplatePasswordChanged [(TemplateVariableOccurredAt, ''6000'')] 5 9000)
     \<lparr>ej_id := 70, ej_created_at := 1, ej_updated_at := 1\<rparr>"

definition demo_mailer :: "failure option \<Rightarrow> email_worker" where
  "demo_mailer outcome = \<lparr>ew_codes = None,
     ew_templates = Some (\<lambda>_ _ w. (Inr \<lparr>MessageID = '''', Subject = ''s'', msg_text = ''t'', msg_html = ''h''\<rparr>, w)),
     ew_sender = Some (\<lambda>_ _ w. (outcome, w)),
     ew_config = \<lparr>RetryBaseDelay = 100, RetryMaxDelay = 300, wc_ProcessingStaleAfter = 50,
       wc_MaintenanceBatchSize = 10, SendTimeout = 10\<rparr>,
     ew_policy = \<lparr>JobMaxAttempts = 3, CleanupSentAfter = 1000, CleanupFailedAfter = 1000\<rparr>,
     ew_random = (\<lambda>_. 1 / 2), ew_observe = (\<lambda>_. (''error'', False, False))\<rparr>"

definition mail_world :: world where
  "mail_world = demo_world\<lparr>w_db := demo_db\<lparr>email_jobs := [demo_mail]\<rparr>\<rparr>"

lemmas mail_eval = runOnce_def ClaimNextEmailJob_def job_due_def job_claimed_def processJob_def render_and_send_def
  after_delivery_def MarkEmailJobSent_def MarkEmailJobFailed_def failJob_def job_transition_def
  ensureEmailJobTransition_def holds_job_def oldest_def demo_mail_def demo_mailer_def mail_world_def new_email_job_def

lemma count_where_single: "count_where p [x] = (if p x then 1 else 0)"
  by (simp add: count_where_def)

lemma known_template: "\<exists>d. LookupTemplate EmailTemplatePasswordChanged = Inr d"
  using LookupTemplate_supported [of EmailTemplatePasswordChanged] by (simp add: SupportedEmailTemplates_def)

lemma no_code_template: "EmailTemplatePasswordChanged \<noteq> EmailTemplateSignupCode"
  "EmailTemplatePasswordChanged \<noteq> EmailTemplatePasswordResetCode" "EmailTemplatePasswordChanged \<noteq> EmailTemplateEmailChangeCode"
  by (simp_all add: template_key_defs)

lemma mail_world_runs:
  obtains w' where "runOnce demo_env (demo_mailer None) 7 mail_world = (Inr (True, None), w')"
    and "map ej_status (email_jobs (w_db w')) = [EmailJobStatusSent]"
proof -
  obtain dd where t: "LookupTemplate EmailTemplatePasswordChanged = Inr dd" using known_template by blast
  have "fst (runOnce demo_env (demo_mailer None) 7 mail_world) = Inr (True, None)"
    by (simp add: mail_eval count_where_single t no_code_template mail_status_defs eval_defs demo_defs Let_def)
  moreover have "map ej_status (email_jobs (w_db (snd (runOnce demo_env (demo_mailer None) 7 mail_world)))) = [EmailJobStatusSent]"
    by (simp add: mail_eval count_where_single t no_code_template mail_status_defs eval_defs demo_defs Let_def)
  ultimately show ?thesis by (intro that [of "snd (runOnce demo_env (demo_mailer None) 7 mail_world)"]) (simp_all add: prod_eq_iff)
qed

lemma others_mail_alone: "others_mail m now (demo_mailer outcome)"
  by (auto simp: others_mail_def demo_mailer_def meanwhile_same)

theorem mail_queue_refines_witness:
  "\<exists>w'. runOnce demo_env (demo_mailer None) 7 mail_world = (Inr (True, None), w')
     \<and> map ej_status (email_jobs (w_db w')) = [EmailJobStatusSent] \<and> queue_ok 3 (mail_jobs (w_db w'))"
proof (rule mail_world_runs)
  fix w'
  assume run: "runOnce demo_env (demo_mailer None) 7 mail_world = (Inr (True, None), w')"
    and sent: "map ej_status (email_jobs (w_db w')) = [EmailJobStatusSent]"
  have "mail_step 3 (w_db mail_world) (w_db w')"
    by (rule mail_step.worker [OF run _ _ others_mail_alone]) (simp_all add: mail_world_def demo_world_def demo_mailer_def)
  then have steps: "(mail_step 3)\<^sup>*\<^sup>* (w_db mail_world) (w_db w')" by (rule r_into_rtranclp)
  have "jobs_distinct (w_db mail_world)" and "queue_ok 3 (mail_jobs (w_db mail_world))"
    by (simp_all add: mail_world_def jobs_distinct_def queue_ok_def jobs_of_Cons job_ok_def demo_mail_def new_email_job_def
      job_phase_def)
  from mail_queue_refines [OF steps this] run sent show ?thesis by simp
qed


section \<open>Mails that are no longer wanted\<close>

definition code_template :: "string \<Rightarrow> bool" where
  "code_template t \<longleftrightarrow> t \<in> {EmailTemplateSignupCode, EmailTemplatePasswordResetCode, EmailTemplateEmailChangeCode}"

text \<open>Past its deadline, or the mail of a code whose challenge is gone, consumed or expired.\<close>

definition unwanted :: "time \<Rightarrow> db \<Rightarrow> email_job \<Rightarrow> bool" where
  "unwanted now d j \<longleftrightarrow> ej_deadline_at j \<le> now \<or> code_template (ej_template j) \<and>
     (case ej_challenge j of None \<Rightarrow> True
      | Some c \<Rightarrow> (case find_challenge c d of None \<Rightarrow> True | Some ch \<Rightarrow> IsConsumed ch \<or> IsExpired ch now))"

lemma query_row_total:
  "sql_ok E w \<Longrightarrow> query_row E e g w = (case g (w_db w) of None \<Rightarrow> (Inl (EStore e), tick w) | Some x \<Rightarrow> (Inr x, tick w))"
  "\<not> sql_ok E w \<Longrightarrow> \<exists>s w'. query_row E e g w = (Inl (ESql s), w')"
  by (auto simp: query_row_def query_def exec_def bnd_def of_option_def ret_def fail_def sql_fail_def sql_ok_def
      split: option.splits)

lemma no_code:
  assumes "case ej_challenge j of None \<Rightarrow> True
      | Some c \<Rightarrow> (case find_challenge c (w_db w) of None \<Rightarrow> True | Some ch \<Rightarrow> IsConsumed ch \<or> IsExpired ch now)"
  shows "\<exists>f w'. verificationCodeForJob E W j now w = (Inr (Inl f), w')
    \<and> (sql_ok E w \<longrightarrow> fst (ClassifyFailure f) = FailurePermanent \<and> (w' = w \<or> w' = tick w))"
proof (cases "ej_challenge j")
  case None
  then show ?thesis by (simp add: verificationCodeForJob_def ret_def PermanentError_def ClassifyFailure_def)
next
  case (Some c)
  show ?thesis
  proof (cases "ew_codes W")
    case None
    with Some show ?thesis by (simp add: verificationCodeForJob_def ret_def PermanentError_def ClassifyFailure_def)
  next
    case (Some C)
    note codes = \<open>ej_challenge j = Some c\<close> Some
    show ?thesis
    proof (cases "sql_ok E w")
      case True
      from query_row_total(1) [OF True, of ErrorChallengeNotFound "find_challenge c"] assms codes True show ?thesis
        by (cases "find_challenge c (w_db w)")
          (simp_all add: verificationCodeForJob_def GetChallengeByID_def try_bnd_def ret_def PermanentError_def
            ClassifyFailure_def)
    next
      case False
      from query_row_total(2) [OF False, of ErrorChallengeNotFound "find_challenge c"] codes False show ?thesis
        by (auto simp: verificationCodeForJob_def GetChallengeByID_def try_bnd_def ret_def)
    qed
  qed
qed

lemma other_sender:
  "store_failure (W\<lparr>ew_sender := s\<rparr>) = store_failure W"
  "verificationCodeForJob E (W\<lparr>ew_sender := s\<rparr>) = verificationCodeForJob E W"
  "after_delivery E (W\<lparr>ew_sender := s\<rparr>) = after_delivery E W"
proof -
  show sf: "store_failure (W\<lparr>ew_sender := s\<rparr>) = store_failure W"
    by (rule ext) (simp add: store_failure_def)
  have sel: "ew_codes (W\<lparr>ew_sender := s\<rparr>) = ew_codes W" "ew_policy (W\<lparr>ew_sender := s\<rparr>) = ew_policy W"
    "ew_config (W\<lparr>ew_sender := s\<rparr>) = ew_config W" "ew_random (W\<lparr>ew_sender := s\<rparr>) = ew_random W"
    by simp_all
  show "verificationCodeForJob E (W\<lparr>ew_sender := s\<rparr>) = verificationCodeForJob E W"
    by (intro ext) (simp only: verificationCodeForJob_def sf sel)
  show "after_delivery E (W\<lparr>ew_sender := s\<rparr>) = after_delivery E W"
    by (intro ext) (simp only: after_delivery_def sel)
qed

lemma processJob_unwanted:
  assumes "unwanted now (w_db w) j" and "now < ej_deadline_at j"
  shows "\<exists>f w'. (\<forall>s. processJob E (W\<lparr>ew_sender := s\<rparr>) j now w = (Inr (Some f), w'))
    \<and> (sql_ok E w \<longrightarrow> fst (ClassifyFailure f) = FailurePermanent \<and> (w' = w \<or> w' = tick w))"
proof (cases "ew_templates W")
  case None
  then show ?thesis by (simp add: processJob_def ret_def PermanentError_def ClassifyFailure_def)
next
  case (Some render)
  obtain f w' where v: "verificationCodeForJob E W j now w = (Inr (Inl f), w')"
    and f: "sql_ok E w \<longrightarrow> fst (ClassifyFailure f) = FailurePermanent \<and> (w' = w \<or> w' = tick w)"
    using no_code [where j = j and w = w and now = now and E = E and W = W] assms by (auto simp: unwanted_def)
  have "processJob E (W\<lparr>ew_sender := s\<rparr>) j now w = (Inr (Some f), w')" for s
    using assms Some v by (simp add: processJob_def unwanted_def code_template_def other_sender Let_def bnd_def ret_def)
  with f show ?thesis by blast
qed

text \<open>The run of the worker on an unwanted mail, once it is claimed, is a failed transition.\<close>

definition claimed_copy :: "time \<Rightarrow> email_job \<Rightarrow> email_job" where
  "claimed_copy now j = j\<lparr>ej_status := EmailJobStatusProcessing, ej_attempt_count := ej_attempt_count j + 1,
     ej_processing_started_at := Some now\<rparr>"

lemma claim_run:
  assumes "w_tx w = NoTx" and "job_due now (email_jobs (w_db w)) = Some j"
  shows "wp (ClaimNextEmailJob E now) (\<lambda>x w1. x = claimed_copy now j \<and> w_tx w1 = NoTx \<and> (\<exists>t. w_db w1 = w_db w\<lparr>email_jobs :=
      upd_where (\<lambda>i. ej_id i = ej_id j) (job_claimed now t) (email_jobs (w_db w))\<rparr>)) any_error w"
  by (rule wp_ClaimNextEmailJob [OF assms(1)]) (use assms(2) in \<open>auto simp: claimed_copy_def\<close>)

lemma claim_succeeds:
  assumes "w_tx w = NoTx" and "job_due now (email_jobs (w_db w)) = Some j" and "\<And>n. \<not> o_fault E n"
  shows "\<exists>w1. ClaimNextEmailJob E now w = (Inr (claimed_copy now j), w1)"
  using assms by (simp add: ClaimNextEmailJob_def claimed_copy_def eval_defs)

lemma unwanted_claimed:
  assumes "unwanted now (w_db w) j" and "w_db w1 = w_db w\<lparr>email_jobs := js\<rparr>"
  shows "unwanted now (w_db w1) (claimed_copy now j)"
proof -
  have "find_challenge c (w_db w1) = find_challenge c (w_db w)" for c by (simp add: assms(2) find_challenge_def)
  with assms(1) show ?thesis by (cases "ej_challenge j") (simp_all add: unwanted_def claimed_copy_def)
qed

text \<open>What follows the claim: the same for every sender.\<close>

lemma runOnce_claimed:
  assumes "ClaimNextEmailJob E now w = (Inr (claimed_copy now j), w1)"
  shows "runOnce E W now w = (if ej_deadline_at j \<le> now
      then failJob E (claimed_copy now j) now (''email delivery deadline exceeded at '' @ rfc3339 E (ej_deadline_at j))
          ''delivery_deadline_exceeded'' now w1
      else bnd (processJob E W (claimed_copy now j) now) (after_delivery E W (claimed_copy now j) now now) w1)"
  using assms by (simp add: runOnce_def try_bnd_def claimed_copy_def)

lemma failJob_fails:
  assumes "jobs_distinct (w_db w)" and "r \<in> set (email_jobs (w_db w))" and "holds_job (ej_id j) now r"
    and "w_tx w = NoTx" and "\<And>n. \<not> o_fault E n"
  shows "\<exists>w' r'. failJob E j now s reason now w = (Inr (True, None), w')
      \<and> r' \<in> set (email_jobs (w_db w')) \<and> ej_id r' = ej_id j \<and> ej_status r' = EmailJobStatusFailed"
proof -
  have one: "count_where (holds_job (ej_id j) now) (email_jobs (w_db w)) = 1"
    using mail.holder_unique [of "email_jobs (w_db w)" "ej_id j" now] assms(1-3)
      count_where_0 [of "holds_job (ej_id j) now" "email_jobs (w_db w)"]
    by (auto simp: jobs_distinct_def le_Suc_eq simp del: count_where_0)
  show ?thesis
    using assms one
    by (auto simp: failJob_def MarkEmailJobFailed_def job_transition_def ensureEmailJobTransition_def eval_defs
      set_upd_where holds_job_def image_iff intro!: bexI [of _ r])
qed


lemma claimed_row:
  assumes "job_due now (email_jobs d) = Some j"
  shows "job_claimed now t j \<in> set (upd_where (\<lambda>i. ej_id i = ej_id j) (job_claimed now t) (email_jobs d))"
    and "holds_job (ej_id j) now (job_claimed now t j)"
  using job_due_SomeD(1) [OF assms] by (auto simp: set_upd_where holds_job_def job_claimed_def)

lemma permanent_fails:
  "fst (ClassifyFailure f) = FailurePermanent \<Longrightarrow>
    after_delivery E W job l now (Some f) w = failJob E job l (fl_text f) (snd (ClassifyFailure f)) now w"
  by (cases "ClassifyFailure f") (simp add: after_delivery_def)

lemma unwanted_fails:
  assumes "w_tx w = NoTx" and "jobs_distinct (w_db w)" and "job_due now (email_jobs (w_db w)) = Some j"
    and "unwanted now (w_db w) j" and "\<And>n. \<not> o_fault E n"
  shows "\<exists>w' r. runOnce E W now w = (Inr (True, None), w')
    \<and> r \<in> set (email_jobs (w_db w')) \<and> ej_id r = ej_id j \<and> ej_status r = EmailJobStatusFailed"
proof -
  from claim_succeeds [OF assms(1,3,5)] obtain w1 where c: "ClaimNextEmailJob E now w = (Inr (claimed_copy now j), w1)" ..
  from claim_run [OF assms(1,3), of E] c obtain t where tx: "w_tx w1 = NoTx"
    and d1: "w_db w1 = w_db w\<lparr>email_jobs := upd_where (\<lambda>i. ej_id i = ej_id j) (job_claimed now t) (email_jobs (w_db w))\<rparr>"
    by (auto simp: wp_def)
  have dist: "jobs_distinct (w_db w1)"
    using assms(2) by (simp add: d1 jobs_distinct_def map_upd_where_same job_claimed_def)
  let ?r = "job_claimed now t j"
  have r: "?r \<in> set (email_jobs (w_db w1))" "holds_job (ej_id (claimed_copy now j)) now ?r"
    using claimed_row [OF assms(3)] by (simp_all add: d1 claimed_copy_def)
  have done_at: "\<exists>w' r'. failJob E (claimed_copy now j) now s reason now w2 = (Inr (True, None), w')
      \<and> r' \<in> set (email_jobs (w_db w')) \<and> ej_id r' = ej_id j \<and> ej_status r' = EmailJobStatusFailed"
    if "w2 = w1 \<or> w2 = tick w1" for w2 s reason
    using failJob_fails [of w2 ?r "claimed_copy now j" now E s reason] that dist r tx assms(5)
    by (auto simp: claimed_copy_def)
  show ?thesis
  proof (cases "ej_deadline_at j \<le> now")
    case True
    with done_at [of w1] runOnce_claimed [OF c, of W] show ?thesis by simp
  next
    case False
    then have "now < ej_deadline_at (claimed_copy now j)" by (simp add: claimed_copy_def)
    from processJob_unwanted [OF unwanted_claimed [OF assms(4) d1] this, of E W] obtain f w2 where
      p: "\<And>s. processJob E (W\<lparr>ew_sender := s\<rparr>) (claimed_copy now j) now w1 = (Inr (Some f), w2)"
      and f: "sql_ok E w1 \<longrightarrow> fst (ClassifyFailure f) = FailurePermanent \<and> (w2 = w1 \<or> w2 = tick w1)" by blast
    have "sql_ok E w1" using tx assms(5) by (simp add: sql_ok_def sql_problem_def)
    with f have f': "fst (ClassifyFailure f) = FailurePermanent" "w2 = w1 \<or> w2 = tick w1" by auto
    have "runOnce E W now w = failJob E (claimed_copy now j) now (fl_text f) (snd (ClassifyFailure f)) now w2"
      using runOnce_claimed [OF c, of W] False p [of "ew_sender W"] by (simp add: bnd_def permanent_fails [OF f'(1)])
    with done_at [OF f'(2)] show ?thesis by simp
  qed
qed

lemma unwanted_same_run:
  assumes "w_tx w = NoTx" and "job_due now (email_jobs (w_db w)) = Some j" and "unwanted now (w_db w) j"
  shows "runOnce E (W\<lparr>ew_sender := s\<rparr>) now w = runOnce E (W\<lparr>ew_sender := s'\<rparr>) now w"
proof (cases "\<exists>w1. ClaimNextEmailJob E now w = (Inr (claimed_copy now j), w1)")
  case False
  with claim_run [OF assms(1,2), of E] obtain e w1 where "ClaimNextEmailJob E now w = (Inl e, w1)"
    by (auto simp: wp_def split: prod.splits sum.splits)
  then show ?thesis by (simp add: runOnce_def try_bnd_def)
next
  case True
  then obtain w1 where c: "ClaimNextEmailJob E now w = (Inr (claimed_copy now j), w1)" ..
  from claim_run [OF assms(1,2), of E] c obtain js where d1: "w_db w1 = w_db w\<lparr>email_jobs := js\<rparr>"
    by (auto simp: wp_def)
  show ?thesis
  proof (cases "ej_deadline_at j \<le> now")
    case True
    then show ?thesis by (simp add: runOnce_claimed [OF c])
  next
    case False
    then have "now < ej_deadline_at (claimed_copy now j)" by (simp add: claimed_copy_def)
    from processJob_unwanted [OF unwanted_claimed [OF assms(3) d1] this, of E W] obtain f w2 where
      "\<And>s. processJob E (W\<lparr>ew_sender := s\<rparr>) (claimed_copy now j) now w1 = (Inr (Some f), w2)" by blast
    with False show ?thesis by (simp add: runOnce_claimed [OF c] bnd_def other_sender)
  qed
qed

text \<open>
  C34. A mail that is no longer wanted (past its delivery deadline, or carrying the code of a
  challenge that is gone, consumed or expired) is not handed to the sender: the run is the same
  whatever the sender is. If no statement fails, the job ends as permanently failed.
\<close>

theorem unwanted_mail_not_sent:
  assumes "w_tx w = NoTx" and "jobs_distinct (w_db w)" and "job_due now (email_jobs (w_db w)) = Some j"
    and "unwanted now (w_db w) j"
  shows "runOnce E (W\<lparr>ew_sender := s\<rparr>) now w = runOnce E (W\<lparr>ew_sender := s'\<rparr>) now w
    \<and> ((\<forall>n. \<not> o_fault E n) \<longrightarrow> (\<exists>w' r. runOnce E W now w = (Inr (True, None), w')
      \<and> r \<in> set (email_jobs (w_db w')) \<and> ej_id r = ej_id j \<and> ej_status r = EmailJobStatusFailed))"
  using unwanted_same_run [OF assms(1,3,4)] unwanted_fails [OF assms] by blast

theorem unwanted_mail_not_sent_witness:
  "\<exists>w'. runOnce demo_env (demo_mailer None) 9000 mail_world = (Inr (True, None), w')
     \<and> runOnce demo_env (demo_mailer None) 9000 mail_world = runOnce demo_env (demo_mailer (Some (plain_failure ''down''))) 9000 mail_world
     \<and> EmailJobStatusFailed \<in> ej_status ` set (email_jobs (w_db w'))"
proof -
  have due: "job_due 9000 (email_jobs (w_db mail_world)) = Some demo_mail"
    by (simp add: job_due_def oldest_def mail_world_def demo_mail_def new_email_job_def)
  have "w_tx mail_world = NoTx" "jobs_distinct (w_db mail_world)" "unwanted 9000 (w_db mail_world) demo_mail"
    by (simp_all add: mail_world_def demo_world_def jobs_distinct_def unwanted_def demo_mail_def new_email_job_def)
  note wanted = this
  have same: "(demo_mailer None)\<lparr>ew_sender := ew_sender (demo_mailer out)\<rparr> = demo_mailer out" for out
    by (simp add: demo_mailer_def)
  from unwanted_mail_not_sent [OF wanted(1,2) due wanted(3), where E = demo_env and W = "demo_mailer None" and
      s = "ew_sender (demo_mailer None)" and s' = "ew_sender (demo_mailer (Some (plain_failure ''down'')))"]
  have run: "runOnce demo_env (demo_mailer None) 9000 mail_world = runOnce demo_env (demo_mailer (Some (plain_failure ''down''))) 9000 mail_world"
    and fin: "(\<forall>n. \<not> o_fault demo_env n) \<longrightarrow> (\<exists>w' r. runOnce demo_env (demo_mailer None) 9000 mail_world = (Inr (True, None), w')
      \<and> r \<in> set (email_jobs (w_db w')) \<and> ej_id r = ej_id demo_mail \<and> ej_status r = EmailJobStatusFailed)"
    unfolding same by blast+
  have "\<forall>n. \<not> o_fault demo_env n" by (simp add: demo_env_def)
  with fin obtain w' r where w': "runOnce demo_env (demo_mailer None) 9000 mail_world = (Inr (True, None), w')"
    "r \<in> set (email_jobs (w_db w'))" "ej_status r = EmailJobStatusFailed" by blast
  have "EmailJobStatusFailed \<in> ej_status ` set (email_jobs (w_db w'))" using w'(2,3) by force
  with w'(1) run show ?thesis by blast
qed

end
