(* ===== verification/Organization_Properties.thy ===== *)
theory Organization_Properties
  imports Organization_Moves Demo
begin

text \<open>
  The properties of organizations: one owner each, whatever is called; what accepting an
  invitation did; that the token handed out opens the invitation; what is left of a user
  prepared for deletion; and that the pages of a listing are the listing.
\<close>

section \<open>The service as a system\<close>

text \<open>
  The service publishes with any publisher that writes the table \<open>webhook_events\<close> only
  (theory Publishers): the one the process is wired with, whether webhooks are on or off.
\<close>

definition publishes_events :: "organization_service \<Rightarrow> bool" where
  "publishes_events S \<longleftrightarrow> events_only (os_publish S)"

lemma publishes_quiet: "publishes_events S \<Longrightarrow> quiet S"
  by (simp add: publishes_events_def events_only_quiet)

lemma wired_organizations: "publishes_events (S\<lparr>os_publish := newWebhookPublisher E json_valid url secret evs\<rparr>)"
  by (simp add: publishes_events_def events_only_new)

text \<open>
  A call of a handler, from outside a transaction, by any process with any policy and with any
  of the publishers.
\<close>

inductive organization_step :: "world \<Rightarrow> world \<Rightarrow> bool" where
  create: "service_CreateOrganization E S name u w = (r, w') \<Longrightarrow> publishes_events S \<Longrightarrow> organization_step w w'"
| rename: "UpdateOrganization E S i name w = (r, w') \<Longrightarrow> publishes_events S \<Longrightarrow> organization_step w w'"
| role: "UpdateOrganizationMember E S i u a rl w = (r, w') \<Longrightarrow> publishes_events S \<Longrightarrow> organization_step w w'"
| remove: "RemoveOrganizationMember E S i u a w = (r, w') \<Longrightarrow> publishes_events S \<Longrightarrow> organization_step w w'"
| dissolve: "DeleteOrganization E S i a w = (r, w') \<Longrightarrow> publishes_events S \<Longrightarrow> organization_step w w'"
| transfer: "TransferOrganizationOwnership E S i a v w = (r, w') \<Longrightarrow> publishes_events S \<Longrightarrow> organization_step w w'"
| default: "EnsureDefaultOrganization E S user w = (r, w') \<Longrightarrow> publishes_events S \<Longrightarrow> organization_step w w'"
| invite: "CreateInvitation E S inp w = (r, w') \<Longrightarrow> publishes_events S \<Longrightarrow> organization_step w w'"
| resend: "ResendInvitation E S i v now w = (r, w') \<Longrightarrow> publishes_events S \<Longrightarrow> organization_step w w'"
| revoke: "RevokeInvitation E S i v by now w = (r, w') \<Longrightarrow> publishes_events S \<Longrightarrow> organization_step w w'"
| accept: "AcceptInvitation E S raw u now w = (r, w') \<Longrightarrow> publishes_events S \<Longrightarrow> organization_step w w'"
| accept_by_id: "AcceptInvitationByID E S i u now w = (r, w') \<Longrightarrow> publishes_events S \<Longrightarrow> organization_step w w'"
| user_leaves: "with_tx E (PrepareUserDeletion E S u) w = (r, w') \<Longrightarrow> publishes_events S \<Longrightarrow> organization_step w w'"

lemma step_with_tx:
  assumes "w_tx w = NoTx" and "wp m (\<lambda>x w'. Q x (w_db w')) any_error (open_tx w)"
  shows "wp (with_tx E m) (\<lambda>x w'. Q x (w_db w')) any_error w"
  using assms by (auto simp: wp_with_tx elim: wp_mono)

lemma with_tx_world:
  assumes "w_tx w = NoTx" and "with_tx E m w = (r, w')"
  shows "w_tx w' = NoTx" and "r = Inl e \<Longrightarrow> w_db w' = w_db w"
  using assms by (auto simp: with_tx_def split: prod.splits sum.splits if_splits)

lemma moves_keep_ok:
  assumes "moves m" and "m w = (r, w')" and "w_tx w = NoTx" and "org_ok (org_tables (w_db w))"
  shows "w_tx w' = NoTx \<and> org_ok (org_tables (w_db w'))"
  using movesD [OF assms] assms(4) by (auto intro: move_keeps_ok)

lemma org_moves_keep_ok: "org_move\<^sup>*\<^sup>* T T' \<Longrightarrow> org_ok T \<Longrightarrow> org_ok T'"
  by (induction rule: rtranclp_induct) (auto intro: move_keeps_ok)

lemma prepared_user:
  assumes "quiet S" and "w_tx w = NoTx" and "org_ok (org_tables (w_db w))"
    and "with_tx E (PrepareUserDeletion E S u) w = (Inr x, w')"
  shows "org_move\<^sup>*\<^sup>* (org_tables (w_db w)) (org_tables (w_db w'))
    \<and> (\<forall>m\<in>set (memberships (w_db w')). mem_user m \<noteq> u)"
proof -
  have "wp (with_tx E (PrepareUserDeletion E S u)) (\<lambda>_ w'. org_move\<^sup>*\<^sup>* (org_tables (w_db w)) (org_tables (w_db w'))
      \<and> (\<forall>m\<in>set (memberships (w_db w')). mem_user m \<noteq> u)) any_error w"
    by (rule step_with_tx [OF assms(2)], rule step_PrepareUserDeletion [OF assms(1)]) (use assms(3) in auto)
  from wp_value [OF this assms(4)] show ?thesis .
qed

lemma organization_step_keeps_ok:
  assumes "organization_step w w'" and "w_tx w = NoTx" and "org_ok (org_tables (w_db w))"
  shows "w_tx w' = NoTx \<and> org_ok (org_tables (w_db w'))"
  using assms(1)
proof cases
  case (user_leaves E S u r)
  show ?thesis
  proof (cases r)
    case (Inl e)
    then show ?thesis using with_tx_world [OF assms(2) user_leaves(1)] assms(3) by auto
  next
    case (Inr x)
    from prepared_user [OF publishes_quiet [OF user_leaves(2)] assms(2,3) user_leaves(1) [unfolded Inr]]
    show ?thesis
      using with_tx_world(1) [OF assms(2) user_leaves(1)] org_moves_keep_ok [OF _ assms(3)] by blast
  qed
qed (rule service_moves [OF publishes_quiet, THEN moves_keep_ok, OF _ _ assms(2,3)], assumption, assumption)+

section \<open>Owners\<close>

text \<open>
  C35. Whatever sequence of calls of the organization service runs (creating, renaming,
  changing roles, removing, transferring, dissolving, inviting, accepting, preparing a user's
  deletion; successful, refused or failing half-way), every organization keeps exactly one
  owner, and nobody is a member of the same organization twice or of one that is gone. The
  publisher may be any that writes \<open>webhook_events\<close> only, and may change from call to
  call: none (webhooks off), the queue, or the queue behind the filter of events.
\<close>

theorem organization_keeps_owner:
  assumes "organization_step\<^sup>*\<^sup>* w w'" and "w_tx w = NoTx" and "org_ok (org_tables (w_db w))"
  shows "(\<forall>org\<in>set (organizations (w_db w')).
      \<exists>!m. m \<in> set (memberships (w_db w')) \<and> mem_org m = org_id org \<and> mem_role m = OrganizationRoleOwner)
    \<and> distinct (map (\<lambda>m. (mem_org m, mem_user m)) (memberships (w_db w')))
    \<and> (\<forall>m\<in>set (memberships (w_db w')). \<exists>org\<in>set (organizations (w_db w')). org_id org = mem_org m)"
proof -
  have "w_tx w' = NoTx \<and> org_ok (org_tables (w_db w'))"
    using assms by (induction rule: rtranclp_induct) (auto dest: organization_step_keeps_ok)
  then have ok: "org_ok (organizations (w_db w'), memberships (w_db w'))" by (simp add: org_tables_def)
  note okD = org_okD [OF ok]
  have "\<exists>org\<in>set (organizations (w_db w')). org_id org = mem_org m" if "m \<in> set (memberships (w_db w'))" for m
    using okD(3) [OF that] by auto
  then show ?thesis using okD(2,4) by blast
qed

definition demo_organizations :: organization_service where
  "demo_organizations = new_organization_service \<lparr>os_publish = QueuePublisher demo_env (\<lambda>_. True),
     os_InvitationTTL = 1000, os_UserEnabled = True, os_publicURL = ''https://a.b/'', os_mode = OrgModeMulti,
     os_profiles = [], os_defaultProfile = '''', os_revocations = None,
     os_lib = \<lparr>mail_address = Some, url_with = (\<lambda>base p fragment v. Some (base @ ''?'' @ p @ ''='' @ v)),
       jsonb_text = Some\<rparr>,
     os_json = \<lparr>json_marshal = (\<lambda>_. Some ''cursor''), json_cursor = (\<lambda>_. None)\<rparr>\<rparr>"

lemma demo_organizations_publish: "publishes_events demo_organizations"
  by (simp add: publishes_events_def demo_organizations_def new_organization_service_def events_only_Queue)

lemma demo_org_ok: "org_ok (org_tables demo_db)"
proof -
  have "org_tables demo_db = ([demo_org], [demo_membership])" by (simp add: org_tables_def demo_db_def)
  moreover have "mem_org demo_membership = org_id demo_org" "is_owner demo_membership"
    by (simp_all add: demo_org_def demo_membership_def)
  ultimately show ?thesis by (auto simp: org_ok_def)
qed

theorem organization_keeps_owner_witness:
  "\<exists>w'. organization_step\<^sup>*\<^sup>* demo_world w' \<and> length (organizations (w_db w')) = 2
     \<and> (\<forall>org\<in>set (organizations (w_db w')).
      \<exists>!m. m \<in> set (memberships (w_db w')) \<and> mem_org m = org_id org \<and> mem_role m = OrganizationRoleOwner)"
proof -
  let ?run = "service_CreateOrganization demo_env demo_organizations ''Team'' 10 demo_world"
  have "length (organizations (w_db (snd ?run))) = 2"
    by code_simp
  moreover have "organization_step\<^sup>*\<^sup>* demo_world (snd ?run)"
    using organization_step.create [OF surjective_pairing demo_organizations_publish] by blast
  ultimately show ?thesis
    using organization_keeps_owner [of demo_world "snd ?run"] demo_org_ok by (auto simp: demo_world_def)
qed

section \<open>Users about to be deleted\<close>

text \<open>
  C36. After \<open>PrepareUserDeletion\<close> succeeded in its transaction the user has no membership
  left, and every organization that remains still has exactly one owner, another user: no
  organization is orphaned by a deleted user. This holds with every publisher that writes
  \<open>webhook_events\<close> only (none, the queue, the filtered queue).
\<close>

theorem user_deletion_prepared:
  assumes "publishes_events S" and "w_tx w = NoTx" and "org_ok (org_tables (w_db w))"
    and "with_tx E (PrepareUserDeletion E S u) w = (Inr (), w')"
  shows "(\<forall>m\<in>set (memberships (w_db w')). mem_user m \<noteq> u)
    \<and> (\<forall>org\<in>set (organizations (w_db w')).
        \<exists>!m. m \<in> set (memberships (w_db w')) \<and> mem_org m = org_id org \<and> mem_role m = OrganizationRoleOwner)"
proof -
  from prepared_user [OF publishes_quiet [OF assms(1)] assms(2-4)]
  have left: "\<forall>m\<in>set (memberships (w_db w')). mem_user m \<noteq> u"
    and "org_ok (org_tables (w_db w'))" using org_moves_keep_ok [OF _ assms(3)] by auto
  then show ?thesis using org_okD(4) [of "organizations (w_db w')" "memberships (w_db w')"]
    by (auto simp: org_tables_def)
qed

text \<open>The personal organization of the demonstration goes with its user (who has no session).\<close>

definition sessionless_world :: world where
  "sessionless_world = demo_world\<lparr>w_db := demo_db\<lparr>sessions := [], refresh_tokens := []\<rparr>\<rparr>"

theorem user_deletion_prepared_witness:
  "\<exists>w'. with_tx demo_env (PrepareUserDeletion demo_env demo_organizations 10) sessionless_world = (Inr (), w')
     \<and> memberships (w_db w') = [] \<and> (\<forall>m\<in>set (memberships (w_db w')). mem_user m \<noteq> 10)"
proof -
  let ?run = "with_tx demo_env (PrepareUserDeletion demo_env demo_organizations 10) sessionless_world"
  have "fst ?run = Inr ()" and gone: "memberships (w_db (snd ?run)) = []"
    by code_simp+
  then have run: "?run = (Inr (), snd ?run)" by (metis prod.collapse)
  have "w_tx sessionless_world = NoTx" "org_ok (org_tables (w_db sessionless_world))"
    using demo_org_ok by (simp_all add: sessionless_world_def org_tables_def demo_world_def)
  from user_deletion_prepared [OF demo_organizations_publish this run] run gone show ?thesis by blast
qed

section \<open>Accepting an invitation\<close>

text \<open>What the handlers of invitations work on.\<close>

definition invited_tables :: "db \<Rightarrow> organization list \<times> membership list \<times> invitation list" where
  "invited_tables d = (organizations d, memberships d, invitations d)"

lemma leaves_invited [leaves_intro]:
  "leaves invited_tables (Enqueue E to tpl dat now)" "leaves invited_tables (CreateEmailJob E j)"
  unfolding invited_tables_def Let_def
  by (auto simp: leaves_def intro!: keeps_Enqueue keeps_CreateEmailJob keeps_intro keeps_exec split: if_splits)

lemma leaves_invited_publish [leaves_intro]:
  assumes "publishes_events S" and "leaves invited_tables mk"
  shows "leaves invited_tables (publish_event S mk)"
proof -
  have "leaves invited_tables (os_publish S event)" for event
    by (rule events_only_leaves [OF assms(1) [unfolded publishes_events_def]]) (simp add: invited_tables_def)
  then show ?thesis unfolding publish_event_def by (intro leaves_intro assms(2))
qed

text \<open>The membership an accepting user ends up with.\<close>

definition membership_granted :: "uuid \<Rightarrow> invitation \<Rightarrow> db \<Rightarrow> membership \<Rightarrow> bool \<Rightarrow> db \<Rightarrow> bool" where
  "membership_granted u i d m created d' \<longleftrightarrow> find_membership (inv_org i) u d' = Some m \<and> invitations d' = invitations d
     \<and> (if created then find_membership (inv_org i) u d = None \<and> mem_role m = inv_role i \<and> memberships d' = memberships d @ [m]
        else d' = d)"

lemma granted_by_insert:
  assumes "insert_membership (inv_org i) u (inv_role i) t d = Inr (m, d')"
  shows "membership_granted u i d m True d'"
proof -
  have m: "mem_key m = (inv_org i, u)" "mem_role m = inv_role i" "(inv_org i, u) \<notin> mem_key ` set (memberships d)"
    "memberships d' = memberships d @ [m]"
    using insert_membership_tables [OF assms] by (auto simp: org_tables_def)
  moreover have "invitations d' = invitations d"
    using assms by (auto simp: insert_membership_def Let_def split: if_splits)
  moreover have "find_membership (inv_org i) u d = None"
    using m(3) by (force simp: find_membership_def find_None_iff)
  moreover from this have "find_membership (inv_org i) u d' = Some m"
    using m by (simp add: find_membership_def find_append)
  ultimately show ?thesis by (simp add: membership_granted_def)
qed

lemma step_pair: "(\<And>a b. p = (a, b) \<Longrightarrow> wp (f a b) Q any_error w) \<Longrightarrow> wp (case p of (a, b) \<Rightarrow> f a b) Q any_error w"
  by (cases p) simp

lemma wp_invited_membership:
  assumes "\<And>p w'. membership_granted u i (w_db w) (fst p) (snd p) (w_db w') \<Longrightarrow> Q p w'"
  shows "wp (invited_membership E S u i) Q any_error w"
proof -
  have stay: "Q (m, False) w'" if "find_membership (inv_org i) u (w_db w) = Some m" "w_db w' = w_db w" for m w'
    using that by (intro assms) (simp add: membership_granted_def)
  have made: "Q (m, True) w'" if "insert_membership (inv_org i) u (inv_role i) t (w_db w) = Inr (m, w_db w')" for t m w'
    using granted_by_insert [OF that] by (intro assms) simp
  show ?thesis
    unfolding invited_membership_def GetOrganizationMembership_def ListOrganizationMembershipsByUserID_def
      CreateOrganizationMembership_def
    by (cases "os_mode S = OrgModeSingle")
      (auto simp: wp_try_bnd wp_query_row wp_bnd wp_ret wp_fail wp_query wp_if wp_exec intro!: stay made split: if_splits)
qed

text \<open>The invitation a raw token stands for, and what an accepted one looks like.\<close>

definition invitation_of_token :: "env \<Rightarrow> string \<Rightarrow> db \<Rightarrow> invitation option" where
  "invitation_of_token E raw d = find_invitation_hash (hex_encode (sha256 E (trim_space raw))) d"

definition accept_spec :: "env \<Rightarrow> string \<Rightarrow> uuid \<Rightarrow> time \<Rightarrow> db \<Rightarrow> accept_result \<Rightarrow> db \<Rightarrow> bool" where
  "accept_spec E raw u now d res d' \<longleftrightarrow> (\<exists>i user.
     invitation_of_token E raw d = Some i
     \<and> find (\<lambda>r. usr_id r = u) (users d) = Some user \<and> CanonicalEmail (usr_email user) = inv_email i
     \<and> find_membership (inv_org i) u d' = Some (acc_membership res)
     \<and> (if acc_InvitationAccepted res
        then inv_accepted_at i = None \<and> inv_revoked_at i = None \<and> now < inv_expires_at i
          \<and> acc_invitation res = i\<lparr>inv_accepted_at := Some now, inv_accepted_by := Some u\<rparr>
          \<and> (\<exists>t. invitation_of_token E raw d' = Some ((acc_invitation res)\<lparr>inv_updated_at := t\<rparr>))
          \<and> (if acc_MembershipCreated res
             then find_membership (inv_org i) u d = None \<and> mem_role (acc_membership res) = inv_role i
               \<and> memberships d' = memberships d @ [acc_membership res]
             else memberships d' = memberships d)
        else inv_accepted_by i = Some u \<and> d' = d))"

lemma step_with_tx_db:
  assumes "w_tx w = NoTx" and "\<And>w0. w_db w0 = w_db w \<Longrightarrow> wp m (\<lambda>x w'. P x (w_db w')) any_error w0"
  shows "wp (with_tx E m) (\<lambda>x w'. P x (w_db w')) any_error w"
  by (rule step_with_tx [OF assms(1) assms(2)]) simp

lemma step_user [steps]:
  "(\<And>r w'. find (\<lambda>r. usr_id r = u) (users (w_db w)) = Some r \<Longrightarrow> w_db w' = w_db w \<Longrightarrow> Q r w')
    \<Longrightarrow> wp (GetUserByIDForUpdate E u) Q any_error w"
  unfolding GetUserByIDForUpdate_def by (rule step_query_row)

lemma step_invitation_hash:
  "(\<And>i w'. find_invitation_hash h (w_db w) = Some i \<Longrightarrow> w_db w' = w_db w \<Longrightarrow> Q i w')
    \<Longrightarrow> wp (GetOrganizationInvitationByTokenHash E h) Q any_error w"
  "(\<And>i w'. find_invitation_hash h (w_db w) = Some i \<Longrightarrow> w_db w' = w_db w \<Longrightarrow> Q i w')
    \<Longrightarrow> wp (GetOrganizationInvitationByTokenHashForUpdate E h) Q any_error w"
  unfolding GetOrganizationInvitationByTokenHash_def GetOrganizationInvitationByTokenHashForUpdate_def
  by (rule step_query_row, assumption)+

lemma step_lock_organization:
  "(\<And>w'. w_db w' = w_db w \<Longrightarrow> Q () w') \<Longrightarrow> wp (LockOrganizationForKeyShare E i) Q any_error w"
  by (rule wp_leaves [OF leaves_reads(7) [where f = "\<lambda>d. d"]]) auto

lemma step_mark_accepted:
  assumes "\<And>t w'. w_db w' = (w_db w)\<lparr>invitations := upd_where (open_invitation i)
     (\<lambda>v. v\<lparr>inv_accepted_at := Some now, inv_accepted_by := Some u, inv_updated_at := t\<rparr>) (invitations (w_db w))\<rparr> \<Longrightarrow> Q () w'"
  shows "wp (MarkOrganizationInvitationAccepted E i u now) Q any_error w"
  unfolding MarkOrganizationInvitationAccepted_def
  by (auto simp: wps Let_def split: if_splits intro: assms)

lemma invitation_pending:
  assumes "invitation_Status i now \<noteq> OrganizationInvitationStatusAccepted"
    and "invitation_Status i now \<noteq> OrganizationInvitationStatusRevoked"
    and "invitation_Status i now \<noteq> OrganizationInvitationStatusExpired"
  shows "inv_accepted_at i = None" and "inv_revoked_at i = None" and "now < inv_expires_at i"
  using assms
  by (cases "inv_accepted_at i"; cases "inv_revoked_at i"; simp add: invitation_Status_def split: if_splits)+

lemma normalized_email: "normalizeInvitationEmail L raw = Inr email \<Longrightarrow> email = CanonicalEmail raw"
  by (auto simp: normalizeInvitationEmail_def Let_def split: if_splits)

definition accept_row :: "time \<Rightarrow> uuid \<Rightarrow> time \<Rightarrow> invitation \<Rightarrow> invitation" where
  "accept_row now u t v = v\<lparr>inv_accepted_at := Some now, inv_accepted_by := Some u, inv_updated_at := t\<rparr>"

lemma marked_invitation:
  assumes "find_invitation_hash h d = Some i" and "inv_accepted_at i = None" and "inv_revoked_at i = None"
    and "invitations d' = upd_where (open_invitation (inv_id i)) (accept_row now u t) (invitations d)"
  shows "find_invitation_hash h d' = Some (accept_row now u t i)"
proof -
  have "inv_token_hash (accept_row now u t v) = inv_token_hash v" for v by (simp add: accept_row_def)
  then have "find_invitation_hash h d' = map_option (\<lambda>v. if open_invitation (inv_id i) v then accept_row now u t v else v)
      (find_invitation_hash h d)"
    unfolding find_invitation_hash_def assms(4) by (subst find_upd_where) (auto simp: comp_def)
  then show ?thesis using assms(1-3) by (simp add: open_invitation_def)
qed

lemma accept_first:
  assumes "find (\<lambda>r. usr_id r = u) (users d) = Some user"
    and "normalizeInvitationEmail L (usr_email user) = Inr (inv_email i)"
    and "find_invitation_hash (hex_encode (sha256 E (trim_space raw))) d = Some i"
    and "invitation_Status i now \<noteq> OrganizationInvitationStatusAccepted"
    and "invitation_Status i now \<noteq> OrganizationInvitationStatusRevoked"
    and "invitation_Status i now \<noteq> OrganizationInvitationStatusExpired"
    and "membership_granted u i d m created d1"
    and "d2 = d1\<lparr>invitations := upd_where (open_invitation (inv_id i))
      (\<lambda>v. v\<lparr>inv_accepted_at := Some now, inv_accepted_by := Some u, inv_updated_at := t\<rparr>) (invitations d1)\<rparr>"
    and "invited_tables d' = invited_tables d2"
  shows "accept_spec E raw u now d \<lparr>acc_invitation = i\<lparr>inv_accepted_at := Some now, inv_accepted_by := Some u\<rparr>,
    acc_organization = org, acc_membership = m, acc_InvitationAccepted = True, acc_MembershipCreated = created\<rparr> d'"
proof -
  note pending = invitation_pending [OF assms(4-6)]
  have d': "memberships d' = memberships d1"
    "invitations d' = upd_where (open_invitation (inv_id i)) (accept_row now u t) (invitations d)"
    using assms(7-9) by (auto simp: invited_tables_def membership_granted_def accept_row_def [abs_def])
  have "find_membership (inv_org i) u d' = Some m"
    using assms(7) d'(1) by (simp add: membership_granted_def find_membership_def)
  moreover have "invitation_of_token E raw d' = Some (accept_row now u t i)"
    using marked_invitation [OF assms(3) pending(1,2) d'(2)] by (simp add: invitation_of_token_def)
  moreover have "if created then find_membership (inv_org i) u d = None \<and> mem_role m = inv_role i
      \<and> memberships d' = memberships d @ [m] else memberships d' = memberships d"
    using assms(7) d'(1) by (simp add: membership_granted_def split: if_splits)
  ultimately show ?thesis
    unfolding accept_spec_def using assms(1,3) pending normalized_email [OF assms(2)]
    by (intro exI [of _ i] exI [of _ user]) (auto simp: accept_row_def invitation_of_token_def)
qed

lemma accept_again:
  assumes "find (\<lambda>r. usr_id r = u) (users d) = Some user"
    and "normalizeInvitationEmail L (usr_email user) = Inr (inv_email i)"
    and "find_invitation_hash (hex_encode (sha256 E (trim_space raw))) d = Some i" and "inv_accepted_by i = Some u"
    and "find_membership (inv_org i) u d = Some m" and "d' = d"
  shows "accept_spec E raw u now d \<lparr>acc_invitation = i,
    acc_organization = org, acc_membership = m, acc_InvitationAccepted = False, acc_MembershipCreated = False\<rparr> d'"
  using assms normalized_email [OF assms(2)] by (simp add: accept_spec_def invitation_of_token_def)

lemmas invited_steps = leaves_invited [THEN wp_leaves] leaves_reads(1) [where f = invited_tables, THEN wp_leaves]
  leaves_events [THEN leaves_invited_publish [THEN wp_leaves, rotated]]

lemma wp_acceptInvitation:
  assumes "publishes_events S" and "w_tx w = NoTx"
  shows "wp (acceptInvitation E S u org now
      (GetOrganizationInvitationByTokenHashForUpdate E (hex_encode (sha256 E (trim_space raw)))))
    (\<lambda>res w'. accept_spec E raw u now (w_db w) res (w_db w')) any_error w"
  unfolding acceptInvitation_def Let_def
  supply step_prod [steps del]
  apply (rule step_with_tx_db [OF assms(2)])
  apply (intro steps step_lock_organization step_invitation_hash step_pair wp_invited_membership step_mark_accepted
      step_case_option invited_steps assms(1))
      apply (clarsimp, rule accept_again [where L = "os_lib S"]; simp)
     apply (clarsimp, rule accept_first [where L = "os_lib S"]; (assumption | simp))+
  done

text \<open>
  C37. Accepting with a token at a given time, with any publisher that writes
  \<open>webhook_events\<close> only: on success the token named an invitation, the caller exists and
  their canonical address is the invited one, and they are now a member. If the acceptance is
  reported as new, the invitation was pending (neither accepted, revoked nor expired), its row
  now says who accepted it and when, and the membership is the one they had or exactly one new
  row with the invited role; otherwise this very user had accepted it before and nothing
  changed. So the call fails on an invitation that another user accepted.
\<close>

theorem accept_invitation_spec:
  assumes "publishes_events S" and "w_tx w = NoTx" and "now \<noteq> zero_time"
    and "AcceptInvitation E S raw u now w = (Inr res, w')"
  shows "accept_spec E raw u now (w_db w) res (w_db w')"
proof -
  from assms(3,4) obtain org where
    run: "acceptInvitation E S u org now (GetOrganizationInvitationByTokenHashForUpdate E (hex_encode (sha256 E (trim_space raw))))
      (tick w) = (Inr res, w')"
    by (auto simp: AcceptInvitation_def normalizeNow_def hashInvitationToken_def GetOrganizationInvitationByTokenHash_def
        runs split: if_splits)
  from wp_value [OF wp_acceptInvitation [OF assms(1), of "tick w" E u org now raw] run] assms(2) show ?thesis by simp
qed

definition demo_invitation :: invitation where
  "demo_invitation = \<lparr>inv_id = 50, inv_created_at = 1, inv_updated_at = 1, inv_org = 20, inv_email = ''b@b.c'',
     inv_role = OrganizationRoleMember, inv_profile = ''authara-hosted'', inv_metadata = ''{}'',
     inv_token_hash = hex_encode ''t1'', inv_invited_by = None, inv_expires_at = 9000, inv_accepted_at = None,
     inv_accepted_by = None, inv_revoked_at = None, inv_revoked_by = None\<rparr>"

definition invited_world :: world where
  "invited_world = demo_world\<lparr>w_db := demo_db\<lparr>users := [demo_user, demo_user\<lparr>usr_id := 11, usr_email := ''B@b.c''\<rparr>],
     invitations := [demo_invitation]\<rparr>\<rparr>"

theorem accept_invitation_spec_witness:
  "\<exists>res w'. AcceptInvitation demo_env demo_organizations ''t1'' 11 6000 invited_world = (Inr res, w')
     \<and> acc_InvitationAccepted res \<and> acc_MembershipCreated res
     \<and> accept_spec demo_env ''t1'' 11 6000 (w_db invited_world) res (w_db w')"
proof -
  let ?run = "AcceptInvitation demo_env demo_organizations ''t1'' 11 6000 invited_world"
  have "\<not> isl (fst ?run)" and new: "acc_InvitationAccepted (projr (fst ?run))" "acc_MembershipCreated (projr (fst ?run))"
    by code_simp+
  then have run: "?run = (Inr (projr (fst ?run)), snd ?run)" by (metis prod.collapse sum.collapse(2))
  have "w_tx invited_world = NoTx" "(6000 :: time) \<noteq> zero_time"
    by (simp_all add: invited_world_def demo_world_def zero_time_def)
  from accept_invitation_spec [OF demo_organizations_publish this run] run new show ?thesis by blast
qed

section \<open>The token of an invitation\<close>

lemma fit_unpadded: "\<not> too_long n s \<Longrightarrow> s = [] \<or> last s \<noteq> CHR '' '' \<Longrightarrow> fit n s = s"
proof (cases "length s \<le> n")
  case False
  assume s: "\<not> too_long n s" "s = [] \<or> last s \<noteq> CHR '' ''"
  with False have "drop n s \<noteq> []" "s \<noteq> []" by auto
  then have "last s \<in> set (drop n s)" by (metis last_drop last_in_set drop_eq_Nil2 not_le)
  with s False \<open>s \<noteq> []\<close> show ?thesis by (auto simp: too_long_def varchar_None_iff)
qed simp

lemma hex_encode_last: "hex_encode s = [] \<or> last (hex_encode s) \<noteq> CHR '' ''"
proof (induction s)
  case (Cons c s)
  have "hex_digit (code c mod 16) \<in> set ''0123456789abcdef''"
    unfolding hex_digit_def by (rule nth_mem) simp
  then have "hex_digit (code c mod 16) \<noteq> CHR '' ''" by auto
  with Cons show ?case by auto
qed simp

lemma trimmed_last: "trim_space s = [] \<or> \<not> is_space (last (trim_space s))"
  using dropWhile_hd [of is_space "rev (dropWhile is_space s)"]
  by (auto simp: trim_space_def last_rev)

lemma canonical_last: "CanonicalEmail e = [] \<or> last (CanonicalEmail e) \<noteq> CHR '' ''"
  using trimmed_last [of "to_lower e"] by (auto simp: CanonicalEmail_def trim_space_lower [symmetric] is_space_def)

lemma b64_char_no_space: "n < 64 \<Longrightarrow> \<not> is_space (b64_char n)"
  by (auto simp: b64_char_def is_space_def)

lemma trim_space_none: "\<forall>c\<in>set s. \<not> is_space c \<Longrightarrow> trim_space s = s"
proof -
  assume s: "\<forall>c\<in>set s. \<not> is_space c"
  have "dropWhile is_space t = t" if "\<forall>c\<in>set t. \<not> is_space c" for t using that by (cases t) auto
  from this [of s] this [of "rev s"] s show ?thesis by (simp add: trim_space_def)
qed

lemma base64_trimmed: "trim_space (base64_encode b) = base64_encode b"
proof (rule trim_space_none)
  have "\<forall>m\<in>set (sextets (map of_char b)). m < 64" by (rule sextets_less) auto
  then show "\<forall>c\<in>set (base64_encode b). \<not> is_space c" by (auto simp: base64_encode_def b64_char_no_space)
qed

text \<open>What the inviter gets back, and what the table then holds for the token.\<close>

definition invited_spec :: "env \<Rightarrow> organization_service \<Rightarrow> create_invitation \<Rightarrow> invitation_with_token \<Rightarrow> db \<Rightarrow> bool" where
  "invited_spec E S inp r d \<longleftrightarrow> (let i = iwt_invitation r in
     invitation_of_token E (iwt_RawToken r) d = Some i \<and> iwt_RawToken r \<noteq> ''''
     \<and> trim_space (iwt_RawToken r) = iwt_RawToken r
     \<and> inv_org i = ci_organization inp \<and> inv_email i = CanonicalEmail (ci_email inp)
     \<and> inv_expires_at i = ci_now inp + os_InvitationTTL S \<and> inv_accepted_at i = None \<and> inv_revoked_at i = None
     \<and> ci_organization inp \<in> org_id ` set (organizations d) \<and> AllowsInvitations (os_mode S))"

text \<open>The row \<open>CreateOrganizationInvitation\<close> inserts, with the columns that matter here.\<close>

lemma step_insert_invitation:
  assumes "m = toModelOrganizationInvitation new"
    and "\<And>row w'. \<not> too_long 512 (inv_token_hash m) \<Longrightarrow> \<not> too_long 255 (inv_email m)
      \<Longrightarrow> fit 512 (inv_token_hash m) \<notin> inv_token_hash ` set (invitations (w_db w))
      \<Longrightarrow> w_db w' = (w_db w)\<lparr>invitations := invitations (w_db w) @ [row]\<rparr>
      \<Longrightarrow> inv_token_hash row = fit 512 (inv_token_hash m) \<Longrightarrow> inv_email row = fit 255 (inv_email m)
      \<Longrightarrow> inv_org row = inv_org m \<Longrightarrow> inv_expires_at row = inv_expires_at m
      \<Longrightarrow> inv_accepted_at row = None \<Longrightarrow> inv_revoked_at row = None \<Longrightarrow> Q row w'"
  shows "wp (CreateOrganizationInvitation E jsonb new) Q any_error w"
  unfolding CreateOrganizationInvitation_def assms(1) [symmetric] Let_def
  by (rule step_exec) (auto intro!: assms(2) split: if_split_asm)

lemma step_create_pending:
  assumes "CanonicalEmail email = email"
    and "\<And>i w'. find_invitation_hash (hex_encode h) (w_db w') = Some i \<Longrightarrow> inv_org i = org \<Longrightarrow> inv_email i = email
      \<Longrightarrow> inv_expires_at i = expires \<Longrightarrow> inv_accepted_at i = None \<Longrightarrow> inv_revoked_at i = None
      \<Longrightarrow> organizations (w_db w') = organizations (w_db w) \<Longrightarrow> Q i w'"
  shows "wp (create_pending E S (new_invitation org email role profile metadata (hex_encode h) by expires)) Q any_error w"
  unfolding create_pending_def
proof (rule step_map_err, rule step_insert_invitation [OF refl])
  let ?m = "toModelOrganizationInvitation (new_invitation org email role profile metadata (hex_encode h) by expires)"
  have m: "inv_token_hash ?m = hex_encode h" "inv_email ?m = email" "inv_org ?m = org" "inv_expires_at ?m = expires"
    by (simp_all add: toModelOrganizationInvitation_def new_invitation_def assms(1))
  fix row and w' :: world
  assume short: "\<not> too_long 512 (inv_token_hash ?m)" "\<not> too_long 255 (inv_email ?m)"
    and new: "fit 512 (inv_token_hash ?m) \<notin> inv_token_hash ` set (invitations (w_db w))"
    and w': "w_db w' = (w_db w)\<lparr>invitations := invitations (w_db w) @ [row]\<rparr>"
    and row: "inv_token_hash row = fit 512 (inv_token_hash ?m)" "inv_email row = fit 255 (inv_email ?m)"
      "inv_org row = inv_org ?m" "inv_expires_at row = inv_expires_at ?m" "inv_accepted_at row = None" "inv_revoked_at row = None"
  have hash: "fit 512 (hex_encode h) = hex_encode h"
    using fit_unpadded [OF _ hex_encode_last] short(1) by (simp add: m)
  have "fit 255 email = email"
    using fit_unpadded [of 255 email] canonical_last [of email] short(2) by (simp add: m assms(1))
  moreover have "find_invitation_hash (hex_encode h) (w_db w') = Some row"
  proof -
    have "find (\<lambda>i. inv_token_hash i = hex_encode h) (invitations (w_db w)) = None"
      unfolding find_None_iff_all
    proof (intro ballI notI)
      fix r assume r: "r \<in> set (invitations (w_db w))" "inv_token_hash r = hex_encode h"
      from imageI [OF r(1), of inv_token_hash] new show False unfolding m hash r(2) by contradiction
    qed
    then show ?thesis using row(1) by (simp add: find_invitation_hash_def w' m hash find_append)
  qed
  ultimately show "Q row w'"
    using row w' by (intro assms(2)) (simp_all add: m)
qed

definition invited_row :: "organization_service \<Rightarrow> create_invitation \<Rightarrow> string \<Rightarrow> string \<Rightarrow> invitation \<Rightarrow> db \<Rightarrow> bool" where
  "invited_row S inp h email i d \<longleftrightarrow> find_invitation_hash (hex_encode h) d = Some i \<and> inv_org i = ci_organization inp
     \<and> inv_email i = email \<and> inv_expires_at i = ci_now inp + os_InvitationTTL S \<and> inv_accepted_at i = None
     \<and> inv_revoked_at i = None \<and> ci_organization inp \<in> org_id ` set (organizations d)"

lemma invited_row_trans: "invited_tables d' = invited_tables d \<Longrightarrow> invited_row S inp h email i d \<Longrightarrow> invited_row S inp h email i d'"
  by (simp add: invited_row_def invited_tables_def find_invitation_hash_def)

lemma leaves_organizations:
  "leaves organizations (MarkOrganizationInvitationRevoked E i a now)" "leaves organizations (revoke_expired E inp email now)"
  "leaves organizations (ensureInvitationTargetNotMember E i em)"
proof -
  show mark: "leaves organizations (MarkOrganizationInvitationRevoked E i a now)" for i a
    unfolding MarkOrganizationInvitationRevoked_def Let_def
    by (intro leaves_intro leaves_exec) (auto split: if_splits option.splits)
  show "leaves organizations (revoke_expired E inp email now)" "leaves organizations (ensureInvitationTargetNotMember E i em)"
    unfolding revoke_expired_def ensureInvitationTargetNotMember_def by (intro leaves_intro mark)+
qed

text \<open>The transaction of \<open>CreateInvitation\<close>.\<close>

abbreviation invite_tx where
  "invite_tx E S inp email role metadata profileKey profile url rawToken tokenHash \<equiv> with_tx E
       (bnd (map_err (\<lambda>e. if errors_is e (EStore ErrUserNotFound)
            then EOrganization ErrOrganizationActorNotMember else e) (LockUserForKeyShare E (ci_actor inp))) (\<lambda>_.
        bnd (LockOrganizationForKeyShare E (ci_organization inp)) (\<lambda>_.
        bnd (GetOrganizationByID E (ci_organization inp)) (\<lambda>org.
        bnd (actor_membership E (ci_organization inp) (ci_actor inp)) (\<lambda>m.
        if \<not> canInvite (mem_role m) then fail (EOrganization ErrOrganizationInviteForbidden)
        else
        bnd (ensureInvitationTargetNotMember E (ci_organization inp) email) (\<lambda>_.
        bnd (revoke_expired E inp email (ci_now inp)) (\<lambda>_.
        bnd (create_pending E S (new_invitation (org_id org) email role profileKey metadata tokenHash
               (Some (ci_actor inp)) (ci_now inp + os_InvitationTTL S))) (\<lambda>created.
        bnd (enqueueInvitationEmail E created org profile url rawToken (ci_now inp)) (\<lambda>_.
        bnd (publish_event S (NewOrganizationInvitationCreated E created (ci_now inp))) (\<lambda>_.
        ret \<lparr>iwt_invitation = created, iwt_RawToken = rawToken, iwt_InviteURL = url\<rparr>))))))))))"

lemma wp_invite:
  assumes "publishes_events S" and "w_tx w = NoTx" and "CanonicalEmail email = email"
  shows "wp (invite_tx E S inp email role metadata profileKey profile url rawToken (hex_encode h))
    (\<lambda>r w'. iwt_RawToken r = rawToken \<and> invited_row S inp h email (iwt_invitation r) (w_db w')) any_error w"
  apply (rule step_with_tx_db [OF assms(2)])
  unfolding enqueueInvitationEmail_def
  apply (intro steps step_map_err step_lock_organization step_create_pending assms(1,3) invited_steps
    leaves_organizations [THEN wp_leaves] leaves_reads(4) [where f = organizations, THEN wp_leaves])
   apply simp
  apply (rule invited_row_trans, assumption)
  apply (force simp: invited_row_def)
  done

lemma fail_else_run: "(if b then fail e else m) w = (Inr x, w') \<longleftrightarrow> \<not> b \<and> m w = (Inr x, w')"
  by (simp add: runs)

lemma create_invitation_row:
  assumes "publishes_events S" and "w_tx w = NoTx" and "ci_now inp \<noteq> zero_time"
    and "CreateInvitation E S inp w = (Inr r, w')"
  shows "\<exists>b. iwt_RawToken r = base64_encode b \<and> iwt_RawToken r \<noteq> '''' \<and> AllowsInvitations (os_mode S)
    \<and> invited_row S inp (sha256 E (base64_encode b)) (CanonicalEmail (ci_email inp)) (iwt_invitation r) (w_db w')"
proof -
  note run = assms(4) [unfolded CreateInvitation_def normalizeNow_def if_not_P [OF assms(3)] bnd_run of_sum_run ret_run]
  have tx: "w_tx w1 = w_tx w" if "generateInvitationToken E w = (Inr p, w1)" for p and w1 :: world
    using that by (auto simp: generateInvitationToken_def hashInvitationToken_def runs split: if_splits)
  have tok: "\<exists>b. base64_encode b \<noteq> '''' \<and> raw = base64_encode b \<and> hash = hex_encode (sha256 E raw)"
    if "generateInvitationToken E w = (Inr (raw, hash), w1)" for raw hash and w1 :: world
    using that by (auto simp: generateInvitationToken_def hashInvitationToken_def runs split: if_splits)
  from run obtain email role metadata profileKey profile rawToken tokenHash url w1 where
    "AllowsInvitations (os_mode S)" and email: "normalizeInvitationEmail (os_lib S) (ci_email inp) = Inr email"
    and token: "generateInvitationToken E w = (Inr (rawToken, tokenHash), w1)"
    and invite: "invite_tx E S inp email role metadata profileKey profile url rawToken tokenHash w1 = (Inr r, w')"
    by (simp only: simp_thms fail_else_run bnd_run of_sum_run split_paired_Ex prod.case) (elim exE conjE, rule that, simp_all only:)
  from tok [OF token] obtain b where b: "base64_encode b \<noteq> ''''" "rawToken = base64_encode b"
    "tokenHash = hex_encode (sha256 E rawToken)" by blast
  have "w_tx w1 = NoTx" using tx [OF token] assms(2) by simp
  then have "wp (invite_tx E S inp email role metadata profileKey profile url rawToken tokenHash)
      (\<lambda>r w'. iwt_RawToken r = rawToken \<and> invited_row S inp (sha256 E rawToken) email (iwt_invitation r) (w_db w'))
      any_error w1"
    unfolding b(3) using normalized_email [OF email] by (intro wp_invite assms(1)) simp_all
  from wp_value [OF this, OF invite] normalized_email [OF email] show ?thesis using b \<open>AllowsInvitations (os_mode S)\<close> by auto
qed

text \<open>
  C38. The raw token the inviter gets opens exactly the invitation that was created, with any
  publisher that writes \<open>webhook_events\<close> only and a database that answers: right after
  \<open>CreateInvitation\<close>, \<open>InvitationByToken\<close> on it returns that invitation, which is
  for the invited organization and the canonical form of the invited address, and which is
  pending until the configured time to live has passed and expired from then on.
\<close>

theorem invitation_token_roundtrip:
  assumes "publishes_events S" and "w_tx w = NoTx" and "ci_now inp \<noteq> zero_time"
    and "CreateInvitation E S inp w = (Inr r, w')" and "w_tx w' = NoTx" and "\<And>n. \<not> o_fault E n"
  shows "\<exists>org w''. InvitationByToken E S (iwt_RawToken r) w' = (Inr (iwt_invitation r, org), w'')
    \<and> org_id org = ci_organization inp \<and> inv_org (iwt_invitation r) = ci_organization inp
    \<and> inv_email (iwt_invitation r) = CanonicalEmail (ci_email inp)
    \<and> (\<forall>t. invitation_Status (iwt_invitation r) t = (if t < ci_now inp + os_InvitationTTL S
          then OrganizationInvitationStatusPending else OrganizationInvitationStatusExpired))"
proof -
  let ?i = "iwt_invitation r"
  from create_invitation_row [OF assms(1-4)] obtain b where raw: "iwt_RawToken r = base64_encode b" "iwt_RawToken r \<noteq> ''''"
    and mode: "AllowsInvitations (os_mode S)"
    and row: "invited_row S inp (sha256 E (iwt_RawToken r)) (CanonicalEmail (ci_email inp)) ?i (w_db w')" by auto
  have trim: "trim_space (iwt_RawToken r) = iwt_RawToken r" unfolding raw(1) by (rule base64_trimmed)
  from row obtain org where "find (\<lambda>r. org_id r = inv_org ?i) (organizations (w_db w')) = Some org"
    by (cases "find (\<lambda>r. org_id r = inv_org ?i) (organizations (w_db w'))") (auto simp: invited_row_def find_None_iff_all)
  moreover from this have "org_id org = inv_org ?i" by (auto dest: find_Some_in)
  moreover have "find_invitation_hash (hex_encode (sha256 E (iwt_RawToken r))) (w_db w') = Some ?i"
    using row by (simp add: invited_row_def)
  ultimately have "InvitationByToken E S (iwt_RawToken r) w' = (Inr (?i, org), tick (tick w'))"
    using mode raw(2) assms(5,6)
    by (simp add: InvitationByToken_def bnd_run of_sum_run hashInvitationToken_def trim
        GetOrganizationInvitationByTokenHash_def GetOrganizationByID_def query_row_run sql_ok_def sql_problem_def ret_run)
  with \<open>org_id org = inv_org ?i\<close> row show ?thesis
    by (auto simp: invited_row_def invitation_Status_def)
qed

definition demo_invite :: create_invitation where
  "demo_invite = \<lparr>ci_organization = 20, ci_actor = 10, ci_email = '' B@b.c'', ci_role = '''', ci_profile = '''',
     ci_metadata = None, ci_now = 6000\<rparr>"

definition demo_env_utc :: env where
  "demo_env_utc = demo_env\<lparr>rfc3339 := (\<lambda>_. ''1970-01-01T00:00:00Z'')\<rparr>"

theorem invitation_token_roundtrip_witness:
  "\<exists>r w' org w''. CreateInvitation demo_env_utc demo_organizations demo_invite demo_world = (Inr r, w')
     \<and> InvitationByToken demo_env_utc demo_organizations (iwt_RawToken r) w' = (Inr (iwt_invitation r, org), w'')
     \<and> inv_email (iwt_invitation r) = CanonicalEmail '' B@b.c''"
proof -
  let ?run = "CreateInvitation demo_env_utc demo_organizations demo_invite demo_world"
  have "\<not> isl (fst ?run) \<and> w_tx (snd ?run) = NoTx"
    by code_simp
  then have run: "?run = (Inr (projr (fst ?run)), snd ?run)" and tx: "w_tx (snd ?run) = NoTx"
    by (metis prod.collapse sum.collapse(2))+
  have pre: "w_tx demo_world = NoTx" "ci_now demo_invite \<noteq> zero_time" "\<not> o_fault demo_env_utc n" for n
    by (simp_all add: demo_world_def demo_invite_def zero_time_def demo_env_utc_def demo_env_def)
  from invitation_token_roundtrip [OF demo_organizations_publish pre(1,2) run tx pre(3)]
  show ?thesis using run by (auto simp: demo_invite_def)
qed

end
