(* ===== verification/Organization_Pages.thy ===== *)
theory Organization_Pages
  imports Organization_Invitations Demo
begin

text \<open>
  The listings of members, of a user's organizations and of invitations are keyset listings:
  their statements interpret the contract of \<open>Keyset\<close>, and so reading one page after the
  other is reading the whole listing.
\<close>

section \<open>Rows in strict order\<close>

lemma sorted_by_key:
  fixes k :: "'a \<Rightarrow> 'k :: linorder"
  assumes "distinct (map k rs)"
  shows "sorted_wrt (\<lambda>r s. k r < k s) (sort_key k rs)"
proof -
  have "distinct (map k (sort_key k rs))" using assms by (simp add: distinct_map)
  then have "sorted_wrt (<) (map k (sort_key k rs))" by (simp add: strict_sorted_iff)
  then show ?thesis by (simp add: sorted_wrt_map)
qed

text \<open>A join that yields at most one row for each row on the left keeps the order.\<close>

lemma sorted_join:
  assumes "sorted_wrt (\<lambda>m n. k m < k n) ms"
    and "\<And>m. m \<in> set ms \<Longrightarrow> length (f m) \<le> 1" and "\<And>m r. r \<in> set (f m) \<Longrightarrow> key r = k m"
  shows "sorted_wrt (\<lambda>r s. key r < key s) (concat (map f ms))"
  using assms(1,2)
proof (induction ms)
  case (Cons m ms)
  have "sorted_wrt (\<lambda>r s. key r < key s) (f m)"
    using Cons.prems(2) [of m] by (cases "f m") auto
  with Cons assms(3) show ?case by (auto simp: sorted_wrt_append)
qed simp

lemma filter_unique: "distinct (map k rs) \<Longrightarrow> length (filter (\<lambda>r. k r = v) rs) \<le> 1"
  by (induction rs) (auto simp: filter_empty_conv intro: image_eqI [OF sym])

lemma distinct_filter_key:
  assumes "distinct (map (\<lambda>m. (a m, b m)) ms)"
  shows "distinct (map (\<lambda>m. (c m, b m)) (filter (\<lambda>m. a m = i) ms))"
  using assms by (induction ms) (auto intro: rev_image_eqI)

section \<open>The listings\<close>

definition members_page :: "uuid \<Rightarrow> db \<Rightarrow> (time \<times> uuid) option \<Rightarrow> nat \<Rightarrow> organization_member list" where
  "members_page i d cursor n = limit_nullif n
     (filter (\<lambda>r. case cursor of None \<Rightarrow> True | Some c \<Rightarrow> c < member_key r) (member_rows i d))"

definition members_unique :: "db \<Rightarrow> bool" where
  "members_unique d \<longleftrightarrow> distinct (map (\<lambda>m. (mem_org m, mem_user m)) (memberships d)) \<and> distinct (map usr_id (users d))"

interpretation members: keyset_listing "member_rows i" member_key "(<)" "members_page i" members_unique for i
proof
  fix d assume d: "members_unique d"
  let ?ms = "filter (\<lambda>m. mem_org m = i) (memberships d)"
  have "sorted_wrt (\<lambda>m n. (mem_created_at m, mem_user m) < (mem_created_at n, mem_user n))
      (sort_key (\<lambda>m. (mem_created_at m, mem_user m)) ?ms)"
    using d by (intro sorted_by_key distinct_filter_key) (simp add: members_unique_def)
  then show "sorted_wrt (\<lambda>r s. member_key r < member_key s) (member_rows i d)"
    unfolding member_rows_def
    by (rule sorted_join) (use d in \<open>auto simp: member_of_def member_key_def members_unique_def intro: filter_unique [simplified]\<close>)
qed (auto simp: members_page_def limit_nullif_def)

definition user_organizations_page :: "uuid \<Rightarrow> db \<Rightarrow> (time \<times> uuid) option \<Rightarrow> nat \<Rightarrow> user_organization list" where
  "user_organizations_page u d cursor n = take n
     (filter (\<lambda>r. case cursor of None \<Rightarrow> True | Some c \<Rightarrow> c < user_organization_key r) (user_organization_rows u d))"

definition user_organizations_unique :: "db \<Rightarrow> bool" where
  "user_organizations_unique d \<longleftrightarrow> distinct (map (\<lambda>m. (mem_user m, mem_org m)) (memberships d))
     \<and> distinct (map org_id (organizations d))"

interpretation user_organizations: keyset_listing "user_organization_rows u" user_organization_key "(<)"
  "user_organizations_page u" user_organizations_unique for u
proof
  fix d assume d: "user_organizations_unique d"
  let ?ms = "filter (\<lambda>m. mem_user m = u) (memberships d)"
  have "sorted_wrt (\<lambda>m n. (mem_created_at m, mem_org m) < (mem_created_at n, mem_org n))
      (sort_key (\<lambda>m. (mem_created_at m, mem_org m)) ?ms)"
    using d by (intro sorted_by_key distinct_filter_key) (simp add: user_organizations_unique_def)
  then show "sorted_wrt (\<lambda>r s. user_organization_key r < user_organization_key s) (user_organization_rows u d)"
    unfolding user_organization_rows_def
    by (rule sorted_join) (use d in \<open>auto simp: user_organization_key_def user_organizations_unique_def intro: filter_unique [simplified]\<close>)
qed (auto simp: user_organizations_page_def)

text \<open>Invitations come newest first: the order is the converse one.\<close>

definition invitations_page :: "uuid \<Rightarrow> db \<Rightarrow> (time \<times> uuid) option \<Rightarrow> nat \<Rightarrow> invitation list" where
  "invitations_page i d cursor n = limit_nullif n
     (filter (\<lambda>v. case cursor of None \<Rightarrow> True | Some c \<Rightarrow> invitation_key v < c) (invitation_rows i d))"

definition invitations_unique :: "db \<Rightarrow> bool" where
  "invitations_unique d \<longleftrightarrow> distinct (map inv_id (invitations d))"

interpretation invitations: keyset_listing "invitation_rows i" invitation_key "(>)" "invitations_page i" invitations_unique for i
proof
  fix d assume "invitations_unique d"
  then have "distinct (map inv_id (filter (\<lambda>v. inv_org v = i) (invitations d)))"
    by (simp add: invitations_unique_def distinct_map_filter)
  then have "distinct (map invitation_key (filter (\<lambda>v. inv_org v = i) (invitations d)))"
    by (induction "filter (\<lambda>v. inv_org v = i) (invitations d)") (auto simp: invitation_key_def distinct_map inj_on_def)
  then have "sorted_wrt (\<lambda>r s. invitation_key r < invitation_key s)
      (sort_key invitation_key (filter (\<lambda>v. inv_org v = i) (invitations d)))"
    by (rule sorted_by_key)
  then show "sorted_wrt (\<lambda>r s. invitation_key r > invitation_key s) (invitation_rows i d)"
    by (simp add: invitation_rows_def sorted_wrt_rev)
qed (auto simp: invitations_page_def limit_nullif_def split: option.split)

section \<open>What the service answers to a request for a page\<close>

definition no_faults :: "env \<Rightarrow> bool" where
  "no_faults E \<longleftrightarrow> (\<forall>n. \<not> o_fault E n)"

text \<open>Outside an aborted transaction, over the tables \<open>d\<close>.\<close>

definition at_db :: "db \<Rightarrow> world \<Rightarrow> bool" where
  "at_db d w \<longleftrightarrow> w_db w = d \<and> w_tx w \<noteq> TxAborted"

lemma query_at: "no_faults E \<Longrightarrow> at_db d w \<Longrightarrow> query E f w = (Inr (f d), tick w)"
  by (simp add: query_run at_db_def no_faults_def sql_ok_def sql_problem_def)

lemma query_row_at: "no_faults E \<Longrightarrow> at_db d w \<Longrightarrow> f d = Some x \<Longrightarrow> query_row E e f w = (Inr x, tick w)"
  by (simp add: query_row_run at_db_def no_faults_def sql_ok_def sql_problem_def)

lemma at_db_tick [simp]: "at_db d (tick w) = at_db d w"
  by (simp add: at_db_def)

lemma list_page_serves:
  assumes "no_faults E" and "at_db d w" and "Decode J (next_options limit c) kind scope = Inr cur"
    and "\<And>cursor n. fetch cursor n = query E (\<lambda>d. page d cursor n)"
  shows "list_page J (next_options limit c) kind scope fetch key w = (serve (page d) key J kind scope limit c, tick w)"
proof (cases cur)
  case (Pair cursor n)
  have of_sum: "of_sum x v = (x, v)" for x :: "err + 'b" and v :: world
    by (cases x) (simp_all add: of_sum_def fail_def ret_def)
  show ?thesis
    using assms(3) query_at [OF assms(1,2), of "\<lambda>d. page d cursor (Suc n)"]
    by (simp add: list_page_def bnd_def decodeListOptions_def serve_def assms(4) Pair of_sum)
qed

lemma members_fetch: "ListOrganizationMembersPage E i cursor n = query E (\<lambda>d. members_page i d cursor n)"
  by (simp add: ListOrganizationMembersPage_def members_page_def)

lemma user_organizations_fetch: "ListUserOrganizationsPage E u cursor n = query E (\<lambda>d. user_organizations_page u d cursor n)"
  by (simp add: ListUserOrganizationsPage_def user_organizations_page_def)

lemma invitations_fetch: "ListOrganizationInvitationsPage E i cursor n = query E (\<lambda>d. invitations_page i d cursor n)"
  by (simp add: ListOrganizationInvitationsPage_def invitations_page_def)

lemma walk_members:
  assumes "no_faults E" and "at_db d w" and "members_unique d" and "limit_allowed limit"
    and "i \<in> org_id ` set (organizations d)" and "length (member_rows i d) < fuel"
    and "\<And>r. r \<in> set (member_rows i d) \<Longrightarrow> codec_reads (os_json S) membersCursorKind i (member_key r)"
  shows "\<exists>w'. at_db d w' \<and> walk_pages fuel (\<lambda>c. service_ListOrganizationMembersPage E S i (next_options limit c)) '''' w
    = (Inr (Some (member_rows i d)), w')"
proof -
  obtain org where org: "find (\<lambda>r. org_id r = i) (organizations d) = Some org"
    using assms(5) by (cases "find (\<lambda>r. org_id r = i) (organizations d)") (auto simp: find_None_iff_all)
  have served: "\<exists>w'. at_db d w' \<and> service_ListOrganizationMembersPage E S i (next_options limit c) w
      = (serve (members_page i d) member_key (os_json S) membersCursorKind i limit c, w')"
    if "at_db d w" "Decode (os_json S) (next_options limit c) membersCursorKind i = Inr cur" for c cur and w :: world
    using query_row_at [where f = "\<lambda>d. find (\<lambda>r. org_id r = i) (organizations d)", OF assms(1) that(1) org]
      list_page_serves [OF assms(1) _ that(2) members_fetch, where w = "tick w" and d = d] that(1)
    by (auto simp: service_ListOrganizationMembersPage_def GetOrganizationByID_def bnd_def)
  from members.walk_complete [OF assms(3,4,7) served assms(6,2)] show ?thesis .
qed

lemma walk_user_organizations:
  assumes "no_faults E" and "at_db d w" and "user_organizations_unique d" and "limit_allowed limit"
    and "length (user_organization_rows u d) < fuel"
    and "\<And>r. r \<in> set (user_organization_rows u d) \<Longrightarrow> codec_reads (os_json S) organizationsCursorKind u (user_organization_key r)"
  shows "\<exists>w'. at_db d w' \<and> walk_pages fuel (\<lambda>c. service_ListUserOrganizationsPage E S u (next_options limit c)) '''' w
    = (Inr (Some (user_organization_rows u d)), w')"
proof -
  have served: "\<exists>w'. at_db d w' \<and> service_ListUserOrganizationsPage E S u (next_options limit c) w
      = (serve (user_organizations_page u d) user_organization_key (os_json S) organizationsCursorKind u limit c, w')"
    if "at_db d w" "Decode (os_json S) (next_options limit c) organizationsCursorKind u = Inr cur" for c cur and w :: world
    using list_page_serves [OF assms(1) that user_organizations_fetch] that(1)
    by (auto simp: service_ListUserOrganizationsPage_def)
  from user_organizations.walk_complete [OF assms(3,4,6) served assms(5,2)] show ?thesis .
qed

lemma walk_invitations:
  assumes "no_faults E" and "at_db d w" and "invitations_unique d" and "limit_allowed limit"
    and "AllowsInvitations (os_mode S)" and "i \<in> org_id ` set (organizations d)" and "length (invitation_rows i d) < fuel"
    and "\<And>v. v \<in> set (invitation_rows i d) \<Longrightarrow> codec_reads (os_json S) invitationsCursorKind i (invitation_key v)"
  shows "\<exists>w'. at_db d w' \<and> walk_pages fuel (\<lambda>c. ListInvitationsPage E S i (next_options limit c)) '''' w
    = (Inr (Some (invitation_rows i d)), w')"
proof -
  obtain org where org: "find (\<lambda>r. org_id r = i) (organizations d) = Some org"
    using assms(6) by (cases "find (\<lambda>r. org_id r = i) (organizations d)") (auto simp: find_None_iff_all)
  have served: "\<exists>w'. at_db d w' \<and> ListInvitationsPage E S i (next_options limit c) w
      = (serve (invitations_page i d) invitation_key (os_json S) invitationsCursorKind i limit c, w')"
    if "at_db d w" "Decode (os_json S) (next_options limit c) invitationsCursorKind i = Inr cur" for c cur and w :: world
    using query_row_at [where f = "\<lambda>d. find (\<lambda>r. org_id r = i) (organizations d)", OF assms(1) that(1) org]
      list_page_serves [OF assms(1) _ that(2) invitations_fetch, where w = "tick w" and d = d] that(1) assms(5)
    by (auto simp: ListInvitationsPage_def GetOrganizationByID_def bnd_def)
  from invitations.walk_complete [OF assms(3,4,8) served assms(7,2)] show ?thesis .
qed

section \<open>Pages are the listing\<close>

text \<open>
  C39. Pagination loses and repeats nothing: a client that follows \<open>NextCursor\<close> from the
  empty cursor until it is empty, with any allowed limit, collects the members of an
  organization, and its invitations, exactly as the unpaginated listings return them, in the
  same order; the number of requests is at most one more than the number of rows.
\<close>

theorem pages_are_the_listing:
  assumes "no_faults E" and "w_tx w = NoTx" and "members_unique (w_db w)" and "invitations_unique (w_db w)"
    and "limit_allowed limit" and "AllowsInvitations (os_mode S)" and "i \<in> org_id ` set (organizations (w_db w))"
    and "\<forall>r\<in>set (member_rows i (w_db w)). codec_reads (os_json S) membersCursorKind i (member_key r)"
    and "\<forall>v\<in>set (invitation_rows i (w_db w)). codec_reads (os_json S) invitationsCursorKind i (invitation_key v)"
  shows "(\<exists>members. fst (ListOrganizationMembers E i w) = Inr members
      \<and> fst (walk_pages (Suc (length members)) (\<lambda>c. service_ListOrganizationMembersPage E S i (next_options limit c)) [] w)
        = Inr (Some members))
    \<and> (\<exists>invs. fst (ListInvitations E S i w) = Inr invs
      \<and> fst (walk_pages (Suc (length invs)) (\<lambda>c. ListInvitationsPage E S i (next_options limit c)) [] w) = Inr (Some invs))"
proof -
  let ?d = "w_db w"
  have w: "at_db ?d w" using assms(2) by (simp add: at_db_def)
  obtain org where org: "find (\<lambda>r. org_id r = i) (organizations ?d) = Some org"
    using assms(7) by (cases "find (\<lambda>r. org_id r = i) (organizations ?d)") (auto simp: find_None_iff_all)
  have row: "query_row E ErrOrganizationNotFound (\<lambda>d. find (\<lambda>r. org_id r = i) (organizations d)) w = (Inr org, tick w)"
    by (rule query_row_at [where f = "\<lambda>d. find (\<lambda>r. org_id r = i) (organizations d)", OF assms(1) w org])
  have "fst (ListOrganizationMembers E i w) = Inr (member_rows i ?d)"
    using row query_at [OF assms(1), of ?d "tick w" "\<lambda>d. members_page i d None 0"] w
    by (simp add: ListOrganizationMembers_def ListOrganizationMembersByOrganizationID_def GetOrganizationByID_def bnd_def
        members_fetch members_page_def limit_nullif_def)
  moreover have "fst (ListInvitations E S i w) = Inr (invitation_rows i ?d)"
    using row query_at [OF assms(1), of ?d "tick w" "\<lambda>d. invitations_page i d None 0"] w assms(6)
    by (simp add: ListInvitations_def ListOrganizationInvitationsByOrganizationID_def GetOrganizationByID_def bnd_def
        invitations_fetch invitations_page_def limit_nullif_def)
  moreover from walk_members [OF assms(1) w assms(3,5,7) lessI] assms(8)
  have "fst (walk_pages (Suc (length (member_rows i ?d)))
      (\<lambda>c. service_ListOrganizationMembersPage E S i (next_options limit c)) [] w) = Inr (Some (member_rows i ?d))" by force
  moreover from walk_invitations [OF assms(1) w assms(4,5,6,7) lessI] assms(9)
  have "fst (walk_pages (Suc (length (invitation_rows i ?d)))
      (\<lambda>c. ListInvitationsPage E S i (next_options limit c)) [] w) = Inr (Some (invitation_rows i ?d))" by force
  ultimately show ?thesis by blast
qed

definition second_member :: membership where
  "second_member = demo_membership\<lparr>mem_user := 11, mem_role := OrganizationRoleMember, mem_created_at := 7\<rparr>"

definition two_members_world :: world where
  "two_members_world = demo_world\<lparr>w_db := demo_db\<lparr>users := [demo_user, demo_user\<lparr>usr_id := 11\<rparr>],
     memberships := [second_member, demo_membership]\<rparr>\<rparr>"

definition demo_cursor :: "uuid \<Rightarrow> cursor" where
  "demo_cursor u = page_cursor membersCursorKind 20 (if u = 10 then 0 else 7, u)"

definition paging_service :: organization_service where
  "paging_service = \<lparr>os_publish = (\<lambda>_. ret ()), os_InvitationTTL = 1000, os_UserEnabled = True, os_publicURL = '''',
     os_mode = OrgModeMulti, os_profiles = [], os_defaultProfile = '''', os_revocations = None,
     os_lib = \<lparr>mail_address = Some, url_with = (\<lambda>_ _ _ _. None), jsonb_text = Some\<rparr>,
     os_json = \<lparr>json_marshal = (\<lambda>c. Some (if cur_ID c = 10 then ''1'' else ''2'')),
       json_cursor = (\<lambda>s. Some (demo_cursor (if s = ''1'' then 10 else 11)))\<rparr>\<rparr>"

lemmas paging_defs = two_members_world_def second_member_def paging_service_def demo_cursor_def page_cursor_def

theorem pages_are_the_listing_witness:
  "\<exists>members. length members = 2
     \<and> fst (walk_pages 3 (\<lambda>c. service_ListOrganizationMembersPage demo_env paging_service 20 (next_options (Some 1) c)) ''''
         two_members_world) = Inr (Some members)"
proof -
  have rows: "length (member_rows 20 (w_db two_members_world)) = 2"
    "\<forall>r\<in>set (member_rows 20 (w_db two_members_world)).
      member_key r = (0, 10) \<or> member_key r = (7, 11)"
    by (simp_all add: member_rows_def member_of_def member_key_def paging_defs demo_defs)
  have none: "invitation_rows 20 (w_db two_members_world) = []"
    by (simp add: invitation_rows_def paging_defs demo_defs)
  have w: "no_faults demo_env" "w_tx two_members_world = NoTx" "members_unique (w_db two_members_world)"
    "invitations_unique (w_db two_members_world)" "limit_allowed (Some 1)" "AllowsInvitations (os_mode paging_service)"
    "20 \<in> org_id ` set (organizations (w_db two_members_world))"
    by (simp_all add: no_faults_def members_unique_def invitations_unique_def limit_allowed_def MaxLimit_def
        AllowsInvitations_def paging_defs demo_defs)
  have codec: "codec_reads (os_json paging_service) membersCursorKind 20 (0, 10)"
    "codec_reads (os_json paging_service) membersCursorKind 20 (7, 11)"
    by (simp_all add: codec_reads_def paging_defs zero_time_def nil_uuid_def)
  from pages_are_the_listing [OF w] rows codec none obtain ms where
    ms: "fst (ListOrganizationMembers demo_env 20 two_members_world) = Inr ms"
    and walk: "fst (walk_pages (Suc (length ms)) (\<lambda>c. service_ListOrganizationMembersPage demo_env paging_service 20
          (next_options (Some 1) c)) [] two_members_world) = Inr (Some ms)"
    by fastforce
  have "case fst (ListOrganizationMembers demo_env 20 two_members_world) of Inl e \<Rightarrow> False | Inr ms \<Rightarrow> length ms = 2"
    by code_simp
  then have two: "length ms = 2" by (simp add: ms)
  have "Suc 2 = (3 :: nat)" by simp
  from walk [unfolded two this] two show ?thesis by blast
qed

text \<open>What the joins with \<open>users\<close> report of a member: never a verified address.\<close>

lemma members_reported_unverified: "r \<in> set (member_rows i d) \<Longrightarrow> usr_email_verified_at (omr_user r) = None"
  by (auto simp: member_rows_def member_of_def)

end
