(* ===== verification/Maintenance.thy ===== *)
theory Maintenance
  imports Effects
begin

text \<open>
  The maintenance lease (\<open>internal/store/maintenance.go\<close>) and the coordinator that runs
  the cleanup jobs under it (\<open>internal/maintenance/coordinator.go\<close>). The goroutine that
  renews the lease interleaves with the scheduler as separate steps.
\<close>

section \<open>The lease\<close>

definition CleanupLeaseName :: string where
  "CleanupLeaseName = ''cleanup''"

text \<open>\<open>MaintenanceLease\<close>: what a successful acquisition or renewal returns.\<close>

record lease =
  ml_Name :: string
  ml_OwnerID :: uuid
  ml_LeaseUntil :: time
  ml_Generation :: int

definition acquirable :: "string \<Rightarrow> uuid \<Rightarrow> time \<Rightarrow> maintenance_lease \<Rightarrow> bool" where
  "acquirable name ownerID t r \<longleftrightarrow> lease_name r = name
     \<and> (lease_owner r = None \<or> lease_owner r = Some ownerID
        \<or> (case lease_until r of None \<Rightarrow> False | Some u \<Rightarrow> u \<le> t))"

definition take_lease :: "uuid \<Rightarrow> time \<Rightarrow> duration \<Rightarrow> maintenance_lease \<Rightarrow> maintenance_lease" where
  "take_lease ownerID t duration r = r\<lparr>lease_owner := Some ownerID, lease_until := Some (t + duration),
     lease_generation := lease_generation r + 1, lease_updated_at := t\<rparr>"

text \<open>\<open>RETURNING\<close>: the first row of the updated table that the statement hit.\<close>

definition returned_lease :: "maintenance_lease \<Rightarrow> lease" where
  "returned_lease r = \<lparr>ml_Name = lease_name r, ml_OwnerID = the (lease_owner r), ml_LeaseUntil = the (lease_until r),
     ml_Generation = lease_generation r\<rparr>"

text \<open>None: somebody else holds the lease.\<close>

definition TryAcquireMaintenanceLease :: "env \<Rightarrow> string \<Rightarrow> uuid \<Rightarrow> duration \<Rightarrow> lease option M" where
  "TryAcquireMaintenanceLease E name ownerID duration =
     bnd (exec E (\<lambda>t u d. Inr (
        map_option (\<lambda>r. returned_lease (take_lease ownerID t duration r)) (find (acquirable name ownerID t) (maintenance_leases d)),
        d\<lparr>maintenance_leases := upd_where (acquirable name ownerID t) (take_lease ownerID t duration) (maintenance_leases d)\<rparr>)))
     (\<lambda>acquired. case acquired of
        Some l \<Rightarrow> ret (Some l)
      | None \<Rightarrow> bnd (query E (\<lambda>d. list_ex (\<lambda>r. lease_name r = name) (maintenance_leases d))) (\<lambda>exists.
          if \<not> exists then fail (EStore ErrMaintenanceLeaseNotFound) else ret None))"

text \<open>The row is still the one the lease was issued for.\<close>

definition issued_for :: "lease \<Rightarrow> maintenance_lease \<Rightarrow> bool" where
  "issued_for l r \<longleftrightarrow> lease_name r = ml_Name l \<and> lease_owner r = Some (ml_OwnerID l) \<and> lease_generation r = ml_Generation l"

definition lease_live :: "lease \<Rightarrow> time \<Rightarrow> maintenance_lease \<Rightarrow> bool" where
  "lease_live l t r \<longleftrightarrow> issued_for l r \<and> (case lease_until r of None \<Rightarrow> False | Some u \<Rightarrow> t < u)"

definition RenewMaintenanceLease :: "env \<Rightarrow> lease \<Rightarrow> duration \<Rightarrow> lease option M" where
  "RenewMaintenanceLease E l duration = exec E (\<lambda>t u d.
     let extend = (\<lambda>r. r\<lparr>lease_until := Some (t + duration), lease_updated_at := t\<rparr>) in
     Inr (map_option (\<lambda>r. returned_lease (extend r)) (find (lease_live l t) (maintenance_leases d)),
       d\<lparr>maintenance_leases := upd_where (lease_live l t) extend (maintenance_leases d)\<rparr>))"

definition ReleaseMaintenanceLease :: "env \<Rightarrow> lease \<Rightarrow> bool M" where
  "ReleaseMaintenanceLease E l = bnd (exec_count E (\<lambda>t d. (count_where (issued_for l) (maintenance_leases d),
       d\<lparr>maintenance_leases := upd_where (issued_for l)
          (\<lambda>r. r\<lparr>lease_owner := None, lease_until := None, lease_updated_at := t\<rparr>) (maintenance_leases d)\<rparr>)))
     (\<lambda>affected. ret (affected = 1))"

text \<open>
  \<open>RunMaintenanceBatch\<close> begins its own transaction, checks the lease in it and runs the
  batch in it; it returns rows, more, owned and the error at the same time.
\<close>

record batch_result =
  br_rows :: int
  br_more :: bool
  br_owned :: bool
  br_err :: "err option"

definition no_batch :: "bool \<Rightarrow> err option \<Rightarrow> batch_result" where
  "no_batch owned e = \<lparr>br_rows = 0, br_more = False, br_owned = owned, br_err = e\<rparr>"

definition RunMaintenanceBatch :: "env \<Rightarrow> lease \<Rightarrow> (int \<times> bool) M \<Rightarrow> world \<Rightarrow> batch_result \<times> world" where
  "RunMaintenanceBatch E l batch w =
     (if o_fault E (w_step w) then (no_batch False (Some (ESql DriverError)), tick w)
      else let w0 = open_tx w; rollback = (\<lambda>w1. tick (w1\<lparr>w_db := w_db w, w_tx := NoTx\<rparr>)) in
        (case exec E (\<lambda>t u d. Inr (list_ex (lease_live l t) (maintenance_leases d), d)) w0 of
           (Inl e, w1) \<Rightarrow> (no_batch False (Some e), rollback w1)
         | (Inr valid, w1) \<Rightarrow>
             if \<not> valid then (no_batch False None, rollback w1)
             else (case batch w1 of
                 (Inl e, w2) \<Rightarrow> (no_batch True (Some e), rollback w2)
               | (Inr (rows, again), w2) \<Rightarrow>
                   if w_tx w2 = TxAborted \<or> o_fault E (w_step w2)
                   then (no_batch True (Some (ESql DriverError)), rollback w2)
                   else (\<lparr>br_rows = rows, br_more = again, br_owned = True, br_err = None\<rparr>, close_tx w2))))"

section \<open>The coordinator\<close>

definition defaultLeaseDuration :: duration where "defaultLeaseDuration = 30 * second"
definition defaultRenewInterval :: duration where "defaultRenewInterval = 10 * second"
definition defaultRetryInterval :: duration where "defaultRetryInterval = 5 * second"
definition defaultContinuationInterval :: duration where "defaultContinuationInterval = 5 * second"
definition defaultPassTimeout :: duration where "defaultPassTimeout = 10 * second"
definition defaultMaxBatches :: int where "defaultMaxBatches = 10"

record job =
  job_Name :: string
  job_Interval :: duration
  job_RunBatch :: "(time \<Rightarrow> (int \<times> bool) M) option"

record coordinator_config =
  cc_LeaseDuration :: duration
  cc_RenewInterval :: duration
  cc_RetryInterval :: duration
  cc_ContinuationInterval :: duration
  cc_PassTimeout :: duration
  cc_MaxBatches :: int

record coordinator =
  co_ownerID :: uuid
  co_jobs :: "job list"
  co_cfg :: coordinator_config

definition or_default :: "int \<Rightarrow> int \<Rightarrow> int" where
  "or_default v dflt = (if v \<le> 0 then dflt else v)"

definition coordinator_defaults :: "coordinator_config \<Rightarrow> coordinator_config" where
  "coordinator_defaults cfg = \<lparr>cc_LeaseDuration = or_default (cc_LeaseDuration cfg) defaultLeaseDuration,
     cc_RenewInterval = or_default (cc_RenewInterval cfg) defaultRenewInterval,
     cc_RetryInterval = or_default (cc_RetryInterval cfg) defaultRetryInterval,
     cc_ContinuationInterval = or_default (cc_ContinuationInterval cfg) defaultContinuationInterval,
     cc_PassTimeout = or_default (cc_PassTimeout cfg) defaultPassTimeout,
     cc_MaxBatches = or_default (cc_MaxBatches cfg) defaultMaxBatches\<rparr>"

definition job_problem :: "job \<Rightarrow> string option" where
  "job_problem j = (if job_Name j = '''' then Some ''maintenance job name is required''
     else if job_Interval j \<le> 0 then Some ''maintenance job interval must be positive''
     else if job_RunBatch j = None then Some ''maintenance job batch function is required'' else None)"

definition NewCoordinator :: "uuid \<Rightarrow> job list \<Rightarrow> coordinator_config \<Rightarrow> err + coordinator" where
  "NewCoordinator ownerID jobs cfg0 =
     (let cfg = coordinator_defaults cfg0 in
      if cc_LeaseDuration cfg \<le> cc_RenewInterval cfg
      then Inl (EText ''maintenance lease renewal interval must be shorter than its duration'')
      else if cc_LeaseDuration cfg \<le> cc_PassTimeout cfg
      then Inl (EText ''maintenance pass timeout must be shorter than the lease duration'')
      else (case List.map_filter job_problem jobs of
          problem # _ \<Rightarrow> Inl (EText problem)
        | [] \<Rightarrow> Inr \<lparr>co_ownerID = ownerID, co_jobs = jobs, co_cfg = cfg\<rparr>))"

datatype job_outcome = jobRunCompleted | jobRunIncomplete | jobRunFailed | jobRunCanceled

text \<open>
  What a pass reads of its contexts: whether the coordinator's, or the pass's own, is done at a
  step, and whether an error is (or wraps) \<open>context.DeadlineExceeded\<close>.
\<close>

record pass_context =
  ctx_done :: "nat \<Rightarrow> bool"
  pass_done :: "nat \<Rightarrow> bool"
  deadline_error :: "err \<Rightarrow> bool"

text \<open>The loop of \<open>runJob\<close>; the first argument counts the batches that remain.\<close>

fun run_batches :: "nat \<Rightarrow> env \<Rightarrow> pass_context \<Rightarrow> lease \<Rightarrow> (int \<times> bool) M \<Rightarrow> int \<Rightarrow> world
    \<Rightarrow> (job_outcome \<times> int) \<times> world" where
  "run_batches 0 E P l batch sum_rows w = ((jobRunCompleted, sum_rows), w)"
| "run_batches (Suc remaining) E P l batch sum_rows w =
     (case RunMaintenanceBatch E l batch w of (r, w1) \<Rightarrow>
        let sum_rows' = sum_rows + br_rows r in
        (case br_err r of
           Some e \<Rightarrow> ((if ctx_done P (w_step w1) then jobRunCanceled
               else if deadline_error P e then jobRunIncomplete else jobRunFailed, sum_rows'), w1)
         | None \<Rightarrow>
             if \<not> br_owned r then ((jobRunCanceled, sum_rows'), w1)
             else if \<not> br_more r then ((jobRunCompleted, sum_rows'), w1)
             else if pass_done P (w_step w1) then ((jobRunIncomplete, sum_rows'), w1)
             else if remaining = 0 then ((jobRunIncomplete, sum_rows'), w1)
             else run_batches remaining E P l batch sum_rows' w1))"

definition runJob :: "env \<Rightarrow> pass_context \<Rightarrow> coordinator \<Rightarrow> lease \<Rightarrow> job \<Rightarrow> world \<Rightarrow> (job_outcome \<times> int) \<times> world" where
  "runJob E P c l j w =
     (let started = o_now E (w_step w) in
      run_batches (nat (cc_MaxBatches (co_cfg c))) E P l (the (job_RunBatch j) started) 0 (tick w))"

text \<open>The job whose turn it is: the first of those with the earliest time.\<close>

function earliest :: "time list \<Rightarrow> nat \<Rightarrow> nat \<Rightarrow> nat" where
  "earliest ts best i = (if length ts \<le> i then best
     else earliest ts (if ts ! i < ts ! best then i else best) (Suc i))"
  by pat_completeness auto
termination
  by (relation "measure (\<lambda>(ts, best, i). length ts - i)") auto

declare earliest.simps [simp del]

definition next_job :: "time list \<Rightarrow> nat" where
  "next_job ts = earliest ts 0 1"

definition job_delay :: "coordinator \<Rightarrow> job \<Rightarrow> job_outcome \<Rightarrow> duration" where
  "job_delay c j outcome = (if outcome = jobRunIncomplete \<and> cc_ContinuationInterval (co_cfg c) < job_Interval j
     then cc_ContinuationInterval (co_cfg c) else job_Interval j)"

text \<open>
  One turn of \<open>runScheduler\<close>: None when a context ended the loop. \<open>wait_ok\<close> says
  whether the wait for the job's time was not interrupted.
\<close>

definition scheduler_turn ::
  "env \<Rightarrow> pass_context \<Rightarrow> (nat \<Rightarrow> bool) \<Rightarrow> coordinator \<Rightarrow> lease \<Rightarrow> time list \<Rightarrow> world \<Rightarrow> time list option \<times> world" where
  "scheduler_turn E P wait_ok c l ts w =
     (let i = next_job ts; j = co_jobs c ! i in
      if \<not> wait_ok (w_step w) then (None, tick w)
      else (case runJob E P c l j (tick w) of ((outcome, sum_rows), w1) \<Rightarrow>
        if outcome = jobRunCanceled then (None, w1)
        else (Some (ts[i := o_now E (w_step w1) + job_delay c j outcome]), tick w1)))"

fun run_scheduler :: "nat \<Rightarrow> env \<Rightarrow> pass_context \<Rightarrow> (nat \<Rightarrow> bool) \<Rightarrow> coordinator \<Rightarrow> lease \<Rightarrow> time list \<Rightarrow> world \<Rightarrow> world" where
  "run_scheduler 0 E P wait_ok c l ts w = w"
| "run_scheduler (Suc turns) E P wait_ok c l ts w = (if ts = [] then w
     else (case scheduler_turn E P wait_ok c l ts w of
        (None, w1) \<Rightarrow> w1
      | (Some ts1, w1) \<Rightarrow> run_scheduler turns E P wait_ok c l ts1 w1))"

definition runScheduler :: "nat \<Rightarrow> env \<Rightarrow> pass_context \<Rightarrow> (nat \<Rightarrow> bool) \<Rightarrow> coordinator \<Rightarrow> lease \<Rightarrow> world \<Rightarrow> world" where
  "runScheduler turns E P wait_ok c l w =
     run_scheduler turns E P wait_ok c l (map (\<lambda>_. o_now E (w_step w)) (co_jobs c)) (tick w)"

text \<open>One round of \<open>run\<close>: acquire, lead until the scheduler ends, release.\<close>

definition run_round :: "nat \<Rightarrow> env \<Rightarrow> pass_context \<Rightarrow> (nat \<Rightarrow> bool) \<Rightarrow> coordinator \<Rightarrow> world \<Rightarrow> world" where
  "run_round turns E P wait_ok c w =
     (case TryAcquireMaintenanceLease E CleanupLeaseName (co_ownerID c) (cc_LeaseDuration (co_cfg c)) w of
        (Inr (Some l), w1) \<Rightarrow> snd (ReleaseMaintenanceLease E l (runScheduler turns E P wait_ok c l w1))
      | (_, w1) \<Rightarrow> w1)"

end
