(* ===== verification/Maintenance_Properties.thy ===== *)
theory Maintenance_Properties
  imports Maintenance Demo
begin

text \<open>
  The properties of the maintenance lease: a lease that somebody else took over is fenced off
  for good, and a pass over a job is bounded.
\<close>

section \<open>The table of leases\<close>

definition leases_distinct :: "db \<Rightarrow> bool" where
  "leases_distinct d \<longleftrightarrow> distinct (map lease_name (maintenance_leases d))"

definition generation :: "string \<Rightarrow> db \<Rightarrow> int option" where
  "generation name d = map_option lease_generation (find (\<lambda>r. lease_name r = name) (maintenance_leases d))"

definition with_leases :: "maintenance_lease list \<Rightarrow> db \<Rightarrow> bool" where
  "with_leases rs d \<longleftrightarrow> maintenance_leases d = rs"

text \<open>What the statements do to the rows: names stay, generations never fall.\<close>

definition leases_grow :: "db \<Rightarrow> db \<Rightarrow> bool" where
  "leases_grow d d' \<longleftrightarrow> map lease_name (maintenance_leases d') = map lease_name (maintenance_leases d)
     \<and> list_all2 (\<lambda>r r'. lease_generation r \<le> lease_generation r') (maintenance_leases d) (maintenance_leases d')"

lemma leases_grow_refl: "maintenance_leases d' = maintenance_leases d \<Longrightarrow> leases_grow d d'"
  by (simp add: leases_grow_def list_all2_same)

lemma leases_grow_trans: "leases_grow d1 d2 \<Longrightarrow> leases_grow d2 d3 \<Longrightarrow> leases_grow d1 d3"
  unfolding leases_grow_def
  using list_all2_trans [where ?P1.0 = "\<lambda>r r'. lease_generation r \<le> lease_generation r'"
      and ?P2.0 = "\<lambda>r r'. lease_generation r \<le> lease_generation r'" and ?P3.0 = "\<lambda>r r'. lease_generation r \<le> lease_generation r'"]
  by (metis (mono_tags, lifting) order_trans)

lemma leases_grow_upd:
  assumes "maintenance_leases d' = upd_where p f (maintenance_leases d)"
    and "\<And>r. lease_name (f r) = lease_name r \<and> lease_generation r \<le> lease_generation (f r)"
  shows "leases_grow d d'"
  using assms(2) unfolding leases_grow_def assms(1)
  by (auto simp: upd_where_def list_all2_conv_all_nth)

lemma generation_grows:
  assumes "leases_grow d d'" and "generation n d = Some g"
  shows "\<exists>g'\<ge>g. generation n d' = Some g'"
proof -
  have "\<exists>g'\<ge>g. map_option lease_generation (find (\<lambda>r. lease_name r = n) rs') = Some g'"
    if "list_all2 (\<lambda>r r'. lease_generation r \<le> lease_generation r') rs rs'" "map lease_name rs' = map lease_name rs"
      "map_option lease_generation (find (\<lambda>r. lease_name r = n) rs) = Some g" for rs rs'
    using that by (induction rule: list_all2_induct) (auto split: if_splits)
  from this [of "maintenance_leases d" "maintenance_leases d'"] show ?thesis
    using assms unfolding leases_grow_def generation_def by blast
qed

lemma leases_grow_distinct: "leases_grow d d' \<Longrightarrow> leases_distinct d' = leases_distinct d"
  by (simp add: leases_grow_def leases_distinct_def)

section \<open>The operations\<close>

lemma acquired:
  assumes "TryAcquireMaintenanceLease E n o1 dur w = (Inr (Some l), w')" and "leases_distinct (w_db w)"
  shows "leases_grow (w_db w) (w_db w')" and "generation n (w_db w) = Some (ml_Generation l - 1)"
    and "generation n (w_db w') = Some (ml_Generation l)" and "ml_Name l = n" and "ml_OwnerID l = o1"
proof -
  let ?t = "o_dbnow E (w_step w)"
  let ?rs = "maintenance_leases (w_db w)"
  from assms(1) obtain r where r: "find (acquirable n o1 ?t) ?rs = Some r"
    and l: "l = returned_lease (take_lease o1 ?t dur r)"
    and w': "maintenance_leases (w_db w') = upd_where (acquirable n o1 ?t) (take_lease o1 ?t dur) ?rs"
    by (auto simp: TryAcquireMaintenanceLease_def exec_run query_run bnd_run ret_run fail_run split: option.splits if_splits)
  from find_Some_in [OF r] have row: "r \<in> set ?rs" "lease_name r = n" "acquirable n o1 ?t r"
    by (auto simp: acquirable_def)
  show "leases_grow (w_db w) (w_db w')" by (rule leases_grow_upd [OF w']) (simp add: take_lease_def)
  have found: "find (\<lambda>r. lease_name r = n) ?rs = Some r"
    using find_unique_key [where k = lease_name, OF _ row(1,2)] assms(2) by (simp add: leases_distinct_def)
  then show "generation n (w_db w) = Some (ml_Generation l - 1)"
    by (simp add: generation_def l returned_lease_def take_lease_def)
  have "find (\<lambda>r. lease_name r = n) (upd_where (acquirable n o1 ?t) (take_lease o1 ?t dur) ?rs) = Some (take_lease o1 ?t dur r)"
    using found row(3) by (subst find_upd_where) (simp_all add: take_lease_def)
  then show "generation n (w_db w') = Some (ml_Generation l)"
    by (simp add: generation_def w' l returned_lease_def)
  show "ml_Name l = n" "ml_OwnerID l = o1" using row(2) by (simp_all add: l returned_lease_def take_lease_def)
qed

definition keeps_leases :: "'a M \<Rightarrow> bool" where
  "keeps_leases m \<longleftrightarrow> (\<forall>rs. keeps (with_leases rs) m)"

lemma keeps_leasesD: "keeps_leases m \<Longrightarrow> m w = (r, w') \<Longrightarrow> maintenance_leases (w_db w') = maintenance_leases (w_db w)"
  using keepsD [of "with_leases (maintenance_leases (w_db w))" m w r w'] by (simp add: keeps_leases_def with_leases_def)

text \<open>Any process, with any clock and policy; batches that do not touch the leases themselves.\<close>

inductive lease_step :: "world \<Rightarrow> world \<Rightarrow> bool" where
  acquire: "TryAcquireMaintenanceLease E n owner dur w = (r, w') \<Longrightarrow> lease_step w w'"
| renew: "RenewMaintenanceLease E l dur w = (r, w') \<Longrightarrow> lease_step w w'"
| release: "ReleaseMaintenanceLease E l w = (r, w') \<Longrightarrow> lease_step w w'"
| batch: "RunMaintenanceBatch E l b w = (r, w') \<Longrightarrow> keeps_leases b \<Longrightarrow> lease_step w w'"
| other: "m w = (r, w') \<Longrightarrow> keeps_leases (m :: unit M) \<Longrightarrow> lease_step w w'"

lemma exec_grows:
  assumes "\<And>t u d x d'. f t u d = Inr (x, d') \<Longrightarrow> leases_grow d d'" and "exec E f w = (r, w')"
  shows "leases_grow (w_db w) (w_db w')"
  using assms by (auto simp: exec_def sql_fail_def leases_grow_refl split: option.splits sum.splits)

lemma lease_step_grows: "lease_step w w' \<Longrightarrow> leases_grow (w_db w) (w_db w')"
proof (induction rule: lease_step.induct)
  case (acquire E n owner dur w r w')
  have grow: "leases_grow d (d\<lparr>maintenance_leases := upd_where (acquirable n owner t) (take_lease owner t dur) (maintenance_leases d)\<rparr>)" for t d
    by (rule leases_grow_upd [where p = "acquirable n owner t" and f = "take_lease owner t dur"]) (simp_all add: take_lease_def)
  have first: "leases_grow (w_db w) (w_db w1)"
    if "exec E (\<lambda>t u d. Inr (map_option (\<lambda>r. returned_lease (take_lease owner t dur r)) (find (acquirable n owner t) (maintenance_leases d)),
        d\<lparr>maintenance_leases := upd_where (acquirable n owner t) (take_lease owner t dur) (maintenance_leases d)\<rparr>)) w = (r1, w1)" for r1 w1
    by (rule exec_grows [OF _ that]) (auto simp: grow)
  have same: "w_db w2 = w_db w1" if "query E f w1 = (q, w2)" for f :: "db \<Rightarrow> bool" and q w1 w2
    using that by (rule read_only_db [OF keeps_query])
  from acquire show ?case
    unfolding TryAcquireMaintenanceLease_def bnd_def
    by (auto simp: ret_def fail_def split: prod.splits sum.splits option.splits if_splits dest!: first same)
next
  case (renew E l dur w r w')
  show ?case
    by (rule exec_grows [OF _ renew [unfolded RenewMaintenanceLease_def]]) (auto simp: Let_def intro!: leases_grow_upd)
next
  case (release E l w r w')
  have "leases_grow (w_db w) (w_db w1)" if "exec E (\<lambda>t _ d. Inr (count_where (issued_for l) (maintenance_leases d),
       d\<lparr>maintenance_leases := upd_where (issued_for l)
          (\<lambda>r. r\<lparr>lease_owner := None, lease_until := None, lease_updated_at := t\<rparr>) (maintenance_leases d)\<rparr>)) w = (r1, w1)" for r1 w1
    by (rule exec_grows [OF _ that]) (auto intro!: leases_grow_upd)
  with release show ?case
    unfolding ReleaseMaintenanceLease_def bnd_def exec_count_def
    by (auto simp: ret_def split: prod.splits sum.splits)
next
  case (batch E l b w r w')
  have same: "w_db w1 = w_db v" if "exec E (\<lambda>t u d. Inr (f t d, d)) v = (q, w1)" for f :: "time \<Rightarrow> db \<Rightarrow> bool" and q v w1
    using that by (auto simp: exec_def sql_fail_def split: option.splits)
  from batch show ?case
    unfolding RunMaintenanceBatch_def Let_def
    by (intro leases_grow_refl)
      (auto split: if_splits prod.splits sum.splits dest!: same dest: keeps_leasesD)
next
  case (other m w r w')
  then show ?case by (simp add: leases_grow_refl keeps_leasesD)
qed

lemma lease_steps_grow: "lease_step\<^sup>*\<^sup>* w w' \<Longrightarrow> leases_grow (w_db w) (w_db w')"
  by (induction rule: rtranclp_induct) (auto intro: leases_grow_refl leases_grow_trans lease_step_grows)

text \<open>A lease of an earlier generation is not live.\<close>

lemma superseded_not_live:
  assumes "generation (ml_Name l) d = Some g" and "ml_Generation l < g" and "leases_distinct d"
  shows "\<not> list_ex (issued_for l) (maintenance_leases d)" and "\<not> list_ex (lease_live l t) (maintenance_leases d)"
proof -
  have no: "\<not> issued_for l r" if "r \<in> set (maintenance_leases d)" for r
  proof
    assume i: "issued_for l r"
    then have "find (\<lambda>r. lease_name r = ml_Name l) (maintenance_leases d) = Some r"
      using find_unique_key [where k = lease_name, OF _ that] assms(3) by (simp add: leases_distinct_def issued_for_def)
    with i assms(1,2) show False by (simp add: generation_def issued_for_def)
  qed
  then show "\<not> list_ex (issued_for l) (maintenance_leases d)" "\<not> list_ex (lease_live l t) (maintenance_leases d)"
    by (auto simp: list_ex_iff lease_live_def)
qed

text \<open>Only the holder can acquire a live lease.\<close>

lemma live_not_acquired:
  assumes "TryAcquireMaintenanceLease E n o2 dur w = (Inr (Some l), w')" and "leases_distinct (w_db w)"
    and "list_ex (lease_live old (o_dbnow E (w_step w))) (maintenance_leases (w_db w))" and "ml_Name old = n"
  shows "o2 = ml_OwnerID old"
proof -
  let ?t = "o_dbnow E (w_step w)"
  from assms(1) obtain r where r: "find (acquirable n o2 ?t) (maintenance_leases (w_db w)) = Some r"
    by (auto simp: TryAcquireMaintenanceLease_def exec_run query_run bnd_run ret_run fail_run split: option.splits if_splits)
  from assms(3) obtain r' where r': "r' \<in> set (maintenance_leases (w_db w))" "lease_live old ?t r'"
    unfolding list_ex_iff by blast
  have "lease_name r = lease_name r'"
    using find_Some_in [OF r] r'(2) assms(4) by (simp add: acquirable_def lease_live_def issued_for_def)
  then have "r = r'"
    using assms(2) find_Some_in [OF r] r'(1) unfolding leases_distinct_def distinct_map inj_on_def by blast
  then show ?thesis
    using find_Some_in [OF r] r'(2) by (auto simp: acquirable_def lease_live_def issued_for_def split: option.splits)
qed

section \<open>Properties\<close>

lemma fenced_off:
  assumes "generation (ml_Name l) (w_db w) = Some g" and "ml_Generation l < g" and "leases_distinct (w_db w)"
    and "RunMaintenanceBatch E l b w = (r, w')"
  shows "\<not> br_owned r \<and> br_rows r = 0 \<and> w_db w' = w_db w"
proof -
  have "exec E (\<lambda>t u d. Inr (list_ex (lease_live l t) (maintenance_leases d), d)) (open_tx w) = (Inr v, w1) \<Longrightarrow> \<not> v" for v w1
    using superseded_not_live [OF assms(1-3)] by (auto simp: exec_run)
  with assms(4) show ?thesis
    by (auto simp: RunMaintenanceBatch_def no_batch_def Let_def split: if_splits prod.splits sum.splits)
qed

text \<open>
  C40. Fencing: another process can take a lease over only when it is no longer live by the
  database's clock (expired or released); and once a lease has been taken over, its old holder
  can do no more cleanup, ever: in every later state, whatever all processes did in between, its
  batches are not run, report that the lease is not owned, and leave the database as it is, and
  renewing it fails.
\<close>

theorem lease_fencing:
  assumes "TryAcquireMaintenanceLease E1 n o1 d1 w0 = (Inr (Some old), w1)" and "lease_step\<^sup>*\<^sup>* w1 w2"
    and "TryAcquireMaintenanceLease E2 n o2 d2 w2 = (Inr (Some new), w3)" and "lease_step\<^sup>*\<^sup>* w3 w4"
    and "leases_distinct (w_db w0)"
  shows "(o2 \<noteq> o1 \<longrightarrow> \<not> list_ex (lease_live old (o_dbnow E2 (w_step w2))) (maintenance_leases (w_db w2)))
    \<and> (\<forall>E b r w5. RunMaintenanceBatch E old b w4 = (r, w5) \<longrightarrow> \<not> br_owned r \<and> br_rows r = 0 \<and> w_db w5 = w_db w4)
    \<and> (\<forall>E d l w5. RenewMaintenanceLease E old d w4 \<noteq> (Inr (Some l), w5))"
proof -
  note first = acquired [OF assms(1,5)]
  have d1: "leases_distinct (w_db w1)" using first(1) assms(5) by (simp add: leases_grow_distinct)
  have grow12: "leases_grow (w_db w1) (w_db w2)" by (rule lease_steps_grow [OF assms(2)])
  then have d2: "leases_distinct (w_db w2)" using d1 by (simp add: leases_grow_distinct)
  note second = acquired [OF assms(3) d2]
  obtain g where "ml_Generation old \<le> g" "generation n (w_db w2) = Some g"
    using generation_grows [OF grow12 first(3)] by blast
  with second(2) have less: "ml_Generation old < ml_Generation new" by simp
  have grow34: "leases_grow (w_db w3) (w_db w4)" by (rule lease_steps_grow [OF assms(4)])
  obtain g' where g': "ml_Generation new \<le> g'" "generation (ml_Name old) (w_db w4) = Some g'"
    using generation_grows [OF grow34 second(3)] first(4) by auto
  have d4: "leases_distinct (w_db w4)" using grow34 second(1) d2 by (simp add: leases_grow_distinct)
  have older: "ml_Generation old < g'" using less g'(1) by simp
  have "find (lease_live old t) (maintenance_leases (w_db w4)) = None" for t
    using superseded_not_live(2) [OF g'(2) older d4, of t] by (simp add: find_None_iff list_ex_iff)
  then have "RenewMaintenanceLease E old d w4 \<noteq> (Inr (Some l), w5)" for E d l and w5 :: world
    by (auto simp: RenewMaintenanceLease_def exec_run Let_def)
  moreover have "o2 = o1" if "list_ex (lease_live old (o_dbnow E2 (w_step w2))) (maintenance_leases (w_db w2))"
    using live_not_acquired [OF assms(3) d2 that] first(4,5) by simp
  ultimately show ?thesis using fenced_off [OF g'(2) older d4] by blast
qed

theorem lease_fencing_witness:
  "\<exists>old w1 new w3. TryAcquireMaintenanceLease demo_env CleanupLeaseName 7 10 demo_world = (Inr (Some old), w1)
     \<and> TryAcquireMaintenanceLease demo_env CleanupLeaseName 8 10 (w1\<lparr>w_step := 100\<rparr>) = (Inr (Some new), w3)
     \<and> (\<forall>E b r w5. RunMaintenanceBatch E old b w3 = (r, w5) \<longrightarrow> \<not> br_owned r)"
proof -
  let ?w2 = "\<lambda>w1. w1\<lparr>w_step := 100\<rparr>"
  obtain old w1 new w3 where run: "TryAcquireMaintenanceLease demo_env CleanupLeaseName 7 10 demo_world = (Inr (Some old), w1)"
    "TryAcquireMaintenanceLease demo_env CleanupLeaseName 8 10 (w1\<lparr>w_step := 100\<rparr>) = (Inr (Some new), w3)"
    by (simp add: TryAcquireMaintenanceLease_def bnd_def ret_def exec_def sql_problem_def demo_defs CleanupLeaseName_def
        acquirable_def take_lease_def returned_lease_def upd_where_def tick_def)
  have "lease_step w1 (w1\<lparr>w_step := 100\<rparr>)"
    by (rule lease_step.other [where m = "\<lambda>w. (Inr (), w\<lparr>w_step := 100\<rparr>)"])
      (auto simp: keeps_leases_def keeps_def with_leases_def)
  moreover have "leases_distinct (w_db demo_world)" by (simp add: leases_distinct_def demo_defs)
  ultimately show ?thesis
    using lease_fencing [OF run(1) _ run(2) rtranclp.rtrancl_refl] run by blast
qed

section \<open>The scheduler's choice\<close>

lemma earliest_least:
  assumes "best < length ts" and "\<forall>k<i. k < length ts \<longrightarrow> ts ! best \<le> ts ! k"
  shows "earliest ts best i < length ts \<and> (\<forall>k<length ts. ts ! earliest ts best i \<le> ts ! k)"
  using assms
proof (induction ts best i rule: earliest.induct)
  case (1 ts best i)
  show ?case
  proof (cases "length ts \<le> i")
    case True
    then show ?thesis using 1(2,3) by (subst (1 2) earliest.simps) auto
  next
    case False
    let ?b = "if ts ! i < ts ! best then i else best"
    have "?b < length ts" "\<forall>k<Suc i. k < length ts \<longrightarrow> ts ! ?b \<le> ts ! k"
      using 1(2,3) False by (auto simp: less_Suc_eq intro: order_trans less_imp_le)
    from 1(1) [OF False this] show ?thesis using False by (subst (1 2) earliest.simps) simp
  qed
qed

text \<open>No job starves behind another one: the scheduler takes one whose time is the earliest.\<close>

lemma next_job_least:
  assumes "ts \<noteq> []"
  shows "next_job ts < length ts \<and> (\<forall>k<length ts. ts ! next_job ts \<le> ts ! k)"
  unfolding next_job_def by (rule earliest_least) (use assms in \<open>auto simp: less_Suc_eq\<close>)

end
