(* ===== verification/Method_Proofs.thy ===== *)
theory Method_Proofs
  imports Account_Proofs
begin

text \<open>
  The ways a user can sign in (\<open>auth_methods\<close> of theory Store_Auth), and the effect of the
  statements and services on their number: nothing but the guarded removals takes one away.
\<close>

section \<open>At least so many ways to sign in\<close>

text \<open>The unique keys of the two tables hold, and the user has at least \<open>n\<close> ways.\<close>

definition methods_ok :: "nat \<Rightarrow> uuid \<Rightarrow> db \<Rightarrow> bool" where
  "methods_ok n u d \<longleftrightarrow> distinct (map (\<lambda>p. (prv_user p, prv_provider p)) (auth_providers d))
     \<and> distinct (map pk_id (passkeys d)) \<and> n \<le> auth_methods u d"

definition method_tables :: "db \<Rightarrow> auth_provider list \<times> passkey list" where
  "method_tables d = (auth_providers d, passkeys d)"

lemma methods_ok_tables: "method_tables d' = method_tables d \<Longrightarrow> methods_ok n u d' = methods_ok n u d"
  by (simp add: methods_ok_def auth_methods_def method_tables_def)

lemma keeps_methods: "leaves method_tables m \<Longrightarrow> keeps (methods_ok n u) m"
  by (rule keepsI) (metis leavesD methods_ok_tables)

lemma methods_of_accounts: "leaves accounts m \<Longrightarrow> keeps (methods_ok n u) m"
  by (erule keeps_of_accounts, frule accounts_eqD(3), drule accounts_eqD(4))
    (simp add: methods_ok_def auth_methods_def)

lemma methods_ok_mono: "methods_ok n u d \<Longrightarrow> k \<le> n \<Longrightarrow> methods_ok k u d"
  by (simp add: methods_ok_def)

lemma count_where_append: "count_where p (xs @ ys) = count_where p xs + count_where p ys"
  by (simp add: count_where_def)

lemma count_where_le: "(\<And>x. x \<in> set xs \<Longrightarrow> p x \<Longrightarrow> q x) \<Longrightarrow> count_where p xs \<le> count_where q xs"
  unfolding count_where_def by (induction xs) auto

lemma methods_append:
  assumes "methods_ok n u d" and "find_provider (prv_provider r) (prv_user r) d = None"
  shows "methods_ok n u (d\<lparr>auth_providers := auth_providers d @ [r]\<rparr>)"
  using assms by (auto simp: methods_ok_def auth_methods_def count_where_append find_provider_def find_None_iff)

lemma methods_append_passkey:
  assumes "methods_ok n u d" and "pk_id r \<notin> pk_id ` set (passkeys d)"
  shows "methods_ok n u (d\<lparr>passkeys := passkeys d @ [r]\<rparr>)"
  using assms by (auto simp: methods_ok_def auth_methods_def count_where_append)

text \<open>A row that is rewritten keeps its key, and is as usable as before.\<close>

lemma methods_upd_providers:
  assumes "methods_ok n u d"
    and "\<And>r. prv_user (f r) = prv_user r" "\<And>r. prv_provider (f r) = prv_provider r"
    and "\<And>r. q r \<Longrightarrow> usable_provider r \<Longrightarrow> usable_provider (f r)"
  shows "methods_ok n u (d\<lparr>auth_providers := upd_where q f (auth_providers d)\<rparr>)"
proof -
  have "count_where (\<lambda>p. prv_user p = u \<and> usable_provider p) rs
      \<le> count_where (\<lambda>p. prv_user p = u \<and> usable_provider p) (upd_where q f rs)" for rs
    using assms(2-4) by (induction rs) (auto simp: count_where_def upd_where_def)
  from this [of "auth_providers d"] show ?thesis
    using assms(1) map_upd_where_same [where k = "\<lambda>p. (prv_user p, prv_provider p)" and f = f and p = q
        and rs = "auth_providers d"] assms(2,3)
    by (simp add: methods_ok_def auth_methods_def)
qed

lemma methods_upd_passkeys:
  assumes "methods_ok n u d" and "\<And>r. pk_id (f r) = pk_id r" "\<And>r. pk_user (f r) = pk_user r"
    and "\<And>r. pk_restricted_at (f r) = pk_restricted_at r"
  shows "methods_ok n u (d\<lparr>passkeys := upd_where q f (passkeys d)\<rparr>)"
proof -
  have "count_where (\<lambda>p. pk_user p = u \<and> pk_restricted_at p = None) (upd_where q f rs)
      = count_where (\<lambda>p. pk_user p = u \<and> pk_restricted_at p = None) rs" for rs
    using assms(2-4) by (induction rs) (auto simp: count_where_def upd_where_def)
  then show ?thesis
    using assms(1) map_upd_where_same [where k = pk_id and f = f and p = q and rs = "passkeys d"] assms(2)
    by (simp add: methods_ok_def auth_methods_def)
qed

section \<open>A row that is deleted\<close>

lemma count_del_where: "count_where p (del_where q rs) + count_where (\<lambda>r. p r \<and> q r) rs = count_where p rs"
  by (induction rs) (auto simp: count_where_def del_where_def)

lemma count_unique:
  assumes "distinct (map k rs)" and "\<And>r. r \<in> set rs \<Longrightarrow> p r \<Longrightarrow> k r = v"
  shows "count_where p rs \<le> 1"
proof (cases "filter p rs")
  case (Cons r rest)
  have "distinct (map k (filter p rs))" using assms(1) by (simp add: distinct_map_filter)
  moreover have "k x = v" if "x \<in> set (filter p rs)" for x using that assms(2) by simp
  ultimately have "rest = []"
    unfolding Cons by (cases rest) (auto simp: Cons)
  then show ?thesis by (simp add: count_where_def Cons)
qed (simp add: count_where_def)

lemma methods_del_providers:
  assumes ok: "methods_ok (Suc n) u d" and q: "\<And>p. q p \<longleftrightarrow> prv_user p = v \<and> prv_provider p = prov"
  shows "methods_ok n u (cascade_providers q d)"
proof -
  have "count_where (\<lambda>p. (prv_user p = u \<and> usable_provider p) \<and> q p) (auth_providers d) \<le> 1"
    using ok by (intro count_unique [where k = "\<lambda>p. (prv_user p, prv_provider p)" and v = "(v, prov)"])
      (auto simp: methods_ok_def q)
  with count_del_where [of "\<lambda>p. prv_user p = u \<and> usable_provider p" q "auth_providers d"] ok show ?thesis
    by (auto simp: methods_ok_def auth_methods_def cascade_providers_def del_where_def distinct_map_filter)
qed

lemma count_del_none: "(\<And>r. p r \<Longrightarrow> \<not> q r) \<Longrightarrow> count_where p (del_where q rs) = count_where p rs"
  by (induction rs) (auto simp: count_where_def del_where_def)

lemma methods_del_other_providers:
  assumes "methods_ok n u d" and "\<And>p. q p \<Longrightarrow> prv_user p \<noteq> u"
  shows "methods_ok n u (cascade_providers q d)"
proof -
  have "count_where (\<lambda>p. prv_user p = u \<and> usable_provider p) (del_where q (auth_providers d))
      = count_where (\<lambda>p. prv_user p = u \<and> usable_provider p) (auth_providers d)"
    using assms(2) by (intro count_del_none) auto
  then show ?thesis
    using assms(1) by (simp add: methods_ok_def auth_methods_def cascade_providers_def del_where_def distinct_map_filter)
qed

lemma methods_del_passkeys:
  assumes ok: "methods_ok n u d"
    and c: "count_where (\<lambda>r. (pk_user r = u \<and> pk_restricted_at r = None) \<and> q r) (passkeys d) \<le> k"
  shows "methods_ok (n - k) u (d\<lparr>passkeys := del_where q (passkeys d)\<rparr>)"
  using count_del_where [of "\<lambda>r. pk_user r = u \<and> pk_restricted_at r = None" q "passkeys d"] ok c
  by (auto simp: methods_ok_def auth_methods_def del_where_def distinct_map_filter)

section \<open>The statements\<close>

lemma methods_CreateAuthProvider [keeps_intro]: "keeps (methods_ok n u) (CreateAuthProvider E p)"
  unfolding CreateAuthProvider_def Let_def
  by (intro keeps_exec) (auto simp: methods_append split: if_splits)

lemma methods_CreatePasskey: "keeps (methods_ok n u) (CreatePasskey E p)"
  unfolding CreatePasskey_def Let_def
  by (intro keeps_intro keeps_exec) (auto simp: methods_append_passkey split: if_splits)

lemma methods_set_password: "h \<noteq> [] \<Longrightarrow> keeps (methods_ok n u) (set_password E q v h)"
  unfolding set_password_def Let_def
  by (intro keeps_exec)
    (auto simp: usable_provider_def fit_def varchar_def split: if_splits intro!: methods_upd_providers)

lemma methods_UpdateAuthProviderIdentity:
  "s \<noteq> [] \<Longrightarrow> keeps (methods_ok n u) (UpdateAuthProviderIdentity E v prov s)"
  unfolding UpdateAuthProviderIdentity_def Let_def
  by (intro keeps_intro keeps_exec)
    (auto simp: usable_provider_def fit_def varchar_def split: if_splits intro!: methods_upd_providers)

lemma methods_UpdatePasskeyAfterLogin [keeps_intro]:
  "keeps (methods_ok n u) (UpdatePasskeyAfterLogin E c sc cw now)"
  unfolding UpdatePasskeyAfterLogin_def Let_def
  by (intro keeps_intro keeps_exec_count) (auto intro!: methods_upd_passkeys)

lemma methods_apple [keeps_intro]:
  "keeps (methods_ok n u) (UpsertAppleCredential E c i)" "keeps (methods_ok n u) (DeleteAppleTokenRevocation E i)"
  "keeps (methods_ok n u) (CreateAppleTokenRevocationForUser E i v)"
  unfolding UpsertAppleCredential_def DeleteAppleTokenRevocation_def CreateAppleTokenRevocationForUser_def
    ensure_one_row_def Let_def
  by (intro keeps_intro keeps_exec keeps_exec_count;
      auto simp: methods_ok_def auth_methods_def insert_revocation_def split: if_splits option.splits)+

section \<open>Guarded removals\<close>

text \<open>An operation that may take one of the ways away.\<close>

definition turns :: "(db \<Rightarrow> bool) \<Rightarrow> (db \<Rightarrow> bool) \<Rightarrow> 'a M \<Rightarrow> bool" where
  "turns J K m \<longleftrightarrow> (\<forall>w. J (w_db w) \<longrightarrow> K (w_db (snd (m w))))"

lemma turns_after: "keeps J m \<Longrightarrow> (\<And>d. J d \<Longrightarrow> K d) \<Longrightarrow> (\<And>x. turns J K (f x)) \<Longrightarrow> turns J K (bnd m f)"
  unfolding turns_def bnd_def by (fastforce split: prod.splits sum.splits dest: keepsD)

lemma turnsD: "turns J K m \<Longrightarrow> J (w_db w) \<Longrightarrow> m w = (r, w') \<Longrightarrow> K (w_db w')"
  unfolding turns_def by (metis snd_conv)

lemma turns_before:
  assumes "turns J K m" and "\<And>x. keeps K (f x)"
  shows "turns J K (bnd m f)"
  unfolding turns_def
proof (intro allI impI)
  fix w :: world
  assume "J (w_db w)"
  then show "K (w_db (snd (bnd m f w)))"
    using assms turnsD [OF assms(1)] keepsD [OF assms(2)]
    by (cases "m w", cases "fst (m w)") (auto simp: bnd_def split: prod.splits, metis prod.collapse)
qed

lemma turns_keeps: "keeps J m \<Longrightarrow> (\<And>d. J d \<Longrightarrow> K d) \<Longrightarrow> turns J K m"
  unfolding turns_def by (metis keepsD prod.collapse)

lemma methods_DeleteProvider:
  "turns (methods_ok (Suc n) u) (methods_ok n u) (DeleteAuthProviderByMethodAndUserID E prov v)"
  unfolding turns_def DeleteAuthProviderByMethodAndUserID_def require_affected_def exec_count_def exec_def Let_def
  by (auto simp: bnd_def guard_err_def fail_def ret_def sql_fail_def
      intro: methods_del_providers methods_ok_mono split: option.splits)

lemma methods_DeleteOtherProvider:
  "v \<noteq> u \<Longrightarrow> keeps (methods_ok n u) (DeleteAuthProviderByMethodAndUserID E prov v)"
  unfolding DeleteAuthProviderByMethodAndUserID_def Let_def
  by (intro keeps_intro keeps_exec_count) (auto intro: methods_del_other_providers)

lemma keeps_methods_guarded:
  assumes "turns (methods_ok 2 u) (methods_ok 1 u) rest"
  shows "keeps (methods_ok 1 u) (bnd (LockUserForAuthMethodMutation E u) (\<lambda>_. bnd (CountAuthMethods E u) (\<lambda>count.
    if count \<le> 1 then fail e else rest)))"
proof (rule keepsI)
  fix w r w'
  let ?m = "bnd (LockUserForAuthMethodMutation E u) (\<lambda>_. bnd (CountAuthMethods E u) (\<lambda>count.
    if count \<le> 1 then fail e else rest))"
  assume J: "methods_ok 1 u (w_db w)" and eq: "?m w = (r, w')"
  have rest: "wp rest (\<lambda>_ w'. methods_ok 1 u (w_db w')) (\<lambda>_ w'. methods_ok 1 u (w_db w')) w1"
    if "w_db w1 = w_db w" and "\<not> auth_methods u (w_db w) \<le> 1" for w1
  proof -
    have "methods_ok 2 u (w_db w1)" using J that by (simp add: methods_ok_def)
    with assms have "methods_ok 1 u (w_db (snd (rest w1)))" by (auto simp: turns_def)
    then show ?thesis by (cases "rest w1") (auto intro: wpI)
  qed
  have "wp ?m (\<lambda>_ w'. methods_ok 1 u (w_db w')) (\<lambda>_ w'. methods_ok 1 u (w_db w')) w"
    unfolding LockUserForAuthMethodMutation_def LockUserForUpdate_def CountAuthMethods_def
    using J by (auto simp: wps simp del: One_nat_def intro!: rest)
  then show "methods_ok 1 u (w_db w')" using eq by (auto simp: wp_def split: sum.splits)
qed

lemma methods_reset [keeps_intro]: "keeps (methods_ok n u) (DeletePendingPasswordResetsByUserID E v)"
  "keeps (methods_ok n u) (Enqueue E to tpl dat now)" "keeps (methods_ok n u) (recordCredential E rc ty ce)"
  "keeps (methods_ok n u) (recordAuthentication E rc ty ae)" "keeps (methods_ok n u) (PasskeyCloneWarning E rc pc)"
  "keeps (methods_ok n u) (RevokeUserTokens E R v now)" "keeps (methods_ok n u) (RevokeSessionTokens E R s now)"
  "keeps (methods_ok n u) (RevokeAllSessionsForUser E v now)" "keeps (methods_ok n u) (DeleteRefreshTokensByUserID E v)"
  "keeps (methods_ok n u) (RevokeOtherSessionsByUserID E v s now)"
  "keeps (methods_ok n u) (DeleteRefreshTokensForOtherSessions E v s)"
  "keeps (methods_ok n u) (UpdateSessionAuthentication E v s am now)"
  "keeps (methods_ok n u) (ConsumePendingProviderLink E i now)"
  "keeps (methods_ok n u) (UpdatePendingProviderLinkOAuthIdentity E i a b vf)"
  "keeps (methods_ok n u) (ConsumeWebAuthnChallenge E i now)"
  "keeps (methods_ok n u) (MarkUserEmailVerified E v a now)"
  "keeps J (LockUserForUpdate E v)" "keeps J (LockUserForAuthMethodMutation E v)" "keeps J (CountAuthMethods E v)"
  "keeps J (GetPasskeyByID E i)" "keeps J (GetAuthProviderByMethodAndUserID E prov v)"
  "keeps J (GetAuthProviderByMethodAndUserIDForUpdate E prov v)"
  "keeps J (GetAuthProviderByProviderAndProviderUserID E prov subj)" "keeps J (GetPasskeyByCredentialID E cid)"
  by ((intro methods_of_accounts leaves_intro) |
    (simp add: LockUserForUpdate_def LockUserForAuthMethodMutation_def CountAuthMethods_def GetPasskeyByID_def
      GetAuthProviderByMethodAndUserID_def GetAuthProviderByMethodAndUserIDForUpdate_def
      GetAuthProviderByProviderAndProviderUserID_def GetPasskeyByCredentialID_def keeps_intro))+

lemma methods_UnlinkAuthProvider: "keeps (methods_ok 1 u) (UnlinkAuthProvider E A v prov)"
proof (cases "v = u")
  case True
  show ?thesis
    unfolding UnlinkAuthProvider_def True enqueueAuthMethodChanged_def CredentialProviderRemoved_def
  proof (rule keeps_with_tx, rule keeps_methods_guarded)
    have two: "methods_ok 2 u d \<Longrightarrow> methods_ok 1 u d" for d by (simp add: methods_ok_def)
    have del: "turns (methods_ok 2 u) (methods_ok 1 u) (DeleteAuthProviderByMethodAndUserID E prov u)"
      using methods_DeleteProvider [of 1 u E prov u] by (simp add: numeral_2_eq_2)
    show "turns (methods_ok 2 u) (methods_ok 1 u) (bnd (GetUserByID E u) (\<lambda>user.
      bnd (if prov = ProviderApple then bnd (new_uuid E) (\<lambda>i. ignoring (EStore ErrorAuthProviderNotFound)
          (CreateAppleTokenRevocationForUser E i u)) else ret ()) (\<lambda>_.
      bnd (DeleteAuthProviderByMethodAndUserID E prov u) (\<lambda>_.
      bnd (if prov = ProviderPassword then DeletePendingPasswordResetsByUserID E u else ret ()) (\<lambda>_.
      bnd (now_utc E) (\<lambda>now.
      bnd (Enqueue E (usr_email user) EmailTemplateAuthMethodRemoved
        [(TemplateVariableAuthMethod, prov), (TemplateVariableOccurredAt, OccurredAt E now)] now) (\<lambda>_.
      recordCredential E (as_events A) SecurityEventCredentialProviderRemoved (user_credential u None prov)))))))) "
      by (rule turns_after, intro keeps_intro, erule two, rule turns_after, intro keeps_intro, erule two,
          rule turns_before [OF del], intro keeps_intro)
  qed
next
  case False
  then show ?thesis
    unfolding UnlinkAuthProvider_def enqueueAuthMethodChanged_def CredentialProviderRemoved_def
    by (intro keeps_intro methods_DeleteOtherProvider)
qed

lemma wp_keeps2: "keeps J m \<Longrightarrow> J (w_db w) \<Longrightarrow> wp m (\<lambda>_ w'. J (w_db w')) (\<lambda>_ w'. J (w_db w')) w"
  by (auto simp: wp_def split: prod.splits sum.splits dest: keepsD)

lemma methods_deleted_passkey:
  assumes ok: "methods_ok 1 u d" and p: "find (\<lambda>r. pk_id r = i) (passkeys d) = Some p"
    and g: "v = u \<Longrightarrow> pk_restricted_at p = None \<Longrightarrow> \<not> auth_methods u d \<le> 1"
  shows "methods_ok 1 u (d\<lparr>passkeys := del_where (\<lambda>r. pk_id r = i \<and> pk_user r = v) (passkeys d)\<rparr>)"
proof -
  let ?hit = "\<lambda>r. (pk_user r = u \<and> pk_restricted_at r = None) \<and> pk_id r = i \<and> pk_user r = v"
  have dist: "distinct (map pk_id (passkeys d))" using ok by (simp add: methods_ok_def)
  have pin: "p \<in> set (passkeys d)" "pk_id p = i" using p by (auto simp: find_Some_iff)
  have only: "r = p" if "r \<in> set (passkeys d)" "pk_id r = i" for r
    using dist that pin by (simp add: distinct_map inj_on_def)
  show ?thesis
  proof (cases "v = u \<and> pk_restricted_at p = None")
    case True
    then have "methods_ok 2 u d" using ok g by (simp add: methods_ok_def)
    moreover have "count_where ?hit (passkeys d) \<le> 1" by (rule count_unique [OF dist]) simp
    ultimately show ?thesis by (drule_tac methods_del_passkeys) (assumption, simp)
  next
    case False
    have "count_where ?hit (passkeys d) \<le> 0"
      using False only by (auto simp: count_where_def filter_empty_conv)
    from methods_del_passkeys [OF ok this] show ?thesis by simp
  qed
qed

lemma keeps_methods_passkey:
  assumes "\<And>user p. keeps (methods_ok 1 u) (rest user p)"
  shows "keeps (methods_ok 1 u) (bnd (LockUserForAuthMethodMutation E v) (\<lambda>_.
      bnd (GetUserByID E v) (\<lambda>user.
      bnd (map_err h (GetPasskeyByID E i)) (\<lambda>p.
      if pk_user p \<noteq> v then fail e1
      else
      bnd (CountAuthMethods E v) (\<lambda>count.
      if pk_restricted_at p = None \<and> count \<le> 1 then fail e2
      else bnd (map_err h (DeletePasskeyByIDAndUserID E i v)) (\<lambda>_. rest user p))))))"
    (is "keeps ?J ?m")
proof (rule keepsI)
  fix w r w'
  assume J: "?J (w_db w)" and eq: "?m w = (r, w')"
  have "wp ?m (\<lambda>_ w'. ?J (w_db w')) (\<lambda>_ w'. ?J (w_db w')) w"
    unfolding LockUserForAuthMethodMutation_def LockUserForUpdate_def CountAuthMethods_def GetUserByID_def
      GetPasskeyByID_def DeletePasskeyByIDAndUserID_def Let_def
    using J
    by (auto simp: wps simp del: One_nat_def intro!: wp_keeps2 [OF assms] methods_deleted_passkey)
  then show "?J (w_db w')" using eq by (auto simp: wp_def split: sum.splits)
qed

lemma methods_DeletePasskey: "keeps (methods_ok 1 u) (DeletePasskey E P v i)"
  unfolding DeletePasskey_def CredentialPasskeyRemoved_def
  by (rule keeps_with_tx, rule keeps_methods_passkey) (intro keeps_intro)

section \<open>The other services\<close>

lemma methods_AddPassword: "keeps (methods_ok n u) (AddPassword E A v h)"
  unfolding AddPassword_def enqueueAuthMethodChanged_def CredentialPasswordAdded_def by (intro keeps_intro)

lemma methods_ChangePassword: "h \<noteq> [] \<Longrightarrow> keeps (methods_ok n u) (ChangePassword E A v s pw h)"
  unfolding ChangePassword_def auth_enqueuePasswordChanged_def CredentialPasswordChanged_def UpdatePasswordHash_def
    GetActiveSessionByIDForUpdate_def ListActiveSessionsByUserID_def ListActiveSessionsPageByUserID_def
  by (intro keeps_intro methods_set_password)

lemma methods_SetPassword:
  "account_quiet (as_publish A) \<Longrightarrow> keeps (methods_ok n u) (SetPassword E A v h now)"
  unfolding SetPassword_def auth_enqueuePasswordChanged_def CredentialPasswordAdded_def
  by (intro keeps_intro methods_of_accounts stays_auth_publish leaves_intro)

lemma methods_save_apple [keeps_intro]: "keeps (methods_ok n u) (save_apple E A v t)"
  unfolding save_apple_def apple_Save_def by (intro keeps_intro)

lemma methods_linkIdentity [keeps_intro]: "keeps (methods_ok n u) (linkExternalIdentityToUser E A v prov s)"
  unfolding linkExternalIdentityToUser_def CredentialProviderLinked_def by (intro keeps_intro)

lemma methods_verified [keeps_intro]: "keeps (methods_ok n u) (markCurrentEmailVerified E user a now)"
  unfolding markCurrentEmailVerified_def by (intro keeps_intro)

lemma methods_completeProviderLink:
  "keeps (methods_ok n u) (CompleteProviderLink E A l v s prov i a vf now)"
  "keeps (methods_ok n u) (CompleteAppleProviderLink E A l v s i a vf t now)"
  unfolding CompleteProviderLink_def CompleteAppleProviderLink_def completeProviderLink_def
    enqueueAuthMethodChanged_def GetPendingProviderLinkByID_def
  by (intro keeps_intro)+

text \<open>The identity of a recovery link is not empty.\<close>

lemma recovery_identity:
  assumes "recovery_link E i now w = (Inr (link, subj, a, user), w')"
  shows "subj \<noteq> []"
  using assms
  by (auto simp: recovery_link_def runs nonempty_text_def split: if_splits option.splits)

lemma keeps_recovery_link [keeps_intro]: "keeps J (recovery_link E i now)"
  unfolding recovery_link_def GetPendingProviderLinkByID_def by (intro keeps_intro)

lemma methods_unlinked [keeps_intro]: "keeps J (unlinked_identity E prov s)"
  unfolding unlinked_identity_def by (intro keeps_intro)

lemma methods_finish_recovery [keeps_intro]: "keeps (methods_ok n u) (finish_recovery E A link a user now)"
  unfolding finish_recovery_def PromoteProviderLink_def apple_Save_def enqueueAuthMethodChanged_def
    GetAppleTokenRevocationByIDForUpdate_def
  by (intro keeps_intro)

lemma keeps_recovery:
  assumes "\<And>link subj a user. subj \<noteq> [] \<Longrightarrow> keeps J (f (link, subj, a, user))"
  shows "keeps J (bnd (recovery_link E i now) f)"
proof (rule keeps_bnd_value [OF keeps_recovery_link])
  fix x and w w' :: world
  assume "recovery_link E i now w = (Inr x, w')"
  then show "keeps J (f x)" by (cases x) (auto intro: assms dest: recovery_identity)
qed

lemma methods_recovery:
  "keeps (methods_ok n u) (CompleteAccountRecoveryProviderLinkWithPassword E A i pw now)"
  "keeps (methods_ok n u) (CompleteAccountRecoveryProviderLinkWithProviderProof E A i prov subj now)"
proof -
  show "keeps (methods_ok n u) (CompleteAccountRecoveryProviderLinkWithPassword E A i pw now)"
    unfolding CompleteAccountRecoveryProviderLinkWithPassword_def by (intro keeps_intro)
  show "keeps (methods_ok n u) (CompleteAccountRecoveryProviderLinkWithProviderProof E A i prov subj now)"
    unfolding CompleteAccountRecoveryProviderLinkWithProviderProof_def CredentialProviderChanged_def
    by (rule keeps_if, rule keeps_fail, rule keeps_if, rule keeps_fail, rule keeps_with_tx, rule keeps_recovery,
        simp only: prod.case) (intro keeps_intro methods_UpdateAuthProviderIdentity)
qed

lemma keeps_sessions_webauthn [keeps_intro]:
  "keeps J (registrationSession E P v c now)" "keeps J (authenticationSession E P c now)"
  "keeps J (loadChallengeSession E P c now)" "keeps J (lookupUserByCredential E s)"
  "keeps J (active_session_of E v sid now)" "keeps J (ListPasskeysByUserID E v)"
  unfolding registrationSession_def authenticationSession_def loadChallengeSession_def lookupUserByCredential_def
    GetWebAuthnChallengeByIDForUpdate_def ListPasskeysByUserID_def ListPasskeysPageByUserID_def active_session_of_def
    GetActiveSessionByIDForUpdate_def GetActiveSessionByID_def
  by (intro keeps_intro)+

lemma methods_FinishRegistration: "keeps (methods_ok n u) (FinishRegistration E P v c response md)"
  unfolding FinishRegistration_def CredentialPasskeyAdded_def
  by (intro keeps_intro methods_CreatePasskey)

text \<open>
  Signing in by passkey may restrict the passkey (it looks cloned), which takes a way to sign in
  away. Otherwise it keeps them all: neither a row nor its owner changes. In the program what
  ends the sessions of a cloned passkey's user is \<open>RevokeAllSessions\<close> of the session service.
\<close>

definition revoker_of_sessions :: "passkey_service \<Rightarrow> bool" where
  "revoker_of_sessions P \<longleftrightarrow> px_sessionRevoker P = None
     \<or> (\<exists>E S. px_sessionRevoker P = Some (RevokeAllSessions E S))"

definition restrictions :: "db \<Rightarrow> time option list" where
  "restrictions d = map pk_restricted_at (passkeys d)"

definition rows_are :: "auth_provider list \<times> (uuid \<times> uuid) list \<Rightarrow> db \<Rightarrow> bool" where
  "rows_are K d \<longleftrightarrow> (auth_providers d, map (\<lambda>p. (pk_id p, pk_user p)) (passkeys d)) = K"

lemma rows_of_accounts: "leaves accounts m \<Longrightarrow> keeps (rows_are K) m"
  by (erule keeps_of_accounts, frule accounts_eqD(3), drule accounts_eqD(4)) (simp add: rows_are_def)

lemma rows_upd_passkeys:
  assumes "\<And>r. pk_id (f r) = pk_id r" "\<And>r. pk_user (f r) = pk_user r"
  shows "rows_are K (d\<lparr>passkeys := upd_where q f (passkeys d)\<rparr>) = rows_are K d"
  using map_upd_where_same [where k = "\<lambda>p. (pk_id p, pk_user p)" and f = f and p = q and rs = "passkeys d"] assms
  by (simp add: rows_are_def)

lemma methods_of_rows:
  assumes "methods_ok n u d" and "rows_are K d" "rows_are K d'" and "restrictions d' = restrictions d"
  shows "methods_ok n u d'"
proof -
  have count: "count_where (\<lambda>p. pk_user p = u \<and> pk_restricted_at p = None) ps
      = length (filter (\<lambda>(k, t). snd k = u \<and> t = None)
          (zip (map (\<lambda>p. (pk_id p, pk_user p)) ps) (map pk_restricted_at ps)))" for ps
    by (induction ps) (auto simp: count_where_def)
  have same: "map (\<lambda>p. (pk_id p, pk_user p)) (passkeys d') = map (\<lambda>p. (pk_id p, pk_user p)) (passkeys d)"
    "auth_providers d' = auth_providers d"
    using assms(2,3) by (auto simp: rows_are_def)
  then have "auth_methods u d' = auth_methods u d"
    using assms(4) unfolding auth_methods_def count restrictions_def by simp
  moreover have "map pk_id (passkeys d') = map pk_id (passkeys d)"
    using arg_cong [OF same(1), of "map fst"] by (simp add: comp_def)
  moreover note same(2)
  ultimately show ?thesis using assms(1) by (simp add: methods_ok_def)
qed

lemma accounts_recordSession [leaves_intro]: "leaves accounts (recordSession E rc ty se)"
  by (auto simp: leaves_def intro!: keeps_recorders keeps_intro)

lemma accounts_RevokeAllSessions: "leaves accounts (RevokeAllSessions E S v)"
  unfolding RevokeAllSessions_def SessionRevoked_def Let_def by (intro leaves_intro)

lemma rows_statements [keeps_intro]:
  "keeps (rows_are K) (ConsumeWebAuthnChallenge E i now)" "keeps (rows_are K) (Enqueue E to tpl dat now)"
  "keeps (rows_are K) (PasskeyCloneWarning E rc pc)" "keeps (rows_are K) (recordAuthentication E rc ty ae)"
  "keeps (rows_are K) (UpdateSessionAuthentication E v s am now)"
  "keeps (rows_are K) (RevokeAllSessions E S v)"
  by (intro rows_of_accounts accounts_RevokeAllSessions leaves_intro)+

lemma rows_passkey [keeps_intro]:
  "keeps (rows_are K) (UpdatePasskeyAfterLogin E c sc cw now)" "keeps (rows_are K) (RestrictPasskey E i now)"
  unfolding UpdatePasskeyAfterLogin_def RestrictPasskey_def Let_def
  by (intro keeps_intro keeps_exec_count; simp add: rows_upd_passkeys)+

lemma rows_authenticated [keeps_intro]:
  assumes "revoker_of_sessions P"
  shows "keeps (rows_are K) (applyAuthenticationResult E P user p c now)"
  using assms unfolding applyAuthenticationResult_def Let_def
  by (auto simp: revoker_of_sessions_def intro!: keeps_intro split: option.splits)

lemma rows_FinishLogin:
  assumes "revoker_of_sessions P"
  shows "keeps (rows_are K) (FinishLogin E P c response now)"
proof -
  have "keeps (rows_are K) (login_lookup E P c response now)"
    unfolding login_lookup_def by (intro keeps_intro)
  moreover have "keeps (rows_are K) (login_finish E P response now found)" for found
    unfolding login_finish_def by (intro keeps_intro assms)
  moreover have "keeps (rows_are K) (recordPasskeyAuthenticationDenied E P a b sid)" for a b sid
    unfolding recordPasskeyAuthenticationDenied_def AuthenticationLogin_def AuthenticationReauthenticated_def Let_def
    by (intro keeps_intro)
  ultimately have run: "keeps (rows_are K) (try_bnd
      (with_tx E (bnd (login_lookup E P c response now) (login_finish E P response now)))
      (\<lambda>e. if errors_is e authentication_invalid
        then bnd (recordPasskeyAuthenticationDenied E P a b None) (\<lambda>_. fail e) else fail e) ret)" for a b
    by (intro keeps_intro)
  show ?thesis
    by (rule keepsI, rule keepsD [OF run], assumption) (simp only: FinishLogin_def Let_def)
qed

lemma rows_FinishReauthentication:
  assumes "revoker_of_sessions P"
  shows "keeps (rows_are K) (FinishReauthentication E P v s c response now)"
  unfolding FinishReauthentication_def recordPasskeyAuthenticationDenied_def AuthenticationLogin_def
    AuthenticationReauthenticated_def Let_def
  by (intro keeps_intro assms)

lemma methods_passkey_run:
  assumes "\<And>K. keeps (rows_are K) m" and "m w = (r, w')" and "methods_ok n u (w_db w)"
    and "restrictions (w_db w') = restrictions (w_db w)"
  shows "methods_ok n u (w_db w')"
proof -
  define K where "K = (auth_providers (w_db w), map (\<lambda>p. (pk_id p, pk_user p)) (passkeys (w_db w)))"
  have "rows_are K (w_db w)" by (simp add: rows_are_def K_def)
  with assms show ?thesis by (blast intro: methods_of_rows dest: keepsD)
qed

lemma hashed_not_empty: "hashPassword E k pw w = (Inr h, w') \<Longrightarrow> h \<noteq> []"
  by (auto simp: hashPassword_def runs encodeHash_def)

lemma keeps_hashPassword [keeps_intro]: "keeps J (hashPassword E k pw)"
  unfolding hashPassword_def by (intro keeps_intro)

lemma keeps_upgraded:
  assumes "\<And>h. h \<noteq> [] \<Longrightarrow> keeps J (f h)"
  shows "keeps J (bnd (hashPassword E k pw) f)"
  by (rule keeps_bnd_value [OF keeps_hashPassword]) (auto intro: assms dest: hashed_not_empty)

lemma methods_upgrade_hash [keeps_intro]: "keeps (methods_ok n u) (upgrade_hash E idkey k v pw h vf)"
proof (induction k arbitrary: h vf)
  case (Suc k)
  show ?case
    unfolding upgrade_hash.simps CompareAndSwapPasswordHash_def
    by (rule keeps_if, rule keeps_fail, rule keeps_if, rule keeps_ret, rule keeps_upgraded)
      (intro keeps_intro methods_set_password Suc)
qed (simp add: keeps_intro)

lemma methods_password_login [keeps_intro]: "keeps (methods_ok n u) (loginWithPassword E A i)"
  unfolding loginWithPassword_def check_password_def upgradePasswordHashIfNeeded_def GetUserByEmailOrUsername_def
    GetUserByEmail_def Let_def
  by (intro keeps_intro methods_of_accounts [OF accounts_allowed])

lemma methods_CreateUser: "keeps (methods_ok n u) (CreateUser E new)"
  unfolding CreateUser_def Let_def
  by (intro keeps_exec) (auto simp: methods_ok_def auth_methods_def split: if_splits)

lemma methods_signing_in [keeps_intro]:
  "keeps (methods_ok n u) (ensureEmailAllowed E A a t i)" "keeps (methods_ok n u) (initial_organization E A p user s)"
  "keeps (methods_ok n u) (RecordLoginDenied E A am reason)"
  "keeps (methods_ok n u) (enqueueAccountCreated E user prov now)"
  "keeps (methods_ok n u) (EnsureUsername E nm a)" "keeps (methods_ok n u) (UserExistsByEmail E a)"
  "keeps (methods_ok n u) (login_known_identity E li q)"
  unfolding initial_organization_def RecordLoginDenied_def AuthenticationLogin_def enqueueAccountCreated_def
    EnsureUsername_def SecureFiveDigits_def login_known_identity_def auth_verified_now_def Let_def
  by (intro methods_of_accounts leaves_intro)+

lemma methods_quiet [keeps_intro]:
  assumes "account_quiet (as_publish A)" and "account_quiet (os_publish (as_organizations A))"
  shows "keeps (methods_ok n u) (acceptSignupInvitation E A t i v)"
    "keeps (methods_ok n u) (announce_user E A user ini now)"
  unfolding acceptSignupInvitation_def announce_user_def
  by (intro methods_of_accounts leaves_intro stays_auth_publish accounts_acceptInvitation assms)+

lemma methods_Signup_Login:
  assumes "account_quiet (as_publish A)" and "account_quiet (os_publish (as_organizations A))"
  shows "keeps (methods_ok n u) (Signup E A si)" "keeps (methods_ok n u) (Login E A i)"
    "keeps (methods_ok n u) (LoginWithApple E A i t)"
  unfolding Signup_def signupWithPassword_def Login_def LoginWithApple_def loginWithExternal_def
    loginWithExternalIdentity_def login_new_identity_def Let_def
  by (intro keeps_intro methods_CreateUser assms)+

end
