(* ===== verification/Deletion_Proofs.thy ===== *)
theory Deletion_Proofs
  imports Account_Proofs
begin

text \<open>
  What is left of a user after \<open>DeleteUser\<close>: nothing under the id, nothing under the
  address, and the Apple token in the queue of tokens to revoke.
\<close>

section \<open>What is left\<close>

text \<open>
  No row belongs to the user and no column with a reference to \<open>users\<close> holds the id. Two
  tables keep ids without a reference, on purpose, and are not in the list:
  \<open>security_events\<close> (migration 030 drops the foreign keys so that the trail outlives the
  account) and the payloads of \<open>webhook_events\<close>, \<open>user.deleted\<close> among them.
\<close>

definition no_rows_of :: "uuid \<Rightarrow> db \<Rightarrow> bool" where
  "no_rows_of u d \<longleftrightarrow> u \<notin> usr_id ` set (users d) \<and> u \<notin> fst ` set (user_roles d)
     \<and> u \<notin> prv_user ` set (auth_providers d) \<and> u \<notin> pk_user ` set (passkeys d)
     \<and> u \<notin> ses_user ` set (sessions d) \<and> u \<notin> mem_user ` set (memberships d)
     \<and> u \<notin> ac_user ` set (auth_challenges d) \<and> u \<notin> pr_user ` set (pending_resets d)
     \<and> u \<notin> pe_user ` set (pending_email_changes d) \<and> u \<notin> ev_user ` set (email_verifications d)
     \<and> u \<notin> pl_user ` set (provider_links d) \<and> Some u \<notin> wc_user ` set (webauthn_challenges d)
     \<and> Some u \<notin> org_created_by ` set (organizations d)
     \<and> Some u \<notin> inv_invited_by ` set (invitations d) \<and> Some u \<notin> inv_accepted_by ` set (invitations d)
     \<and> Some u \<notin> inv_revoked_by ` set (invitations d)
     \<and> Some u \<notin> aa_actor ` set (admin_audit_events d) \<and> Some u \<notin> aa_target_user ` set (admin_audit_events d)"

definition no_address :: "string \<Rightarrow> db \<Rightarrow> bool" where
  "no_address a d \<longleftrightarrow> (\<forall>v\<in>set (invitations d). to_lower (inv_email v) \<noteq> a)
     \<and> (\<forall>r\<in>set (allowed_emails d). to_lower (al_email r) \<noteq> a)
     \<and> (\<forall>j\<in>set (email_jobs d). to_lower (ej_to_email j) \<noteq> a)
     \<and> (\<forall>p\<in>set (pending_signups d). to_lower (ps_email p) \<noteq> a)
     \<and> (\<forall>p\<in>set (pending_email_changes d). to_lower (pe_old_email p) \<noteq> a \<and> to_lower (pe_new_email p) \<noteq> a)
     \<and> (\<forall>l\<in>set (provider_links d). map_option to_lower (pl_provider_email l) \<noteq> Some a)
     \<and> (\<forall>c\<in>set (challenges d). to_lower (ch_email c) \<noteq> a)
     \<and> (\<forall>e\<in>set (admin_audit_events d). map_option to_lower (aa_target_email e) \<noteq> Some a)"

definition token_queued :: "apple_credential \<Rightarrow> db \<Rightarrow> bool" where
  "token_queued c d \<longleftrightarrow> (\<exists>r\<in>set (apple_revocations d). apr_provider r = Some (apc_provider c)
     \<and> apr_context r = apc_provider c \<and> apr_key_id r = apc_key_id c \<and> apr_token r = apc_token c)"

definition tokens_queued :: "apple_credential list \<Rightarrow> db \<Rightarrow> bool" where
  "tokens_queued cs d \<longleftrightarrow> (\<forall>c\<in>set cs. token_queued c d)"

lemma keeps_NewUserDeleted: "keeps J (NewUserDeleted E u now)"
  by (simp add: NewUserDeleted_def Let_def keeps_intro)

section \<open>The statements\<close>

lemma upd_step:
  assumes "P (w_db w)" and "\<And>t d. P d \<Longrightarrow> P' (f t d)"
  shows "wp (exec_upd E f) (\<lambda>_ w'. P' (w_db w')) any_error w"
  using assms by (auto simp: wps)

lemma exec_step:
  assumes "P (w_db w)" and "\<And>t u d x d'. P d \<Longrightarrow> f t u d = Inr (x, d') \<Longrightarrow> P' d'"
  shows "wp (exec E f) (\<lambda>_ w'. P' (w_db w')) any_error w"
  using assms by (auto simp: wp_exec split: sum.splits)

lemma checked_update: "(if b then Inl e else Inr (x, d)) = Inr (y, d') \<Longrightarrow> P d \<Longrightarrow> P d'"
  by (simp split: if_splits)

lemma erased_address:
  assumes "CanonicalEmail email \<noteq> []"
  shows "wp (DeleteUserEmailReferences E u email) (\<lambda>_ w'. no_address (CanonicalEmail email) (w_db w')) any_error w"
proof -
  let ?a = "CanonicalEmail email"
  let ?P1 = "\<lambda>d. \<forall>v\<in>set (invitations d). to_lower (inv_email v) \<noteq> ?a"
  let ?P2 = "\<lambda>d. ?P1 d \<and> (\<forall>r\<in>set (allowed_emails d). to_lower (al_email r) \<noteq> ?a)"
  let ?P3 = "\<lambda>d. ?P2 d \<and> (\<forall>j\<in>set (email_jobs d). to_lower (ej_to_email j) \<noteq> ?a)"
  let ?P4 = "\<lambda>d. ?P3 d \<and> (\<forall>p\<in>set (pending_signups d). to_lower (ps_email p) \<noteq> ?a)"
  let ?P5 = "\<lambda>d. ?P4 d \<and> (\<forall>p\<in>set (pending_email_changes d). to_lower (pe_old_email p) \<noteq> ?a
     \<and> to_lower (pe_new_email p) \<noteq> ?a)"
  let ?P6 = "\<lambda>d. ?P5 d \<and> (\<forall>l\<in>set (provider_links d). map_option to_lower (pl_provider_email l) \<noteq> Some ?a)"
  let ?P7 = "\<lambda>d. ?P6 d \<and> (\<forall>c\<in>set (challenges d). to_lower (ch_email c) \<noteq> ?a)"
  have challenges: "?P7 (cascade_challenges (map ch_id (filter (\<lambda>c. to_lower (ch_email c) = ?a) (challenges d))) d)"
    if "?P6 d" for d
    using that
    by (intro conjI ballI; simp add: cascade_challenges_def del_where_def upd_where_def image_iff; fastforce)
  have audit: "no_address ?a (d\<lparr>admin_audit_events := map (\<lambda>e. if map_option to_lower (aa_target_email e) = Some ?a
      then e\<lparr>aa_target_email := None\<rparr> else e) (admin_audit_events d)\<rparr>)" if "?P7 d" for d
    unfolding no_address_def
  proof (intro conjI)
    show "\<forall>e\<in>set (admin_audit_events (d\<lparr>admin_audit_events := map (\<lambda>e. if map_option to_lower (aa_target_email e) = Some ?a
      then e\<lparr>aa_target_email := None\<rparr> else e) (admin_audit_events d)\<rparr>)).
      map_option to_lower (aa_target_email e) \<noteq> Some ?a"
      by auto
  qed (use that in simp_all)
  show ?thesis
    unfolding DeleteUserEmailReferences_def Let_def if_not_P [OF assms]
    apply (rule wp_seq [OF upd_step [where P = "\<lambda>_. True" and P' = ?P1]])
      apply (simp, simp add: cascade_invitations_def del_where_def)
    apply (rule wp_seq [OF upd_step [where P = ?P1 and P' = ?P2]], assumption, simp add: del_where_def)
    apply (rule wp_seq [OF upd_step [where P = ?P2 and P' = ?P3]], assumption, simp add: del_where_def)
    apply (rule wp_seq [OF upd_step [where P = ?P3 and P' = ?P4]], assumption, simp add: del_where_def)
    apply (rule wp_seq [OF upd_step [where P = ?P4 and P' = ?P5]], assumption, simp add: del_where_def)
    apply (rule wp_seq [OF upd_step [where P = ?P5 and P' = ?P6]], assumption)
     apply (auto simp: del_where_def)[1]
    apply (rule wp_seq [OF exec_step [where P = ?P6 and P' = ?P7]], assumption)
     apply (erule checked_update [where P = ?P7], erule challenges)
    apply (rule upd_step [where P = ?P7], assumption)
    apply (erule audit)
    done
qed

lemmas cascade_defs = cascade_user_def cascade_providers_def cascade_sessions_def Let_def del_where_def

lemma cascade_user_rows:
  "x1 \<in> set (users (cascade_user u d)) \<Longrightarrow> usr_id x1 \<noteq> u"
  "x2 \<in> set (user_roles (cascade_user u d)) \<Longrightarrow> fst x2 \<noteq> u"
  "x3 \<in> set (auth_providers (cascade_user u d)) \<Longrightarrow> prv_user x3 \<noteq> u"
  "x4 \<in> set (passkeys (cascade_user u d)) \<Longrightarrow> pk_user x4 \<noteq> u"
  "x5 \<in> set (sessions (cascade_user u d)) \<Longrightarrow> ses_user x5 \<noteq> u"
  "x6 \<in> set (memberships (cascade_user u d)) \<Longrightarrow> mem_user x6 \<noteq> u"
  "x7 \<in> set (auth_challenges (cascade_user u d)) \<Longrightarrow> ac_user x7 \<noteq> u"
  "x8 \<in> set (pending_resets (cascade_user u d)) \<Longrightarrow> pr_user x8 \<noteq> u"
  "x9 \<in> set (pending_email_changes (cascade_user u d)) \<Longrightarrow> pe_user x9 \<noteq> u \<and> x9 \<in> set (pending_email_changes d)"
  "x10 \<in> set (email_verifications (cascade_user u d)) \<Longrightarrow> ev_user x10 \<noteq> u"
  "x11 \<in> set (provider_links (cascade_user u d)) \<Longrightarrow> pl_user x11 \<noteq> u \<and> x11 \<in> set (provider_links d)"
  "x12 \<in> set (webauthn_challenges (cascade_user u d)) \<Longrightarrow> wc_user x12 \<noteq> Some u"
  by (simp_all add: cascade_defs)

lemma cascade_user_mentions:
  "x1 \<in> set (organizations (cascade_user u d)) \<Longrightarrow> org_created_by x1 \<noteq> Some u"
  "x2 \<in> set (admin_audit_events (cascade_user u d)) \<Longrightarrow> aa_actor x2 \<noteq> Some u \<and> aa_target_user x2 \<noteq> Some u
    \<and> (\<exists>e\<in>set (admin_audit_events d). aa_target_email x2 = aa_target_email e)"
  "x3 \<in> set (invitations (cascade_user u d)) \<Longrightarrow> inv_invited_by x3 \<noteq> Some u \<and> inv_accepted_by x3 \<noteq> Some u
    \<and> inv_revoked_by x3 \<noteq> Some u \<and> (\<exists>v\<in>set (invitations d). inv_email x3 = inv_email v)"
  by (auto simp: cascade_defs upd_where_def unset_def split: if_splits)

lemma cascade_user_rest:
  "allowed_emails (cascade_user u d) = allowed_emails d" "email_jobs (cascade_user u d) = email_jobs d"
  "pending_signups (cascade_user u d) = pending_signups d" "challenges (cascade_user u d) = challenges d"
  "apple_revocations (cascade_user u d) = apple_revocations d"
  by (simp_all add: cascade_defs)

lemma no_address_cascade:
  assumes "no_address a d"
  shows "no_address a (cascade_user u d)"
proof -
  note d = assms [unfolded no_address_def]
  have "to_lower (inv_email v) \<noteq> a" if "v \<in> set (invitations (cascade_user u d))" for v
    using cascade_user_mentions(3) [OF that] d by metis
  moreover have "map_option to_lower (aa_target_email e) \<noteq> Some a"
    if "e \<in> set (admin_audit_events (cascade_user u d))" for e
    using cascade_user_mentions(2) [OF that] d by metis
  moreover have "to_lower (pe_old_email p) \<noteq> a \<and> to_lower (pe_new_email p) \<noteq> a"
    if "p \<in> set (pending_email_changes (cascade_user u d))" for p
    using cascade_user_rows(9) [OF that] d by metis
  moreover have "map_option to_lower (pl_provider_email l) \<noteq> Some a"
    if "l \<in> set (provider_links (cascade_user u d))" for l
    using cascade_user_rows(11) [OF that] d by metis
  ultimately show ?thesis unfolding no_address_def cascade_user_rest using d by blast
qed

lemma no_rows_cascade: "no_rows_of u (cascade_user u d)"
  unfolding no_rows_of_def
  by (intro conjI notI; elim imageE; drule cascade_user_rows cascade_user_mentions; simp)

text \<open>What holds from the moment the tokens are queued, and what is left at the end.\<close>

definition leaving :: "uuid \<Rightarrow> apple_credential list \<Rightarrow> db \<Rightarrow> bool" where
  "leaving u cs d \<longleftrightarrow> u \<in> fst ` set (user_states d) \<and> tokens_queued cs d"

definition forgotten :: "uuid \<Rightarrow> string \<Rightarrow> apple_credential list \<Rightarrow> db \<Rightarrow> bool" where
  "forgotten u a cs d \<longleftrightarrow> no_rows_of u d \<and> (a \<noteq> [] \<longrightarrow> no_address a d) \<and> tokens_queued cs d"

lemma keeps_leaving: "leaves accounts m \<Longrightarrow> keeps (leaving u cs) m"
  by (erule keeps_of_accounts, frule accounts_eqD(1), drule accounts_eqD(6))
    (simp add: leaving_def tokens_queued_def token_queued_def)

lemma erased_user:
  assumes "leaving u cs (w_db w)"
  shows "wp (DeleteUserEmailReferences E u email) (\<lambda>_ w'. leaving u cs (w_db w')
    \<and> (CanonicalEmail email \<noteq> [] \<longrightarrow> no_address (CanonicalEmail email) (w_db w'))) any_error w"
proof -
  have "wp (DeleteUserEmailReferences E u email)
      (\<lambda>_ w'. CanonicalEmail email \<noteq> [] \<longrightarrow> no_address (CanonicalEmail email) (w_db w')) any_error w"
  proof (cases "CanonicalEmail email = []")
    case True
    then show ?thesis by (auto simp: wp_def split: prod.splits sum.splits)
  next
    case False
    then show ?thesis using erased_address [OF False] by simp
  qed
  then show ?thesis
    using keepsD [OF keeps_leaving [OF accounts_erase] assms]
    by (auto simp: wp_def split: prod.splits sum.splits)
qed

lemma deleted_user:
  assumes "leaving u cs (w_db w)" and "a \<noteq> [] \<longrightarrow> no_address a (w_db w)"
  shows "wp (store_DeleteUser E u) (\<lambda>_ w'. forgotten u a cs (w_db w')) any_error w"
proof -
  have "tokens_queued cs (cascade_user u d)" if "tokens_queued cs d" for d
    using that by (simp add: tokens_queued_def token_queued_def cascade_user_rest)
  moreover have "u \<in> usr_id ` set (users (w_db w))"
    using assms(1) by (auto simp: leaving_def user_states_def)
  ultimately show ?thesis
    unfolding store_DeleteUser_def wp_exec
    using assms by (auto simp: forgotten_def leaving_def no_address_cascade no_rows_cascade)
qed

lemma keeps_forgotten: "events_only pub \<Longrightarrow> keeps (forgotten u a cs) (pub event)"
  by (rule events_only_keeps)
    (auto simp: forgotten_def no_rows_of_def no_address_def tokens_queued_def token_queued_def)

text \<open>The tokens of the user, whether there is one or none.\<close>

lemma token_appended:
  "c \<in> set cs \<Longrightarrow> token_queued c (d\<lparr>apple_revocations := rs @
     map (\<lambda>c. new_revocation i (Some (apc_provider c)) (apc_provider c) (apc_key_id c) (apc_token c) t t) cs\<rparr>)"
  unfolding token_queued_def
  by (rule bexI [where x = "new_revocation i (Some (apc_provider c)) (apc_provider c) (apc_key_id c) (apc_token c) t t"])
    (auto simp: new_revocation_def)

lemma queued_tokens:
  assumes "credentials_of_user u (w_db w) = cs" and "u \<in> fst ` set (user_states (w_db w))"
  shows "wp (ignoring (EStore ErrorAuthProviderNotFound) (CreateAppleTokenRevocationForUser E i u))
    (\<lambda>_ w'. leaving u cs (w_db w')) any_error w"
proof -
  have none: "cs = []" if "length cs \<noteq> 1" "\<not> 1 < length cs" using that by (cases cs) auto
  show ?thesis
    unfolding ignoring_def CreateAppleTokenRevocationForUser_def ensure_one_row_def
    using assms none
    by (auto simp: wps Let_def leaving_def user_states_def tokens_queued_def token_appended)
qed

lemma credentials_of_accounts: "accounts d' = accounts d \<Longrightarrow> credentials_of_user u d' = credentials_of_user u d"
  unfolding credentials_of_user_def accounts_def by simp

text \<open>From the moment the user is locked.\<close>

lemma step_DeleteUser:
  assumes "account_quiet (os_publish S)" and "events_only (as_publish A)"
    and "user \<in> set (users (w_db w))" "usr_id user = u"
  shows "wp (bnd (now_utc E) (\<lambda>now.
      bnd (RevokeUserTokens E R u now) (\<lambda>_.
      bnd (PrepareUserDeletion E S u) (\<lambda>_.
      bnd (new_uuid E) (\<lambda>i.
      bnd (ignoring (EStore ErrorAuthProviderNotFound) (CreateAppleTokenRevocationForUser E i u)) (\<lambda>_.
      bnd (DeleteUserEmailReferences E u (usr_email user)) (\<lambda>_.
      bnd (store_DeleteUser E u) (\<lambda>_.
      auth_publish A (NewUserDeleted E u now)))))))))
    (\<lambda>_ w'. forgotten u (CanonicalEmail (usr_email user)) (credentials_of_user u (w_db w)) (w_db w')) any_error w"
proof -
  let ?P = "\<lambda>d. accounts d = accounts (w_db w)"
  have keepP: "keeps ?P m" if "leaves accounts m" for m :: "'x M"
    using that by (rule keeps_of_accounts) simp
  have u: "u \<in> fst ` set (user_states (w_db w))" using assms(3,4) by (auto simp: user_states_def image_image)
  have U: "u \<in> fst ` set (user_states d)" if "?P d" for d using accounts_eqD(1) [OF that] u by simp
  have end_: "wp (auth_publish A (NewUserDeleted E u now))
      (\<lambda>_ w'. forgotten u a cs (w_db w')) any_error w1" if "forgotten u a cs (w_db w1)" for a cs now w1
    unfolding auth_publish_def
    by (rule wp_seq_keeps [where J = "forgotten u a cs"], rule keeps_NewUserDeleted, rule that)
      (rule wp_keeps [OF keeps_forgotten [OF assms(2)]], assumption, simp)
  show ?thesis
    apply (rule wp_seq_keeps [where J = ?P], rule keepP, intro leaves_intro, simp)
    apply (rule wp_seq_keeps [where J = ?P], rule keepP, intro leaves_intro, assumption)
    apply (rule wp_seq_keeps [where J = ?P], rule keepP, intro leaves_intro assms(1), assumption)
    apply (rule wp_seq_keeps [where J = ?P], rule keepP, intro leaves_intro, assumption)
    apply (rule wp_seq, rule queued_tokens, erule credentials_of_accounts, erule U)
    apply (rule wp_seq, erule erased_user, elim conjE)
    apply (rule wp_seq, erule deleted_user, assumption)
    apply (erule end_)
    done
qed

end
