(* ===== verification/Audit_Proofs.thy ===== *)
theory Audit_Proofs
  imports Account_Proofs
begin

text \<open>The audit trail of the administration: the statements that leave it alone, and the entry
  that every action appends.\<close>

lemma trail_statements [leaves_intro]:
  "leaves admin_audit_events (AddUserPlatformRoleByName E u rl)"
  "leaves admin_audit_events (RemoveUserPlatformRoleByName E u rl)"
  "leaves admin_audit_events (DisableUser E u now)" "leaves admin_audit_events (EnableUser E u)"
  "leaves admin_audit_events (RevokeAllActiveSessionsForUser E u now)"
  "leaves admin_audit_events (RevokeSessionByIDAndUserID E s u now)"
  "leaves admin_audit_events (DeleteRefreshTokensByUserID E u)"
  "leaves admin_audit_events (DeleteRefreshTokensBySession E s)"
  "leaves admin_audit_events (CreateAllowedEmail E a)" "leaves admin_audit_events (DeleteAllowedEmailByID E i)"
  unfolding AddUserPlatformRoleByName_def RemoveUserPlatformRoleByName_def DisableUser_def EnableUser_def
    RevokeAllActiveSessionsForUser_def RevokeSessionByIDAndUserID_def DeleteRefreshTokensByUserID_def
    DeleteRefreshTokensBySession_def CreateAllowedEmail_def add_allowed_email_def DeleteAllowedEmailByID_def
    revoke_sessions_def Let_def
  by (intro leaves_intro leaves_exec leaves_exec_upd leaves_exec_count; auto split: if_splits option.splits)+

lemma trail_Enqueue [leaves_intro]: "leaves admin_audit_events (Enqueue E to tpl dat now)"
  by (auto simp: leaves_def intro!: keeps_Enqueue)

lemma trail_guard [leaves_intro]: "leaves f (require_other_admin E e user)" "leaves f (actor_address E actor)"
  "leaves f (GetAllowedEmailByID E i)" "leaves f (GetSessionByID E s)" "leaves f (requireAllowlistEnabled S)"
  unfolding require_other_admin_def actor_address_def GetAllowedEmailByID_def GetSessionByID_def
    requireAllowlistEnabled_def by (intro leaves_intro)+

section \<open>One entry more\<close>

definition logs :: "(admin_audit_event \<Rightarrow> bool) \<Rightarrow> 'a M \<Rightarrow> bool" where
  "logs a m \<longleftrightarrow> (\<forall>w. wp m (\<lambda>_ w'. \<exists>e. admin_audit_events (w_db w') = admin_audit_events (w_db w) @ [e] \<and> a e)
     any_error w)"

named_theorems logs_intro \<open>operations that append an entry\<close>

lemma logs_fail [logs_intro]: "logs a (fail e)"
  by (simp add: logs_def wps)

lemma logs_after:
  assumes "leaves admin_audit_events m" and "\<And>x. logs a (f x)"
  shows "logs a (bnd m f)"
  unfolding logs_def
proof (rule allI, rule wp_seq_keeps)
  fix w :: world
  show "keeps (\<lambda>d. admin_audit_events d = admin_audit_events (w_db w)) m"
    using assms(1) by (simp add: leaves_def)
  fix x and w1 :: world
  assume same: "admin_audit_events (w_db w1) = admin_audit_events (w_db w)"
  show "wp (f x) (\<lambda>_ w'. \<exists>e. admin_audit_events (w_db w') = admin_audit_events (w_db w) @ [e] \<and> a e)
      any_error w1"
    using assms(2) [of x, unfolded logs_def, rule_format, of w1] by (simp only: same)
qed simp

lemma logs_before:
  assumes "logs a m" and "\<And>x. leaves admin_audit_events (f x)"
  shows "logs a (bnd m f)"
  unfolding logs_def
proof (rule allI, rule wp_seq)
  fix w :: world
  show "wp m (\<lambda>_ w'. \<exists>e. admin_audit_events (w_db w') = admin_audit_events (w_db w) @ [e] \<and> a e) any_error w"
    using assms(1) by (simp add: logs_def)
  fix x and w1 :: world
  assume "\<exists>e. admin_audit_events (w_db w1) = admin_audit_events (w_db w) @ [e] \<and> a e"
  then show "wp (f x) (\<lambda>_ w'. \<exists>e. admin_audit_events (w_db w') = admin_audit_events (w_db w) @ [e] \<and> a e)
      any_error w1"
    using leavesD [OF assms(2)] by (auto intro!: wpI)
qed

lemma logs_if: "logs a m \<Longrightarrow> logs a m' \<Longrightarrow> logs a (if b then m else m')"
  by simp

lemma logs_audit:
  assumes "length action \<le> 100"
  shows "logs (\<lambda>e. aa_actor e = Some (act_UserID actor) \<and> aa_action e = action \<and> aa_target_user e = target)
    (audit E S actor action target email md rq)"
  unfolding logs_def audit_def CreateAdminAuditEvent_def
  using assms by (auto simp: wps Let_def split: option.splits)

text \<open>The entry of an action of \<open>actor\<close> on \<open>target\<close>.\<close>

definition entry_of :: "admin_actor \<Rightarrow> string \<Rightarrow> uuid option \<Rightarrow> admin_audit_event \<Rightarrow> bool" where
  "entry_of actor action target e \<longleftrightarrow> aa_actor e = Some (act_UserID actor) \<and> aa_action e = action
     \<and> aa_target_user e = target"

lemmas action_defs = ActionUserDisabled_def ActionUserEnabled_def ActionUserAdminGranted_def
  ActionUserAdminRevoked_def ActionUserSessionRevoked_def ActionUserSessionsRevoked_def
  ActionAllowlistEmailAdded_def ActionAllowlistEmailRemoved_def

lemma logs_audited:
  "length action \<le> 100 \<Longrightarrow> logs (entry_of actor action target) (audit E S actor action target email md rq)"
  using logs_audit by (simp add: entry_of_def [abs_def])

text \<open>A failed transaction leaves no trace, a successful one its entry.\<close>

definition all_or_entry :: "(admin_audit_event \<Rightarrow> bool) \<Rightarrow> 'a M \<Rightarrow> bool" where
  "all_or_entry a m \<longleftrightarrow> (\<forall>w. w_tx w = NoTx \<longrightarrow> wp m
     (\<lambda>_ w'. \<exists>e. admin_audit_events (w_db w') = admin_audit_events (w_db w) @ [e] \<and> a e)
     (\<lambda>_ w'. w_db w' = w_db w) w)"

lemma all_or_entry_tx: "logs a m \<Longrightarrow> all_or_entry a (with_tx E m)"
  unfolding all_or_entry_def
proof (intro allI impI)
  fix w :: world
  assume l: "logs a m" and w: "w_tx w = NoTx"
  let ?Q = "\<lambda>_ w'. \<exists>e. admin_audit_events (w_db w') = admin_audit_events (w_db w) @ [e] \<and> a e"
  have "wp m ?Q any_error (open_tx w)"
    using l [unfolded logs_def, rule_format, of "open_tx w"] by simp
  then show "wp (with_tx E m) ?Q (\<lambda>_ w'. w_db w' = w_db w) w"
    unfolding wp_with_tx [OF w] by (auto elim: wp_mono)
qed

lemma all_or_entry_fail: "all_or_entry a (fail e)"
  by (simp add: all_or_entry_def wps)

lemma all_or_entry_now:
  assumes "\<And>t. all_or_entry a (f t)"
  shows "all_or_entry a (bnd (now_utc E) f)"
  unfolding all_or_entry_def
proof (intro allI impI)
  fix w :: world
  assume "w_tx w = NoTx"
  with assms [unfolded all_or_entry_def, rule_format, where w = "tick w"]
  show "wp (bnd (now_utc E) f) (\<lambda>_ w'. \<exists>e. admin_audit_events (w_db w') = admin_audit_events (w_db w) @ [e] \<and> a e)
      (\<lambda>_ w'. w_db w' = w_db w) w"
    by (simp add: wps)
qed

lemma all_or_entry_guard: "all_or_entry a (f ()) \<Longrightarrow> all_or_entry a (bnd (guard_err b e) f)"
  by (simp add: all_or_entry_def wps)

lemma all_or_entry_if: "all_or_entry a m \<Longrightarrow> all_or_entry a m' \<Longrightarrow> all_or_entry a (if b then m else m')"
  by simp

lemmas entry_rules = all_or_entry_fail all_or_entry_now all_or_entry_guard all_or_entry_if all_or_entry_tx

definition trail_quiet :: "(envelope \<Rightarrow> unit M) \<Rightarrow> bool" where
  "trail_quiet pub \<longleftrightarrow> (\<forall>evt. leaves admin_audit_events (pub evt))"

lemma events_only_trail: "events_only pub \<Longrightarrow> trail_quiet pub"
  by (simp add: trail_quiet_def events_only_leaves)

lemma entry_GrantAdmin: "all_or_entry (entry_of actor ActionUserAdminGranted (Some u)) (GrantAdmin E S actor u rq)"
  unfolding GrantAdmin_def enqueueAdminAccessChanged_def
  apply (rule entry_rules, rule entry_rules, rule logs_after, intro leaves_intro, rule logs_after, intro leaves_intro)
  apply (rule logs_before, rule logs_audited, simp add: action_defs, intro leaves_intro)
  done

lemma entry_RevokeAdmin: "all_or_entry (entry_of actor ActionUserAdminRevoked (Some u)) (RevokeAdmin E S actor u rq)"
  unfolding RevokeAdmin_def enqueueAdminAccessChanged_def
  apply (rule all_or_entry_if, rule all_or_entry_fail, rule all_or_entry_tx)
  apply (rule logs_after, intro leaves_intro)+
  apply (rule logs_before, rule logs_audited, simp add: action_defs, intro leaves_intro)
  done

lemma entry_DisableUser:
  assumes "trail_quiet (adm_publish S)"
  shows "all_or_entry (entry_of actor ActionUserDisabled (Some u)) (admin_DisableUser E S actor u rq)"
  unfolding admin_DisableUser_def
  apply (rule all_or_entry_if, rule all_or_entry_fail, rule all_or_entry_tx)
  apply (rule logs_after, intro leaves_intro)+
  apply (rule logs_before, rule logs_audited, simp add: action_defs)
  apply (intro leaves_intro assms [unfolded trail_quiet_def, rule_format])
  done

lemma entry_EnableUser:
  assumes "trail_quiet (adm_publish S)"
  shows "all_or_entry (entry_of actor ActionUserEnabled (Some u)) (admin_EnableUser E S actor u rq)"
  unfolding admin_EnableUser_def
  apply (rule all_or_entry_now, rule all_or_entry_tx)
  apply (rule logs_after, intro leaves_intro)+
  apply (rule logs_before, rule logs_audited, simp add: action_defs)
  apply (intro leaves_intro assms [unfolded trail_quiet_def, rule_format])
  done

lemma entry_RevokeUserSession:
  "all_or_entry (entry_of actor ActionUserSessionRevoked (Some u)) (admin_RevokeUserSession E S actor u s rq)"
  unfolding admin_RevokeUserSession_def
  apply (rule all_or_entry_tx)
  apply (rule logs_after, intro leaves_intro, rule logs_after, intro leaves_intro, rule logs_if, rule logs_fail)
  apply (rule logs_after, intro leaves_intro)+
  apply (rule logs_audited, simp add: action_defs)
  done

lemma entry_RevokeAllUserSessions:
  "all_or_entry (entry_of actor ActionUserSessionsRevoked (Some u)) (RevokeAllUserSessions E S actor u rq)"
  unfolding RevokeAllUserSessions_def
  apply (rule all_or_entry_if, rule all_or_entry_fail, rule all_or_entry_tx)
  apply (rule logs_after, intro leaves_intro)+
  apply (rule logs_audited, simp add: action_defs)
  done

lemma entry_AddAllowedEmail:
  "all_or_entry (entry_of actor ActionAllowlistEmailAdded None) (AddAllowedEmail E S actor a rq)"
  unfolding AddAllowedEmail_def requireAllowlistEnabled_def Let_def
  apply (rule all_or_entry_guard, rule all_or_entry_if, rule all_or_entry_fail, rule all_or_entry_tx)
  apply (rule logs_after, intro leaves_intro)
  apply (rule logs_audited, simp add: action_defs)
  done

lemma entry_RemoveAllowedEmail:
  "all_or_entry (entry_of actor ActionAllowlistEmailRemoved None) (RemoveAllowedEmail E S actor i rq)"
  unfolding RemoveAllowedEmail_def requireAllowlistEnabled_def
  apply (rule all_or_entry_guard, rule all_or_entry_tx)
  apply (rule logs_after, intro leaves_intro, rule logs_after, intro leaves_intro, rule logs_if, rule logs_fail)
  apply (rule logs_after, intro leaves_intro)
  apply (rule logs_audited, simp add: action_defs)
  done

end
