(* ===== verification/Account_Properties.thy ===== *)
theory Account_Properties
  imports Method_Proofs Deletion_Proofs Audit_Proofs Demo
begin

text \<open>
  The properties of the accounts: an administrator remains, whatever is called; what an
  operator or a user can do to the ways of signing in; names and password hashes.
\<close>

section \<open>The last administrator\<close>

text \<open>
  The services publish with any publisher that writes the table \<open>webhook_events\<close> only:
  none, the queue, or the queue behind a filter (theory Publishers).
\<close>

definition service_publishes :: "auth_service \<Rightarrow> bool" where
  "service_publishes A \<longleftrightarrow> events_only (as_publish A) \<and> events_only (os_publish (as_organizations A))"

definition admin_publishes :: "admin_service \<Rightarrow> bool" where
  "admin_publishes S \<longleftrightarrow> events_only (adm_publish S)"

text \<open>
  A call that changes users or their roles, by any process: from the admin pages, from the
  operator's shell, or by the users themselves.
\<close>

inductive account_step :: "world \<Rightarrow> world \<Rightarrow> bool" where
  grant: "GrantAdmin E S actor u rq w = (r, w') \<Longrightarrow> account_step w w'"
| revoke: "RevokeAdmin E S actor u rq w = (r, w') \<Longrightarrow> account_step w w'"
| disable: "admin_DisableUser E S actor u rq w = (r, w') \<Longrightarrow> admin_publishes S \<Longrightarrow> account_step w w'"
| enable: "admin_EnableUser E S actor u rq w = (r, w') \<Longrightarrow> admin_publishes S \<Longrightarrow> account_step w w'"
| end_session: "admin_RevokeUserSession E S actor u s rq w = (r, w') \<Longrightarrow> account_step w w'"
| end_sessions: "RevokeAllUserSessions E S actor u rq w = (r, w') \<Longrightarrow> account_step w w'"
| allow: "AddAllowedEmail E S actor a rq w = (r, w') \<Longrightarrow> account_step w w'"
| disallow: "RemoveAllowedEmail E S actor i rq w = (r, w') \<Longrightarrow> account_step w w'"
| shell: "executeOperationalCommand E R command w = (r, w') \<Longrightarrow> account_step w w'"
| delete: "auth_DeleteUser E A u w = (r, w') \<Longrightarrow> service_publishes A \<Longrightarrow> account_step w w'"
| sign_up: "Signup E A si w = (r, w') \<Longrightarrow> service_publishes A \<Longrightarrow> account_step w w'"
| sign_in: "Login E A li w = (r, w') \<Longrightarrow> service_publishes A \<Longrightarrow> account_step w w'"
| sign_in_apple: "LoginWithApple E A li t w = (r, w') \<Longrightarrow> service_publishes A \<Longrightarrow> account_step w w'"

lemma service_publishes_quiet:
  assumes "service_publishes A"
  shows "account_quiet (as_publish A)" "account_quiet (os_publish (as_organizations A))"
  using assms by (simp_all add: service_publishes_def events_only_account_quiet)

lemma admin_publishes_quiet: "admin_publishes S \<Longrightarrow> account_quiet (adm_publish S)"
  by (simp add: admin_publishes_def events_only_account_quiet)

text \<open>The publisher the process makes from its configuration is one of them, on or off.\<close>

lemma wired_publishes:
  "service_publishes (A\<lparr>as_publish := newWebhookPublisher E json_valid url secret evs,
     as_organizations := (as_organizations A)\<lparr>os_publish := newWebhookPublisher E json_valid url secret evs\<rparr>\<rparr>)"
  "admin_publishes (S\<lparr>adm_publish := newWebhookPublisher E json_valid url secret evs\<rparr>)"
  by (simp_all add: service_publishes_def admin_publishes_def events_only_new)

lemma account_step_has_admin:
  assumes "account_step w w'" and "has_admin (w_db w)"
  shows "has_admin (w_db w')"
  using assms(1)
proof cases
  case (disable E S actor u rq r)
  then show ?thesis using has_admin_DisableUser [OF admin_publishes_quiet] keepsD assms(2) by blast
next
  case (enable E S actor u rq r)
  then show ?thesis using has_admin_EnableUser [OF admin_publishes_quiet] keepsD assms(2) by blast
next
  case (delete E A u r)
  then show ?thesis using has_admin_DeleteUser [OF service_publishes_quiet] keepsD assms(2) by blast
next
  case (sign_up E A si r)
  then show ?thesis
    using has_admin_keeps [OF stays_Signup [OF service_publishes_quiet]] keepsD assms(2) by blast
next
  case (sign_in E A li r)
  then show ?thesis
    using has_admin_keeps [OF stays_Login(1) [OF service_publishes_quiet]] keepsD assms(2) by blast
next
  case (sign_in_apple E A li t r)
  then show ?thesis
    using has_admin_keeps [OF stays_Login(2) [OF service_publishes_quiet]] keepsD assms(2) by blast
qed (blast intro: keepsD [OF has_admin_GrantAdmin assms(2)] keepsD [OF has_admin_RevokeAdmin assms(2)]
    keepsD [OF has_admin_sessions(1) assms(2)] keepsD [OF has_admin_sessions(2) assms(2)]
    keepsD [OF has_admin_allowlist(1) assms(2)] keepsD [OF has_admin_allowlist(2) assms(2)]
    keepsD [OF has_admin_commands assms(2)])+

text \<open>
  C4. Once there is an enabled administrator there always is one: no sequence of calls of the
  admin pages, of the operator's shell, of account deletion, signing up or signing in
  (successful, refused or failing half-way) disables, demotes or deletes the last one. The
  publisher may be any that writes \<open>webhook_events\<close> only, and may change from call to
  call: none (webhooks off), the queue, or the queue behind the filter of events. The keys of
  \<open>users\<close> and \<open>user_roles\<close> are unique at the start.
\<close>

theorem last_admin_remains:
  assumes "account_step\<^sup>*\<^sup>* w w'"
    and "\<exists>r\<in>set (users (w_db w)). usr_disabled_at r = None \<and> (usr_id r, DBAdminRoleName) \<in> set (user_roles (w_db w))"
    and "distinct (map usr_id (users (w_db w)))" and "distinct (user_roles (w_db w))"
  shows "\<exists>r\<in>set (users (w_db w')). usr_disabled_at r = None \<and> (usr_id r, DBAdminRoleName) \<in> set (user_roles (w_db w'))"
proof -
  have has: "(\<exists>r\<in>set (users d). usr_disabled_at r = None \<and> (usr_id r, DBAdminRoleName) \<in> set (user_roles d))
      \<longleftrightarrow> active_admins d \<noteq> {}" for d
    by (auto simp: active_admins_def user_states_def image_iff) (metis, metis)
  have "has_admin (w_db w)"
    using assms(2-4) unfolding has by (auto simp: has_admin_def admin_stays_def user_states_def comp_def)
  with assms(1) have "has_admin (w_db w')"
    by (induction rule: rtranclp_induct) (auto intro: account_step_has_admin)
  then show ?thesis unfolding has by (auto simp: has_admin_def admin_stays_def)
qed

text \<open>A service that runs, two administrators, and the passing of one of them.\<close>

definition demo_idkey :: argon2 where
  "demo_idkey pw salt t m p n = take (unat n) (pw @ salt @ replicate 32 CHR ''k'')"

definition demo_auth :: auth_service where
  "demo_auth = \<lparr>as_publish = QueuePublisher demo_env (\<lambda>_. True), as_access = NoopEmailAccessPolicy,
     as_oauth = [ProviderGoogle],
     as_organizations = new_organization_service \<lparr>os_publish = QueuePublisher demo_env (\<lambda>_. True),
       os_InvitationTTL = 1000, os_UserEnabled = True, os_publicURL = ''https://a.b/'', os_mode = OrgModeMulti,
       os_profiles = [], os_defaultProfile = '''', os_revocations = None,
       os_lib = \<lparr>mail_address = Some, url_with = (\<lambda>base p fragment v. None), jsonb_text = Some\<rparr>,
       os_json = \<lparr>json_marshal = (\<lambda>_. Some ''cursor''), json_cursor = (\<lambda>_. None)\<rparr>\<rparr>,
     as_revocations = None, as_passwordMinimumLength = 8, as_events = NoopRecorder, as_apple = None,
     as_argon2 = demo_idkey\<rparr>"

definition demo_admin :: user where
  "demo_admin = \<lparr>usr_id = 11, usr_created_at = 0, usr_updated_at = 0, usr_disabled_at = None,
     usr_email = ''b@b.c'', usr_email_verified_at = Some 1, usr_username = ''bob''\<rparr>"

definition demo_admins :: world where
  "demo_admins = demo_world\<lparr>w_db := demo_db\<lparr>users := [demo_user, demo_admin],
     user_roles := [(10, DBAdminRoleName), (11, DBAdminRoleName)]\<rparr>\<rparr>"

lemma demo_auth_publishes: "service_publishes demo_auth"
  by (simp add: service_publishes_def demo_auth_def new_organization_service_def events_only_Queue)

theorem last_admin_remains_witness:
  "\<exists>w'. account_step\<^sup>*\<^sup>* demo_admins w' \<and> map usr_id (users (w_db w')) = [10]
     \<and> fst (auth_DeleteUser demo_env demo_auth 10 w') = Inl (EAuth ErrCannotDeleteLastAdmin)
     \<and> (\<exists>r\<in>set (users (w_db w')). usr_disabled_at r = None
          \<and> (usr_id r, DBAdminRoleName) \<in> set (user_roles (w_db w')))"
proof -
  let ?w = "snd (auth_DeleteUser demo_env demo_auth 11 demo_admins)"
  have "map usr_id (users (w_db ?w)) = [10]"
    "fst (auth_DeleteUser demo_env demo_auth 10 ?w) = Inl (EAuth ErrCannotDeleteLastAdmin)"
    by code_simp+
  moreover have "account_step\<^sup>*\<^sup>* demo_admins ?w"
    using account_step.delete [OF surjective_pairing demo_auth_publishes] by blast
  ultimately show ?thesis
    using last_admin_remains [of demo_admins ?w]
    by (auto simp: demo_admins_def demo_world_def demo_user_def demo_admin_def)
qed

section \<open>Names and passwords\<close>

text \<open>
  C20. A name made for a user who chose none passes the check of chosen names: three to thirty
  letters, digits, dashes and underscores, whatever the address holds, and it is in lower case,
  as the names are stored.
\<close>

theorem made_username_is_valid:
  assumes "EnsureUsername E '''' email w = (Inr name, w')"
  shows "ValidateUsername name = None \<and> to_lower name = name \<and> 3 \<le> length name \<and> length name \<le> 30
    \<and> list_all username_char name"
  using ensured_username [OF assms] by (auto simp: ValidateUsername_def split: if_splits)

theorem made_username_is_valid_witness:
  "\<exists>w'. EnsureUsername (demo_env\<lparr>o_rand := \<lambda>n k. Some [CHR 0x01, CHR 0x1E, CHR 0x28]\<rparr>) ''''
        ''Ann..Smith@b.c'' demo_world = (Inr ''ann-smith-83256'', w')
     \<and> ValidateUsername ''ann-smith-83256'' = None"
proof -
  let ?run = "EnsureUsername (demo_env\<lparr>o_rand := \<lambda>n k. Some [CHR 0x01, CHR 0x1E, CHR 0x28]\<rparr>) ''''
        ''Ann..Smith@b.c'' demo_world"
  obtain k where k: "rand_fuel = Suc k" using that [of 127] by (simp add: rand_fuel_def)
  have "SanitizeUsername ''Ann..Smith'' = ''Ann-Smith''" by code_simp
  moreover have "big_endian [CHR 0x01, CHR 0x1E, CHR 0x28] = 73256" by (simp add: big_endian_def)
  moreover have "show_nat 83256 = ''83256''" 
    by (simp add: show_nat.simps digit_char_def char_of_def bit_numeral_rec bit_iff_odd)
  moreover have "to_lower ''Ann-Smith'' = ''ann-smith''" by code_simp
  ultimately have "fst ?run = Inr ''ann-smith-83256''"
    by (simp add: EnsureUsername_def SecureFiveDigits_def k five_digits_def Let_def bnd_def rand_read_def ret_def)
  then have run: "?run = (Inr ''ann-smith-83256'', snd ?run)" by (simp add: prod_eq_iff)
  from run made_username_is_valid [OF run] show ?thesis by blast
qed

lemma wp_tx_db:
  assumes "w_tx w = NoTx" and "wp m (\<lambda>x w'. Q x (w_db w')) any_error (open_tx w)"
  shows "wp (with_tx E m) (\<lambda>x w'. Q x (w_db w')) any_error w"
  using assms by (auto simp: wp_with_tx elim: wp_mono)

lemma password_hash_stored:
  assumes "AddPassword E A u h w = (Inr (), w')" and "w_tx w = NoTx" and "length h \<le> 255"
  shows "password_is u h (w_db w')"
proof -
  have "wp (AddPassword E A u h) (\<lambda>_ w'. password_is u h (w_db w')) any_error w"
    unfolding AddPassword_def enqueueAuthMethodChanged_def CredentialPasswordAdded_def
    by (rule wp_tx_db [OF assms(2)], rule password_created [OF assms(3)])
      (intro keeps_password leaves_intro, simp)
  from wp_value [OF this assms(1)] show ?thesis .
qed

text \<open>
  C7. The password a user sets is the password that lets the user in: after hashing it and
  adding the hash (written to \<open>argon2id\<close> text, stored, read back and parsed), checking a
  password succeeds exactly when it has the same Argon2id key under the salt that was drawn.
\<close>

theorem password_roundtrip:
  assumes "HashPassword E A pw w0 = (Inr h, w1)"
    and "AddPassword E A u h w = (Inr (), w')" and "w_tx w = NoTx"
    and "\<And>n s. o_rand E n saltLen = Some s \<Longrightarrow> length s = saltLen"
    and "\<And>pw s. length (as_argon2 A pw s argonTime argonMemory argonThreads argonKeyLen) = unat argonKeyLen"
    and "sql_ok E w'"
  shows "\<exists>salt. o_rand E (w_step w0) saltLen = Some salt
    \<and> (\<forall>q. fst (VerifyPassword E A u q w') =
        (if as_argon2 A q salt argonTime argonMemory argonThreads argonKeyLen
            = as_argon2 A pw salt argonTime argonMemory argonThreads argonKeyLen
         then Inr () else Inl (EAuth ErrInvalidCredentials)))"
proof -
  have "hashPassword E (as_argon2 A) pw w0 = (Inr h, w1)"
    using assms(1) by (auto simp: HashPassword_def fail_def split: option.splits)
  note hashed = verify_hashed [OF this]
  obtain salt where salt: "o_rand E (w_step w0) saltLen = Some salt" and l: "length h \<le> 255"
    and v: "\<And>q. VerifyPasswordHash (as_argon2 A) q h = Inr \<lparr>ver_valid =
      (as_argon2 A q salt argonTime argonMemory argonThreads argonKeyLen
        = as_argon2 A pw salt argonTime argonMemory argonThreads argonKeyLen), ver_needs_rehash = False\<rparr>"
    using hashed assms(4,5) by blast
  obtain p where p: "find_provider ProviderPassword u (w_db w') = Some p" "prv_password_hash p = Some h"
    using password_hash_stored [OF assms(2,3) l] by (auto simp: password_is_def)
  have "stored_hash E u w' = (Inr h, tick w')"
    using p assms(6) by (simp add: stored_hash_def GetAuthProviderByMethodAndUserID_def eval_defs sql_ok_def)
  then have "fst (VerifyPassword E A u q w') =
      (if as_argon2 A q salt argonTime argonMemory argonThreads argonKeyLen
            = as_argon2 A pw salt argonTime argonMemory argonThreads argonKeyLen
         then Inr () else Inl (EAuth ErrInvalidCredentials))" for q
    by (simp add: VerifyPassword_def Verify_def v sum_bind_def bnd_def of_sum_def ret_def fail_def)
  with salt show ?thesis by blast
qed

definition demo_salt_env :: env where
  "demo_salt_env = demo_env\<lparr>o_rand := \<lambda>n k. Some (replicate k CHR ''x''), rfc3339 := \<lambda>_. ''1970-01-01''\<rparr>"

definition demo_hash :: string where
  "demo_hash = ''$argon2id$v=1$t=3$m=65536$p=4$eHh4eHh4eHh4eHh4eHh4eA$cGFzc3dvcmR4eHh4eHh4eHh4eHh4eHh4a2tra2tra2s''"

lemma replicate_16: "replicate saltLen x = [x, x, x, x, x, x, x, x, x, x, x, x, x, x, x, x]"
  by (simp add: saltLen_def numeral_eq_Suc)

lemma demo_key: "as_argon2 demo_auth ''password'' (replicate saltLen CHR ''x'') argonTime argonMemory argonThreads
    argonKeyLen = ''passwordxxxxxxxxxxxxxxxxkkkkkkkk''"
  unfolding replicate_16
  by (simp add: demo_auth_def demo_idkey_def argonKeyLen_def) (simp add: numeral_eq_Suc)

lemma demo_base64:
  "base64_std_encode (replicate saltLen CHR ''x'') = ''eHh4eHh4eHh4eHh4eHh4eA''"
  "base64_std_encode ''passwordxxxxxxxxxxxxxxxxkkkkkkkk'' = ''cGFzc3dvcmR4eHh4eHh4eHh4eHh4eHh4a2tra2tra2s''"
  unfolding replicate_16 by (simp_all add: base64_std_encode_def std_char_def) (intro conjI; code_simp)+

lemma demo_numbers: "show_nat 65536 = ''65536''" "show_nat 3 = ''3''" "show_nat 4 = ''4''"
  by (simp_all add: show_nat.simps digit_char_def char_of_def bit_numeral_rec bit_iff_odd)

lemma demo_encoded: "encodeHash argonTime argonMemory argonThreads (replicate saltLen CHR ''x'')
    ''passwordxxxxxxxxxxxxxxxxkkkkkkkk'' = demo_hash"
  unfolding encodeHash_def demo_base64 argonTime_def argonMemory_def argonThreads_def unat_numeral_32 demo_numbers
    demo_hash_def
  by (simp only: append.simps)

lemma demo_valid: "ValidatePassword demo_auth ''password'' = None"
proof -
  have "\<forall>c\<in>set ''password''. code c < 128" by simp
  then show ?thesis
    using ascii_valid(1,2) [of "''password''"]
    by (simp add: ValidatePassword_def validatePassword_def auth_PasswordMinimumLength_def
        passwordMinimumLength_def DefaultPasswordMinimumLength_def MaximumPasswordLength_def demo_auth_def list_all_iff)
qed

lemma demo_hashed: "HashPassword demo_salt_env demo_auth ''password'' demo_world = (Inr demo_hash, tick demo_world)"
proof -
  have "o_rand demo_salt_env (w_step demo_world) saltLen = Some (replicate saltLen CHR ''x'')"
    by (simp add: demo_salt_env_def)
  then show ?thesis
    unfolding HashPassword_def demo_valid option.case hashPassword_def bnd_def rand_read_def ret_def
    by (simp only: option.case prod.case sum.case demo_key demo_encoded)
qed

lemma demo_added: "fst (AddPassword demo_salt_env demo_auth 10 demo_hash demo_world) = Inr ()"
  by code_simp

theorem password_roundtrip_witness:
  "let w' = snd (AddPassword demo_salt_env demo_auth 10 demo_hash demo_world) in
     fst (HashPassword demo_salt_env demo_auth ''password'' demo_world) = Inr demo_hash
     \<and> fst (AddPassword demo_salt_env demo_auth 10 demo_hash demo_world) = Inr ()
     \<and> fst (VerifyPassword demo_salt_env demo_auth 10 ''password'' w') = Inr ()
     \<and> fst (VerifyPassword demo_salt_env demo_auth 10 ''passwort'' w') = Inl (EAuth ErrInvalidCredentials)"
proof -
  let ?run = "AddPassword demo_salt_env demo_auth 10 demo_hash demo_world"
  let ?key = "\<lambda>q s. as_argon2 demo_auth q s argonTime argonMemory argonThreads argonKeyLen"
  have run: "?run = (Inr (), snd ?run)" using demo_added by (simp add: prod_eq_iff)
  have ok: "sql_ok demo_salt_env (snd ?run)" by code_simp
  have len: "length (?key pw s) = unat argonKeyLen" for pw s
    by (simp add: demo_auth_def demo_idkey_def argonKeyLen_def)
  have salt: "length s = saltLen" if "o_rand demo_salt_env n saltLen = Some s" for n s
    using that by (auto simp: demo_salt_env_def)
  have notx: "w_tx demo_world = NoTx" by (simp add: demo_world_def)
  obtain s where "o_rand demo_salt_env (w_step demo_world) saltLen = Some s"
    and v: "\<And>q. fst (VerifyPassword demo_salt_env demo_auth 10 q (snd ?run)) =
        (if ?key q s = ?key ''password'' s then Inr () else Inl (EAuth ErrInvalidCredentials))"
    using password_roundtrip [OF demo_hashed run notx] salt len ok by blast
  then have s: "s = replicate saltLen CHR ''x''" by (simp add: demo_salt_env_def)
  have "?key ''passwort'' s \<noteq> ?key ''password'' s"
    unfolding s replicate_16 by (simp add: demo_auth_def demo_idkey_def argonKeyLen_def)
  then show ?thesis
    using demo_hashed demo_added v [of "''password''"] v [of "''passwort''"] by (simp add: Let_def)
qed

section \<open>The last way to sign in\<close>









section \<open>Deleting a user\<close>






section \<open>The audit trail\<close>

text \<open>An action of the admin pages: who, what, on whom, and the run.\<close>

inductive admin_action :: "admin_actor \<Rightarrow> string \<Rightarrow> uuid option \<Rightarrow> world \<Rightarrow> err + unit \<Rightarrow> world \<Rightarrow> bool" where
  "GrantAdmin E S actor u rq w = (r, w') \<Longrightarrow> admin_action actor ActionUserAdminGranted (Some u) w r w'"
| "RevokeAdmin E S actor u rq w = (r, w') \<Longrightarrow> admin_action actor ActionUserAdminRevoked (Some u) w r w'"
| "admin_DisableUser E S actor u rq w = (r, w') \<Longrightarrow> admin_publishes S
    \<Longrightarrow> admin_action actor ActionUserDisabled (Some u) w r w'"
| "admin_EnableUser E S actor u rq w = (r, w') \<Longrightarrow> admin_publishes S
    \<Longrightarrow> admin_action actor ActionUserEnabled (Some u) w r w'"
| "admin_RevokeUserSession E S actor u s rq w = (r, w') \<Longrightarrow> admin_action actor ActionUserSessionRevoked (Some u) w r w'"
| "RevokeAllUserSessions E S actor u rq w = (r, w')
    \<Longrightarrow> admin_action actor ActionUserSessionsRevoked (Some u) w r w'"
| "AddAllowedEmail E S actor a rq w = (r, w') \<Longrightarrow> admin_action actor ActionAllowlistEmailAdded None w r w'"
| "RemoveAllowedEmail E S actor i rq w = (r, w') \<Longrightarrow> admin_action actor ActionAllowlistEmailRemoved None w r w'"

lemma admin_publishes_trail: "admin_publishes S \<Longrightarrow> trail_quiet (adm_publish S)"
  by (simp add: admin_publishes_def events_only_trail)

lemma entry_run:
  assumes "all_or_entry a m" and "m w = (r, w')" and "w_tx w = NoTx"
  shows "case r of Inl e \<Rightarrow> w_db w' = w_db w
    | Inr _ \<Rightarrow> \<exists>e. admin_audit_events (w_db w') = admin_audit_events (w_db w) @ [e] \<and> a e"
  using assms(1) [unfolded all_or_entry_def, rule_format, OF assms(3)] assms(2)
  by (auto simp: wp_def split: sum.splits)

text \<open>
  C8. Every action of the admin pages (granting and revoking the role, disabling and enabling a
  user, ending one or all sessions of a user, the allowlist) is one transaction with its audit
  entry: when it fails, at whatever point, the database is as before; when it succeeds, exactly
  one entry was added to the trail, with the administrator, the action and the user it was
  about. Disabling and enabling publish an event; the publisher is any that writes
  \<open>webhook_events\<close> only (none, the queue, the filtered queue).
\<close>

theorem admin_action_audited:
  assumes "admin_action actor action target w r w'" and "w_tx w = NoTx"
  shows "case r of Inl e \<Rightarrow> w_db w' = w_db w
    | Inr _ \<Rightarrow> \<exists>e. admin_audit_events (w_db w') = admin_audit_events (w_db w) @ [e]
        \<and> aa_actor e = Some (act_UserID actor) \<and> aa_action e = action \<and> aa_target_user e = target"
proof -
  note rules = entry_GrantAdmin entry_RevokeAdmin entry_DisableUser [OF admin_publishes_trail]
    entry_EnableUser [OF admin_publishes_trail] entry_RevokeUserSession entry_RevokeAllUserSessions
    entry_AddAllowedEmail entry_RemoveAllowedEmail
  from assms(1) show ?thesis
    by cases (insert assms(2), simp only: entry_of_def [symmetric], rule rules [THEN entry_run], assumption+)+
qed

definition demo_admin_service :: admin_service where
  "demo_admin_service = \<lparr>adm_audit_retention = 1000, adm_allowlist_enabled = True,
     adm_publish = QueuePublisher demo_salt_env (\<lambda>_. True), adm_revocations = None,
     adm_marshal = (\<lambda>_. Some ''{}''), adm_jsonb = Some\<rparr>"

definition demo_actor :: admin_actor where
  "demo_actor = \<lparr>act_UserID = 10, act_Email = ''a@b.c''\<rparr>"

definition demo_request :: request_meta where
  "demo_request = \<lparr>rq_IP = ''::1'', rq_UserAgent = ''ua''\<rparr>"

theorem admin_action_audited_witness:
  "let (r, w') = admin_DisableUser demo_salt_env demo_admin_service demo_actor 11 demo_request demo_admins in
     r = Inr () \<and> map usr_disabled_at (users (w_db w')) \<noteq> [None, None]
     \<and> (\<exists>e. admin_audit_events (w_db w') = [e] \<and> aa_actor e = Some 10 \<and> aa_action e = ActionUserDisabled
          \<and> aa_target_user e = Some 11)"
proof -
  let ?run = "admin_DisableUser demo_salt_env demo_admin_service demo_actor 11 demo_request demo_admins"
  have ok: "fst ?run = Inr ()" and dis: "map usr_disabled_at (users (w_db (snd ?run))) \<noteq> [None, None]"
    by code_simp+
  have "admin_publishes demo_admin_service" by (simp add: admin_publishes_def demo_admin_service_def events_only_Queue)
  then have "admin_action demo_actor ActionUserDisabled (Some 11) demo_admins (fst ?run) (snd ?run)"
    by (intro admin_action.intros) simp
  from admin_action_audited [OF this] ok dis show ?thesis
    by (auto simp: demo_admins_def demo_world_def demo_db_def empty_db_def demo_actor_def split_beta Let_def)
qed

end
