(* ===== verification/Spec2Isabelle.thy ===== *)
theory Spec2Isabelle
  imports Session_Properties Session_Safety Token_Properties Stepup_Properties Rate_Limit_Proofs Webhook_Properties
    Challenge_Properties Email_Properties Email_Queue Encoding Organization_Properties Organization_Pages
    Maintenance_Properties Account_Properties
begin

text \<open>
  Authara is a Go service for authentication, sessions and organizations over PostgreSQL and
  Redis. This library models its services at the level of their SQL statements, Redis scripts
  and library calls, and proves what makes them correct.

  \<^bold>\<open>How code is modelled.\<close> An operation is a function from the \<open>world\<close> (tables, cache,
  state of the transaction, number of external calls so far) to an error or a value, and the new
  world (theory Effects). What the environment decides, which driver call fails, every clock
  reading, generated UUIDs and random bytes, comes from an oracle record \<open>env\<close>, indexed by
  the number of the call; a property for all \<open>env\<close> holds for all failures and readings.
  A struct of \<open>internal/domain\<close> and its row are one record, an empty string standing for
  NULL where the code maps one to the other (theory Schema). A store method is one SQL
  statement with the constraints, defaults, cascades and triggers of \<open>migrations\<close>; a
  transaction (\<open>store/tx\<close>) is one atomic step, because the code takes the row locks it
  needs, and rolls back on errors and on a failing commit. Errors keep their sentinels, and
  \<open>errors.Is\<close> is a function on them. Times are integers in nanoseconds (milliseconds in
  Redis), strings are lists of ASCII characters, UUIDs 128-bit words.

  \<^bold>\<open>Theories and what they model\<close> (paths under \<open>src/internal\<close>).
  \<^item> Prelude, Schema, Effects, Cache (\<open>cache\<close>), Encoding (hexadecimal and base64 of
    the standard library).
  \<^item> Store_Identity (\<open>store/users.go, organizations.go, allowed_emails.go\<close>),
    Store_Session (\<open>store/sessions.go, authentication_challenges.go\<close>), Store_Challenge
    (\<open>store/challange.go, pending_action.go, email_verification.go, auth_providers.go\<close>),
    Store_Organization (\<open>store/organizations.go, organization_invitations.go\<close>).
  \<^item> Tokens (\<open>session/token\<close>, \<open>session/roles\<close>, \<open>bootstrap/revocations.go\<close>),
    Security_Events (\<open>securityevent\<close>), Session_Service (\<open>session/service.go\<close>).
  \<^item> Challenge_Service (\<open>challenge\<close> without its worker), Email_Queue
    (\<open>email/catalog.go, queue.go\<close>), Email_Delivery (\<open>challenge/worker.go\<close>,
    \<open>store/email.go\<close>).
  \<^item> Webhook (events, publishers, sender), Webhook_Queue (worker and table), Job_Queue (the
    abstract machine both queues refine).
  \<^item> Keyset (\<open>keyset\<close>), Organization_Service (\<open>organization/service.go,
    lifecycle.go, mode.go, pagination.go\<close>), Organization_Invitations
    (\<open>organization/invitations.go\<close>).
  \<^item> Rate_Limit (\<open>ratelimiter\<close>), Maintenance (\<open>maintenance\<close>,
    \<open>store/maintenance.go\<close>).
  \<^item> Utf8 (runes and splitting of the standard library), Credentials (\<open>auth/password.go,
    password_policy.go\<close>), Usernames (\<open>auth/username.go\<close>), Auth_Service
    (\<open>auth/service.go\<close>).
  \<^item> Store_Auth (\<open>store/pending_provider_linking.go, apple_credentials.go, passkeys.go,
    oauth_challenges.go, user_platform_roles.go, users.go\<close>), Apple_Credentials
    (\<open>oauth/apple/credentials.go, revoker.go\<close>), OAuth_Challenges
    (\<open>oauth/challenges.go, providers.go\<close>), Passkey_Service (\<open>passkey\<close>),
    User_Agent (\<open>useragent\<close>).
  \<^item> Store_Admin (\<open>store/admin_audit.go, allowed_emails.go\<close>), Admin_Service
    (\<open>admin\<close>), Operations (\<open>operations/service.go\<close>).

  \<^bold>\<open>What is proved.\<close>
  \<^item> Sessions (Session_Properties, Session_Safety, Session_Invariant, Stepup_Properties): the
    exact effect of every operation, the invariant of the session tables, refinement of an
    abstract machine of sessions and tokens; a revoked session never refreshes again, a rotated
    token is spent, a replayed one revokes its session; step-up authentication is exact.
  \<^item> Tokens (Token_Properties, Revocation_Proofs): revoked tokens are rejected, the cutoff in
    Redis is the integer maximum.
  \<^item> Limiters (Rate_Limit_Proofs): both are fixed-window counters and agree; what eviction
    leaves.
  \<^item> Queues (Webhook_Proofs, Webhook_Properties, Email_Proofs, Email_Properties): refinement of
    the job machine, the bound on attempts, what one run did.
  \<^item> Challenges (Challenge_Proofs, Challenge_Properties): single use, counted attempts and
    resends, the code mailed verifies.
  \<^item> Organizations (Organization_Proofs, Organization_Moves, Organization_Properties,
    Organization_Pages): every handler makes at most one move of an abstract machine, so each
    organization keeps exactly one owner; accepting an invitation; tokens; deletion of users;
    pages are the listing.
  \<^item> Accounts (Account_Proofs, Method_Proofs, Deletion_Proofs, Audit_Proofs, Account_Properties):
    whatever is called, an enabled administrator and everybody's last way to sign in remain; a
    deleted account leaves no row, no address and no Apple token that is not queued for
    revocation; an action of an administrator is one transaction with its audit entry; a
    password that was set lets its owner in; made names pass the check of chosen ones.
  \<^item> Maintenance (Maintenance_Properties): a lease taken over is fenced off for good.

  \<^bold>\<open>Interfaces.\<close> Locales state what a client relies on: the contract of a keyset listing
  (Keyset, interpreted in Organization_Pages on members, organizations of a user and
  invitations) and those of the job queues; each is interpreted on the model's definitions.

  \<^bold>\<open>Bounds and fuel.\<close> Loops that run until a batch is short (\<open>export_loop\<close>,
  \<open>reapStale\<close>, \<open>reapStaleJobs\<close>, \<open>walk_pages\<close>) take fuel, and the theorems
  about them show how much is enough; \<open>run_scheduler\<close> takes the number of turns after
  which the process is stopped. The limits of columns (\<open>varchar\<close>), int64 counters and the
  limits of pages are written out.

  \<^bold>\<open>Parameters.\<close> Cryptography (SHA-256, HMAC, Ed25519,
  Argon2, AES-GCM), the JWT and WebAuthn libraries, JSON codecs, URL
  and address parsing, RFC 3339, the rendering and sending of mail and the HTTP client are
  parameters; a property that needs a law of one of them states it. The retry random number is an
  exact rational; policies are fixed while a call runs; a Go map's iteration order is a
  parameter of the limiter's eviction.

  \<^bold>\<open>Not modelled.\<close> HTTP handlers, middleware, templates and the generated OpenAPI types are
  glue around the services; OAuth clients and WebAuthn rest on third-party libraries;
  configuration parsing, wiring, goroutine start and shutdown, metrics and logging have no
  logic the properties are about.
\<close>

end
